(* ===== verification/Prelude.thy ===== *)
theory Prelude
  imports Main "HOL-Library.List_Lexorder" "HOL-Library.Char_ord" "HOL-Library.Product_Lexorder"
    "HOL-Library.Word"
begin

text \<open>
  The vocabulary every component shares: Rust's \<open>Result\<close> as a sum with the error on the
  left, the \<open>?\<close> operator as \<open>and_then\<close>, \<open>collect::<Result<Vec<_>, _>>()\<close> as
  \<open>map_result\<close>, a \<open>for\<close> loop whose body may return early as \<open>check_all\<close>, and
  facts on \<open>find\<close> over lists whose elements carry a unique identifier.  A Rust string is
  modelled by its UTF-8 bytes, one \<open>char\<close> per byte; the order of \<open>List_Lexorder\<close> over
  \<open>Char_ord\<close> is then Rust's byte-wise \<open>Ord\<close> on \<open>str\<close>.
\<close>

named_theorems result_simps "inversion rules for results built with and_then and its kin"
named_theorems wf_defs "unfoldings of the declarative well-formedness predicates"

type_synonym byte = "8 word"
type_synonym u16 = "16 word"
type_synonym u64 = "64 word"

section \<open>Results\<close>

definition and_then :: "'e + 'a \<Rightarrow> ('a \<Rightarrow> 'e + 'b) \<Rightarrow> 'e + 'b" where
  "and_then r f = (case r of Inl e \<Rightarrow> Inl e | Inr x \<Rightarrow> f x)"

lemma and_then_simps [simp]:
  "and_then (Inl e) f = Inl e"
  "and_then (Inr x) f = f x"
  by (simp_all add: and_then_def)

lemma and_then_cong [fundef_cong]:
  "r = r' \<Longrightarrow> (\<And>x. r' = Inr x \<Longrightarrow> f x = g x) \<Longrightarrow> and_then r f = and_then r' g"
  by (cases r') auto

lemma and_then_Inr [result_simps]:
  "and_then r f = Inr y \<longleftrightarrow> (\<exists>x. r = Inr x \<and> f x = Inr y)"
  by (cases r) auto

lemma and_then_Inl [result_simps]:
  "and_then r f = Inl e \<longleftrightarrow> r = Inl e \<or> (\<exists>x. r = Inr x \<and> f x = Inl e)"
  by (cases r) auto

definition map_err :: "('e \<Rightarrow> 'f) \<Rightarrow> 'e + 'a \<Rightarrow> 'f + 'a" where
  "map_err g r = (case r of Inl e \<Rightarrow> Inl (g e) | Inr x \<Rightarrow> Inr x)"

lemma map_err_simps [simp]:
  "map_err g (Inl e) = Inl (g e)"
  "map_err g (Inr x) = Inr x"
  by (simp_all add: map_err_def)

lemma map_err_Inr [result_simps]: "map_err g r = Inr x \<longleftrightarrow> r = Inr x"
  by (cases r) auto

lemma map_err_Inl [result_simps]: "map_err g r = Inl f \<longleftrightarrow> (\<exists>e. r = Inl e \<and> f = g e)"
  by (cases r) auto

definition ok_or :: "'e \<Rightarrow> 'a option \<Rightarrow> 'e + 'a" where
  "ok_or e x = (case x of None \<Rightarrow> Inl e | Some y \<Rightarrow> Inr y)"

lemma ok_or_simps [simp]:
  "ok_or e None = Inl e"
  "ok_or e (Some x) = Inr x"
  by (simp_all add: ok_or_def)

lemma ok_or_Inr [result_simps]: "ok_or e x = Inr y \<longleftrightarrow> x = Some y"
  by (cases x) auto

lemma ok_or_Inl [result_simps]: "ok_or e x = Inl f \<longleftrightarrow> x = None \<and> e = f"
  by (cases x) auto

definition guard_err :: "bool \<Rightarrow> 'e \<Rightarrow> 'e + unit" where
  \<comment> \<open>\<open>if b { return Err(e) }\<close>\<close>
  "guard_err b e = (if b then Inl e else Inr ())"

lemma guard_err_simps [simp]:
  "guard_err True e = Inl e"
  "guard_err False e = Inr ()"
  by (simp_all add: guard_err_def)

lemma guard_err_Inr [result_simps]: "guard_err b e = Inr u \<longleftrightarrow> \<not> b"
  by (cases b) auto

lemma guard_err_Inl [result_simps]: "guard_err b e = Inl f \<longleftrightarrow> b \<and> e = f"
  by (cases b) auto

fun map_result :: "('a \<Rightarrow> 'e + 'b) \<Rightarrow> 'a list \<Rightarrow> 'e + 'b list" where
  "map_result f [] = Inr []"
| "map_result f (x # xs) =
     and_then (f x) (\<lambda>y. and_then (map_result f xs) (\<lambda>ys. Inr (y # ys)))"

lemma map_result_Inr:
  "map_result f xs = Inr ys \<longleftrightarrow> list_all2 (\<lambda>x y. f x = Inr y) xs ys"
  by (induction xs arbitrary: ys) (auto simp: result_simps list_all2_Cons1)

lemma map_result_map: "(\<And>x. x \<in> set xs \<Longrightarrow> f x = Inr (g x)) \<Longrightarrow> map_result f xs = Inr (map g xs)"
  by (induction xs) auto

lemma map_result_append:
  "map_result f (xs @ ys) =
     and_then (map_result f xs) (\<lambda>us. and_then (map_result f ys) (\<lambda>vs. Inr (us @ vs)))"
  by (induction xs) (auto simp: and_then_def split: sum.splits)

fun check_all :: "('a \<Rightarrow> 'e + unit) \<Rightarrow> 'a list \<Rightarrow> 'e + unit" where
  "check_all f [] = Inr ()"
| "check_all f (x # xs) = and_then (f x) (\<lambda>_. check_all f xs)"

lemma check_all_Inr [result_simps]:
  "check_all f xs = Inr u \<longleftrightarrow> (\<forall>x \<in> set xs. f x = Inr ())"
  by (induction xs) (auto simp: result_simps)

lemma check_all_Inl:
  "check_all f xs = Inl e \<Longrightarrow> \<exists>x \<in> set xs. f x = Inl e"
  by (induction xs) (auto simp: result_simps)

lemma result_unit_cases: "r = Inr () \<or> (\<exists>e. r = Inl e)"
  by (cases r) auto

section \<open>Lists searched by an identifier\<close>

lemma find_key_map_of: "find (\<lambda>x. k x = i) xs = map_of (map (\<lambda>x. (k x, x)) xs) i"
  by (induction xs) auto

lemma find_key_SomeD: "find (\<lambda>x. k x = i) xs = Some y \<Longrightarrow> y \<in> set xs \<and> k y = i"
  by (auto simp: find_Some_iff)

lemma find_key_distinct:
  "distinct (map k xs) \<Longrightarrow> x \<in> set xs \<Longrightarrow> find (\<lambda>y. k y = k x) xs = Some x"
  by (induction xs) (auto simp: image_iff)

lemma find_key_ex: "(\<exists>y. find (\<lambda>x. k x = i) xs = Some y) \<longleftrightarrow> i \<in> k ` set xs"
proof
  assume "\<exists>y. find (\<lambda>x. k x = i) xs = Some y"
  then show "i \<in> k ` set xs" by (auto dest: find_key_SomeD)
next
  assume "i \<in> k ` set xs"
  then have "find (\<lambda>x. k x = i) xs \<noteq> None" by (auto simp: find_None_iff)
  then show "\<exists>y. find (\<lambda>x. k x = i) xs = Some y" by auto
qed

lemma find_key_map:
  "(\<And>x. x \<in> set xs \<Longrightarrow> k' (f x) = k x) \<Longrightarrow>
     find (\<lambda>y. k' y = i) (map f xs) = map_option f (find (\<lambda>x. k x = i) xs)"
  by (induction xs) auto

section \<open>Decimal numerals\<close>

text \<open>\<open>format!("{n}")\<close> of an unsigned integer.\<close>

fun show_nat :: "nat \<Rightarrow> string" where
  "show_nat n =
     (if n < 10 then [char_of (48 + n)] else show_nat (n div 10) @ [char_of (48 + n mod 10)])"

declare show_nat.simps [simp del]

text \<open>\<open>join\<close> of a slice of strings.\<close>

fun join_with :: "string \<Rightarrow> string list \<Rightarrow> string" where
  "join_with sep [] = []"
| "join_with sep [x] = x"
| "join_with sep (x # y # ys) = x @ sep @ join_with sep (y # ys)"

end
