(* ===== verification/Ordered.thy ===== *)
theory Ordered
  imports Prelude
begin

text \<open>
  \<open>std::collections::BTreeMap\<close> and \<open>BTreeSet\<close>, as far as the program uses them: a map is
  its list of entries in key order, a set its list of elements in order.  The interface the
  validator, the trace checker and the compiler rely on is the locale \<open>ordered_map\<close>; its
  lemmas say what indexing a list by its identifiers yields.
\<close>

section \<open>The implementation: entries in strictly ascending key order\<close>

type_synonym ('k, 'v) btree_map = "('k \<times> 'v) list"
type_synonym 'k btree_set = "'k list"

definition bt_ok :: "('k::linorder, 'v) btree_map \<Rightarrow> bool" where
  "bt_ok m \<longleftrightarrow> sorted_wrt (<) (map fst m)"

abbreviation bt_get :: "('k, 'v) btree_map \<Rightarrow> 'k \<Rightarrow> 'v option" where
  "bt_get m k \<equiv> map_of m k"

abbreviation bt_keys :: "('k, 'v) btree_map \<Rightarrow> 'k list" where
  "bt_keys m \<equiv> map fst m"

abbreviation bt_values :: "('k, 'v) btree_map \<Rightarrow> 'v list" where
  "bt_values m \<equiv> map snd m"

definition bt_contains :: "('k, 'v) btree_map \<Rightarrow> 'k \<Rightarrow> bool" where
  "bt_contains m k \<longleftrightarrow> k \<in> set (bt_keys m)"

fun bt_insert :: "'k::linorder \<Rightarrow> 'v \<Rightarrow> ('k, 'v) btree_map \<Rightarrow> ('k, 'v) btree_map" where
  "bt_insert k v [] = [(k, v)]"
| "bt_insert k v ((a, b) # m) =
     (if k < a then (k, v) # (a, b) # m
      else if k = a then (k, v) # m
      else (a, b) # bt_insert k v m)"

lemma bt_contains_get: "bt_contains m k \<longleftrightarrow> bt_get m k \<noteq> None"
  by (simp add: bt_contains_def map_of_eq_None_iff)

lemma bt_insert_get: "bt_get (bt_insert k v m) = (bt_get m)(k \<mapsto> v)"
  by (induction m) auto

lemma bt_insert_keys: "set (bt_keys (bt_insert k v m)) = insert k (set (bt_keys m))"
proof (induction m)
  case (Cons ab m)
  then show ?case by (cases ab) auto
qed simp

lemma bt_insert_ok: "bt_ok m \<Longrightarrow> bt_ok (bt_insert k v m)"
proof (induction m)
  case Nil
  then show ?case by (simp add: bt_ok_def)
next
  case (Cons ab m)
  obtain a b where ab: "ab = (a, b)" by force
  have keys: "set (bt_keys (bt_insert k v m)) = insert k (set (bt_keys m))"
    by (rule bt_insert_keys)
  from Cons ab have IH: "sorted_wrt (<) (bt_keys (bt_insert k v m))"
    by (simp add: bt_ok_def)
  show ?case
  proof (cases "k < a \<or> k = a")
    case True
    with Cons.prems ab show ?thesis by (auto simp: bt_ok_def)
  next
    case False
    then have "a < k" by auto
    moreover have "\<forall>x \<in> set (bt_keys (bt_insert k v m)). a < x"
      using Cons.prems ab \<open>a < k\<close> unfolding keys by (auto simp: bt_ok_def)
    ultimately show ?thesis using False ab IH by (auto simp: bt_ok_def)
  qed
qed

lemma bt_ok_Nil [simp]: "bt_ok []"
  by (simp add: bt_ok_def)

lemma bt_ok_distinct: "bt_ok m \<Longrightarrow> distinct (bt_keys m)"
  by (simp add: bt_ok_def strict_sorted_iff)

lemma bt_get_in: "bt_get m k = Some v \<Longrightarrow> (k, v) \<in> set m"
  by (rule map_of_SomeD)

lemma bt_get_in_iff: "bt_ok m \<Longrightarrow> bt_get m k = Some v \<longleftrightarrow> (k, v) \<in> set m"
  by (simp add: bt_ok_distinct)

lemma bt_get_value: "bt_get m k = Some v \<Longrightarrow> v \<in> set (bt_values m)"
  using map_of_SomeD by force

fun bs_insert :: "'k::linorder \<Rightarrow> 'k btree_set \<Rightarrow> 'k btree_set" where
  "bs_insert k [] = [k]"
| "bs_insert k (a # s) =
     (if k < a then k # a # s else if k = a then a # s else a # bs_insert k s)"

lemma bs_insert_set [simp]: "set (bs_insert k s) = insert k (set s)"
  by (induction s) auto

lemma bs_insert_ok: "sorted_wrt (<) s \<Longrightarrow> sorted_wrt (<) (bs_insert k s)"
proof (induction s)
  case (Cons a s)
  then show ?case by (cases "k < a"; cases "k = a") auto
qed simp

text \<open>\<open>iter().collect::<BTreeSet<_>>()\<close>: two lists with the same elements give the same set.\<close>

definition bs_collect :: "'k::linorder list \<Rightarrow> 'k btree_set" where
  "bs_collect xs = fold bs_insert xs []"

lemma fold_bs_insert:
  "set (fold bs_insert xs s) = set xs \<union> set s"
  "sorted_wrt (<) s \<Longrightarrow> sorted_wrt (<) (fold bs_insert xs s)"
  by (induction xs arbitrary: s) (auto simp: bs_insert_ok)

lemma bs_collect_set [simp]: "set (bs_collect xs) = set xs"
  by (simp add: bs_collect_def fold_bs_insert)

lemma bs_collect_sorted: "sorted_wrt (<) (bs_collect xs)"
  by (simp add: bs_collect_def fold_bs_insert)

lemma bs_collect_distinct [simp]: "distinct (bs_collect xs)"
  using bs_collect_sorted [of xs] by (simp add: strict_sorted_iff)

lemma bs_collect_cong: "set xs = set ys \<Longrightarrow> bs_collect xs = bs_collect ys"
  by (rule strict_sorted_equal [OF bs_collect_sorted bs_collect_sorted]) simp

lemma bs_collect_length: "length (bs_collect xs) = card (set xs)"
  by (metis bs_collect_distinct bs_collect_set distinct_card)

lemma bs_collect_length_distinct: "length (bs_collect xs) = length xs \<longleftrightarrow> distinct xs"
  by (metis bs_collect_length card_distinct distinct_card)

section \<open>The interface\<close>

locale ordered_map =
  fixes empty :: "'m"
    and insert_entry :: "'k::linorder \<Rightarrow> 'v \<Rightarrow> 'm \<Rightarrow> 'm"
    and get :: "'m \<Rightarrow> 'k \<Rightarrow> 'v option"
    and keys :: "'m \<Rightarrow> 'k list"
    and inv :: "'m \<Rightarrow> bool"
  assumes inv_empty: "inv empty"
    and inv_insert: "inv m \<Longrightarrow> inv (insert_entry k v m)"
    and get_empty: "get empty k = None"
    and get_insert: "inv m \<Longrightarrow> get (insert_entry k v m) = (get m)(k \<mapsto> v)"
    and keys_get: "inv m \<Longrightarrow> set (keys m) = {k. get m k \<noteq> None}"
    and keys_sorted: "inv m \<Longrightarrow> sorted_wrt (<) (keys m)"
begin

lemma inv_fold: "inv m \<Longrightarrow> inv (fold (\<lambda>(k, v). insert_entry k v) kvs m)"
  by (induction kvs arbitrary: m) (auto simp: inv_insert)

lemma get_fold:
  "inv m \<Longrightarrow>
     get (fold (\<lambda>(k, v). insert_entry k v) kvs m) i =
       (case map_of (rev kvs) i of None \<Rightarrow> get m i | Some v \<Rightarrow> Some v)"
  by (induction kvs arbitrary: m)
     (auto simp: inv_insert get_insert map_add_def split: option.splits)

text \<open>Indexing by a unique identifier finds exactly the element that carries it.\<close>

lemma get_index:
  assumes "distinct (map fst kvs)"
  shows "get (fold (\<lambda>(k, v). insert_entry k v) kvs empty) i = map_of kvs i"
proof -
  have "map_of (rev kvs) = map_of kvs"
    using assms by (intro map_of_eqI) (auto simp: rev_map [symmetric])
  then show ?thesis
    by (simp add: get_fold inv_empty get_empty split: option.splits)
qed

lemma keys_index:
  "set (keys (fold (\<lambda>(k, v). insert_entry k v) kvs empty)) = set (map fst kvs)"
proof -
  have "get (fold (\<lambda>(k, v). insert_entry k v) kvs empty) i \<noteq> None \<longleftrightarrow> i \<in> fst ` set kvs" for i
    using map_of_eq_None_iff [of "rev kvs" i]
    by (cases "map_of (rev kvs) i") (auto simp: get_fold inv_empty get_empty)
  then show ?thesis by (auto simp: keys_get inv_fold inv_empty)
qed

end

interpretation bt: ordered_map "[]" bt_insert map_of "map fst" bt_ok
proof unfold_locales
  show "bt_ok m \<Longrightarrow> set (map fst m) = {k. map_of m k \<noteq> None}" for m :: "('a::linorder \<times> 'b) list"
    by (auto simp: map_of_eq_None_iff)
qed (auto simp: bt_insert_ok bt_insert_get, simp add: bt_ok_def)

end
