(* ===== verification/Conversation.thy ===== *)
theory Conversation
  imports Ordered
begin

text \<open>
  The data model of \<open>src/src/lib.rs\<close>: the global conversation graph, its states, the frames
  that travel on the wire, and the diagnostics of the checker.  The type variable \<open>'v\<close> stands
  for \<open>serde_json::Value\<close>, which the components of this theory store and copy but never open.
\<close>

section \<open>The conversation graph\<close>

definition CONVERSATION_FORMAT :: string where
  "CONVERSATION_FORMAT = ''0.1.0''"

definition ENDPOINT_FORMAT :: string where
  "ENDPOINT_FORMAT = ''0.1.0''"

record module_info =
  module_id :: string
  semantic_version :: "string option"

record role =
  role_id :: string
  placement :: "string list"
  capabilities :: "string list"

record 'v type_definition =
  type_id :: string
  type_fields :: "(string, 'v) btree_map"

record failure_definition =
  failure_id :: string
  description :: "string option"
  retryable :: bool

type_synonym edges = "(string, string) btree_map"

datatype global_state =
    GSend (gid: string) (gfrom: string) (gto: string) (gmessage: string) (gnext: string)
      (gdeadline: "string option") (gon_failure: edges)
  | GChoice (gid: string) (gchooser: string) (gbranches: edges) (gon_failure: edges)
  | GCancel (gid: string) (gfrom: string) (gto: string) (gscope: string) (gnext: string)
      (gon_failure: edges)
  | GEnd (gid: string)
  | GFail (gid: string) (gfailure: string)

record 'v conversation =
  conv_schema :: "string option"
  conv_format :: string
  conv_module :: module_info
  conv_roles :: "role list"
  conv_types :: "'v type_definition list"
  conv_failures :: "failure_definition list"
  conv_initial :: string
  conv_states :: "global_state list"
  conv_annotations :: "(string, 'v) btree_map"

text \<open>
  The representation invariant of the two kinds of ordered maps a state holds.  Every value
  \<open>serde\<close> can produce satisfies it, since it builds \<open>BTreeMap\<close>s.
\<close>

fun state_maps_ok :: "global_state \<Rightarrow> bool" where
  "state_maps_ok (GSend _ _ _ _ _ _ f) = bt_ok f"
| "state_maps_ok (GChoice _ _ b f) = (bt_ok b \<and> bt_ok f)"
| "state_maps_ok (GCancel _ _ _ _ _ f) = bt_ok f"
| "state_maps_ok (GEnd _) = True"
| "state_maps_ok (GFail _ _) = True"

definition maps_ok :: "'v conversation \<Rightarrow> bool" where
  "maps_ok c \<longleftrightarrow> list_all state_maps_ok (conv_states c)"

section \<open>Operations of a state\<close>

fun successors :: "global_state \<Rightarrow> string list" where
  "successors (GSend _ _ _ _ next _ on_failure) = next # bt_values on_failure"
| "successors (GCancel _ _ _ _ next on_failure) = next # bt_values on_failure"
| "successors (GChoice _ _ branches on_failure) = bt_values branches @ bt_values on_failure"
| "successors (GEnd _) = []"
| "successors (GFail _ _) = []"

fun failure_target :: "global_state \<Rightarrow> string \<Rightarrow> string option" where
  "failure_target (GSend _ _ _ _ _ _ on_failure) failure = bt_get on_failure failure"
| "failure_target (GChoice _ _ _ on_failure) failure = bt_get on_failure failure"
| "failure_target (GCancel _ _ _ _ _ on_failure) failure = bt_get on_failure failure"
| "failure_target (GEnd _) failure = None"
| "failure_target (GFail _ _) failure = None"

fun expected_frame :: "global_state \<Rightarrow> string" where
  "expected_frame (GSend _ from to message _ _ _) =
     ''data '' @ from @ '' -> '' @ to @ '': '' @ message"
| "expected_frame (GChoice _ chooser branches _) =
     ''select by '' @ chooser @ '': '' @ join_with '' | '' (bt_keys branches)"
| "expected_frame (GCancel _ from to scope _ _) =
     ''cancel '' @ from @ '' -> '' @ to @ '': '' @ scope"
| "expected_frame (GEnd _) = ''end of conversation''"
| "expected_frame (GFail _ failure) = ''terminal failure '' @ failure"

fun is_terminal :: "global_state \<Rightarrow> bool" where
  \<comment> \<open>\<open>matches!(state, GlobalState::End { .. } | GlobalState::Fail { .. })\<close>\<close>
  "is_terminal (GEnd _) = True"
| "is_terminal (GFail _ _) = True"
| "is_terminal _ = False"

lemma failure_target_successor: "failure_target s f = Some t \<Longrightarrow> t \<in> set (successors s)"
  by (cases s) (auto dest: bt_get_value)

lemma terminal_no_successors: "is_terminal s \<Longrightarrow> successors s = []"
  by (cases s) auto

lemma terminal_no_failure: "is_terminal s \<Longrightarrow> failure_target s f = None"
  by (cases s) auto

section \<open>Frames\<close>

datatype 'v frame =
    FData (ffrom: string) (fto: string) (fmessage: string) (fpayload: "'v option")
  | FSelect (fby: string) (flabel: string)
  | FCancel (ffrom: string) (fto: string) (fscope: string)
  | FFault (fobserver: string) (ffailure: string)

fun describe_frame :: "'v frame \<Rightarrow> string" where
  "describe_frame (FData from to message _) =
     ''data '' @ from @ '' -> '' @ to @ '': '' @ message"
| "describe_frame (FSelect by label) = ''select by '' @ by @ '': '' @ label"
| "describe_frame (FCancel from to scope) =
     ''cancel '' @ from @ '' -> '' @ to @ '': '' @ scope"
| "describe_frame (FFault observer failure) =
     ''fault observed by '' @ observer @ '': '' @ failure"

section \<open>Diagnostics\<close>

record diagnostic =
  diag_code :: string
  diag_path :: string
  diag_message :: string

type_synonym validation_errors = "diagnostic list"

definition diag :: "string \<Rightarrow> string \<Rightarrow> string \<Rightarrow> diagnostic" where
  "diag code path message = \<lparr>diag_code = code, diag_path = path, diag_message = message\<rparr>"

text \<open>\<open>impl fmt::Display for ValidationErrors\<close>: one line per diagnostic.\<close>

definition display_diagnostic :: "diagnostic \<Rightarrow> string" where
  "display_diagnostic d = diag_code d @ '' at '' @ diag_path d @ '': '' @ diag_message d"

definition display_errors :: "validation_errors \<Rightarrow> string" where
  "display_errors ds = join_with ''\<newline>'' (map display_diagnostic ds)"

end
