(* ===== verification/Validation.thy ===== *)
theory Validation
  imports Conversation
begin

text \<open>
  \<open>validate\<close> of \<open>src/src/lib.rs\<close> with its helpers, in the order of the code.  The
  \<open>&mut Vec<Diagnostic>\<close> every helper pushes to is the list it returns, and the lists are
  appended in the order of the pushes.  The declarative counterpart is \<open>well_formed\<close>; the
  breadth-first search of \<open>validate_reachability\<close> is related to the reflexive transitive
  closure of the edge relation of the graph.
\<close>

section \<open>The checker\<close>

definition at_index :: "string \<Rightarrow> nat \<Rightarrow> string \<Rightarrow> string" where
  \<comment> \<open>\<open>format!("{path}[{index}]{suffix}")\<close>\<close>
  "at_index path i suffix = path @ ''['' @ show_nat i @ '']'' @ suffix"

fun unique_ids :: "nat \<Rightarrow> string \<Rightarrow> string \<Rightarrow> string btree_set \<Rightarrow> string list
    \<Rightarrow> string btree_set \<times> diagnostic list" where
  "unique_ids i path kind seen [] = (seen, [])"
| "unique_ids i path kind seen (x # xs) =
     (if x = [] then
        let (s, ds) = unique_ids (Suc i) path kind seen xs
        in (s, diag ''CLQ0011'' (at_index path i ''.id'') (kind @ '' id cannot be empty'') # ds)
      else if x \<in> set seen then
        let (s, ds) = unique_ids (Suc i) path kind seen xs
        in (s, diag ''CLQ0012'' (at_index path i ''.id'') (''duplicate '' @ kind @ '' id '' @ x) # ds)
      else unique_ids (Suc i) path kind (bs_insert x seen) xs)"

type_synonym state_index = "(string, global_state) btree_map"

fun index_states :: "nat \<Rightarrow> state_index \<Rightarrow> global_state list \<Rightarrow> state_index \<times> diagnostic list" where
  "index_states i m [] = (m, [])"
| "index_states i m (s # ss) =
     (let (m', ds) = index_states (Suc i) (bt_insert (gid s) s m) ss
      in (m', (if bt_contains m (gid s)
               then [diag ''CLQ0004'' (at_index ''$.states'' i ''.id'')
                       (''duplicate state id '' @ gid s)]
               else []) @ ds))"

definition validate_roles :: "nat \<Rightarrow> string \<Rightarrow> string \<Rightarrow> string btree_set \<Rightarrow> diagnostic list" where
  "validate_roles i from to roles =
     (if from \<notin> set roles
      then [diag ''CLQ0013'' (at_index ''$.states'' i ''.from'') (''unknown sender role '' @ from)]
      else []) @
     (if to \<notin> set roles
      then [diag ''CLQ0014'' (at_index ''$.states'' i ''.to'') (''unknown receiver role '' @ to)]
      else []) @
     (if from = to
      then [diag ''CLQ0015'' (at_index ''$.states'' i '''')
              ''sender and receiver must be different roles'']
      else [])"

definition validate_target :: "nat \<Rightarrow> string \<Rightarrow> string \<Rightarrow> state_index \<Rightarrow> diagnostic list" where
  "validate_target i edge target states =
     (if \<not> bt_contains states target
      then [diag ''CLQ0016'' (at_index ''$.states'' i (''.'' @ edge))
              (''target state '' @ target @ '' does not exist'')]
      else [])"

definition validate_failure_edge :: "nat \<Rightarrow> string btree_set \<Rightarrow> state_index
    \<Rightarrow> string \<times> string \<Rightarrow> diagnostic list" where
  "validate_failure_edge i failures states edge =
     (case edge of (failure, target) \<Rightarrow>
       (if failure \<notin> set failures
        then [diag ''CLQ0019'' (at_index ''$.states'' i (''.on_failure.'' @ failure))
                (''unknown failure type '' @ failure)]
        else []) @
       validate_target i (''on_failure.'' @ failure) target states @
       (case bt_get states target of
          None \<Rightarrow> []
        | Some target_state \<Rightarrow>
            (case target_state of
               GFail _ terminal_failure \<Rightarrow>
                 (if terminal_failure = failure then []
                  else [diag ''CLQ0020'' (at_index ''$.states'' i (''.on_failure.'' @ failure))
                          (''failure edge must target a terminal fail state for '' @ failure)])
             | _ \<Rightarrow> [diag ''CLQ0020'' (at_index ''$.states'' i (''.on_failure.'' @ failure))
                      (''failure edge must target a terminal fail state for '' @ failure)])))"

definition validate_failure_edges :: "nat \<Rightarrow> edges \<Rightarrow> string btree_set \<Rightarrow> state_index
    \<Rightarrow> diagnostic list" where
  "validate_failure_edges i on_failure failures states =
     concat (map (validate_failure_edge i failures states) on_failure)"

definition validate_branch :: "nat \<Rightarrow> state_index \<Rightarrow> string \<times> string \<Rightarrow> diagnostic list" where
  "validate_branch i states branch =
     (case branch of (label, target) \<Rightarrow>
       (if label = []
        then [diag ''CLQ0009'' (at_index ''$.states'' i ''.branches'')
                ''branch labels cannot be empty'']
        else []) @
       validate_target i label target states)"

fun validate_state :: "string btree_set \<Rightarrow> string btree_set \<Rightarrow> string btree_set \<Rightarrow> state_index
    \<Rightarrow> nat \<Rightarrow> global_state \<Rightarrow> diagnostic list" where
  "validate_state role_ids type_ids failure_ids states i
       (GSend _ from to message next _ on_failure) =
     validate_roles i from to role_ids @
     (if message \<notin> set type_ids
      then [diag ''CLQ0006'' (at_index ''$.states'' i ''.message'')
              (''unknown message type '' @ message)]
      else []) @
     validate_target i ''next'' next states @
     validate_failure_edges i on_failure failure_ids states"
| "validate_state role_ids type_ids failure_ids states i (GChoice _ chooser branches on_failure) =
     (if chooser \<notin> set role_ids
      then [diag ''CLQ0007'' (at_index ''$.states'' i ''.chooser'')
              (''unknown chooser role '' @ chooser)]
      else []) @
     (if length branches < 2
      then [diag ''CLQ0008'' (at_index ''$.states'' i ''.branches'')
              ''a choice requires at least two branches'']
      else []) @
     concat (map (validate_branch i states) branches) @
     validate_failure_edges i on_failure failure_ids states"
| "validate_state role_ids type_ids failure_ids states i
       (GCancel _ from to scope next on_failure) =
     validate_roles i from to role_ids @
     (if scope = []
      then [diag ''CLQ0010'' (at_index ''$.states'' i ''.scope'')
              ''cancellation scope cannot be empty'']
      else []) @
     validate_target i ''next'' next states @
     validate_failure_edges i on_failure failure_ids states"
| "validate_state role_ids type_ids failure_ids states i (GFail _ failure) =
     (if failure \<notin> set failure_ids
      then [diag ''CLQ0019'' (at_index ''$.states'' i ''.failure'')
              (''unknown failure type '' @ failure)]
      else [])"
| "validate_state role_ids type_ids failure_ids states i (GEnd _) = []"

text \<open>
  The worklist loop of \<open>validate_reachability\<close>: the queue, the set of visited identifiers
  and the flag \<open>reaches_terminal\<close>.  Each round either visits one more declared state, or
  leaves the number of unvisited declared states alone and shortens the queue.
\<close>

function reach_loop :: "state_index \<Rightarrow> string list \<Rightarrow> string btree_set \<Rightarrow> bool
    \<Rightarrow> string btree_set \<times> bool" where
  "reach_loop states [] reachable terminal = (reachable, terminal)"
| "reach_loop states (i # queue) reachable terminal =
     (if i \<in> set reachable then reach_loop states queue reachable terminal
      else case bt_get states i of
          None \<Rightarrow> reach_loop states queue (bs_insert i reachable) terminal
        | Some s \<Rightarrow> reach_loop states (queue @ successors s) (bs_insert i reachable)
                     (terminal \<or> is_terminal s))"
  by pat_completeness auto
termination
proof (relation "measures [\<lambda>(m, q, r, t). card (set (bt_keys m) - set r), \<lambda>(m, q, r, t). length q]",
    goal_cases)
  case (3 states i queue reachable terminal)
  then have "i \<notin> set (bt_keys states)" by (simp add: map_of_eq_None_iff)
  then show ?case by (simp add: Diff_insert0)
next
  case (4 states i queue reachable terminal s)
  then have "i \<in> set (bt_keys states) - set reachable"
    by (metis DiffI bt_contains_def bt_contains_get option.simps(3))
  then have "set (bt_keys states) - insert i (set reachable) \<subset> set (bt_keys states) - set reachable"
    by blast
  then have "card (set (bt_keys states) - insert i (set reachable))
      < card (set (bt_keys states) - set reachable)"
    by (intro psubset_card_mono) simp_all
  then show ?case by simp
qed auto

definition validate_reachability :: "'v conversation \<Rightarrow> state_index \<Rightarrow> diagnostic list" where
  "validate_reachability c states =
     (case reach_loop states [conv_initial c] [] False of (reachable, reaches_terminal) \<Rightarrow>
       map (\<lambda>s. diag ''CLQ0017'' (''$.states[id='' @ gid s @ '']'')
                   ''state is unreachable from the initial state'')
         (filter (\<lambda>s. gid s \<notin> set reachable) (conv_states c)) @
       (if reaches_terminal then []
        else [diag ''CLQ0018'' ''$.states''
                ''no successful or failed terminal state is reachable from the initial state'']))"

definition validate_types :: "'v type_definition list \<Rightarrow> diagnostic list" where
  "validate_types types =
     concat (map (\<lambda>(i, t).
       if bt_contains (type_fields t) ''kind'' then []
       else [diag ''CLQ0003'' (at_index ''$.types'' i '''')
               (''type '' @ type_id t @ '' is missing its kind'')])
     (enumerate 0 types))"

definition validate :: "'v conversation \<Rightarrow> validation_errors + unit" where
  "validate c =
     (let d_format = (if conv_format c \<noteq> CONVERSATION_FORMAT
            then [diag ''CLQ0001'' ''$.colloq_conversation''
                    (''unsupported format '' @ conv_format c @ ''; expected '' @ CONVERSATION_FORMAT)]
            else []);
          (role_ids, d_roles) = unique_ids 0 ''$.roles'' ''role'' [] (map role_id (conv_roles c));
          d_two = (if length (conv_roles c) \<noteq> 2
            then [diag ''CLQ0002'' ''$.roles''
                    ''Colloq Conversation v0 endpoint projection requires exactly two roles'']
            else []);
          (type_ids, d_types) = unique_ids 0 ''$.types'' ''type'' [] (map type_id (conv_types c));
          d_kinds = validate_types (conv_types c);
          (failure_ids, d_failures) =
            unique_ids 0 ''$.failures'' ''failure'' [] (map failure_id (conv_failures c));
          (states, d_states) = index_states 0 [] (conv_states c);
          d_initial = (if \<not> bt_contains states (conv_initial c)
            then [diag ''CLQ0005'' ''$.initial''
                    (''initial state '' @ conv_initial c @ '' does not exist'')]
            else []);
          d_each = concat (map (\<lambda>(i, s). validate_state role_ids type_ids failure_ids states i s)
            (enumerate 0 (conv_states c)));
          ds = d_format @ d_roles @ d_two @ d_types @ d_kinds @ d_failures @ d_states @ d_initial
            @ d_each;
          ds' = (if ds = [] then validate_reachability c states else ds)
      in if ds' = [] then Inr () else Inl ds')"

end
