(* ===== verification/Well_Formed.thy ===== *)
theory Well_Formed
  imports Validation
begin

text \<open>
  What a valid conversation is, stated without the algorithm: identifiers are present and
  unique, every reference resolves, failure edges end in the matching terminal state, and
  every state is reachable from the initial one in the sense of a reflexive transitive
  closure.  The lemmas relate each helper of the checker to its part of that statement.
\<close>

section \<open>The declarative specification\<close>

definition conv_edge :: "'v conversation \<Rightarrow> string \<Rightarrow> string \<Rightarrow> bool" where
  "conv_edge c i j \<longleftrightarrow> (\<exists>s \<in> set (conv_states c). gid s = i \<and> j \<in> set (successors s))"

definition reachable_id :: "'v conversation \<Rightarrow> string \<Rightarrow> bool" where
  "reachable_id c i \<longleftrightarrow> (conv_edge c)\<^sup>*\<^sup>* (conv_initial c) i"

definition state_ids :: "'v conversation \<Rightarrow> string set" where
  "state_ids c = gid ` set (conv_states c)"

definition role_ids :: "'v conversation \<Rightarrow> string set" where
  "role_ids c = role_id ` set (conv_roles c)"

definition type_ids :: "'v conversation \<Rightarrow> string set" where
  "type_ids c = type_id ` set (conv_types c)"

definition failure_ids :: "'v conversation \<Rightarrow> string set" where
  "failure_ids c = failure_id ` set (conv_failures c)"

definition ids_unique :: "string list \<Rightarrow> bool" where
  "ids_unique ids \<longleftrightarrow> distinct ids \<and> [] \<notin> set ids"

definition wf_failures :: "'v conversation \<Rightarrow> edges \<Rightarrow> bool" where
  \<comment> \<open>every failure edge names a declared failure and ends in a \<open>fail\<close> state for it\<close>
  "wf_failures c on_failure \<longleftrightarrow>
     (\<forall>(f, t) \<in> set on_failure. f \<in> failure_ids c \<and> GFail t f \<in> set (conv_states c))"

fun wf_state :: "'v conversation \<Rightarrow> global_state \<Rightarrow> bool" where
  "wf_state c (GSend _ from to message next _ on_failure) \<longleftrightarrow>
     from \<in> role_ids c \<and> to \<in> role_ids c \<and> from \<noteq> to \<and> message \<in> type_ids c \<and>
     next \<in> state_ids c \<and> wf_failures c on_failure"
| "wf_state c (GChoice _ chooser branches on_failure) \<longleftrightarrow>
     chooser \<in> role_ids c \<and> 2 \<le> length branches \<and>
     (\<forall>(l, t) \<in> set branches. l \<noteq> [] \<and> t \<in> state_ids c) \<and> wf_failures c on_failure"
| "wf_state c (GCancel _ from to scope next on_failure) \<longleftrightarrow>
     from \<in> role_ids c \<and> to \<in> role_ids c \<and> from \<noteq> to \<and> scope \<noteq> [] \<and>
     next \<in> state_ids c \<and> wf_failures c on_failure"
| "wf_state c (GFail _ failure) \<longleftrightarrow> failure \<in> failure_ids c"
| "wf_state c (GEnd _) \<longleftrightarrow> True"

definition well_formed :: "'v conversation \<Rightarrow> bool" where
  "well_formed c \<longleftrightarrow>
     conv_format c = CONVERSATION_FORMAT \<and>
     length (conv_roles c) = 2 \<and> ids_unique (map role_id (conv_roles c)) \<and>
     ids_unique (map type_id (conv_types c)) \<and>
     (\<forall>t \<in> set (conv_types c). bt_contains (type_fields t) ''kind'') \<and>
     ids_unique (map failure_id (conv_failures c)) \<and>
     distinct (map gid (conv_states c)) \<and>
     conv_initial c \<in> state_ids c \<and>
     (\<forall>s \<in> set (conv_states c). wf_state c s \<and> reachable_id c (gid s)) \<and>
     (\<exists>s \<in> set (conv_states c). is_terminal s)"

section \<open>The helpers against their parts of the specification\<close>

lemma unique_ids_result:
  "set (fst (unique_ids i path kind seen xs)) = set seen \<union> {x \<in> set xs. x \<noteq> []}"
  by (induction i path kind seen xs rule: unique_ids.induct)
     (simp_all add: Let_def case_prod_beta, auto)

lemma unique_ids_clean:
  "snd (unique_ids i path kind seen xs) = [] \<longleftrightarrow> ids_unique xs \<and> set xs \<inter> set seen = {}"
  by (induction i path kind seen xs rule: unique_ids.induct)
     (simp_all add: ids_unique_def Let_def case_prod_beta, auto)

lemma index_states_fst:
  "fst (index_states i m ss) = fold (\<lambda>(k, v). bt_insert k v) (map (\<lambda>s. (gid s, s)) ss) m"
  by (induction i m ss rule: index_states.induct) (simp_all add: Let_def case_prod_beta)

lemma index_states_clean:
  "snd (index_states i m ss) = [] \<longleftrightarrow> distinct (map gid ss) \<and> gid ` set ss \<inter> set (bt_keys m) = {}"
proof (induction i m ss rule: index_states.induct)
  case (2 i m s ss)
  have "set (bt_keys (bt_insert (gid s) s m)) = insert (gid s) (set (bt_keys m))"
    by (rule bt_insert_keys)
  with 2 show ?case by (auto simp: Let_def case_prod_beta bt_contains_def)
qed simp

definition state_table :: "'v conversation \<Rightarrow> state_index" where
  "state_table c = fst (index_states 0 [] (conv_states c))"

lemma state_table_keys: "set (bt_keys (state_table c)) = state_ids c"
  using bt.keys_index [of "map (\<lambda>s. (gid s, s)) (conv_states c)"]
  by (simp add: state_table_def index_states_fst state_ids_def image_image)

lemma state_table_contains: "bt_contains (state_table c) i \<longleftrightarrow> i \<in> state_ids c"
  by (simp only: bt_contains_def state_table_keys)

lemma state_table_get:
  assumes "distinct (map gid (conv_states c))"
  shows "bt_get (state_table c) i = find (\<lambda>s. gid s = i) (conv_states c)"
  using assms bt.get_index [of "map (\<lambda>s. (gid s, s)) (conv_states c)" i]
  by (simp add: state_table_def index_states_fst find_key_map_of comp_def)

lemma state_table_get_Some:
  assumes "distinct (map gid (conv_states c))"
  shows "bt_get (state_table c) i = Some s \<longleftrightarrow> s \<in> set (conv_states c) \<and> gid s = i"
  using assms by (auto simp: state_table_get dest: find_key_SomeD find_key_distinct)

lemma validate_roles_clean [simp]:
  "validate_roles i from to roles = [] \<longleftrightarrow> from \<in> set roles \<and> to \<in> set roles \<and> from \<noteq> to"
  by (simp add: validate_roles_def)

lemma validate_target_clean [simp]:
  "validate_target i edge target (state_table c) = [] \<longleftrightarrow> target \<in> state_ids c"
  by (simp add: validate_target_def state_table_contains)

lemma validate_failure_edge_clean:
  assumes "distinct (map gid (conv_states c))"
  shows "validate_failure_edge i failures (state_table c) (f, t) = [] \<longleftrightarrow>
    f \<in> set failures \<and> GFail t f \<in> set (conv_states c)"
proof (cases "bt_get (state_table c) t")
  case None
  then have "t \<notin> state_ids c"
    by (metis bt_contains_get state_table_contains)
  then show ?thesis
    by (auto simp: validate_failure_edge_def state_ids_def image_iff)
next
  case (Some s)
  then have s: "s \<in> set (conv_states c)" "gid s = t" and "t \<in> state_ids c"
    using state_table_get_Some [OF assms] by (auto simp: state_ids_def)
  have "GFail t f \<in> set (conv_states c) \<longleftrightarrow> s = GFail t f"
    using s state_table_get_Some [OF assms, of t "GFail t f"] Some by auto
  with Some s \<open>t \<in> state_ids c\<close> show ?thesis
    by (cases s) (auto simp: validate_failure_edge_def)
qed

lemma validate_failure_edges_clean:
  assumes "distinct (map gid (conv_states c))" and "set failures = failure_ids c"
  shows "validate_failure_edges i on_failure failures (state_table c) = [] \<longleftrightarrow> wf_failures c on_failure"
  by (auto simp: validate_failure_edges_def wf_failures_def validate_failure_edge_clean [OF assms(1)]
      assms(2))

lemma validate_branch_clean [simp]:
  "validate_branch i (state_table c) (l, t) = [] \<longleftrightarrow> l \<noteq> [] \<and> t \<in> state_ids c"
  by (simp add: validate_branch_def)

lemma validate_state_clean:
  assumes "distinct (map gid (conv_states c))" and "set fs = failure_ids c"
    and "set rs = role_ids c" and "set ts = type_ids c"
  shows "validate_state rs ts fs (state_table c) i s = [] \<longleftrightarrow> wf_state c s"
  using assms
  by (cases s) (auto simp: validate_failure_edges_clean not_less)

lemma validate_types_clean:
  "validate_types ts = [] \<longleftrightarrow> (\<forall>t \<in> set ts. bt_contains (type_fields t) ''kind'')"
proof -
  have "validate_types ts = [] \<longleftrightarrow>
      (\<forall>x \<in> snd ` set (enumerate 0 ts). bt_contains (type_fields x) ''kind'')"
    by (auto simp: validate_types_def split: if_splits)
  also have "snd ` set (enumerate 0 ts) = set ts"
    by (metis map_snd_enumerate set_map)
  finally show ?thesis .
qed

section \<open>The breadth-first search\<close>

definition table_edge :: "state_index \<Rightarrow> string \<Rightarrow> string \<Rightarrow> bool" where
  "table_edge m i j \<longleftrightarrow> (\<exists>s. bt_get m i = Some s \<and> j \<in> set (successors s))"

text \<open>
  The loop invariant: the successors of a visited identifier are visited or queued.  From it
  the result is closed under edges; that it holds nothing else is the second lemma.
\<close>

definition visited_closed :: "state_index \<Rightarrow> string list \<Rightarrow> string btree_set \<Rightarrow> bool" where
  "visited_closed m q r \<longleftrightarrow> (\<forall>i j. i \<in> set r \<longrightarrow> table_edge m i j \<longrightarrow> j \<in> set r \<union> set q)"

lemma reach_loop_superset:
  "set q \<union> set r \<subseteq> set (fst (reach_loop m q r t))"
  by (induction m q r t rule: reach_loop.induct) (auto split: option.splits)

lemma reach_loop_closed:
  "visited_closed m q r \<Longrightarrow> visited_closed m [] (fst (reach_loop m q r t))"
proof (induction m q r t rule: reach_loop.induct)
  case (2 m i q r t)
  show ?case
  proof (cases "i \<in> set r")
    case True
    with 2 show ?thesis by (auto simp: visited_closed_def)
  next
    case False
    show ?thesis
    proof (cases "bt_get m i")
      case None
      with False 2 show ?thesis by (auto simp: visited_closed_def table_edge_def)
    next
      case (Some s)
      with False 2(3) 2(4) show ?thesis by (auto simp: visited_closed_def table_edge_def)
    qed
  qed
qed simp

lemma reach_loop_sound:
  "j \<in> set (fst (reach_loop m q r t)) \<Longrightarrow> j \<in> set r \<or> (\<exists>i \<in> set q. (table_edge m)\<^sup>*\<^sup>* i j)"
proof (induction m q r t rule: reach_loop.induct)
  case (2 m i q r t)
  show ?case
  proof (cases "i \<in> set r")
    case True
    with 2 show ?thesis by auto
  next
    case False
    show ?thesis
    proof (cases "bt_get m i")
      case None
      with False 2 show ?thesis by auto
    next
      case (Some s)
      have "table_edge m i k" if "k \<in> set (successors s)" for k
        using that Some by (auto simp: table_edge_def)
      with False Some 2(3) [OF False Some] 2(4) show ?thesis
        by (auto intro: converse_rtranclp_into_rtranclp)
    qed
  qed
qed simp

lemma reach_loop_flag:
  "snd (reach_loop m q r t) \<longleftrightarrow>
     t \<or> (\<exists>i \<in> set (fst (reach_loop m q r t)) - set r. \<exists>s. bt_get m i = Some s \<and> is_terminal s)"
proof (induction m q r t rule: reach_loop.induct)
  case (2 m i q r t)
  show ?case
  proof (cases "i \<in> set r")
    case True
    with 2 show ?thesis by auto
  next
    case False
    show ?thesis
    proof (cases "bt_get m i")
      case None
      with False 2(2) [OF False None] show ?thesis by auto
    next
      case (Some s)
      have "i \<in> set (fst (reach_loop m (q @ successors s) (bs_insert i r) (t \<or> is_terminal s)))"
        using reach_loop_superset [of "q @ successors s" "bs_insert i r"] by auto
      with False Some 2(3) [OF False Some] show ?thesis by auto
    qed
  qed
qed simp

declare reach_loop.simps(2) [simp del]

lemma reach_loop_exact:
  "set (fst (reach_loop m [i] [] False)) = {j. (table_edge m)\<^sup>*\<^sup>* i j}"
proof (intro equalityI subsetI)
  fix j assume "j \<in> set (fst (reach_loop m [i] [] False))"
  then show "j \<in> {j. (table_edge m)\<^sup>*\<^sup>* i j}" by (auto dest: reach_loop_sound)
next
  fix j assume "j \<in> {j. (table_edge m)\<^sup>*\<^sup>* i j}"
  then have "(table_edge m)\<^sup>*\<^sup>* i j" by simp
  then show "j \<in> set (fst (reach_loop m [i] [] False))"
  proof (induction rule: rtranclp_induct)
    case base
    show ?case using reach_loop_superset [of "[i]" "[]"] by auto
  next
    case (step y z)
    have "visited_closed m [] (fst (reach_loop m [i] [] False))"
      by (rule reach_loop_closed) (simp add: visited_closed_def)
    with step show ?case by (auto simp: visited_closed_def)
  qed
qed

lemma table_edge_conv_edge:
  "distinct (map gid (conv_states c)) \<Longrightarrow> table_edge (state_table c) = conv_edge c"
  by (auto simp: fun_eq_iff table_edge_def conv_edge_def state_table_get_Some)

lemma reach_loop_result:
  fixes c :: "'v conversation"
  assumes "distinct (map gid (conv_states c))"
  shows "i \<in> set (fst (reach_loop (state_table c) [conv_initial c] [] False)) \<longleftrightarrow> reachable_id c i"
    and "snd (reach_loop (state_table c) [conv_initial c] [] False) \<longleftrightarrow>
      (\<exists>s \<in> set (conv_states c). reachable_id c (gid s) \<and> is_terminal s)"
proof -
  show reach: "i \<in> set (fst (reach_loop (state_table c) [conv_initial c] [] False)) \<longleftrightarrow>
      reachable_id c i" for i
    by (simp add: reach_loop_exact table_edge_conv_edge [OF assms] reachable_id_def)
  show "snd (reach_loop (state_table c) [conv_initial c] [] False) \<longleftrightarrow>
      (\<exists>s \<in> set (conv_states c). reachable_id c (gid s) \<and> is_terminal s)"
    using reach_loop_flag [of "state_table c" "[conv_initial c]" "[]" False] reach
    by (auto simp: state_table_get_Some [OF assms])
qed

lemma validate_reachability_clean:
  assumes "distinct (map gid (conv_states c))"
  shows "validate_reachability c (state_table c) = [] \<longleftrightarrow>
    (\<forall>s \<in> set (conv_states c). reachable_id c (gid s)) \<and> (\<exists>s \<in> set (conv_states c). is_terminal s)"
proof -
  define res where "res = reach_loop (state_table c) [conv_initial c] [] False"
  have "validate_reachability c (state_table c) = [] \<longleftrightarrow>
      (\<forall>s \<in> set (conv_states c). gid s \<in> set (fst res)) \<and> snd res"
    by (auto simp: validate_reachability_def res_def [symmetric] filter_empty_conv
        split: prod.splits)
  then show ?thesis using reach_loop_result [OF assms] by (auto simp: res_def)
qed

section \<open>The checker decides well-formedness\<close>

lemma validate_states_clean:
  "concat (map (\<lambda>(i, s). validate_state rs ts fs m i s) (enumerate n ss)) = [] \<longleftrightarrow>
     (\<forall>(i, s) \<in> set (enumerate n ss). validate_state rs ts fs m i s = [])"
  by auto

lemma ball_enumerate: "(\<forall>(i, s) \<in> set (enumerate n ss). P s) \<longleftrightarrow> (\<forall>s \<in> set ss. P s)"
proof -
  have "(\<forall>(i, s) \<in> set (enumerate n ss). P s) \<longleftrightarrow> (\<forall>s \<in> snd ` set (enumerate n ss). P s)"
    by auto
  also have "snd ` set (enumerate n ss) = set ss"
    by (metis map_snd_enumerate set_map)
  finally show ?thesis .
qed

lemma unique_ids_exact:
  assumes "ids_unique xs"
  shows "set (fst (unique_ids i path kind [] xs)) = set xs"
  using assms by (auto simp: unique_ids_result ids_unique_def)

definition local_diagnostics :: "'v conversation \<Rightarrow> diagnostic list" where
  \<comment> \<open>everything \<open>validate\<close> pushes before it looks at reachability\<close>
  "local_diagnostics c =
     (let d_format = (if conv_format c \<noteq> CONVERSATION_FORMAT
            then [diag ''CLQ0001'' ''$.colloq_conversation''
                    (''unsupported format '' @ conv_format c @ ''; expected '' @ CONVERSATION_FORMAT)]
            else []);
          rs = unique_ids 0 ''$.roles'' ''role'' [] (map role_id (conv_roles c));
          d_two = (if length (conv_roles c) \<noteq> 2
            then [diag ''CLQ0002'' ''$.roles''
                    ''Colloq Conversation v0 endpoint projection requires exactly two roles'']
            else []);
          ts = unique_ids 0 ''$.types'' ''type'' [] (map type_id (conv_types c));
          fs = unique_ids 0 ''$.failures'' ''failure'' [] (map failure_id (conv_failures c));
          d_initial = (if \<not> bt_contains (state_table c) (conv_initial c)
            then [diag ''CLQ0005'' ''$.initial''
                    (''initial state '' @ conv_initial c @ '' does not exist'')]
            else [])
      in d_format @ snd rs @ d_two @ snd ts @ validate_types (conv_types c) @ snd fs
         @ snd (index_states 0 [] (conv_states c)) @ d_initial
         @ concat (map (\<lambda>(i, s). validate_state (fst rs) (fst ts) (fst fs) (state_table c) i s)
             (enumerate 0 (conv_states c))))"

lemma validate_split:
  "validate c =
     (let ds = (if local_diagnostics c = [] then validate_reachability c (state_table c)
                else local_diagnostics c)
      in if ds = [] then Inr () else Inl ds)"
  unfolding validate_def local_diagnostics_def state_table_def Let_def case_prod_beta
  by (rule refl)

lemma local_diagnostics_clean:
  "local_diagnostics c = [] \<longleftrightarrow>
     conv_format c = CONVERSATION_FORMAT \<and>
     length (conv_roles c) = 2 \<and> ids_unique (map role_id (conv_roles c)) \<and>
     ids_unique (map type_id (conv_types c)) \<and>
     (\<forall>t \<in> set (conv_types c). bt_contains (type_fields t) ''kind'') \<and>
     ids_unique (map failure_id (conv_failures c)) \<and>
     distinct (map gid (conv_states c)) \<and> conv_initial c \<in> state_ids c \<and>
     (\<forall>s \<in> set (conv_states c). wf_state c s)"
proof -
  define rs where "rs = unique_ids 0 ''$.roles'' ''role'' [] (map role_id (conv_roles c))"
  define ts where "ts = unique_ids 0 ''$.types'' ''type'' [] (map type_id (conv_types c))"
  define fs where "fs = unique_ids 0 ''$.failures'' ''failure'' [] (map failure_id (conv_failures c))"
  have sets:
    "ids_unique (map role_id (conv_roles c)) \<Longrightarrow> set (fst rs) = role_ids c"
    "ids_unique (map type_id (conv_types c)) \<Longrightarrow> set (fst ts) = type_ids c"
    "ids_unique (map failure_id (conv_failures c)) \<Longrightarrow> set (fst fs) = failure_ids c"
    by (simp_all add: rs_def ts_def fs_def unique_ids_exact role_ids_def type_ids_def failure_ids_def)
  have clean: "snd rs = [] \<longleftrightarrow> ids_unique (map role_id (conv_roles c))"
    "snd ts = [] \<longleftrightarrow> ids_unique (map type_id (conv_types c))"
    "snd fs = [] \<longleftrightarrow> ids_unique (map failure_id (conv_failures c))"
    "snd (index_states 0 [] (conv_states c)) = [] \<longleftrightarrow> distinct (map gid (conv_states c))"
    by (simp_all add: rs_def ts_def fs_def unique_ids_clean index_states_clean)
  have "concat (map (\<lambda>(i, s). validate_state (fst rs) (fst ts) (fst fs) (state_table c) i s)
      (enumerate 0 (conv_states c))) = [] \<longleftrightarrow> (\<forall>s \<in> set (conv_states c). wf_state c s)"
    if "ids_unique (map role_id (conv_roles c))" "ids_unique (map type_id (conv_types c))"
      "ids_unique (map failure_id (conv_failures c))" "distinct (map gid (conv_states c))"
    by (simp only: validate_states_clean validate_state_clean [OF that(4) sets(3) [OF that(3)]
          sets(1) [OF that(1)] sets(2) [OF that(2)]] ball_enumerate)
  then show ?thesis
    unfolding local_diagnostics_def Let_def rs_def [symmetric] ts_def [symmetric] fs_def [symmetric]
    by (auto simp only: append_is_Nil_conv clean validate_types_clean state_table_contains
        if_splits not_Cons_self2 list.distinct simp_thms split: if_splits)
qed

lemma validate_ok_iff: "validate c = Inr () \<longleftrightarrow> well_formed c"
proof -
  have "validate c = Inr () \<longleftrightarrow>
      local_diagnostics c = [] \<and> validate_reachability c (state_table c) = []"
    by (auto simp: validate_split Let_def)
  also have "\<dots> \<longleftrightarrow> well_formed c"
    using validate_reachability_clean [of c]
    by (auto simp: local_diagnostics_clean well_formed_def)
  finally show ?thesis .
qed

end
