(* ===== verification/Runs.thy ===== *)
theory Runs
  imports Prelude
begin

text \<open>
  Running a deterministic frame-driven machine.  The global graph of a conversation and each
  projected endpoint are such machines; the locale \<open>frame_runner\<close> holds what follows from the
  two equations of a run alone, and \<open>frame_simulation\<close> carries one machine's runs over to
  another.
\<close>

locale frame_runner =
  fixes step :: "'s \<Rightarrow> 'f \<Rightarrow> 's option"
    and run :: "'s \<Rightarrow> 'f list \<Rightarrow> 's option"
  assumes run_Nil: "run s [] = Some s"
    and run_Cons: "run s (f # fs) = (case step s f of None \<Rightarrow> None | Some s' \<Rightarrow> run s' fs)"
begin

lemma run_append:
  "run s (fs @ gs) = (case run s fs of None \<Rightarrow> None | Some s' \<Rightarrow> run s' gs)"
  by (induction fs arbitrary: s) (auto simp: run_Nil run_Cons split: option.splits)

lemma run_single: "run s [f] = step s f"
  by (auto simp: run_Nil run_Cons split: option.splits)

lemma run_snoc: "run s (fs @ [f]) = (case run s fs of None \<Rightarrow> None | Some s' \<Rightarrow> step s' f)"
  by (simp add: run_append run_single split: option.splits)

lemma run_prefix: "run s (fs @ gs) = Some t \<Longrightarrow> \<exists>u. run s fs = Some u \<and> run u gs = Some t"
  by (auto simp: run_append split: option.splits)

lemma run_invariant:
  assumes "run s fs = Some t" and "P s"
    and "\<And>s f s'. P s \<Longrightarrow> step s f = Some s' \<Longrightarrow> P s'"
  shows "P t"
  using assms(1,2)
proof (induction fs arbitrary: s)
  case Nil
  then show ?case by (simp add: run_Nil)
next
  case (Cons f fs)
  then show ?case by (auto simp: run_Cons split: option.splits dest: assms(3))
qed

lemma run_stuck:
  assumes "run s fs = None"
  shows "\<exists>n u. n < length fs \<and> run s (take n fs) = Some u \<and> step u (fs ! n) = None"
  using assms
proof (induction fs arbitrary: s)
  case Nil
  then show ?case by (simp add: run_Nil)
next
  case (Cons f fs)
  show ?case
  proof (cases "step s f")
    case None
    then show ?thesis by (intro exI [of _ 0] exI [of _ s]) (simp add: run_Nil)
  next
    case (Some s')
    with Cons.prems have "run s' fs = None" by (simp add: run_Cons)
    with Cons.IH [of s'] obtain n u
      where "n < length fs" "run s' (take n fs) = Some u" "step u (fs ! n) = None" by blast
    with Some show ?thesis by (intro exI [of _ "Suc n"] exI [of _ u]) (simp add: run_Cons)
  qed
qed

end

locale frame_simulation =
  A: frame_runner step_a run_a + B: frame_runner step_b run_b
  for step_a :: "'s \<Rightarrow> 'f \<Rightarrow> 's option" and run_a
    and step_b :: "'t \<Rightarrow> 'f \<Rightarrow> 't option" and run_b +
  fixes rel :: "'s \<Rightarrow> 't \<Rightarrow> bool"
  assumes sim: "rel s t \<Longrightarrow> step_a s f = Some s' \<Longrightarrow> \<exists>t'. step_b t f = Some t' \<and> rel s' t'"
begin

lemma run_sim: "rel s t \<Longrightarrow> run_a s fs = Some s' \<Longrightarrow> \<exists>t'. run_b t fs = Some t' \<and> rel s' t'"
proof (induction fs arbitrary: s t)
  case Nil
  then show ?case by (simp add: A.run_Nil B.run_Nil)
next
  case (Cons f fs)
  then obtain u where u: "step_a s f = Some u" "run_a u fs = Some s'"
    by (auto simp: A.run_Cons split: option.splits)
  with Cons.prems(1) obtain v where "step_b t f = Some v" "rel u v"
    using sim by blast
  with Cons.IH [OF this(2) u(2)] show ?case by (simp add: B.run_Cons)
qed

end

end
