(* ===== verification/Trace.thy ===== *)
theory Trace
  imports Well_Formed Runs
begin

text \<open>
  \<open>verify_trace\<close> of \<open>src/src/lib.rs\<close>: a list of frames is checked against the global graph.
  The two \<open>expect\<close>/index panics of the code are the value \<open>TracePanic\<close>.  The inductive
  relation \<open>conv_step\<close> is the meaning of the graph: which frame moves which state where.
\<close>

section \<open>The checker\<close>

record trace_report =
  tr_steps :: nat
  tr_final_state :: string
  tr_complete :: bool
  tr_successful :: bool
  tr_failure :: "string option"

record trace_error =
  te_step :: nat
  te_state :: string
  te_expected :: string
  te_received :: string

datatype trace_failure =
    TraceInvalid validation_errors
  | TraceFrame trace_error
  | TracePanic

fun match_frame :: "string btree_set \<Rightarrow> global_state \<Rightarrow> 'v frame \<Rightarrow> string option" where
  "match_frame roles state (FFault observer failure) =
     (if observer \<in> set roles \<and> failure_target state failure \<noteq> None
      then failure_target state failure else None)"
| "match_frame roles (GSend _ from to message next _ _) (FData afrom ato amessage _) =
     (if from = afrom \<and> to = ato \<and> message = amessage then Some next else None)"
| "match_frame roles (GChoice _ chooser branches _) (FSelect by label) =
     (if chooser = by \<and> bt_contains branches label then bt_get branches label else None)"
| "match_frame roles (GCancel _ from to scope next _) (FCancel afrom ato ascope) =
     (if from = afrom \<and> to = ato \<and> scope = ascope then Some next else None)"
| "match_frame roles _ _ = None"

fun trace_loop :: "state_index \<Rightarrow> string btree_set \<Rightarrow> nat \<Rightarrow> string \<Rightarrow> 'v frame list
    \<Rightarrow> trace_failure + string" where
  "trace_loop states roles step current [] = Inr current"
| "trace_loop states roles step current (f # fs) =
     (case bt_get states current of
        None \<Rightarrow> Inl TracePanic
      | Some state \<Rightarrow>
          (case match_frame roles state f of
             Some next \<Rightarrow> trace_loop states roles (Suc step) next fs
           | None \<Rightarrow> Inl (TraceFrame \<lparr>te_step = step, te_state = current,
                         te_expected = expected_frame state, te_received = describe_frame f\<rparr>)))"

definition collect_states :: "global_state list \<Rightarrow> state_index" where
  "collect_states ss = fold (\<lambda>(i, s). bt_insert i s) (map (\<lambda>s. (gid s, s)) ss) []"

definition trace_report_at :: "nat \<Rightarrow> string \<Rightarrow> global_state \<Rightarrow> trace_report" where
  "trace_report_at n current terminal =
     \<lparr>tr_steps = n, tr_final_state = current,
      tr_complete = is_terminal terminal,
      tr_successful = (case terminal of GEnd _ \<Rightarrow> True | _ \<Rightarrow> False),
      tr_failure = (case terminal of GFail _ failure \<Rightarrow> Some failure | _ \<Rightarrow> None)\<rparr>"

definition verify_trace :: "'v conversation \<Rightarrow> 'v frame list \<Rightarrow> trace_failure + trace_report" where
  "verify_trace c frames =
     and_then (map_err TraceInvalid (validate c)) (\<lambda>_.
       let states = collect_states (conv_states c);
           roles = bs_collect (map role_id (conv_roles c))
       in and_then (trace_loop states roles 0 (conv_initial c) frames) (\<lambda>current.
            case bt_get states current of
              None \<Rightarrow> Inl TracePanic
            | Some terminal \<Rightarrow> Inr (trace_report_at (length frames) current terminal)))"

section \<open>The meaning of the graph\<close>

inductive conv_step :: "'v conversation \<Rightarrow> string \<Rightarrow> 'v frame \<Rightarrow> string \<Rightarrow> bool"
  for c :: "'v conversation" where
  step_data: "GSend i from to message next deadline on_failure \<in> set (conv_states c) \<Longrightarrow>
    conv_step c i (FData from to message payload) next"
| step_select: "GChoice i chooser branches on_failure \<in> set (conv_states c) \<Longrightarrow>
    bt_get branches label = Some t \<Longrightarrow> conv_step c i (FSelect chooser label) t"
| step_cancel: "GCancel i from to scope next on_failure \<in> set (conv_states c) \<Longrightarrow>
    conv_step c i (FCancel from to scope) next"
| step_fault: "s \<in> set (conv_states c) \<Longrightarrow> gid s = i \<Longrightarrow> observer \<in> role_ids c \<Longrightarrow>
    failure_target s failure = Some t \<Longrightarrow> conv_step c i (FFault observer failure) t"

inductive_cases conv_stepE: "conv_step c i f j"

inductive conv_steps :: "'v conversation \<Rightarrow> string \<Rightarrow> 'v frame list \<Rightarrow> string \<Rightarrow> bool"
  for c :: "'v conversation" where
  steps_Nil: "conv_steps c i [] i"
| steps_Cons: "conv_step c i f j \<Longrightarrow> conv_steps c j fs k \<Longrightarrow> conv_steps c i (f # fs) k"

inductive_simps conv_steps_Nil [simp]: "conv_steps c i [] j"
inductive_simps conv_steps_Cons: "conv_steps c i (f # fs) k"

text \<open>The same as functions, for the runs of the system theories.\<close>

definition conv_next :: "'v conversation \<Rightarrow> string \<Rightarrow> 'v frame \<Rightarrow> string option" where
  "conv_next c i f =
     (case find (\<lambda>s. gid s = i) (conv_states c) of
        None \<Rightarrow> None
      | Some s \<Rightarrow> match_frame (bs_collect (map role_id (conv_roles c))) s f)"

fun conv_run :: "'v conversation \<Rightarrow> string \<Rightarrow> 'v frame list \<Rightarrow> string option" where
  "conv_run c i [] = Some i"
| "conv_run c i (f # fs) = (case conv_next c i f of None \<Rightarrow> None | Some j \<Rightarrow> conv_run c j fs)"

interpretation conv: frame_runner "conv_next c" "conv_run c" for c :: "'v conversation"
  by unfold_locales simp_all

section \<open>Lemmas\<close>

lemma wf_distinct [dest]: "well_formed c \<Longrightarrow> distinct (map gid (conv_states c))"
  by (simp add: well_formed_def)

lemma wf_initial: "well_formed c \<Longrightarrow> conv_initial c \<in> state_ids c"
  by (simp add: well_formed_def)

lemma wf_states: "well_formed c \<Longrightarrow> s \<in> set (conv_states c) \<Longrightarrow> wf_state c s"
  by (simp add: well_formed_def)

lemma wf_successors:
  assumes "wf_state c s" and "t \<in> set (successors s)"
  shows "t \<in> state_ids c"
  using assms by (cases s) (force simp: wf_failures_def state_ids_def)+

lemma match_frame_successor: "match_frame roles s f = Some t \<Longrightarrow> t \<in> set (successors s)"
  by (induction roles s f rule: match_frame.induct)
     (auto split: if_splits dest: bt_get_value failure_target_successor)

lemma match_frame_step:
  assumes "s \<in> set (conv_states c)"
    and "match_frame (bs_collect (map role_id (conv_roles c))) s f = Some t"
  shows "conv_step c (gid s) f t"
  by (insert assms, cases s; cases f)
     (auto split: if_splits simp: role_ids_def intro: conv_step.intros)

lemma step_match_frame:
  assumes "distinct (map gid (conv_states c))" and "conv_step c i f t"
  shows "\<exists>s \<in> set (conv_states c). gid s = i \<and>
    match_frame (bs_collect (map role_id (conv_roles c))) s f = Some t"
  using assms(2)
proof cases
  case (step_select chooser branches on_failure label)
  then have "bt_contains branches label" by (simp add: bt_contains_get)
  with step_select show ?thesis by force
qed (force simp: role_ids_def)+

lemma conv_next_iff:
  assumes "distinct (map gid (conv_states c))"
  shows "conv_next c i f = Some t \<longleftrightarrow> conv_step c i f t"
proof
  assume "conv_next c i f = Some t"
  then show "conv_step c i f t"
    by (auto simp: conv_next_def split: option.splits dest!: find_key_SomeD dest: match_frame_step)
next
  assume "conv_step c i f t"
  from step_match_frame [OF assms this] show "conv_next c i f = Some t"
    using assms by (auto simp: conv_next_def dest: find_key_distinct)
qed

lemma conv_run_iff:
  assumes "distinct (map gid (conv_states c))"
  shows "conv_run c i fs = Some j \<longleftrightarrow> conv_steps c i fs j"
proof (induction fs arbitrary: i)
  case (Cons f fs)
  show ?case
    by (auto simp: conv_steps_Cons conv_next_iff [OF assms, symmetric] Cons.IH split: option.splits)
qed auto

lemma conv_next_ids: "well_formed c \<Longrightarrow> conv_next c i f = Some j \<Longrightarrow> j \<in> state_ids c"
  by (auto simp: conv_next_def split: option.splits
      dest!: find_key_SomeD match_frame_successor intro: wf_successors wf_states)

lemma conv_run_ids:
  assumes "well_formed c" and "i \<in> state_ids c" and "conv_run c i fs = Some j"
  shows "j \<in> state_ids c"
  using assms(3,2) by (rule conv.run_invariant) (rule conv_next_ids [OF assms(1)])

lemma collect_states_get:
  "distinct (map gid (conv_states c)) \<Longrightarrow>
     bt_get (collect_states (conv_states c)) i = find (\<lambda>s. gid s = i) (conv_states c)"
  for c :: "'v conversation"
  using state_table_get [of c i] by (simp add: state_table_def index_states_fst collect_states_def)

lemma state_ids_find:
  assumes "i \<in> state_ids c"
  obtains s where "find (\<lambda>s. gid s = i) (conv_states c) = Some s"
  using assms find_key_ex [of gid i "conv_states c"] by (auto simp: state_ids_def)

text \<open>The loop, started at a declared state, either runs the graph or stops at its first refusal.\<close>

abbreviation trace_loop_of :: "'v conversation \<Rightarrow> nat \<Rightarrow> string \<Rightarrow> 'v frame list
    \<Rightarrow> trace_failure + string" where
  "trace_loop_of c \<equiv>
     trace_loop (collect_states (conv_states c)) (bs_collect (map role_id (conv_roles c)))"

definition refusal :: "nat \<Rightarrow> global_state \<Rightarrow> 'v frame \<Rightarrow> trace_error" where
  "refusal n s f = \<lparr>te_step = n, te_state = gid s, te_expected = expected_frame s,
     te_received = describe_frame f\<rparr>"

lemma trace_loop_step:
  assumes "well_formed c" and "i \<in> state_ids c"
  shows "conv_next c i f = Some j \<Longrightarrow> trace_loop_of c n i (f # fs) = trace_loop_of c (Suc n) j fs"
    and "conv_next c i f = None \<Longrightarrow>
      \<exists>s \<in> set (conv_states c). gid s = i \<and>
        trace_loop_of c n i (f # fs) = Inl (TraceFrame (refusal n s f))"
proof -
  obtain s where s: "find (\<lambda>s. gid s = i) (conv_states c) = Some s"
    using assms(2) by (rule state_ids_find)
  then show "conv_next c i f = Some j \<Longrightarrow> trace_loop_of c n i (f # fs) = trace_loop_of c (Suc n) j fs"
    by (auto simp: collect_states_get [OF wf_distinct [OF assms(1)]] conv_next_def)
  show "conv_next c i f = None \<Longrightarrow> \<exists>s \<in> set (conv_states c). gid s = i \<and>
      trace_loop_of c n i (f # fs) = Inl (TraceFrame (refusal n s f))"
    using s find_key_SomeD [OF s]
    by (auto simp: collect_states_get [OF wf_distinct [OF assms(1)]] conv_next_def refusal_def)
qed

lemma trace_loop_ok:
  assumes "well_formed c"
  shows "i \<in> state_ids c \<Longrightarrow> conv_run c i fs = Some j \<Longrightarrow> trace_loop_of c n i fs = Inr j"
proof (induction fs arbitrary: i n)
  case (Cons f fs)
  then obtain k where k: "conv_next c i f = Some k" "conv_run c k fs = Some j"
    by (auto split: option.splits)
  with trace_loop_step(1) [OF assms Cons.prems(1) k(1)] Cons.IH conv_next_ids [OF assms k(1)]
  show ?case by simp
qed simp

lemma trace_loop_stop:
  assumes "well_formed c"
  shows "i \<in> state_ids c \<Longrightarrow> conv_run c i fs = None \<Longrightarrow>
    \<exists>k. \<exists>s \<in> set (conv_states c). k < length fs \<and> conv_run c i (take k fs) = Some (gid s) \<and>
      conv_next c (gid s) (fs ! k) = None \<and>
      trace_loop_of c n i fs = Inl (TraceFrame (refusal (n + k) s (fs ! k)))"
proof (induction fs arbitrary: i n)
  case (Cons f fs)
  show ?case
  proof (cases "conv_next c i f")
    case None
    with trace_loop_step(2) [OF assms Cons.prems(1) None, of n fs] show ?thesis
      by (intro exI [of _ 0]) auto
  next
    case (Some j)
    with Cons.prems(2) have "conv_run c j fs = None" by simp
    from Cons.IH [OF conv_next_ids [OF assms Some] this, of "Suc n"] obtain k s
      where "s \<in> set (conv_states c)" "k < length fs" "conv_run c j (take k fs) = Some (gid s)"
        "conv_next c (gid s) (fs ! k) = None"
        "trace_loop_of c (Suc n) j fs = Inl (TraceFrame (refusal (Suc n + k) s (fs ! k)))" by blast
    with Some trace_loop_step(1) [OF assms Cons.prems(1) Some, of n fs] show ?thesis
      by (intro exI [of _ "Suc k"] bexI [of _ s]) simp_all
  qed
qed simp

text \<open>The checker as a function of the graph's run.\<close>

definition report_of :: "'v conversation \<Rightarrow> nat \<Rightarrow> string \<Rightarrow> trace_report" where
  "report_of c n i =
     trace_report_at n i (the (find (\<lambda>s. gid s = i) (conv_states c)))"

lemma verify_trace_run:
  assumes "well_formed c" and "conv_run c (conv_initial c) fs = Some j"
  shows "verify_trace c fs = Inr (report_of c (length fs) j)"
proof -
  obtain s where s: "find (\<lambda>s. gid s = j) (conv_states c) = Some s"
    using conv_run_ids [OF assms(1) wf_initial [OF assms(1)] assms(2)] by (rule state_ids_find)
  have v: "validate c = Inr ()" by (simp add: validate_ok_iff assms(1))
  show ?thesis
    by (simp add: verify_trace_def v collect_states_get [OF wf_distinct [OF assms(1)]]
        trace_loop_ok [OF assms(1) wf_initial [OF assms(1)] assms(2)] s report_of_def)
qed

lemma verify_trace_refuse:
  assumes "well_formed c" and "conv_run c (conv_initial c) fs = None"
  shows "\<exists>k. \<exists>s \<in> set (conv_states c). k < length fs \<and>
    conv_run c (conv_initial c) (take k fs) = Some (gid s) \<and>
    conv_next c (gid s) (fs ! k) = None \<and>
    verify_trace c fs = Inl (TraceFrame (refusal k s (fs ! k)))"
proof -
  have v: "validate c = Inr ()" by (simp add: validate_ok_iff assms(1))
  from trace_loop_stop [OF assms(1) wf_initial [OF assms(1)] assms(2), of 0] show ?thesis
    by (fastforce simp: verify_trace_def v)
qed

lemma verify_trace_invalid:
  "\<not> well_formed c \<Longrightarrow> \<exists>ds. ds \<noteq> [] \<and> verify_trace c fs = Inl (TraceInvalid ds)"
  using validate_ok_iff [of c]
  by (auto simp: verify_trace_def validate_def Let_def case_prod_beta split: if_splits)

lemma verify_trace_Inr:
  "verify_trace c fs = Inr r \<longleftrightarrow>
     well_formed c \<and> (\<exists>j. conv_run c (conv_initial c) fs = Some j \<and> r = report_of c (length fs) j)"
proof (cases "well_formed c")
  case True
  then show ?thesis
    using verify_trace_run [OF True, of fs] verify_trace_refuse [OF True, of fs]
    by (cases "conv_run c (conv_initial c) fs") auto
next
  case False
  with verify_trace_invalid [OF False, of fs] show ?thesis by auto
qed

text \<open>A terminal state moves on no frame.\<close>

lemma terminal_match: "is_terminal s \<Longrightarrow> match_frame roles s f = None"
  by (cases s; cases f) auto

lemma report_complete:
  assumes "distinct (map gid (conv_states c))" and "i \<in> state_ids c" and "tr_complete (report_of c n i)"
  shows "conv_next c i f = None"
proof -
  obtain s where "find (\<lambda>s. gid s = i) (conv_states c) = Some s"
    using assms(2) by (rule state_ids_find)
  with assms(3) show ?thesis
    by (simp add: report_of_def trace_report_at_def conv_next_def terminal_match)
qed

end
