(* ===== verification/Projection.thy ===== *)
theory Projection
  imports Trace
begin

text \<open>
  Endpoint projection of \<open>src/src/lib.rs\<close>: the local machine of a role, state by state.  The
  lemmas show that the projections of the two roles are dual at every state and that the
  global state can be read back from either of them.
\<close>

section \<open>Endpoints\<close>

datatype endpoint_state =
    ESend (eid: string) (eto: string) (emessage: string) (enext: string)
      (edeadline: "string option") (eon_failure: edges)
  | EReceive (eid: string) (efrom: string) (emessage: string) (enext: string)
      (edeadline: "string option") (eon_failure: edges)
  | ESelect (eid: string) (ebranches: edges) (eon_failure: edges)
  | EBranch (eid: string) (efrom: string) (ebranches: edges) (eon_failure: edges)
  | ESendCancel (eid: string) (eto: string) (escope: string) (enext: string) (eon_failure: edges)
  | EReceiveCancel (eid: string) (efrom: string) (escope: string) (enext: string)
      (eon_failure: edges)
  | EEnd (eid: string)
  | EFail (eid: string) (efailure: string)

fun efailure_target :: "endpoint_state \<Rightarrow> string \<Rightarrow> string option" where
  "efailure_target (ESend _ _ _ _ _ on_failure) failure = bt_get on_failure failure"
| "efailure_target (EReceive _ _ _ _ _ on_failure) failure = bt_get on_failure failure"
| "efailure_target (ESelect _ _ on_failure) failure = bt_get on_failure failure"
| "efailure_target (EBranch _ _ _ on_failure) failure = bt_get on_failure failure"
| "efailure_target (ESendCancel _ _ _ _ on_failure) failure = bt_get on_failure failure"
| "efailure_target (EReceiveCancel _ _ _ _ on_failure) failure = bt_get on_failure failure"
| "efailure_target (EEnd _) failure = None"
| "efailure_target (EFail _ _) failure = None"

record endpoint =
  ep_format :: string
  ep_conversation :: string
  ep_role :: string
  ep_initial :: string
  ep_states :: "endpoint_state list"

fun project_state :: "global_state \<Rightarrow> string \<Rightarrow> endpoint_state" where
  "project_state (GSend i from to message next deadline on_failure) role =
     (if from = role then ESend i to message next deadline on_failure
      else EReceive i from message next deadline on_failure)"
| "project_state (GChoice i chooser branches on_failure) role =
     (if chooser = role then ESelect i branches on_failure
      else EBranch i chooser branches on_failure)"
| "project_state (GCancel i from to scope next on_failure) role =
     (if from = role then ESendCancel i to scope next on_failure
      else EReceiveCancel i from scope next on_failure)"
| "project_state (GEnd i) role = EEnd i"
| "project_state (GFail i failure) role = EFail i failure"

definition project_role :: "'v conversation \<Rightarrow> role \<Rightarrow> endpoint" where
  "project_role c r =
     \<lparr>ep_format = ENDPOINT_FORMAT,
      ep_conversation = module_id (conv_module c),
      ep_role = role_id r,
      ep_initial = conv_initial c,
      ep_states = map (\<lambda>s. project_state s (role_id r)) (conv_states c)\<rparr>"

definition project_validated :: "'v conversation \<Rightarrow> endpoint list" where
  "project_validated c = map (project_role c) (conv_roles c)"

definition project :: "'v conversation \<Rightarrow> validation_errors + endpoint list" where
  "project c = and_then (validate c) (\<lambda>_. Inr (project_validated c))"

section \<open>What projection keeps\<close>

lemma project_state_id [simp]: "eid (project_state s r) = gid s"
  by (cases s) auto

lemma project_state_failure [simp]: "efailure_target (project_state s r) f = failure_target s f"
  by (cases s) auto

lemma project_role_simps [simp]:
  "ep_format (project_role c r) = ENDPOINT_FORMAT"
  "ep_conversation (project_role c r) = module_id (conv_module c)"
  "ep_role (project_role c r) = role_id r"
  "ep_initial (project_role c r) = conv_initial c"
  "ep_states (project_role c r) = map (\<lambda>s. project_state s (role_id r)) (conv_states c)"
  by (simp_all add: project_role_def)

lemma project_find:
  "find (\<lambda>e. eid e = i) (map (\<lambda>s. project_state s r) (conv_states c)) =
     map_option (\<lambda>s. project_state s r) (find (\<lambda>s. gid s = i) (conv_states c))"
  by (rule find_key_map) simp

section \<open>Two roles\<close>

definition role_pair :: "'v conversation \<Rightarrow> string \<Rightarrow> string \<Rightarrow> bool" where
  \<comment> \<open>\<open>p\<close> and \<open>q\<close> are the two roles of the conversation, in either order\<close>
  "role_pair c p q \<longleftrightarrow> p \<noteq> q \<and> role_ids c = {p, q}"

lemma role_pair_sym: "role_pair c p q \<Longrightarrow> role_pair c q p"
  by (auto simp: role_pair_def)

lemma well_formed_roles:
  assumes "well_formed c"
  obtains r s where "conv_roles c = [r, s]" and "role_pair c (role_id r) (role_id s)"
proof -
  from assms have "length (conv_roles c) = 2" "distinct (map role_id (conv_roles c))"
    by (auto simp: well_formed_def ids_unique_def)
  moreover from this(1) obtain r s where "conv_roles c = [r, s]"
    by (auto simp: length_Suc_conv numeral_2_eq_2)
  ultimately have "role_pair c (role_id r) (role_id s)"
    by (auto simp: role_pair_def role_ids_def)
  with that \<open>conv_roles c = [r, s]\<close> show ?thesis by blast
qed

text \<open>\<open>hands_over p q a b\<close>: \<open>a\<close> is an output action of \<open>p\<close> and \<open>b\<close> the matching input of \<open>q\<close>.\<close>

fun hands_over :: "string \<Rightarrow> string \<Rightarrow> endpoint_state \<Rightarrow> endpoint_state \<Rightarrow> bool" where
  "hands_over p q (ESend i to m n d f) (EReceive i' from m' n' d' f') \<longleftrightarrow>
     i = i' \<and> to = q \<and> from = p \<and> m = m' \<and> n = n' \<and> d = d' \<and> f = f'"
| "hands_over p q (ESelect i b f) (EBranch i' from b' f') \<longleftrightarrow>
     i = i' \<and> from = p \<and> b = b' \<and> f = f'"
| "hands_over p q (ESendCancel i to s n f) (EReceiveCancel i' from s' n' f') \<longleftrightarrow>
     i = i' \<and> to = q \<and> from = p \<and> s = s' \<and> n = n' \<and> f = f'"
| "hands_over p q _ _ \<longleftrightarrow> False"

fun both_final :: "endpoint_state \<Rightarrow> endpoint_state \<Rightarrow> bool" where
  "both_final (EEnd i) (EEnd j) \<longleftrightarrow> i = j"
| "both_final (EFail i f) (EFail j g) \<longleftrightarrow> i = j \<and> f = g"
| "both_final _ _ \<longleftrightarrow> False"

lemma project_dual:
  assumes "wf_state c s" and "role_pair c p q"
  shows "hands_over p q (project_state s p) (project_state s q) \<or>
    hands_over q p (project_state s q) (project_state s p) \<or>
    both_final (project_state s p) (project_state s q)"
  using assms by (cases s) (auto simp: role_pair_def)

text \<open>The global state read back from one endpoint's view of it.\<close>

fun reconstruct :: "string \<Rightarrow> endpoint_state \<Rightarrow> global_state" where
  "reconstruct role (ESend i to m n d f) = GSend i role to m n d f"
| "reconstruct role (EReceive i from m n d f) = GSend i from role m n d f"
| "reconstruct role (ESelect i b f) = GChoice i role b f"
| "reconstruct role (EBranch i from b f) = GChoice i from b f"
| "reconstruct role (ESendCancel i to s n f) = GCancel i role to s n f"
| "reconstruct role (EReceiveCancel i from s n f) = GCancel i from role s n f"
| "reconstruct role (EEnd i) = GEnd i"
| "reconstruct role (EFail i f) = GFail i f"

lemma reconstruct_project:
  assumes "wf_state c s" and "role_pair c p q"
  shows "reconstruct p (project_state s p) = s"
  using assms by (cases s) (auto simp: role_pair_def)

lemma project_role_lossless:
  assumes "well_formed c" and "r \<in> set (conv_roles c)"
  shows "map (reconstruct (role_id r)) (ep_states (project_role c r)) = conv_states c"
proof -
  obtain a b where ab: "conv_roles c = [a, b]" "role_pair c (role_id a) (role_id b)"
    using assms(1) by (rule well_formed_roles)
  then have "\<exists>q. role_pair c (role_id r) q"
    using assms(2) by (auto intro: role_pair_sym)
  then have "reconstruct (role_id r) (project_state s (role_id r)) = s"
    if "s \<in> set (conv_states c)" for s
    using reconstruct_project wf_states [OF assms(1) that] by blast
  then show ?thesis by (simp add: comp_def map_idI)
qed

end
