(* ===== verification/Hex.thy ===== *)
theory Hex
  imports Prelude
begin

text \<open>
  Text forms the program writes and reads: hexadecimal bytes (\<open>encode_hex\<close>, \<open>decode_hex\<close> of
  \<open>draft_exchange.rs\<close>, \<open>decode_32_bytes\<close> of \<open>node.rs\<close>), the \<open>sha256:\<close> identities and the
  identifier grammar of \<open>plan.rs\<close>.
\<close>

section \<open>Encoding\<close>

definition hex_digit :: "nat \<Rightarrow> char" where
  "hex_digit n = char_of (if n < 10 then 48 + n else 87 + n)"

definition hex_byte :: "byte \<Rightarrow> string" where
  \<comment> \<open>\<open>format!("{byte:02x}")\<close>\<close>
  "hex_byte b = [hex_digit (unat b div 16), hex_digit (unat b mod 16)]"

definition encode_hex :: "byte list \<Rightarrow> string" where
  "encode_hex bytes = concat (map hex_byte bytes)"

section \<open>Decoding\<close>

definition is_ascii :: "char \<Rightarrow> bool" where
  "is_ascii c \<longleftrightarrow> (of_char c :: nat) < 128"

definition digit_value :: "char \<Rightarrow> nat option" where
  \<comment> \<open>\<open>char::to_digit(16)\<close>\<close>
  "digit_value c =
     (let n = of_char c :: nat in
      if 48 \<le> n \<and> n \<le> 57 then Some (n - 48)
      else if 97 \<le> n \<and> n \<le> 102 then Some (n - 87)
      else if 65 \<le> n \<and> n \<le> 70 then Some (n - 55)
      else None)"

fun radix_digits :: "nat \<Rightarrow> string \<Rightarrow> nat option" where
  \<comment> \<open>the digit loop of \<open>u8::from_str_radix(_, 16)\<close>, with its overflow checks\<close>
  "radix_digits acc [] = Some acc"
| "radix_digits acc (c # cs) =
     (case digit_value c of
        None \<Rightarrow> None
      | Some d \<Rightarrow> if acc * 16 + d < 256 then radix_digits (acc * 16 + d) cs else None)"

definition u8_from_str_radix16 :: "string \<Rightarrow> byte option" where
  \<comment> \<open>the standard library's parser: it refuses an empty text and a lone sign, and skips one
    leading plus sign\<close>
  "u8_from_str_radix16 s =
     map_option word_of_nat
       (case s of
          [] \<Rightarrow> None
        | c # cs \<Rightarrow>
            if (c = CHR ''+'' \<or> c = CHR ''-'') \<and> cs = [] then None
            else if c = CHR ''+'' then radix_digits 0 cs
            else radix_digits 0 s)"

fun chunks2 :: "'a list \<Rightarrow> 'a list list" where
  \<comment> \<open>\<open>as_chunks::<2>().0\<close>: an odd last element is left out\<close>
  "chunks2 (a # b # xs) = [a, b] # chunks2 xs"
| "chunks2 _ = []"

definition decode_hex :: "string \<Rightarrow> string + byte list" where
  "decode_hex encoded =
     (if length encoded mod 2 \<noteq> 0 \<or> \<not> list_all is_ascii encoded
      then Inl ''sync bytes are not even-length hexadecimal''
      else map_result
        (\<lambda>chunk. ok_or ''sync bytes are not hexadecimal'' (u8_from_str_radix16 chunk))
        (chunks2 encoded))"

definition decode_32_bytes :: "string \<Rightarrow> byte list option" where
  \<comment> \<open>\<open>None\<close> is \<open>NodeError::SecretKey\<close>\<close>
  "decode_32_bytes encoded =
     (if length encoded \<noteq> 64 \<or> \<not> list_all is_ascii encoded then None
      else case map_result (\<lambda>chunk. ok_or () (u8_from_str_radix16 chunk)) (chunks2 encoded) of
          Inl _ \<Rightarrow> None
        | Inr bytes \<Rightarrow> Some bytes)"

section \<open>Identifiers and digests\<close>

definition is_lower :: "char \<Rightarrow> bool" where
  "is_lower c \<longleftrightarrow> 97 \<le> (of_char c :: nat) \<and> (of_char c :: nat) \<le> 122"

definition is_upper :: "char \<Rightarrow> bool" where
  "is_upper c \<longleftrightarrow> 65 \<le> (of_char c :: nat) \<and> (of_char c :: nat) \<le> 90"

definition is_digit :: "char \<Rightarrow> bool" where
  "is_digit c \<longleftrightarrow> 48 \<le> (of_char c :: nat) \<and> (of_char c :: nat) \<le> 57"

definition is_hex_digit :: "char \<Rightarrow> bool" where
  "is_hex_digit c \<longleftrightarrow> digit_value c \<noteq> None"

definition valid_id :: "string \<Rightarrow> bool" where
  "valid_id value =
     (case value of
        [] \<Rightarrow> False
      | first # characters \<Rightarrow>
          is_lower first \<and>
          list_all (\<lambda>c. is_lower c \<or> is_digit c \<or> c = CHR ''_'' \<or> c = CHR ''.'' \<or> c = CHR ''-'')
            characters)"

definition strip_prefix :: "string \<Rightarrow> string \<Rightarrow> string option" where
  "strip_prefix p s = (if take (length p) s = p then Some (drop (length p) s) else None)"

definition valid_sha256 :: "string \<Rightarrow> bool" where
  "valid_sha256 value =
     (case strip_prefix ''sha256:'' value of
        None \<Rightarrow> False
      | Some digest \<Rightarrow>
          length digest = 64 \<and> list_all (\<lambda>c. is_hex_digit c \<and> \<not> is_upper c) digest)"

definition sha256_identity :: "(byte list \<Rightarrow> byte list) \<Rightarrow> byte list \<Rightarrow> string" where
  \<comment> \<open>the digest function of the \<open>sha2\<close> crate is the first argument\<close>
  "sha256_identity sha256 encoded = ''sha256:'' @ encode_hex (sha256 encoded)"

section \<open>Lemmas\<close>

lemma hex_digit_nibble:
  assumes "n < 16"
  shows "digit_value (hex_digit n) = Some n" "is_ascii (hex_digit n)" "\<not> is_upper (hex_digit n)"
    "hex_digit n \<noteq> CHR ''+''" "hex_digit n \<noteq> CHR ''-''"
proof -
  have n: "(of_char (hex_digit n) :: nat) = (if n < 10 then 48 + n else 87 + n)"
    using assms by (simp add: hex_digit_def)
  then show "digit_value (hex_digit n) = Some n" "is_ascii (hex_digit n)" "\<not> is_upper (hex_digit n)"
    using assms by (auto simp: digit_value_def is_ascii_def is_upper_def)
  show "hex_digit n \<noteq> CHR ''+''" "hex_digit n \<noteq> CHR ''-''"
    using n by (auto split: if_splits)
qed

lemma nibbles:
  "unat (b :: byte) div 16 < 16" "unat (b :: byte) mod 16 < 16"
  "(unat b div 16) * 16 + unat b mod 16 = unat b"
proof -
  have "unat b < 256" using unsigned_less [of b] by simp
  then show "unat b div 16 < 16" by linarith
  show "unat b mod 16 < 16" "(unat b div 16) * 16 + unat b mod 16 = unat b"
    by (simp_all only: div_mult_mod_eq mod_less_divisor zero_less_numeral)
qed

lemma radix_digits_pair:
  assumes "h < 16" and "l < 16"
  shows "radix_digits 0 [hex_digit h, hex_digit l] = Some (h * 16 + l)"
  using assms by (simp add: hex_digit_nibble)

lemma decode_hex_byte: "u8_from_str_radix16 (hex_byte b) = Some b"
proof -
  have "radix_digits 0 (hex_byte b) = Some (unat b)"
    unfolding hex_byte_def by (simp only: radix_digits_pair [OF nibbles(1,2)] nibbles(3))
  moreover have "u8_from_str_radix16 (hex_byte b) = map_option word_of_nat (radix_digits 0 (hex_byte b))"
    unfolding u8_from_str_radix16_def hex_byte_def using hex_digit_nibble(4) [OF nibbles(1)] by simp
  ultimately show ?thesis by simp
qed

lemma encode_hex_Nil [simp]: "encode_hex [] = []"
  by (simp add: encode_hex_def)

lemma encode_hex_Cons: "encode_hex (b # bs) = hex_byte b @ encode_hex bs"
  by (simp add: encode_hex_def)

lemma encode_hex_length: "length (encode_hex bs) = 2 * length bs"
  by (induction bs) (auto simp: encode_hex_Cons hex_byte_def)

lemma encode_hex_chars:
  "list_all is_ascii (encode_hex bs)"
  "list_all (\<lambda>c. is_hex_digit c \<and> \<not> is_upper c) (encode_hex bs)"
  by (induction bs) (auto simp: encode_hex_Cons hex_byte_def is_hex_digit_def hex_digit_nibble nibbles)

lemma chunks2_encode: "chunks2 (encode_hex bs) = map hex_byte bs"
  by (induction bs) (auto simp: encode_hex_Cons hex_byte_def)

lemma decode_encode_hex: "decode_hex (encode_hex bs) = Inr bs"
proof -
  have "map_result (\<lambda>chunk. ok_or e (u8_from_str_radix16 chunk)) (map hex_byte bs) = Inr bs" for e :: string
    by (induction bs) (auto simp: decode_hex_byte)
  then show ?thesis
    by (simp add: decode_hex_def encode_hex_length encode_hex_chars chunks2_encode)
qed

lemma decode_32_encode: "length bs = 32 \<Longrightarrow> decode_32_bytes (encode_hex bs) = Some bs"
proof -
  assume "length bs = 32"
  moreover have "map_result (\<lambda>chunk. ok_or () (u8_from_str_radix16 chunk)) (map hex_byte bs) = Inr bs"
    by (induction bs) (auto simp: decode_hex_byte)
  ultimately show ?thesis
    by (simp add: decode_32_bytes_def encode_hex_length encode_hex_chars chunks2_encode)
qed

lemma encode_hex_inj: "encode_hex bs = encode_hex cs \<Longrightarrow> bs = cs"
  by (metis decode_encode_hex sum.inject(2))

lemma valid_sha256_identity:
  "length (sha256 encoded) = 32 \<Longrightarrow> valid_sha256 (sha256_identity sha256 encoded)"
  by (simp add: valid_sha256_def sha256_identity_def strip_prefix_def encode_hex_length
      encode_hex_chars)

end
