(* ===== verification/Wire.thy ===== *)
theory Wire
  imports Projection Hex
begin

text \<open>
  The compact-wire dictionary of \<open>src/src/plan.rs\<close>: semantic transitions, their derived order,
  and \<open>derive_wire_plan\<close>, which collects the transitions of all endpoints into an ordered set
  and numbers them from one with \<open>u16\<close> identifiers.
\<close>

section \<open>Operations and their order\<close>

datatype wire_operation =
    WData (wfrom: string) (wto: string) (wmessage: string)
  | WSelect (wby: string) (wlabel: string)
  | WCancel (wfrom: string) (wto: string) (wscope: string)

text \<open>
  \<open>#[derive(PartialOrd, Ord)]\<close> compares the variants in declaration order and then the fields
  from left to right.
\<close>

fun wire_key :: "wire_operation \<Rightarrow> nat \<times> string list" where
  "wire_key (WData from to message) = (0, [from, to, message])"
| "wire_key (WSelect by label) = (1, [by, label])"
| "wire_key (WCancel from to scope) = (2, [from, to, scope])"

lemma wire_key_inj: "wire_key a = wire_key b \<longleftrightarrow> a = b"
  by (cases a; cases b) auto

instantiation wire_operation :: linorder
begin

definition less_eq_wire_operation :: "wire_operation \<Rightarrow> wire_operation \<Rightarrow> bool" where
  "less_eq_wire_operation a b \<longleftrightarrow> wire_key a \<le> wire_key b"

definition less_wire_operation :: "wire_operation \<Rightarrow> wire_operation \<Rightarrow> bool" where
  "less_wire_operation a b \<longleftrightarrow> wire_key a < wire_key b"

instance
  by standard (auto simp: less_eq_wire_operation_def less_wire_operation_def wire_key_inj [symmetric])

end

record wire_transition =
  wt_id :: u16
  wt_state :: string
  wt_operation :: wire_operation

record wire_plan =
  wp_encoding :: string
  wp_transitions :: "wire_transition list"

definition COMPACT_WIRE_FORMAT :: string where
  "COMPACT_WIRE_FORMAT = ''compact-json-v0''"

definition MAX_U16 :: nat where
  "MAX_U16 = 65535"

section \<open>Deriving the dictionary\<close>

fun state_transitions :: "string \<Rightarrow> endpoint_state \<Rightarrow> (string \<times> wire_operation) list" where
  "state_transitions role (ESend i to message _ _ _) = [(i, WData role to message)]"
| "state_transitions role (EReceive i from message _ _ _) = [(i, WData from role message)]"
| "state_transitions role (ESelect i branches _) =
     map (\<lambda>label. (i, WSelect role label)) (bt_keys branches)"
| "state_transitions role (EBranch i from branches _) =
     map (\<lambda>label. (i, WSelect from label)) (bt_keys branches)"
| "state_transitions role (ESendCancel i to scope _ _) = [(i, WCancel role to scope)]"
| "state_transitions role (EReceiveCancel i from scope _ _) = [(i, WCancel from role scope)]"
| "state_transitions role (EEnd _) = []"
| "state_transitions role (EFail _ _) = []"

definition endpoint_transitions :: "endpoint \<Rightarrow> (string \<times> wire_operation) list" where
  "endpoint_transitions ep = concat (map (state_transitions (ep_role ep)) (ep_states ep))"

definition number_transition :: "nat \<times> string \<times> wire_operation \<Rightarrow> string + wire_transition" where
  "number_transition x =
     (case x of (index, state, operation) \<Rightarrow>
       if index + 1 \<le> MAX_U16
       then Inr \<lparr>wt_id = word_of_nat (index + 1), wt_state = state, wt_operation = operation\<rparr>
       else Inl ''compact wire supports at most 65535 semantic transitions'')"

definition derive_wire_plan :: "endpoint list \<Rightarrow> string + wire_plan" where
  \<comment> \<open>the error is the text of \<open>PlanError::Invalid\<close>\<close>
  "derive_wire_plan endpoints =
     (let transitions = bs_collect (concat (map endpoint_transitions endpoints))
      in and_then (map_result number_transition (enumerate 0 transitions)) (\<lambda>ts.
           Inr \<lparr>wp_encoding = COMPACT_WIRE_FORMAT, wp_transitions = ts\<rparr>))"

section \<open>Lemmas\<close>

definition numbered :: "(string \<times> wire_operation) list \<Rightarrow> wire_transition list" where
  "numbered ts = map (\<lambda>(k, s, op). \<lparr>wt_id = word_of_nat (k + 1), wt_state = s, wt_operation = op\<rparr>)
     (enumerate 0 ts)"

lemma numbered_length [simp]: "length (numbered ts) = length ts"
  by (simp add: numbered_def)

lemma numbered_nth:
  "k < length ts \<Longrightarrow> numbered ts ! k =
     \<lparr>wt_id = word_of_nat (k + 1), wt_state = fst (ts ! k), wt_operation = snd (ts ! k)\<rparr>"
  by (simp add: numbered_def nth_enumerate_eq split: prod.splits)

lemma numbered_entries: "map (\<lambda>t. (wt_state t, wt_operation t)) (numbered ts) = ts"
  by (rule nth_equalityI) (simp_all add: numbered_nth)

definition dictionary_entries :: "endpoint list \<Rightarrow> (string \<times> wire_operation) list" where
  "dictionary_entries eps = bs_collect (concat (map endpoint_transitions eps))"

lemma map_result_all:
  "(\<forall>x \<in> set xs. \<exists>y. f x = Inr y) \<or> (\<exists>x \<in> set xs. \<exists>e. f x = Inl e \<and> map_result f xs = Inl e)"
proof (induction xs)
  case (Cons x xs)
  then show ?case by (cases "f x") auto
qed simp

lemma derive_wire_plan_ok:
  assumes "length (dictionary_entries eps) \<le> MAX_U16"
  shows "derive_wire_plan eps =
    Inr \<lparr>wp_encoding = COMPACT_WIRE_FORMAT, wp_transitions = numbered (dictionary_entries eps)\<rparr>"
proof -
  have "map_result number_transition (enumerate 0 (dictionary_entries eps)) =
      Inr (numbered (dictionary_entries eps))"
    unfolding numbered_def using assms
    by (intro map_result_map) (auto simp: number_transition_def in_set_enumerate_eq)
  then show ?thesis
    by (simp add: derive_wire_plan_def dictionary_entries_def [symmetric])
qed

lemma derive_wire_plan_too_many:
  assumes "MAX_U16 < length (dictionary_entries eps)"
  shows "\<exists>e. derive_wire_plan eps = Inl e"
proof -
  let ?ts = "dictionary_entries eps"
  have "(MAX_U16, ?ts ! MAX_U16) \<in> set (enumerate 0 ?ts)"
    using assms by (simp add: in_set_enumerate_eq)
  moreover have "\<nexists>y. number_transition (MAX_U16, ?ts ! MAX_U16) = Inr y"
    by (cases "?ts ! MAX_U16") (simp add: number_transition_def)
  ultimately show ?thesis
    using map_result_all [of "enumerate 0 ?ts" number_transition]
    by (auto simp: derive_wire_plan_def dictionary_entries_def [symmetric])
qed

lemma derive_wire_plan_cases:
  assumes "derive_wire_plan eps = Inr w"
  shows "length (dictionary_entries eps) \<le> MAX_U16"
    and "w = \<lparr>wp_encoding = COMPACT_WIRE_FORMAT, wp_transitions = numbered (dictionary_entries eps)\<rparr>"
proof -
  show "length (dictionary_entries eps) \<le> MAX_U16"
    using assms derive_wire_plan_too_many [of eps] by (metis not_le sum.distinct(1))
  from derive_wire_plan_ok [OF this] assms
  show "w = \<lparr>wp_encoding = COMPACT_WIRE_FORMAT, wp_transitions = numbered (dictionary_entries eps)\<rparr>"
    by simp
qed

text \<open>The identifier of a transition is its position plus one, and positions fit in \<open>u16\<close>.\<close>

lemma unat_id:
  assumes "k < n" and "n \<le> MAX_U16"
  shows "unat (word_of_nat (k + 1) :: u16) = k + 1"
proof -
  have "unat (word_of_nat (k + 1) :: u16) = take_bit 16 (k + 1)"
    by (simp only: unsigned_of_nat) simp
  also have "\<dots> = k + 1"
    using assms by (simp only: MAX_U16_def) (simp add: take_bit_nat_eq_self)
  finally show ?thesis .
qed

lemma dictionary_sorted: "sorted_wrt (<) (dictionary_entries eps)"
  by (simp add: dictionary_entries_def bs_collect_sorted)

lemma dictionary_set: "set (dictionary_entries eps) = (\<Union>ep \<in> set eps. set (endpoint_transitions ep))"
  by (simp add: dictionary_entries_def)

lemma dictionary_cong:
  "(\<Union>ep \<in> set eps. set (endpoint_transitions ep)) = (\<Union>ep \<in> set eps'. set (endpoint_transitions ep))
   \<Longrightarrow> dictionary_entries eps = dictionary_entries eps'"
  unfolding dictionary_entries_def by (rule bs_collect_cong) simp

text \<open>The transitions of the global graph, which both projections repeat.\<close>

fun global_transitions :: "global_state \<Rightarrow> (string \<times> wire_operation) list" where
  "global_transitions (GSend i from to message _ _ _) = [(i, WData from to message)]"
| "global_transitions (GChoice i chooser branches _) =
     map (\<lambda>label. (i, WSelect chooser label)) (bt_keys branches)"
| "global_transitions (GCancel i from to scope _ _) = [(i, WCancel from to scope)]"
| "global_transitions (GEnd _) = []"
| "global_transitions (GFail _ _) = []"

lemma project_transitions:
  assumes "wf_state c s" and "role_pair c p q"
  shows "state_transitions p (project_state s p) = global_transitions s"
  using assms by (cases s) (auto simp: role_pair_def)

definition graph_transitions :: "'v conversation \<Rightarrow> (string \<times> wire_operation) set" where
  "graph_transitions c = (\<Union>s \<in> set (conv_states c). set (global_transitions s))"

lemma endpoint_transitions_project:
  assumes "well_formed c" and "r \<in> set (conv_roles c)"
  shows "set (endpoint_transitions (project_role c r)) = graph_transitions c"
proof -
  obtain a b where "conv_roles c = [a, b]" "role_pair c (role_id a) (role_id b)"
    using assms(1) by (rule well_formed_roles)
  with assms(2) obtain q where "role_pair c (role_id r) q" by (auto intro: role_pair_sym)
  then have "state_transitions (role_id r) (project_state s (role_id r)) = global_transitions s"
    if "s \<in> set (conv_states c)" for s
    using project_transitions wf_states [OF assms(1) that] by blast
  then show ?thesis
    by (simp add: endpoint_transitions_def graph_transitions_def)
qed

lemma dictionary_graph:
  assumes "well_formed c" and "set eps = set (project_validated c)"
  shows "set (dictionary_entries eps) = graph_transitions c"
proof -
  obtain a b where "conv_roles c = [a, b]" "role_pair c (role_id a) (role_id b)"
    using assms(1) by (rule well_formed_roles)
  with assms show ?thesis
    by (auto simp: dictionary_set project_validated_def endpoint_transitions_project)
qed

end
