(* ===== verification/Plan.thy ===== *)
theory Plan
  imports Wire
begin

text \<open>
  \<open>ColloqPlan\<close> and \<open>PreparedPlan\<close> of \<open>src/src/plan.rs\<close>: compilation, verification of a
  deserialised plan, and preparation for sessions.  The JSON encoders of \<open>serde_json\<close> and the
  digest of \<open>sha2\<close> are the fields of \<open>externals\<close>, an argument of every definition that calls
  them.
\<close>

section \<open>Plans\<close>

definition PLAN_FORMAT :: string where
  "PLAN_FORMAT = ''0.1.0''"

record colloq_plan =
  pl_format :: string
  pl_conversation :: string
  pl_conversation_identity :: string
  pl_plan_identity :: string
  pl_endpoints :: "endpoint list"
  pl_wire :: "wire_plan option"

record semantic_plan =
  sp_format :: string
  sp_conversation :: string
  sp_conversation_identity :: string
  sp_endpoints :: "endpoint list"
  sp_wire :: "wire_plan option"

record 'v externals =
  ext_sha256 :: "byte list \<Rightarrow> byte list"
  ext_conversation_json :: "'v conversation \<Rightarrow> string + byte list"
  ext_plan_json :: "semantic_plan \<Rightarrow> string + byte list"

datatype plan_error =
    InvalidConversation validation_errors
  | PlanCodec string
  | PlanVersion string string  \<comment> \<open>actual, expected\<close>
  | PlanIdentityMismatch string string  \<comment> \<open>declared, calculated\<close>
  | PlanInvalid string

record prepared_plan =
  pp_conversation :: string
  pp_conversation_identity :: string
  pp_plan_identity :: string
  pp_endpoints :: "endpoint list"
  pp_wire :: wire_plan

section \<open>Identities\<close>

definition conversation_identity_validated :: "'v externals \<Rightarrow> 'v conversation \<Rightarrow> plan_error + string" where
  "conversation_identity_validated ext c =
     (let semantic = c\<lparr>conv_schema := None, conv_annotations := []\<rparr>
      in and_then (map_err PlanCodec (ext_conversation_json ext semantic)) (\<lambda>encoded.
           Inr (sha256_identity (ext_sha256 ext) encoded)))"

definition conversation_identity :: "'v externals \<Rightarrow> 'v conversation \<Rightarrow> plan_error + string" where
  "conversation_identity ext c =
     and_then (map_err InvalidConversation (validate c)) (\<lambda>_. conversation_identity_validated ext c)"

definition semantic_part :: "colloq_plan \<Rightarrow> semantic_plan" where
  \<comment> \<open>the \<open>SemanticPlan\<close> of \<open>calculate_identity\<close>: every field but the plan identity\<close>
  "semantic_part p = \<lparr>sp_format = pl_format p, sp_conversation = pl_conversation p,
     sp_conversation_identity = pl_conversation_identity p,
     sp_endpoints = pl_endpoints p, sp_wire = pl_wire p\<rparr>"

definition calculate_identity :: "'v externals \<Rightarrow> colloq_plan \<Rightarrow> plan_error + string" where
  "calculate_identity ext p =
     and_then (map_err PlanCodec (ext_plan_json ext (semantic_part p))) (\<lambda>encoded.
       Inr (sha256_identity (ext_sha256 ext) encoded))"

section \<open>Verification\<close>

fun endpoint_successors :: "endpoint_state \<Rightarrow> string list" where
  "endpoint_successors (ESend _ _ _ next _ on_failure) = next # bt_values on_failure"
| "endpoint_successors (EReceive _ _ _ next _ on_failure) = next # bt_values on_failure"
| "endpoint_successors (ESendCancel _ _ _ next on_failure) = next # bt_values on_failure"
| "endpoint_successors (EReceiveCancel _ _ _ next on_failure) = next # bt_values on_failure"
| "endpoint_successors (ESelect _ branches on_failure) = bt_values branches @ bt_values on_failure"
| "endpoint_successors (EBranch _ _ branches on_failure) = bt_values branches @ bt_values on_failure"
| "endpoint_successors (EEnd _) = []"
| "endpoint_successors (EFail _ _) = []"

fun endpoint_peer :: "endpoint_state \<Rightarrow> string option" where
  "endpoint_peer (ESend _ to _ _ _ _) = Some to"
| "endpoint_peer (ESendCancel _ to _ _ _) = Some to"
| "endpoint_peer (EReceive _ from _ _ _ _) = Some from"
| "endpoint_peer (EBranch _ from _ _) = Some from"
| "endpoint_peer (EReceiveCancel _ from _ _ _) = Some from"
| "endpoint_peer (ESelect _ _ _) = None"
| "endpoint_peer (EEnd _) = None"
| "endpoint_peer (EFail _ _) = None"

definition verify_state :: "string \<Rightarrow> string btree_set \<Rightarrow> string btree_set \<Rightarrow> endpoint_state
    \<Rightarrow> plan_error + unit" where
  "verify_state role ids roles state =
     and_then (guard_err (\<not> valid_id (eid state))
       (PlanInvalid (''endpoint '' @ role @ '' contains invalid state ID '' @ eid state))) (\<lambda>_.
     and_then (check_all (\<lambda>target. guard_err (target \<notin> set ids)
         (PlanInvalid (''endpoint '' @ role @ '' state '' @ eid state
            @ '' targets unknown state '' @ target)))
       (endpoint_successors state)) (\<lambda>_.
     case endpoint_peer state of
       None \<Rightarrow> Inr ()
     | Some peer \<Rightarrow> guard_err (peer \<notin> set roles)
         (PlanInvalid (''endpoint '' @ role @ '' state '' @ eid state
            @ '' references unknown role '' @ peer))))"

definition verify_endpoint :: "endpoint \<Rightarrow> string \<Rightarrow> string btree_set \<Rightarrow> plan_error + unit" where
  "verify_endpoint ep conversation roles =
     and_then (guard_err (ep_format ep \<noteq> ENDPOINT_FORMAT)
       (PlanInvalid (''endpoint '' @ ep_role ep @ '' uses unsupported format '' @ ep_format ep))) (\<lambda>_.
     and_then (guard_err (\<not> valid_id (ep_role ep) \<or> \<not> valid_id (ep_initial ep))
       (PlanInvalid (''endpoint '' @ ep_role ep @ '' has an invalid role or initial state ID''))) (\<lambda>_.
     and_then (guard_err (ep_conversation ep \<noteq> conversation)
       (PlanInvalid (''endpoint '' @ ep_role ep @ '' names conversation '' @ ep_conversation ep
          @ ''; expected '' @ conversation))) (\<lambda>_.
     and_then (guard_err (ep_states ep = [])
       (PlanInvalid (''endpoint '' @ ep_role ep @ '' has no states''))) (\<lambda>_.
     let ids = bs_collect (map eid (ep_states ep)) in
     and_then (guard_err (length ids \<noteq> length (ep_states ep))
       (PlanInvalid (''endpoint '' @ ep_role ep @ '' contains duplicate state IDs''))) (\<lambda>_.
     and_then (guard_err (ep_initial ep \<notin> set ids)
       (PlanInvalid (''endpoint '' @ ep_role ep @ '' initial state '' @ ep_initial ep
          @ '' does not exist''))) (\<lambda>_.
     check_all (verify_state (ep_role ep) ids roles) (ep_states ep)))))))"

definition verify :: "'v externals \<Rightarrow> colloq_plan \<Rightarrow> plan_error + unit" where
  "verify ext p =
     and_then (guard_err (pl_format p \<noteq> PLAN_FORMAT) (PlanVersion (pl_format p) PLAN_FORMAT)) (\<lambda>_.
     and_then (guard_err (\<not> valid_id (pl_conversation p) \<or> \<not> valid_sha256 (pl_conversation_identity p))
       (PlanInvalid ''conversation or conversation_identity has an invalid representation'')) (\<lambda>_.
     and_then (guard_err (length (pl_endpoints p) \<noteq> 2)
       (PlanInvalid ''Colloq Plan v0 requires exactly two endpoints'')) (\<lambda>_.
     let roles = bs_collect (map ep_role (pl_endpoints p)) in
     and_then (guard_err (length roles \<noteq> length (pl_endpoints p))
       (PlanInvalid ''endpoint roles must be unique'')) (\<lambda>_.
     and_then (check_all (\<lambda>ep. verify_endpoint ep (pl_conversation p) roles) (pl_endpoints p)) (\<lambda>_.
     and_then (calculate_identity ext p) (\<lambda>calculated.
     and_then (guard_err (pl_plan_identity p \<noteq> calculated)
       (PlanIdentityMismatch (pl_plan_identity p) calculated)) (\<lambda>_.
     case pl_wire p of
       None \<Rightarrow> Inr ()
     | Some wire \<Rightarrow>
         and_then (map_err PlanInvalid (derive_wire_plan (pl_endpoints p))) (\<lambda>expected.
           guard_err (wire \<noteq> expected)
             (PlanInvalid ''compact wire transition table is not the deterministic projection'')))))))))"

section \<open>Compilation and preparation\<close>

definition compile :: "'v externals \<Rightarrow> 'v conversation \<Rightarrow> plan_error + colloq_plan" where
  "compile ext c =
     and_then (map_err InvalidConversation (validate c)) (\<lambda>_.
     and_then (conversation_identity_validated ext c) (\<lambda>identity.
     let endpoints = sort_key ep_role (project_validated c) in
     and_then (map_err PlanInvalid (derive_wire_plan endpoints)) (\<lambda>wire.
     let plan = \<lparr>pl_format = PLAN_FORMAT, pl_conversation = module_id (conv_module c),
                 pl_conversation_identity = identity, pl_plan_identity = [],
                 pl_endpoints = endpoints, pl_wire = Some wire\<rparr> in
     and_then (calculate_identity ext plan) (\<lambda>plan_identity.
     let plan = plan\<lparr>pl_plan_identity := plan_identity\<rparr> in
     and_then (verify ext plan) (\<lambda>_. Inr plan)))))"

definition find_endpoint :: "string \<Rightarrow> endpoint list \<Rightarrow> endpoint option" where
  \<comment> \<open>\<open>endpoint(&self, role)\<close> of both plan types\<close>
  "find_endpoint role endpoints = find (\<lambda>ep. ep_role ep = role) endpoints"

definition prepared :: "colloq_plan \<Rightarrow> plan_error + prepared_plan" where
  "prepared p =
     and_then (case pl_wire p of
         Some wire \<Rightarrow> Inr wire
       | None \<Rightarrow> map_err PlanInvalid (derive_wire_plan (pl_endpoints p))) (\<lambda>wire.
       Inr \<lparr>pp_conversation = pl_conversation p,
            pp_conversation_identity = pl_conversation_identity p,
            pp_plan_identity = pl_plan_identity p,
            pp_endpoints = pl_endpoints p,
            pp_wire = wire\<rparr>)"

definition prepare :: "'v externals \<Rightarrow> colloq_plan \<Rightarrow> plan_error + prepared_plan" where
  "prepare ext p = and_then (verify ext p) (\<lambda>_. prepared p)"

definition compile_prepared :: "'v externals \<Rightarrow> 'v conversation \<Rightarrow> plan_error + prepared_plan" where
  \<comment> \<open>\<open>PreparedPlan::compile\<close>\<close>
  "compile_prepared ext c = and_then (compile ext c) prepared"

end
