(* ===== verification/Plan_Correct.thy ===== *)
theory Plan_Correct
  imports Plan
begin

text \<open>
  What \<open>verify\<close> establishes and when \<open>compile\<close> succeeds, in declarative form.
\<close>

section \<open>The verifier\<close>

definition endpoint_sound :: "string \<Rightarrow> string set \<Rightarrow> endpoint \<Rightarrow> bool" where
  "endpoint_sound conversation roles ep \<longleftrightarrow>
     ep_format ep = ENDPOINT_FORMAT \<and> valid_id (ep_role ep) \<and> ep_conversation ep = conversation \<and>
     distinct (map eid (ep_states ep)) \<and> ep_initial ep \<in> eid ` set (ep_states ep) \<and>
     (\<forall>s \<in> set (ep_states ep). valid_id (eid s) \<and>
        set (endpoint_successors s) \<subseteq> eid ` set (ep_states ep) \<and>
        (\<forall>peer. endpoint_peer s = Some peer \<longrightarrow> peer \<in> roles))"

definition plan_sound :: "'v externals \<Rightarrow> colloq_plan \<Rightarrow> bool" where
  "plan_sound ext p \<longleftrightarrow>
     pl_format p = PLAN_FORMAT \<and> valid_id (pl_conversation p) \<and>
     valid_sha256 (pl_conversation_identity p) \<and>
     length (pl_endpoints p) = 2 \<and> distinct (map ep_role (pl_endpoints p)) \<and>
     (\<forall>ep \<in> set (pl_endpoints p).
        endpoint_sound (pl_conversation p) (ep_role ` set (pl_endpoints p)) ep) \<and>
     calculate_identity ext p = Inr (pl_plan_identity p) \<and>
     (\<forall>wire. pl_wire p = Some wire \<longrightarrow> derive_wire_plan (pl_endpoints p) = Inr wire)"

lemma verify_state_ok:
  "verify_state role ids roles s = Inr u \<longleftrightarrow>
     valid_id (eid s) \<and> set (endpoint_successors s) \<subseteq> set ids \<and>
     (\<forall>peer. endpoint_peer s = Some peer \<longrightarrow> peer \<in> set roles)"
  by (auto simp: verify_state_def result_simps split: option.splits)

lemma verify_endpoint_ok:
  "verify_endpoint ep conversation roles = Inr u \<longleftrightarrow> endpoint_sound conversation (set roles) ep"
proof -
  have init: "ep_initial ep \<in> eid ` set (ep_states ep) \<Longrightarrow>
      \<forall>s \<in> set (ep_states ep). valid_id (eid s) \<Longrightarrow> valid_id (ep_initial ep)" by auto
  have len: "length (bs_collect (map eid (ep_states ep))) = length (ep_states ep) \<longleftrightarrow>
      distinct (map eid (ep_states ep))"
    using bs_collect_length_distinct [of "map eid (ep_states ep)"] by simp
  show ?thesis
    unfolding verify_endpoint_def endpoint_sound_def
    by (auto simp: result_simps Let_def verify_state_ok len dest: init)
qed

lemma verify_ok: "verify ext p = Inr u \<longleftrightarrow> plan_sound ext p"
proof -
  have len: "length (bs_collect (map ep_role (pl_endpoints p))) = length (pl_endpoints p) \<longleftrightarrow>
      distinct (map ep_role (pl_endpoints p))"
    using bs_collect_length_distinct [of "map ep_role (pl_endpoints p)"] by simp
  show ?thesis
    unfolding verify_def plan_sound_def
    by (auto simp: result_simps Let_def verify_endpoint_ok len split: option.splits)
qed

section \<open>The compiler\<close>

definition ids_valid :: "'v conversation \<Rightarrow> bool" where
  "ids_valid c \<longleftrightarrow> valid_id (module_id (conv_module c)) \<and>
     (\<forall>r \<in> set (conv_roles c). valid_id (role_id r)) \<and>
     (\<forall>s \<in> set (conv_states c). valid_id (gid s))"

lemma endpoint_successors_project [simp]: "endpoint_successors (project_state s r) = successors s"
  by (cases s) auto

lemma endpoint_peer_project:
  "wf_state c s \<Longrightarrow> endpoint_peer (project_state s r) = Some peer \<Longrightarrow> peer \<in> role_ids c"
  by (cases s) (auto split: if_splits)

lemma project_role_sound:
  assumes "well_formed c" and "ids_valid c" and "r \<in> set (conv_roles c)"
  shows "endpoint_sound (module_id (conv_module c)) (role_ids c) (project_role c r)"
proof -
  have ids: "eid ` set (ep_states (project_role c r)) = state_ids c"
    by (simp add: state_ids_def image_image)
  have succ: "set (successors s) \<subseteq> state_ids c" if "s \<in> set (conv_states c)" for s
    using wf_successors [OF wf_states [OF assms(1) that]] by blast
  show ?thesis
    unfolding endpoint_sound_def ids
    using assms(2,3) wf_initial [OF assms(1)] wf_distinct [OF assms(1)] succ
    by (auto simp: ids_valid_def comp_def dest: endpoint_peer_project [OF wf_states [OF assms(1)]])
qed

definition compiled_endpoints :: "'v conversation \<Rightarrow> endpoint list" where
  "compiled_endpoints c = sort_key ep_role (project_validated c)"

lemma compiled_endpoints_set [simp]:
  "set (compiled_endpoints c) = project_role c ` set (conv_roles c)"
  "length (compiled_endpoints c) = length (conv_roles c)"
  by (simp_all add: compiled_endpoints_def project_validated_def)

lemma compiled_endpoints_roles:
  "ep_role ` project_role c ` set (conv_roles c) = role_ids c"
  by (simp add: image_image role_ids_def)

lemma compiled_endpoints_distinct:
  assumes "well_formed c"
  shows "distinct (map ep_role (compiled_endpoints c))"
proof -
  have "distinct (map ep_role (project_validated c))"
    using assms by (simp add: well_formed_def ids_unique_def project_validated_def comp_def)
  then show ?thesis by (simp add: distinct_map compiled_endpoints_def)
qed

text \<open>
  A well-formed conversation compiles, provided its identifiers follow the grammar of the plan
  format, its transitions fit in \<open>u16\<close>, and the encoders and the digest work.  The plan is
  the one spelled out here.
\<close>

definition compiled_wire :: "'v conversation \<Rightarrow> wire_plan" where
  "compiled_wire c = \<lparr>wp_encoding = COMPACT_WIRE_FORMAT,
     wp_transitions = numbered (dictionary_entries (compiled_endpoints c))\<rparr>"

lemma compile_shape:
  assumes "compile ext c = Inr p"
  shows "well_formed c" and "plan_sound ext p"
    and "pl_conversation p = module_id (conv_module c)"
    and "conversation_identity_validated ext c = Inr (pl_conversation_identity p)"
    and "pl_endpoints p = compiled_endpoints c" and "pl_wire p = Some (compiled_wire c)"
proof -
  from assms obtain w where w: "derive_wire_plan (compiled_endpoints c) = Inr w"
      "pl_wire p = Some w"
    and rest: "validate c = Inr ()" "verify ext p = Inr ()"
      "conversation_identity_validated ext c = Inr (pl_conversation_identity p)"
      "pl_conversation p = module_id (conv_module c)" "pl_endpoints p = compiled_endpoints c"
    by (auto simp: compile_def compiled_endpoints_def Let_def result_simps)
  from rest show "well_formed c" and "plan_sound ext p"
    and "conversation_identity_validated ext c = Inr (pl_conversation_identity p)"
    and "pl_conversation p = module_id (conv_module c)" and "pl_endpoints p = compiled_endpoints c"
    by (simp_all add: validate_ok_iff verify_ok)
  from derive_wire_plan_cases(2) [OF w(1)] w(2) show "pl_wire p = Some (compiled_wire c)"
    by (simp add: compiled_wire_def)
qed

lemma compile_succeeds:
  fixes ext :: "'v externals"
  assumes wf: "well_formed c" and ids: "ids_valid c"
    and few: "length (dictionary_entries (compiled_endpoints c)) \<le> MAX_U16"
    and sha: "\<And>bs. length (ext_sha256 ext bs) = 32"
    and json: "\<And>c. \<exists>bs. ext_conversation_json ext c = Inr bs"
      "\<And>sp. \<exists>bs. ext_plan_json ext sp = Inr bs"
  shows "\<exists>p. compile ext c = Inr p"
proof -
  obtain identity where identity: "conversation_identity_validated ext c = Inr identity"
      "valid_sha256 identity"
    using json(1) [of "c\<lparr>conv_schema := None, conv_annotations := []\<rparr>"]
    by (auto simp: conversation_identity_validated_def Let_def sha valid_sha256_identity)
  have wire: "derive_wire_plan (compiled_endpoints c) = Inr (compiled_wire c)"
    using derive_wire_plan_ok [OF few] by (simp add: compiled_wire_def)
  define plan where "plan = \<lparr>pl_format = PLAN_FORMAT, pl_conversation = module_id (conv_module c),
    pl_conversation_identity = identity, pl_plan_identity = [],
    pl_endpoints = compiled_endpoints c, pl_wire = Some (compiled_wire c)\<rparr>"
  obtain pid where pid: "calculate_identity ext plan = Inr pid"
    using json(2) [of "semantic_part plan"]
    by (auto simp: calculate_identity_def)
  have pid': "calculate_identity ext (plan\<lparr>pl_plan_identity := pid\<rparr>) = Inr pid"
    using pid by (simp add: calculate_identity_def semantic_part_def)
  have "length (conv_roles c) = 2" using wf by (simp add: well_formed_def)
  then have "plan_sound ext (plan\<lparr>pl_plan_identity := pid\<rparr>)"
    using ids project_role_sound [OF wf ids] identity(2) wire compiled_endpoints_distinct [OF wf]
    unfolding plan_sound_def pid'
    by (simp add: plan_def compiled_endpoints_roles ids_valid_def)
  then have "verify ext (plan\<lparr>pl_plan_identity := pid\<rparr>) = Inr ()" by (simp add: verify_ok)
  then have "compile ext c = Inr (plan\<lparr>pl_plan_identity := pid\<rparr>)"
    using wf identity(1) wire pid
    by (simp add: compile_def validate_ok_iff [symmetric] compiled_endpoints_def [symmetric] Let_def
        plan_def)
  then show ?thesis by blast
qed

lemma compile_prepared_shape:
  assumes "compile_prepared ext c = Inr pp"
  obtains p where "compile ext c = Inr p"
    and "pp = \<lparr>pp_conversation = pl_conversation p,
      pp_conversation_identity = pl_conversation_identity p,
      pp_plan_identity = pl_plan_identity p, pp_endpoints = compiled_endpoints c,
      pp_wire = compiled_wire c\<rparr>"
  using assms compile_shape
  by (fastforce simp: compile_prepared_def prepared_def result_simps)

end
