(* ===== verification/Machine.thy ===== *)
theory Machine
  imports Plan_Correct
begin

text \<open>
  \<open>EndpointMachine\<close> of \<open>src/src/runtime.rs\<close>: the local state machine a role runs over its
  projected endpoint.  Operations that take \<open>&mut self\<close> return the new machine; all of them
  leave the machine as it was when they return an error.  The \<open>expect\<close> of a missing state is
  the error \<open>RtPanic\<close>.  \<open>sequence += 1\<close> is addition on 64-bit words, as in a release build.
\<close>

section \<open>Envelopes and errors\<close>

definition WIRE_FORMAT :: string where
  "WIRE_FORMAT = ''0.1.0''"

record 'v envelope =
  env_wire :: string
  env_conversation :: string
  env_identity :: string
  env_state :: string
  env_sequence :: u64
  env_frame :: "'v frame"

datatype io_kind =
    TimedOut | WouldBlock | ConnectionReset | ConnectionRefused | AddrNotAvailable | NotConnected
  | OtherIo string

text \<open>
  The values a \<open>Protocol\<close>, \<open>CompactWire\<close> or \<open>Application\<close> error renders into its text are kept
  as values, one constructor per message.
\<close>

datatype 'v error_detail =
    UndeclaredFailure string
  | LocalAction endpoint_state
  | UnknownBranch string "string list"
  | ReceivedFrame endpoint_state "'v frame"

datatype 'v compact_detail =
    CompactConversation string string
  | CompactIdentity string string
  | NoTransition string "'v frame"
  | FaultNotTransmitted
  | UnknownTransition u16
  | ControlPayload

datatype 'v application_detail =
    AppText string
  | AppFrame string "'v frame"

datatype 'v runtime_error =
    RtPlan plan_error
  | RtUnknownRole string
  | RtCodec string
  | RtCompactWire "'v compact_detail"
  | RtSessionRequired string
  | RtSessionMismatch string string string
  | RtSessionRejected string
  | RtIo io_kind
  | RtTransportClosed string
  | RtEnvelopeTooLarge nat nat
  | RtSessionPrefaceTooLarge nat nat
  | RtWireVersion string string
  | RtConversationMismatch string string string
  | RtIdentityMismatch string string string
  | RtStateMismatch string string string
  | RtSequenceMismatch string u64 u64
  | RtProtocol string string string "'v error_detail"
  | RtApplication "'v application_detail"
  | RtWorkerPanicked
  | RtQuic string
  | RtIroh string
  | RtIrohPeerIdentity string string
  | RtInjectedFailure string string nat string
  | RtPanic string

fun io_failure :: "io_kind \<Rightarrow> string" where
  "io_failure TimedOut = ''transport.timeout''"
| "io_failure WouldBlock = ''transport.timeout''"
| "io_failure ConnectionReset = ''transport.reset''"
| "io_failure ConnectionRefused = ''transport.unreachable''"
| "io_failure AddrNotAvailable = ''transport.unreachable''"
| "io_failure NotConnected = ''transport.unreachable''"
| "io_failure (OtherIo _) = ''transport.closed''"

fun transport_failure :: "'v runtime_error \<Rightarrow> string option" where
  "transport_failure (RtIo kind) = Some (io_failure kind)"
| "transport_failure (RtTransportClosed _) = Some ''transport.closed''"
| "transport_failure (RtQuic _) = Some ''transport.closed''"
| "transport_failure (RtIroh _) = Some ''transport.closed''"
| "transport_failure (RtInjectedFailure _ _ _ failure) = Some failure"
| "transport_failure _ = None"

section \<open>The machine\<close>

record machine =
  m_endpoint :: endpoint
  m_identity :: string
  m_plan_identity :: string
  m_current :: string
  m_sequence :: u64

definition from_plan :: "prepared_plan \<Rightarrow> string \<Rightarrow> 'v runtime_error + machine" where
  "from_plan plan role =
     and_then (ok_or (RtUnknownRole role) (find_endpoint role (pp_endpoints plan))) (\<lambda>endpoint.
       Inr \<lparr>m_endpoint = endpoint,
            m_identity = pp_conversation_identity plan,
            m_plan_identity = pp_plan_identity plan,
            m_current = ep_initial endpoint,
            m_sequence = 0\<rparr>)"

definition for_role :: "'v externals \<Rightarrow> 'v conversation \<Rightarrow> string \<Rightarrow> 'v runtime_error + machine" where
  "for_role ext c role =
     and_then (map_err RtPlan (compile_prepared ext c)) (\<lambda>plan. from_plan plan role)"

abbreviation m_role :: "machine \<Rightarrow> string" where
  "m_role m \<equiv> ep_role (m_endpoint m)"

abbreviation m_conversation :: "machine \<Rightarrow> string" where
  "m_conversation m \<equiv> ep_conversation (m_endpoint m)"

definition state_at :: "machine \<Rightarrow> string \<Rightarrow> 'v runtime_error + endpoint_state" where
  "state_at m i =
     ok_or (RtPanic ''a projected endpoint contains every validated state'')
       (find (\<lambda>s. eid s = i) (ep_states (m_endpoint m)))"

definition state_of :: "machine \<Rightarrow> 'v runtime_error + endpoint_state" where
  "state_of m = state_at m (m_current m)"

definition is_complete :: "machine \<Rightarrow> 'v runtime_error + bool" where
  "is_complete m = and_then (state_of m) (\<lambda>s.
     Inr (case s of EEnd _ \<Rightarrow> True | EFail _ _ \<Rightarrow> True | _ \<Rightarrow> False))"

definition is_successful :: "machine \<Rightarrow> 'v runtime_error + bool" where
  "is_successful m = and_then (state_of m) (\<lambda>s. Inr (case s of EEnd _ \<Rightarrow> True | _ \<Rightarrow> False))"

definition machine_failure :: "machine \<Rightarrow> 'v runtime_error + string option" where
  "machine_failure m = and_then (state_of m) (\<lambda>s.
     Inr (case s of EFail _ failure \<Rightarrow> Some failure | _ \<Rightarrow> None))"

definition protocol_error :: "machine \<Rightarrow> string \<Rightarrow> 'v error_detail \<Rightarrow> 'v runtime_error" where
  "protocol_error m action detail = RtProtocol (m_role m) (m_current m) action detail"

definition emit :: "machine \<Rightarrow> 'v frame \<Rightarrow> string \<Rightarrow> 'v envelope \<times> machine" where
  "emit m frame next =
     (\<lparr>env_wire = WIRE_FORMAT, env_conversation = m_conversation m, env_identity = m_identity m,
       env_state = m_current m, env_sequence = m_sequence m, env_frame = frame\<rparr>,
      m\<lparr>m_current := next, m_sequence := m_sequence m + 1\<rparr>)"

definition emit_data :: "machine \<Rightarrow> 'v \<Rightarrow> 'v runtime_error + ('v envelope \<times> machine)" where
  "emit_data m payload =
     and_then (state_of m) (\<lambda>state.
       case state of
         ESend _ to message next _ _ \<Rightarrow>
           Inr (emit m (FData (m_role m) to message (Some payload)) next)
       | _ \<Rightarrow> Inl (protocol_error m ''send data'' (LocalAction state)))"

definition emit_select :: "machine \<Rightarrow> string \<Rightarrow> 'v runtime_error + ('v envelope \<times> machine)" where
  "emit_select m label =
     and_then (state_of m) (\<lambda>state.
       case state of
         ESelect _ branches _ \<Rightarrow>
           and_then (ok_or (protocol_error m ''select branch'' (UnknownBranch label (bt_keys branches)))
               (bt_get branches label)) (\<lambda>next.
             Inr (emit m (FSelect (m_role m) label) next))
       | _ \<Rightarrow> Inl (protocol_error m ''select branch'' (LocalAction state)))"

definition emit_cancel :: "machine \<Rightarrow> 'v runtime_error + ('v envelope \<times> machine)" where
  "emit_cancel m =
     and_then (state_of m) (\<lambda>state.
       case state of
         ESendCancel _ to scope next _ \<Rightarrow> Inr (emit m (FCancel (m_role m) to scope) next)
       | _ \<Rightarrow> Inl (protocol_error m ''send cancellation'' (LocalAction state)))"

definition validate_envelope :: "machine \<Rightarrow> 'v envelope \<Rightarrow> 'v runtime_error + unit" where
  "validate_envelope m e =
     and_then (guard_err (env_wire e \<noteq> WIRE_FORMAT) (RtWireVersion (env_wire e) WIRE_FORMAT)) (\<lambda>_.
     and_then (guard_err (env_conversation e \<noteq> m_conversation m)
       (RtConversationMismatch (m_role m) (m_conversation m) (env_conversation e))) (\<lambda>_.
     and_then (guard_err (env_identity e \<noteq> m_identity m)
       (RtIdentityMismatch (m_role m) (m_identity m) (env_identity e))) (\<lambda>_.
     and_then (guard_err (env_state e \<noteq> m_current m)
       (RtStateMismatch (m_role m) (m_current m) (env_state e))) (\<lambda>_.
     guard_err (env_sequence e \<noteq> m_sequence m)
       (RtSequenceMismatch (m_role m) (m_sequence m) (env_sequence e))))))"

fun receive_target :: "string \<Rightarrow> endpoint_state \<Rightarrow> 'v frame \<Rightarrow> string option" where
  \<comment> \<open>the accepting arms of \<open>accept\<close>; \<open>None\<close> is its last arm\<close>
  "receive_target role (EReceive _ from message next _ _) (FData afrom to amessage _) =
     (if from = afrom \<and> role = to \<and> message = amessage then Some next else None)"
| "receive_target role (EBranch _ from branches _) (FSelect by label) =
     (if from = by \<and> bt_contains branches label then bt_get branches label else None)"
| "receive_target role (EReceiveCancel _ from scope next _) (FCancel afrom to ascope) =
     (if from = afrom \<and> role = to \<and> scope = ascope then Some next else None)"
| "receive_target role _ _ = None"

definition accept :: "machine \<Rightarrow> 'v envelope \<Rightarrow> 'v runtime_error + ('v frame \<times> machine)" where
  "accept m e =
     and_then (validate_envelope m e) (\<lambda>_.
     and_then (state_of m) (\<lambda>state.
       case receive_target (m_role m) state (env_frame e) of
         Some next \<Rightarrow>
           Inr (env_frame e, m\<lparr>m_current := next, m_sequence := m_sequence m + 1\<rparr>)
       | None \<Rightarrow> Inl (protocol_error m ''receive frame'' (ReceivedFrame state (env_frame e)))))"

definition observe_failure_at :: "machine \<Rightarrow> string \<Rightarrow> string
    \<Rightarrow> 'v runtime_error + ('v frame \<times> machine)" where
  "observe_failure_at m i failure =
     and_then (state_at m i) (\<lambda>state.
     and_then (ok_or (RtProtocol (m_role m) i ''observe failure'' (UndeclaredFailure failure))
         (efailure_target state failure)) (\<lambda>next.
       Inr (FFault (m_role m) failure,
            m\<lparr>m_current := next,
              m_sequence := (if m_current m = i then m_sequence m + 1 else m_sequence m)\<rparr>)))"

definition observe_failure :: "machine \<Rightarrow> string \<Rightarrow> 'v runtime_error + ('v frame \<times> machine)" where
  "observe_failure m failure = observe_failure_at m (m_current m) failure"

text \<open>Any of the three emitting operations, as a relation.\<close>

inductive emits :: "machine \<Rightarrow> 'v envelope \<Rightarrow> machine \<Rightarrow> bool" where
  emits_data: "emit_data m payload = Inr (e, m') \<Longrightarrow> emits m e m'"
| emits_select: "emit_select m label = Inr (e, m') \<Longrightarrow> emits m e m'"
| emits_cancel: "emit_cancel m = Inr (e, m') \<Longrightarrow> emits m e m'"

section \<open>The machine keeps to its endpoint\<close>

definition machine_ok :: "machine \<Rightarrow> bool" where
  "machine_ok m \<longleftrightarrow> distinct (map eid (ep_states (m_endpoint m))) \<and>
     m_current m \<in> eid ` set (ep_states (m_endpoint m)) \<and>
     (\<forall>s \<in> set (ep_states (m_endpoint m)).
        set (endpoint_successors s) \<subseteq> eid ` set (ep_states (m_endpoint m)))"

lemma machine_ok_state:
  assumes "machine_ok m"
  obtains s where "state_of m = Inr s" and "s \<in> set (ep_states (m_endpoint m))"
    and "eid s = m_current m"
proof -
  obtain s where s: "find (\<lambda>s. eid s = m_current m) (ep_states (m_endpoint m)) = Some s"
    using assms find_key_ex [of eid "m_current m" "ep_states (m_endpoint m)"]
    by (auto simp: machine_ok_def)
  with that find_key_SomeD [OF s] show ?thesis by (simp add: state_of_def state_at_def)
qed

lemma efailure_target_successor: "efailure_target s f = Some t \<Longrightarrow> t \<in> set (endpoint_successors s)"
  by (cases s) (auto dest: bt_get_value)

lemma receive_target_successor:
  "receive_target role s f = Some t \<Longrightarrow> t \<in> set (endpoint_successors s)"
  by (induction role s f rule: receive_target.induct) (auto split: if_splits dest: bt_get_value)

text \<open>What a successful operation changes: the state moves along an edge, nothing else but the counter.\<close>

definition advances :: "machine \<Rightarrow> machine \<Rightarrow> bool" where
  "advances m m' \<longleftrightarrow> m_endpoint m' = m_endpoint m \<and> m_identity m' = m_identity m \<and>
     m_plan_identity m' = m_plan_identity m \<and>
     (\<exists>s \<in> set (ep_states (m_endpoint m)). m_current m' \<in> set (endpoint_successors s))"

lemma advances_ok: "machine_ok m \<Longrightarrow> advances m m' \<Longrightarrow> machine_ok m'"
  by (auto simp: machine_ok_def advances_def)

lemma state_of_in: "state_of m = Inr s \<Longrightarrow> s \<in> set (ep_states (m_endpoint m)) \<and> eid s = m_current m"
  by (auto simp: state_of_def state_at_def result_simps dest: find_key_SomeD)

lemma emit_data_Inr [result_simps]:
  "emit_data m payload = Inr (e, m') \<longleftrightarrow>
     (\<exists>i to message next d f. state_of m = (Inr (ESend i to message next d f) :: 'v runtime_error + _) \<and>
        (e, m') = emit m (FData (m_role m) to message (Some (payload :: 'v))) next)"
  by (cases "state_of m :: 'v runtime_error + _")
     (auto simp: emit_data_def split: endpoint_state.splits)

lemma emit_select_Inr [result_simps]:
  "emit_select m label = Inr (e :: 'v envelope, m') \<longleftrightarrow>
     (\<exists>i branches f next. state_of m = (Inr (ESelect i branches f) :: 'v runtime_error + _) \<and>
        bt_get branches label = Some next \<and> (e, m') = emit m (FSelect (m_role m) label) next)"
  by (cases "state_of m :: 'v runtime_error + _")
     (auto simp: emit_select_def result_simps split: endpoint_state.splits)

lemma emit_cancel_Inr [result_simps]:
  "emit_cancel m = Inr (e :: 'v envelope, m') \<longleftrightarrow>
     (\<exists>i to scope next f. state_of m = (Inr (ESendCancel i to scope next f) :: 'v runtime_error + _) \<and>
        (e, m') = emit m (FCancel (m_role m) to scope) next)"
  by (cases "state_of m :: 'v runtime_error + _")
     (auto simp: emit_cancel_def split: endpoint_state.splits)

lemma accept_Inr [result_simps]:
  "accept m e = Inr (f, m') \<longleftrightarrow>
     validate_envelope m e = Inr () \<and> f = env_frame e \<and>
     (\<exists>s next. state_of m = (Inr s :: 'v runtime_error + _) \<and>
        receive_target (m_role m) s (env_frame (e :: 'v envelope)) = Some next \<and>
        m' = m\<lparr>m_current := next, m_sequence := m_sequence m + 1\<rparr>)"
  by (auto simp: accept_def result_simps split: option.splits)

lemma validate_envelope_ok [result_simps]:
  "validate_envelope m e = Inr u \<longleftrightarrow>
     env_wire e = WIRE_FORMAT \<and> env_conversation e = m_conversation m \<and>
     env_identity e = m_identity m \<and> env_state e = m_current m \<and> env_sequence e = m_sequence m"
  by (auto simp: validate_envelope_def result_simps)

lemma emit_fields:
  assumes "(e, m') = emit m f next"
  shows "env_frame e = f" "env_state e = m_current m" "env_sequence e = m_sequence m"
    "env_conversation e = m_conversation m" "env_identity e = m_identity m" "env_wire e = WIRE_FORMAT"
    "m_endpoint m' = m_endpoint m" "m_identity m' = m_identity m"
    "m_plan_identity m' = m_plan_identity m" "m_current m' = next" "m_sequence m' = m_sequence m + 1"
  using assms by (simp_all add: emit_def)

lemma emits_fields:
  assumes "emits m e m'"
  shows "env_state e = m_current m" "env_sequence e = m_sequence m"
    "env_conversation e = m_conversation m" "env_identity e = m_identity m" "env_wire e = WIRE_FORMAT"
    "m_endpoint m' = m_endpoint m" "m_identity m' = m_identity m"
    "m_plan_identity m' = m_plan_identity m" "m_sequence m' = m_sequence m + 1"
  using assms by (cases, auto simp: result_simps dest: emit_fields)+

lemma emits_advances: "emits m e m' \<Longrightarrow> advances m m'"
  by (erule emits.cases)
     (force simp: result_simps advances_def emit_def dest!: state_of_in dest: bt_get_value)+

lemma accept_advances: "accept m e = Inr (f, m') \<Longrightarrow> advances m m'"
  by (auto simp: result_simps advances_def dest!: state_of_in receive_target_successor)

lemma observe_failure_at_Inr [result_simps]:
  "observe_failure_at m i failure = Inr (f :: 'v frame, m') \<longleftrightarrow>
     f = FFault (m_role m) failure \<and>
     (\<exists>s next. state_at m i = (Inr s :: 'v runtime_error + _) \<and> efailure_target s failure = Some next \<and>
        m' = m\<lparr>m_current := next,
              m_sequence := (if m_current m = i then m_sequence m + 1 else m_sequence m)\<rparr>)"
  by (auto simp: observe_failure_at_def result_simps)

lemma observe_advances: "observe_failure_at m i failure = Inr (f, m') \<Longrightarrow> advances m m'"
  by (auto simp: result_simps advances_def state_at_def
      dest!: find_key_SomeD efailure_target_successor)

end
