(* ===== verification/Local_Global.thy ===== *)
theory Local_Global
  imports Machine
begin

text \<open>
  Local steps of a machine against the global graph: a machine started from the compiled plan
  of a conversation emits and accepts exactly the frames the graph allows at its state.
\<close>

definition belongs :: "'v conversation \<Rightarrow> string \<Rightarrow> string \<Rightarrow> string \<Rightarrow> machine \<Rightarrow> bool" where
  \<comment> \<open>the machine runs role \<open>p\<close> of the conversation under the two given identities\<close>
  "belongs c identity plan_identity p m \<longleftrightarrow>
     (\<exists>r \<in> set (conv_roles c). role_id r = p \<and> m_endpoint m = project_role c r) \<and>
     m_identity m = identity \<and> m_plan_identity m = plan_identity"

fun frame_sender :: "'v frame \<Rightarrow> string" where
  "frame_sender (FData from _ _ _) = from"
| "frame_sender (FSelect by _) = by"
| "frame_sender (FCancel from _ _) = from"
| "frame_sender (FFault observer _) = observer"

fun is_fault :: "'v frame \<Rightarrow> bool" where
  "is_fault (FFault _ _) = True"
| "is_fault _ = False"

fun actor :: "global_state \<Rightarrow> string option" where
  \<comment> \<open>the role whose output a state waits for\<close>
  "actor (GSend _ from _ _ _ _ _) = Some from"
| "actor (GChoice _ chooser _ _) = Some chooser"
| "actor (GCancel _ from _ _ _ _) = Some from"
| "actor (GEnd _) = None"
| "actor (GFail _ _) = None"

section \<open>Machines of a conversation\<close>

lemma belongs_fields:
  assumes "belongs c ident pid p m"
  shows "m_role m = p" "m_conversation m = module_id (conv_module c)" "m_identity m = ident"
    "m_plan_identity m = pid" "ep_states (m_endpoint m) = map (\<lambda>s. project_state s p) (conv_states c)"
    "p \<in> role_ids c"
  using assms by (auto simp: belongs_def role_ids_def)

lemma belongs_advances: "belongs c ident pid p m \<Longrightarrow> advances m m' \<Longrightarrow> belongs c ident pid p m'"
  by (auto simp: belongs_def advances_def)

lemma belongs_state:
  assumes "belongs c ident pid p m"
  shows "state_at m i =
    ok_or (RtPanic ''a projected endpoint contains every validated state'')
      (map_option (\<lambda>s. project_state s p) (find (\<lambda>s. gid s = i) (conv_states c)))"
  by (simp add: state_at_def belongs_fields(5) [OF assms] project_find)

lemma belongs_ok:
  assumes "well_formed c" and "belongs c ident pid p m" and "m_current m \<in> state_ids c"
  shows "machine_ok m"
proof -
  have "eid ` set (ep_states (m_endpoint m)) = state_ids c"
    by (simp add: belongs_fields(5) [OF assms(2)] state_ids_def image_image)
  moreover have "set (successors s) \<subseteq> state_ids c" if "s \<in> set (conv_states c)" for s
    using wf_successors [OF wf_states [OF assms(1) that]] by blast
  ultimately show ?thesis
    using assms(3) wf_distinct [OF assms(1)]
    by (auto simp: machine_ok_def belongs_fields(5) [OF assms(2)] comp_def)
qed

lemma state_of_global:
  assumes "belongs c ident pid p m" and "state_of m = Inr st"
  obtains s where "find (\<lambda>s. gid s = m_current m) (conv_states c) = Some s"
    and "s \<in> set (conv_states c)" and "gid s = m_current m" and "st = project_state s p"
  using assms(2) by (auto simp: state_of_def belongs_state [OF assms(1)] result_simps dest: find_key_SomeD)

text \<open>The machines a prepared plan hands out.\<close>

lemma find_endpoint_compiled:
  assumes "well_formed c" and "r \<in> set (conv_roles c)"
  shows "find_endpoint (role_id r) (compiled_endpoints c) = Some (project_role c r)"
  using find_key_distinct [OF compiled_endpoints_distinct [OF assms(1)], of "project_role c r"] assms(2)
  by (simp add: find_endpoint_def)

lemma from_plan_compiled:
  assumes "compile_prepared ext c = Inr plan"
  shows "from_plan plan p = Inr m \<longleftrightarrow>
    belongs c (pp_conversation_identity plan) (pp_plan_identity plan) p m \<and>
    m_current m = conv_initial c \<and> m_sequence m = 0"
proof -
  obtain pl where pl: "compile ext c = Inr pl" "pp_endpoints plan = compiled_endpoints c"
    using assms by (auto elim: compile_prepared_shape)
  have wf: "well_formed c" using compile_shape(1) [OF pl(1)] .
  show ?thesis
  proof (cases "\<exists>r \<in> set (conv_roles c). role_id r = p")
    case True
    then obtain r where r: "r \<in> set (conv_roles c)" "role_id r = p" by blast
    have uniq: "r' = r" if "r' \<in> set (conv_roles c)" "role_id r' = p" for r'
      using wf that r by (auto simp: well_formed_def ids_unique_def distinct_map dest: inj_onD)
    have found: "find_endpoint p (pp_endpoints plan) = Some (project_role c r)"
      using find_endpoint_compiled [OF wf r(1)] by (simp add: r(2) pl(2))
    have endpoint: "(\<exists>r' \<in> set (conv_roles c). role_id r' = p \<and> m_endpoint m = project_role c r') \<longleftrightarrow>
        m_endpoint m = project_role c r"
      using r uniq by blast
    show ?thesis
      unfolding from_plan_def found belongs_def endpoint
      by (cases m) (simp, blast)
  next
    case False
    then have "find_endpoint p (compiled_endpoints c) = None"
      by (auto simp: find_endpoint_def find_None_iff)
    with False show ?thesis by (auto simp: from_plan_def belongs_def pl(2))
  qed
qed

section \<open>Steps\<close>

lemma conv_next_find:
  assumes "find (\<lambda>s. gid s = i) (conv_states c) = Some s"
  shows "conv_next c i f = match_frame (bs_collect (map role_id (conv_roles c))) s f"
  using assms by (simp add: conv_next_def)

lemma conv_next_actor:
  assumes "conv_next c i f = Some j" and "\<not> is_fault f"
  obtains s where "find (\<lambda>s. gid s = i) (conv_states c) = Some s" and "actor s = Some (frame_sender f)"
proof -
  obtain s where s: "find (\<lambda>s. gid s = i) (conv_states c) = Some s"
    using assms(1) by (auto simp: conv_next_def split: option.splits)
  with assms have "actor s = Some (frame_sender f)"
    by (cases s; cases f) (auto simp: conv_next_find split: if_splits)
  with s that show ?thesis by blast
qed

lemma emits_global:
  assumes "belongs c ident pid p m" and "emits m e m'"
  shows "conv_next c (m_current m) (env_frame e) = Some (m_current m')"
    and "frame_sender (env_frame e) = p" and "\<not> is_fault (env_frame e)"
proof -
  note role = belongs_fields(1) [OF assms(1)]
  from assms(2) have "conv_next c (m_current m) (env_frame e) = Some (m_current m') \<and>
    frame_sender (env_frame e) = p \<and> \<not> is_fault (env_frame e)"
  proof cases
    case (emits_data payload)
    then obtain i to msg nxt d fl where st: "state_of m = (Inr (ESend i to msg nxt d fl) :: 'a runtime_error + _)"
        and em: "(e, m') = emit m (FData (m_role m) to msg (Some payload)) nxt"
      by (auto simp: result_simps)
    from assms(1) st obtain s where "find (\<lambda>s. gid s = m_current m) (conv_states c) = Some s"
        "ESend i to msg nxt d fl = project_state s p" by (rule state_of_global)
    then show ?thesis using emit_fields [OF em] role
      by (cases s) (auto simp: conv_next_find split: if_splits)
  next
    case (emits_select label)
    then obtain i br fl nxt where st: "state_of m = (Inr (ESelect i br fl) :: 'a runtime_error + _)"
        and nxt: "bt_get br label = Some nxt"
        and em: "(e, m') = emit m (FSelect (m_role m) label) nxt"
      by (auto simp: result_simps)
    from assms(1) st obtain s where "find (\<lambda>s. gid s = m_current m) (conv_states c) = Some s"
        "ESelect i br fl = project_state s p" by (rule state_of_global)
    then show ?thesis using emit_fields [OF em] role nxt
      by (cases s) (auto simp: conv_next_find bt_contains_get split: if_splits)
  next
    case emits_cancel
    then obtain i to sc nxt fl where st: "state_of m = (Inr (ESendCancel i to sc nxt fl) :: 'a runtime_error + _)"
        and em: "(e, m') = emit m (FCancel (m_role m) to sc) nxt"
      by (auto simp: result_simps)
    from assms(1) st obtain s where "find (\<lambda>s. gid s = m_current m) (conv_states c) = Some s"
        "ESendCancel i to sc nxt fl = project_state s p" by (rule state_of_global)
    then show ?thesis using emit_fields [OF em] role
      by (cases s) (auto simp: conv_next_find split: if_splits)
  qed
  then show "conv_next c (m_current m) (env_frame e) = Some (m_current m')"
    and "frame_sender (env_frame e) = p" and "\<not> is_fault (env_frame e)" by auto
qed

text \<open>The receiving side, in both directions: what the graph allows the peer to send is accepted.\<close>

lemma receive_target_global:
  assumes "wf_state c s" and "role_pair c p q" and "\<not> is_fault f"
  shows "receive_target q (project_state s q) f = Some j \<longleftrightarrow>
    match_frame (bs_collect (map role_id (conv_roles c))) s f = Some j \<and> frame_sender f = p"
  using assms by (cases s; cases f) (auto simp: role_pair_def)

lemma receive_target_fault: "receive_target q st f = Some j \<Longrightarrow> \<not> is_fault f"
  by (cases f; cases st) auto

lemma accept_global:
  assumes "well_formed c" and "role_pair c p q" and "belongs c ident pid q m"
    and "accept m e = Inr (f, m')"
  shows "conv_next c (m_current m) f = Some (m_current m')"
    and "frame_sender f = p" and "\<not> is_fault f" and "f = env_frame e"
proof -
  from assms(4) obtain st nxt where st: "state_of m = (Inr st :: 'a runtime_error + _)"
    and rt: "receive_target (m_role m) st f = Some nxt"
    and m': "m' = m\<lparr>m_current := nxt, m_sequence := m_sequence m + 1\<rparr>" and f: "f = env_frame e"
    by (auto simp: result_simps)
  from assms(3) st obtain s where s: "find (\<lambda>s. gid s = m_current m) (conv_states c) = Some s"
      "s \<in> set (conv_states c)" "st = project_state s q" by (rule state_of_global)
  have nf: "\<not> is_fault f" using rt by (rule receive_target_fault)
  with rt have "match_frame (bs_collect (map role_id (conv_roles c))) s f = Some nxt \<and> frame_sender f = p"
    using receive_target_global [OF wf_states [OF assms(1) s(2)] assms(2) nf]
    by (simp add: belongs_fields(1) [OF assms(3)] s(3))
  with s(1) m' f nf show "conv_next c (m_current m) f = Some (m_current m')"
    and "frame_sender f = p" and "\<not> is_fault f" and "f = env_frame e"
    by (simp_all add: conv_next_find)
qed

lemma accept_complete:
  assumes "well_formed c" and "role_pair c p q" and "belongs c ident pid q m"
    and "conv_next c (m_current m) (env_frame e) = Some j"
    and "frame_sender (env_frame e) = p" and "\<not> is_fault (env_frame e)"
    and "env_wire e = WIRE_FORMAT" and "env_conversation e = module_id (conv_module c)"
    and "env_identity e = ident" and "env_state e = m_current m" and "env_sequence e = m_sequence m"
  shows "accept m e = Inr (env_frame e, m\<lparr>m_current := j, m_sequence := m_sequence m + 1\<rparr>)"
proof -
  obtain s where s: "find (\<lambda>s. gid s = m_current m) (conv_states c) = Some s"
    using assms(4) by (auto simp: conv_next_def split: option.splits)
  then have "s \<in> set (conv_states c)" by (auto dest: find_key_SomeD)
  have "state_of m = (Inr (project_state s q) :: 'a runtime_error + _)"
    by (simp add: state_of_def belongs_state [OF assms(3)] s)
  moreover have "receive_target (m_role m) (project_state s q) (env_frame e) = Some j"
    using receive_target_global [OF wf_states [OF assms(1) \<open>s \<in> _\<close>] assms(2,6)] assms(4,5) s
    by (simp add: belongs_fields(1) [OF assms(3)] conv_next_find)
  ultimately show ?thesis
    using assms(7-11)
    by (auto simp: accept_Inr validate_envelope_ok belongs_fields(2,3) [OF assms(3)])
qed

lemma observe_global:
  assumes "belongs c ident pid p m" and "observe_failure_at m i failure = Inr (f, m')"
  shows "conv_next c i f = Some (m_current m')" and "f = FFault p failure"
    and "well_formed c \<Longrightarrow> GFail (m_current m') failure \<in> set (conv_states c)"
proof -
  from assms(2) obtain st nxt where st: "state_at m i = (Inr st :: 'a runtime_error + _)"
    and t: "efailure_target st failure = Some nxt" and f: "f = FFault (m_role m) failure"
    and cur: "m_current m' = nxt"
    by (auto simp: result_simps)
  from st obtain s where s: "find (\<lambda>s. gid s = i) (conv_states c) = Some s" "st = project_state s p"
    by (auto simp: belongs_state [OF assms(1)] result_simps)
  then have "s \<in> set (conv_states c)" by (auto dest: find_key_SomeD)
  show "f = FFault p failure" using f belongs_fields(1) [OF assms(1)] by simp
  then show "conv_next c i f = Some (m_current m')"
    using s t cur belongs_fields(6) [OF assms(1)] by (simp add: conv_next_find role_ids_def)
  assume "well_formed c"
  from wf_states [OF this \<open>s \<in> _\<close>] have "GFail nxt failure \<in> set (conv_states c)"
    using t s(2) by (cases s) (auto simp: wf_failures_def split: if_splits dest!: map_of_SomeD)
  with cur show "GFail (m_current m') failure \<in> set (conv_states c)" by simp
qed

text \<open>Progress: the actor of a state can always emit, its state's output action being enabled.\<close>

lemma actor_emits:
  fixes m :: machine and c :: "'v conversation"
  assumes "well_formed c" and "belongs c ident pid p m"
    and "find (\<lambda>s. gid s = m_current m) (conv_states c) = Some s" and "actor s = Some p"
  shows "\<exists>(e :: 'v envelope) m'. emits m e m'"
proof -
  have "s \<in> set (conv_states c)" using assms(3) by (auto dest: find_key_SomeD)
  note wf = wf_states [OF assms(1) this]
  have st: "state_of m = (Inr (project_state s p) :: 'v runtime_error + _)"
    by (simp add: state_of_def belongs_state [OF assms(2)] assms(3))
  show ?thesis
  proof (cases s)
    case (GSend i frm to msg nxt d fl)
    then have "emit_data m (payload :: 'v) = Inr (emit m (FData (m_role m) to msg (Some payload)) nxt)"
      for payload using st assms(4) by (simp add: emit_data_def)
    then show ?thesis by (metis emits_data surj_pair)
  next
    case (GChoice i ch br fl)
    with wf obtain l t br' where br: "br = (l, t) # br'" by (cases br) auto
    have "emit_select m l = (Inr (emit m (FSelect (m_role m) l) t) :: 'v runtime_error + _)"
      using st assms(4) GChoice br by (simp add: emit_select_def)
    then show ?thesis by (metis emits_select surj_pair)
  next
    case (GCancel i frm to sc nxt fl)
    then have "emit_cancel m = (Inr (emit m (FCancel (m_role m) to sc) nxt) :: 'v runtime_error + _)"
      using st assms(4) by (simp add: emit_cancel_def)
    then show ?thesis by (metis emits_cancel surj_pair)
  next
    case (GEnd i)
    with assms(4) show ?thesis by simp
  next
    case (GFail i fl)
    with assms(4) show ?thesis by simp
  qed
qed

lemma wf_actor: "wf_state c s \<Longrightarrow> actor s = Some r \<Longrightarrow> r \<in> role_ids c"
  by (cases s) auto

lemma actor_None: "actor s = None \<longleftrightarrow> is_terminal s"
  by (cases s) auto

end
