(* ===== verification/Two_Party.thy ===== *)
theory Two_Party
  imports Local_Global
begin

text \<open>
  Two endpoint machines joined by two ordered queues.  \<open>send_and_record\<close> and
  \<open>receive_and_record\<close> are the steps every workload of \<open>src/src/runtime.rs\<close> is made of; what the
  transport answered is an argument of them.  The step relation lets either side act at any
  time, and lets any transport operation fail with any error, so it covers every schedule of
  the two threads and every fault plan.
\<close>

section \<open>One recorded transport operation\<close>

definition send_and_record :: "machine \<Rightarrow> 'v runtime_error + unit \<Rightarrow> 'v envelope \<Rightarrow> 'v frame list
    \<Rightarrow> 'v runtime_error + (bool \<times> machine \<times> 'v frame list)" where
  "send_and_record m answer e trace =
     (case answer of
        Inr _ \<Rightarrow> Inr (True, m, trace @ [env_frame e])
      | Inl error \<Rightarrow>
          (case transport_failure error of
             None \<Rightarrow> Inl error
           | Some failure \<Rightarrow>
               and_then (observe_failure_at m (env_state e) failure) (\<lambda>(fault, m').
                 Inr (False, m', trace @ [fault]))))"

definition receive_and_record :: "machine \<Rightarrow> 'v runtime_error + 'v envelope \<Rightarrow> 'v frame list
    \<Rightarrow> 'v runtime_error + ('v frame option \<times> machine \<times> 'v frame list)" where
  "receive_and_record m answer trace =
     (case answer of
        Inr e \<Rightarrow> and_then (accept m e) (\<lambda>(f, m'). Inr (Some f, m', trace @ [f]))
      | Inl error \<Rightarrow>
          (case transport_failure error of
             None \<Rightarrow> Inl error
           | Some failure \<Rightarrow>
               and_then (observe_failure m failure) (\<lambda>(fault, m').
                 Inr (None, m', trace @ [fault]))))"

lemma send_and_record_ok [simp]:
  "send_and_record m (Inr u) e trace = Inr (True, m, trace @ [env_frame e])"
  by (simp add: send_and_record_def)

lemma send_and_record_err:
  "send_and_record m (Inl error) e trace = Inr (b, m', trace') \<longleftrightarrow>
     \<not> b \<and> (\<exists>failure fault. transport_failure error = Some failure \<and>
       observe_failure_at m (env_state e) failure = Inr (fault, m') \<and> trace' = trace @ [fault])"
  by (auto simp: send_and_record_def result_simps split: option.splits)

lemma receive_and_record_ok:
  "receive_and_record m (Inr e) trace = Inr (r, m', trace') \<longleftrightarrow>
     (\<exists>f. accept m e = Inr (f, m') \<and> r = Some f \<and> trace' = trace @ [f])"
  by (auto simp: receive_and_record_def and_then_Inr)

lemma receive_and_record_err:
  "receive_and_record m (Inl error) trace = Inr (r, m', trace') \<longleftrightarrow>
     r = None \<and> (\<exists>failure fault. transport_failure error = Some failure \<and>
       observe_failure m failure = Inr (fault, m') \<and> trace' = trace @ [fault])"
  by (auto simp: receive_and_record_def and_then_Inr split: option.splits)

section \<open>The system\<close>

record 'v side =
  sd_machine :: machine
  sd_inbox :: "'v envelope list"
  sd_trace :: "'v frame list"

type_synonym 'v system = "'v side \<times> 'v side"

text \<open>A step of the left side; the envelopes it sends go to the inbox of the right one.\<close>

inductive side_step :: "'v side \<Rightarrow> 'v side \<Rightarrow> 'v side \<Rightarrow> 'v side \<Rightarrow> bool" where
  side_send: "emits (sd_machine a) e m \<Longrightarrow>
    send_and_record m (Inr ()) e (sd_trace a) = Inr (True, m', trace) \<Longrightarrow>
    side_step a b (a\<lparr>sd_machine := m', sd_trace := trace\<rparr>) (b\<lparr>sd_inbox := sd_inbox b @ [e]\<rparr>)"
| side_send_fails: "emits (sd_machine a) e m \<Longrightarrow>
    send_and_record m (Inl error) e (sd_trace a) = Inr (False, m', trace) \<Longrightarrow>
    side_step a b (a\<lparr>sd_machine := m', sd_trace := trace\<rparr>) b"
| side_receive: "sd_inbox a = e # inbox \<Longrightarrow>
    receive_and_record (sd_machine a) (Inr e) (sd_trace a) = Inr (Some f, m', trace) \<Longrightarrow>
    side_step a b (a\<lparr>sd_machine := m', sd_inbox := inbox, sd_trace := trace\<rparr>) b"
| side_receive_fails: "receive_and_record (sd_machine a) (Inl error) (sd_trace a) =
      Inr (None, m', trace) \<Longrightarrow>
    side_step a b (a\<lparr>sd_machine := m', sd_trace := trace\<rparr>) b"

inductive system_step :: "'v system \<Rightarrow> 'v system \<Rightarrow> bool" where
  left_acts: "side_step a b a' b' \<Longrightarrow> system_step (a, b) (a', b')"
| right_acts: "side_step b a b' a' \<Longrightarrow> system_step (a, b) (a', b')"

inductive_cases system_stepE: "system_step s t"

definition start_side :: "machine \<Rightarrow> 'v side" where
  "start_side m = \<lparr>sd_machine = m, sd_inbox = [], sd_trace = []\<rparr>"

inductive reachable_system :: "prepared_plan \<Rightarrow> string \<Rightarrow> string \<Rightarrow> 'v system \<Rightarrow> bool"
  for plan :: prepared_plan and p :: string and q :: string where
  system_start: "from_plan plan p = (Inr a :: 'v runtime_error + machine) \<Longrightarrow>
    from_plan plan q = (Inr b :: 'v runtime_error + machine) \<Longrightarrow>
    reachable_system plan p q (start_side a, start_side b)"
| system_next: "reachable_system plan p q s \<Longrightarrow> system_step s t \<Longrightarrow> reachable_system plan p q t"

section \<open>The invariant\<close>

definition faultless :: "'v frame list \<Rightarrow> 'v frame list" where
  "faultless fs = filter (\<lambda>f. \<not> is_fault f) fs"

definition live :: "'v frame list \<Rightarrow> bool" where
  "live fs \<longleftrightarrow> list_all (\<lambda>f. \<not> is_fault f) fs"

lemma faultless_simps [simp]:
  "faultless [] = []"
  "faultless (fs @ gs) = faultless fs @ faultless gs"
  "\<not> is_fault f \<Longrightarrow> faultless [f] = [f]"
  "faultless [FFault r x] = []"
  by (simp_all add: faultless_def)

lemma live_simps [simp]:
  "live []"
  "live (fs @ gs) \<longleftrightarrow> live fs \<and> live gs"
  "live [f] \<longleftrightarrow> \<not> is_fault f"
  by (simp_all add: live_def)

lemma live_faultless: "live fs \<Longrightarrow> faultless fs = fs"
  by (induction fs) (auto simp: live_def faultless_def)

text \<open>
  The envelopes of a queue, from state \<open>i\<close> and sequence number \<open>n\<close> on: each is the one the
  graph allows there, sent by role \<open>p\<close>.
\<close>

fun queue_ok :: "'v conversation \<Rightarrow> string \<Rightarrow> string \<Rightarrow> string \<Rightarrow> nat \<Rightarrow> 'v envelope list \<Rightarrow> bool" where
  "queue_ok c identity p i n [] \<longleftrightarrow> True"
| "queue_ok c identity p i n (e # es) \<longleftrightarrow>
     env_wire e = WIRE_FORMAT \<and> env_conversation e = module_id (conv_module c) \<and>
     env_identity e = identity \<and> env_state e = i \<and> env_sequence e = of_nat n \<and>
     frame_sender (env_frame e) = p \<and> \<not> is_fault (env_frame e) \<and>
     (\<exists>j. conv_next c i (env_frame e) = Some j \<and> queue_ok c identity p j (Suc n) es)"

lemma queue_ok_snoc:
  "queue_ok c identity p i n (es @ [e]) \<longleftrightarrow>
     queue_ok c identity p i n es \<and>
     (\<exists>j. conv_run c i (map env_frame es) = Some j \<and> queue_ok c identity p j (n + length es) [e])"
  by (induction es arbitrary: i n) auto

lemma queue_ok_run: "queue_ok c identity p i n es \<Longrightarrow> \<exists>j. conv_run c i (map env_frame es) = Some j"
  by (induction es arbitrary: i n) auto

lemma queue_ok_frames: "queue_ok c identity p i n es \<Longrightarrow> live (map env_frame es)"
  by (induction es arbitrary: i n) (auto simp: live_def)

text \<open>What one side knows of itself.\<close>

definition side_ok :: "'v conversation \<Rightarrow> string \<Rightarrow> string \<Rightarrow> string \<Rightarrow> 'v side \<Rightarrow> bool" where
  "side_ok c identity plan_identity p a \<longleftrightarrow>
     belongs c identity plan_identity p (sd_machine a) \<and>
     conv_run c (conv_initial c) (sd_trace a) = Some (m_current (sd_machine a)) \<and>
     live (butlast (sd_trace a)) \<and>
     (live (sd_trace a) \<longrightarrow> m_sequence (sd_machine a) = of_nat (length (sd_trace a)))"

text \<open>The left side is as far as the right one, or ahead of it by what waits in the right inbox.\<close>

definition ahead :: "'v conversation \<Rightarrow> string \<Rightarrow> string \<Rightarrow> 'v side \<Rightarrow> 'v side \<Rightarrow> bool" where
  "ahead c identity p a b \<longleftrightarrow>
     sd_inbox a = [] \<and>
     faultless (sd_trace a) = faultless (sd_trace b) @ map env_frame (sd_inbox b) \<and>
     (\<exists>i. conv_run c (conv_initial c) (faultless (sd_trace b)) = Some i \<and>
        queue_ok c identity p i (length (faultless (sd_trace b))) (sd_inbox b))"

definition system_ok :: "'v conversation \<Rightarrow> string \<Rightarrow> string \<Rightarrow> string \<Rightarrow> string \<Rightarrow> 'v side \<Rightarrow> 'v side \<Rightarrow> bool" where
  "system_ok c identity plan_identity p q a b \<longleftrightarrow>
     side_ok c identity plan_identity p a \<and> side_ok c identity plan_identity q b \<and>
     (ahead c identity p a b \<or> ahead c identity q b a)"

lemma system_ok_sym: "system_ok c identity pid p q a b \<Longrightarrow> system_ok c identity pid q p b a"
  by (auto simp: system_ok_def)

section \<open>Every step keeps it\<close>

lemma terminal_no_next:
  assumes "well_formed c" and "s \<in> set (conv_states c)" and "is_terminal s" and "gid s = i"
  shows "conv_next c i f = None"
  using find_key_distinct [OF wf_distinct [OF assms(1)] assms(2)] assms(3,4)
  by (auto simp: conv_next_def terminal_match)

lemma one_sender:
  assumes "conv_next c i f = Some j" and "conv_next c i g = Some k"
    and "\<not> is_fault f" and "\<not> is_fault g"
  shows "frame_sender f = frame_sender g"
proof -
  obtain s where "find (\<lambda>s. gid s = i) (conv_states c) = Some s" "actor s = Some (frame_sender f)"
    using assms(1,3) by (rule conv_next_actor)
  moreover obtain t where "find (\<lambda>s. gid s = i) (conv_states c) = Some t" "actor t = Some (frame_sender g)"
    using assms(2,4) by (rule conv_next_actor)
  ultimately show ?thesis by simp
qed

text \<open>A trace that continues has no fault in it: after a fault the graph is at its end.\<close>

lemma fault_target:
  assumes "well_formed c" and "conv_next c k (FFault r x) = Some j"
  shows "GFail j x \<in> set (conv_states c)"
proof -
  obtain s where s: "find (\<lambda>s. gid s = k) (conv_states c) = Some s" "failure_target s x = Some j"
    using assms(2) by (auto simp: conv_next_def split: option.splits if_splits)
  then have "s \<in> set (conv_states c)" by (auto dest: find_key_SomeD)
  from wf_states [OF assms(1) this] s(2) show ?thesis
    by (cases s) (auto simp: wf_failures_def dest!: map_of_SomeD)
qed

lemma fault_ends:
  assumes "well_formed c" and "conv_run c i (fs @ [f]) = Some j" and "is_fault f"
  shows "conv_next c j g = None"
proof -
  obtain r x where f: "f = FFault r x" using assms(3) by (cases f) auto
  obtain k where "conv_next c k f = Some j"
    using assms(2) by (auto simp: conv.run_snoc split: option.splits)
  from terminal_no_next [OF assms(1) fault_target [OF assms(1) this [unfolded f]]] show ?thesis by simp
qed

lemma side_ok_live:
  assumes "well_formed c" and "side_ok c ident pid p a"
    and "conv_next c (m_current (sd_machine a)) f = Some j"
  shows "live (sd_trace a)"
proof (cases "sd_trace a" rule: rev_cases)
  case (snoc fs g)
  have "\<not> is_fault g"
    using fault_ends [OF assms(1), of "conv_initial c" fs g _ f] assms(2,3) snoc
    by (auto simp: side_ok_def)
  with assms(2) snoc show ?thesis by (simp add: side_ok_def)
qed simp

lemma side_ok_extend:
  assumes "side_ok c ident pid p a" and "live (sd_trace a)"
    and "advances (sd_machine a) m'" and "conv_next c (m_current (sd_machine a)) f = Some (m_current m')"
    and "\<not> is_fault f \<longrightarrow> m_sequence m' = m_sequence (sd_machine a) + 1"
  shows "side_ok c ident pid p (a\<lparr>sd_machine := m', sd_trace := sd_trace a @ [f]\<rparr>)"
  using assms
  by (auto simp: side_ok_def belongs_advances conv.run_snoc)

lemma side_ok_inbox [simp]: "side_ok c ident pid p (a\<lparr>sd_inbox := es\<rparr>) = side_ok c ident pid p a"
  by (simp add: side_ok_def)

text \<open>Sending: the sender must be the actor, so nothing can be waiting for it.\<close>

lemma send_keeps:
  assumes wf: "well_formed c" and pair: "role_pair c p q" and ok: "system_ok c ident pid p q a b"
    and em: "emits (sd_machine a) e m"
  shows "system_ok c ident pid p q (a\<lparr>sd_machine := m, sd_trace := sd_trace a @ [env_frame e]\<rparr>)
    (b\<lparr>sd_inbox := sd_inbox b @ [e]\<rparr>)"
proof -
  have a: "side_ok c ident pid p a" and b: "side_ok c ident pid q b" using ok by (auto simp: system_ok_def)
  then have bel: "belongs c ident pid p (sd_machine a)" by (simp add: side_ok_def)
  note glob = emits_global [OF bel em]
  have lv: "live (sd_trace a)" using side_ok_live [OF wf a glob(1)] .
  then have seq: "m_sequence (sd_machine a) = of_nat (length (sd_trace a))"
    and run: "conv_run c (conv_initial c) (sd_trace a) = Some (m_current (sd_machine a))"
    using a by (auto simp: side_ok_def)
  have a': "side_ok c ident pid p (a\<lparr>sd_machine := m, sd_trace := sd_trace a @ [env_frame e]\<rparr>)"
    using side_ok_extend [OF a lv emits_advances [OF em] glob(1)] emits_fields(9) [OF em] by simp
  have empty: "sd_inbox a = []"
  proof (cases "sd_inbox a")
    case (Cons e' es)
    then have "ahead c ident q b a" using ok by (auto simp: system_ok_def ahead_def)
    then have head: "\<exists>j. conv_next c (m_current (sd_machine a)) (env_frame e') = Some j"
      "frame_sender (env_frame e') = q" "\<not> is_fault (env_frame e')"
      using Cons run lv by (auto simp: ahead_def live_faultless)
    then have "q = p" using one_sender [OF _ glob(1) _ glob(3)] glob(2) by auto
    with pair show ?thesis by (simp add: role_pair_def)
  qed simp
  have "ahead c ident p a b"
    using ok empty by (auto simp: system_ok_def ahead_def)
  then obtain i where i: "conv_run c (conv_initial c) (faultless (sd_trace b)) = Some i"
      "queue_ok c ident p i (length (faultless (sd_trace b))) (sd_inbox b)"
    and tr: "sd_trace a = faultless (sd_trace b) @ map env_frame (sd_inbox b)"
    using lv by (auto simp: ahead_def live_faultless)
  have "conv_run c i (map env_frame (sd_inbox b)) = Some (m_current (sd_machine a))"
    using run i(1) by (simp add: tr conv.run_append)
  then have "ahead c ident p (a\<lparr>sd_machine := m, sd_trace := sd_trace a @ [env_frame e]\<rparr>)
      (b\<lparr>sd_inbox := sd_inbox b @ [e]\<rparr>)"
    using empty i glob emits_fields(1-5) [OF em] belongs_fields(2,3) [OF bel] seq tr lv
    by (auto simp: ahead_def live_faultless queue_ok_snoc)
  with a' b show ?thesis by (simp add: system_ok_def)
qed

text \<open>Receiving: the head of the inbox is what the graph allows next.\<close>

lemma receive_keeps:
  assumes wf: "well_formed c" and pair: "role_pair c p q" and ok: "system_ok c ident pid p q a b"
    and inbox: "sd_inbox a = e # es" and acc: "accept (sd_machine a) e = Inr (f, m)"
  shows "system_ok c ident pid p q
    (a\<lparr>sd_machine := m, sd_inbox := es, sd_trace := sd_trace a @ [f]\<rparr>) b"
proof -
  have a: "side_ok c ident pid p a" and b: "side_ok c ident pid q b" using ok by (auto simp: system_ok_def)
  then have bel: "belongs c ident pid p (sd_machine a)" by (simp add: side_ok_def)
  note glob = accept_global [OF wf role_pair_sym [OF pair] bel acc]
  have lv: "live (sd_trace a)" using side_ok_live [OF wf a glob(1)] .
  have seq: "m_sequence m = m_sequence (sd_machine a) + 1" using acc by (auto simp: result_simps)
  have "side_ok c ident pid p (a\<lparr>sd_machine := m, sd_trace := sd_trace a @ [f]\<rparr>)"
    using side_ok_extend [OF a lv accept_advances [OF acc] glob(1)] seq by simp
  then have a': "side_ok c ident pid p (a\<lparr>sd_machine := m, sd_inbox := es, sd_trace := sd_trace a @ [f]\<rparr>)"
    by (simp add: side_ok_def)
  have "ahead c ident q b a" using ok inbox by (auto simp: system_ok_def ahead_def)
  then have "ahead c ident q b (a\<lparr>sd_machine := m, sd_inbox := es, sd_trace := sd_trace a @ [f]\<rparr>)"
    using inbox lv glob by (auto simp: ahead_def live_faultless conv.run_snoc)
  with a' b show ?thesis by (simp add: system_ok_def)
qed

text \<open>A local fault adds nothing to what was exchanged.\<close>

lemma fault_keeps:
  assumes ok: "system_ok c ident pid p q a b" and lv: "live (sd_trace a)"
    and adv: "advances (sd_machine a) m"
    and nxt: "conv_next c (m_current (sd_machine a)) (FFault r x) = Some (m_current m)"
  shows "system_ok c ident pid p q (a\<lparr>sd_machine := m, sd_trace := sd_trace a @ [FFault r x]\<rparr>) b"
proof -
  have "side_ok c ident pid p a" using ok by (simp add: system_ok_def)
  from side_ok_extend [OF this lv adv nxt] ok show ?thesis
    by (auto simp: system_ok_def ahead_def)
qed

lemma side_step_keeps:
  assumes wf: "well_formed c" and pair: "role_pair c p q" and ok: "system_ok c ident pid p q a b"
    and step: "side_step a b a' b'"
  shows "system_ok c ident pid p q a' b'"
proof -
  have a: "side_ok c ident pid p a" using ok by (simp add: system_ok_def)
  then have bel: "belongs c ident pid p (sd_machine a)" by (simp add: side_ok_def)
  from step show ?thesis
  proof cases
    case (side_send e m m' trace)
    then show ?thesis using send_keeps [OF wf pair ok] by auto
  next
    case (side_send_fails e m error m' trace)
    then obtain x fault where obs: "observe_failure_at m (env_state e) x = Inr (fault, m')"
        and tr: "trace = sd_trace a @ [fault]" by (auto simp: send_and_record_err)
    have bel': "belongs c ident pid p m"
      using belongs_advances [OF bel emits_advances] side_send_fails by blast
    have st: "env_state e = m_current (sd_machine a)" and fin: "m_endpoint m = m_endpoint (sd_machine a)"
        "m_identity m = m_identity (sd_machine a)" "m_plan_identity m = m_plan_identity (sd_machine a)"
      using emits_fields [OF side_send_fails(3)] by simp_all
    note glob = observe_global [OF bel' obs]
    have "advances (sd_machine a) m'"
      using observe_advances [OF obs] fin by (simp add: advances_def)
    with fault_keeps [OF ok side_ok_live [OF wf a], of "FFault p x"] glob(1,2) st
    show ?thesis using side_send_fails(1,2) tr by simp
  next
    case (side_receive e inbox f m' trace)
    then show ?thesis using receive_keeps [OF wf pair ok] by (auto simp: receive_and_record_ok)
  next
    case (side_receive_fails error m' trace)
    then obtain x fault where obs: "observe_failure_at (sd_machine a) (m_current (sd_machine a)) x = Inr (fault, m')"
        and tr: "trace = sd_trace a @ [fault]"
      by (auto simp: receive_and_record_err observe_failure_def)
    note glob = observe_global [OF bel obs]
    with fault_keeps [OF ok side_ok_live [OF wf a] observe_advances [OF obs], of "FFault p x"]
    show ?thesis using side_receive_fails(1,2) tr by simp
  qed
qed

lemma reachable_ok:
  assumes plan: "compile_prepared ext c = Inr plan" and pair: "role_pair c p q"
    and reach: "reachable_system plan p q s"
  shows "system_ok c (pp_conversation_identity plan) (pp_plan_identity plan) p q (fst s) (snd s)"
proof -
  have wf: "well_formed c" using plan by (auto elim: compile_prepared_shape dest: compile_shape(1))
  from reach show ?thesis
  proof induction
    case (system_start a b)
    then show ?case
      by (auto simp: from_plan_compiled [OF plan] system_ok_def side_ok_def ahead_def start_side_def)
  next
    case (system_next s t)
    then show ?case
      using side_step_keeps [OF wf pair] system_ok_sym [OF side_step_keeps [OF wf role_pair_sym [OF pair]]]
      by (auto elim!: system_stepE dest: system_ok_sym)
  qed
qed

end
