(* ===== verification/Examples.thy ===== *)
theory Examples
  imports Two_Party "HOL-Library.Code_Target_Nat"
begin

text \<open>
  Concrete conversations for the witnesses.  \<open>ping\<close> is a minimal loop with a choice and a
  failure; \<open>generate\<close> is \<open>src/examples/generate.colloqconv.json\<close>, with JSON values reduced
  to strings.
\<close>

definition plain_role :: "string \<Rightarrow> role" where
  "plain_role i = \<lparr>role_id = i, placement = [], capabilities = []\<rparr>"

definition plain_type :: "string \<Rightarrow> string type_definition" where
  "plain_type i = \<lparr>type_id = i, type_fields = [(''kind'', ''record'')]\<rparr>"

definition plain_failure :: "string \<Rightarrow> failure_definition" where
  "plain_failure i = \<lparr>failure_id = i, description = None, retryable = False\<rparr>"

definition closed_edge :: edges where
  "closed_edge = [(''transport.closed'', ''failed'')]"

definition ping :: "string conversation" where
  "ping = \<lparr>conv_schema = None, conv_format = ''0.1.0'',
     conv_module = \<lparr>module_id = ''ping'', semantic_version = None\<rparr>,
     conv_roles = [plain_role ''client'', plain_role ''server''],
     conv_types = [plain_type ''msg''],
     conv_failures = [plain_failure ''transport.closed''],
     conv_initial = ''start'',
     conv_states =
       [GSend ''start'' ''client'' ''server'' ''msg'' ''pick'' None closed_edge,
        GChoice ''pick'' ''server'' [(''again'', ''start''), (''stop'', ''halt'')] closed_edge,
        GCancel ''halt'' ''client'' ''server'' ''all'' ''end'' closed_edge,
        GEnd ''end'',
        GFail ''failed'' ''transport.closed''],
     conv_annotations = [(''note'', ''example'')]\<rparr>"

definition transport_edges :: edges where
  "transport_edges =
     [(''transport.closed'', ''transport-failed''), (''transport.reset'', ''transport-reset''),
      (''transport.timeout'', ''transport-timeout''),
      (''transport.uncertain'', ''transport-uncertain''),
      (''transport.unreachable'', ''transport-unreachable'')]"

definition generate :: "string conversation" where
  "generate = \<lparr>conv_schema = Some ''../spec/colloq-conversation-v0.schema.json'',
     conv_format = ''0.1.0'',
     conv_module = \<lparr>module_id = ''example.generate'', semantic_version = Some ''0.1.0''\<rparr>,
     conv_roles = [\<lparr>role_id = ''client'', placement = [''cpu''], capabilities = []\<rparr>,
       \<lparr>role_id = ''server'', placement = [''accelerator''], capabilities = [''model.infer'']\<rparr>],
     conv_types = [plain_type ''prompt'', plain_type ''token''],
     conv_failures = map plain_failure [''transport.closed'', ''transport.timeout'',
       ''transport.reset'', ''transport.unreachable'', ''transport.uncertain''],
     conv_initial = ''start'',
     conv_states =
       [GSend ''start'' ''client'' ''server'' ''prompt'' ''decide'' (Some ''20ms'') transport_edges,
        GChoice ''decide'' ''server'' [(''done'', ''end''), (''token'', ''emit-token'')] transport_edges,
        GSend ''emit-token'' ''server'' ''client'' ''token'' ''client-action'' None transport_edges,
        GChoice ''client-action'' ''client'' [(''cancel'', ''cancel''), (''continue'', ''decide'')]
          transport_edges,
        GCancel ''cancel'' ''client'' ''server'' ''generation'' ''end'' transport_edges,
        GEnd ''end'',
        GFail ''transport-failed'' ''transport.closed'',
        GFail ''transport-timeout'' ''transport.timeout'',
        GFail ''transport-reset'' ''transport.reset'',
        GFail ''transport-unreachable'' ''transport.unreachable'',
        GFail ''transport-uncertain'' ''transport.uncertain''],
     conv_annotations = [(''title'', ''Two-role token generation with cancellation'')]\<rparr>"

lemma validate_ping: "validate ping = Inr ()"
  by code_simp

lemma validate_generate: "validate generate = Inr ()"
  by code_simp


section \<open>A plan and a few systems\<close>

text \<open>
  Encoders and a digest that satisfy what the code relies on: the encoders succeed, the digest
  has 32 bytes.
\<close>

definition plain_externals :: "string externals" where
  "plain_externals = \<lparr>ext_sha256 = (\<lambda>bs. take 32 (bs @ replicate 32 0)),
     ext_conversation_json = (\<lambda>c. Inr (map (of_char :: char \<Rightarrow> byte) (module_id (conv_module c)))),
     ext_plan_json = (\<lambda>p. Inr (map (of_char :: char \<Rightarrow> byte) (sp_conversation p)))\<rparr>"

definition ping_identity :: string where
  "ping_identity = ''sha256:70696e6700000000000000000000000000000000000000000000000000000000''"

definition ping_plan :: prepared_plan where
  "ping_plan = \<lparr>pp_conversation = ''ping'', pp_conversation_identity = ping_identity,
     pp_plan_identity = ping_identity,
     pp_endpoints = [project_role ping (plain_role ''client''), project_role ping (plain_role ''server'')],
     pp_wire = \<lparr>wp_encoding = COMPACT_WIRE_FORMAT, wp_transitions =
       [\<lparr>wt_id = 1, wt_state = ''halt'', wt_operation = WCancel ''client'' ''server'' ''all''\<rparr>,
        \<lparr>wt_id = 2, wt_state = ''pick'', wt_operation = WSelect ''server'' ''again''\<rparr>,
        \<lparr>wt_id = 3, wt_state = ''pick'', wt_operation = WSelect ''server'' ''stop''\<rparr>,
        \<lparr>wt_id = 4, wt_state = ''start'', wt_operation = WData ''client'' ''server'' ''msg''\<rparr>]\<rparr>\<rparr>"

definition ping_file :: "wire_plan option \<Rightarrow> colloq_plan" where
  \<comment> \<open>the plan on disk, with or without its dictionary\<close>
  "ping_file wire = \<lparr>pl_format = PLAN_FORMAT, pl_conversation = ''ping'',
     pl_conversation_identity = ping_identity, pl_plan_identity = ping_identity,
     pl_endpoints = pp_endpoints ping_plan, pl_wire = wire\<rparr>"

definition ping_machine :: "string \<Rightarrow> machine" where
  "ping_machine r = \<lparr>m_endpoint = project_role ping (plain_role r), m_identity = ping_identity,
     m_plan_identity = ping_identity, m_current = ''start'', m_sequence = 0\<rparr>"

lemma ping_compiles: "compile_prepared plain_externals ping = Inr ping_plan"
  by code_simp

lemma ping_verifies:
  "verify plain_externals (ping_file None) = Inr ()"
  "verify plain_externals (ping_file (Some (pp_wire ping_plan))) = Inr ()"
  by code_simp+

lemma ping_starts:
  "from_plan ping_plan ''client'' = (Inr (ping_machine ''client'') :: string runtime_error + _)"
  "from_plan ping_plan ''server'' = (Inr (ping_machine ''server'') :: string runtime_error + _)"
  by code_simp+

lemma ping_pair: "role_pair ping ''client'' ''server''"
  by (simp add: role_pair_def role_ids_def ping_def plain_role_def)

text \<open>The client has sent its first message and the server has not read it yet.\<close>

definition ping_envelope :: "string envelope" where
  "ping_envelope = fst (emit (ping_machine ''client'')
     (FData ''client'' ''server'' ''msg'' (Some ''hello'')) ''pick'')"

definition ping_client_sent :: "string side" where
  "ping_client_sent =
     \<lparr>sd_machine = (ping_machine ''client'')\<lparr>m_current := ''pick'', m_sequence := 1\<rparr>,
      sd_inbox = [], sd_trace = [FData ''client'' ''server'' ''msg'' (Some ''hello'')]\<rparr>"

definition ping_server_waiting :: "string side" where
  "ping_server_waiting = \<lparr>sd_machine = ping_machine ''server'', sd_inbox = [ping_envelope],
     sd_trace = []\<rparr>"

lemma ping_start_reachable:
  "reachable_system ping_plan ''client'' ''server''
     (start_side (ping_machine ''client''), start_side (ping_machine ''server'') :: string side)"
  using ping_starts by (rule system_start)

lemma ping_emits:
  "emit_data (ping_machine ''client'') ''hello'' =
     Inr (ping_envelope, (ping_machine ''client'')\<lparr>m_current := ''pick'', m_sequence := 1\<rparr>)"
  by code_simp

lemma ping_sent_reachable:
  "reachable_system ping_plan ''client'' ''server'' (ping_client_sent, ping_server_waiting)"
proof (rule system_next [OF ping_start_reachable], rule left_acts)
  have "env_frame ping_envelope = FData ''client'' ''server'' ''msg'' (Some ''hello'')"
    by (simp add: ping_envelope_def emit_def)
  then show "side_step (start_side (ping_machine ''client'')) (start_side (ping_machine ''server''))
      ping_client_sent ping_server_waiting"
    using side_send [OF emits_data, of "start_side (ping_machine ''client'')", OF _ send_and_record_ok,
        of "''hello''" ping_envelope _ "start_side (ping_machine ''server'')"] ping_emits
    by (simp add: start_side_def ping_client_sent_def ping_server_waiting_def)
qed

end
