(* ===== verification/Schedules.thy ===== *)
theory Schedules
  imports Examples
begin

text \<open>
  The system of \<open>Two_Party\<close> driven by an explicit schedule, so that concrete runs can be
  computed: which side acts, and what its workload asks of the machine.  Every schedule that
  goes through is a run of the step relation.
\<close>

datatype 'v act =
    DoData 'v
  | DoSelect string
  | DoCancel
  | DoReceive
  | SendFails 'v "'v runtime_error"
  | ReceiveFails "'v runtime_error"

definition after_send :: "'v side \<Rightarrow> 'v side \<Rightarrow> 'v runtime_error + ('v envelope \<times> machine)
    \<Rightarrow> ('v side \<times> 'v side) option" where
  "after_send a b r =
     (case r of
        Inl _ \<Rightarrow> None
      | Inr (e, m) \<Rightarrow>
          Some (a\<lparr>sd_machine := m, sd_trace := sd_trace a @ [env_frame e]\<rparr>,
                b\<lparr>sd_inbox := sd_inbox b @ [e]\<rparr>))"

fun act_side :: "'v act \<Rightarrow> 'v side \<Rightarrow> 'v side \<Rightarrow> ('v side \<times> 'v side) option" where
  "act_side (DoData v) a b = after_send a b (emit_data (sd_machine a) v)"
| "act_side (DoSelect label) a b = after_send a b (emit_select (sd_machine a) label)"
| "act_side DoCancel a b = after_send a b (emit_cancel (sd_machine a))"
| "act_side DoReceive a b =
     (case sd_inbox a of
        [] \<Rightarrow> None
      | e # es \<Rightarrow>
          (case receive_and_record (sd_machine a) (Inr e) (sd_trace a) of
             Inr (Some f, m, trace) \<Rightarrow>
               Some (a\<lparr>sd_machine := m, sd_inbox := es, sd_trace := trace\<rparr>, b)
           | _ \<Rightarrow> None))"
| "act_side (SendFails v error) a b =
     (case emit_data (sd_machine a) v of
        Inl _ \<Rightarrow> None
      | Inr (e, m) \<Rightarrow>
          (case send_and_record m (Inl error) e (sd_trace a) of
             Inr (False, m', trace) \<Rightarrow> Some (a\<lparr>sd_machine := m', sd_trace := trace\<rparr>, b)
           | _ \<Rightarrow> None))"
| "act_side (ReceiveFails error) a b =
     (case receive_and_record (sd_machine a) (Inl error) (sd_trace a) of
        Inr (None, m, trace) \<Rightarrow> Some (a\<lparr>sd_machine := m, sd_trace := trace\<rparr>, b)
      | _ \<Rightarrow> None)"

lemma after_send_step:
  assumes "after_send a b r = Some (a', b')" and "\<And>e m. r = Inr (e, m) \<Longrightarrow> emits (sd_machine a) e m"
  shows "side_step a b a' b'"
  using assms by (auto simp: after_send_def split: sum.splits intro!: side_send)

lemma act_side_step: "act_side x a b = Some (a', b') \<Longrightarrow> side_step a b a' b'"
proof (cases x)
  case DoReceive
  assume "act_side x a b = Some (a', b')"
  with DoReceive show ?thesis
    by (auto split: list.splits sum.splits option.splits prod.splits intro: side_receive)
next
  case (SendFails v error)
  assume "act_side x a b = Some (a', b')"
  with SendFails show ?thesis
    by (auto split: sum.splits bool.splits prod.splits intro: side_send_fails emits_data)
next
  case (ReceiveFails error)
  assume "act_side x a b = Some (a', b')"
  with ReceiveFails show ?thesis
    by (auto split: sum.splits option.splits prod.splits intro: side_receive_fails)
qed (auto intro: after_send_step emits.intros)

fun drive :: "(bool \<times> 'v act) list \<Rightarrow> 'v system \<Rightarrow> 'v system option" where
  \<comment> \<open>\<open>True\<close>: the left side acts\<close>
  "drive [] s = Some s"
| "drive ((True, x) # xs) s =
     (case act_side x (fst s) (snd s) of None \<Rightarrow> None | Some (a, b) \<Rightarrow> drive xs (a, b))"
| "drive ((False, x) # xs) s =
     (case act_side x (snd s) (fst s) of None \<Rightarrow> None | Some (b, a) \<Rightarrow> drive xs (a, b))"

lemma drive_reachable:
  "drive xs s = Some t \<Longrightarrow> reachable_system plan p q s \<Longrightarrow> reachable_system plan p q t"
proof (induction xs s rule: drive.induct)
  case (2 x xs s)
  then obtain a b where ab: "act_side x (fst s) (snd s) = Some (a, b)" "drive xs (a, b) = Some t"
    by (auto split: option.splits)
  have "system_step s (a, b)"
    using left_acts [OF act_side_step [OF ab(1)]] by simp
  with 2 ab show ?case by (blast intro: system_next)
next
  case (3 x xs s)
  then obtain a b where ab: "act_side x (snd s) (fst s) = Some (b, a)" "drive xs (a, b) = Some t"
    by (auto split: option.splits)
  have "system_step s (a, b)"
    using right_acts [OF act_side_step [OF ab(1)]] by simp
  with 3 ab show ?case by (blast intro: system_next)
qed simp

section \<open>Runs of the example\<close>

definition ping_start :: "string system" where
  "ping_start = (start_side (ping_machine ''client''), start_side (ping_machine ''server''))"

definition run_from :: "(bool \<times> string act) list \<Rightarrow> string system" where
  "run_from xs = (case drive xs ping_start of Some s \<Rightarrow> s | None \<Rightarrow> ping_start)"

lemma run_from_reachable: "reachable_system ping_plan ''client'' ''server'' (run_from xs)"
  using ping_start_reachable drive_reachable [of xs ping_start]
  by (auto simp: run_from_def ping_start_def split: option.splits)

text \<open>A whole conversation without a fault, and one whose second message meets a closed transport.\<close>

definition ping_done :: "string system" where
  "ping_done = run_from
     [(True, DoData ''hello''), (False, DoReceive), (False, DoSelect ''again''), (True, DoReceive),
      (True, DoData ''bye''), (False, DoReceive), (False, DoSelect ''stop''), (True, DoReceive),
      (True, DoCancel), (False, DoReceive)]"

definition ping_broken :: "string system" where
  "ping_broken = run_from
     [(True, DoData ''hello''), (False, DoReceive), (False, DoSelect ''again''), (True, DoReceive),
      (True, SendFails ''bye'' (RtTransportClosed ''memory'')),
      (False, ReceiveFails (RtTransportClosed ''memory''))]"

lemma ping_done_complete:
  "map_prod (is_complete \<circ> sd_machine) (is_complete \<circ> sd_machine) ping_done =
     (Inr True :: string runtime_error + bool, Inr True :: string runtime_error + bool)"
  "live (sd_trace (fst ping_done))" "live (sd_trace (snd ping_done))"
  by code_simp+

lemma ping_broken_failed:
  "machine_failure (sd_machine (fst ping_broken)) =
     (Inr (Some ''transport.closed'') :: string runtime_error + string option)"
  "machine_failure (sd_machine (snd ping_broken)) =
     (Inr (Some ''transport.closed'') :: string runtime_error + string option)"
  by code_simp+

end
