(* ===== verification/System_Properties.thy ===== *)
theory System_Properties
  imports Schedules
begin

text \<open>
  What holds of two machines compiled from the same conversation and joined by ordered queues,
  in every system they can reach, whatever the schedule and whatever transport operation fails.
  Every theorem has an instance on the conversation \<open>ping\<close>.
\<close>

section \<open>Safety of communication\<close>

lemma reachable_parts:
  assumes "compile_prepared ext c = Inr plan" and "role_pair c p q"
    and "reachable_system plan p q (a, b)"
  shows "well_formed c"
    and "side_ok c (pp_conversation_identity plan) (pp_plan_identity plan) p a"
    and "side_ok c (pp_conversation_identity plan) (pp_plan_identity plan) q b"
    and "belongs c (pp_conversation_identity plan) (pp_plan_identity plan) p (sd_machine a)"
    and "belongs c (pp_conversation_identity plan) (pp_plan_identity plan) q (sd_machine b)"
    and "ahead c (pp_conversation_identity plan) p a b \<or> ahead c (pp_conversation_identity plan) q b a"
proof -
  show "well_formed c" using assms(1) by (auto elim: compile_prepared_shape dest: compile_shape(1))
  show "side_ok c (pp_conversation_identity plan) (pp_plan_identity plan) p a"
    and "side_ok c (pp_conversation_identity plan) (pp_plan_identity plan) q b"
    and "ahead c (pp_conversation_identity plan) p a b \<or> ahead c (pp_conversation_identity plan) q b a"
    using reachable_ok [OF assms] by (auto simp: system_ok_def)
  then show "belongs c (pp_conversation_identity plan) (pp_plan_identity plan) p (sd_machine a)"
    and "belongs c (pp_conversation_identity plan) (pp_plan_identity plan) q (sd_machine b)"
    by (auto simp: side_ok_def)
qed

text \<open>C1: communication safety.  Whatever arrives first in the inbox of a side that has seen
  no fault is accepted by its machine: a reachable system never rejects a frame of its peer
  for its version, its conversation, its identity, its state, its sequence number or its
  shape.\<close>

theorem inbox_head_accepted:
  assumes plan: "compile_prepared ext c = Inr plan" and pair: "role_pair c p q"
    and reach: "reachable_system plan p q (a, b)"
    and inbox: "sd_inbox b = e # es" and lv: "live (sd_trace b)"
  shows "\<exists>m. accept (sd_machine b) e = Inr (env_frame e, m) \<and>
    conv_step c (m_current (sd_machine b)) (env_frame e) (m_current m)"
proof -
  note parts = reachable_parts [OF plan pair reach]
  have "ahead c (pp_conversation_identity plan) p a b"
    using parts(6) inbox by (auto simp: ahead_def)
  with inbox lv parts(3) obtain j where
      j: "conv_next c (m_current (sd_machine b)) (env_frame e) = Some j"
    and e: "frame_sender (env_frame e) = p" "\<not> is_fault (env_frame e)" "env_wire e = WIRE_FORMAT"
      "env_conversation e = module_id (conv_module c)" "env_identity e = pp_conversation_identity plan"
      "env_state e = m_current (sd_machine b)" "env_sequence e = m_sequence (sd_machine b)"
    by (auto simp: ahead_def live_faultless side_ok_def)
  from accept_complete [OF parts(1) pair parts(5) j e(1-7)] j show ?thesis
    by (auto simp: conv_next_iff [OF wf_distinct [OF parts(1)], symmetric])
qed

lemma inbox_head_accepted_witness:
  "\<exists>m. accept (sd_machine ping_server_waiting) ping_envelope = Inr (env_frame ping_envelope, m) \<and>
    conv_step ping (m_current (sd_machine ping_server_waiting)) (env_frame ping_envelope) (m_current m)"
  by (rule inbox_head_accepted [OF ping_compiles ping_pair ping_sent_reachable])
     (simp_all add: ping_server_waiting_def)


text \<open>Half duplex.  At most one of the two queues of a reachable system holds envelopes, and
  a side whose inbox holds something has an action to wait for: it cannot emit.\<close>

theorem half_duplex:
  fixes a b :: "'v side" and c :: "'v conversation"
  assumes plan: "compile_prepared ext c = Inr plan" and pair: "role_pair c p q"
    and reach: "reachable_system plan p q (a, b)"
  shows "(sd_inbox a = [] \<or> sd_inbox b = []) \<and>
    (sd_inbox b \<noteq> [] \<and> live (sd_trace b) \<longrightarrow> (\<nexists>e m. emits (sd_machine b) (e :: 'v envelope) m))"
proof (intro conjI impI)
  note parts = reachable_parts [OF plan pair reach]
  show "sd_inbox a = [] \<or> sd_inbox b = []" using parts(6) by (auto simp: ahead_def)
  assume inb: "sd_inbox b \<noteq> [] \<and> live (sd_trace b)"
  then have "ahead c (pp_conversation_identity plan) p a b"
    using parts(6) by (auto simp: ahead_def)
  with inb parts(3) obtain f j where
      j: "conv_next c (m_current (sd_machine b)) f = Some j"
    and f: "frame_sender f = p" "\<not> is_fault f"
    by (cases "sd_inbox b") (auto simp: ahead_def live_faultless side_ok_def)
  show "\<nexists>e m. emits (sd_machine b) (e :: 'v envelope) m"
  proof
    assume "\<exists>e m. emits (sd_machine b) (e :: 'v envelope) m"
    then obtain e :: "'v envelope" and m where "emits (sd_machine b) e m" by blast
    from emits_global [OF parts(5) this] one_sender [OF j _ f(2)] f(1) pair
    show False by (auto simp: role_pair_def)
  qed
qed

lemma half_duplex_witness:
  "sd_inbox ping_client_sent = [] \<and> sd_inbox ping_server_waiting \<noteq> [] \<and>
   (\<nexists>e m. emits (sd_machine ping_server_waiting) (e :: string envelope) m)"
  using half_duplex [OF ping_compiles ping_pair ping_sent_reachable]
  by (simp add: ping_client_sent_def ping_server_waiting_def)

section \<open>What the traces say\<close>

lemma side_report:
  fixes c :: "'v conversation"
  assumes wf: "well_formed c" and ok: "side_ok c ident pid p (a :: 'v side)"
  shows "verify_trace c (sd_trace a) = Inr (report_of c (length (sd_trace a)) (m_current (sd_machine a)))"
    and "is_complete (sd_machine a) =
      (Inr (tr_complete (report_of c n (m_current (sd_machine a)))) :: 'v runtime_error + bool)"
    and "is_successful (sd_machine a) =
      (Inr (tr_successful (report_of c n (m_current (sd_machine a)))) :: 'v runtime_error + bool)"
    and "machine_failure (sd_machine a) =
      (Inr (tr_failure (report_of c n (m_current (sd_machine a)))) :: 'v runtime_error + string option)"
proof -
  have run: "conv_run c (conv_initial c) (sd_trace a) = Some (m_current (sd_machine a))"
    and bel: "belongs c ident pid p (sd_machine a)" using ok by (simp_all add: side_ok_def)
  show "verify_trace c (sd_trace a) = Inr (report_of c (length (sd_trace a)) (m_current (sd_machine a)))"
    by (rule verify_trace_run [OF wf run])
  obtain s where s: "find (\<lambda>s. gid s = m_current (sd_machine a)) (conv_states c) = Some s"
    using conv_run_ids [OF wf wf_initial [OF wf] run] by (rule state_ids_find)
  then have "state_of (sd_machine a) = (Inr (project_state s p) :: 'v runtime_error + _)"
    by (simp add: state_of_def belongs_state [OF bel])
  with s show
    "is_complete (sd_machine a) =
      (Inr (tr_complete (report_of c n (m_current (sd_machine a)))) :: 'v runtime_error + bool)"
    "is_successful (sd_machine a) =
      (Inr (tr_successful (report_of c n (m_current (sd_machine a)))) :: 'v runtime_error + bool)"
    "machine_failure (sd_machine a) =
      (Inr (tr_failure (report_of c n (m_current (sd_machine a)))) :: 'v runtime_error + string option)"
    by (cases s; simp add: is_complete_def is_successful_def machine_failure_def report_of_def
        trace_report_at_def)+
qed

text \<open>C2: trace fidelity.  The trace a side has recorded, fault included, is one the global
  graph admits, and the checker's report of it says what the machine says of itself: its
  state, whether it is complete, whether it succeeded, and which failure it ended in.\<close>

theorem trace_fidelity:
  fixes a b :: "'v side" and c :: "'v conversation"
  assumes plan: "compile_prepared ext c = Inr plan" and pair: "role_pair c p q"
    and reach: "reachable_system plan p q (a, b)"
  shows "\<exists>r. verify_trace c (sd_trace a) = Inr r \<and>
    tr_steps r = length (sd_trace a) \<and> tr_final_state r = m_current (sd_machine a) \<and>
    is_complete (sd_machine a) = (Inr (tr_complete r) :: 'v runtime_error + bool) \<and>
    is_successful (sd_machine a) = (Inr (tr_successful r) :: 'v runtime_error + bool) \<and>
    machine_failure (sd_machine a) = (Inr (tr_failure r) :: 'v runtime_error + string option)"
proof -
  note parts = reachable_parts [OF plan pair reach]
  show ?thesis
    by (rule exI [of _ "report_of c (length (sd_trace a)) (m_current (sd_machine a))"])
       (simp add: side_report(1) [OF parts(1,2)]
        side_report(2-4) [OF parts(1,2), of "length (sd_trace a)"],
        simp add: report_of_def trace_report_at_def)
qed

lemma trace_fidelity_witness:
  "\<exists>r. verify_trace ping (sd_trace ping_client_sent) = Inr r \<and>
    tr_steps r = length (sd_trace ping_client_sent) \<and>
    tr_final_state r = m_current (sd_machine ping_client_sent) \<and>
    is_complete (sd_machine ping_client_sent) = (Inr (tr_complete r) :: string runtime_error + bool) \<and>
    is_successful (sd_machine ping_client_sent) = (Inr (tr_successful r) :: string runtime_error + bool) \<and>
    machine_failure (sd_machine ping_client_sent) = (Inr (tr_failure r) :: string runtime_error + string option)"
  by (rule trace_fidelity [OF ping_compiles ping_pair ping_sent_reachable])

section \<open>Progress and agreement\<close>

lemma live_ahead:
  assumes "well_formed c" and "side_ok c ident pid q b" and "ahead c ident p a b"
    and "live (sd_trace a)" and "live (sd_trace b)"
  shows "sd_trace a = sd_trace b @ map env_frame (sd_inbox b)"
    and "queue_ok c ident p (m_current (sd_machine b)) (length (sd_trace b)) (sd_inbox b)"
  using assms by (auto simp: ahead_def live_faultless side_ok_def)

lemma actor_step:
  fixes a b :: "'v side" and c :: "'v conversation"
  assumes wf: "well_formed c" and bel: "belongs c ident pid p (sd_machine a)" and lv: "live (sd_trace a)"
    and s: "find (\<lambda>s. gid s = m_current (sd_machine a)) (conv_states c) = Some s" "actor s = Some p"
  shows "\<exists>a' b'. side_step a b a' b' \<and> live (sd_trace a') \<and> sd_trace b' = sd_trace b"
proof -
  obtain e :: "'v envelope" and m where em: "emits (sd_machine a) e m"
    using actor_emits [OF wf bel s] by blast
  have "side_step a b (a\<lparr>sd_machine := m, sd_trace := sd_trace a @ [env_frame e]\<rparr>)
      (b\<lparr>sd_inbox := sd_inbox b @ [e]\<rparr>)"
    by (rule side_send [OF em]) simp
  with emits_global(3) [OF bel em] lv show ?thesis by fastforce
qed

lemma complete_report:
  fixes a :: "'v side" and c :: "'v conversation"
  assumes wf: "well_formed c" and ok: "side_ok c ident pid p a"
    and s: "find (\<lambda>s. gid s = m_current (sd_machine a)) (conv_states c) = Some s"
  shows "is_complete (sd_machine a) = (Inr (is_terminal s) :: 'v runtime_error + bool)"
  by (simp only: side_report(2) [OF wf ok, of 0])
     (simp add: report_of_def trace_report_at_def s)

text \<open>Seen from the side that is ahead.\<close>

lemma ahead_progress:
  fixes a b :: "'v side" and c :: "'v conversation"
  assumes wf: "well_formed c" and pair: "role_pair c p q"
    and a: "side_ok c ident pid p a" and b: "side_ok c ident pid q b"
    and ah: "ahead c ident p a b" and lv: "live (sd_trace a)" "live (sd_trace b)"
  shows "(\<exists>a' b'. (side_step a b a' b' \<or> side_step b a b' a') \<and> live (sd_trace a') \<and> live (sd_trace b')) \<or>
    (is_complete (sd_machine a) = (Inr True :: 'v runtime_error + bool) \<and>
     is_complete (sd_machine b) = (Inr True :: 'v runtime_error + bool))"
proof -
  note ahead = live_ahead [OF wf b ah lv]
  have bela: "belongs c ident pid p (sd_machine a)" and belb: "belongs c ident pid q (sd_machine b)"
    using a b by (simp_all add: side_ok_def)
  show ?thesis
  proof (cases "sd_inbox b")
    case (Cons e es)
    with ahead(2) obtain j where
      "conv_next c (m_current (sd_machine b)) (env_frame e) = Some j"
      and e: "frame_sender (env_frame e) = p" "\<not> is_fault (env_frame e)" "env_wire e = WIRE_FORMAT"
        "env_conversation e = module_id (conv_module c)" "env_identity e = ident"
        "env_state e = m_current (sd_machine b)" "env_sequence e = m_sequence (sd_machine b)"
      using b lv by (auto simp: side_ok_def)
    from accept_complete [OF wf pair belb this]
    obtain m where "accept (sd_machine b) e = Inr (env_frame e, m)" by blast
    then have "side_step b a (b\<lparr>sd_machine := m, sd_inbox := es, sd_trace := sd_trace b @ [env_frame e]\<rparr>) a"
      using Cons by (intro side_receive) (auto simp: receive_and_record_ok)
    with lv e(2) show ?thesis by fastforce
  next
    case Nil
    then have same: "m_current (sd_machine b) = m_current (sd_machine a)"
      using ahead(1) a b by (auto simp: side_ok_def)
    have "conv_run c (conv_initial c) (sd_trace a) = Some (m_current (sd_machine a))"
      using a by (simp add: side_ok_def)
    from conv_run_ids [OF wf wf_initial [OF wf] this] obtain s
      where s: "find (\<lambda>s. gid s = m_current (sd_machine a)) (conv_states c) = Some s"
      by (rule state_ids_find)
    then have "wf_state c s" using wf_states [OF wf] by (auto dest: find_key_SomeD)
    show ?thesis
    proof (cases "actor s")
      case None
      then have "is_terminal s" by (simp add: actor_None)
      with complete_report [OF wf a s] complete_report [OF wf b] s same show ?thesis by simp
    next
      case (Some r)
      with wf_actor [OF \<open>wf_state c s\<close>] pair have "r = p \<or> r = q" by (auto simp: role_pair_def)
      then show ?thesis
        using actor_step [OF wf bela lv(1) s, of b] actor_step [OF wf belb lv(2), of s a] s same Some lv
        by metis
    qed
  qed
qed

lemma ahead_agreement:
  fixes a b :: "'v side" and c :: "'v conversation"
  assumes wf: "well_formed c" and b: "side_ok c ident pid q b"
    and ah: "ahead c ident p a b" and lv: "live (sd_trace a)" "live (sd_trace b)"
    and fin: "is_complete (sd_machine b) = (Inr True :: 'v runtime_error + bool)"
  shows "sd_inbox b = []" and "sd_trace a = sd_trace b"
proof -
  note ahead = live_ahead [OF wf b ah lv]
  have run: "conv_run c (conv_initial c) (sd_trace b) = Some (m_current (sd_machine b))"
    using b by (simp add: side_ok_def)
  have "tr_complete (report_of c 0 (m_current (sd_machine b)))"
    using fin side_report(2) [OF wf b, of 0] by simp
  from report_complete [OF wf_distinct [OF wf] conv_run_ids [OF wf wf_initial [OF wf] run] this]
  show "sd_inbox b = []" using ahead(2) by (cases "sd_inbox b") auto
  with ahead(1) show "sd_trace a = sd_trace b" by simp
qed

text \<open>C4: deadlock freedom.  As long as neither side has seen a fault and they are not both
  complete, some side can take a step that succeeds: send its next frame, or accept the one
  that waits for it.\<close>

theorem deadlock_free:
  fixes a b :: "'v side" and c :: "'v conversation"
  assumes plan: "compile_prepared ext c = Inr plan" and pair: "role_pair c p q"
    and reach: "reachable_system plan p q (a, b)"
    and lv: "live (sd_trace a)" "live (sd_trace b)"
    and unfinished: "\<not> (is_complete (sd_machine a) = (Inr True :: 'v runtime_error + bool) \<and>
      is_complete (sd_machine b) = (Inr True :: 'v runtime_error + bool))"
  shows "\<exists>a' b'. system_step (a, b) (a', b') \<and> live (sd_trace a') \<and> live (sd_trace b')"
proof -
  note parts = reachable_parts [OF plan pair reach]
  have "\<exists>a' b'. (side_step a b a' b' \<or> side_step b a b' a') \<and> live (sd_trace a') \<and> live (sd_trace b')"
    using parts(6) ahead_progress [OF parts(1) pair parts(2,3) _ lv] unfinished
      ahead_progress [OF parts(1) role_pair_sym [OF pair] parts(3,2) _ lv(2,1)]
    by blast
  then show ?thesis by (blast intro: system_step.intros)
qed

lemma deadlock_free_witness:
  "\<exists>a' b'. system_step (ping_client_sent, ping_server_waiting) (a', b') \<and>
     live (sd_trace a') \<and> live (sd_trace b')"
proof (rule deadlock_free [OF ping_compiles ping_pair ping_sent_reachable])
  show "\<not> (is_complete (sd_machine ping_client_sent) = (Inr True :: string runtime_error + bool) \<and>
      is_complete (sd_machine ping_server_waiting) = (Inr True :: string runtime_error + bool))"
    by code_simp
qed (simp_all add: ping_client_sent_def ping_server_waiting_def)

text \<open>C7: agreement.  When both sides are complete without a fault, nothing is left in the
  queues, the two recorded traces are the same frames in the same order, and the machines are
  in the same state with the same sequence number, which is the number of frames exchanged
  modulo \<open>2\<^sup>64\<close>.\<close>

theorem completion_agreement:
  fixes a b :: "'v side" and c :: "'v conversation"
  assumes plan: "compile_prepared ext c = Inr plan" and pair: "role_pair c p q"
    and reach: "reachable_system plan p q (a, b)"
    and lv: "live (sd_trace a)" "live (sd_trace b)"
    and fin: "is_complete (sd_machine a) = (Inr True :: 'v runtime_error + bool)"
      "is_complete (sd_machine b) = (Inr True :: 'v runtime_error + bool)"
  shows "sd_inbox a = [] \<and> sd_inbox b = [] \<and> sd_trace a = sd_trace b \<and>
    m_current (sd_machine a) = m_current (sd_machine b) \<and>
    m_sequence (sd_machine a) = of_nat (length (sd_trace a)) \<and>
    m_sequence (sd_machine b) = of_nat (length (sd_trace b))"
proof -
  note parts = reachable_parts [OF plan pair reach]
  have eq: "sd_inbox a = [] \<and> sd_inbox b = [] \<and> sd_trace a = sd_trace b"
    using parts(6)
  proof
    assume ah: "ahead c (pp_conversation_identity plan) p a b"
    show ?thesis
      using ahead_agreement [OF parts(1,3) ah lv fin(2)] ah by (simp add: ahead_def)
  next
    assume ah: "ahead c (pp_conversation_identity plan) q b a"
    show ?thesis
      using ahead_agreement [OF parts(1,2) ah lv(2,1) fin(1)] ah by (simp add: ahead_def)
  qed
  moreover from this have "Some (m_current (sd_machine a)) = Some (m_current (sd_machine b))"
    using parts(2,3) unfolding side_ok_def by metis
  ultimately show ?thesis using parts(2,3) lv by (simp add: side_ok_def)
qed

lemma completion_agreement_witness:
  "sd_inbox (fst ping_done) = [] \<and> sd_inbox (snd ping_done) = [] \<and>
    sd_trace (fst ping_done) = sd_trace (snd ping_done) \<and>
    m_current (sd_machine (fst ping_done)) = m_current (sd_machine (snd ping_done)) \<and>
    m_sequence (sd_machine (fst ping_done)) = of_nat (length (sd_trace (fst ping_done))) \<and>
    m_sequence (sd_machine (snd ping_done)) = of_nat (length (sd_trace (snd ping_done)))"
proof (rule completion_agreement [OF ping_compiles ping_pair])
  show "reachable_system ping_plan ''client'' ''server'' (fst ping_done, snd ping_done)"
    by (simp only: ping_done_def prod.collapse run_from_reachable)
qed (use ping_done_complete in \<open>auto simp: map_prod_def case_prod_beta\<close>)

text \<open>C9: faults are terminal.  A side records at most one fault and records it last; from then
  on its machine is complete, not successful, and reports exactly the failure the fault names.
  \<close>

theorem fault_terminal:
  fixes a b :: "'v side" and c :: "'v conversation"
  assumes plan: "compile_prepared ext c = Inr plan" and pair: "role_pair c p q"
    and reach: "reachable_system plan p q (a, b)" and fault: "\<not> live (sd_trace a)"
  shows "\<exists>fs observer failure. sd_trace a = fs @ [FFault observer failure] \<and> live fs \<and>
    is_complete (sd_machine a) = (Inr True :: 'v runtime_error + bool) \<and>
    is_successful (sd_machine a) = (Inr False :: 'v runtime_error + bool) \<and>
    machine_failure (sd_machine a) = (Inr (Some failure) :: 'v runtime_error + string option)"
proof (cases "sd_trace a" rule: rev_cases)
  case Nil
  with fault show ?thesis by simp
next
  case (snoc fs f)
  note parts = reachable_parts [OF plan pair reach]
  have lv: "live fs" and run: "conv_run c (conv_initial c) (fs @ [f]) = Some (m_current (sd_machine a))"
    using parts(2) snoc by (auto simp: side_ok_def)
  obtain r x where f: "f = FFault r x" using fault snoc lv by (cases f) auto
  obtain k where "conv_next c k f = Some (m_current (sd_machine a))"
    using run by (auto simp: conv.run_snoc split: option.splits)
  from fault_target [OF parts(1) this [unfolded f]]
  have s: "find (\<lambda>s. gid s = m_current (sd_machine a)) (conv_states c) =
      Some (GFail (m_current (sd_machine a)) x)"
    using find_key_distinct [OF wf_distinct [OF parts(1)]] by fastforce
  note rep = side_report(2-4) [OF parts(1,2), of 0]
  show ?thesis
    by (rule exI [of _ fs], rule exI [of _ r], rule exI [of _ x])
       (simp add: snoc f lv rep, simp add: report_of_def trace_report_at_def s)
qed

lemma fault_terminal_witness:
  "\<exists>fs observer failure. sd_trace (fst ping_broken) = fs @ [FFault observer failure] \<and> live fs \<and>
    is_complete (sd_machine (fst ping_broken)) = (Inr True :: string runtime_error + bool) \<and>
    is_successful (sd_machine (fst ping_broken)) = (Inr False :: string runtime_error + bool) \<and>
    machine_failure (sd_machine (fst ping_broken)) =
      (Inr (Some failure) :: string runtime_error + string option)"
proof (rule fault_terminal [OF ping_compiles ping_pair])
  show "reachable_system ping_plan ''client'' ''server'' (fst ping_broken, snd ping_broken)"
    by (simp only: ping_broken_def prod.collapse run_from_reachable)
  show "\<not> live (sd_trace (fst ping_broken))" by code_simp
qed

text \<open>C10: no panic.  In every reachable system, faults included, the state a machine is at
  exists in its endpoint and so do the targets of all its edges: the \<open>expect\<close> of a missing
  state is never reached.\<close>

theorem reachable_no_panic:
  fixes a b :: "'v side" and c :: "'v conversation"
  assumes plan: "compile_prepared ext c = Inr plan" and pair: "role_pair c p q"
    and reach: "reachable_system plan p q (a, b)"
  shows "machine_ok (sd_machine a) \<and>
    (\<exists>s. state_of (sd_machine a) = (Inr s :: 'v runtime_error + endpoint_state))"
proof -
  note parts = reachable_parts [OF plan pair reach]
  have "conv_run c (conv_initial c) (sd_trace a) = Some (m_current (sd_machine a))"
    using parts(2) by (simp add: side_ok_def)
  from belongs_ok [OF parts(1,4) conv_run_ids [OF parts(1) wf_initial [OF parts(1)] this]]
  have "machine_ok (sd_machine a)" .
  then show ?thesis by (metis machine_ok_state)
qed

lemma reachable_no_panic_witness:
  "machine_ok (sd_machine ping_client_sent) \<and>
    (\<exists>s. state_of (sd_machine ping_client_sent) = (Inr s :: string runtime_error + endpoint_state))"
  by (rule reachable_no_panic [OF ping_compiles ping_pair ping_sent_reachable])

end
