(* ===== verification/Conformance.thy ===== *)
theory Conformance
  imports Local_Global
begin

text \<open>
  One endpoint against an arbitrary peer.  \<open>endpoint_next\<close> is the meaning of a projected
  endpoint: the frames it may record at a state, and where they lead.  A machine's history runs
  in its endpoint, whatever envelopes it is offered, and the endpoint is simulated by the global
  graph.
\<close>

section \<open>The meaning of an endpoint\<close>

fun emit_target :: "string \<Rightarrow> endpoint_state \<Rightarrow> 'v frame \<Rightarrow> string option" where
  "emit_target role s (FFault observer failure) =
     (if observer = role then efailure_target s failure else None)"
| "emit_target role (ESend _ to message next _ _) (FData afrom ato amessage _) =
     (if afrom = role \<and> ato = to \<and> amessage = message then Some next else None)"
| "emit_target role (ESelect _ branches _) (FSelect by label) =
     (if by = role then bt_get branches label else None)"
| "emit_target role (ESendCancel _ to scope next _) (FCancel afrom ato ascope) =
     (if afrom = role \<and> ato = to \<and> ascope = scope then Some next else None)"
| "emit_target role _ _ = None"

definition endpoint_next :: "endpoint \<Rightarrow> string \<Rightarrow> 'v frame \<Rightarrow> string option" where
  "endpoint_next ep i f =
     (case find (\<lambda>s. eid s = i) (ep_states ep) of
        None \<Rightarrow> None
      | Some s \<Rightarrow>
          (case receive_target (ep_role ep) s f of
             Some j \<Rightarrow> Some j
           | None \<Rightarrow> emit_target (ep_role ep) s f))"

fun endpoint_run :: "endpoint \<Rightarrow> string \<Rightarrow> 'v frame list \<Rightarrow> string option" where
  "endpoint_run ep i [] = Some i"
| "endpoint_run ep i (f # fs) =
     (case endpoint_next ep i f of None \<Rightarrow> None | Some j \<Rightarrow> endpoint_run ep j fs)"

lemma endpoint_next_global:
  assumes "well_formed c" and "r \<in> set (conv_roles c)"
    and "endpoint_next (project_role c r) i f = Some j"
  shows "conv_next c i f = Some j"
proof -
  let ?p = "role_id r"
  obtain a b where "conv_roles c = [a, b]" "role_pair c (role_id a) (role_id b)"
    using assms(1) by (rule well_formed_roles)
  with assms(2) obtain q where pair: "role_pair c ?p q" by (auto intro: role_pair_sym)
  from assms(3) obtain s where s: "find (\<lambda>s. gid s = i) (conv_states c) = Some s"
    and alt: "receive_target ?p (project_state s ?p) f = Some j \<or>
      emit_target ?p (project_state s ?p) f = Some j"
    by (auto simp: endpoint_next_def project_find split: option.splits)
  then have wf: "wf_state c s" using wf_states [OF assms(1)] by (auto dest: find_key_SomeD)
  from alt show ?thesis
  proof
    assume rt: "receive_target ?p (project_state s ?p) f = Some j"
    with receive_target_global [OF wf role_pair_sym [OF pair] receive_target_fault [OF rt], of j] s
    show ?thesis by (simp add: conv_next_find)
  next
    assume "emit_target ?p (project_state s ?p) f = Some j"
    with s assms(2) show ?thesis
      by (cases s; cases f)
         (auto simp: conv_next_find bt_contains_get split: if_splits)
  qed
qed

interpretation ep: frame_runner "endpoint_next ep" "endpoint_run ep" for ep :: endpoint
  by unfold_locales simp_all

interpretation proj: frame_simulation "endpoint_next (project_role c r)" "endpoint_run (project_role c r)"
  "conv_next c" "conv_run c" "\<lambda>i j. i = j \<and> well_formed c \<and> r \<in> set (conv_roles c)"
  for c :: "'v conversation" and r :: role
  by unfold_locales (auto dest: endpoint_next_global)

text \<open>Conversely, the endpoint admits every frame of the graph but a fault its peer observed.\<close>

lemma global_endpoint_next:
  assumes "well_formed c" and "r \<in> set (conv_roles c)" and "conv_next c i f = Some j"
    and "is_fault f \<longrightarrow> frame_sender f = role_id r"
  shows "endpoint_next (project_role c r) i f = Some j"
proof -
  let ?p = "role_id r"
  obtain a b where "conv_roles c = [a, b]" "role_pair c (role_id a) (role_id b)"
    using assms(1) by (rule well_formed_roles)
  with assms(2) obtain q where pair: "role_pair c ?p q" by (auto intro: role_pair_sym)
  obtain s where s: "find (\<lambda>s. gid s = i) (conv_states c) = Some s"
    using assms(3) by (auto simp: conv_next_def split: option.splits)
  then have wf: "wf_state c s" using wf_states [OF assms(1)] by (auto dest: find_key_SomeD)
  from assms(3) s have m: "match_frame (bs_collect (map role_id (conv_roles c))) s f = Some j"
    by (simp add: conv_next_find)
  show ?thesis
    using m wf pair assms(4) s
    by (cases s; cases f)
       (auto simp: endpoint_next_def project_find role_pair_def split: if_splits option.splits)
qed

section \<open>Histories of a machine\<close>

text \<open>What a machine does and records: it emits, it accepts an envelope, it observes a failure.\<close>

inductive machine_step :: "machine \<Rightarrow> 'v frame \<Rightarrow> machine \<Rightarrow> bool" where
  ms_emit: "emits m e m' \<Longrightarrow> machine_step m (env_frame e) m'"
| ms_accept: "accept m e = Inr (f, m') \<Longrightarrow> machine_step m f m'"
| ms_observe: "observe_failure m failure = Inr (f, m') \<Longrightarrow> machine_step m f m'"

inductive machine_run :: "machine \<Rightarrow> 'v frame list \<Rightarrow> machine \<Rightarrow> bool" where
  mr_Nil: "machine_run m [] m"
| mr_Cons: "machine_step m f m' \<Longrightarrow> machine_run m' fs m'' \<Longrightarrow> machine_run m (f # fs) m''"

lemma emits_endpoint:
  assumes "emits m e m'"
  shows "endpoint_next (m_endpoint m) (m_current m) (env_frame e) = Some (m_current m')"
  using assms
proof cases
  case (emits_data payload)
  then show ?thesis
    by (auto simp: result_simps emit_def state_of_def state_at_def endpoint_next_def)
next
  case (emits_select label)
  then show ?thesis
    by (auto simp: result_simps emit_def state_of_def state_at_def endpoint_next_def)
next
  case emits_cancel
  then show ?thesis
    by (auto simp: result_simps emit_def state_of_def state_at_def endpoint_next_def)
qed

lemma machine_step_endpoint:
  assumes "machine_step m f m'"
  shows "endpoint_next (m_endpoint m) (m_current m) f = Some (m_current m')"
    and "m_endpoint m' = m_endpoint m" and "m_sequence m' = m_sequence m + 1"
proof -
  have "endpoint_next (m_endpoint m) (m_current m) f = Some (m_current m') \<and>
    m_endpoint m' = m_endpoint m \<and> m_sequence m' = m_sequence m + 1"
    using assms
  proof cases
    case (ms_emit e)
    then show ?thesis
      using emits_endpoint [OF ms_emit(2)] emits_fields(6,9) [OF ms_emit(2)] by simp
  next
    case (ms_accept e)
    then show ?thesis by (auto simp: result_simps state_of_def state_at_def endpoint_next_def)
  next
    case (ms_observe failure)
    then show ?thesis
      by (auto simp: result_simps observe_failure_def state_at_def endpoint_next_def split: option.splits)
  qed
  then show "endpoint_next (m_endpoint m) (m_current m) f = Some (m_current m')"
    and "m_endpoint m' = m_endpoint m" and "m_sequence m' = m_sequence m + 1" by auto
qed

lemma machine_run_endpoint:
  "machine_run m fs m' \<Longrightarrow>
     endpoint_run (m_endpoint m) (m_current m) fs = Some (m_current m') \<and>
     m_endpoint m' = m_endpoint m \<and> m_sequence m' = m_sequence m + of_nat (length fs)"
  by (induction rule: machine_run.induct) (auto simp: machine_step_endpoint)

end
