(* ===== verification/Machine_Properties.thy ===== *)
theory Machine_Properties
  imports Schedules Conformance
begin

text \<open>
  What one endpoint machine of \<open>src/src/runtime.rs\<close> guarantees by itself, against any peer.
\<close>

lemma start_belongs:
  assumes "compile_prepared ext c = Inr plan" and "from_plan plan p = Inr m"
  shows "well_formed c" and "\<exists>r \<in> set (conv_roles c). m_endpoint m = project_role c r \<and> role_id r = p"
    and "belongs c (pp_conversation_identity plan) (pp_plan_identity plan) p m"
    and "m_current m = conv_initial c" and "m_sequence m = 0"
proof -
  show "well_formed c" using assms(1) by (auto elim: compile_prepared_shape dest: compile_shape(1))
  have "belongs c (pp_conversation_identity plan) (pp_plan_identity plan) p m \<and>
    m_current m = conv_initial c \<and> m_sequence m = 0"
    using assms(2) by (simp only: from_plan_compiled [OF assms(1)])
  then show "\<exists>r \<in> set (conv_roles c). m_endpoint m = project_role c r \<and> role_id r = p"
    and "belongs c (pp_conversation_identity plan) (pp_plan_identity plan) p m"
    and "m_current m = conv_initial c" and "m_sequence m = 0"
    by (auto simp: belongs_def)
qed

text \<open>C8: local conformance.  Whatever envelopes a machine of a compiled plan is offered, by an
  honest peer or not, and whichever operations its workload calls, the frames it records are a
  trace of the global graph that ends in the machine's state, and its sequence number counts
  them modulo \<open>2\<^sup>64\<close>.\<close>

theorem local_conformance:
  fixes m :: machine and fs :: "'v frame list"
  assumes plan: "compile_prepared ext c = Inr plan"
    and start: "from_plan plan p = (Inr m :: 'v runtime_error + machine)"
    and run: "machine_run m fs m'"
  shows "\<exists>r. verify_trace (c :: 'v conversation) fs = Inr r \<and> tr_final_state r = m_current m' \<and>
    m_sequence m' = of_nat (length fs)"
proof -
  from start_belongs [OF plan start] obtain r where wf: "well_formed c"
    and r: "r \<in> set (conv_roles c)" "m_endpoint m = project_role c r"
    and m: "m_current m = conv_initial c" "m_sequence m = 0" by blast
  from machine_run_endpoint [OF run] r m
  have "endpoint_run (project_role c r) (conv_initial c) fs = Some (m_current m')"
    and seq: "m_sequence m' = of_nat (length fs)" by auto
  with proj.run_sim [of "conv_initial c" "conv_initial c" c r fs] wf r(1)
  have "conv_run c (conv_initial c) fs = Some (m_current m')" by auto
  from verify_trace_run [OF wf this] seq show ?thesis
    by (auto simp: report_of_def trace_report_at_def)
qed

lemma local_conformance_witness:
  "\<exists>r. verify_trace ping [FData ''client'' ''server'' ''msg'' (Some ''hello'')] = Inr r \<and>
    tr_final_state r = m_current ((ping_machine ''client'')\<lparr>m_current := ''pick'', m_sequence := 1\<rparr>) \<and>
    m_sequence ((ping_machine ''client'')\<lparr>m_current := ''pick'', m_sequence := 1\<rparr>) =
      of_nat (length [FData ''client'' ''server'' ''msg'' (Some ''hello'')])"
proof (rule local_conformance [OF ping_compiles ping_starts(1)])
  have "machine_step (ping_machine ''client'') (env_frame ping_envelope)
      ((ping_machine ''client'')\<lparr>m_current := ''pick'', m_sequence := 1\<rparr>)"
    using ping_emits by (blast intro: ms_emit emits_data)
  then show "machine_run (ping_machine ''client'') [FData ''client'' ''server'' ''msg'' (Some ''hello'')]
      ((ping_machine ''client'')\<lparr>m_current := ''pick'', m_sequence := 1\<rparr>)"
    by (auto simp: ping_envelope_def emit_def intro: mr_Cons mr_Nil)
qed

text \<open>One exchange.  What a machine emits, the machine of the other role at the same state and
  sequence number accepts, and both move to the same state and the same next number.\<close>

theorem emit_then_accept:
  fixes e :: "'v envelope" and c :: "'v conversation"
  assumes wf: "well_formed c" and pair: "role_pair c p q"
    and bel: "belongs c ident pid p m" "belongs c ident pid q n"
    and same: "m_current n = m_current m" "m_sequence n = m_sequence m"
    and em: "emits m e m'"
  shows "\<exists>n'. accept n e = Inr (env_frame e, n') \<and> m_current n' = m_current m' \<and>
    m_sequence n' = m_sequence m'"
proof -
  note glob = emits_global [OF bel(1) em] and fields = emits_fields [OF em]
  have "accept n e = Inr (env_frame e, n\<lparr>m_current := m_current m', m_sequence := m_sequence n + 1\<rparr>)"
    using glob fields belongs_fields [OF bel(1)] same
    by (intro accept_complete [OF wf pair bel(2)]) simp_all
  with fields(9) same show ?thesis by auto
qed

lemma emit_then_accept_witness:
  "\<exists>n'. accept (ping_machine ''server'') ping_envelope = Inr (env_frame ping_envelope, n') \<and>
    m_current n' = m_current ((ping_machine ''client'')\<lparr>m_current := ''pick'', m_sequence := 1\<rparr>) \<and>
    m_sequence n' = m_sequence ((ping_machine ''client'')\<lparr>m_current := ''pick'', m_sequence := 1\<rparr>)"
proof (rule emit_then_accept [OF _ ping_pair])
  show "well_formed ping" using validate_ping by (simp add: validate_ok_iff)
  show "belongs ping ping_identity ping_identity ''client'' (ping_machine ''client'')"
    "belongs ping ping_identity ping_identity ''server'' (ping_machine ''server'')"
    by (simp_all add: belongs_def ping_machine_def ping_def plain_role_def)
  show "emits (ping_machine ''client'') ping_envelope
      ((ping_machine ''client'')\<lparr>m_current := ''pick'', m_sequence := 1\<rparr>)"
    using ping_emits by (rule emits_data)
qed (simp_all add: ping_machine_def)

text \<open>Replay.  An envelope is accepted once.  Offered again to the machine that has accepted it,
  it is refused for its state or, on a state that leads back to itself, for its sequence
  number; so is an envelope the machine has emitted itself.\<close>

theorem replay_refused:
  fixes e :: "'v envelope"
  assumes "accept m e = Inr (f, m') \<or> emits m e m'"
  shows "accept m' e = Inl (if m_current m' = m_current m
    then RtSequenceMismatch (m_role m) (m_sequence m + 1) (m_sequence m)
    else RtStateMismatch (m_role m) (m_current m') (m_current m))"
proof -
  have adv: "m_endpoint m' = m_endpoint m" "m_identity m' = m_identity m"
    using assms by (auto dest: accept_advances emits_advances simp: advances_def)
  have fields: "env_wire e = WIRE_FORMAT" "env_conversation e = m_conversation m"
    "env_identity e = m_identity m" "env_state e = m_current m" "env_sequence e = m_sequence m"
    "m_sequence m' = m_sequence m + 1"
    using assms by (auto simp: result_simps dest: emits_fields)
  have "validate_envelope m' e = (Inl (if m_current m' = m_current m
    then RtSequenceMismatch (m_role m) (m_sequence m + 1) (m_sequence m)
    else RtStateMismatch (m_role m) (m_current m') (m_current m)) :: 'v runtime_error + unit)"
    by (simp add: validate_envelope_def adv fields guard_err_def)
  then show ?thesis by (simp add: accept_def)
qed

lemma replay_refused_witness:
  "accept ((ping_machine ''client'')\<lparr>m_current := ''pick'', m_sequence := 1\<rparr>) ping_envelope =
    Inl (if m_current ((ping_machine ''client'')\<lparr>m_current := ''pick'', m_sequence := 1\<rparr>)
          = m_current (ping_machine ''client'')
      then RtSequenceMismatch (m_role (ping_machine ''client'')) (m_sequence (ping_machine ''client'') + 1)
        (m_sequence (ping_machine ''client''))
      else RtStateMismatch (m_role (ping_machine ''client''))
        (m_current ((ping_machine ''client'')\<lparr>m_current := ''pick'', m_sequence := 1\<rparr>))
        (m_current (ping_machine ''client'')))"
  by (rule replay_refused) (use ping_emits in \<open>blast intro: emits_data\<close>)

text \<open>Failures.  A machine of a compiled plan that observes a failure declared at its state
  moves to the terminal state of that failure; an undeclared one is an error, and there is no
  third outcome.\<close>

theorem observe_failure_outcome:
  fixes c :: "'v conversation"
  assumes wf: "well_formed c" and bel: "belongs c ident pid p m" and cur: "m_current m \<in> state_ids c"
  shows "case observe_failure m failure :: 'v runtime_error + ('v frame \<times> machine) of
      Inr (f, m') \<Rightarrow> f = FFault p failure \<and> GFail (m_current m') failure \<in> set (conv_states c) \<and>
        machine_failure m' = (Inr (Some failure) :: 'v runtime_error + string option) \<and>
        m_sequence m' = m_sequence m + 1
    | Inl err \<Rightarrow> err = RtProtocol p (m_current m) ''observe failure'' (UndeclaredFailure failure) \<and>
        (\<forall>s \<in> set (conv_states c). gid s = m_current m \<longrightarrow> failure_target s failure = None)"
proof (cases "observe_failure m failure :: 'v runtime_error + ('v frame \<times> machine)")
  case (Inl err)
  obtain s where s: "find (\<lambda>s. gid s = m_current m) (conv_states c) = Some s"
    using cur by (rule state_ids_find)
  have uniq: "t = s" if "t \<in> set (conv_states c)" "gid t = m_current m" for t
    using find_key_distinct [OF wf_distinct [OF wf] that(1)] that(2) s by simp
  from Inl s have "failure_target s failure = None \<and>
      err = RtProtocol p (m_current m) ''observe failure'' (UndeclaredFailure failure)"
    by (auto simp: observe_failure_def observe_failure_at_def belongs_state [OF bel]
        belongs_fields(1) [OF bel] result_simps)
  with Inl uniq show ?thesis by auto
next
  case (Inr fm)
  obtain f m' where fm: "fm = (f, m')" by force
  with Inr have obs: "observe_failure_at m (m_current m) failure = Inr (f, m')"
    by (simp add: observe_failure_def)
  note glob = observe_global [OF bel obs]
  have bel': "belongs c ident pid p m'" by (rule belongs_advances [OF bel observe_advances [OF obs]])
  have fail: "GFail (m_current m') failure \<in> set (conv_states c)" by (rule glob(3) [OF wf])
  then have "find (\<lambda>s. gid s = m_current m') (conv_states c) = Some (GFail (m_current m') failure)"
    using find_key_distinct [OF wf_distinct [OF wf] fail] by simp
  then have "machine_failure m' = (Inr (Some failure) :: 'v runtime_error + string option)"
    by (simp add: machine_failure_def state_of_def belongs_state [OF bel'])
  moreover have "m_sequence m' = m_sequence m + 1" using obs by (auto simp: result_simps)
  ultimately show ?thesis using Inr fm glob(2) fail by simp
qed

lemma observe_failure_outcome_witness:
  "case observe_failure (ping_machine ''client'') ''transport.closed'' ::
      string runtime_error + (string frame \<times> machine) of
      Inr (f, m') \<Rightarrow> f = FFault ''client'' ''transport.closed'' \<and>
        GFail (m_current m') ''transport.closed'' \<in> set (conv_states ping) \<and>
        machine_failure m' = (Inr (Some ''transport.closed'') :: string runtime_error + string option) \<and>
        m_sequence m' = m_sequence (ping_machine ''client'') + 1
    | Inl err \<Rightarrow> False"
proof -
  have "well_formed ping" using validate_ping by (simp add: validate_ok_iff)
  moreover have "belongs ping ping_identity ping_identity ''client'' (ping_machine ''client'')"
    by (simp add: belongs_def ping_machine_def ping_def plain_role_def)
  moreover have "m_current (ping_machine ''client'') \<in> state_ids ping"
    by (simp add: state_ids_def ping_machine_def ping_def)
  ultimately have out: "case observe_failure (ping_machine ''client'') ''transport.closed'' ::
      string runtime_error + (string frame \<times> machine) of
      Inr (f, m') \<Rightarrow> f = FFault ''client'' ''transport.closed'' \<and>
        GFail (m_current m') ''transport.closed'' \<in> set (conv_states ping) \<and>
        machine_failure m' = (Inr (Some ''transport.closed'') :: string runtime_error + string option) \<and>
        m_sequence m' = m_sequence (ping_machine ''client'') + 1
    | Inl err \<Rightarrow> err = RtProtocol ''client'' (m_current (ping_machine ''client'')) ''observe failure''
          (UndeclaredFailure ''transport.closed'') \<and>
        (\<forall>s \<in> set (conv_states ping). gid s = m_current (ping_machine ''client'') \<longrightarrow>
          failure_target s ''transport.closed'' = None)"
    by (rule observe_failure_outcome)
  have "\<exists>s \<in> set (conv_states ping). gid s = m_current (ping_machine ''client'') \<and>
      failure_target s ''transport.closed'' \<noteq> None"
    by (simp add: ping_def ping_machine_def closed_edge_def)
  with out show ?thesis by (auto split: sum.splits)
qed

text \<open>The sequence number after a failed send.  Where the send action leads back to its own
  state, the failure is counted on top of the frame that was never recorded: the trace grows by
  one frame and the sequence number, which the report gives as the number of frames, by two.
  Where it leads elsewhere both grow by one.\<close>

theorem failed_send_sequence:
  fixes m :: machine and payload :: 'v
  assumes em: "emit_data m payload = Inr (e, m1)"
    and fail: "send_and_record m1 (Inl error) e trace = Inr (b, m2, trace')"
  shows "length trace' = length trace + 1 \<and>
    m_sequence m2 = m_sequence m + (if m_current m1 = m_current m then 2 else 1)"
proof -
  from em have e: "env_state e = m_current m" "m_sequence m1 = m_sequence m + 1"
    using emits_fields [OF emits_data [OF em]] by auto
  from fail obtain failure fault where
      "observe_failure_at m1 (env_state e) failure = Inr (fault, m2)" and tr: "trace' = trace @ [fault]"
    by (auto simp: send_and_record_err)
  then have "m_sequence m2 = (if m_current m1 = m_current m then m_sequence m1 + 1 else m_sequence m1)"
    by (auto simp: result_simps e)
  with e tr show ?thesis by simp
qed

text \<open>A valid conversation whose only exchange repeats itself.\<close>

definition echo :: "string conversation" where
  "echo = ping\<lparr>conv_states :=
     [GSend ''start'' ''client'' ''server'' ''msg'' ''start'' None closed_edge,
      GFail ''failed'' ''transport.closed'']\<rparr>"

lemma validate_echo: "validate echo = Inr ()"
  by code_simp

definition echo_machine :: machine where
  "echo_machine = \<lparr>m_endpoint = project_role echo (plain_role ''client''), m_identity = [],
     m_plan_identity = [], m_current = ''start'', m_sequence = 0\<rparr>"

lemma failed_send_sequence_witness:
  "length [FFault ''client'' ''transport.closed'' :: string frame] = length ([] :: string frame list) + 1 \<and>
    m_sequence (echo_machine\<lparr>m_current := ''failed'', m_sequence := 2\<rparr>) = m_sequence echo_machine +
      (if m_current (echo_machine\<lparr>m_sequence := 1\<rparr>) = m_current echo_machine then 2 else 1)"
proof (rule failed_send_sequence)
  show "emit_data echo_machine ''hello'' = Inr (fst (emit echo_machine
      (FData ''client'' ''server'' ''msg'' (Some ''hello'')) ''start''), echo_machine\<lparr>m_sequence := 1\<rparr>)"
    by code_simp
  show "send_and_record (echo_machine\<lparr>m_sequence := 1\<rparr>) (Inl (RtTransportClosed ''memory''))
      (fst (emit echo_machine (FData ''client'' ''server'' ''msg'' (Some ''hello'')) ''start'')) [] =
    Inr (False, echo_machine\<lparr>m_current := ''failed'', m_sequence := 2\<rparr>,
      [FFault ''client'' ''transport.closed''])"
    by code_simp
qed

end
