(* ===== verification/Graph_Properties.thy ===== *)
theory Graph_Properties
  imports Schedules
begin

text \<open>
  What the checker, the trace checker and the projection of \<open>src/src/lib.rs\<close> guarantee.
\<close>

section \<open>The checker\<close>

text \<open>C11: \<open>validate\<close> decides well-formedness.  It succeeds exactly on the conversations that
  satisfy the declarative specification, reachability of every state included, and when it
  fails it reports at least one diagnostic.\<close>

theorem validator_exact:
  "(validate c = Inr () \<longleftrightarrow> well_formed c) \<and> validate c \<noteq> Inl []"
  by (simp add: validate_ok_iff) (simp add: validate_def Let_def case_prod_beta)

text \<open>The worklist of \<open>validate_reachability\<close> terminates and computes exactly the states
  reachable from the initial one; the diagnostics CLQ0017 name the declared states that are
  not, in order, and CLQ0018 is reported exactly when no terminal state is reachable.\<close>

theorem reachability_exact:
  assumes "distinct (map gid (conv_states c))"
  shows "validate_reachability c (fst (index_states 0 [] (conv_states c))) =
    map (\<lambda>s. diag ''CLQ0017'' (''$.states[id='' @ gid s @ '']'')
               ''state is unreachable from the initial state'')
      (filter (\<lambda>s. \<not> reachable_id c (gid s)) (conv_states c)) @
    (if \<exists>s \<in> set (conv_states c). reachable_id c (gid s) \<and> is_terminal s then []
     else [diag ''CLQ0018'' ''$.states''
             ''no successful or failed terminal state is reachable from the initial state''])"
proof -
  have "validate_reachability c (state_table c) =
    map (\<lambda>s. diag ''CLQ0017'' (''$.states[id='' @ gid s @ '']'')
               ''state is unreachable from the initial state'')
      (filter (\<lambda>s. \<not> reachable_id c (gid s)) (conv_states c)) @
    (if \<exists>s \<in> set (conv_states c). reachable_id c (gid s) \<and> is_terminal s then []
     else [diag ''CLQ0018'' ''$.states''
             ''no successful or failed terminal state is reachable from the initial state''])"
    unfolding validate_reachability_def case_prod_beta
    by (simp only: reach_loop_result [OF assms])
  then show ?thesis by (simp only: state_table_def)
qed

lemma reachability_exact_witness:
  "validate_reachability (ping\<lparr>conv_states := conv_states ping @ [GEnd ''island'']\<rparr>)
     (fst (index_states 0 [] (conv_states ping @ [GEnd ''island'']))) =
    map (\<lambda>s. diag ''CLQ0017'' (''$.states[id='' @ gid s @ '']'')
               ''state is unreachable from the initial state'')
      (filter (\<lambda>s. \<not> reachable_id (ping\<lparr>conv_states := conv_states ping @ [GEnd ''island'']\<rparr>) (gid s))
        (conv_states ping @ [GEnd ''island''])) @
    (if \<exists>s \<in> set (conv_states ping @ [GEnd ''island'']).
        reachable_id (ping\<lparr>conv_states := conv_states ping @ [GEnd ''island'']\<rparr>) (gid s) \<and> is_terminal s
     then []
     else [diag ''CLQ0018'' ''$.states''
             ''no successful or failed terminal state is reachable from the initial state''])"
  using reachability_exact [of "ping\<lparr>conv_states := conv_states ping @ [GEnd ''island'']\<rparr>"]
  by (simp add: ping_def)

section \<open>Traces\<close>

lemma report_find:
  assumes "well_formed c" and "conv_run c (conv_initial c) fs = Some j"
  obtains s where "s \<in> set (conv_states c)" and "gid s = j"
    and "report_of c n j = trace_report_at n j s"
proof -
  obtain s where "find (\<lambda>s. gid s = j) (conv_states c) = Some s"
    using conv_run_ids [OF assms(1) wf_initial [OF assms(1)] assms(2)] by (rule state_ids_find)
  with that show ?thesis by (auto simp: report_of_def dest: find_key_SomeD)
qed

text \<open>C12: the trace checker accepts exactly the runs of the global graph.  Its report counts the
  frames and describes the state the run ends in.\<close>

theorem trace_accepts_exactly:
  "verify_trace c fs = Inr r \<longleftrightarrow>
     well_formed c \<and>
     (\<exists>s \<in> set (conv_states c). conv_steps c (conv_initial c) fs (gid s) \<and>
        r = \<lparr>tr_steps = length fs, tr_final_state = gid s, tr_complete = is_terminal s,
             tr_successful = (\<exists>i. s = GEnd i),
             tr_failure = (case s of GFail _ failure \<Rightarrow> Some failure | _ \<Rightarrow> None)\<rparr>)"
proof -
  have rep: "trace_report_at n (gid s) s =
    \<lparr>tr_steps = n, tr_final_state = gid s, tr_complete = is_terminal s,
     tr_successful = (\<exists>i. s = GEnd i),
     tr_failure = (case s of GFail _ failure \<Rightarrow> Some failure | _ \<Rightarrow> None)\<rparr>" for n s
    by (cases s) (auto simp: trace_report_at_def)
  show ?thesis
  proof (cases "well_formed c")
    case True
    note iff = conv_run_iff [OF wf_distinct [OF True], symmetric]
    have of_state: "report_of c n (gid s) = trace_report_at n (gid s) s"
      if "s \<in> set (conv_states c)" for s n
      using find_key_distinct [OF wf_distinct [OF True] that] by (simp add: report_of_def)
    have reached: "\<exists>s \<in> set (conv_states c). gid s = j" if "conv_run c (conv_initial c) fs = Some j" for j
      using conv_run_ids [OF True wf_initial [OF True] that] by (auto simp: state_ids_def)
    have "(\<exists>j. conv_run c (conv_initial c) fs = Some j \<and> r = report_of c (length fs) j) \<longleftrightarrow>
      (\<exists>s \<in> set (conv_states c). conv_run c (conv_initial c) fs = Some (gid s) \<and>
        r = trace_report_at (length fs) (gid s) s)"
      using reached of_state by metis
    then show ?thesis unfolding verify_trace_Inr iff rep [symmetric] using True by blast
  qed (simp add: verify_trace_Inr)
qed

text \<open>C13: what the trace checker refuses.  On a well-formed conversation a refusal names the
  first frame the graph does not admit: the frames before it are a run, the error carries its
  position, the state the run had reached, what was expected there and what was received.\<close>

theorem trace_refuses_first:
  assumes wf: "well_formed c" and refused: "verify_trace c fs = Inl x"
  shows "\<exists>k < length fs. \<exists>s \<in> set (conv_states c). conv_steps c (conv_initial c) (take k fs) (gid s) \<and>
    (\<nexists>j. conv_step c (gid s) (fs ! k) j) \<and>
    x = TraceFrame \<lparr>te_step = k, te_state = gid s, te_expected = expected_frame s,
                    te_received = describe_frame (fs ! k)\<rparr>"
proof (cases "conv_run c (conv_initial c) fs")
  case None
  from verify_trace_refuse [OF wf None] obtain k s where
    "s \<in> set (conv_states c)" "k < length fs"
    "conv_run c (conv_initial c) (take k fs) = Some (gid s)" "conv_next c (gid s) (fs ! k) = None"
    "verify_trace c fs = Inl (TraceFrame (refusal k s (fs ! k)))" by blast
  with refused show ?thesis
    by (auto simp: refusal_def conv_run_iff [OF wf_distinct [OF wf]]
        conv_next_iff [OF wf_distinct [OF wf], symmetric])
next
  case (Some j)
  with verify_trace_run [OF wf Some] refused show ?thesis by simp
qed

lemma trace_refuses_first_witness:
  "\<exists>k < length [FSelect ''server'' ''stop'' :: string frame]. \<exists>s \<in> set (conv_states ping).
    conv_steps ping (conv_initial ping) (take k [FSelect ''server'' ''stop'']) (gid s) \<and>
    (\<nexists>j. conv_step ping (gid s) ([FSelect ''server'' ''stop''] ! k) j) \<and>
    TraceFrame \<lparr>te_step = 0, te_state = ''start'', te_expected = ''data client -> server: msg'',
                te_received = ''select by server: stop''\<rparr> =
    TraceFrame \<lparr>te_step = k, te_state = gid s, te_expected = expected_frame s,
                te_received = describe_frame ([FSelect ''server'' ''stop'' :: string frame] ! k)\<rparr>"
proof (rule trace_refuses_first)
  show "well_formed ping" using validate_ping by (simp add: validate_ok_iff)
  show "verify_trace ping [FSelect ''server'' ''stop''] =
    Inl (TraceFrame \<lparr>te_step = 0, te_state = ''start'', te_expected = ''data client -> server: msg'',
                te_received = ''select by server: stop''\<rparr>)"
    by code_simp
qed

text \<open>The two panics of \<open>verify_trace\<close>, the index of a state and the final \<open>expect\<close>, are
  never reached, whatever the conversation and the frames; on an invalid conversation the
  result is the list of diagnostics.\<close>

theorem trace_never_panics:
  "verify_trace c fs \<noteq> Inl TracePanic \<and>
   ((\<exists>ds. verify_trace c fs = Inl (TraceInvalid ds)) \<longleftrightarrow> \<not> well_formed c)"
proof (cases "well_formed c")
  case True
  then show ?thesis
    using verify_trace_run [OF True, of fs] verify_trace_refuse [OF True, of fs]
    by (cases "conv_run c (conv_initial c) fs") auto
next
  case False
  with verify_trace_invalid [OF False, of fs] show ?thesis by auto
qed

text \<open>Every prefix of an accepted trace is accepted, and a proper prefix is never complete:
  nothing can follow a terminal state.\<close>

theorem trace_prefix:
  assumes "verify_trace c (fs @ gs) = Inr r"
  shows "\<exists>r'. verify_trace c fs = Inr r' \<and> tr_steps r' = length fs \<and>
    (gs \<noteq> [] \<longrightarrow> \<not> tr_complete r' \<and> tr_failure r' = None)"
proof -
  from assms obtain j where wf: "well_formed c"
    and run: "conv_run c (conv_initial c) (fs @ gs) = Some j" by (auto simp: verify_trace_Inr)
  from conv.run_prefix [OF run] obtain u where u: "conv_run c (conv_initial c) fs = Some u"
    "conv_run c u gs = Some j" by blast
  from wf u(1) obtain s where s: "s \<in> set (conv_states c)" "gid s = u"
    "report_of c (length fs) u = trace_report_at (length fs) u s" by (rule report_find)
  have "\<not> is_terminal s" if "gs \<noteq> []"
  proof
    assume "is_terminal s"
    from terminal_no_next [OF wf s(1) this s(2)] u(2) that show False
      by (cases gs) auto
  qed
  then have "gs \<noteq> [] \<longrightarrow> \<not> is_terminal s \<and> (case s of GFail _ f \<Rightarrow> Some f | _ \<Rightarrow> None) = None"
    by (cases s) auto
  with verify_trace_run [OF wf u(1)] s(3) show ?thesis by (simp add: trace_report_at_def)
qed

lemma trace_prefix_witness:
  "\<exists>r'. verify_trace ping [FData ''client'' ''server'' ''msg'' None] = Inr r' \<and>
    tr_steps r' = 1 \<and> \<not> tr_complete r' \<and> tr_failure r' = None"
proof -
  have "verify_trace ping ([FData ''client'' ''server'' ''msg'' None] @ [FSelect ''server'' ''stop'']) =
    Inr \<lparr>tr_steps = 2, tr_final_state = ''halt'', tr_complete = False, tr_successful = False,
         tr_failure = None\<rparr>"
    by code_simp
  from trace_prefix [OF this] show ?thesis by simp
qed

section \<open>Projection\<close>

text \<open>C14: duality.  A valid conversation projects to exactly two endpoints, and at every state the
  two local actions fit: an output of one is the matching input of the other, with the same
  message, targets and failure edges, or both are the same terminal state.\<close>

theorem projection_dual:
  assumes "project c = Inr eps"
  shows "\<exists>a b. eps = [a, b] \<and> ep_role a \<noteq> ep_role b \<and>
    ep_initial a = conv_initial c \<and> ep_initial b = conv_initial c \<and>
    list_all2 (\<lambda>s t. hands_over (ep_role a) (ep_role b) s t \<or>
      hands_over (ep_role b) (ep_role a) t s \<or> both_final s t) (ep_states a) (ep_states b)"
proof -
  from assms have wf: "well_formed c" and eps: "eps = project_validated c"
    by (auto simp: project_def result_simps validate_ok_iff)
  obtain r s where rs: "conv_roles c = [r, s]" "role_pair c (role_id r) (role_id s)"
    using wf by (rule well_formed_roles)
  have "list_all2 (\<lambda>x y. hands_over (role_id r) (role_id s) x y \<or>
      hands_over (role_id s) (role_id r) y x \<or> both_final x y)
    (ep_states (project_role c r)) (ep_states (project_role c s))"
    using project_dual [OF wf_states [OF wf] rs(2)]
    by (simp add: list_all2_conv_all_nth)
  with rs show ?thesis by (simp add: eps project_validated_def role_pair_def)
qed

lemma projection_dual_witness:
  "\<exists>a b. project_validated ping = [a, b] \<and> ep_role a \<noteq> ep_role b \<and>
    ep_initial a = conv_initial ping \<and> ep_initial b = conv_initial ping \<and>
    list_all2 (\<lambda>s t. hands_over (ep_role a) (ep_role b) s t \<or>
      hands_over (ep_role b) (ep_role a) t s \<or> both_final s t) (ep_states a) (ep_states b)"
  by (rule projection_dual) (simp add: project_def validate_ping)

text \<open>Projection loses nothing.  From either endpoint of a valid conversation the list of its
  global states is read back exactly.\<close>

theorem projection_lossless:
  assumes "project c = Inr eps" and "ep \<in> set eps"
  shows "map (reconstruct (ep_role ep)) (ep_states ep) = conv_states c"
proof -
  from assms obtain r where "well_formed c" "r \<in> set (conv_roles c)" "ep = project_role c r"
    by (auto simp: project_def result_simps validate_ok_iff project_validated_def)
  with project_role_lossless show ?thesis by fastforce
qed

lemma projection_lossless_witness:
  "map (reconstruct ''server'') (ep_states (project_role ping (plain_role ''server''))) = conv_states ping"
  using projection_lossless [of ping "project_validated ping" "project_role ping (plain_role ''server'')"]
  by (simp add: project_def validate_ping project_validated_def ping_def plain_role_def)

end
