(* ===== verification/Plan_Properties.thy ===== *)
theory Plan_Properties
  imports Examples
begin

text \<open>
  What the compiler, the verifier and the wire dictionary of \<open>src/src/plan.rs\<close> guarantee, and the
  hexadecimal codec beside them.
\<close>

section \<open>The wire dictionary\<close>

lemma numbered_parts:
  assumes "length ts \<le> MAX_U16"
  shows "map (\<lambda>t. unat (wt_id t)) (numbered ts) = [1..<length ts + 1]"
    and "map (\<lambda>t. (wt_state t, wt_operation t)) (numbered ts) = ts"
proof -
  show "map (\<lambda>t. unat (wt_id t)) (numbered ts) = [1..<length ts + 1]"
  proof (rule nth_equalityI)
    fix i assume "i < length (map (\<lambda>t. unat (wt_id t)) (numbered ts))"
    then have i: "i < length ts" by (simp add: numbered_def)
    then have "map (\<lambda>t. unat (wt_id t)) (numbered ts) ! i = unat (word_of_nat (i + 1) :: u16)"
      by (cases "ts ! i") (simp add: numbered_def nth_enumerate_eq)
    with unat_id [OF i assms] i show "map (\<lambda>t. unat (wt_id t)) (numbered ts) ! i = [1..<length ts + 1] ! i"
      by (simp del: upt_Suc of_nat_add)
  qed (simp add: numbered_def del: upt_Suc)
  show "map (\<lambda>t. (wt_state t, wt_operation t)) (numbered ts) = ts"
    by (intro nth_equalityI) (simp_all add: numbered_def nth_enumerate_eq case_prod_beta)
qed

text \<open>C15: the dictionary of a valid conversation.  Its identifiers are \<open>1, 2, \<dots>\<close> without gaps, its
  entries are in strictly ascending order of state and operation, and they are exactly the
  transitions of the global graph.\<close>

theorem dictionary_exact:
  assumes "project c = Inr eps" and "derive_wire_plan eps = Inr w"
  shows "wp_encoding w = COMPACT_WIRE_FORMAT \<and>
    map (\<lambda>t. unat (wt_id t)) (wp_transitions w) = [1..<length (wp_transitions w) + 1] \<and>
    sorted_wrt (<) (map (\<lambda>t. (wt_state t, wt_operation t)) (wp_transitions w)) \<and>
    (\<lambda>t. (wt_state t, wt_operation t)) ` set (wp_transitions w) = graph_transitions c"
proof -
  from assms(1) have wf: "well_formed c" and eps: "eps = project_validated c"
    by (auto simp: project_def result_simps validate_ok_iff)
  note few = derive_wire_plan_cases(1) [OF assms(2)] and w = derive_wire_plan_cases(2) [OF assms(2)]
  have len: "length (numbered (dictionary_entries eps)) = length (dictionary_entries eps)"
    by (simp add: numbered_def)
  have "(\<lambda>t. (wt_state t, wt_operation t)) ` set (wp_transitions w) = set (dictionary_entries eps)"
    using arg_cong [OF numbered_parts(2) [OF few], of set] by (simp add: w image_image)
  then have "(\<lambda>t. (wt_state t, wt_operation t)) ` set (wp_transitions w) = graph_transitions c"
    using dictionary_graph [OF wf arg_cong [OF eps, of set]] by simp
  moreover have "wp_transitions w = numbered (dictionary_entries eps)"
    "wp_encoding w = COMPACT_WIRE_FORMAT" by (simp_all add: w)
  ultimately show ?thesis
    using dictionary_sorted [of eps] numbered_parts [OF few] len by metis
qed

lemma dictionary_exact_witness:
  "wp_encoding (pp_wire ping_plan) = COMPACT_WIRE_FORMAT \<and>
    map (\<lambda>t. unat (wt_id t)) (wp_transitions (pp_wire ping_plan)) =
      [1..<length (wp_transitions (pp_wire ping_plan)) + 1] \<and>
    sorted_wrt (<) (map (\<lambda>t. (wt_state t, wt_operation t)) (wp_transitions (pp_wire ping_plan))) \<and>
    (\<lambda>t. (wt_state t, wt_operation t)) ` set (wp_transitions (pp_wire ping_plan)) = graph_transitions ping"
proof (rule dictionary_exact)
  show "project ping = Inr (project_validated ping)" by (simp add: project_def validate_ping)
  show "derive_wire_plan (project_validated ping) = Inr (pp_wire ping_plan)" by code_simp
qed

text \<open>The dictionary is deterministic and shared.  Either endpoint of a valid conversation
  alone, and the endpoints in any order and with repetitions, yield the same dictionary.\<close>

theorem dictionary_shared:
  assumes "well_formed c" and "eps \<noteq> []" and "set eps \<subseteq> set (project_validated c)"
  shows "derive_wire_plan eps = derive_wire_plan (project_validated c)"
proof -
  have each: "set (endpoint_transitions ep) = graph_transitions c" if "ep \<in> set (project_validated c)" for ep
    using endpoint_transitions_project [OF assms(1)] that by (auto simp: project_validated_def)
  have "(\<Union>ep \<in> set eps. set (endpoint_transitions ep)) = graph_transitions c"
    using assms(2,3) each by (cases eps) auto
  moreover have "(\<Union>ep \<in> set (project_validated c). set (endpoint_transitions ep)) = graph_transitions c"
    using assms(2,3) each by (cases eps) auto
  ultimately have "dictionary_entries eps = dictionary_entries (project_validated c)"
    by (intro dictionary_cong) simp
  then show ?thesis
    by (simp add: derive_wire_plan_def dictionary_entries_def [symmetric])
qed

lemma dictionary_shared_witness:
  "derive_wire_plan [project_role ping (plain_role ''server'')] = derive_wire_plan (project_validated ping)"
proof (rule dictionary_shared)
  show "well_formed ping" using validate_ping by (simp add: validate_ok_iff)
qed (simp_all add: project_validated_def ping_def plain_role_def)

text \<open>The bound of the dictionary.  Derivation succeeds exactly when there are at most 65535
  different transitions; identifiers never wrap.\<close>

theorem dictionary_bound:
  "(\<exists>w. derive_wire_plan eps = Inr w) \<longleftrightarrow>
     card (\<Union>ep \<in> set eps. set (endpoint_transitions ep)) \<le> 65535"
proof -
  have len: "length (dictionary_entries eps) = card (\<Union>ep \<in> set eps. set (endpoint_transitions ep))"
    using dictionary_set [of eps] distinct_card [of "dictionary_entries eps"]
    by (simp add: dictionary_entries_def)
  show ?thesis
    using derive_wire_plan_ok [of eps] derive_wire_plan_too_many [of eps] len
    by (cases "length (dictionary_entries eps) \<le> MAX_U16") (auto simp: MAX_U16_def)
qed

section \<open>Compilation and verification\<close>

text \<open>C16: the compiler succeeds.  A well-formed conversation whose identifiers follow the grammar of
  the plan format and whose transitions fit in \<open>u16\<close> compiles, provided the JSON encoders
  succeed and the digest has 32 bytes; the plan verifies, and preparing it after a reload gives
  what preparing it directly gives.\<close>

theorem compilation_succeeds:
  fixes ext :: "'v externals"
  assumes wf: "well_formed c" and ids: "ids_valid c"
    and few: "card (graph_transitions c) \<le> 65535"
    and sha: "\<And>bs. length (ext_sha256 ext bs) = 32"
    and json: "\<And>c. \<exists>bs. ext_conversation_json ext c = Inr bs"
      "\<And>sp. \<exists>bs. ext_plan_json ext sp = Inr bs"
  shows "\<exists>p pp. compile ext c = Inr p \<and> verify ext p = Inr () \<and>
    prepare ext p = Inr pp \<and> compile_prepared ext c = Inr pp"
proof -
  have eps: "set (compiled_endpoints c) = set (project_validated c)"
    by (simp add: project_validated_def)
  have "length (dictionary_entries (compiled_endpoints c)) = card (graph_transitions c)"
    using dictionary_graph [OF wf eps] distinct_card [of "dictionary_entries (compiled_endpoints c)"]
    by (simp add: dictionary_entries_def)
  then have "length (dictionary_entries (compiled_endpoints c)) \<le> MAX_U16"
    using few by (simp add: MAX_U16_def)
  from compile_succeeds [OF wf ids this sha json] obtain p where p: "compile ext c = Inr p" by blast
  have v: "verify ext p = Inr ()" using compile_shape(2) [OF p] by (simp add: verify_ok)
  from compile_shape(6) [OF p] obtain pp where "prepared p = Inr pp" by (simp add: prepared_def)
  with p v show ?thesis by (simp add: prepare_def compile_prepared_def)
qed

lemma compilation_succeeds_witness:
  "\<exists>p pp. compile plain_externals ping = Inr p \<and> verify plain_externals p = Inr () \<and>
    prepare plain_externals p = Inr pp \<and> compile_prepared plain_externals ping = Inr pp"
proof (rule compilation_succeeds)
  show "well_formed ping" using validate_ping by (simp add: validate_ok_iff)
  show "ids_valid ping"
    by (simp add: ids_valid_def) code_simp
  have "graph_transitions ping = set (concat (map global_transitions (conv_states ping)))"
    by (simp add: graph_transitions_def)
  also have "card \<dots> \<le> 65535"
    by (rule le_trans [OF card_length]) (simp add: ping_def)
  finally show "card (graph_transitions ping) \<le> 65535" .
qed (simp_all add: plain_externals_def)

text \<open>C18: \<open>verify\<close> decides the declarative soundness of a plan: format, identifier grammar, two
  endpoints of different roles whose states are unique and whose references all resolve, the
  declared plan identity, and a dictionary that is the derived one.\<close>

theorem verifier_exact: "verify ext p = Inr () \<longleftrightarrow> plan_sound ext p"
  by (rule verify_ok)

text \<open>C19: tampering.  Two plans that verify under the same plan identity agree in every field, or
  they exhibit a collision of the digest: two different byte strings, the encodings of the two plans
  without their identity, with the same digest.  The encoder is \<open>serde_json\<close>'s, of which the
  hypothesis says that it does not write the two as one text.\<close>

theorem identity_binds_plan:
  assumes "verify ext p = Inr ()" and "verify ext q = Inr ()"
    and same: "pl_plan_identity p = pl_plan_identity q" and diff: "p \<noteq> q"
    and encoder: "inj_on (ext_plan_json ext) {semantic_part p, semantic_part q}"
  shows "\<exists>a b. ext_plan_json ext (semantic_part p) = Inr a \<and> ext_plan_json ext (semantic_part q) = Inr b \<and>
    a \<noteq> b \<and> ext_sha256 ext a = ext_sha256 ext b"
proof -
  have ident: "\<exists>a. ext_plan_json ext (semantic_part r) = Inr a \<and>
      pl_plan_identity r = ''sha256:'' @ encode_hex (ext_sha256 ext a)"
    if "verify ext r = Inr ()" for r
    using that by (auto simp: verify_ok plan_sound_def calculate_identity_def result_simps
        sha256_identity_def)
  obtain a b where enc: "ext_plan_json ext (semantic_part p) = Inr a"
    "ext_plan_json ext (semantic_part q) = Inr b"
    and hex: "encode_hex (ext_sha256 ext a) = encode_hex (ext_sha256 ext b)"
    using ident [OF assms(1)] ident [OF assms(2)] same by (metis same_append_eq)
  have "semantic_part p \<noteq> semantic_part q"
    using diff same by (cases p; cases q) (auto simp: semantic_part_def)
  with encoder enc have "a \<noteq> b" by (auto simp: inj_on_def)
  with enc encode_hex_inj [OF hex] show ?thesis by blast
qed

text \<open>The collision is one of a digest that is constant, over an encoder that tells the two plans of
  the example apart.\<close>

definition colliding_externals :: "string externals" where
  "colliding_externals = plain_externals\<lparr>ext_sha256 := \<lambda>_. [112, 105, 110, 103] @ replicate 28 0,
     ext_plan_json := \<lambda>sp. Inr (case sp_wire sp of None \<Rightarrow> [0] | Some _ \<Rightarrow> [1])\<rparr>"

lemma identity_binds_plan_witness:
  "\<exists>a b. ext_plan_json colliding_externals (semantic_part (ping_file None)) = Inr a \<and>
    ext_plan_json colliding_externals (semantic_part (ping_file (Some (pp_wire ping_plan)))) = Inr b \<and>
    a \<noteq> b \<and> ext_sha256 colliding_externals a = ext_sha256 colliding_externals b"
proof (rule identity_binds_plan)
  show "verify colliding_externals (ping_file None) = Inr ()"
    "verify colliding_externals (ping_file (Some (pp_wire ping_plan))) = Inr ()"
    by code_simp+
  show "inj_on (ext_plan_json colliding_externals)
      {semantic_part (ping_file None), semantic_part (ping_file (Some (pp_wire ping_plan)))}"
    by (simp add: inj_on_def colliding_externals_def semantic_part_def ping_file_def)
qed (simp_all add: ping_file_def)

text \<open>The semantic identity ignores projection metadata.  The schema reference and the
  annotations of a conversation do not enter its identity, nor do they decide whether it is
  valid.\<close>

theorem identity_ignores_metadata:
  "conversation_identity ext (c\<lparr>conv_schema := s, conv_annotations := a\<rparr>) = conversation_identity ext c"
proof -
  have "validate (c\<lparr>conv_schema := s, conv_annotations := a\<rparr>) = validate c"
    by (cases c) (simp only: validate_def validate_reachability_def conversation.simps)
  then show ?thesis
    by (simp add: conversation_identity_def conversation_identity_validated_def)
qed

section \<open>Hexadecimal text\<close>

text \<open>\<open>decode_hex\<close> and \<open>decode_32_bytes\<close> read back what \<open>encode_hex\<close> writes, and an identity made
  with a 32-byte digest passes \<open>valid_sha256\<close>.\<close>

theorem hex_roundtrip:
  "decode_hex (encode_hex bs) = Inr bs \<and>
   (length bs = 32 \<longrightarrow> decode_32_bytes (encode_hex bs) = Some bs \<and>
     valid_sha256 (''sha256:'' @ encode_hex bs))"
  using valid_sha256_identity [of "\<lambda>_. bs" "[]"]
  by (simp add: decode_encode_hex decode_32_encode sha256_identity_def)

lemma hex_roundtrip_witness:
  "decode_hex (encode_hex (replicate 32 (7 :: byte))) = Inr (replicate 32 7) \<and>
   decode_32_bytes (encode_hex (replicate 32 (7 :: byte))) = Some (replicate 32 7) \<and>
   valid_sha256 (''sha256:'' @ encode_hex (replicate 32 (7 :: byte)))"
  using hex_roundtrip [of "replicate 32 (7 :: byte)"] by simp

text \<open>The decoders accept texts that are not hexadecimal.  A pair that starts with a plus sign
  reads as the digit after it, as \<open>u8::from_str_radix\<close> does, so different texts decode to the
  same bytes.\<close>

theorem hex_decodes_signs:
  "decode_hex (''+f'' @ encode_hex bs) = Inr (15 # bs) \<and>
   decode_hex (encode_hex (15 # bs)) = Inr (15 # bs) \<and>
   \<not> list_all is_hex_digit (''+f'' @ encode_hex bs)"
proof -
  have "map_result (\<lambda>chunk. ok_or e (u8_from_str_radix16 chunk)) (map hex_byte bs) = Inr bs" for e :: string
    by (induction bs) (auto simp: decode_hex_byte)
  moreover have "u8_from_str_radix16 ''+f'' = Some 15" "list_all is_ascii ''+f''"
    "\<not> is_hex_digit (CHR ''+'')" by code_simp+
  ultimately show ?thesis
    using decode_encode_hex [of "15 # bs"]
    by (simp add: decode_hex_def encode_hex_length encode_hex_chars chunks2_encode)
qed

end
