(* ===== verification/Codec.thy ===== *)
theory Codec
  imports Machine
begin

text \<open>
  The two envelope encodings of \<open>src/src/runtime.rs\<close>: the self-describing reference envelope and
  the compact one, which names its transition by the identifier of the plan's dictionary.  The
  JSON encoders and decoders of \<open>serde_json\<close> are the fields of \<open>serde\<close>.  The contract of a codec
  is the locale \<open>wire_codec\<close>; both encodings are interpretations of it.
\<close>

section \<open>Encodings\<close>

datatype wire_encoding = ReferenceEncoding | CompactEncoding

fun encoding_str :: "wire_encoding \<Rightarrow> string" where
  "encoding_str ReferenceEncoding = ''reference''"
| "encoding_str CompactEncoding = ''compact''"

record 'v compact_envelope =
  ce_transition :: u16
  ce_sequence :: u64
  ce_payload :: "'v option"

record compact_codec =
  cc_conversation :: string
  cc_identity :: string
  cc_plan_identity :: string
  cc_wire :: wire_plan

datatype envelope_codec = CodecReference | CodecCompact compact_codec

record session_preface =
  sn_format :: string
  sn_conversation :: string
  sn_identity :: string
  sn_plan_identity :: string
  sn_role :: string
  sn_wire :: wire_encoding
  sn_endpoint_identity :: "string option"
  sn_channel_binding :: "string option"

text \<open>\<open>serde_json::to_vec\<close> and \<open>from_slice\<close> at the three types that travel, and the JSON null.\<close>

record 'v serde =
  envelope_to_vec :: "'v envelope \<Rightarrow> string + byte list"
  envelope_from_slice :: "byte list \<Rightarrow> string + 'v envelope"
  compact_to_vec :: "'v compact_envelope \<Rightarrow> string + byte list"
  compact_from_slice :: "byte list \<Rightarrow> string + 'v compact_envelope"
  preface_to_vec :: "session_preface \<Rightarrow> string + byte list"
  preface_from_slice :: "byte list \<Rightarrow> string + session_preface"
  json_null :: 'v

definition MAX_ENVELOPE_BYTES :: nat where
  "MAX_ENVELOPE_BYTES = 16 * 1024 * 1024"

definition codec_for_plan :: "wire_encoding \<Rightarrow> prepared_plan \<Rightarrow> envelope_codec" where
  "codec_for_plan encoding plan =
     (case encoding of
        ReferenceEncoding \<Rightarrow> CodecReference
      | CompactEncoding \<Rightarrow> CodecCompact
          \<lparr>cc_conversation = pp_conversation plan,
           cc_identity = pp_conversation_identity plan,
           cc_plan_identity = pp_plan_identity plan,
           cc_wire = pp_wire plan\<rparr>)"

fun codec_encoding :: "envelope_codec \<Rightarrow> wire_encoding" where
  "codec_encoding CodecReference = ReferenceEncoding"
| "codec_encoding (CodecCompact _) = CompactEncoding"

section \<open>The reference envelope\<close>

definition within_limit :: "byte list \<Rightarrow> 'v runtime_error + byte list" where
  "within_limit encoded =
     (if MAX_ENVELOPE_BYTES < length encoded
      then Inl (RtEnvelopeTooLarge (length encoded) MAX_ENVELOPE_BYTES)
      else Inr encoded)"

definition encode_envelope :: "'v serde \<Rightarrow> 'v envelope \<Rightarrow> 'v runtime_error + byte list" where
  "encode_envelope sd e = and_then (map_err RtCodec (envelope_to_vec sd e)) within_limit"

definition decode_envelope :: "'v serde \<Rightarrow> byte list \<Rightarrow> 'v runtime_error + 'v envelope" where
  "decode_envelope sd encoded =
     and_then (within_limit encoded) (\<lambda>_. map_err RtCodec (envelope_from_slice sd encoded))"

section \<open>The compact envelope\<close>

definition transition_matches :: "wire_transition \<Rightarrow> 'v envelope \<Rightarrow> bool" where
  "transition_matches t e =
     (if wt_state t \<noteq> env_state e then False
      else case (wt_operation t, env_frame e) of
          (WData from to message, FData afrom ato amessage _) \<Rightarrow>
            from = afrom \<and> to = ato \<and> message = amessage
        | (WSelect by label, FSelect aby alabel) \<Rightarrow> by = aby \<and> label = alabel
        | (WCancel from to scope, FCancel afrom ato ascope) \<Rightarrow>
            from = afrom \<and> to = ato \<and> scope = ascope
        | _ \<Rightarrow> False)"

definition encode_compact_envelope :: "'v serde \<Rightarrow> 'v compact_envelope \<Rightarrow> 'v runtime_error + byte list" where
  "encode_compact_envelope sd ce = and_then (map_err RtCodec (compact_to_vec sd ce)) within_limit"

fun frame_payload :: "'v frame \<Rightarrow> 'v runtime_error + 'v option" where
  \<comment> \<open>the match on the frame in \<open>CompactWireCodec::encode\<close>\<close>
  "frame_payload (FData _ _ _ payload) = Inr payload"
| "frame_payload (FSelect _ _) = Inr None"
| "frame_payload (FCancel _ _ _) = Inr None"
| "frame_payload (FFault _ _) = Inl (RtCompactWire FaultNotTransmitted)"

definition compact_encode :: "'v serde \<Rightarrow> compact_codec \<Rightarrow> 'v envelope \<Rightarrow> 'v runtime_error + byte list" where
  "compact_encode sd cc e =
     and_then (guard_err (env_wire e \<noteq> WIRE_FORMAT) (RtWireVersion (env_wire e) WIRE_FORMAT)) (\<lambda>_.
     and_then (guard_err (env_conversation e \<noteq> cc_conversation cc)
       (RtCompactWire (CompactConversation (cc_conversation cc) (env_conversation e)))) (\<lambda>_.
     and_then (guard_err (env_identity e \<noteq> cc_identity cc)
       (RtCompactWire (CompactIdentity (cc_identity cc) (env_identity e)))) (\<lambda>_.
     and_then (ok_or (RtCompactWire (NoTransition (env_state e) (env_frame e)))
       (find (\<lambda>t. transition_matches t e) (wp_transitions (cc_wire cc)))) (\<lambda>t.
     and_then (frame_payload (env_frame e)) (\<lambda>payload.
     encode_compact_envelope sd
       \<lparr>ce_transition = wt_id t, ce_sequence = env_sequence e, ce_payload = payload\<rparr>)))))"

definition reject_control_payload :: "'v compact_envelope \<Rightarrow> 'v runtime_error + unit" where
  "reject_control_payload ce = guard_err (ce_payload ce \<noteq> None) (RtCompactWire ControlPayload)"

definition lookup_transition :: "wire_plan \<Rightarrow> u16 \<Rightarrow> wire_transition option" where
  \<comment> \<open>\<open>checked_sub(1)\<close>, \<open>get\<close>, \<open>filter\<close>\<close>
  "lookup_transition wire i =
     (if i = 0 then None
      else if unat (i - 1) < length (wp_transitions wire)
           then (let t = wp_transitions wire ! unat (i - 1) in if wt_id t = i then Some t else None)
           else None)"

fun operation_frame :: "wire_operation \<Rightarrow> 'v compact_envelope \<Rightarrow> 'v runtime_error + 'v frame" where
  "operation_frame (WData from to message) ce = Inr (FData from to message (ce_payload ce))"
| "operation_frame (WSelect by label) ce =
     and_then (reject_control_payload ce) (\<lambda>_. Inr (FSelect by label))"
| "operation_frame (WCancel from to scope) ce =
     and_then (reject_control_payload ce) (\<lambda>_. Inr (FCancel from to scope))"

definition compact_decode :: "'v serde \<Rightarrow> compact_codec \<Rightarrow> byte list \<Rightarrow> 'v runtime_error + 'v envelope" where
  "compact_decode sd cc encoded =
     and_then (within_limit encoded) (\<lambda>_.
     and_then (map_err RtCodec (compact_from_slice sd encoded)) (\<lambda>ce.
     and_then (ok_or (RtCompactWire (UnknownTransition (ce_transition ce)))
       (lookup_transition (cc_wire cc) (ce_transition ce))) (\<lambda>t.
     and_then (operation_frame (wt_operation t) ce) (\<lambda>frame.
     Inr \<lparr>env_wire = WIRE_FORMAT, env_conversation = cc_conversation cc,
          env_identity = cc_identity cc, env_state = wt_state t,
          env_sequence = ce_sequence ce, env_frame = frame\<rparr>))))"

section \<open>Either codec\<close>

definition codec_encode :: "'v serde \<Rightarrow> envelope_codec \<Rightarrow> 'v envelope \<Rightarrow> 'v runtime_error + byte list" where
  "codec_encode sd codec e =
     (case codec of CodecReference \<Rightarrow> encode_envelope sd e | CodecCompact cc \<Rightarrow> compact_encode sd cc e)"

definition codec_decode :: "'v serde \<Rightarrow> envelope_codec \<Rightarrow> byte list \<Rightarrow> 'v runtime_error + 'v envelope" where
  "codec_decode sd codec encoded =
     (case codec of
        CodecReference \<Rightarrow> decode_envelope sd encoded
      | CodecCompact cc \<Rightarrow> compact_decode sd cc encoded)"

definition compact_round_trip :: "'v serde \<Rightarrow> prepared_plan \<Rightarrow> 'v envelope \<Rightarrow> 'v runtime_error + 'v envelope" where
  \<comment> \<open>\<open>PreparedCompactRoundTrip::execute\<close>\<close>
  "compact_round_trip sd plan e =
     (let codec = codec_for_plan CompactEncoding plan in
      and_then (codec_encode sd codec e) (codec_decode sd codec))"

section \<open>The contract of a codec\<close>

locale wire_codec =
  fixes enc :: "'e \<Rightarrow> 'err + byte list"
    and dec :: "byte list \<Rightarrow> 'err + 'e"
    and proper :: "'e \<Rightarrow> bool"
  assumes enc_dec: "proper e \<Longrightarrow> enc e = Inr bs \<Longrightarrow> dec bs = Inr e"
    and enc_limit: "enc e = Inr bs \<Longrightarrow> length bs \<le> MAX_ENVELOPE_BYTES"
    and dec_limit: "dec bs = Inr e \<Longrightarrow> length bs \<le> MAX_ENVELOPE_BYTES"
begin

lemma enc_inj: "proper e \<Longrightarrow> proper e' \<Longrightarrow> enc e = Inr bs \<Longrightarrow> enc e' = Inr bs \<Longrightarrow> e = e'"
  by (metis enc_dec sum.inject(2))

text \<open>A queue of envelopes survives the wire.\<close>

lemma queue_enc_dec: "list_all proper es \<Longrightarrow> map_result enc es = Inr bss \<Longrightarrow> map_result dec bss = Inr es"
  by (induction es arbitrary: bss) (auto simp: result_simps enc_dec)

lemma queue_limit: "map_result enc es = Inr bss \<Longrightarrow> bs \<in> set bss \<Longrightarrow> length bs \<le> MAX_ENVELOPE_BYTES"
  by (induction es arbitrary: bss) (auto simp: result_simps enc_limit)

end

lemma within_limit_Inr [result_simps]:
  "within_limit bs = (Inr bs' :: 'v runtime_error + _) \<longleftrightarrow> bs' = bs \<and> length bs \<le> MAX_ENVELOPE_BYTES"
  by (auto simp: within_limit_def)

text \<open>
  What the code relies on in \<open>serde_json\<close>: what it writes it reads back, except that an optional
  value that is present and null reads back as absent.
\<close>

definition faithful_envelopes :: "'v serde \<Rightarrow> bool" where
  "faithful_envelopes sd \<longleftrightarrow> (\<forall>e bs. (\<nexists>a b m. env_frame e = FData a b m (Some (json_null sd))) \<longrightarrow>
     envelope_to_vec sd e = Inr bs \<longrightarrow> envelope_from_slice sd bs = Inr e)"

definition faithful_compact :: "'v serde \<Rightarrow> bool" where
  "faithful_compact sd \<longleftrightarrow> (\<forall>ce bs. ce_payload ce \<noteq> Some (json_null sd) \<longrightarrow>
     compact_to_vec sd ce = Inr bs \<longrightarrow> compact_from_slice sd bs = Inr ce)"

definition null_free :: "'v serde \<Rightarrow> 'v envelope \<Rightarrow> bool" where
  "null_free sd e \<longleftrightarrow> (\<nexists>a b m. env_frame e = FData a b m (Some (json_null sd)))"

definition dictionary_ok :: "wire_plan \<Rightarrow> bool" where
  "dictionary_ok w \<longleftrightarrow> length (wp_transitions w) \<le> MAX_U16 \<and>
     (\<forall>k < length (wp_transitions w). wt_id (wp_transitions w ! k) = word_of_nat (k + 1))"

lemma lookup_dictionary:
  assumes "dictionary_ok w" and "t \<in> set (wp_transitions w)"
  shows "lookup_transition w (wt_id t) = Some t"
proof -
  from assms(2) obtain k where k: "k < length (wp_transitions w)" "wp_transitions w ! k = t"
    by (auto simp: in_set_conv_nth)
  with assms(1) have i: "wt_id t = word_of_nat (k + 1)" and n: "length (wp_transitions w) \<le> MAX_U16"
    by (auto simp: dictionary_ok_def)
  have unat: "unat (wt_id t) = k + 1" unfolding i by (rule unat_id [OF k(1) n])
  then have "wt_id t \<noteq> 0" by auto
  moreover from this have "unat (wt_id t - 1) = k" using unat by (simp add: unat_minus_one)
  ultimately show ?thesis using k by (simp add: lookup_transition_def Let_def)
qed

lemma matching_frame:
  assumes "transition_matches t e" and "frame_payload (env_frame e) = Inr payload"
  shows "operation_frame (wt_operation t) \<lparr>ce_transition = i, ce_sequence = n, ce_payload = payload\<rparr> =
    Inr (env_frame e)" and "wt_state t = env_state e"
  using assms
  by (cases "wt_operation t"; cases "env_frame e";
      auto simp: transition_matches_def reject_control_payload_def split: if_splits)+

lemma compact_encode_Inr:
  "compact_encode sd cc e = Inr bs \<longleftrightarrow>
     env_wire e = WIRE_FORMAT \<and> env_conversation e = cc_conversation cc \<and> env_identity e = cc_identity cc \<and>
     (\<exists>t payload. find (\<lambda>t. transition_matches t e) (wp_transitions (cc_wire cc)) = Some t \<and>
        frame_payload (env_frame e) = (Inr payload :: 'v runtime_error + _) \<and>
        compact_to_vec sd \<lparr>ce_transition = wt_id t, ce_sequence = env_sequence e, ce_payload = payload\<rparr> = Inr bs \<and>
        length bs \<le> MAX_ENVELOPE_BYTES)"
  for e :: "'v envelope"
  by (auto simp: compact_encode_def encode_compact_envelope_def result_simps)

lemma compact_enc_dec:
  fixes e :: "'v envelope"
  assumes "faithful_compact sd" and "dictionary_ok (cc_wire cc)" and "null_free sd e"
    and "compact_encode sd cc e = Inr bs"
  shows "compact_decode sd cc bs = Inr e"
proof -
  from assms(4) obtain t payload where
      f: "find (\<lambda>t. transition_matches t e) (wp_transitions (cc_wire cc)) = Some t"
    and p: "frame_payload (env_frame e) = (Inr payload :: 'v runtime_error + _)"
    and v: "compact_to_vec sd \<lparr>ce_transition = wt_id t, ce_sequence = env_sequence e, ce_payload = payload\<rparr> = Inr bs"
    and len: "length bs \<le> MAX_ENVELOPE_BYTES"
    and hd: "env_wire e = WIRE_FORMAT" "env_conversation e = cc_conversation cc" "env_identity e = cc_identity cc"
    by (auto simp: compact_encode_Inr)
  have "payload \<noteq> Some (json_null sd)"
    using p assms(3) by (cases "env_frame e") (auto simp: null_free_def)
  with assms(1) v have from_v: "compact_from_slice sd bs =
      Inr \<lparr>ce_transition = wt_id t, ce_sequence = env_sequence e, ce_payload = payload\<rparr>"
    by (simp add: faithful_compact_def)
  from f have t: "t \<in> set (wp_transitions (cc_wire cc))" "transition_matches t e"
    by (auto simp: find_Some_iff)
  have "within_limit bs = (Inr bs :: 'v runtime_error + _)" using len by (simp add: result_simps)
  with from_v lookup_dictionary [OF assms(2) t(1)] matching_frame [OF t(2) p] hd show ?thesis
    by (cases e) (simp add: compact_decode_def)
qed

interpretation ref: wire_codec "encode_envelope sd" "decode_envelope sd"
  "\<lambda>e. faithful_envelopes sd \<and> null_free sd e" for sd :: "'v serde"
  by unfold_locales
     (auto simp: encode_envelope_def decode_envelope_def result_simps faithful_envelopes_def null_free_def)

interpretation compact: wire_codec "compact_encode sd cc" "compact_decode sd cc"
  "\<lambda>e. faithful_compact sd \<and> dictionary_ok (cc_wire cc) \<and> null_free sd e"
  for sd :: "'v serde" and cc :: compact_codec
proof unfold_locales
  show "compact_decode sd cc bs = Inr e"
    if "faithful_compact sd \<and> dictionary_ok (cc_wire cc) \<and> null_free sd e"
      and "compact_encode sd cc e = Inr bs" for e bs
    using that by (simp add: compact_enc_dec)
qed (auto simp: compact_encode_Inr compact_decode_def result_simps)

end
