(* ===== verification/Link.thy ===== *)
theory Link
  imports Codec
begin

text \<open>
  Byte streams and the length-prefixed framing of \<open>src/src/runtime.rs\<close> and
  \<open>src/src/runtime/iroh.rs\<close>.  The streams themselves (\<open>std::net\<close>, \<open>quinn\<close>, \<open>iroh\<close>) are
  arguments: \<open>raw_stream\<close> holds their operations, and a \<open>link\<close> is what one of the three
  transports makes of them, its error mapping included.  An operation that takes \<open>&mut self\<close>
  and returns a \<open>Result\<close> is a function from a state to a result and a state.
\<close>

section \<open>Operations that change a state and may fail\<close>

type_synonym ('s, 'e, 'a) action = "'s \<Rightarrow> ('e + 'a) \<times> 's"

definition done_with :: "'a \<Rightarrow> ('s, 'e, 'a) action" where
  "done_with x s = (Inr x, s)"

definition fails_with :: "'e \<Rightarrow> ('s, 'e, 'a) action" where
  "fails_with e s = (Inl e, s)"

definition act_then :: "('s, 'e, 'a) action \<Rightarrow> ('a \<Rightarrow> ('s, 'e, 'b) action) \<Rightarrow> ('s, 'e, 'b) action" where
  "act_then f g s = (case f s of (Inl e, s') \<Rightarrow> (Inl e, s') | (Inr x, s') \<Rightarrow> g x s')"

definition act_map_err :: "('e \<Rightarrow> 'f) \<Rightarrow> ('s, 'e, 'a) action \<Rightarrow> ('s, 'f, 'a) action" where
  "act_map_err h f s = (case f s of (r, s') \<Rightarrow> (map_err h r, s'))"

definition from_result :: "'e + 'a \<Rightarrow> ('s, 'e, 'a) action" where
  "from_result r s = (r, s)"

lemma act_then_Inr:
  "act_then f g s = (Inr y, s'') \<longleftrightarrow> (\<exists>x s'. f s = (Inr x, s') \<and> g x s' = (Inr y, s''))"
  by (auto simp: act_then_def split: prod.splits sum.splits)

lemma from_result_Inr [simp]: "from_result r s = (Inr x, s') \<longleftrightarrow> r = Inr x \<and> s' = s"
  by (auto simp: from_result_def)

lemma act_map_err_Inr: "act_map_err h f s = (Inr x, s') \<longleftrightarrow> f s = (Inr x, s')"
  by (auto simp: act_map_err_def map_err_Inr split: prod.splits)

lemmas action_simps = act_then_Inr act_map_err_Inr

section \<open>Big-endian lengths\<close>

definition MAX_U32 :: nat where
  "MAX_U32 = 4294967295"

definition be32 :: "nat \<Rightarrow> byte list" where
  \<comment> \<open>\<open>u32::to_be_bytes\<close>\<close>
  "be32 n = [word_of_nat (n div 16777216), word_of_nat (n div 65536), word_of_nat (n div 256),
     word_of_nat n]"

definition of_be32 :: "byte list \<Rightarrow> nat" where
  \<comment> \<open>\<open>u32::from_be_bytes(_) as usize\<close>\<close>
  "of_be32 bs = fold (\<lambda>b n. n * 256 + unat b) bs 0"

lemma unat_byte: "unat (word_of_nat n :: byte) = n mod 256"
  by (simp add: unsigned_of_nat take_bit_eq_mod)

lemma of_be32_be32:
  assumes "n \<le> MAX_U32"
  shows "of_be32 (be32 n) = n"
proof -
  have "n div 16777216 < 256" using assms by (simp add: MAX_U32_def)
  moreover have "n div 65536 = n div 256 div 256" "n div 16777216 = n div 256 div 256 div 256"
    by (simp_all add: div_mult2_eq [symmetric])
  moreover have "m div 256 * 256 + m mod 256 = m" for m :: nat by simp
  ultimately show ?thesis by (simp add: of_be32_def be32_def unat_byte)
qed

lemma be32_length [simp]: "length (be32 n) = 4"
  by (simp add: be32_def)

section \<open>Streams and links\<close>

record ('s, 'e) raw_stream =
  rs_write :: "byte list \<Rightarrow> ('s, 'e, unit) action"
  rs_flush :: "('s, 'e, unit) action"
  rs_read :: "nat \<Rightarrow> ('s, 'e, byte list) action"
  rs_close :: "'s \<Rightarrow> 's"

record ('s, 'v) link =
  lk_name :: string
  lk_put :: "byte list list \<Rightarrow> ('s, 'v runtime_error, unit) action"
  lk_get :: "nat \<Rightarrow> ('s, 'v runtime_error, byte list) action"
  lk_reject :: "'s \<Rightarrow> 's"
  lk_abort :: "'s \<Rightarrow> 's"
  lk_abort_oversize :: bool

definition SESSION_REJECTED :: byte where
  "SESSION_REJECTED = 0"

definition SESSION_ACCEPTED :: byte where
  "SESSION_ACCEPTED = 1"

fun write_chunks :: "(byte list \<Rightarrow> ('s, 'e, unit) action) \<Rightarrow> byte list list \<Rightarrow> ('s, 'e, unit) action" where
  "write_chunks w [] = done_with ()"
| "write_chunks w (c # cs) = act_then (w c) (\<lambda>_. write_chunks w cs)"

definition tcp_link :: "('s, io_kind) raw_stream \<Rightarrow> ('s, 'v) link" where
  "tcp_link rs =
     \<lparr>lk_name = ''TCP'',
      lk_put = (\<lambda>chunks. act_map_err RtIo (act_then (write_chunks (rs_write rs) chunks) (\<lambda>_. rs_flush rs))),
      lk_get = (\<lambda>n. act_map_err RtIo (rs_read rs n)),
      lk_reject = (\<lambda>s. snd (rs_flush rs (snd (rs_write rs [SESSION_REJECTED] s)))),
      lk_abort = rs_close rs,
      lk_abort_oversize = False\<rparr>"

text \<open>The QUIC and Iroh streams give the text of an error.\<close>

definition quic_link :: "('s, string) raw_stream \<Rightarrow> ('s, 'v) link" where
  "quic_link rs =
     \<lparr>lk_name = ''QUIC'',
      lk_put = (\<lambda>chunks. act_map_err RtQuic (write_chunks (rs_write rs) chunks)),
      lk_get = (\<lambda>n. act_map_err RtQuic (rs_read rs n)),
      lk_reject = (\<lambda>s. snd (rs_write rs [SESSION_REJECTED] s)),
      lk_abort = rs_close rs,
      lk_abort_oversize = False\<rparr>"

definition iroh_link :: "('s, string) raw_stream \<Rightarrow> ('s, 'v) link" where
  "iroh_link rs =
     \<lparr>lk_name = ''Iroh'',
      lk_put = (\<lambda>chunks. act_map_err RtIroh (write_chunks (rs_write rs) chunks)),
      lk_get = (\<lambda>n. act_map_err RtIroh (rs_read rs n)),
      lk_reject = (\<lambda>s. snd (rs_write rs [SESSION_REJECTED] s)),
      lk_abort = rs_close rs,
      lk_abort_oversize = True\<rparr>"

section \<open>Framed envelopes\<close>

record 's connection =
  cn_stream :: 's
  cn_codec :: envelope_codec
  cn_established :: bool

definition on_stream :: "('s, 'e, 'a) action \<Rightarrow> ('s connection, 'e, 'a) action" where
  "on_stream f c = (case f (cn_stream c) of (r, s) \<Rightarrow> (r, c\<lparr>cn_stream := s\<rparr>))"

definition require_compact_session :: "string \<Rightarrow> 's connection \<Rightarrow> 'v runtime_error + unit" where
  "require_compact_session name c =
     guard_err (codec_encoding (cn_codec c) = CompactEncoding \<and> \<not> cn_established c) (RtSessionRequired name)"

definition require_session :: "string \<Rightarrow> 's connection \<Rightarrow> 'v runtime_error + unit" where
  "require_session name c = guard_err (\<not> cn_established c) (RtSessionRequired name)"

definition framed_send :: "('s, 'v) link \<Rightarrow> 'v serde \<Rightarrow> ('s connection \<Rightarrow> 'v runtime_error + unit)
    \<Rightarrow> 'v envelope \<Rightarrow> ('s connection, 'v runtime_error, unit) action" where
  "framed_send lk sd required e c =
     act_then (from_result (required c)) (\<lambda>_.
     act_then (from_result (codec_encode sd (cn_codec c) e)) (\<lambda>encoded.
     act_then (from_result (guard_err (MAX_U32 < length encoded)
       (RtEnvelopeTooLarge (length encoded) MAX_U32))) (\<lambda>_.
     on_stream (lk_put lk [be32 (length encoded), encoded])))) c"

definition framed_receive :: "('s, 'v) link \<Rightarrow> 'v serde \<Rightarrow> ('s connection \<Rightarrow> 'v runtime_error + unit)
    \<Rightarrow> ('s connection, 'v runtime_error, 'v envelope) action" where
  "framed_receive lk sd required c =
     act_then (from_result (required c)) (\<lambda>_.
     act_then (on_stream (lk_get lk 4)) (\<lambda>prefix.
     let n = of_be32 prefix in
     act_then (from_result (guard_err (MAX_ENVELOPE_BYTES < n) (RtEnvelopeTooLarge n MAX_ENVELOPE_BYTES))) (\<lambda>_.
     act_then (on_stream (lk_get lk n)) (\<lambda>encoded.
     from_result (codec_decode sd (cn_codec c) encoded))))) c"

definition tcp_send :: "('s, io_kind) raw_stream \<Rightarrow> 'v serde \<Rightarrow> 'v envelope
    \<Rightarrow> ('s connection, 'v runtime_error, unit) action" where
  "tcp_send rs sd = framed_send (tcp_link rs) sd (require_compact_session ''TCP'')"

definition tcp_receive :: "('s, io_kind) raw_stream \<Rightarrow> 'v serde
    \<Rightarrow> ('s connection, 'v runtime_error, 'v envelope) action" where
  "tcp_receive rs sd = framed_receive (tcp_link rs) sd (require_compact_session ''TCP'')"

definition quic_send :: "('s, string) raw_stream \<Rightarrow> 'v serde \<Rightarrow> 'v envelope
    \<Rightarrow> ('s connection, 'v runtime_error, unit) action" where
  "quic_send rs sd = framed_send (quic_link rs) sd (require_compact_session ''QUIC'')"

definition quic_receive :: "('s, string) raw_stream \<Rightarrow> 'v serde
    \<Rightarrow> ('s connection, 'v runtime_error, 'v envelope) action" where
  "quic_receive rs sd = framed_receive (quic_link rs) sd (require_compact_session ''QUIC'')"

definition iroh_send :: "('s, string) raw_stream \<Rightarrow> 'v serde \<Rightarrow> 'v envelope
    \<Rightarrow> ('s connection, 'v runtime_error, unit) action" where
  "iroh_send rs sd = framed_send (iroh_link rs) sd (require_session ''Iroh'')"

definition iroh_receive :: "('s, string) raw_stream \<Rightarrow> 'v serde
    \<Rightarrow> ('s connection, 'v runtime_error, 'v envelope) action" where
  "iroh_receive rs sd = framed_receive (iroh_link rs) sd (require_session ''Iroh'')"

definition plan_name :: "string \<Rightarrow> envelope_codec \<Rightarrow> string" where
  \<comment> \<open>\<open>Transport::plan\<close> of the four transports\<close>
  "plan_name base codec =
     (case codec_encoding codec of ReferenceEncoding \<Rightarrow> base | CompactEncoding \<Rightarrow> base @ ''+compact'')"

section \<open>A stream of bytes in memory\<close>

text \<open>
  One end of a reliable connection: the bytes that will arrive and the bytes written so far.
  Reading more than there is fails, as a stream that has been closed does.
\<close>

record wire_end =
  we_in :: "byte list"
  we_out :: "byte list"
  we_closed :: bool

definition wire_stream :: "'e \<Rightarrow> (wire_end, 'e) raw_stream" where
  \<comment> \<open>\<open>eof\<close> is the error of a short read\<close>
  "wire_stream eof =
     \<lparr>rs_write = (\<lambda>bs w. (Inr (), w\<lparr>we_out := we_out w @ bs\<rparr>)),
      rs_flush = (\<lambda>w. (Inr (), w)),
      rs_read = (\<lambda>n w. if n \<le> length (we_in w) then (Inr (take n (we_in w)), w\<lparr>we_in := drop n (we_in w)\<rparr>)
        else (Inl eof, w)),
      rs_close = (\<lambda>w. w\<lparr>we_closed := True\<rparr>)\<rparr>"

text \<open>What the three links have in common on such a stream.\<close>

locale reliable_link =
  fixes put :: "byte list list \<Rightarrow> (wire_end, 'v runtime_error, unit) action"
    and get :: "nat \<Rightarrow> (wire_end, 'v runtime_error, byte list) action"
  assumes put_out: "put chunks w = (Inr (), w\<lparr>we_out := we_out w @ concat chunks\<rparr>)"
    and get_in: "get n w = (Inr bs, w') \<longleftrightarrow>
      n \<le> length (we_in w) \<and> bs = take n (we_in w) \<and> w' = w\<lparr>we_in := drop n (we_in w)\<rparr>"
begin

lemma get_prefix: "we_in w = bs @ rest \<Longrightarrow> length bs = n \<Longrightarrow> get n w = (Inr bs, w\<lparr>we_in := rest\<rparr>)"
  by (simp add: get_in)

end

lemma write_chunks_wire:
  "write_chunks (rs_write (wire_stream eof)) chunks w = (Inr (), w\<lparr>we_out := we_out w @ concat chunks\<rparr>)"
  by (induction chunks arbitrary: w) (simp_all add: done_with_def act_then_def wire_stream_def)

interpretation tcp_wire: reliable_link "lk_put (tcp_link (wire_stream eof))" "lk_get (tcp_link (wire_stream eof))"
  for eof :: io_kind
  by unfold_locales
     (auto simp: tcp_link_def act_map_err_def act_then_def write_chunks_wire,
      auto simp: wire_stream_def split: if_splits)

interpretation quic_wire: reliable_link "lk_put (quic_link (wire_stream eof))"
  "lk_get (quic_link (wire_stream eof))" for eof :: string
  by unfold_locales
     (auto simp: quic_link_def act_map_err_def act_then_def write_chunks_wire,
      auto simp: wire_stream_def split: if_splits)

interpretation iroh_wire: reliable_link "lk_put (iroh_link (wire_stream eof))"
  "lk_get (iroh_link (wire_stream eof))" for eof :: string
  by unfold_locales
     (auto simp: iroh_link_def act_map_err_def act_then_def write_chunks_wire,
      auto simp: wire_stream_def split: if_splits)

end
