(* ===== verification/Session.thy ===== *)
theory Session
  imports Link
begin

text \<open>
  The session preface of \<open>src/src/runtime.rs\<close> and \<open>src/src/runtime/iroh.rs\<close>: what each side
  declares before the first frame, how it checks its peer, and the handshake that decides
  whether a connection is established.
\<close>

section \<open>The preface\<close>

definition SESSION_FORMAT :: string where
  "SESSION_FORMAT = ''0.1.0''"

definition MAX_SESSION_PREFACE_BYTES :: nat where
  "MAX_SESSION_PREFACE_BYTES = 64 * 1024"

definition require_session_field :: "string \<Rightarrow> string \<Rightarrow> string \<Rightarrow> 'v runtime_error + unit" where
  "require_session_field field expected actual =
     guard_err (expected \<noteq> actual) (RtSessionMismatch field expected actual)"

definition preface_for_plan :: "prepared_plan \<Rightarrow> string \<Rightarrow> wire_encoding \<Rightarrow> 'v runtime_error + session_preface" where
  "preface_for_plan plan role wire =
     and_then (guard_err (find_endpoint role (pp_endpoints plan) = None) (RtUnknownRole role)) (\<lambda>_.
       Inr \<lparr>sn_format = SESSION_FORMAT, sn_conversation = pp_conversation plan,
            sn_identity = pp_conversation_identity plan, sn_plan_identity = pp_plan_identity plan,
            sn_role = role, sn_wire = wire, sn_endpoint_identity = None, sn_channel_binding = None\<rparr>)"

definition verify_peer :: "session_preface \<Rightarrow> prepared_plan \<Rightarrow> string \<Rightarrow> wire_encoding
    \<Rightarrow> 'v runtime_error + unit" where
  "verify_peer p plan expected_role expected_wire =
     and_then (guard_err (find_endpoint expected_role (pp_endpoints plan) = None)
       (RtUnknownRole expected_role)) (\<lambda>_.
     and_then (require_session_field ''colloq_session'' SESSION_FORMAT (sn_format p)) (\<lambda>_.
     and_then (require_session_field ''conversation'' (pp_conversation plan) (sn_conversation p)) (\<lambda>_.
     and_then (require_session_field ''conversation_identity'' (pp_conversation_identity plan)
       (sn_identity p)) (\<lambda>_.
     and_then (require_session_field ''plan_identity'' (pp_plan_identity plan) (sn_plan_identity p)) (\<lambda>_.
     and_then (require_session_field ''role'' expected_role (sn_role p)) (\<lambda>_.
     require_session_field ''wire'' (encoding_str expected_wire) (encoding_str (sn_wire p))))))))"

definition verify_codec_plan :: "envelope_codec \<Rightarrow> prepared_plan \<Rightarrow> 'v runtime_error + unit" where
  \<comment> \<open>\<open>EnvelopeCodec::verify_plan\<close>\<close>
  "verify_codec_plan codec plan =
     (case codec of
        CodecReference \<Rightarrow> Inr ()
      | CodecCompact cc \<Rightarrow>
          and_then (require_session_field ''conversation'' (cc_conversation cc) (pp_conversation plan)) (\<lambda>_.
          and_then (require_session_field ''conversation_identity'' (cc_identity cc)
            (pp_conversation_identity plan)) (\<lambda>_.
          require_session_field ''plan_identity'' (cc_plan_identity cc) (pp_plan_identity plan))))"

definition local_session_preface :: "envelope_codec \<Rightarrow> prepared_plan \<Rightarrow> string \<Rightarrow> string
    \<Rightarrow> 'v runtime_error + session_preface" where
  "local_session_preface codec plan local_role peer_role =
     and_then (verify_codec_plan codec plan) (\<lambda>_.
     and_then (guard_err (find_endpoint peer_role (pp_endpoints plan) = None) (RtUnknownRole peer_role)) (\<lambda>_.
     and_then (guard_err (local_role = peer_role)
       (RtSessionMismatch ''role_pair'' ''distinct local and peer roles'' local_role)) (\<lambda>_.
     preface_for_plan plan local_role (codec_encoding codec))))"

definition preface_limit :: "byte list \<Rightarrow> 'v runtime_error + unit" where
  "preface_limit encoded =
     guard_err (MAX_SESSION_PREFACE_BYTES < length encoded)
       (RtSessionPrefaceTooLarge (length encoded) MAX_SESSION_PREFACE_BYTES)"

definition encode_session_preface :: "'v serde \<Rightarrow> session_preface \<Rightarrow> 'v runtime_error + byte list" where
  "encode_session_preface sd p =
     and_then (map_err RtCodec (preface_to_vec sd p)) (\<lambda>encoded.
     and_then (preface_limit encoded) (\<lambda>_. Inr encoded))"

definition decode_session_preface :: "'v serde \<Rightarrow> byte list \<Rightarrow> 'v runtime_error + session_preface" where
  "decode_session_preface sd encoded =
     and_then (preface_limit encoded) (\<lambda>_. map_err RtCodec (preface_from_slice sd encoded))"

definition verify_iroh_session_preface :: "session_preface \<Rightarrow> prepared_plan \<Rightarrow> string \<Rightarrow> wire_encoding
    \<Rightarrow> string \<Rightarrow> string \<Rightarrow> 'v runtime_error + unit" where
  \<comment> \<open>\<open>unwrap_or("missing")\<close> for the two optional fields\<close>
  "verify_iroh_session_preface p plan peer_role encoding remote_identity binding =
     and_then (verify_peer p plan peer_role encoding) (\<lambda>_.
     and_then (require_session_field ''endpoint_identity'' remote_identity
       (case sn_endpoint_identity p of None \<Rightarrow> ''missing'' | Some i \<Rightarrow> i)) (\<lambda>_.
     require_session_field ''channel_binding'' binding
       (case sn_channel_binding p of None \<Rightarrow> ''missing'' | Some b \<Rightarrow> b)))"

section \<open>The handshake\<close>

definition exchange_prefaces :: "('s, 'v) link \<Rightarrow> 'v serde \<Rightarrow> session_preface
    \<Rightarrow> (session_preface \<Rightarrow> 'v runtime_error + unit) \<Rightarrow> ('s, 'v runtime_error, session_preface) action" where
  "exchange_prefaces lk sd mine check s =
     act_then (from_result (encode_session_preface sd mine)) (\<lambda>encoded.
     act_then (from_result (guard_err (MAX_U32 < length encoded)
       (RtSessionPrefaceTooLarge (length encoded) MAX_U32))) (\<lambda>_.
     act_then (lk_put lk [be32 (length encoded), encoded]) (\<lambda>_.
     act_then (lk_get lk 4) (\<lambda>prefix.
     let n = of_be32 prefix in
     if MAX_SESSION_PREFACE_BYTES < n then
       (\<lambda>s. (Inl (RtSessionPrefaceTooLarge n MAX_SESSION_PREFACE_BYTES),
             if lk_abort_oversize lk then lk_abort lk s else s))
     else
       act_then (lk_get lk n) (\<lambda>received.
       case and_then (decode_session_preface sd received) (\<lambda>peer. and_then (check peer) (\<lambda>_. Inr peer)) of
         Inl error \<Rightarrow> (\<lambda>s. (Inl error, lk_abort lk (lk_reject lk s)))
       | Inr peer \<Rightarrow> (\<lambda>s.
           case act_then (lk_put lk [[SESSION_ACCEPTED]]) (\<lambda>_. lk_get lk 1) s of
             (Inl error, s') \<Rightarrow> (Inl error, lk_abort lk s')
           | (Inr status, s') \<Rightarrow>
               if status \<noteq> [SESSION_ACCEPTED] then (Inl (RtSessionRejected (lk_name lk)), lk_abort lk s')
               else (Inr peer, s'))))))) s"

definition establish_on :: "('s, 'v) link \<Rightarrow> 'v serde \<Rightarrow> session_preface
    \<Rightarrow> (session_preface \<Rightarrow> 'v runtime_error + unit)
    \<Rightarrow> ('s connection, 'v runtime_error, session_preface) action" where
  \<comment> \<open>the last step of every \<open>establish_session\<close>: \<open>session_established = true\<close>\<close>
  "establish_on lk sd mine check =
     act_then (on_stream (exchange_prefaces lk sd mine check)) (\<lambda>peer c.
       (Inr peer, c\<lparr>cn_established := True\<rparr>))"

definition tcp_establish_session :: "('s, io_kind) raw_stream \<Rightarrow> 'v serde \<Rightarrow> prepared_plan \<Rightarrow> string
    \<Rightarrow> string \<Rightarrow> ('s connection, 'v runtime_error, session_preface) action" where
  "tcp_establish_session rs sd plan local_role peer_role c =
     act_then (from_result (local_session_preface (cn_codec c) plan local_role peer_role)) (\<lambda>mine.
       establish_on (tcp_link rs) sd mine
         (\<lambda>peer. verify_peer peer plan peer_role (codec_encoding (cn_codec c)))) c"

definition quic_establish_session :: "('s, string) raw_stream \<Rightarrow> 'v serde \<Rightarrow> prepared_plan \<Rightarrow> string
    \<Rightarrow> string \<Rightarrow> ('s connection, 'v runtime_error, session_preface) action" where
  "quic_establish_session rs sd plan local_role peer_role c =
     act_then (from_result (local_session_preface (cn_codec c) plan local_role peer_role)) (\<lambda>mine.
       establish_on (quic_link rs) sd mine
         (\<lambda>peer. verify_peer peer plan peer_role (codec_encoding (cn_codec c)))) c"

text \<open>
  What an Iroh connection exposes: the two authenticated endpoint identifiers and the TLS
  exporter, keyed by label and context.
\<close>

record iroh_peer_info =
  ir_local :: string
  ir_remote :: string
  ir_export :: "string \<Rightarrow> string \<Rightarrow> string + byte list"

definition CHANNEL_BINDING_LABEL :: string where
  "CHANNEL_BINDING_LABEL = ''EXPORTER-colloq-session-v0''"

definition channel_binding :: "iroh_peer_info \<Rightarrow> prepared_plan \<Rightarrow> 'v runtime_error + string" where
  "channel_binding info plan =
     and_then (map_err (\<lambda>error. RtIroh (''TLS exporter failed: '' @ error))
       (ir_export info CHANNEL_BINDING_LABEL (pp_plan_identity plan))) (\<lambda>binding.
     Inr (''tls-exporter:'' @ encode_hex binding))"

definition iroh_establish_session :: "('s, string) raw_stream \<Rightarrow> iroh_peer_info \<Rightarrow> 'v serde
    \<Rightarrow> prepared_plan \<Rightarrow> string \<Rightarrow> string \<Rightarrow> ('s connection, 'v runtime_error, session_preface) action" where
  "iroh_establish_session rs info sd plan local_role peer_role c =
     act_then (from_result (channel_binding info plan)) (\<lambda>binding.
     act_then (from_result (local_session_preface (cn_codec c) plan local_role peer_role)) (\<lambda>mine.
       establish_on (iroh_link rs) sd
         (mine\<lparr>sn_endpoint_identity := Some (ir_local info), sn_channel_binding := Some binding\<rparr>)
         (\<lambda>peer. verify_iroh_session_preface peer plan peer_role (codec_encoding (cn_codec c))
           (ir_remote info) binding))) c"

section \<open>What the checks establish\<close>

lemma require_session_field_Inr [result_simps]:
  "require_session_field f expected actual = Inr u \<longleftrightarrow> actual = expected"
  by (auto simp: require_session_field_def result_simps)

lemma encoding_str_inj [simp]: "encoding_str a = encoding_str b \<longleftrightarrow> a = b"
  by (cases a; cases b) auto

lemma verify_peer_Inr:
  "verify_peer p plan role wire = Inr u \<longleftrightarrow>
     find_endpoint role (pp_endpoints plan) \<noteq> None \<and> sn_format p = SESSION_FORMAT \<and>
     sn_conversation p = pp_conversation plan \<and> sn_identity p = pp_conversation_identity plan \<and>
     sn_plan_identity p = pp_plan_identity plan \<and> sn_role p = role \<and> sn_wire p = wire"
  by (auto simp: verify_peer_def result_simps)

fun codec_fits :: "envelope_codec \<Rightarrow> prepared_plan \<Rightarrow> bool" where
  "codec_fits CodecReference plan \<longleftrightarrow> True"
| "codec_fits (CodecCompact cc) plan \<longleftrightarrow> cc_conversation cc = pp_conversation plan \<and>
     cc_identity cc = pp_conversation_identity plan \<and> cc_plan_identity cc = pp_plan_identity plan"

lemma verify_codec_plan_Inr [result_simps]: "verify_codec_plan codec plan = Inr u \<longleftrightarrow> codec_fits codec plan"
  by (cases codec) (auto simp: verify_codec_plan_def result_simps)

lemma local_session_preface_Inr:
  "local_session_preface codec plan mine peer = Inr p \<longleftrightarrow>
     codec_fits codec plan \<and>
     find_endpoint peer (pp_endpoints plan) \<noteq> None \<and> find_endpoint mine (pp_endpoints plan) \<noteq> None \<and>
     mine \<noteq> peer \<and>
     p = \<lparr>sn_format = SESSION_FORMAT, sn_conversation = pp_conversation plan,
          sn_identity = pp_conversation_identity plan, sn_plan_identity = pp_plan_identity plan,
          sn_role = mine, sn_wire = codec_encoding codec, sn_endpoint_identity = None,
          sn_channel_binding = None\<rparr>"
  by (auto simp: local_session_preface_def preface_for_plan_def result_simps)

text \<open>A handshake that succeeds has read, checked and accepted a preface, and has been accepted.\<close>

lemma exchange_prefaces_Inr:
  fixes lk :: "('s, 'v) link"
  shows "exchange_prefaces lk sd mine check s = (Inr peer, s') \<longleftrightarrow>
    (\<exists>encoded prefix received s1 s2 s3 s4.
       encode_session_preface sd mine = Inr encoded \<and> length encoded \<le> MAX_U32 \<and>
       lk_put lk [be32 (length encoded), encoded] s = (Inr (), s1) \<and>
       lk_get lk 4 s1 = (Inr prefix, s2) \<and> of_be32 prefix \<le> MAX_SESSION_PREFACE_BYTES \<and>
       lk_get lk (of_be32 prefix) s2 = (Inr received, s3) \<and>
       decode_session_preface sd received = Inr peer \<and> check peer = Inr () \<and>
       lk_put lk [[SESSION_ACCEPTED]] s3 = (Inr (), s4) \<and>
       lk_get lk 1 s4 = (Inr [SESSION_ACCEPTED], s'))"
proof -
  have step: "(case and_then d (\<lambda>peer. and_then (check peer) (\<lambda>_. Inr peer)) of
        Inl error \<Rightarrow> (\<lambda>s. (Inl error, f s)) | Inr peer \<Rightarrow> g peer) s = (Inr p, s') \<longleftrightarrow>
      (\<exists>q. d = Inr q \<and> check q = Inr () \<and> g q s = (Inr p, s'))"
    for d :: "'v runtime_error + session_preface" and f g s p s'
    by (cases d) (auto simp: and_then_def split: sum.splits)
  have stat: "(case r of (Inl error, s') \<Rightarrow> (Inl error, f s')
      | (Inr status, s') \<Rightarrow> if status \<noteq> ok then (Inl rej, f s') else (Inr q, s')) = (Inr p, s'') \<longleftrightarrow>
      r = (Inr ok, s'') \<and> q = p" for r :: "('v runtime_error + byte list) \<times> 's" and f ok rej q p s''
    by (auto split: prod.splits sum.splits)
  show ?thesis
    unfolding exchange_prefaces_def Let_def act_then_Inr from_result_Inr guard_err_Inr
    by (auto simp: act_then_Inr step stat not_less split: if_splits) blast+
qed

lemma establish_on_Inr:
  "establish_on lk sd mine check c = (Inr peer, c') \<longleftrightarrow>
     (\<exists>s. exchange_prefaces lk sd mine check (cn_stream c) = (Inr peer, s) \<and>
        c' = c\<lparr>cn_stream := s, cn_established := True\<rparr>)"
  by (auto simp: establish_on_def act_then_Inr on_stream_def split: prod.splits)

lemma establish_on_Inl:
  "establish_on lk sd mine check c = (Inl e, c') \<Longrightarrow> cn_established c' = cn_established c"
  by (auto simp: establish_on_def act_then_def on_stream_def split: prod.splits sum.splits)

definition faithful_prefaces :: "'v serde \<Rightarrow> bool" where
  "faithful_prefaces sd \<longleftrightarrow> (\<forall>p bs. preface_to_vec sd p = Inr bs \<longrightarrow> preface_from_slice sd bs = Inr p)"

lemma preface_codec_Inr:
  "encode_session_preface sd p = (Inr bs :: 'v runtime_error + _) \<longleftrightarrow>
     preface_to_vec sd p = Inr bs \<and> length bs \<le> MAX_SESSION_PREFACE_BYTES"
  "decode_session_preface sd bs = (Inr p :: 'v runtime_error + _) \<longleftrightarrow>
     preface_from_slice sd bs = Inr p \<and> length bs \<le> MAX_SESSION_PREFACE_BYTES"
  for sd :: "'v serde"
  by (auto simp: encode_session_preface_def decode_session_preface_def preface_limit_def result_simps)

text \<open>The handshake over a reliable wire, as the bytes it writes and reads.\<close>

context reliable_link
begin

lemma exchange_bytes:
  fixes lk :: "(wire_end, 'v) link"
  assumes lk: "lk_put lk = put" "lk_get lk = get"
    and ok: "exchange_prefaces lk sd mine check w = (Inr peer, w')"
  shows "\<exists>encoded prefix received. encode_session_preface sd mine = (Inr encoded :: 'v runtime_error + _) \<and>
    we_out w' = we_out w @ be32 (length encoded) @ encoded @ [SESSION_ACCEPTED] \<and>
    we_in w = prefix @ received @ SESSION_ACCEPTED # we_in w' \<and>
    length prefix = 4 \<and> of_be32 prefix = length received \<and>
    decode_session_preface sd received = (Inr peer :: 'v runtime_error + _) \<and> check peer = Inr ()"
proof -
  from ok obtain encoded prefix received s1 s2 s3 s4 where
      e: "encode_session_preface sd mine = (Inr encoded :: 'v runtime_error + _)"
    and p1: "put [be32 (length encoded), encoded] w = (Inr (), s1)"
    and g1: "get 4 s1 = (Inr prefix, s2)" and g2: "get (of_be32 prefix) s2 = (Inr received, s3)"
    and d: "decode_session_preface sd received = (Inr peer :: 'v runtime_error + _)" "check peer = Inr ()"
    and p2: "put [[SESSION_ACCEPTED]] s3 = (Inr (), s4)" and g3: "get 1 s4 = (Inr [SESSION_ACCEPTED], w')"
    by (auto simp: exchange_prefaces_Inr lk)
  have s1: "s1 = w\<lparr>we_out := we_out w @ be32 (length encoded) @ encoded\<rparr>" using p1 by (simp add: put_out)
  have s2: "4 \<le> length (we_in w)" "prefix = take 4 (we_in w)" "s2 = s1\<lparr>we_in := drop 4 (we_in w)\<rparr>"
    using g1 s1 by (simp_all add: get_in)
  have s3: "of_be32 prefix \<le> length (drop 4 (we_in w))" "received = take (of_be32 prefix) (drop 4 (we_in w))"
      "s3 = s2\<lparr>we_in := drop (of_be32 prefix) (drop 4 (we_in w))\<rparr>"
    using g2 s2 by (simp_all add: get_in)
  have s4: "s4 = s3\<lparr>we_out := we_out s3 @ [SESSION_ACCEPTED]\<rparr>" using p2 by (simp add: put_out)
  have last: "we_in s3 = [SESSION_ACCEPTED] @ we_in w'" "we_out w' = we_out s4"
    using g3 s4 by (auto simp: get_in)
  have "we_in s3 = drop (of_be32 prefix) (drop 4 (we_in w))" using s3(3) by simp
  then have "we_in w = prefix @ received @ we_in s3"
    unfolding s2(2) s3(2) by (metis append_take_drop_id)
  moreover have "length prefix = 4" "of_be32 prefix = length received" using s2 s3 by auto
  moreover have "we_out w' = we_out w @ be32 (length encoded) @ encoded @ [SESSION_ACCEPTED]"
    using last(2) s4 s3 s2 s1 by simp
  ultimately show ?thesis using e d last(1) by fastforce
qed

lemma exchange_completes:
  fixes lk :: "(wire_end, 'v) link"
  assumes lk: "lk_put lk = put" "lk_get lk = get"
    and e: "encode_session_preface sd mine = (Inr encoded :: 'v runtime_error + _)"
    and inp: "we_in w = be32 (length received) @ received @ SESSION_ACCEPTED # rest"
    and d: "decode_session_preface sd received = (Inr peer :: 'v runtime_error + _)" "check peer = Inr ()"
  shows "exchange_prefaces lk sd mine check w = (Inr peer, w\<lparr>we_in := rest,
    we_out := we_out w @ be32 (length encoded) @ encoded @ [SESSION_ACCEPTED]\<rparr>)"
proof -
  have len: "length encoded \<le> MAX_U32" "length received \<le> MAX_SESSION_PREFACE_BYTES" "length received \<le> MAX_U32"
    using e d by (auto simp: preface_codec_Inr MAX_U32_def MAX_SESSION_PREFACE_BYTES_def)
  note n = of_be32_be32 [OF len(3)]
  define out where "out = we_out w @ be32 (length encoded) @ encoded"
  define s1 where "s1 = w\<lparr>we_out := out\<rparr>"
  define s2 where "s2 = s1\<lparr>we_in := received @ SESSION_ACCEPTED # rest\<rparr>"
  define s3 where "s3 = s2\<lparr>we_in := SESSION_ACCEPTED # rest\<rparr>"
  define s4 where "s4 = s3\<lparr>we_out := out @ [SESSION_ACCEPTED]\<rparr>"
  have steps: "put [be32 (length encoded), encoded] w = (Inr (), s1)"
    "get 4 s1 = (Inr (be32 (length received)), s2)"
    "get (of_be32 (be32 (length received))) s2 = (Inr received, s3)"
    "put [[SESSION_ACCEPTED]] s3 = (Inr (), s4)"
    "get 1 s4 = (Inr [SESSION_ACCEPTED], s4\<lparr>we_in := rest\<rparr>)"
    by (simp_all add: put_out get_in n inp s1_def s2_def s3_def s4_def out_def)
  have lim: "of_be32 (be32 (length received)) \<le> MAX_SESSION_PREFACE_BYTES" using len(2) n by simp
  have "s4\<lparr>we_in := rest\<rparr> = w\<lparr>we_in := rest,
      we_out := we_out w @ be32 (length encoded) @ encoded @ [SESSION_ACCEPTED]\<rparr>"
    by (simp add: s4_def s3_def s2_def s1_def out_def)
  moreover have "exchange_prefaces lk sd mine check w = (Inr peer, s4\<lparr>we_in := rest\<rparr>)"
    unfolding exchange_prefaces_Inr lk using e len(1) steps lim d by blast
  ultimately show ?thesis by simp
qed

end

end
