(* ===== verification/Plain_Serde.thy ===== *)
theory Plain_Serde
  imports Session Schedules
begin

text \<open>
  A concrete instance of the serialisers \<open>serde\<close> takes as its fields, for JSON values that are
  strings: numbers and length-prefixed strings in sequence.  Like \<open>serde_json\<close> it reads a null
  payload back as an absent one.  The witnesses of the wire theories use it.
\<close>

definition be64 :: "u64 \<Rightarrow> byte list" where
  "be64 w = be32 (unat w div 4294967296) @ be32 (unat w mod 4294967296)"

definition of_be64 :: "byte list \<Rightarrow> u64" where
  "of_be64 bs = word_of_nat (of_be32 (take 4 bs) * 4294967296 + of_be32 (take 4 (drop 4 bs)))"

lemma of_be64_be64: "of_be64 (be64 w @ rest) = w"
proof -
  have "unat w < 18446744073709551616" using unsigned_less [of w] by simp
  then have "unat w div 4294967296 \<le> MAX_U32" "unat w mod 4294967296 \<le> MAX_U32"
    by (simp_all add: MAX_U32_def less_mult_imp_div_less)
  then show ?thesis
    by (simp add: of_be64_def be64_def of_be32_be32 del: of_nat_add of_nat_mult)
qed

definition text_bytes :: "string \<Rightarrow> byte list" where
  "text_bytes s = map (\<lambda>c. word_of_nat (of_char c)) s"

definition bytes_text :: "byte list \<Rightarrow> string" where
  "bytes_text bs = map (\<lambda>b. char_of (unat b)) bs"

lemma bytes_text_bytes [simp]: "bytes_text (text_bytes s) = s"
proof -
  have "char_of (unat (word_of_nat (of_char c) :: byte)) = c" for c :: char
    using of_char_of [of "of_char c :: nat"] by (simp add: unat_byte)
  then show ?thesis by (simp add: bytes_text_def text_bytes_def comp_def)
qed

lemma text_bytes_length [simp]: "length (text_bytes s) = length s"
  by (simp add: text_bytes_def)

fun put_texts :: "string list \<Rightarrow> byte list" where
  "put_texts [] = []"
| "put_texts (s # ss) = be32 (length s) @ text_bytes s @ put_texts ss"

fun get_texts :: "nat \<Rightarrow> byte list \<Rightarrow> string list" where
  "get_texts 0 bs = []"
| "get_texts (Suc n) bs =
     (let k = of_be32 (take 4 bs) in
      bytes_text (take k (drop 4 bs)) # get_texts n (drop (4 + k) bs))"

lemma get_put_texts:
  "list_all (\<lambda>s. length s \<le> MAX_U32) ss \<Longrightarrow> get_texts (length ss) (put_texts ss @ rest) = ss"
  by (induction ss arbitrary: rest) (auto simp: of_be32_be32 Let_def drop_append)

definition pack :: "u64 \<Rightarrow> string list \<Rightarrow> string + byte list" where
  "pack n ss =
     (if length ss \<le> MAX_U32 \<and> list_all (\<lambda>s. length s \<le> MAX_U32) ss
      then Inr (be64 n @ be32 (length ss) @ put_texts ss) else Inl ''text too long'')"

definition unpack :: "byte list \<Rightarrow> u64 \<times> string list" where
  "unpack bs = (of_be64 bs, get_texts (of_be32 (take 4 (drop 8 bs))) (drop 12 bs))"

lemma be64_length [simp]: "length (be64 n) = 8"
  by (simp add: be64_def)

lemma unpack_pack: "pack n ss = Inr bs \<Longrightarrow> unpack bs = (n, ss)"
  using get_put_texts [of ss "[]"]
  by (auto simp: pack_def unpack_def of_be64_be64 of_be32_be32 split: if_splits)

definition plain_null :: string where
  "plain_null = ''null''"

fun payload_texts :: "string option \<Rightarrow> string list" where
  "payload_texts None = []"
| "payload_texts (Some v) = (if v = plain_null then [] else [v])"

fun texts_payload :: "string list \<Rightarrow> string option" where
  "texts_payload [] = None"
| "texts_payload (v # _) = Some v"

lemma texts_payload_texts: "p \<noteq> Some plain_null \<Longrightarrow> texts_payload (payload_texts p) = p"
  by (cases p) auto

fun frame_texts :: "string frame \<Rightarrow> string list" where
  "frame_texts (FData a b m p) = ''d'' # a # b # m # payload_texts p"
| "frame_texts (FSelect a l) = [''s'', a, l]"
| "frame_texts (FCancel a b sc) = [''c'', a, b, sc]"
| "frame_texts (FFault a x) = [''f'', a, x]"

fun texts_frame :: "string list \<Rightarrow> string frame option" where
  "texts_frame (k # a # b # rest) =
     (if k = ''s'' then Some (FSelect a b)
      else if k = ''f'' then Some (FFault a b)
      else case rest of
          [] \<Rightarrow> None
        | m # p \<Rightarrow> if k = ''c'' then Some (FCancel a b m) else Some (FData a b m (texts_payload p)))"
| "texts_frame _ = None"

lemma texts_frame_texts:
  "(\<nexists>a b m. f = FData a b m (Some plain_null)) \<Longrightarrow> texts_frame (frame_texts f) = Some f"
  by (cases f) (auto intro: texts_payload_texts)

definition plain_envelope :: "byte list \<Rightarrow> string + string envelope" where
  "plain_envelope bs =
     (case unpack bs of
        (n, w # c # i # s # f) \<Rightarrow>
          (case texts_frame f of
             None \<Rightarrow> Inl ''malformed frame''
           | Some f \<Rightarrow> Inr \<lparr>env_wire = w, env_conversation = c, env_identity = i, env_state = s,
               env_sequence = n, env_frame = f\<rparr>)
      | _ \<Rightarrow> Inl ''malformed envelope'')"

definition number_text :: "u64 \<Rightarrow> string" where
  "number_text n = bytes_text (be64 n)"

definition text_number :: "string \<Rightarrow> u64" where
  "text_number s = of_be64 (text_bytes s)"

lemma text_number_text [simp]: "text_number (number_text n) = n"
proof -
  have "word_of_nat (of_char (char_of (unat b) :: char) :: nat) = b" for b :: byte
    using unat_byte [of "unat b"] by (simp add: unat_byte word_unat_eq_iff)
  then have "text_bytes (bytes_text bs) = bs" for bs
    by (induction bs) (auto simp: text_bytes_def bytes_text_def)
  then show ?thesis using of_be64_be64 [of n "[]"] by (simp add: text_number_def number_text_def)
qed

definition encoding_of_text :: "string \<Rightarrow> wire_encoding" where
  "encoding_of_text s = (if s = ''compact'' then CompactEncoding else ReferenceEncoding)"

fun option_texts :: "string option \<Rightarrow> string" where
  "option_texts None = []"
| "option_texts (Some s) = CHR ''+'' # s"

fun texts_option :: "string \<Rightarrow> string option" where
  "texts_option [] = None"
| "texts_option (_ # s) = Some s"

lemma texts_option_texts [simp]: "texts_option (option_texts p) = p"
  by (cases p) auto

lemma encoding_of_text_str [simp]: "encoding_of_text (encoding_str w) = w"
  by (cases w) (auto simp: encoding_of_text_def)

definition plain_serde :: "string serde" where
  "plain_serde =
     \<lparr>envelope_to_vec = (\<lambda>e. pack (env_sequence e)
        ([env_wire e, env_conversation e, env_identity e, env_state e] @ frame_texts (env_frame e))),
      envelope_from_slice = plain_envelope,
      compact_to_vec = (\<lambda>ce. pack (ce_sequence ce)
        (number_text (ucast (ce_transition ce)) # payload_texts (ce_payload ce))),
      compact_from_slice = (\<lambda>bs. case unpack bs of
          (n, t # p) \<Rightarrow> Inr \<lparr>ce_transition = ucast (text_number t), ce_sequence = n,
            ce_payload = texts_payload p\<rparr>
        | _ \<Rightarrow> Inl ''malformed compact envelope''),
      preface_to_vec = (\<lambda>p. pack 0
        [sn_format p, sn_conversation p, sn_identity p, sn_plan_identity p, sn_role p,
         encoding_str (sn_wire p), option_texts (sn_endpoint_identity p),
         option_texts (sn_channel_binding p)]),
      preface_from_slice = (\<lambda>bs. case unpack bs of
          (_, [f, c, i, pl, r, w, e, b]) \<Rightarrow>
            Inr \<lparr>sn_format = f, sn_conversation = c, sn_identity = i, sn_plan_identity = pl,
              sn_role = r, sn_wire = encoding_of_text w, sn_endpoint_identity = texts_option e,
              sn_channel_binding = texts_option b\<rparr>
        | _ \<Rightarrow> Inl ''malformed preface''),
      json_null = plain_null\<rparr>"

lemma ucast_u16_u64: "ucast (ucast (t :: u16) :: u64) = t"
  by (rule ucast_up_ucast_id) (simp add: is_up)

lemma plain_faithful:
  "faithful_envelopes plain_serde" "faithful_compact plain_serde" "faithful_prefaces plain_serde"
proof -
  show "faithful_envelopes plain_serde"
    by (auto simp: faithful_envelopes_def plain_serde_def plain_envelope_def dest!: unpack_pack
        simp: texts_frame_texts)
  show "faithful_compact plain_serde"
    by (auto simp: faithful_compact_def plain_serde_def texts_payload_texts ucast_u16_u64
        dest!: unpack_pack)
  show "faithful_prefaces plain_serde"
    by (auto simp: faithful_prefaces_def plain_serde_def dest!: unpack_pack)
qed

section \<open>Sessions of the example\<close>

definition blank_end :: wire_end where
  "blank_end = \<lparr>we_in = [], we_out = [], we_closed = False\<rparr>"

definition plain_connection :: "wire_end \<Rightarrow> envelope_codec \<Rightarrow> wire_end connection" where
  "plain_connection w codec = \<lparr>cn_stream = w, cn_codec = codec, cn_established = False\<rparr>"

definition ping_preface :: "string \<Rightarrow> session_preface" where
  "ping_preface role = \<lparr>sn_format = SESSION_FORMAT, sn_conversation = ''ping'', sn_identity = ping_identity,
     sn_plan_identity = ping_identity, sn_role = role, sn_wire = ReferenceEncoding,
     sn_endpoint_identity = None, sn_channel_binding = None\<rparr>"

definition preface_bytes :: "session_preface \<Rightarrow> byte list" where
  "preface_bytes p = (case preface_to_vec plain_serde p of Inr bs \<Rightarrow> bs | Inl _ \<Rightarrow> [])"

definition handshake_bytes :: "session_preface \<Rightarrow> byte list" where
  "handshake_bytes p = be32 (length (preface_bytes p)) @ preface_bytes p @ [SESSION_ACCEPTED]"

text \<open>A fresh end at which the whole handshake of a peer has already arrived.\<close>

definition end_before :: "session_preface \<Rightarrow> wire_end connection" where
  "end_before p = plain_connection (blank_end\<lparr>we_in := handshake_bytes p\<rparr>) CodecReference"

definition end_after :: "session_preface \<Rightarrow> wire_end connection" where
  "end_after p = \<lparr>cn_stream = blank_end\<lparr>we_out := handshake_bytes p\<rparr>, cn_codec = CodecReference,
     cn_established = True\<rparr>"

lemma ping_prefaces:
  "local_session_preface CodecReference ping_plan ''client'' ''server'' =
     (Inr (ping_preface ''client'') :: string runtime_error + _)"
  "local_session_preface CodecReference ping_plan ''server'' ''client'' =
     (Inr (ping_preface ''server'') :: string runtime_error + _)"
  by (simp_all add: local_session_preface_Inr find_endpoint_def ping_plan_def plain_role_def ping_preface_def)

definition iroh_example :: iroh_peer_info where
  "iroh_example = \<lparr>ir_local = ''aa'', ir_remote = ''bb'', ir_export = (\<lambda>_ _. Inr [7, 255])\<rparr>"

definition iroh_preface :: "string \<Rightarrow> string \<Rightarrow> session_preface" where
  "iroh_preface role i = (ping_preface role)\<lparr>sn_endpoint_identity := Some i,
     sn_channel_binding := Some (''tls-exporter:'' @ encode_hex [7, 255])\<rparr>"

lemma preface_vec:
  assumes "p \<in> {ping_preface ''client'', ping_preface ''server'', iroh_preface ''client'' ''aa'',
    iroh_preface ''server'' ''bb''}"
  shows "preface_to_vec plain_serde p = Inr (preface_bytes p)"
    and "length (preface_bytes p) \<le> MAX_SESSION_PREFACE_BYTES"
  using assms
  by (auto simp: preface_bytes_def plain_serde_def pack_def ping_preface_def iroh_preface_def SESSION_FORMAT_def
      ping_identity_def MAX_U32_def MAX_SESSION_PREFACE_BYTES_def encode_hex_length)

lemma preface_codec:
  assumes "p \<in> {ping_preface ''client'', ping_preface ''server'', iroh_preface ''client'' ''aa'',
    iroh_preface ''server'' ''bb''}"
  shows "encode_session_preface plain_serde p = (Inr (preface_bytes p) :: string runtime_error + _)"
    and "decode_session_preface plain_serde (preface_bytes p) = (Inr p :: string runtime_error + _)"
  using preface_vec [OF assms] plain_faithful(3) by (auto simp: preface_codec_Inr faithful_prefaces_def)

lemma ping_sessions:
  "tcp_establish_session (wire_stream TimedOut) plain_serde ping_plan ''client'' ''server''
     (end_before (ping_preface ''server'')) = (Inr (ping_preface ''server''), end_after (ping_preface ''client''))"
  "tcp_establish_session (wire_stream TimedOut) plain_serde ping_plan ''server'' ''client''
     (end_before (ping_preface ''client'')) = (Inr (ping_preface ''client''), end_after (ping_preface ''server''))"
proof -
  have check: "verify_peer (ping_preface r) ping_plan r ReferenceEncoding = (Inr () :: string runtime_error + unit)"
    if "r = ''client'' \<or> r = ''server''" for r
    using that by (auto simp: verify_peer_Inr find_endpoint_def ping_plan_def plain_role_def ping_preface_def)
  have run: "tcp_establish_session (wire_stream TimedOut) plain_serde ping_plan r s (end_before (ping_preface s)) =
      (Inr (ping_preface s), end_after (ping_preface r))"
    if "r = ''client'' \<and> s = ''server'' \<or> r = ''server'' \<and> s = ''client''" for r s
  proof -
    have known: "ping_preface x \<in> {ping_preface ''client'', ping_preface ''server'', iroh_preface ''client'' ''aa'',
        iroh_preface ''server'' ''bb''}" if "x = r \<or> x = s" for x
      using that \<open>r = ''client'' \<and> s = ''server'' \<or> r = ''server'' \<and> s = ''client''\<close> by auto
    have "exchange_prefaces (tcp_link (wire_stream TimedOut)) plain_serde (ping_preface r)
        (\<lambda>peer. verify_peer peer ping_plan s ReferenceEncoding) (cn_stream (end_before (ping_preface s))) =
      (Inr (ping_preface s), (cn_stream (end_before (ping_preface s)))\<lparr>we_in := [],
        we_out := we_out (cn_stream (end_before (ping_preface s))) @ be32 (length (preface_bytes (ping_preface r))) @
          preface_bytes (ping_preface r) @ [SESSION_ACCEPTED]\<rparr>)"
    proof (rule tcp_wire.exchange_completes [where received = "preface_bytes (ping_preface s)", OF refl refl])
      show "we_in (cn_stream (end_before (ping_preface s))) =
          be32 (length (preface_bytes (ping_preface s))) @ preface_bytes (ping_preface s) @ SESSION_ACCEPTED # []"
        by (simp add: end_before_def plain_connection_def handshake_bytes_def)
    qed (use that in \<open>auto simp: preface_codec known check\<close>)
    also have "(cn_stream (end_before (ping_preface s)))\<lparr>we_in := [],
        we_out := we_out (cn_stream (end_before (ping_preface s))) @ be32 (length (preface_bytes (ping_preface r))) @
          preface_bytes (ping_preface r) @ [SESSION_ACCEPTED]\<rparr> = cn_stream (end_after (ping_preface r))"
      by (simp add: end_before_def end_after_def plain_connection_def blank_end_def handshake_bytes_def)
    finally have "exchange_prefaces (tcp_link (wire_stream TimedOut)) plain_serde (ping_preface r)
        (\<lambda>peer. verify_peer peer ping_plan s ReferenceEncoding) (cn_stream (end_before (ping_preface s))) =
      (Inr (ping_preface s), cn_stream (end_after (ping_preface r)))" .
    with that ping_prefaces show ?thesis
      unfolding tcp_establish_session_def act_then_Inr establish_on_Inr from_result_Inr
      by (auto simp: end_before_def end_after_def plain_connection_def)
  qed
  show "tcp_establish_session (wire_stream TimedOut) plain_serde ping_plan ''client'' ''server''
     (end_before (ping_preface ''server'')) = (Inr (ping_preface ''server''), end_after (ping_preface ''client''))"
    "tcp_establish_session (wire_stream TimedOut) plain_serde ping_plan ''server'' ''client''
     (end_before (ping_preface ''client'')) = (Inr (ping_preface ''client''), end_after (ping_preface ''server''))"
    by (rule run; simp)+
qed

lemma iroh_session:
  "iroh_establish_session (wire_stream []) iroh_example plain_serde ping_plan ''client'' ''server''
     (end_before (iroh_preface ''server'' ''bb'')) =
   (Inr (iroh_preface ''server'' ''bb''), end_after (iroh_preface ''client'' ''aa''))"
proof -
  let ?binding = "''tls-exporter:'' @ encode_hex [7, 255]"
  have check: "verify_iroh_session_preface (iroh_preface ''server'' ''bb'') ping_plan ''server'' ReferenceEncoding
      ''bb'' ?binding = (Inr () :: string runtime_error + unit)"
    by (auto simp: verify_iroh_session_preface_def result_simps verify_peer_Inr find_endpoint_def ping_plan_def
        plain_role_def ping_preface_def iroh_preface_def)
  let ?p = "iroh_preface ''client'' ''aa''" and ?q = "iroh_preface ''server'' ''bb''"
  have "exchange_prefaces (iroh_link (wire_stream [])) plain_serde ?p
      (\<lambda>peer. verify_iroh_session_preface peer ping_plan ''server'' ReferenceEncoding ''bb'' ?binding)
      (cn_stream (end_before ?q)) =
    (Inr ?q, (cn_stream (end_before ?q))\<lparr>we_in := [],
      we_out := we_out (cn_stream (end_before ?q)) @ be32 (length (preface_bytes ?p)) @
        preface_bytes ?p @ [SESSION_ACCEPTED]\<rparr>)"
  proof (rule iroh_wire.exchange_completes [where received = "preface_bytes ?q", OF refl refl])
    show "we_in (cn_stream (end_before ?q)) =
        be32 (length (preface_bytes ?q)) @ preface_bytes ?q @ SESSION_ACCEPTED # []"
      by (simp add: end_before_def plain_connection_def handshake_bytes_def)
  qed (use check in \<open>simp_all add: preface_codec\<close>)
  also have "(cn_stream (end_before ?q))\<lparr>we_in := [],
      we_out := we_out (cn_stream (end_before ?q)) @ be32 (length (preface_bytes ?p)) @
        preface_bytes ?p @ [SESSION_ACCEPTED]\<rparr> = cn_stream (end_after ?p)"
    by (simp add: end_before_def end_after_def plain_connection_def blank_end_def handshake_bytes_def)
  finally have "exchange_prefaces (iroh_link (wire_stream [])) plain_serde ?p
      (\<lambda>peer. verify_iroh_session_preface peer ping_plan ''server'' ReferenceEncoding ''bb'' ?binding)
      (cn_stream (end_before ?q)) = (Inr ?q, cn_stream (end_after ?p))" .
  moreover have "channel_binding iroh_example ping_plan = (Inr ?binding :: string runtime_error + _)"
    by (simp add: channel_binding_def iroh_example_def)
  ultimately show ?thesis
    using ping_prefaces(1)
    unfolding iroh_establish_session_def act_then_Inr establish_on_Inr from_result_Inr
    by (auto simp: end_before_def end_after_def plain_connection_def iroh_example_def iroh_preface_def
        simp del: encode_hex_Nil)
qed

end
