(* ===== verification/Framing.thy ===== *)
theory Framing
  imports Session
begin

text \<open>
  Queues of envelopes on a length-prefixed stream: what either encoding reads of what it wrote, null
  payloads included, and what a sequence of framed sends leaves for the matching sequence of framed
  receives.
\<close>

section \<open>Frames on a stream\<close>

text \<open>
  What \<open>serde_json\<close> gives back for what it wrote: the same value, but for an optional payload that
  is present and the JSON null, which comes back as absent.
\<close>

definition payload_read :: "'v serde \<Rightarrow> 'v option \<Rightarrow> 'v option" where
  "payload_read sd payload = (if payload = Some (json_null sd) then None else payload)"

fun frame_read :: "'v serde \<Rightarrow> 'v frame \<Rightarrow> 'v frame" where
  "frame_read sd (FData from to message payload) = FData from to message (payload_read sd payload)"
| "frame_read sd frame = frame"

definition as_read :: "'v serde \<Rightarrow> 'v envelope \<Rightarrow> 'v envelope" where
  "as_read sd e = e\<lparr>env_frame := frame_read sd (env_frame e)\<rparr>"

definition reading_envelopes :: "'v serde \<Rightarrow> bool" where
  "reading_envelopes sd \<longleftrightarrow>
     (\<forall>e bs. envelope_to_vec sd e = Inr bs \<longrightarrow> envelope_from_slice sd bs = Inr (as_read sd e))"

definition reading_compact :: "'v serde \<Rightarrow> bool" where
  "reading_compact sd \<longleftrightarrow> (\<forall>ce bs. compact_to_vec sd ce = Inr bs \<longrightarrow>
     compact_from_slice sd bs = Inr (ce\<lparr>ce_payload := payload_read sd (ce_payload ce)\<rparr>))"

lemma as_read_null_free: "null_free sd e \<Longrightarrow> as_read sd e = e"
  by (cases e; cases "env_frame e") (auto simp: as_read_def payload_read_def null_free_def)

text \<open>A null payload is all that reading loses: read envelopes are free of it.\<close>

lemma null_free_as_read: "null_free sd (as_read sd e)"
  by (cases "env_frame e") (auto simp: as_read_def payload_read_def null_free_def)

lemma matching_frame_read:
  assumes "transition_matches t e" and "frame_payload (env_frame e) = Inr payload"
  shows "operation_frame (wt_operation t)
      \<lparr>ce_transition = i, ce_sequence = n, ce_payload = payload_read sd payload\<rparr> =
    Inr (frame_read sd (env_frame e))"
  using assms
  by (cases "wt_operation t"; cases "env_frame e")
     (auto simp: transition_matches_def reject_control_payload_def guard_err_def payload_read_def and_then_def
       split: if_splits)

lemma compact_reads:
  fixes e :: "'v envelope"
  assumes "reading_compact sd" and "dictionary_ok (cc_wire cc)" and "compact_encode sd cc e = Inr bs"
  shows "compact_decode sd cc bs = Inr (as_read sd e)"
proof -
  from assms(3) obtain t payload where
      f: "find (\<lambda>t. transition_matches t e) (wp_transitions (cc_wire cc)) = Some t"
    and p: "frame_payload (env_frame e) = (Inr payload :: 'v runtime_error + _)"
    and v: "compact_to_vec sd \<lparr>ce_transition = wt_id t, ce_sequence = env_sequence e, ce_payload = payload\<rparr> = Inr bs"
    and len: "length bs \<le> MAX_ENVELOPE_BYTES"
    and hd: "env_wire e = WIRE_FORMAT" "env_conversation e = cc_conversation cc" "env_identity e = cc_identity cc"
    by (auto simp: compact_encode_Inr)
  from assms(1) v have from_v: "compact_from_slice sd bs =
      Inr \<lparr>ce_transition = wt_id t, ce_sequence = env_sequence e, ce_payload = payload_read sd payload\<rparr>"
    by (simp add: reading_compact_def)
  from f have t: "t \<in> set (wp_transitions (cc_wire cc))" "transition_matches t e"
    by (auto simp: find_Some_iff)
  have "within_limit bs = (Inr bs :: 'v runtime_error + _)" using len by (simp add: result_simps)
  with from_v lookup_dictionary [OF assms(2) t(1)] matching_frame_read [OF t(2) p] matching_frame(2) [OF t(2) p] hd
  show ?thesis by (cases e) (simp add: compact_decode_def as_read_def)
qed

text \<open>Either codec reads what it wrote, up to null payloads.\<close>

lemma codec_reads:
  fixes e :: "'v envelope"
  assumes "reading_envelopes sd" and "reading_compact sd"
    and "\<And>cc. codec = CodecCompact cc \<Longrightarrow> dictionary_ok (cc_wire cc)"
    and enc: "codec_encode sd codec e = Inr bs"
  shows "codec_decode sd codec bs = Inr (as_read sd e)" and "length bs \<le> MAX_ENVELOPE_BYTES"
proof -
  have "codec_decode sd codec bs = Inr (as_read sd e) \<and> length bs \<le> MAX_ENVELOPE_BYTES"
  proof (cases codec)
    case CodecReference
    with enc have "encode_envelope sd e = Inr bs" by (simp add: codec_encode_def)
    with CodecReference assms(1) show ?thesis
      by (auto simp: codec_decode_def encode_envelope_def decode_envelope_def result_simps reading_envelopes_def)
  next
    case (CodecCompact cc)
    with enc have "compact_encode sd cc e = Inr bs" by (simp add: codec_encode_def)
    with CodecCompact compact_reads [OF assms(2) assms(3) this] compact.enc_limit [OF this] show ?thesis
      by (simp add: codec_decode_def)
  qed
  then show "codec_decode sd codec bs = Inr (as_read sd e)" and "length bs \<le> MAX_ENVELOPE_BYTES" by simp_all
qed

fun send_all :: "('v envelope \<Rightarrow> ('s, 'e, unit) action) \<Rightarrow> 'v envelope list \<Rightarrow> ('s, 'e, unit) action" where
  "send_all snd_one [] = done_with ()"
| "send_all snd_one (e # es) = act_then (snd_one e) (\<lambda>_. send_all snd_one es)"

lemma send_all_single: "f e a = (Inr (), a') \<Longrightarrow> send_all f [e] a = (Inr (), a')"
  by (simp add: act_then_def done_with_def)

fun receive_many :: "('s, 'e, 'v envelope) action \<Rightarrow> nat \<Rightarrow> ('s, 'e, 'v envelope list) action" where
  "receive_many rcv 0 = done_with []"
| "receive_many rcv (Suc n) = act_then rcv (\<lambda>e. act_then (receive_many rcv n) (\<lambda>es. done_with (e # es)))"

context reliable_link
begin

lemma framed_send_bytes:
  fixes lk :: "(wire_end, 'v) link"
  assumes "lk_put lk = put" and "framed_send lk sd required e c = (Inr (), c')"
  shows "\<exists>bs. codec_encode sd (cn_codec c) e = Inr bs \<and>
    c' = c\<lparr>cn_stream := (cn_stream c)\<lparr>we_out := we_out (cn_stream c) @ be32 (length bs) @ bs\<rparr>\<rparr>"
  using assms
  by (auto simp: framed_send_def act_then_Inr guard_err_Inr on_stream_def put_out)

lemma framed_receive_bytes:
  fixes lk :: "(wire_end, 'v) link"
  assumes "lk_get lk = get" and "required c = Inr ()"
    and "codec_decode sd (cn_codec c) bs = Inr e" and "length bs \<le> MAX_ENVELOPE_BYTES"
    and "we_in (cn_stream c) = be32 (length bs) @ bs @ rest"
  shows "framed_receive lk sd required c = (Inr e, c\<lparr>cn_stream := (cn_stream c)\<lparr>we_in := rest\<rparr>\<rparr>)"
proof -
  have n: "of_be32 (be32 (length bs)) = length bs"
    by (rule of_be32_be32) (use assms(4) in \<open>simp add: MAX_ENVELOPE_BYTES_def MAX_U32_def\<close>)
  have g1: "get 4 (cn_stream c) = (Inr (be32 (length bs)), (cn_stream c)\<lparr>we_in := bs @ rest\<rparr>)"
    by (rule get_prefix) (simp_all add: assms(5))
  have g2: "get (length bs) ((cn_stream c)\<lparr>we_in := bs @ rest\<rparr>) =
      (Inr bs, (cn_stream c)\<lparr>we_in := bs @ rest, we_in := rest\<rparr>)"
    by (rule get_prefix) simp_all
  show ?thesis
    using assms(2-4) g1 g2
    by (simp add: framed_receive_def act_then_def from_result_def on_stream_def assms(1) n guard_err_def)
qed

lemma framed_queue:
  fixes lk :: "(wire_end, 'v) link"
  assumes lk: "lk_put lk = put" "lk_get lk = get"
    and "send_all (framed_send lk sd required) es a = (Inr (), a')"
    and "\<And>e bs. codec_encode sd (cn_codec a) e = Inr bs \<Longrightarrow>
      codec_decode sd (cn_codec a) bs = Inr (read e) \<and> length bs \<le> MAX_ENVELOPE_BYTES"
    and "cn_codec b = cn_codec a" and "\<And>s. required (b\<lparr>cn_stream := s\<rparr>) = Inr ()"
  shows "\<exists>bytes. we_out (cn_stream a') = we_out (cn_stream a) @ bytes \<and>
    (we_in (cn_stream b) = bytes @ rest \<longrightarrow>
      receive_many (framed_receive lk sd required) (length es) b =
        (Inr (map read es), b\<lparr>cn_stream := (cn_stream b)\<lparr>we_in := rest\<rparr>\<rparr>))"
  using assms(3-6)
proof (induction es arbitrary: a b)
  case Nil
  then show ?case by (auto simp: done_with_def)
next
  case (Cons e es)
  then obtain a1 where s1: "framed_send lk sd required e a = (Inr (), a1)"
    and s2: "send_all (framed_send lk sd required) es a1 = (Inr (), a')"
    by (auto simp: act_then_Inr)
  from framed_send_bytes [OF lk(1) s1] obtain bs where bs: "codec_encode sd (cn_codec a) e = Inr bs"
    and a1: "a1 = a\<lparr>cn_stream := (cn_stream a)\<lparr>we_out := we_out (cn_stream a) @ be32 (length bs) @ bs\<rparr>\<rparr>"
    by blast
  from bs Cons.prems(2) have dec: "codec_decode sd (cn_codec b) bs = Inr (read e)" "length bs \<le> MAX_ENVELOPE_BYTES"
    by (auto simp: Cons.prems(3))
  define b1 where "b1 = (\<lambda>bytes. b\<lparr>cn_stream := (cn_stream b)\<lparr>we_in := bytes @ rest\<rparr>\<rparr>)"
  have codecs: "cn_codec a1 = cn_codec a" "\<And>bytes. cn_codec (b1 bytes) = cn_codec a1"
    using Cons.prems(3) by (simp_all add: a1 b1_def)
  have props: "\<And>e bs. codec_encode sd (cn_codec a1) e = Inr bs \<Longrightarrow>
      codec_decode sd (cn_codec a1) bs = Inr (read e) \<and> length bs \<le> MAX_ENVELOPE_BYTES"
    "\<And>bytes s. required ((b1 bytes)\<lparr>cn_stream := s\<rparr>) = Inr ()"
    using Cons.prems(2,4) by (simp_all add: codecs b1_def)
  obtain bytes where out: "we_out (cn_stream a') = we_out (cn_stream a1) @ bytes"
    using Cons.IH [OF s2 props(1) codecs(2) props(2), of "[]"] by blast
  moreover have "receive_many (framed_receive lk sd required) (length es) (b1 bytes) =
      (Inr (map read es), b\<lparr>cn_stream := (cn_stream b)\<lparr>we_in := rest\<rparr>\<rparr>)"
  proof -
    from Cons.IH [OF s2 props(1) codecs(2) props(2), of bytes] out show ?thesis by (auto simp: b1_def)
  qed
  moreover have "framed_receive lk sd required b = (Inr (read e), b1 bytes)"
    if "we_in (cn_stream b) = (be32 (length bs) @ bs @ bytes) @ rest"
    using framed_receive_bytes [OF lk(2) _ dec] Cons.prems(4) [of "cn_stream b"] that
    by (simp add: b1_def)
  ultimately show ?case
    by (intro exI [of _ "be32 (length bs) @ bs @ bytes"])
       (simp add: a1 act_then_def done_with_def)
qed

end

end
