(* ===== verification/Wire_Properties.thy ===== *)
theory Wire_Properties
  imports Plain_Serde Framing
begin

text \<open>
  What the encodings, the framing and the session handshake guarantee.
\<close>

section \<open>Compact envelopes\<close>

lemma find_matching:
  assumes "t \<in> set ts" and "P t"
  shows "\<exists>u. find P ts = Some u"
  using assms by (induction ts) auto

text \<open>A frame of the graph has its transition in the dictionary.\<close>

lemma frame_transition:
  fixes c :: "'v conversation" and e :: "'v envelope"
  assumes "conv_next c (env_state e) (env_frame e) = Some j" and "\<not> is_fault (env_frame e)"
  shows "\<exists>oper. (env_state e, oper) \<in> graph_transitions c \<and>
    (\<forall>i. transition_matches \<lparr>wt_id = i, wt_state = env_state e, wt_operation = oper\<rparr> e)"
proof -
  obtain s where s: "find (\<lambda>s. gid s = env_state e) (conv_states c) = Some s"
    using assms(1) by (auto simp: conv_next_def split: option.splits)
  then have in_c: "s \<in> set (conv_states c)" and gid: "gid s = env_state e"
    by (auto dest: find_key_SomeD)
  have "\<exists>oper. (env_state e, oper) \<in> set (global_transitions s) \<and>
    (\<forall>i. transition_matches \<lparr>wt_id = i, wt_state = env_state e, wt_operation = oper\<rparr> e)"
    using assms gid
    by (cases s; cases "env_frame e")
       (auto simp: conv_next_find [OF s] transition_matches_def bt_contains_def split: if_splits)
  with in_c show ?thesis by (auto simp: graph_transitions_def)
qed

lemma numbered_entry:
  assumes "length ts \<le> MAX_U16" and "(i, oper) \<in> set ts"
  shows "\<exists>n. \<lparr>wt_id = n, wt_state = i, wt_operation = oper\<rparr> \<in> set (numbered ts)"
proof -
  from assms(2) obtain k where k: "k < length ts" "ts ! k = (i, oper)" by (auto simp: in_set_conv_nth)
  then have "numbered ts ! k = \<lparr>wt_id = word_of_nat (k + 1), wt_state = i, wt_operation = oper\<rparr>"
    by (simp add: numbered_def nth_enumerate_eq)
  moreover have "k < length (numbered ts)" using k by (simp add: numbered_def)
  ultimately show ?thesis by (metis nth_mem)
qed

lemma compiled_dictionary:
  fixes c :: "'v conversation"
  assumes "compile_prepared ext c = Inr plan"
  shows "pp_wire plan = compiled_wire c" and "dictionary_ok (pp_wire plan)"
    and "length (dictionary_entries (compiled_endpoints c)) \<le> MAX_U16" and "well_formed c"
proof -
  obtain p where p: "compile ext c = Inr p" "pp_wire plan = compiled_wire c"
    using assms by (auto elim: compile_prepared_shape)
  then show "pp_wire plan = compiled_wire c" "well_formed c" by (auto dest: compile_shape(1))
  have "derive_wire_plan (compiled_endpoints c) = Inr (compiled_wire c)"
    using compile_shape(2,5,6) [OF p(1)] by (simp add: plan_sound_def)
  then show len: "length (dictionary_entries (compiled_endpoints c)) \<le> MAX_U16"
    by (rule derive_wire_plan_cases(1))
  then show "dictionary_ok (pp_wire plan)"
    by (auto simp: p(2) compiled_wire_def dictionary_ok_def numbered_def nth_enumerate_eq case_prod_beta)
qed

text \<open>C22: the compact encoding is complete.  Every envelope a machine of a compiled plan emits has a
  transition identifier, and it survives the compact round trip unchanged, provided
  \<open>serde_json\<close> writes it within the limit, reads back what it writes, and the payload is not the
  JSON null.\<close>

theorem compact_complete:
  fixes c :: "'v conversation" and e :: "'v envelope"
  assumes plan: "compile_prepared ext c = Inr plan"
    and bel: "belongs c (pp_conversation_identity plan) (pp_plan_identity plan) p m"
    and em: "emits m e m'"
    and serde: "faithful_compact sd" "null_free sd e"
      "\<And>i payload. frame_payload (env_frame e) = (Inr payload :: 'v runtime_error + 'v option) \<Longrightarrow>
        \<exists>bs. compact_to_vec sd \<lparr>ce_transition = i, ce_sequence = env_sequence e, ce_payload = payload\<rparr> =
          Inr bs \<and> length bs \<le> MAX_ENVELOPE_BYTES"
  shows "compact_round_trip sd plan e = Inr e"
proof -
  note dict = compiled_dictionary [OF plan] and fields = emits_fields [OF em]
  note glob = emits_global [OF bel em]
  have conv: "pp_conversation plan = module_id (conv_module c)"
    using plan compile_shape(3) by (auto elim!: compile_prepared_shape)
  from frame_transition [of c e, OF _ glob(3)] glob(1) fields(1) obtain oper
    where op_in: "(env_state e, oper) \<in> graph_transitions c"
      and op: "\<And>i. transition_matches \<lparr>wt_id = i, wt_state = env_state e, wt_operation = oper\<rparr> e"
    by auto
  have "set (compiled_endpoints c) = set (project_validated c)" by (simp add: project_validated_def)
  from op_in dictionary_graph [OF dict(4) this]
  have "(env_state e, oper) \<in> set (dictionary_entries (compiled_endpoints c))" by simp
  from numbered_entry [OF dict(3) this] op
  have "\<exists>t \<in> set (wp_transitions (pp_wire plan)). transition_matches t e"
    by (auto simp: dict(1) compiled_wire_def)
  then obtain t where t: "find (\<lambda>t. transition_matches t e) (wp_transitions (pp_wire plan)) = Some t"
    using find_matching by metis
  obtain payload where p: "frame_payload (env_frame e) = (Inr payload :: 'v runtime_error + _)"
    using glob(3) by (cases "env_frame e") auto
  moreover obtain bs where "compact_to_vec sd \<lparr>ce_transition = wt_id t, ce_sequence = env_sequence e,
      ce_payload = payload\<rparr> = Inr bs" "length bs \<le> MAX_ENVELOPE_BYTES" using serde(3) [OF p] by blast
  moreover define cc where "cc = \<lparr>cc_conversation = pp_conversation plan,
      cc_identity = pp_conversation_identity plan, cc_plan_identity = pp_plan_identity plan,
      cc_wire = pp_wire plan\<rparr>"
  moreover have "env_conversation e = module_id (conv_module c)" "env_identity e = pp_conversation_identity plan"
    "env_wire e = WIRE_FORMAT" using fields belongs_fields(2,3) [OF bel] by simp_all
  ultimately have enc: "compact_encode sd cc e = Inr bs"
    using t conv by (auto simp: compact_encode_Inr)
  have "compact_decode sd cc bs = Inr e"
    using compact.enc_dec [OF _ enc] serde(1,2) dict(2) by (simp add: cc_def)
  with enc show ?thesis
    by (simp add: compact_round_trip_def codec_for_plan_def codec_encode_def codec_decode_def Let_def cc_def)
qed

lemma compact_complete_witness: "compact_round_trip plain_serde ping_plan ping_envelope = Inr ping_envelope"
proof (rule compact_complete [OF ping_compiles _ emits_data [OF ping_emits] plain_faithful(2)])
  show "belongs ping (pp_conversation_identity ping_plan) (pp_plan_identity ping_plan) ''client''
      (ping_machine ''client'')"
    by (simp add: belongs_def ping_machine_def ping_plan_def ping_def plain_role_def)
  show "null_free plain_serde ping_envelope"
    by (simp add: null_free_def ping_envelope_def emit_def plain_serde_def plain_null_def)
  fix i payload
  assume "frame_payload (env_frame ping_envelope) = (Inr payload :: string runtime_error + string option)"
  then have "payload = Some ''hello''" by (simp add: ping_envelope_def emit_def)
  moreover have "length (number_text n) = 8" for n by (simp add: number_text_def bytes_text_def)
  ultimately show "\<exists>bs. compact_to_vec plain_serde \<lparr>ce_transition = i,
      ce_sequence = env_sequence ping_envelope, ce_payload = payload\<rparr> = Inr bs \<and>
      length bs \<le> MAX_ENVELOPE_BYTES"
    by (simp add: plain_serde_def pack_def plain_null_def MAX_U32_def MAX_ENVELOPE_BYTES_def)
qed

section \<open>Frames on a stream\<close>

text \<open>C23: framing.  Whatever sequence of envelopes one TCP end sends over a reliable stream, in either
  encoding, the other end receives that sequence, in order, and leaves the bytes that follow
  untouched.  Of each envelope everything arrives as it was sent, except that a payload that is the
  JSON null arrives as no payload; a sequence without such a payload arrives exactly.\<close>

theorem tcp_stream_faithful:
  fixes sd :: "'v serde" and a b :: "wire_end connection"
  assumes sent: "send_all (tcp_send (wire_stream eof) sd) es a = (Inr (), a')"
    and serde: "reading_envelopes sd" "reading_compact sd"
    and dictionary: "\<And>cc. cn_codec a = CodecCompact cc \<Longrightarrow> dictionary_ok (cc_wire cc)"
    and same: "cn_codec b = cn_codec a"
    and ready: "codec_encoding (cn_codec b) = ReferenceEncoding \<or> cn_established b"
    and wire: "we_in (cn_stream b) = drop (length (we_out (cn_stream a))) (we_out (cn_stream a')) @ rest"
  shows "receive_many (tcp_receive (wire_stream eof) sd) (length es) b =
      (Inr (map (as_read sd) es), b\<lparr>cn_stream := (cn_stream b)\<lparr>we_in := rest\<rparr>\<rparr>) \<and>
    (list_all (null_free sd) es \<longrightarrow> map (as_read sd) es = es)"
proof
  have "require_compact_session ''TCP'' (b\<lparr>cn_stream := s\<rparr>) = (Inr () :: 'v runtime_error + unit)" for s
    using ready by (auto simp: require_compact_session_def guard_err_def)
  moreover have "codec_decode sd (cn_codec a) bs = Inr (as_read sd e) \<and> length bs \<le> MAX_ENVELOPE_BYTES"
    if "codec_encode sd (cn_codec a) e = Inr bs" for e bs
    using codec_reads [OF serde dictionary that] by simp
  moreover note tcp_wire.framed_queue [OF refl refl sent [unfolded tcp_send_def], of "as_read sd" b rest]
  ultimately
  obtain bytes where out: "we_out (cn_stream a') = we_out (cn_stream a) @ bytes"
    and rcv: "we_in (cn_stream b) = bytes @ rest \<longrightarrow>
      receive_many (framed_receive (tcp_link (wire_stream eof)) sd (require_compact_session ''TCP''))
        (length es) b = (Inr (map (as_read sd) es), b\<lparr>cn_stream := (cn_stream b)\<lparr>we_in := rest\<rparr>\<rparr>)"
    using same by blast
  with wire show "receive_many (tcp_receive (wire_stream eof) sd) (length es) b =
      (Inr (map (as_read sd) es), b\<lparr>cn_stream := (cn_stream b)\<lparr>we_in := rest\<rparr>\<rparr>)"
    by (simp add: tcp_receive_def)
  show "list_all (null_free sd) es \<longrightarrow> map (as_read sd) es = es"
    by (induction es) (simp_all add: as_read_null_free)
qed

text \<open>The example sends a greeting and then an envelope whose payload is null.\<close>

definition null_envelope :: "string envelope" where
  "null_envelope = ping_envelope\<lparr>env_frame := FData ''client'' ''server'' ''hi'' (Some plain_null)\<rparr>"

definition ping_bytes :: "byte list" where
  "ping_bytes = we_out (cn_stream (snd (send_all (tcp_send (wire_stream TimedOut) plain_serde)
     [ping_envelope, null_envelope] (plain_connection blank_end CodecReference))))"

lemma plain_reads: "reading_envelopes plain_serde" "reading_compact plain_serde"
proof -
  have payload: "texts_payload (payload_texts p) = payload_read plain_serde p" for p
    by (cases p) (auto simp: payload_read_def plain_serde_def)
  have "texts_frame (frame_texts f) = Some (frame_read plain_serde f)" for f
    by (cases f) (auto simp: payload)
  then show "reading_envelopes plain_serde"
    by (auto simp: reading_envelopes_def plain_serde_def [THEN arg_cong, of envelope_to_vec]
        plain_serde_def [THEN arg_cong, of envelope_from_slice] plain_envelope_def as_read_def dest!: unpack_pack)
  show "reading_compact plain_serde"
    by (auto simp: reading_compact_def plain_serde_def [THEN arg_cong, of compact_to_vec]
        plain_serde_def [THEN arg_cong, of compact_from_slice] payload ucast_u16_u64 dest!: unpack_pack)
qed

lemma plain_sends:
  assumes "\<not> isl (encode_envelope sd e)" and "cn_codec c = CodecReference"
  shows "tcp_send (wire_stream TimedOut) sd e c = (Inr (), c\<lparr>cn_stream := (cn_stream c)\<lparr>we_out :=
    we_out (cn_stream c) @ be32 (length (projr (encode_envelope sd e))) @ projr (encode_envelope sd e)\<rparr>\<rparr>)"
proof -
  from assms(1) obtain bs where bs: "encode_envelope sd e = Inr bs" by (cases "encode_envelope sd e") auto
  from ref.enc_limit [OF this] have "length bs \<le> MAX_U32" by (simp add: MAX_ENVELOPE_BYTES_def MAX_U32_def)
  with bs assms(2) show ?thesis
    by (simp add: tcp_send_def framed_send_def act_then_def from_result_def require_compact_session_def
        guard_err_def codec_encode_def on_stream_def tcp_wire.put_out)
qed

lemma tcp_stream_faithful_witness:
  "receive_many (tcp_receive (wire_stream TimedOut) plain_serde) 2
      (plain_connection (blank_end\<lparr>we_in := ping_bytes\<rparr>) CodecReference) =
    (Inr [ping_envelope, null_envelope\<lparr>env_frame := FData ''client'' ''server'' ''hi'' None\<rparr>],
     plain_connection blank_end CodecReference)"
proof -
  let ?a = "plain_connection blank_end CodecReference"
  let ?b = "plain_connection (blank_end\<lparr>we_in := ping_bytes\<rparr>) CodecReference"
  let ?sends = "send_all (tcp_send (wire_stream TimedOut) plain_serde) [ping_envelope, null_envelope]"
  have "\<not> isl (encode_envelope plain_serde ping_envelope)" "\<not> isl (encode_envelope plain_serde null_envelope)"
    by code_simp+
  then have "fst (?sends ?a) = Inr ()"
    by (simp add: act_then_def done_with_def plain_sends plain_connection_def)
  then have sent: "?sends ?a = (Inr (), snd (?sends ?a))" by (simp add: prod_eq_iff)
  have "null_free plain_serde ping_envelope"
    by (simp add: null_free_def ping_envelope_def emit_def plain_serde_def plain_null_def)
  then have reads: "map (as_read plain_serde) [ping_envelope, null_envelope] =
      [ping_envelope, null_envelope\<lparr>env_frame := FData ''client'' ''server'' ''hi'' None\<rparr>]"
    by (simp add: as_read_null_free)
       (simp add: as_read_def null_envelope_def payload_read_def plain_serde_def)
  from tcp_stream_faithful [OF sent plain_reads, of ?b "[]"] show ?thesis
    unfolding reads
    by (simp add: plain_connection_def blank_end_def ping_bytes_def numeral_2_eq_2
        del: send_all.simps receive_many.simps)
qed

section \<open>Sessions\<close>

text \<open>The check of a peer's preface.  \<open>verify_peer\<close> accepts exactly the prefaces of the session
  format that name the plan's conversation, its two identities, the expected role and the
  expected encoding.\<close>

theorem peer_check_exact:
  "verify_peer p plan role wire = Inr () \<longleftrightarrow>
     find_endpoint role (pp_endpoints plan) \<noteq> None \<and> sn_format p = SESSION_FORMAT \<and>
     sn_conversation p = pp_conversation plan \<and> sn_identity p = pp_conversation_identity plan \<and>
     sn_plan_identity p = pp_plan_identity plan \<and> sn_role p = role \<and> sn_wire p = wire"
  by (rule verify_peer_Inr)

text \<open>What an established TCP session binds, over any stream.  The handshake succeeds only with a
  peer whose preface names this plan, the peer role and this encoding, and only then is the
  session marked established; every failure leaves the mark as it was.\<close>

theorem tcp_session_binds:
  fixes c c' :: "'s connection" and sd :: "'v serde"
  shows "(tcp_establish_session rs sd plan mine role c = (Inr peer, c') \<longrightarrow>
      cn_established c' \<and> cn_codec c' = cn_codec c \<and> codec_fits (cn_codec c) plan \<and> mine \<noteq> role \<and>
      sn_format peer = SESSION_FORMAT \<and> sn_identity peer = pp_conversation_identity plan \<and>
      sn_plan_identity peer = pp_plan_identity plan \<and> sn_role peer = role \<and>
      sn_wire peer = codec_encoding (cn_codec c)) \<and>
    (tcp_establish_session rs sd plan mine role c = (Inl (e :: 'v runtime_error), c') \<longrightarrow>
      cn_established c' = cn_established c)"
proof (intro conjI impI)
  assume "tcp_establish_session rs sd plan mine role c = (Inr peer, c')"
  then show "cn_established c'" "cn_codec c' = cn_codec c" "codec_fits (cn_codec c) plan" "mine \<noteq> role"
    "sn_format peer = SESSION_FORMAT" "sn_identity peer = pp_conversation_identity plan"
    "sn_plan_identity peer = pp_plan_identity plan" "sn_role peer = role"
    "sn_wire peer = codec_encoding (cn_codec c)"
    by (auto simp: tcp_establish_session_def act_then_Inr local_session_preface_Inr establish_on_Inr
        exchange_prefaces_Inr verify_peer_Inr)
next
  assume "tcp_establish_session rs sd plan mine role c = (Inl e, c')"
  then show "cn_established c' = cn_established c"
    by (auto simp: tcp_establish_session_def act_then_def from_result_def split: sum.splits
        dest: establish_on_Inl)
qed

lemma tcp_session_binds_witness:
  "cn_established (end_after (ping_preface ''client'')) \<and>
   sn_plan_identity (ping_preface ''server'') = pp_plan_identity ping_plan \<and>
   sn_role (ping_preface ''server'') = ''server''"
  using tcp_session_binds [of "wire_stream TimedOut" plain_serde ping_plan "''client''" "''server''"
      "end_before (ping_preface ''server'')" "ping_preface ''server''" "end_after (ping_preface ''client'')"]
    ping_sessions(1)
  by simp

text \<open>What an established Iroh session binds in addition: the preface carries the authenticated
  identity of the remote endpoint and the exporter value of this very connection, so a preface
  replayed on a connection with another exporter value is refused.\<close>

theorem iroh_session_binds:
  fixes c c' :: "'s connection" and sd :: "'v serde"
  assumes ok: "iroh_establish_session rs info sd plan mine role c = (Inr peer :: 'v runtime_error + _, c')"
    and remote: "ir_remote info \<noteq> ''missing''"
  shows "cn_established c' \<and> sn_plan_identity peer = pp_plan_identity plan \<and> sn_role peer = role \<and>
    sn_wire peer = codec_encoding (cn_codec c) \<and>
    sn_endpoint_identity peer = Some (ir_remote info) \<and>
    (\<exists>key. ir_export info CHANNEL_BINDING_LABEL (pp_plan_identity plan) = Inr key \<and>
       sn_channel_binding peer = Some (''tls-exporter:'' @ encode_hex key))"
  using assms
  by (auto simp: iroh_establish_session_def act_then_Inr local_session_preface_Inr establish_on_Inr
      exchange_prefaces_Inr verify_iroh_session_preface_def verify_peer_Inr channel_binding_def result_simps
      split: option.splits)

text \<open>Over a wire, a side that succeeds has read the preface its peer wrote.\<close>

lemma read_what_was_written:
  fixes sd :: "'v serde"
  assumes "preface_to_vec sd p = Inr encoded" and "length encoded \<le> MAX_SESSION_PREFACE_BYTES"
    and "faithful_prefaces sd"
    and "be32 (length encoded) @ encoded @ rest = prefix @ received @ rest'"
    and "length prefix = 4" and "of_be32 prefix = length received"
    and "decode_session_preface sd received = (Inr q :: 'v runtime_error + _)"
  shows "q = p"
proof -
  from assms(4,5) have "prefix = be32 (length encoded)" and tails: "encoded @ rest = received @ rest'"
    by (simp_all add: append_eq_append_conv)
  with assms(2,6) have "length received = length encoded"
    by (simp add: of_be32_be32 MAX_U32_def MAX_SESSION_PREFACE_BYTES_def)
  with tails have "received = encoded" by (simp add: append_eq_append_conv)
  with assms(1,3,7) show ?thesis by (auto simp: preface_codec_Inr faithful_prefaces_def)
qed

lemma tcp_establish_wire:
  fixes sd :: "'v serde"
  assumes "tcp_establish_session (wire_stream eof) sd plan mine role c = (Inr peer :: 'v runtime_error + _, c')"
  obtains p encoded prefix received where
    "local_session_preface (cn_codec c) plan mine role = (Inr p :: 'v runtime_error + _)"
    "preface_to_vec sd p = Inr encoded" "length encoded \<le> MAX_SESSION_PREFACE_BYTES"
    "we_out (cn_stream c') = we_out (cn_stream c) @ be32 (length encoded) @ encoded @ [SESSION_ACCEPTED]"
    "we_in (cn_stream c) = prefix @ received @ SESSION_ACCEPTED # we_in (cn_stream c')"
    "length prefix = 4" "of_be32 prefix = length received"
    "decode_session_preface sd received = (Inr peer :: 'v runtime_error + _)"
    "verify_peer peer plan role (codec_encoding (cn_codec c)) = (Inr () :: 'v runtime_error + _)"
proof -
  from assms obtain p s where p: "local_session_preface (cn_codec c) plan mine role = (Inr p :: 'v runtime_error + _)"
    and ex: "exchange_prefaces (tcp_link (wire_stream eof)) sd p
      (\<lambda>peer. verify_peer peer plan role (codec_encoding (cn_codec c))) (cn_stream c) = (Inr peer, s)"
    and c': "c' = c\<lparr>cn_stream := s, cn_established := True\<rparr>"
    by (auto simp: tcp_establish_session_def act_then_Inr establish_on_Inr)
  from tcp_wire.exchange_bytes [OF refl refl ex] p c' that show thesis
    by (auto simp: preface_codec_Inr)
qed

lemma iroh_session_binds_witness:
  "cn_established (end_after (iroh_preface ''client'' ''aa'')) \<and>
   sn_plan_identity (iroh_preface ''server'' ''bb'') = pp_plan_identity ping_plan \<and>
   sn_role (iroh_preface ''server'' ''bb'') = ''server'' \<and>
   sn_wire (iroh_preface ''server'' ''bb'') = codec_encoding (cn_codec (end_before (iroh_preface ''server'' ''bb''))) \<and>
   sn_endpoint_identity (iroh_preface ''server'' ''bb'') = Some (ir_remote iroh_example) \<and>
   (\<exists>key. ir_export iroh_example CHANNEL_BINDING_LABEL (pp_plan_identity ping_plan) = Inr key \<and>
      sn_channel_binding (iroh_preface ''server'' ''bb'') = Some (''tls-exporter:'' @ encode_hex key))"
  by (rule iroh_session_binds [OF iroh_session]) (simp add: iroh_example_def)

text \<open>C24: agreement of the handshake.  When two TCP ends joined by a reliable wire both establish a
  session, they hold plans with the same identities, their roles are each other's peer roles,
  they use the same encoding, and each has received the preface the other declared.\<close>

theorem handshake_agreement:
  fixes sd :: "'v serde"
  assumes a: "tcp_establish_session (wire_stream eof) sd plan_a ra pa a = (Inr peer_a :: 'v runtime_error + _, a')"
    and b: "tcp_establish_session (wire_stream eof) sd plan_b rb pb b = (Inr peer_b :: 'v runtime_error + _, b')"
    and fresh: "we_out (cn_stream a) = []" "we_out (cn_stream b) = []"
    and wire: "we_in (cn_stream a) = we_out (cn_stream b')" "we_in (cn_stream b) = we_out (cn_stream a')"
    and serde: "faithful_prefaces sd"
  shows "pp_plan_identity plan_a = pp_plan_identity plan_b \<and>
    pp_conversation_identity plan_a = pp_conversation_identity plan_b \<and>
    pa = rb \<and> pb = ra \<and> ra \<noteq> rb \<and>
    codec_encoding (cn_codec a) = codec_encoding (cn_codec b) \<and>
    local_session_preface (cn_codec b) plan_b rb pb = (Inr peer_a :: 'v runtime_error + _) \<and>
    local_session_preface (cn_codec a) plan_a ra pa = (Inr peer_b :: 'v runtime_error + _)"
proof -
  from a obtain p ea xa ca where A: "local_session_preface (cn_codec a) plan_a ra pa = (Inr p :: 'v runtime_error + _)"
    "preface_to_vec sd p = Inr ea" "length ea \<le> MAX_SESSION_PREFACE_BYTES"
    "we_out (cn_stream a') = we_out (cn_stream a) @ be32 (length ea) @ ea @ [SESSION_ACCEPTED]"
    "we_in (cn_stream a) = xa @ ca @ SESSION_ACCEPTED # we_in (cn_stream a')" "length xa = 4"
    "of_be32 xa = length ca" "decode_session_preface sd ca = (Inr peer_a :: 'v runtime_error + _)"
    "verify_peer peer_a plan_a pa (codec_encoding (cn_codec a)) = (Inr () :: 'v runtime_error + _)"
    by (rule tcp_establish_wire)
  from b obtain q eb xb cb where B: "local_session_preface (cn_codec b) plan_b rb pb = (Inr q :: 'v runtime_error + _)"
    "preface_to_vec sd q = Inr eb" "length eb \<le> MAX_SESSION_PREFACE_BYTES"
    "we_out (cn_stream b') = we_out (cn_stream b) @ be32 (length eb) @ eb @ [SESSION_ACCEPTED]"
    "we_in (cn_stream b) = xb @ cb @ SESSION_ACCEPTED # we_in (cn_stream b')" "length xb = 4"
    "of_be32 xb = length cb" "decode_session_preface sd cb = (Inr peer_b :: 'v runtime_error + _)"
    "verify_peer peer_b plan_b pb (codec_encoding (cn_codec b)) = (Inr () :: 'v runtime_error + _)"
    by (rule tcp_establish_wire)
  have "peer_a = q"
    by (rule read_what_was_written [OF B(2,3) serde _ A(6-8), where rest = "[SESSION_ACCEPTED]"
          and rest' = "SESSION_ACCEPTED # we_in (cn_stream a')"])
       (use wire(1) fresh(2) A(5) B(4) in simp)
  moreover have "peer_b = p"
    by (rule read_what_was_written [OF A(2,3) serde _ B(6-8), where rest = "[SESSION_ACCEPTED]"
          and rest' = "SESSION_ACCEPTED # we_in (cn_stream b')"])
       (use wire(2) fresh(1) B(5) A(4) in simp)
  ultimately show ?thesis using A(1,9) B(1,9)
    by (auto simp: verify_peer_Inr local_session_preface_Inr)
qed

lemma handshake_agreement_witness:
  "codec_encoding (cn_codec (end_before (ping_preface ''server''))) =
     codec_encoding (cn_codec (end_before (ping_preface ''client''))) \<and>
   local_session_preface (cn_codec (end_before (ping_preface ''client''))) ping_plan ''server'' ''client'' =
     (Inr (ping_preface ''server'') :: string runtime_error + _)"
  using handshake_agreement [OF ping_sessions _ _ _ _ plain_faithful(3)]
  by (simp add: end_before_def end_after_def plain_connection_def blank_end_def)

text \<open>Completion of the handshake.  Two ends with the same plan, crossed roles and the same codec
  both establish their session, each over what the other writes, as soon as their prefaces are
  written within the limit and read back.\<close>

theorem handshake_completes:
  fixes sd :: "'v serde"
  assumes mine: "local_session_preface (cn_codec a) plan ra rb = (Inr p :: 'v runtime_error + _)"
    and theirs: "local_session_preface (cn_codec a) plan rb ra = (Inr q :: 'v runtime_error + _)"
    and enc: "preface_to_vec sd p = Inr bp" "length bp \<le> MAX_SESSION_PREFACE_BYTES"
      "preface_to_vec sd q = Inr bq" "length bq \<le> MAX_SESSION_PREFACE_BYTES"
    and serde: "faithful_prefaces sd"
    and inp: "we_in (cn_stream a) = be32 (length bq) @ bq @ SESSION_ACCEPTED # rest"
  shows "tcp_establish_session (wire_stream eof) sd plan ra rb a =
    (Inr q, a\<lparr>cn_stream := (cn_stream a)\<lparr>we_in := rest,
       we_out := we_out (cn_stream a) @ be32 (length bp) @ bp @ [SESSION_ACCEPTED]\<rparr>,
     cn_established := True\<rparr>)"
proof -
  have e: "encode_session_preface sd p = (Inr bp :: 'v runtime_error + _)"
    and d: "decode_session_preface sd bq = (Inr q :: 'v runtime_error + _)"
    using enc serde by (auto simp: preface_codec_Inr faithful_prefaces_def)
  have v: "verify_peer q plan rb (codec_encoding (cn_codec a)) = (Inr () :: 'v runtime_error + _)"
    using theirs by (auto simp: local_session_preface_Inr verify_peer_Inr)
  from tcp_wire.exchange_completes [OF refl refl e inp d, of "\<lambda>peer. verify_peer peer plan rb (codec_encoding (cn_codec a))", OF v]
  show ?thesis
    unfolding tcp_establish_session_def act_then_Inr establish_on_Inr from_result_Inr using mine by blast
qed

lemma handshake_completes_witness:
  "fst (tcp_establish_session (wire_stream TimedOut) plain_serde ping_plan ''client'' ''server''
      (end_before (ping_preface ''server''))) = (Inr (ping_preface ''server'') :: string runtime_error + _)"
  using handshake_completes [of "end_before (ping_preface ''server'')" ping_plan "''client''" "''server''"
      "ping_preface ''client''" "ping_preface ''server''" plain_serde
      "preface_bytes (ping_preface ''client'')" "preface_bytes (ping_preface ''server'')" "[]" TimedOut]
    ping_prefaces preface_vec plain_faithful(3)
  by (simp add: end_before_def plain_connection_def blank_end_def handshake_bytes_def)

text \<open>The gate of compact connections.  A TCP connection with the compact codec and no
  established session refuses to send and to receive, and leaves its stream untouched.\<close>

theorem compact_io_gate:
  assumes "cn_codec c = CodecCompact cc" and "\<not> cn_established c"
  shows "tcp_send rs sd e c = (Inl (RtSessionRequired ''TCP''), c) \<and>
    tcp_receive rs sd c = (Inl (RtSessionRequired ''TCP''), c) \<and>
    quic_send rq sd e c = (Inl (RtSessionRequired ''QUIC''), c) \<and>
    quic_receive rq sd c = (Inl (RtSessionRequired ''QUIC''), c)"
  using assms
  by (simp add: tcp_send_def tcp_receive_def quic_send_def quic_receive_def framed_send_def
      framed_receive_def act_then_def from_result_def require_compact_session_def guard_err_def)

lemma compact_io_gate_witness:
  "tcp_send (wire_stream TimedOut) plain_serde ping_envelope
      (plain_connection blank_end (codec_for_plan CompactEncoding ping_plan)) =
    (Inl (RtSessionRequired ''TCP''), plain_connection blank_end (codec_for_plan CompactEncoding ping_plan)) \<and>
   tcp_receive (wire_stream TimedOut) plain_serde
      (plain_connection blank_end (codec_for_plan CompactEncoding ping_plan)) =
    (Inl (RtSessionRequired ''TCP''), plain_connection blank_end (codec_for_plan CompactEncoding ping_plan)) \<and>
   quic_send (wire_stream []) plain_serde ping_envelope
      (plain_connection blank_end (codec_for_plan CompactEncoding ping_plan)) =
    (Inl (RtSessionRequired ''QUIC''), plain_connection blank_end (codec_for_plan CompactEncoding ping_plan)) \<and>
   quic_receive (wire_stream []) plain_serde
      (plain_connection blank_end (codec_for_plan CompactEncoding ping_plan)) =
    (Inl (RtSessionRequired ''QUIC''), plain_connection blank_end (codec_for_plan CompactEncoding ping_plan))"
  by (rule compact_io_gate) (simp_all add: plain_connection_def codec_for_plan_def)

text \<open>Reference connections have no such gate.  With the reference codec a TCP connection sends
  and receives frames whether or not the session handshake has been run; an Iroh connection
  refuses in either encoding.\<close>

theorem reference_io_ungated:
  fixes c :: "'s connection"
  shows "(cn_codec c = CodecReference \<longrightarrow>
      fst (tcp_send rs sd e c) = fst (tcp_send rs sd e (c\<lparr>cn_established := True\<rparr>)) \<and>
      fst (tcp_receive rs sd c) = fst (tcp_receive rs sd (c\<lparr>cn_established := True\<rparr>))) \<and>
    (\<not> cn_established c \<longrightarrow>
      iroh_send ri sd e c = (Inl (RtSessionRequired ''Iroh''), c) \<and>
      iroh_receive ri sd c = (Inl (RtSessionRequired ''Iroh''), c))"
  by (auto simp: tcp_send_def tcp_receive_def iroh_send_def iroh_receive_def framed_send_def
      framed_receive_def act_then_def from_result_def require_compact_session_def require_session_def
      guard_err_def on_stream_def Let_def split: sum.splits prod.splits)

lemma reference_io_ungated_witness:
  "fst (tcp_send (wire_stream TimedOut) plain_serde ping_envelope (plain_connection blank_end CodecReference)) =
     fst (tcp_send (wire_stream TimedOut) plain_serde ping_envelope
       ((plain_connection blank_end CodecReference)\<lparr>cn_established := True\<rparr>)) \<and>
   iroh_send (wire_stream []) plain_serde ping_envelope (plain_connection blank_end CodecReference) =
     (Inl (RtSessionRequired ''Iroh''), plain_connection blank_end CodecReference)"
  using reference_io_ungated [of "plain_connection blank_end CodecReference" "wire_stream TimedOut"
      plain_serde ping_envelope "wire_stream []"]
  by (simp add: plain_connection_def)

end
