(* ===== verification/Transport.thy ===== *)
theory Transport
  imports Session Two_Party
begin

text \<open>
  The \<open>Transport\<close> trait of \<open>src/src/runtime.rs\<close>, its in-memory implementation over two
  \<open>mpsc\<close> channels, and the wrapper that injects a fault.  A trait object is the record of its
  operations; the state they change is the type variable.
\<close>

section \<open>The trait\<close>

record ('t, 'v) transport =
  tp_plan :: "'t \<Rightarrow> string"
  tp_send :: "'v envelope \<Rightarrow> ('t, 'v runtime_error, unit) action"
  tp_receive :: "('t, 'v runtime_error, 'v envelope) action"
  tp_finish :: "string \<Rightarrow> ('t, 'v runtime_error, unit) action"
  tp_abort :: "'t \<Rightarrow> 't"

definition default_finish :: "string \<Rightarrow> ('t, 'e, unit) action" where
  "default_finish role t = (Inr (), t)"

definition tcp_transport :: "('s, io_kind) raw_stream \<Rightarrow> 'v serde \<Rightarrow> ('s connection, 'v) transport" where
  "tcp_transport rs sd =
     \<lparr>tp_plan = (\<lambda>c. plan_name ''tcp'' (cn_codec c)),
      tp_send = tcp_send rs sd,
      tp_receive = tcp_receive rs sd,
      tp_finish = default_finish,
      tp_abort = (\<lambda>c. c\<lparr>cn_stream := rs_close rs (cn_stream c)\<rparr>)\<rparr>"

section \<open>Channels in memory\<close>

text \<open>
  An \<open>mpsc\<close> channel: what is queued, and whether either end has been dropped.  A receiver takes
  what is queued even when the sender is gone, and only then fails; a sender whose receiver is
  gone fails at once.  Receiving from an empty channel whose sender is alive blocks, which is
  the result \<open>None\<close>.
\<close>

record channel =
  ch_queue :: "byte list list"
  ch_sender :: bool
  ch_receiver :: bool

record memory_net =
  mn_forth :: channel
  mn_back :: channel

definition open_channel :: channel where
  "open_channel = \<lparr>ch_queue = [], ch_sender = True, ch_receiver = True\<rparr>"

definition memory_pair :: memory_net where
  "memory_pair = \<lparr>mn_forth = open_channel, mn_back = open_channel\<rparr>"

definition channel_send :: "byte list \<Rightarrow> channel \<Rightarrow> 'v runtime_error + channel" where
  \<comment> \<open>\<open>outbound.as_ref().ok_or(..)?.send(encoded).map_err(..)\<close>\<close>
  "channel_send encoded ch =
     (if \<not> ch_sender ch then Inl (RtTransportClosed ''memory'')
      else if \<not> ch_receiver ch then Inl (RtTransportClosed ''memory'')
      else Inr (ch\<lparr>ch_queue := ch_queue ch @ [encoded]\<rparr>))"

definition channel_receive :: "channel \<Rightarrow> ('v runtime_error + (byte list \<times> channel)) option" where
  "channel_receive ch =
     (if \<not> ch_receiver ch then Some (Inl (RtTransportClosed ''memory''))
      else case ch_queue ch of
          encoded # rest \<Rightarrow> Some (Inr (encoded, ch\<lparr>ch_queue := rest\<rparr>))
        | [] \<Rightarrow> if ch_sender ch then None else Some (Inl (RtTransportClosed ''memory'')))"

text \<open>The operations of the end that sends on \<open>forth\<close>; the other end has the channels swapped.\<close>

definition swap_net :: "memory_net \<Rightarrow> memory_net" where
  "swap_net n = \<lparr>mn_forth = mn_back n, mn_back = mn_forth n\<rparr>"

definition memory_send :: "'v serde \<Rightarrow> envelope_codec \<Rightarrow> 'v envelope \<Rightarrow> (memory_net, 'v runtime_error, unit) action" where
  "memory_send sd codec e n =
     (case codec_encode sd codec e of
        Inl error \<Rightarrow> (Inl error, n)
      | Inr encoded \<Rightarrow>
          (case channel_send encoded (mn_forth n) of
             Inl error \<Rightarrow> (Inl error, n)
           | Inr ch \<Rightarrow> (Inr (), n\<lparr>mn_forth := ch\<rparr>)))"

definition memory_receive :: "'v serde \<Rightarrow> envelope_codec \<Rightarrow> memory_net
    \<Rightarrow> (('v runtime_error + 'v envelope) \<times> memory_net) option" where
  "memory_receive sd codec n =
     (case channel_receive (mn_back n) of
        None \<Rightarrow> None
      | Some (Inl error) \<Rightarrow> Some (Inl error, n)
      | Some (Inr (encoded, ch)) \<Rightarrow> Some (codec_decode sd codec encoded, n\<lparr>mn_back := ch\<rparr>))"

definition memory_abort :: "memory_net \<Rightarrow> memory_net" where
  \<comment> \<open>\<open>outbound.take(); inbound.take()\<close>\<close>
  "memory_abort n = n\<lparr>mn_forth := (mn_forth n)\<lparr>ch_sender := False\<rparr>,
     mn_back := (mn_back n)\<lparr>ch_receiver := False\<rparr>\<rparr>"

definition memory_plan :: "envelope_codec \<Rightarrow> string" where
  "memory_plan codec = plan_name ''memory'' codec"

section \<open>Injected faults\<close>

datatype fault_operation = FaultSend | FaultReceive

fun fault_operation_str :: "fault_operation \<Rightarrow> string" where
  "fault_operation_str FaultSend = ''send''"
| "fault_operation_str FaultReceive = ''receive''"

record fault_plan =
  fp_role :: string
  fp_operation :: fault_operation
  fp_occurrence :: nat
  fp_failure :: string
  fp_peer_failure :: "string option"

text \<open>
  The wrapper's own fields, and the flag \<open>fired\<close> that the two wrappers of a run share: an
  operation reads and writes it as part of its state.
\<close>

record 't fault_state =
  fs_inner :: 't
  fs_role :: string
  fs_plan :: fault_plan
  fs_sends :: nat
  fs_receives :: nat
  fs_fired :: bool

definition with_fired :: "'t \<Rightarrow> string \<Rightarrow> fault_plan \<Rightarrow> bool \<Rightarrow> 'v runtime_error + 't fault_state" where
  "with_fired inner role plan fired =
     and_then (guard_err (fp_occurrence plan = 0)
       (RtApplication (AppText ''fault occurrence must be at least one''))) (\<lambda>_.
     Inr \<lparr>fs_inner = inner, fs_role = role, fs_plan = plan, fs_sends = 0, fs_receives = 0,
          fs_fired = fired\<rparr>)"

fun fault_count :: "fault_operation \<Rightarrow> 't fault_state \<Rightarrow> nat" where
  "fault_count FaultSend f = fs_sends f"
| "fault_count FaultReceive f = fs_receives f"

fun count_operation :: "fault_operation \<Rightarrow> 't fault_state \<Rightarrow> 't fault_state" where
  "count_operation FaultSend f = f\<lparr>fs_sends := fs_sends f + 1\<rparr>"
| "count_operation FaultReceive f = f\<lparr>fs_receives := fs_receives f + 1\<rparr>"

definition should_inject :: "fault_operation \<Rightarrow> 't fault_state \<Rightarrow> bool \<times> 't fault_state" where
  "should_inject operation f =
     (let f1 = count_operation operation f;
          inject = \<not> fs_fired f1 \<and> fs_role f1 = fp_role (fs_plan f1) \<and>
            operation = fp_operation (fs_plan f1) \<and> fault_count operation f1 = fp_occurrence (fs_plan f1)
      in (inject, if inject then f1\<lparr>fs_fired := True\<rparr> else f1))"

definition injected_error :: "'t fault_state \<Rightarrow> fault_operation \<Rightarrow> string \<Rightarrow> 'v runtime_error" where
  "injected_error f operation failure =
     RtInjectedFailure (fs_role f) (fault_operation_str operation) (fault_count operation f) failure"

definition map_peer_error :: "'t fault_state \<Rightarrow> fault_operation \<Rightarrow> 'v runtime_error + 'a \<Rightarrow> 'v runtime_error + 'a" where
  "map_peer_error f operation result =
     (case result of
        Inl error \<Rightarrow>
          if fs_role f \<noteq> fp_role (fs_plan f) \<and> fs_fired f \<and> transport_failure error \<noteq> None
          then (case fp_peer_failure (fs_plan f) of
                  Some failure \<Rightarrow> Inl (injected_error f operation failure)
                | None \<Rightarrow> Inl error)
          else Inl error
      | Inr x \<Rightarrow> Inr x)"

definition faulty_operation :: "('t, 'v) transport \<Rightarrow> fault_operation \<Rightarrow> ('t, 'v runtime_error, 'a) action
    \<Rightarrow> ('t fault_state, 'v runtime_error, 'a) action" where
  \<comment> \<open>the common body of \<open>send\<close> and \<open>receive\<close>\<close>
  "faulty_operation tp operation inner f =
     (case should_inject operation f of
        (True, f1) \<Rightarrow>
          (Inl (injected_error f1 operation (fp_failure (fs_plan f1))),
           f1\<lparr>fs_inner := tp_abort tp (fs_inner f1)\<rparr>)
      | (False, f1) \<Rightarrow>
          (case inner (fs_inner f1) of
             (result, t) \<Rightarrow> (map_peer_error f1 operation result, f1\<lparr>fs_inner := t\<rparr>)))"

definition faulty_transport :: "('t, 'v) transport \<Rightarrow> ('t fault_state, 'v) transport" where
  "faulty_transport tp =
     \<lparr>tp_plan = (\<lambda>f. tp_plan tp (fs_inner f)),
      tp_send = (\<lambda>e. faulty_operation tp FaultSend (tp_send tp e)),
      tp_receive = faulty_operation tp FaultReceive (tp_receive tp),
      tp_finish = (\<lambda>role f. case tp_finish tp role (fs_inner f) of (r, t) \<Rightarrow> (r, f\<lparr>fs_inner := t\<rparr>)),
      tp_abort = (\<lambda>f. f\<lparr>fs_inner := tp_abort tp (fs_inner f)\<rparr>)\<rparr>"

section \<open>Lemmas\<close>

text \<open>A channel is a queue: what is sent is received, once, in order.\<close>

definition channel_open :: "channel \<Rightarrow> bool" where
  "channel_open ch \<longleftrightarrow> ch_sender ch \<and> ch_receiver ch"

fun send_chunks :: "byte list list \<Rightarrow> channel \<Rightarrow> 'v runtime_error + channel" where
  "send_chunks [] ch = Inr ch"
| "send_chunks (c # cs) ch = and_then (channel_send c ch) (send_chunks cs)"

lemma send_chunks_open:
  "channel_open ch \<Longrightarrow> send_chunks cs ch = Inr (ch\<lparr>ch_queue := ch_queue ch @ cs\<rparr>)"
  by (induction cs arbitrary: ch) (auto simp: channel_send_def channel_open_def)

locale fifo =
  fixes enq :: "'x \<Rightarrow> 'q \<Rightarrow> 'q" and deq :: "'q \<Rightarrow> ('x \<times> 'q) option"
    and contents :: "'q \<Rightarrow> 'x list" and usable :: "'q \<Rightarrow> bool"
  assumes enq_contents: "usable q \<Longrightarrow> contents (enq x q) = contents q @ [x]"
    and enq_usable: "usable q \<Longrightarrow> usable (enq x q)"
    and deq_contents: "usable q \<Longrightarrow> deq q = (case contents q of [] \<Rightarrow> None | x # xs \<Rightarrow> Some (x, snd (the (deq q))))"
    and deq_rest: "usable q \<Longrightarrow> deq q = Some (x, q') \<Longrightarrow> contents q' = tl (contents q) \<and> usable q'"
begin

lemma deq_first: "usable q \<Longrightarrow> contents q = x # xs \<Longrightarrow> \<exists>q'. deq q = Some (x, q') \<and> contents q' = xs \<and> usable q'"
  using deq_contents [of q] deq_rest [of q x] by auto

text \<open>Everything that is put in comes out in order.\<close>

fun drain :: "nat \<Rightarrow> 'q \<Rightarrow> 'x list" where
  "drain 0 q = []"
| "drain (Suc n) q = (case deq q of None \<Rightarrow> [] | Some (x, q') \<Rightarrow> x # drain n q')"

lemma drain_contents: "usable q \<Longrightarrow> length (contents q) \<le> n \<Longrightarrow> drain n q = contents q"
proof (induction n arbitrary: q)
  case (Suc n)
  show ?case
  proof (cases "contents q")
    case Nil
    then show ?thesis using deq_contents [OF Suc.prems(1)] by simp
  next
    case (Cons x xs)
    from deq_first [OF Suc.prems(1) Cons] Suc Cons show ?thesis by auto
  qed
qed simp

lemma drain_enq_all:
  "usable q \<Longrightarrow> contents q = [] \<Longrightarrow> drain (length xs) (fold enq xs q) = xs"
proof -
  assume q: "usable q" "contents q = []"
  have "usable (fold enq xs q) \<and> contents (fold enq xs q) = contents q @ xs" for xs
    using q(1) by (induction xs arbitrary: q) (auto simp: enq_contents enq_usable)
  with q show ?thesis by (simp add: drain_contents)
qed

end

definition channel_put :: "byte list \<Rightarrow> channel \<Rightarrow> channel" where
  "channel_put c ch = (case channel_send c ch of Inr ch' \<Rightarrow> ch' | Inl (_ :: unit runtime_error) \<Rightarrow> ch)"

definition channel_take :: "channel \<Rightarrow> (byte list \<times> channel) option" where
  "channel_take ch = (case channel_receive ch of Some (Inr x) \<Rightarrow> Some x
     | Some (Inl (_ :: unit runtime_error)) \<Rightarrow> None | None \<Rightarrow> None)"

interpretation chan: fifo channel_put channel_take ch_queue channel_open
  by unfold_locales
     (auto simp: channel_put_def channel_take_def channel_send_def channel_receive_def channel_open_def
        split: list.splits)

end
