(* ===== verification/Workload.thy ===== *)
theory Workload
  imports Transport
begin

text \<open>
  The reference workload of \<open>src/src/runtime.rs\<close>: the client and the server of the token
  generation example over any transport, and their reports.  The state of a workload is its
  machine, its trace and its transport; the loops run under \<open>iterate\<close>, whose result is
  \<open>None\<close> when they do not end.
\<close>

section \<open>Loops\<close>

partial_function (option) iterate :: "('s \<Rightarrow> 'r + 's) \<Rightarrow> 's \<Rightarrow> 'r option" where
  "iterate f s = (case f s of Inl r \<Rightarrow> Some r | Inr s' \<Rightarrow> iterate f s')"

declare iterate.simps [code]

lemma iterate_invariant:
  assumes "iterate f s = Some r" and "P s"
    and "\<And>s s'. P s \<Longrightarrow> f s = Inr s' \<Longrightarrow> P s'" and "\<And>s r. P s \<Longrightarrow> f s = Inl r \<Longrightarrow> Q r"
  shows "Q r"
proof -
  have "f = f \<longrightarrow> P s \<longrightarrow> Q r"
  proof (rule iterate.raw_induct [where P = "\<lambda>g s r. g = f \<longrightarrow> P s \<longrightarrow> Q r", OF _ assms(1)],
      intro impI)
    fix loop g s r
    assume "\<And>g s r. loop g s = Some r \<Longrightarrow> g = f \<longrightarrow> P s \<longrightarrow> Q r" and "P s" and "g = f"
      and "(case g s of Inl r \<Rightarrow> Some r | Inr s' \<Rightarrow> loop g s') = Some r"
    then show "Q r" using assms(3,4) by (auto split: sum.splits)
  qed
  with assms(2) show ?thesis by simp
qed

section \<open>Payloads and reports\<close>

text \<open>The JSON values the workload builds and opens, and the encoder of its trace.\<close>

record 'v json_ops =
  js_text :: "string \<Rightarrow> 'v"
  js_id :: "u64 \<Rightarrow> 'v"
  js_get_text :: "'v \<Rightarrow> string option"
  js_get_id :: "'v \<Rightarrow> u64 option"
  js_trace :: "'v frame list \<Rightarrow> byte list"
  js_sha256 :: "byte list \<Rightarrow> byte list"

fun token_payload :: "'v json_ops \<Rightarrow> 'v frame \<Rightarrow> 'v runtime_error + u64" where
  "token_payload js (FData a b message (Some payload)) =
     (if message = ''token''
      then ok_or (RtApplication (AppText ''token payload is missing u64 id'')) (js_get_id js payload)
      else Inl (RtApplication (AppFrame ''expected token data'' (FData a b message (Some payload)))))"
| "token_payload js f = Inl (RtApplication (AppFrame ''expected token data'' f))"

fun prompt_payload :: "'v json_ops \<Rightarrow> 'v frame \<Rightarrow> 'v runtime_error + string" where
  "prompt_payload js (FData a b message (Some payload)) =
     (if message = ''prompt''
      then ok_or (RtApplication (AppText ''prompt payload is missing text'')) (js_get_text js payload)
      else Inl (RtApplication (AppFrame ''expected prompt data'' (FData a b message (Some payload)))))"
| "prompt_payload js f = Inl (RtApplication (AppFrame ''expected prompt data'' f))"

record 'v execution_report =
  er_role :: string
  er_transport :: string
  er_conversation :: string
  er_identity :: string
  er_plan_identity :: string
  er_trace_identity :: string
  er_frames :: u64
  er_tokens :: "u64 list"
  er_completed :: bool
  er_successful :: bool
  er_failure :: "string option"
  er_final_state :: string
  er_trace :: "'v frame list"

definition trace_identity :: "'v json_ops \<Rightarrow> 'v frame list \<Rightarrow> string" where
  "trace_identity js trace = sha256_identity (js_sha256 js) (js_trace js trace)"

definition report :: "'v json_ops \<Rightarrow> machine \<Rightarrow> string \<Rightarrow> u64 list \<Rightarrow> 'v frame list
    \<Rightarrow> 'v runtime_error + 'v execution_report" where
  \<comment> \<open>the three questions to the machine are the only steps that may panic\<close>
  "report js m transport tokens trace =
     and_then (is_complete m) (\<lambda>completed.
     and_then (is_successful m) (\<lambda>successful.
     and_then (machine_failure m) (\<lambda>failure.
     Inr \<lparr>er_role = m_role m, er_transport = transport, er_conversation = m_conversation m,
          er_identity = m_identity m, er_plan_identity = m_plan_identity m,
          er_trace_identity = trace_identity js trace, er_frames = m_sequence m,
          er_tokens = tokens, er_completed = completed, er_successful = successful,
          er_failure = failure, er_final_state = m_current m, er_trace = trace\<rparr>)))"

record 'v demo_summary =
  dr_transport_plan :: string
  dr_identity :: string
  dr_plan_identity :: string
  dr_trace_equivalent :: bool
  dr_outcome_equivalent :: bool
  dr_fault_plan :: "fault_plan option"
  dr_client :: "'v execution_report"
  dr_server :: "'v execution_report"

definition demo_report :: "string \<Rightarrow> 'v execution_report \<Rightarrow> 'v execution_report \<Rightarrow> 'v demo_summary" where
  "demo_report transport_plan client server =
     \<lparr>dr_transport_plan = transport_plan,
      dr_identity = er_identity client,
      dr_plan_identity = er_plan_identity client,
      dr_trace_equivalent = (er_trace client = er_trace server),
      dr_outcome_equivalent = (er_completed client \<and> er_completed server \<and>
        er_successful client = er_successful server \<and> er_failure client = er_failure server \<and>
        er_final_state client = er_final_state server),
      dr_fault_plan = None, dr_client = client, dr_server = server\<rparr>"

section \<open>Steps of a workload\<close>

record ('t, 'v) run =
  rn_machine :: machine
  rn_trace :: "'v frame list"
  rn_transport :: 't

definition settle :: "('t, 'v) transport \<Rightarrow> 'v runtime_error + 'a \<Rightarrow> 't \<Rightarrow> 't" where
  \<comment> \<open>\<open>transport.abort()\<close> on a transport failure\<close>
  "settle tp answer t =
     (case answer of
        Inl error \<Rightarrow> if transport_failure error = None then t else tp_abort tp t
      | Inr _ \<Rightarrow> t)"

definition run_send :: "('t, 'v) transport \<Rightarrow> 'v envelope \<Rightarrow> (('t, 'v) run, 'v runtime_error, bool) action" where
  "run_send tp e r =
     (case tp_send tp e (rn_transport r) of
        (answer, t) \<Rightarrow>
          (case send_and_record (rn_machine r) answer e (rn_trace r) of
             Inl error \<Rightarrow> (Inl error, r\<lparr>rn_transport := settle tp answer t\<rparr>)
           | Inr (ok, m, trace) \<Rightarrow>
               (Inr ok, \<lparr>rn_machine = m, rn_trace = trace, rn_transport = settle tp answer t\<rparr>)))"

definition run_receive :: "('t, 'v) transport \<Rightarrow> (('t, 'v) run, 'v runtime_error, 'v frame option) action" where
  "run_receive tp r =
     (case tp_receive tp (rn_transport r) of
        (answer, t) \<Rightarrow>
          (case receive_and_record (rn_machine r) answer (rn_trace r) of
             Inl error \<Rightarrow> (Inl error, r\<lparr>rn_transport := settle tp answer t\<rparr>)
           | Inr (got, m, trace) \<Rightarrow>
               (Inr got, \<lparr>rn_machine = m, rn_trace = trace, rn_transport = settle tp answer t\<rparr>)))"

definition emit_and_send :: "('t, 'v) transport \<Rightarrow> (machine \<Rightarrow> 'v runtime_error + ('v envelope \<times> machine))
    \<Rightarrow> (('t, 'v) run, 'v runtime_error, bool) action" where
  \<comment> \<open>\<open>let e = machine.emit_..()?; send_and_record(.., &e, ..)?\<close>\<close>
  "emit_and_send tp emit_op r =
     (case emit_op (rn_machine r) of
        Inl error \<Rightarrow> (Inl error, r)
      | Inr (e, m) \<Rightarrow> run_send tp e (r\<lparr>rn_machine := m\<rparr>))"

section \<open>The client\<close>

text \<open>One round of the loop: whether to leave it, and the tokens so far.\<close>

definition client_round :: "('t, 'v) transport \<Rightarrow> 'v json_ops \<Rightarrow> nat option \<Rightarrow> u64 list
    \<Rightarrow> (('t, 'v) run, 'v runtime_error, bool \<times> u64 list) action" where
  "client_round tp js cancel_after tokens =
     act_then (run_receive tp) (\<lambda>got.
     case got of
       None \<Rightarrow> done_with (True, tokens)
     | Some frame \<Rightarrow>
         (case frame of
            FSelect by label \<Rightarrow>
              if label = ''done'' then done_with (False, tokens)
              else if label = ''token'' then
                act_then (run_receive tp) (\<lambda>got.
                case got of
                  None \<Rightarrow> done_with (True, tokens)
                | Some token \<Rightarrow>
                    act_then (from_result (token_payload js token)) (\<lambda>token_id.
                    let tokens = tokens @ [token_id] in
                    if (case cancel_after of None \<Rightarrow> False | Some limit \<Rightarrow> limit \<le> length tokens) then
                      act_then (emit_and_send tp (\<lambda>m. emit_select m ''cancel'')) (\<lambda>ok.
                      if \<not> ok then done_with (True, tokens)
                      else act_then (emit_and_send tp emit_cancel) (\<lambda>ok. done_with (\<not> ok, tokens)))
                    else
                      act_then (emit_and_send tp (\<lambda>m. emit_select m ''continue'')) (\<lambda>ok.
                      done_with (\<not> ok, tokens))))
              else fails_with (RtApplication (AppFrame ''client received unexpected frame'' frame))
          | _ \<Rightarrow> fails_with (RtApplication (AppFrame ''client received unexpected frame'' frame))))"

definition loop_step :: "(u64 list \<Rightarrow> (('t, 'v) run, 'v runtime_error, bool \<times> u64 list) action)
    \<Rightarrow> u64 list \<times> ('t, 'v) run
    \<Rightarrow> (('v runtime_error + u64 list) \<times> ('t, 'v) run) + (u64 list \<times> ('t, 'v) run)" where
  \<comment> \<open>\<open>while !machine.is_complete() { .. }\<close> with its breaks and early returns\<close>
  "loop_step body s =
     (case s of (tokens, r) \<Rightarrow>
       case is_complete (rn_machine r) of
         Inl error \<Rightarrow> Inl (Inl error, r)
       | Inr complete \<Rightarrow>
           if complete then Inl (Inr tokens, r)
           else (case body tokens r of
                   (Inl error, r') \<Rightarrow> Inl (Inl error, r')
                 | (Inr (leave, tokens'), r') \<Rightarrow>
                     if leave then Inl (Inr tokens', r') else Inr (tokens', r')))"

definition conclude :: "('t, 'v) transport \<Rightarrow> 'v json_ops \<Rightarrow> string
    \<Rightarrow> ('v runtime_error + u64 list) \<times> ('t, 'v) run \<Rightarrow> ('v runtime_error + 'v execution_report) \<times> 't" where
  \<comment> \<open>after the loop: \<open>finish\<close> on success, then the report\<close>
  "conclude tp js name result =
     (case result of
        (Inl error, r) \<Rightarrow> (Inl error, rn_transport r)
      | (Inr tokens, r) \<Rightarrow>
          (case is_successful (rn_machine r) of
             Inl error \<Rightarrow> (Inl error, rn_transport r)
           | Inr successful \<Rightarrow>
               (case (if successful then tp_finish tp (m_role (rn_machine r)) (rn_transport r)
                      else (Inr (), rn_transport r)) of
                  (Inl error, t) \<Rightarrow> (Inl error, t)
                | (Inr _, t) \<Rightarrow> (report js (rn_machine r) name tokens (rn_trace r), t))))"

definition run_generate_client_plan :: "('t, 'v) transport \<Rightarrow> 'v json_ops \<Rightarrow> prepared_plan \<Rightarrow> string
    \<Rightarrow> nat option \<Rightarrow> 't \<Rightarrow> (('v runtime_error + 'v execution_report) \<times> 't) option" where
  "run_generate_client_plan tp js plan prompt cancel_after t =
     (if cancel_after = Some 0
      then Some (Inl (RtApplication (AppText ''cancel_after must be at least one token'')), t)
      else case from_plan plan ''client'' of
          Inl error \<Rightarrow> Some (Inl error, t)
        | Inr m \<Rightarrow>
            (case emit_and_send tp (\<lambda>m. emit_data m (js_text js prompt))
                \<lparr>rn_machine = m, rn_trace = [], rn_transport = t\<rparr> of
               (Inl error, r) \<Rightarrow> Some (Inl error, rn_transport r)
             | (Inr ok, r) \<Rightarrow>
                 if \<not> ok then Some (report js (rn_machine r) (tp_plan tp t) [] (rn_trace r), rn_transport r)
                 else map_option (conclude tp js (tp_plan tp t))
                   (iterate (loop_step (client_round tp js cancel_after)) ([], r))))"

section \<open>The server\<close>

definition server_round :: "('t, 'v) transport \<Rightarrow> 'v json_ops \<Rightarrow> nat \<Rightarrow> u64 list
    \<Rightarrow> (('t, 'v) run, 'v runtime_error, bool \<times> u64 list) action" where
  "server_round tp js token_limit tokens =
     (if token_limit \<le> length tokens then
        act_then (emit_and_send tp (\<lambda>m. emit_select m ''done'')) (\<lambda>ok. done_with (\<not> ok, tokens))
      else
        act_then (emit_and_send tp (\<lambda>m. emit_select m ''token'')) (\<lambda>ok.
        if \<not> ok then done_with (True, tokens)
        else
          let token_id = word_of_nat (length tokens) + 1 in
          act_then (emit_and_send tp (\<lambda>m. emit_data m (js_id js token_id))) (\<lambda>ok.
          if \<not> ok then done_with (True, tokens)
          else
            let tokens = tokens @ [token_id] in
            act_then (run_receive tp) (\<lambda>got.
            case got of
              None \<Rightarrow> done_with (True, tokens)
            | Some frame \<Rightarrow>
                (case frame of
                   FSelect by label \<Rightarrow>
                     if label = ''continue'' then done_with (False, tokens)
                     else if label = ''cancel'' then
                       act_then (run_receive tp) (\<lambda>got.
                       case got of
                         None \<Rightarrow> done_with (True, tokens)
                       | Some frame \<Rightarrow>
                           (case frame of
                              FCancel _ _ _ \<Rightarrow> done_with (False, tokens)
                            | _ \<Rightarrow> fails_with (RtApplication
                                (AppFrame ''server expected cancellation'' frame))))
                     else fails_with (RtApplication (AppFrame ''server received unexpected frame'' frame))
                 | _ \<Rightarrow> fails_with (RtApplication (AppFrame ''server received unexpected frame'' frame)))))))"

definition run_generate_server_plan :: "('t, 'v) transport \<Rightarrow> 'v json_ops \<Rightarrow> prepared_plan \<Rightarrow> nat
    \<Rightarrow> 't \<Rightarrow> (('v runtime_error + 'v execution_report) \<times> 't) option" where
  "run_generate_server_plan tp js plan token_limit t =
     (case from_plan plan ''server'' of
        Inl error \<Rightarrow> Some (Inl error, t)
      | Inr m \<Rightarrow>
          (case run_receive tp \<lparr>rn_machine = m, rn_trace = [], rn_transport = t\<rparr> of
             (Inl error, r) \<Rightarrow> Some (Inl error, rn_transport r)
           | (Inr None, r) \<Rightarrow> Some (report js (rn_machine r) (tp_plan tp t) [] (rn_trace r), rn_transport r)
           | (Inr (Some prompt), r) \<Rightarrow>
               (case prompt_payload js prompt of
                  Inl error \<Rightarrow> Some (Inl error, rn_transport r)
                | Inr _ \<Rightarrow>
                    map_option (conclude tp js (tp_plan tp t))
                      (iterate (loop_step (server_round tp js token_limit)) ([], r)))))"

definition run_generate_client :: "'v externals \<Rightarrow> ('t, 'v) transport \<Rightarrow> 'v json_ops \<Rightarrow> 'v conversation
    \<Rightarrow> string \<Rightarrow> nat option \<Rightarrow> 't \<Rightarrow> (('v runtime_error + 'v execution_report) \<times> 't) option" where
  "run_generate_client ext tp js c prompt cancel_after t =
     (case compile_prepared ext c of
        Inl error \<Rightarrow> Some (Inl (RtPlan error), t)
      | Inr plan \<Rightarrow> run_generate_client_plan tp js plan prompt cancel_after t)"

definition run_generate_server :: "'v externals \<Rightarrow> ('t, 'v) transport \<Rightarrow> 'v json_ops \<Rightarrow> 'v conversation
    \<Rightarrow> nat \<Rightarrow> 't \<Rightarrow> (('v runtime_error + 'v execution_report) \<times> 't) option" where
  "run_generate_server ext tp js c token_limit t =
     (case compile_prepared ext c of
        Inl error \<Rightarrow> Some (Inl (RtPlan error), t)
      | Inr plan \<Rightarrow> run_generate_server_plan tp js plan token_limit t)"

end
