(* ===== verification/Workload_Correct.thy ===== *)
theory Workload_Correct
  imports Workload Conformance
begin

text \<open>
  What a workload keeps whatever its transport does: its machine belongs to its conversation,
  and its trace is a run of the global graph that ends in the state of the machine.  The
  invariant is proved for the two recorded operations and carried through the rounds by the
  rules for \<open>keeps\<close>.
\<close>

section \<open>Actions that keep an invariant\<close>

definition keeps :: "('s \<Rightarrow> bool) \<Rightarrow> ('s, 'e, 'a) action \<Rightarrow> bool" where
  "keeps P f \<longleftrightarrow> (\<forall>s x s'. P s \<longrightarrow> f s = (Inr x, s') \<longrightarrow> P s')"

lemma keepsD: "keeps P f \<Longrightarrow> P s \<Longrightarrow> f s = (Inr x, s') \<Longrightarrow> P s'"
  by (auto simp: keeps_def)

named_theorems keeps_rules "how the ways to combine actions keep an invariant"

lemma keeps_done [keeps_rules]: "keeps P (done_with x)"
  by (simp add: keeps_def done_with_def)

lemma keeps_fails [keeps_rules]: "keeps P (fails_with e)"
  by (simp add: keeps_def fails_with_def)

lemma keeps_from [keeps_rules]: "keeps P (from_result r)"
  by (simp add: keeps_def from_result_def)

lemma keeps_then [keeps_rules]:
  assumes "keeps P f" and "\<And>x. keeps P (g x)"
  shows "keeps P (act_then f g)"
  unfolding keeps_def
proof (intro allI impI)
  fix s y s'
  assume "P s" "act_then f g s = (Inr y, s')"
  then obtain x t where "f s = (Inr x, t)" "g x t = (Inr y, s')"
    by (auto simp: act_then_Inr)
  with assms \<open>P s\<close> show "P s'" by (metis keepsD)
qed

lemma keeps_if [keeps_rules]: "keeps P f \<Longrightarrow> keeps P g \<Longrightarrow> keeps P (if b then f else g)"
  by simp

lemma keeps_let [keeps_rules]: "keeps P (f x) \<Longrightarrow> keeps P (let y = x in f y)"
  by simp

lemma keeps_option [keeps_rules]:
  "keeps P f \<Longrightarrow> (\<And>x. keeps P (g x)) \<Longrightarrow> keeps P (case got of None \<Rightarrow> f | Some x \<Rightarrow> g x)"
  by (cases got) simp_all

lemma keeps_frame [keeps_rules]:
  assumes "\<And>a b m p. keeps P (f a b m p)" and "\<And>a l. keeps P (g a l)"
    and "\<And>a b sc. keeps P (h a b sc)" and "\<And>a x. keeps P (k a x)"
  shows "keeps P (case frame of FData a b m p \<Rightarrow> f a b m p | FSelect a l \<Rightarrow> g a l
    | FCancel a b sc \<Rightarrow> h a b sc | FFault a x \<Rightarrow> k a x)"
  using assms by (cases frame) simp_all

section \<open>The recorded operations\<close>

definition faithful_run :: "'v conversation \<Rightarrow> string \<Rightarrow> string \<Rightarrow> string \<Rightarrow> ('t, 'v) run \<Rightarrow> bool" where
  "faithful_run c identity plan_identity p r \<longleftrightarrow>
     well_formed c \<and> belongs c identity plan_identity p (rn_machine r) \<and>
     conv_run c (conv_initial c) (rn_trace r) = Some (m_current (rn_machine r))"

lemma faithful_machine_step:
  assumes "well_formed c" and bel: "belongs c ident pid p m"
    and "conv_run c (conv_initial c) trace = Some (m_current m)"
    and "belongs c ident pid p m'" and "conv_next c (m_current m) f = Some (m_current m')"
  shows "faithful_run c ident pid p \<lparr>rn_machine = m', rn_trace = trace @ [f], rn_transport = t\<rparr>"
  using assms by (simp add: faithful_run_def conv.run_snoc)

lemma accept_next:
  assumes "well_formed c" and "belongs c ident pid p m" and "accept m e = Inr (f, m')"
  shows "conv_next c (m_current m) f = Some (m_current m')"
proof -
  obtain r where "r \<in> set (conv_roles c)" "m_endpoint m = project_role c r"
    using assms(2) by (auto simp: belongs_def)
  with endpoint_next_global [OF assms(1)] machine_step_endpoint(1) [OF ms_accept [OF assms(3)]]
  show ?thesis by metis
qed

lemma run_receive_keeps [keeps_rules]:
  fixes c :: "'v conversation" and tp :: "('t, 'v) transport"
  shows "keeps (faithful_run c ident pid p) (run_receive tp)"
  unfolding keeps_def
proof (intro allI impI)
  fix r :: "('t, 'v) run" and got r'
  assume ok: "faithful_run c ident pid p r" and "run_receive tp r = (Inr got, r')"
  then obtain answer t m trace where
      step: "receive_and_record (rn_machine r) answer (rn_trace r) = Inr (got, m, trace)"
    and r': "r' = \<lparr>rn_machine = m, rn_trace = trace, rn_transport = settle tp answer t\<rparr>"
    by (auto simp: run_receive_def split: prod.splits sum.splits)
  have wf: "well_formed c" and bel: "belongs c ident pid p (rn_machine r)"
    and run: "conv_run c (conv_initial c) (rn_trace r) = Some (m_current (rn_machine r))"
    using ok by (simp_all add: faithful_run_def)
  show "faithful_run c ident pid p r'"
  proof (cases answer)
    case (Inr e)
    with step obtain f where acc: "accept (rn_machine r) e = Inr (f, m)" and "trace = rn_trace r @ [f]"
      by (auto simp: receive_and_record_ok)
    with faithful_machine_step [OF wf bel run belongs_advances [OF bel accept_advances [OF acc]]
        accept_next [OF wf bel acc]] r' show ?thesis by simp
  next
    case (Inl error)
    with step obtain x f where obs: "observe_failure_at (rn_machine r) (m_current (rn_machine r)) x = Inr (f, m)"
        and "trace = rn_trace r @ [f]"
      by (auto simp: receive_and_record_err observe_failure_def)
    with faithful_machine_step [OF wf bel run belongs_advances [OF bel observe_advances [OF obs]]
        observe_global(1) [OF bel obs]] r' show ?thesis by simp
  qed
qed

definition emitting :: "(machine \<Rightarrow> 'v runtime_error + ('v envelope \<times> machine)) \<Rightarrow> bool" where
  "emitting op \<longleftrightarrow> (\<forall>m e m'. op m = Inr (e, m') \<longrightarrow> emits m e m')"

lemma emitting_ops [simp, intro]:
  "emitting (\<lambda>m. emit_data m v)" "emitting (\<lambda>m. emit_select m l)" "emitting emit_cancel"
  by (auto simp: emitting_def intro: emits.intros)

lemma emit_and_send_keeps:
  fixes c :: "'v conversation" and tp :: "('t, 'v) transport"
  assumes "emitting op"
  shows "keeps (faithful_run c ident pid p) (emit_and_send tp op)"
  unfolding keeps_def
proof (intro allI impI)
  fix r :: "('t, 'v) run" and ok r'
  assume inv: "faithful_run c ident pid p r" and "emit_and_send tp op r = (Inr ok, r')"
  then obtain e m answer t m' trace where op: "op (rn_machine r) = Inr (e, m)"
    and step: "send_and_record m answer e (rn_trace r) = Inr (ok, m', trace)"
    and r': "r' = \<lparr>rn_machine = m', rn_trace = trace, rn_transport = settle tp answer t\<rparr>"
    by (auto simp: emit_and_send_def run_send_def split: prod.splits sum.splits)
  have wf: "well_formed c" and bel: "belongs c ident pid p (rn_machine r)"
    and run: "conv_run c (conv_initial c) (rn_trace r) = Some (m_current (rn_machine r))"
    using inv by (simp_all add: faithful_run_def)
  have em: "emits (rn_machine r) e m" using assms op by (simp add: emitting_def)
  have bel': "belongs c ident pid p m" using belongs_advances [OF bel emits_advances [OF em]] .
  show "faithful_run c ident pid p r'"
  proof (cases answer)
    case (Inr u)
    with step have "m' = m" "trace = rn_trace r @ [env_frame e]" by (auto simp: send_and_record_ok)
    with faithful_machine_step [OF wf bel run bel' emits_global(1) [OF bel em]] r' show ?thesis by simp
  next
    case (Inl error)
    with step obtain x f where obs: "observe_failure_at m (env_state e) x = Inr (f, m')"
        and tr: "trace = rn_trace r @ [f]"
      by (auto simp: send_and_record_err)
    from observe_global(1) [OF bel' obs] emits_fields(1) [OF em]
    have "conv_next c (m_current (rn_machine r)) f = Some (m_current m')" by simp
    with faithful_machine_step [OF wf bel run belongs_advances [OF bel' observe_advances [OF obs]]] tr r'
    show ?thesis by simp
  qed
qed

lemmas emit_keeps [keeps_rules] = emit_and_send_keeps [OF emitting_ops(1)]
  emit_and_send_keeps [OF emitting_ops(2)] emit_and_send_keeps [OF emitting_ops(3)]

section \<open>Rounds and loops\<close>

lemma client_round_keeps: "keeps (faithful_run c ident pid p) (client_round tp js cancel_after tokens)"
  unfolding client_round_def by (intro keeps_rules)

lemma server_round_keeps: "keeps (faithful_run c ident pid p) (server_round tp js token_limit tokens)"
  unfolding server_round_def by (intro keeps_rules)

section \<open>What an action achieves\<close>

text \<open>A triple: from a state with \<open>P\<close>, an action that succeeds ends with \<open>Q\<close>.\<close>

definition triple :: "('s \<Rightarrow> bool) \<Rightarrow> ('s, 'e, 'a) action \<Rightarrow> ('a \<Rightarrow> 's \<Rightarrow> bool) \<Rightarrow> bool" where
  "triple P f Q \<longleftrightarrow> (\<forall>s x s'. P s \<longrightarrow> f s = (Inr x, s') \<longrightarrow> Q x s')"

lemma tripleD: "triple P f Q \<Longrightarrow> P s \<Longrightarrow> f s = (Inr x, s') \<Longrightarrow> Q x s'"
  by (auto simp: triple_def)

lemma keeps_triple: "keeps P f \<longleftrightarrow> triple P f (\<lambda>_. P)"
  by (simp add: keeps_def triple_def)

lemma triple_done: "(\<And>s. P s \<Longrightarrow> Q x s) \<Longrightarrow> triple P (done_with x) Q"
  by (simp add: triple_def done_with_def)

lemma triple_fails: "triple P (fails_with e) Q"
  by (simp add: triple_def fails_with_def)

lemma triple_then:
  assumes "triple P f R" and "\<And>x. triple (R x) (g x) Q"
  shows "triple P (act_then f g) Q"
  unfolding triple_def
proof (intro allI impI)
  fix s y s'
  assume "P s" "act_then f g s = (Inr y, s')"
  then obtain x t where "f s = (Inr x, t)" "g x t = (Inr y, s')"
    by (auto simp: act_then_Inr)
  with assms \<open>P s\<close> show "Q y s'" by (metis tripleD)
qed

lemma triple_from: "triple P (from_result r) (\<lambda>_. P)"
  by (simp add: triple_def from_result_def)

lemma triple_weaken:
  assumes "triple P f Q" and "\<And>s. P' s \<Longrightarrow> P s" and "\<And>x s. Q x s \<Longrightarrow> Q' x s"
  shows "triple P' f Q'"
  unfolding triple_def
proof (intro allI impI)
  fix s x s'
  assume "P' s" "f s = (Inr x, s')"
  from tripleD [OF assms(1) assms(2) [OF this(1)] this(2)] show "Q' x s'" by (rule assms(3))
qed

text \<open>An action whose results have a property and that keeps an invariant.\<close>

definition yields :: "('s \<Rightarrow> bool) \<Rightarrow> ('a \<Rightarrow> bool) \<Rightarrow> ('s, 'e, 'a) action \<Rightarrow> bool" where
  "yields P R f \<longleftrightarrow> triple P f (\<lambda>x s. P s \<and> R x)"

named_theorems yields_rules "how the ways to combine actions keep an invariant and a result"

lemma yields_done [yields_rules]: "R x \<Longrightarrow> yields P R (done_with x)"
  by (simp add: yields_def triple_done)

lemma yields_fails [yields_rules]: "yields P R (fails_with e)"
  by (simp add: yields_def triple_fails)

lemma yields_then [yields_rules]:
  assumes "keeps P f" and "\<And>x. yields P R (g x)"
  shows "yields P R (act_then f g)"
  unfolding yields_def
proof (rule triple_then)
  show "triple P f (\<lambda>_. P)" using assms(1) by (simp only: keeps_triple)
  show "triple P (g x) (\<lambda>x s. P s \<and> R x)" for x using assms(2) by (simp add: yields_def)
qed

lemma yields_if [yields_rules]: "(b \<Longrightarrow> yields P R f) \<Longrightarrow> (\<not> b \<Longrightarrow> yields P R g) \<Longrightarrow> yields P R (if b then f else g)"
  by simp

lemma yields_option [yields_rules]:
  "yields P R f \<Longrightarrow> (\<And>x. yields P R (g x)) \<Longrightarrow> yields P R (case got of None \<Rightarrow> f | Some x \<Rightarrow> g x)"
  by (cases got) simp_all

lemma yields_frame [yields_rules]:
  assumes "\<And>a b m p. yields P R (f a b m p)" and "\<And>a l. yields P R (g a l)"
    and "\<And>a b sc. yields P R (h a b sc)" and "\<And>a x. yields P R (k a x)"
  shows "yields P R (case frame of FData a b m p \<Rightarrow> f a b m p | FSelect a l \<Rightarrow> g a l
    | FCancel a b sc \<Rightarrow> h a b sc | FFault a x \<Rightarrow> k a x)"
  using assms by (cases frame) simp_all

text \<open>What is received or sent is the last frame of the trace.\<close>

definition recorded :: "('v frame \<Rightarrow> bool) \<Rightarrow> ('t, 'v) run \<Rightarrow> bool" where
  "recorded Q r \<longleftrightarrow> (\<exists>fs f. rn_trace r = fs @ [f] \<and> Q f)"

lemma run_receive_recorded:
  assumes "run_receive tp r = (Inr (Some f), r')"
  shows "recorded (\<lambda>g. g = f) r'"
proof -
  from assms obtain answer t m trace where
      step: "receive_and_record (rn_machine r) answer (rn_trace r) = Inr (Some f, m, trace)"
    and r': "r' = \<lparr>rn_machine = m, rn_trace = trace, rn_transport = settle tp answer t\<rparr>"
    by (auto simp: run_receive_def split: prod.splits sum.splits)
  from step have "trace = rn_trace r @ [f]"
    by (cases answer) (auto simp: receive_and_record_ok receive_and_record_err)
  with r' show ?thesis by (simp add: recorded_def)
qed

lemma run_send_recorded:
  assumes "emit_and_send tp op r = (Inr True, r')"
    and "\<And>m e m'. op m = Inr (e, m') \<Longrightarrow> Q (env_frame e)"
  shows "recorded Q r'"
proof -
  from assms(1) obtain e m answer t m' trace where op: "op (rn_machine r) = Inr (e, m)"
    and step: "send_and_record m answer e (rn_trace r) = Inr (True, m', trace)"
    and r': "r' = \<lparr>rn_machine = m', rn_trace = trace, rn_transport = settle tp answer t\<rparr>"
    by (auto simp: emit_and_send_def run_send_def split: prod.splits sum.splits)
  from step have "trace = rn_trace r @ [env_frame e]"
    by (cases answer) (auto simp: send_and_record_err)
  with r' assms(2) [OF op] show ?thesis by (simp add: recorded_def)
qed

lemma receive_triple:
  fixes c :: "'v conversation" and tp :: "('t, 'v) transport"
  shows "triple (faithful_run c ident pid p) (run_receive tp)
    (\<lambda>got r. faithful_run c ident pid p r \<and> (\<forall>f. got = Some f \<longrightarrow> recorded (\<lambda>g. g = f) r))"
  unfolding triple_def using run_receive_recorded keepsD [OF run_receive_keeps] by metis

lemma send_triple:
  fixes c :: "'v conversation" and tp :: "('t, 'v) transport"
  assumes "emitting op" and "\<And>m e m'. op m = Inr (e, m') \<Longrightarrow> Q (env_frame e)"
  shows "triple (faithful_run c ident pid p) (emit_and_send tp op)
    (\<lambda>ok r. faithful_run c ident pid p r \<and> (ok \<longrightarrow> recorded Q r))"
  unfolding triple_def
proof (intro allI impI conjI)
  fix r ok r'
  assume r: "faithful_run c ident pid p r" and step: "emit_and_send tp op r = (Inr ok, r')"
  show "faithful_run c ident pid p r'" by (rule keepsD [OF emit_and_send_keeps [OF assms(1)] r step])
  assume ok
  with step have "emit_and_send tp op r = (Inr True, r')" by simp
  then show "recorded Q r'" using assms(2) by (rule run_send_recorded)
qed

lemma select_triple:
  fixes c :: "'v conversation" and tp :: "('t, 'v) transport"
  shows "triple (faithful_run c ident pid p) (emit_and_send tp (\<lambda>m. emit_select m l))
    (\<lambda>ok r. faithful_run c ident pid p r \<and> (ok \<longrightarrow> recorded (\<lambda>f. \<exists>by. f = FSelect by l) r))"
  by (rule send_triple) (auto simp: emit_select_Inr dest: emit_fields)

lemma cancel_triple:
  fixes c :: "'v conversation" and tp :: "('t, 'v) transport"
  shows "triple (faithful_run c ident pid p) (emit_and_send tp emit_cancel)
    (\<lambda>ok r. faithful_run c ident pid p r \<and> (ok \<longrightarrow> recorded (\<lambda>f. \<exists>a b sc. f = FCancel a b sc) r))"
  by (rule send_triple) (auto simp: emit_cancel_Inr dest: emit_fields)

section \<open>When a conversation ends\<close>

definition terminal_at :: "'v conversation \<Rightarrow> string \<Rightarrow> bool" where
  "terminal_at c i = (case find (\<lambda>s. gid s = i) (conv_states c) of Some s \<Rightarrow> is_terminal s | None \<Rightarrow> False)"

definition closes :: "'v conversation \<Rightarrow> bool" where
  \<comment> \<open>the branch \<open>done\<close> of every choice and every cancellation lead to a terminal state\<close>
  "closes c \<longleftrightarrow> list_all (\<lambda>s. case s of
       GChoice _ _ branches _ \<Rightarrow>
         (case bt_get branches ''done'' of Some t \<Rightarrow> terminal_at c t | None \<Rightarrow> True)
     | GCancel _ _ _ _ next _ \<Rightarrow> terminal_at c next
     | _ \<Rightarrow> True) (conv_states c)"

lemma closes_step:
  assumes "closes c" and "conv_next c i f = Some j"
    and "(\<exists>by. f = FSelect by ''done'') \<or> (\<exists>a b sc. f = FCancel a b sc)"
  shows "terminal_at c j"
proof -
  obtain s where s: "find (\<lambda>s. gid s = i) (conv_states c) = Some s"
    and m: "match_frame (bs_collect (map role_id (conv_roles c))) s f = Some j"
    using assms(2) by (auto simp: conv_next_def split: option.splits)
  from s assms(1) have "case s of
       GChoice _ _ branches _ \<Rightarrow>
         (case bt_get branches ''done'' of Some t \<Rightarrow> terminal_at c t | None \<Rightarrow> True)
     | GCancel _ _ _ _ next _ \<Rightarrow> terminal_at c next
     | _ \<Rightarrow> True" by (auto simp: closes_def list_all_iff dest: find_key_SomeD)
  with m assms(3) show ?thesis
    by (cases s) (auto split: if_splits option.splits)
qed

lemma is_complete_terminal:
  fixes r :: "('t, 'v) run"
  assumes "faithful_run c ident pid p r"
  shows "is_complete (rn_machine r) = (Inr (terminal_at c (m_current (rn_machine r))) :: 'w runtime_error + bool)"
proof -
  have wf: "well_formed c" and bel: "belongs c ident pid p (rn_machine r)"
    and run: "conv_run c (conv_initial c) (rn_trace r) = Some (m_current (rn_machine r))"
    using assms by (simp_all add: faithful_run_def)
  obtain s where s: "find (\<lambda>s. gid s = m_current (rn_machine r)) (conv_states c) = Some s"
    using conv_run_ids [OF wf wf_initial [OF wf] run] by (rule state_ids_find)
  then show ?thesis
    by (cases s) (simp_all add: terminal_at_def is_complete_def state_of_def belongs_state [OF bel])
qed

lemma recorded_closes:
  assumes "faithful_run c ident pid p r" and "closes c"
    and "recorded (\<lambda>f. (\<exists>by. f = FSelect by ''done'') \<or> (\<exists>a b sc. f = FCancel a b sc)) r"
  shows "terminal_at c (m_current (rn_machine r))"
proof -
  obtain fs f where tr: "rn_trace r = fs @ [f]"
    and f: "(\<exists>by. f = FSelect by ''done'') \<or> (\<exists>a b sc. f = FCancel a b sc)"
    using assms(3) unfolding recorded_def by blast
  from tr assms(1) obtain i where "conv_next c i f = Some (m_current (rn_machine r))"
    by (auto simp: faithful_run_def conv.run_snoc split: option.splits)
  from closes_step [OF assms(2) this f] show ?thesis .
qed

section \<open>What a round achieves\<close>

definition server_progress :: "'v conversation \<Rightarrow> (('t, 'v) run \<Rightarrow> bool) \<Rightarrow> nat \<Rightarrow> u64 list
    \<Rightarrow> bool \<times> u64 list \<Rightarrow> ('t, 'v) run \<Rightarrow> bool" where
  \<comment> \<open>a token more, or none and the conversation over, unless the loop is left\<close>
  "server_progress c P token_limit tokens result r \<longleftrightarrow>
     P r \<and>
     (snd result = tokens \<and> (fst result \<or> (closes c \<longrightarrow> terminal_at c (m_current (rn_machine r)))) \<or>
      length tokens < token_limit \<and> snd result = tokens @ [word_of_nat (length tokens) + 1])"

lemma server_round_triple:
  fixes c :: "'v conversation" and tp :: "('t, 'v) transport"
  assumes P_def: "P = faithful_run c ident pid p"
  shows "triple P (server_round tp js token_limit tokens) (server_progress c P token_limit tokens)"
proof (cases "token_limit \<le> length tokens")
  case True
  have "triple P (act_then (emit_and_send tp (\<lambda>m. emit_select m ''done'')) (\<lambda>ok. done_with (\<not> ok, tokens)))
      (server_progress c P token_limit tokens)"
  proof (rule triple_then [OF select_triple [of c ident pid p tp "''done''", folded P_def]], rule triple_done)
    fix ok r
    assume r: "P r \<and> (ok \<longrightarrow> recorded (\<lambda>f. \<exists>by. f = FSelect by ''done'') r)"
    have "terminal_at c (m_current (rn_machine r))" if "ok" "closes c"
      by (rule recorded_closes [of c ident pid p]) (use r that in \<open>auto simp: P_def recorded_def\<close>)
    with r show "server_progress c P token_limit tokens (\<not> ok, tokens) r"
      by (auto simp: server_progress_def)
  qed
  with True show ?thesis by (simp add: server_round_def)
next
  case False
  have "yields P (\<lambda>x. snd x = tokens \<and> fst x \<or> snd x = tokens @ [word_of_nat (length tokens) + 1])
      (server_round tp js token_limit tokens)"
    unfolding server_round_def if_not_P [OF False] Let_def P_def
    by (intro yields_rules keeps_rules) simp_all
  then show ?thesis
    unfolding yields_def by (rule triple_weaken) (use False in \<open>auto simp: server_progress_def\<close>)
qed

definition client_progress :: "'v conversation \<Rightarrow> (('t, 'v) run \<Rightarrow> bool) \<Rightarrow> nat option \<Rightarrow> u64 list
    \<Rightarrow> bool \<times> u64 list \<Rightarrow> ('t, 'v) run \<Rightarrow> bool" where
  "client_progress c P cancel_after tokens result r \<longleftrightarrow>
     P r \<and> (snd result = tokens \<or> (\<exists>token. snd result = tokens @ [token])) \<and>
     (fst result \<or> (closes c \<longrightarrow> terminal_at c (m_current (rn_machine r))) \<or>
      length (snd result) = Suc (length tokens) \<and>
      (\<forall>limit. cancel_after = Some limit \<longrightarrow> Suc (length tokens) < limit))"

lemma client_round_triple:
  fixes c :: "'v conversation" and tp :: "('t, 'v) transport"
  assumes P_def: "P = faithful_run c ident pid p"
  shows "triple P (client_round tp js cancel_after tokens) (client_progress c P cancel_after tokens)"
proof -
  have over: "terminal_at c (m_current (rn_machine r))"
    if "P r" "recorded Q r" "closes c"
      "\<And>f. Q f \<Longrightarrow> (\<exists>by. f = FSelect by ''done'') \<or> (\<exists>a b sc. f = FCancel a b sc)" for r Q
    by (rule recorded_closes [of c ident pid p]) (use that in \<open>auto simp: P_def recorded_def\<close>)
  note first = receive_triple [of c ident pid p tp, folded P_def]
  note cancel = cancel_triple [of c ident pid p tp, folded P_def]
  have sel: "triple P (emit_and_send tp (\<lambda>m. emit_select m l)) (\<lambda>_. P)"
    and got: "triple P (run_receive tp) (\<lambda>_. P)" for l
    using emit_keeps(2) [of c ident pid p tp l] run_receive_keeps [of c ident pid p tp]
    by (simp_all only: P_def keeps_triple)
  have tail: "triple P (if (case cancel_after of None \<Rightarrow> False | Some limit \<Rightarrow> limit \<le> length (tokens @ [token])) then
        act_then (emit_and_send tp (\<lambda>m. emit_select m ''cancel'')) (\<lambda>ok.
        if \<not> ok then done_with (True, tokens @ [token])
        else act_then (emit_and_send tp emit_cancel) (\<lambda>ok. done_with (\<not> ok, tokens @ [token])))
      else act_then (emit_and_send tp (\<lambda>m. emit_select m ''continue'')) (\<lambda>ok. done_with (\<not> ok, tokens @ [token])))
    (client_progress c P cancel_after tokens)" for token
  proof (cases "case cancel_after of None \<Rightarrow> False | Some limit \<Rightarrow> limit \<le> length (tokens @ [token])")
    case True
    have "triple P (act_then (emit_and_send tp emit_cancel) (\<lambda>ok. done_with (\<not> ok, tokens @ [token])))
        (client_progress c P cancel_after tokens)"
      by (rule triple_then [OF cancel], rule triple_done)
         (use over in \<open>fastforce simp: client_progress_def\<close>)
    with True show ?thesis
      by (auto intro!: triple_then [OF sel] triple_done simp: client_progress_def)
  next
    case False
    then have "\<forall>limit. cancel_after = Some limit \<longrightarrow> Suc (length tokens) < limit" by auto
    with False show ?thesis
      by (auto intro!: triple_then [OF sel] triple_done simp: client_progress_def)
  qed
  show ?thesis
    unfolding client_round_def
  proof (rule triple_then [OF first], goal_cases)
    case (1 frame)
    show ?case
    proof (cases "\<exists>by. frame = Some (FSelect by ''done'')")
      case True
      then show ?thesis
        using over by (auto intro!: triple_done simp: client_progress_def)
    next
      case False
      have "triple P (case frame of None \<Rightarrow> done_with (True, tokens) | Some f \<Rightarrow> body f)
          (client_progress c P cancel_after tokens)"
        if "\<And>f. frame = Some f \<Longrightarrow> triple P (body f) (client_progress c P cancel_after tokens)" for body
        using that by (cases frame) (auto intro!: triple_done simp: client_progress_def)
      note none = this
      show ?thesis
      proof (rule triple_weaken [OF none])
        fix f
        assume "frame = Some f"
        with False show "triple P
            (case f of
              FSelect by label \<Rightarrow>
                if label = ''done'' then done_with (False, tokens)
                else if label = ''token'' then
                  act_then (run_receive tp) (\<lambda>got.
                  case got of
                    None \<Rightarrow> done_with (True, tokens)
                  | Some token \<Rightarrow>
                      act_then (from_result (token_payload js token)) (\<lambda>token_id.
                      let tokens = tokens @ [token_id] in
                      if (case cancel_after of None \<Rightarrow> False | Some limit \<Rightarrow> limit \<le> length tokens) then
                        act_then (emit_and_send tp (\<lambda>m. emit_select m ''cancel'')) (\<lambda>ok.
                        if \<not> ok then done_with (True, tokens)
                        else act_then (emit_and_send tp emit_cancel) (\<lambda>ok. done_with (\<not> ok, tokens)))
                      else
                        act_then (emit_and_send tp (\<lambda>m. emit_select m ''continue'')) (\<lambda>ok.
                        done_with (\<not> ok, tokens))))
                else fails_with (RtApplication (AppFrame ''client received unexpected frame'' f))
            | _ \<Rightarrow> fails_with (RtApplication (AppFrame ''client received unexpected frame'' f)))
            (client_progress c P cancel_after tokens)"
          unfolding Let_def
          by (auto intro!: triple_fails triple_then [OF got] triple_done triple_then [OF triple_from] tail
              simp: client_progress_def split: frame.splits option.splits)
      qed auto
    qed
  qed
qed

section \<open>Loops\<close>

lemma loop_step_Inr:
  "loop_step body (tokens, r) = Inr (tokens', r') \<longleftrightarrow>
     is_complete (rn_machine r) = (Inr False :: 'v runtime_error + bool) \<and> body tokens r = (Inr (False, tokens'), r')"
  for body :: "u64 list \<Rightarrow> (('t, 'v) run, 'v runtime_error, bool \<times> u64 list) action"
  by (auto simp: loop_step_def split: sum.splits prod.splits if_splits)

lemma loop_step_Inl:
  "loop_step body (tokens, r) = Inl (Inr tokens', r') \<longleftrightarrow>
     is_complete (rn_machine r) = (Inr True :: 'v runtime_error + bool) \<and> tokens' = tokens \<and> r' = r \<or>
     is_complete (rn_machine r) = (Inr False :: 'v runtime_error + bool) \<and> body tokens r = (Inr (True, tokens'), r')"
  for body :: "u64 list \<Rightarrow> (('t, 'v) run, 'v runtime_error, bool \<times> u64 list) action"
  by (auto simp: loop_step_def split: sum.splits prod.splits if_splits)

text \<open>Whatever holds of the tokens and the run before every round holds when the loop ends.\<close>

lemma loop_invariant:
  fixes body :: "u64 list \<Rightarrow> (('t, 'v) run, 'v runtime_error, bool \<times> u64 list) action"
  assumes loop: "iterate (loop_step body) (tokens, r) = Some (Inr tokens', r')" and start: "I tokens r"
    and round: "\<And>ts s leave ts' s'. I ts s \<Longrightarrow> body ts s = (Inr (leave, ts'), s') \<Longrightarrow> I ts' s'"
  shows "I tokens' r'"
proof -
  have "\<forall>ts. fst y = Inr ts \<longrightarrow> I ts (snd y)" if y: "iterate (loop_step body) (tokens, r) = Some y" for y
  proof (rule iterate_invariant [OF y, where P = "\<lambda>x. I (fst x) (snd x)"])
    show "I (fst (tokens, r)) (snd (tokens, r))" using start by simp
  next
    fix x y
    assume "I (fst x) (snd x)" "loop_step body x = Inr y"
    then show "I (fst y) (snd y)"
      using round by (cases x; cases y) (auto simp: loop_step_Inr)
  next
    fix x y
    assume "I (fst x) (snd x)" "loop_step body x = Inl y"
    then show "\<forall>ts. fst y = Inr ts \<longrightarrow> I ts (snd y)"
      using round by (cases x; cases y) (auto simp: loop_step_Inl)
  qed
  from this [OF loop] show ?thesis by simp
qed

lemma iterate_returns:
  assumes "P s" and "\<And>s s'. P s \<Longrightarrow> f s = Inr s' \<Longrightarrow> P s' \<and> measure_of s' < (measure_of s :: nat)"
  shows "\<exists>r. iterate f s = Some r"
  using assms(1)
proof (induction "measure_of s" arbitrary: s rule: less_induct)
  case less
  show ?case
  proof (cases "f s")
    case (Inl r)
    then show ?thesis by (simp add: iterate.simps)
  next
    case (Inr s')
    from less.hyps [of s'] assms(2) [OF less.prems Inr] Inr show ?thesis by (simp add: iterate.simps)
  qed
qed

section \<open>Reports\<close>

definition faithful_report :: "'v json_ops \<Rightarrow> 'v conversation \<Rightarrow> prepared_plan \<Rightarrow> string \<Rightarrow> 'v execution_report \<Rightarrow> bool" where
  \<comment> \<open>the report's trace is accepted by the checker, which says of it what the report says\<close>
  "faithful_report js c plan role rep \<longleftrightarrow>
     (\<exists>tr. verify_trace c (er_trace rep) = Inr tr \<and>
        tr_complete tr = er_completed rep \<and> tr_successful tr = er_successful rep \<and>
        tr_failure tr = er_failure rep \<and> tr_final_state tr = er_final_state rep) \<and>
     er_role rep = role \<and> er_conversation rep = module_id (conv_module c) \<and>
     er_identity rep = pp_conversation_identity plan \<and> er_plan_identity rep = pp_plan_identity plan \<and>
     er_trace_identity rep = trace_identity js (er_trace rep)"

lemma report_faithful:
  assumes inv: "faithful_run c (pp_conversation_identity plan) (pp_plan_identity plan) p r"
    and rep: "report js (rn_machine r) name tokens (rn_trace r) = Inr rep"
  shows "faithful_report js c plan p rep" and "er_tokens rep = tokens"
proof -
  have wf: "well_formed c" and run: "conv_run c (conv_initial c) (rn_trace r) = Some (m_current (rn_machine r))"
    and bel: "belongs c (pp_conversation_identity plan) (pp_plan_identity plan) p (rn_machine r)"
    using inv by (simp_all add: faithful_run_def)
  obtain s where s: "find (\<lambda>s. gid s = m_current (rn_machine r)) (conv_states c) = Some s"
    using conv_run_ids [OF wf wf_initial [OF wf] run] by (rule state_ids_find)
  note fields = belongs_fields [OF bel]
  have tr: "verify_trace c (rn_trace r) =
      Inr (trace_report_at (length (rn_trace r)) (m_current (rn_machine r)) s)"
    using verify_trace_run [OF wf run] by (simp add: report_of_def s)
  show "faithful_report js c plan p rep" and "er_tokens rep = tokens"
    using rep tr s fields(1-4)
    by (cases s; auto simp: faithful_report_def report_def result_simps is_complete_def is_successful_def
        machine_failure_def state_of_def belongs_state [OF bel] trace_report_at_def)+
qed

lemma start_faithful:
  assumes "compile_prepared ext c = Inr plan" and "from_plan plan p = (Inr m :: 'v runtime_error + machine)"
  shows "faithful_run c (pp_conversation_identity plan) (pp_plan_identity plan) p
    \<lparr>rn_machine = m, rn_trace = [] :: 'v frame list, rn_transport = t\<rparr>"
  using from_plan_compiled [OF assms(1), of p m] assms
  by (auto simp: faithful_run_def elim: compile_prepared_shape dest: compile_shape(1))

lemma conclude_report:
  assumes "conclude tp js name (Inr tokens, r) = (Inr rep, t)"
  shows "report js (rn_machine r) name tokens (rn_trace r) = Inr rep"
  using assms by (auto simp: conclude_def split: sum.splits prod.splits if_splits)

lemma conclude_error: "fst (conclude tp js name (Inl e, r)) = Inl e"
  by (simp add: conclude_def)

text \<open>A successful workload: its report is made after the first operation failed, or after the loop.\<close>

lemma client_cases:
  assumes run: "run_generate_client_plan tp js plan prompt cancel_after t = Some (Inr rep, t')"
  obtains m r ok where
    "from_plan plan ''client'' = (Inr m :: 'v runtime_error + machine)"
    and "emit_and_send tp (\<lambda>m. emit_data m (js_text js prompt))
      \<lparr>rn_machine = m, rn_trace = [], rn_transport = t\<rparr> = (Inr ok, r :: ('t, 'v) run)"
    and "\<not> ok \<and> report js (rn_machine r) (tp_plan tp t) [] (rn_trace r) = Inr rep \<or>
      (\<exists>tokens r'. iterate (loop_step (client_round tp js cancel_after)) ([], r) = Some (Inr tokens, r') \<and>
         report js (rn_machine r') (tp_plan tp t) tokens (rn_trace r') = Inr rep)"
proof -
  obtain m where m: "from_plan plan ''client'' = (Inr m :: 'v runtime_error + machine)"
    using run by (auto simp: run_generate_client_plan_def split: if_splits sum.splits)
  obtain ok r where r: "emit_and_send tp (\<lambda>m. emit_data m (js_text js prompt))
      \<lparr>rn_machine = m, rn_trace = [], rn_transport = t\<rparr> = (Inr ok, r)"
    using run m by (auto simp: run_generate_client_plan_def split: if_splits sum.splits prod.splits)
  show thesis
  proof (cases ok)
    case False
    then have "report js (rn_machine r) (tp_plan tp t) [] (rn_trace r) = Inr rep"
      using run m r by (auto simp: run_generate_client_plan_def split: if_splits)
    with False show thesis by (intro that [OF m r] disjI1 conjI)
  next
    case True
    then obtain x where loop: "iterate (loop_step (client_round tp js cancel_after)) ([], r) = Some x"
        and fin: "conclude tp js (tp_plan tp t) x = (Inr rep, t')"
      using run m r by (auto simp: run_generate_client_plan_def split: if_splits)
    obtain result r' where x: "x = (result, r')" by (cases x)
    from fin obtain tokens where "result = Inr tokens"
      unfolding x by (cases result) (auto simp: conclude_def)
    with fin loop x have "iterate (loop_step (client_round tp js cancel_after)) ([], r) = Some (Inr tokens, r')"
      and "report js (rn_machine r') (tp_plan tp t) tokens (rn_trace r') = Inr rep"
      by (simp_all add: conclude_report)
    then show thesis by (intro that [OF m r] disjI2 exI conjI)
  qed
qed

lemma server_cases:
  assumes run: "run_generate_server_plan tp js plan token_limit t = Some (Inr rep, t')"
  obtains m r got where
    "from_plan plan ''server'' = (Inr m :: 'v runtime_error + machine)"
    and "run_receive tp \<lparr>rn_machine = m, rn_trace = [], rn_transport = t\<rparr> = (Inr got, r :: ('t, 'v) run)"
    and "got = None \<and> report js (rn_machine r) (tp_plan tp t) [] (rn_trace r) = Inr rep \<or>
      (\<exists>tokens r'. iterate (loop_step (server_round tp js token_limit)) ([], r) = Some (Inr tokens, r') \<and>
         report js (rn_machine r') (tp_plan tp t) tokens (rn_trace r') = Inr rep)"
proof -
  obtain m where m: "from_plan plan ''server'' = (Inr m :: 'v runtime_error + machine)"
    using run by (auto simp: run_generate_server_plan_def split: sum.splits)
  obtain got r where r: "run_receive tp \<lparr>rn_machine = m, rn_trace = [], rn_transport = t\<rparr> = (Inr got, r)"
    using run m by (auto simp: run_generate_server_plan_def split: sum.splits prod.splits option.splits)
  show thesis
  proof (cases got)
    case None
    then have "report js (rn_machine r) (tp_plan tp t) [] (rn_trace r) = Inr rep"
      using run m r by (auto simp: run_generate_server_plan_def)
    with None show thesis by (intro that [OF m r] disjI1 conjI)
  next
    case (Some prompt)
    then obtain x where loop: "iterate (loop_step (server_round tp js token_limit)) ([], r) = Some x"
        and fin: "conclude tp js (tp_plan tp t) x = (Inr rep, t')"
      using run m r by (auto simp: run_generate_server_plan_def split: sum.splits)
    obtain result r' where x: "x = (result, r')" by (cases x)
    from fin obtain tokens where "result = Inr tokens"
      unfolding x by (cases result) (auto simp: conclude_def)
    with fin loop x have "iterate (loop_step (server_round tp js token_limit)) ([], r) = Some (Inr tokens, r')"
      and "report js (rn_machine r') (tp_plan tp t) tokens (rn_trace r') = Inr rep"
      by (simp_all add: conclude_report)
    then show thesis by (intro that [OF m r] disjI2 exI conjI)
  qed
qed

end
