(* ===== verification/Workload_Examples.thy ===== *)
theory Workload_Examples
  imports Workload_Correct Examples
begin

text \<open>
  Runs of the workload on the conversation \<open>generate\<close> over a scripted transport: what the peer
  answers is a list, and what was sent is kept.
\<close>

record script =
  sc_answers :: "(string runtime_error + string envelope) list"
  sc_sent :: "string envelope list"
  sc_aborted :: bool

definition script_transport :: "(script, string) transport" where
  "script_transport =
     \<lparr>tp_plan = (\<lambda>_. ''script''),
      tp_send = (\<lambda>e s. if sc_aborted s then (Inl (RtTransportClosed ''script''), s)
        else (Inr (), s\<lparr>sc_sent := sc_sent s @ [e]\<rparr>)),
      tp_receive = (\<lambda>s. case sc_answers s of
          [] \<Rightarrow> (Inl (RtTransportClosed ''script''), s)
        | a # as \<Rightarrow> (a, s\<lparr>sc_answers := as\<rparr>)),
      tp_finish = default_finish,
      tp_abort = (\<lambda>s. s\<lparr>sc_aborted := True\<rparr>)\<rparr>"

definition plain_json :: "string json_ops" where
  \<comment> \<open>a number is a string of that length\<close>
  "plain_json = \<lparr>js_text = (\<lambda>s. s), js_id = (\<lambda>n. replicate (unat n) CHR ''i''),
     js_get_text = Some, js_get_id = (\<lambda>s. Some (word_of_nat (length s))),
     js_trace = (\<lambda>fs. [word_of_nat (length fs)]), js_sha256 = (\<lambda>bs. bs)\<rparr>"

definition generate_identity :: string where
  "generate_identity = ''sha256:6578616d706c652e67656e657261746500000000000000000000000000000000''"

definition generate_plan :: prepared_plan where
  "generate_plan = \<lparr>pp_conversation = ''example.generate'', pp_conversation_identity = generate_identity,
     pp_plan_identity = generate_identity,
     pp_endpoints = map (project_role generate) (conv_roles generate),
     pp_wire = \<lparr>wp_encoding = COMPACT_WIRE_FORMAT, wp_transitions =
       [\<lparr>wt_id = 1, wt_state = ''cancel'', wt_operation = WCancel ''client'' ''server'' ''generation''\<rparr>,
        \<lparr>wt_id = 2, wt_state = ''client-action'', wt_operation = WSelect ''client'' ''cancel''\<rparr>,
        \<lparr>wt_id = 3, wt_state = ''client-action'', wt_operation = WSelect ''client'' ''continue''\<rparr>,
        \<lparr>wt_id = 4, wt_state = ''decide'', wt_operation = WSelect ''server'' ''done''\<rparr>,
        \<lparr>wt_id = 5, wt_state = ''decide'', wt_operation = WSelect ''server'' ''token''\<rparr>,
        \<lparr>wt_id = 6, wt_state = ''emit-token'', wt_operation = WData ''server'' ''client'' ''token''\<rparr>,
        \<lparr>wt_id = 7, wt_state = ''start'', wt_operation = WData ''client'' ''server'' ''prompt''\<rparr>]\<rparr>\<rparr>"

lemma generate_compiles: "compile_prepared plain_externals generate = Inr generate_plan"
  by code_simp

lemma generate_closes: "closes generate"
  by code_simp

definition generate_envelope :: "string \<Rightarrow> u64 \<Rightarrow> string frame \<Rightarrow> string envelope" where
  "generate_envelope state n f = \<lparr>env_wire = WIRE_FORMAT, env_conversation = ''example.generate'',
     env_identity = generate_identity, env_state = state, env_sequence = n,
     env_frame = f\<rparr>"

definition server_script :: script where
  \<comment> \<open>a prompt, and then the wish to continue after the first token\<close>
  "server_script = \<lparr>sc_answers =
     [Inr (generate_envelope ''start'' 0 (FData ''client'' ''server'' ''prompt'' (Some ''hi''))),
      Inr (generate_envelope ''client-action'' 3 (FSelect ''client'' ''continue''))],
     sc_sent = [], sc_aborted = False\<rparr>"

definition client_script :: script where
  \<comment> \<open>the peer of that server: one token, and the end\<close>
  "client_script = \<lparr>sc_answers =
     [Inr (generate_envelope ''decide'' 1 (FSelect ''server'' ''token'')),
      Inr (generate_envelope ''emit-token'' 2 (FData ''server'' ''client'' ''token'' (Some ''i''))),
      Inr (generate_envelope ''decide'' 4 (FSelect ''server'' ''done''))],
     sc_sent = [], sc_aborted = False\<rparr>"

definition server_example :: "(string runtime_error + string execution_report) option" where
  "server_example = map_option fst
     (run_generate_server_plan script_transport plain_json generate_plan 1 server_script)"

definition client_example :: "(string runtime_error + string execution_report) option" where
  "client_example = map_option fst
     (run_generate_client_plan script_transport plain_json generate_plan ''hi'' None client_script)"

definition example_trace :: "string frame list" where
  "example_trace = [FData ''client'' ''server'' ''prompt'' (Some ''hi''), FSelect ''server'' ''token'',
     FData ''server'' ''client'' ''token'' (Some ''i''), FSelect ''client'' ''continue'',
     FSelect ''server'' ''done'']"

lemma server_example_ends:
  "(case server_example of
      Some (Inr rep) \<Rightarrow> er_tokens rep = [1] \<and> er_completed rep \<and> er_trace rep = example_trace
    | _ \<Rightarrow> False)"
  by code_simp

lemma client_example_ends:
  "(case client_example of
      Some (Inr rep) \<Rightarrow> er_tokens rep = [1] \<and> er_completed rep \<and> er_trace rep = example_trace
    | _ \<Rightarrow> False)"
  by code_simp

lemma server_example_run:
  obtains rep t' where "run_generate_server_plan script_transport plain_json generate_plan 1 server_script =
      Some (Inr rep, t')" and "er_tokens rep = [1]" and "er_completed rep" and "er_trace rep = example_trace"
  using server_example_ends by (auto simp: server_example_def split: option.splits sum.splits)

lemma client_example_run:
  obtains rep t' where "run_generate_client_plan script_transport plain_json generate_plan ''hi'' None client_script =
      Some (Inr rep, t')" and "er_tokens rep = [1]" and "er_completed rep" and "er_trace rep = example_trace"
  using client_example_ends by (auto simp: client_example_def split: option.splits sum.splits)

end
