(* ===== verification/Workload_Properties.thy ===== *)
theory Workload_Properties
  imports Workload_Examples
begin

text \<open>
  The reference workload over an arbitrary transport: a peer that answers anything, and
  operations that fail at any point.  Its reports are true, its loops end, its tokens are the
  ones it promises.
\<close>

section \<open>Reports\<close>

lemma client_report:
  fixes tp :: "('t, 'v) transport" and c :: "'v conversation"
  assumes plan: "compile_prepared ext c = Inr plan"
    and run: "run_generate_client_plan tp js plan prompt cancel_after t = Some (Inr rep, t')"
  shows "faithful_report js c plan ''client'' rep"
proof -
  from run obtain m r ok where
      m: "from_plan plan ''client'' = (Inr m :: 'v runtime_error + machine)"
    and r: "emit_and_send tp (\<lambda>m. emit_data m (js_text js prompt))
      \<lparr>rn_machine = m, rn_trace = [], rn_transport = t\<rparr> = (Inr ok, r :: ('t, 'v) run)"
    and fin: "\<not> ok \<and> report js (rn_machine r) (tp_plan tp t) [] (rn_trace r) = Inr rep \<or>
      (\<exists>tokens r'. iterate (loop_step (client_round tp js cancel_after)) ([], r) = Some (Inr tokens, r') \<and>
         report js (rn_machine r') (tp_plan tp t) tokens (rn_trace r') = Inr rep)"
    by (rule client_cases)
  let ?P = "faithful_run c (pp_conversation_identity plan) (pp_plan_identity plan) ''client''"
  have first: "?P r" by (rule keepsD [OF emit_keeps(1) start_faithful [OF plan m] r])
  from fin show ?thesis
  proof (elim disjE conjE exE)
    fix tokens r'
    assume loop: "iterate (loop_step (client_round tp js cancel_after)) ([], r) = Some (Inr tokens, r')"
      and rep: "report js (rn_machine r') (tp_plan tp t) tokens (rn_trace r') = Inr rep"
    have "?P r'"
      by (rule loop_invariant [OF loop, where I = "\<lambda>_. ?P", OF first]) (rule keepsD [OF client_round_keeps])
    from report_faithful(1) [OF this rep] show ?thesis .
  qed (rule report_faithful(1) [OF first])
qed

lemma tokens_upto:
  "map word_of_nat [1..<Suc (Suc n)] = map word_of_nat [1..<Suc n] @ [(word_of_nat n + 1 :: u64)]"
  "length (map word_of_nat [1..<Suc n] :: u64 list) = n"
  by (simp_all add: upt_Suc_append)

lemma server_report:
  fixes tp :: "('t, 'v) transport" and c :: "'v conversation"
  assumes plan: "compile_prepared ext c = Inr plan"
    and run: "run_generate_server_plan tp js plan token_limit t = Some (Inr rep, t')"
  shows "faithful_report js c plan ''server'' rep"
    and "\<exists>n \<le> token_limit. er_tokens rep = map word_of_nat [1..<Suc n]"
proof -
  from run obtain m r got where
      m: "from_plan plan ''server'' = (Inr m :: 'v runtime_error + machine)"
    and r: "run_receive tp \<lparr>rn_machine = m, rn_trace = [], rn_transport = t\<rparr> = (Inr got, r :: ('t, 'v) run)"
    and fin: "got = None \<and> report js (rn_machine r) (tp_plan tp t) [] (rn_trace r) = Inr rep \<or>
      (\<exists>tokens r'. iterate (loop_step (server_round tp js token_limit)) ([], r) = Some (Inr tokens, r') \<and>
         report js (rn_machine r') (tp_plan tp t) tokens (rn_trace r') = Inr rep)"
    by (rule server_cases)
  let ?P = "faithful_run c (pp_conversation_identity plan) (pp_plan_identity plan) ''server''"
  let ?I = "\<lambda>tokens r. ?P r \<and> (\<exists>n \<le> token_limit. tokens = map word_of_nat [1..<Suc n])"
  have first: "?P r" by (rule keepsD [OF run_receive_keeps start_faithful [OF plan m] r])
  have "faithful_report js c plan ''server'' rep \<and>
      (\<exists>n \<le> token_limit. er_tokens rep = map word_of_nat [1..<Suc n])"
    using fin
  proof (elim disjE conjE exE)
    assume "report js (rn_machine r) (tp_plan tp t) [] (rn_trace r) = Inr rep"
    from report_faithful [OF first this] show ?thesis by auto
  next
    fix tokens r'
    assume loop: "iterate (loop_step (server_round tp js token_limit)) ([], r) = Some (Inr tokens, r')"
      and rep: "report js (rn_machine r') (tp_plan tp t) tokens (rn_trace r') = Inr rep"
    have "?I tokens r'"
    proof (rule loop_invariant [OF loop, where I = ?I])
      show "?I [] r" using first by auto
    next
      fix ts s leave ts' s'
      assume inv: "?I ts s" and step: "server_round tp js token_limit ts s = (Inr (leave, ts'), s')"
      then obtain n where n: "n \<le> token_limit" "ts = map word_of_nat [1..<Suc n]" by blast
      from tripleD [OF server_round_triple [OF refl] conjunct1 [OF inv] step]
      have "?P s'" and "ts' = ts \<or> length ts < token_limit \<and> ts' = ts @ [word_of_nat (length ts) + 1]"
        by (auto simp: server_progress_def)
      moreover have "\<exists>k \<le> token_limit. ts' = map word_of_nat [1..<Suc k]"
        if "length ts < token_limit" "ts' = ts @ [word_of_nat (length ts) + 1]"
        using that n tokens_upto [of n] by (intro exI [of _ "Suc n"]) (simp del: upt_Suc)
      ultimately show "?I ts' s'" using n by blast
    qed
    with report_faithful [OF conjunct1 [OF this] rep] show ?thesis by simp
  qed
  then show "faithful_report js c plan ''server'' rep"
    and "\<exists>n \<le> token_limit. er_tokens rep = map word_of_nat [1..<Suc n]" by simp_all
qed

text \<open>C20: reports are true.  Whatever the transport answers, a report that the client or the server
  returns has a trace the global checker accepts, and says of completion, success, failure and
  final state what the checker says; its role, identities and trace identity are the right ones.\<close>

theorem workload_reports:
  fixes tp :: "('t, 'v) transport" and c :: "'v conversation"
  assumes plan: "compile_prepared ext c = Inr plan"
  shows "(run_generate_client_plan tp js plan prompt cancel_after t = Some (Inr rep, t') \<longrightarrow>
      faithful_report js c plan ''client'' rep) \<and>
    (run_generate_server_plan tp js plan token_limit t = Some (Inr rep, t') \<longrightarrow>
      faithful_report js c plan ''server'' rep)"
  by (intro conjI impI client_report [OF plan] server_report(1) [OF plan])

lemma workload_reports_witness:
  "\<exists>rep t'. run_generate_server_plan script_transport plain_json generate_plan 1 server_script = Some (Inr rep, t') \<and>
    er_completed rep \<and> faithful_report plain_json generate generate_plan ''server'' rep"
proof -
  obtain rep t' where run: "run_generate_server_plan script_transport plain_json generate_plan 1 server_script =
      Some (Inr rep, t')" and "er_completed rep" by (rule server_example_run)
  moreover have "faithful_report plain_json generate generate_plan ''server'' rep"
    by (rule conjunct2 [OF workload_reports [OF generate_compiles], THEN mp, OF run])
  ultimately show ?thesis by blast
qed

text \<open>The tokens of the server.  A server that returns a report has sent the tokens 1, 2, and so
  on, without a gap, and never more than its limit.\<close>

theorem server_tokens:
  fixes tp :: "('t, 'v) transport" and c :: "'v conversation"
  assumes "compile_prepared ext c = Inr plan"
    and "run_generate_server_plan tp js plan token_limit t = Some (Inr rep, t')"
  shows "\<exists>n \<le> token_limit. er_tokens rep = map word_of_nat [1..<Suc n]"
  using assms by (rule server_report(2))

lemma server_tokens_witness:
  "\<exists>rep t'. run_generate_server_plan script_transport plain_json generate_plan 1 server_script = Some (Inr rep, t') \<and>
    (\<exists>n \<le> 1. er_tokens rep = map word_of_nat [1..<Suc n]) \<and> er_tokens rep = [1]"
proof -
  obtain rep t' where run: "run_generate_server_plan script_transport plain_json generate_plan 1 server_script =
      Some (Inr rep, t')" and "er_tokens rep = [1]" by (rule server_example_run)
  with server_tokens [OF generate_compiles run] show ?thesis by blast
qed

section \<open>Loops end\<close>

lemma loop_returns:
  fixes body :: "u64 list \<Rightarrow> (('t, 'v) run, 'v runtime_error, bool \<times> u64 list) action"
    and bound :: "u64 list \<Rightarrow> nat"
  assumes start: "faithful_run c ident pid p r"
    and round: "\<And>ts s ts' s'. faithful_run c ident pid p s \<Longrightarrow> body ts s = (Inr (False, ts'), s') \<Longrightarrow>
      faithful_run c ident pid p s' \<and> (terminal_at c (m_current (rn_machine s')) \<or> bound ts' < bound ts)"
  shows "\<exists>x. iterate (loop_step body) (ts, r) = Some x"
proof (rule iterate_returns [where P = "\<lambda>x. faithful_run c ident pid p (snd x)" and
      measure_of = "\<lambda>x. if terminal_at c (m_current (rn_machine (snd x))) then 0 else Suc (bound (fst x))"])
  show "faithful_run c ident pid p (snd (ts, r))" using start by simp
next
  fix x y
  assume x: "faithful_run c ident pid p (snd x)" and step: "loop_step body x = Inr y"
  obtain ts s ts' s' where xy: "x = (ts, s)" "y = (ts', s')" by (cases x; cases y)
  from step have going: "is_complete (rn_machine s) = (Inr False :: 'v runtime_error + bool)"
    and body: "body ts s = (Inr (False, ts'), s')"
    by (simp_all add: xy loop_step_Inr)
  from going is_complete_terminal [where ?'w = 'v, OF x] have "\<not> terminal_at c (m_current (rn_machine s))"
    by (simp add: xy)
  with round [OF _ body] x show "faithful_run c ident pid p (snd y) \<and>
      (if terminal_at c (m_current (rn_machine (snd y))) then 0 else Suc (bound (fst y))) <
      (if terminal_at c (m_current (rn_machine (snd x))) then 0 else Suc (bound (fst x)))"
    by (auto simp: xy)
qed

lemma server_loop_returns:
  fixes tp :: "('t, 'v) transport" and c :: "'v conversation"
  assumes "faithful_run c ident pid p r" and "closes c"
  shows "\<exists>x. iterate (loop_step (server_round tp js token_limit)) (ts, r) = Some x"
proof (rule loop_returns [OF assms(1), where bound = "\<lambda>ts. token_limit - length ts"])
  fix ts s ts' s'
  assume s: "faithful_run c ident pid p s" and "server_round tp js token_limit ts s = (Inr (False, ts'), s')"
  from tripleD [OF server_round_triple [OF refl] this] assms(2)
  show "faithful_run c ident pid p s' \<and>
    (terminal_at c (m_current (rn_machine s')) \<or> token_limit - length ts' < token_limit - length ts)"
    by (auto simp: server_progress_def)
qed

lemma client_loop_returns:
  fixes tp :: "('t, 'v) transport" and c :: "'v conversation"
  assumes "faithful_run c ident pid p r" and "closes c"
  shows "\<exists>x. iterate (loop_step (client_round tp js (Some limit))) (ts, r) = Some x"
proof (rule loop_returns [OF assms(1), where bound = "\<lambda>ts. limit - length ts"])
  fix ts s ts' s'
  assume s: "faithful_run c ident pid p s" and "client_round tp js (Some limit) ts s = (Inr (False, ts'), s')"
  from tripleD [OF client_round_triple [OF refl] this] assms(2)
  show "faithful_run c ident pid p s' \<and>
    (terminal_at c (m_current (rn_machine s')) \<or> limit - length ts' < limit - length ts)"
    by (auto simp: client_progress_def)
qed

text \<open>C21: the workload ends.  When a choice of \<open>done\<close> and a cancellation end the conversation, the
  server returns whatever its peer and its transport do, and so does a client that cancels after
  a number of tokens.\<close>

theorem workload_returns:
  fixes tp :: "('t, 'v) transport" and c :: "'v conversation"
  assumes plan: "compile_prepared ext c = Inr plan" and ends: "closes c"
  shows "(\<exists>x. run_generate_server_plan tp js plan token_limit t = Some x) \<and>
    (\<exists>x. run_generate_client_plan tp js plan prompt (Some limit) u = Some x)"
proof
  show "\<exists>x. run_generate_server_plan tp js plan token_limit t = Some x"
  proof (cases "from_plan plan ''server'' :: 'v runtime_error + machine")
    case (Inr m)
    obtain got r where r: "run_receive tp \<lparr>rn_machine = m, rn_trace = [], rn_transport = t\<rparr> = (got, r)"
      by (cases "run_receive tp \<lparr>rn_machine = m, rn_trace = [], rn_transport = t\<rparr>")
    show ?thesis
    proof (cases got)
      case (Inl e)
      with \<open>from_plan plan _ = _\<close> r show ?thesis by (simp add: run_generate_server_plan_def)
    next
      case got: (Inr g)
      have "faithful_run c (pp_conversation_identity plan) (pp_plan_identity plan) ''server'' r"
        by (rule keepsD [OF run_receive_keeps start_faithful [OF plan Inr] r [unfolded got]])
      from server_loop_returns [OF this ends, of tp js token_limit "[]"] obtain x
        where "iterate (loop_step (server_round tp js token_limit)) ([], r) = Some x" by blast
      with Inr r got show ?thesis
        by (cases g) (simp_all add: run_generate_server_plan_def split: sum.split)
    qed
  qed (simp add: run_generate_server_plan_def)
next
  show "\<exists>x. run_generate_client_plan tp js plan prompt (Some limit) u = Some x"
  proof (cases "from_plan plan ''client'' :: 'v runtime_error + machine")
    case (Inr m)
    let ?send = "emit_and_send tp (\<lambda>m. emit_data m (js_text js prompt))"
    obtain ok r where r: "?send \<lparr>rn_machine = m, rn_trace = [], rn_transport = u\<rparr> = (ok, r)"
      by (cases "?send \<lparr>rn_machine = m, rn_trace = [], rn_transport = u\<rparr>")
    show ?thesis
    proof (cases ok)
      case (Inl e)
      with \<open>from_plan plan _ = _\<close> r show ?thesis by (simp add: run_generate_client_plan_def)
    next
      case ok: (Inr g)
      have "faithful_run c (pp_conversation_identity plan) (pp_plan_identity plan) ''client'' r"
        by (rule keepsD [OF emit_keeps(1) start_faithful [OF plan Inr] r [unfolded ok]])
      from client_loop_returns [OF this ends, of tp js limit "[]"] obtain x
        where "iterate (loop_step (client_round tp js (Some limit))) ([], r) = Some x" by blast
      with Inr r ok show ?thesis
        by (simp add: run_generate_client_plan_def)
    qed
  qed (simp add: run_generate_client_plan_def)
qed

lemma workload_returns_witness:
  "(\<exists>x. run_generate_server_plan script_transport plain_json generate_plan 5 server_script = Some x) \<and>
   (\<exists>x. run_generate_client_plan script_transport plain_json generate_plan ''hi'' (Some 3) client_script = Some x)"
  by (rule workload_returns [OF generate_compiles generate_closes])

text \<open>What the report of a pair says.  Two true reports of the same conversation, one for each
  side, whose traces are equal have equal outcomes; the pair is reported as equivalent exactly
  when both sides have ended.\<close>

theorem demo_outcome:
  fixes client :: "'v execution_report"
  assumes "faithful_report js c plan ''client'' client" and "faithful_report js c plan ''server'' server"
    and "dr_trace_equivalent (demo_report name client server)"
  shows "(dr_outcome_equivalent (demo_report name client server) \<longleftrightarrow> er_completed client) \<and>
    er_trace_identity client = er_trace_identity server \<and> er_identity client = er_identity server \<and>
    er_plan_identity client = er_plan_identity server"
  using assms by (auto simp: faithful_report_def demo_report_def)

lemma demo_outcome_witness:
  "\<exists>(client :: string execution_report) server. dr_outcome_equivalent (demo_report ''script'' client server) \<and> er_tokens client = [1]"
proof -
  obtain client t where c: "run_generate_client_plan script_transport plain_json generate_plan ''hi'' None client_script =
      Some (Inr client, t)" "er_tokens client = [1]" "er_completed client" "er_trace client = example_trace"
    by (rule client_example_run)
  obtain server u where s: "run_generate_server_plan script_transport plain_json generate_plan 1 server_script =
      Some (Inr server, u)" "er_trace server = example_trace"
    by (rule server_example_run)
  have "dr_trace_equivalent (demo_report ''script'' client server)"
    using c(4) s(2) by (simp add: demo_report_def)
  from demo_outcome [OF client_report [OF generate_compiles c(1)] server_report(1) [OF generate_compiles s(1)] this] c(3)
  have "dr_outcome_equivalent (demo_report ''script'' client server)" by simp
  with c(2) show ?thesis by blast
qed

end
