(* ===== verification/Jev.thy ===== *)
theory Jev
  imports Machine Link Complex_Main
begin

text \<open>
  \<open>src/src/jev.rs\<close>: a model as the chooser of a choice state.  A binding is checked against its
  conversation, a decider answers a question, and the answer becomes the label the chooser
  emits.  A JSON value is the type variable; what the code does with one (a field, a text, the
  \<open>serde\<close> decoding of an answer) is a field of \<open>json_view\<close>.  The HTTP agent and \<open>thread::sleep\<close>
  are the fields of \<open>http_agent\<close>.
\<close>

section \<open>Numbers\<close>

text \<open>
  An \<open>f64\<close> the program only compares: a finite one is the rational it stands for, and the
  comparisons of finite ones are exact.  Every comparison with a NaN is false.
\<close>

datatype f64 = F64NaN | F64PosInf | F64NegInf | F64 rat

fun f64_is_finite :: "f64 \<Rightarrow> bool" where
  "f64_is_finite (F64 _) = True"
| "f64_is_finite _ = False"

fun f64_le :: "f64 \<Rightarrow> f64 \<Rightarrow> bool" where
  "f64_le (F64 x) (F64 y) = (x \<le> y)"
| "f64_le F64NegInf y = (y \<noteq> F64NaN)"
| "f64_le x F64PosInf = (x \<noteq> F64NaN)"
| "f64_le _ _ = False"

fun f64_less :: "f64 \<Rightarrow> f64 \<Rightarrow> bool" where
  "f64_less (F64 x) (F64 y) = (x < y)"
| "f64_less F64NegInf y = (y \<noteq> F64NaN \<and> y \<noteq> F64NegInf)"
| "f64_less (F64 _) F64PosInf = True"
| "f64_less _ _ = False"

definition in_unit :: "f64 \<Rightarrow> bool" where
  \<comment> \<open>\<open>x.is_finite() && (0.0..=1.0).contains(&x)\<close>\<close>
  "in_unit x \<longleftrightarrow> f64_is_finite x \<and> f64_le (F64 0) x \<and> f64_le x (F64 1)"

section \<open>Blank text\<close>

text \<open>
  \<open>trim().is_empty()\<close> of a UTF-8 text: every character is one of the Unicode white spaces, here
  by their bytes.
\<close>

fun blank_bytes :: "nat list \<Rightarrow> bool" where
  "blank_bytes [] = True"
| "blank_bytes (a # bs) =
     (if 9 \<le> a \<and> a \<le> 13 \<or> a = 32 then blank_bytes bs
      else case bs of
          [] \<Rightarrow> False
        | b # cs \<Rightarrow>
            if a = 194 \<and> (b = 133 \<or> b = 160) then blank_bytes cs
            else case cs of
                [] \<Rightarrow> False
              | d # ds \<Rightarrow>
                  (a = 225 \<and> b = 154 \<and> d = 128 \<or>
                   a = 226 \<and> b = 128 \<and> (128 \<le> d \<and> d \<le> 138 \<or> d = 168 \<or> d = 169 \<or> d = 175) \<or>
                   a = 226 \<and> b = 129 \<and> d = 159 \<or>
                   a = 227 \<and> b = 128 \<and> d = 128) \<and> blank_bytes ds)"

definition blank :: "string \<Rightarrow> bool" where
  "blank s = blank_bytes (map of_char s)"

section \<open>Bindings\<close>

definition JEV_BINDING_FORMAT :: string where
  "JEV_BINDING_FORMAT = ''0.1.0''"

definition QUESTION_ID :: string where
  "QUESTION_ID = ''colloq_choice''"

record 'w jev_binding =
  jb_schema :: "string option"
  jb_format :: string
  jb_conversation :: string
  jb_state :: string
  jb_model :: string
  jb_instructions :: 'w
  jb_criteria :: "(string, string option) btree_map"
  jb_threshold :: f64
  jb_escalate :: string

record 'w bound_choice =
  bc_binding :: "'w jev_binding"
  bc_chooser :: string
  bc_branches :: "string btree_set"

definition binding_head :: "(f64 \<Rightarrow> string) \<Rightarrow> 'v conversation \<Rightarrow> 'w jev_binding \<Rightarrow> diagnostic list" where
  \<comment> \<open>the checks before the state is looked up; \<open>show_f64\<close> is \<open>Display\<close> of an \<open>f64\<close>\<close>
  "binding_head show_f64 c b =
     (if jb_format b \<noteq> JEV_BINDING_FORMAT
      then [diag ''CLQJ001'' ''$.colloq_jev''
             (''unsupported format '' @ jb_format b @ ''; expected '' @ JEV_BINDING_FORMAT)]
      else []) @
     (if jb_conversation b \<noteq> module_id (conv_module c)
      then [diag ''CLQJ002'' ''$.conversation''
             (''binding targets '' @ jb_conversation b @ '', but the conversation is '' @
              module_id (conv_module c))]
      else []) @
     (if blank (jb_model b) then [diag ''CLQJ003'' ''$.model'' ''model must not be empty''] else []) @
     (if \<not> in_unit (jb_threshold b)
      then [diag ''CLQJ004'' ''$.threshold''
             (''threshold '' @ show_f64 (jb_threshold b) @ '' must be within 0..=1'')]
      else []) @
     (if length (jb_criteria b) < 2
      then [diag ''CLQJ005'' ''$.criteria'' ''a Choice needs at least two options'']
      else [])"

definition binding_tail :: "string btree_set \<Rightarrow> 'w jev_binding \<Rightarrow> diagnostic list" where
  \<comment> \<open>the checks against the branches of the choice\<close>
  "binding_tail branches b =
     concat (map (\<lambda>option.
       if option \<notin> set branches
       then [diag ''CLQJ008'' (''$.criteria.'' @ option) (option @ '' is not a branch of '' @ jb_state b)]
       else []) (bt_keys (jb_criteria b))) @
     concat (map (\<lambda>branch.
       if branch \<noteq> jb_escalate b \<and> \<not> bt_contains (jb_criteria b) branch
       then [diag ''CLQJ009'' ''$.criteria''
              (''branch '' @ branch @ '' has no criterion, so Jev can never select it'')]
       else []) branches) @
     (if jb_escalate b \<notin> set branches
      then [diag ''CLQJ010'' ''$.escalate'' (jb_escalate b @ '' is not a branch of '' @ jb_state b)]
      else [])"

definition jev_bind :: "(f64 \<Rightarrow> string) \<Rightarrow> 'v conversation \<Rightarrow> 'w jev_binding
    \<Rightarrow> validation_errors + 'w bound_choice" where
  "jev_bind show_f64 c b =
     and_then (validate c) (\<lambda>_.
     let head = binding_head show_f64 c b in
     case find (\<lambda>s. gid s = jb_state b) (conv_states c) of
       Some (GChoice _ chooser branches _) \<Rightarrow>
         (let branches = bs_collect (bt_keys branches);
              ds = head @ binding_tail branches b
          in if ds = [] then Inr \<lparr>bc_binding = b, bc_chooser = chooser, bc_branches = branches\<rparr>
             else Inl ds)
     | Some _ \<Rightarrow> Inl (head @ [diag ''CLQJ006'' ''$.state'' (''state '' @ jb_state b @ '' is not a choice'')])
     | None \<Rightarrow> Inl (head @ [diag ''CLQJ007'' ''$.state'' (''state '' @ jb_state b @ '' does not exist'')]))"

section \<open>Questions and answers\<close>

record 'w choice_request =
  rq_model :: string
  rq_state :: 'w
  rq_instructions :: 'w
  rq_criteria :: "(string, string option) btree_map"

record choice_answer =
  ca_choice :: string
  ca_probabilities :: "(string, f64) btree_map"
  ca_confidence :: f64

datatype jev_error = JevUnavailable string | JevInvalidAnswer string

fun failure_id :: "jev_error \<Rightarrow> string" where
  "failure_id (JevUnavailable _) = ''jev.unavailable''"
| "failure_id (JevInvalidAnswer _) = ''jev.invalid_answer''"

record jev_decision =
  jd_state :: string
  jd_chooser :: string
  jd_label :: string
  jd_choice :: string
  jd_confidence :: f64
  jd_threshold :: f64
  jd_escalated :: bool
  jd_probabilities :: "(string, f64) btree_map"
  jd_model :: string

type_synonym ('s, 'w) decider = "'w choice_request \<Rightarrow> ('s, jev_error, choice_answer) action"

definition decide :: "(f64 \<Rightarrow> string) \<Rightarrow> 'w bound_choice \<Rightarrow> ('s, 'w) decider \<Rightarrow> 'w
    \<Rightarrow> ('s, jev_error, jev_decision) action" where
  "decide show_f64 bc ask state =
     (let b = bc_binding bc in
      act_then (ask \<lparr>rq_model = jb_model b, rq_state = state, rq_instructions = jb_instructions b,
        rq_criteria = jb_criteria b\<rparr>) (\<lambda>answer.
      act_then (from_result (guard_err (\<not> bt_contains (jb_criteria b) (ca_choice answer))
        (JevInvalidAnswer (''choice '' @ ca_choice answer @ '' is not an option of '' @ jb_state b)))) (\<lambda>_.
      act_then (from_result (guard_err (\<not> in_unit (ca_confidence answer))
        (JevInvalidAnswer (''confidence '' @ show_f64 (ca_confidence answer) @ '' is outside 0..=1'')))) (\<lambda>_.
      let escalated = f64_less (ca_confidence answer) (jb_threshold b) in
      done_with \<lparr>jd_state = jb_state b, jd_chooser = bc_chooser bc,
        jd_label = (if escalated then jb_escalate b else ca_choice answer),
        jd_choice = ca_choice answer, jd_confidence = ca_confidence answer,
        jd_threshold = jb_threshold b, jd_escalated = escalated,
        jd_probabilities = ca_probabilities answer, jd_model = jb_model b\<rparr>))))"

section \<open>The client of the service\<close>

record 'w json_view =
  jv_get :: "'w \<Rightarrow> string \<Rightarrow> 'w option"
  jv_text :: "'w \<Rightarrow> string option"
  jv_answer :: "'w \<Rightarrow> string + choice_answer"
  jv_object :: "(string \<times> 'w) list \<Rightarrow> 'w"
  jv_string :: "string \<Rightarrow> 'w"
  jv_criteria :: "(string, string option) btree_map \<Rightarrow> 'w"

record ('s, 'w, 'r) http_agent =
  ha_post :: "'w \<Rightarrow> ('s, string, 'r) action"
  ha_sleep :: "nat \<Rightarrow> 's \<Rightarrow> 's"
  ha_status :: "'r \<Rightarrow> u16"
  ha_body :: "'r \<Rightarrow> string option"
  ha_json :: "'r \<Rightarrow> string + 'w"

fun take_chars :: "nat \<Rightarrow> string \<Rightarrow> string" where
  \<comment> \<open>\<open>chars().take(n).collect()\<close>: the bytes 128 to 191 continue a character\<close>
  "take_chars n [] = []"
| "take_chars n (c # cs) =
     (if 128 \<le> (of_char c :: nat) \<and> (of_char c :: nat) < 192 then c # take_chars n cs
      else case n of 0 \<Rightarrow> [] | Suc k \<Rightarrow> c # take_chars k cs)"

definition choice_request_body :: "'w json_view \<Rightarrow> 'w choice_request \<Rightarrow> 'w" where
  "choice_request_body jv request =
     jv_object jv
       [(''state'', rq_state request),
        (''model'', jv_string jv (rq_model request)),
        (''questions'', jv_object jv
          [(QUESTION_ID, jv_object jv
             [(''type'', jv_string jv ''choice''),
              (''instructions'', rq_instructions request),
              (''criteria'', jv_criteria jv (rq_criteria request))])])]"

definition parse_choice_response :: "'w json_view \<Rightarrow> 'w \<Rightarrow> jev_error + choice_answer" where
  "parse_choice_response jv response =
     and_then (ok_or (JevInvalidAnswer (''response has no answers.'' @ QUESTION_ID))
       (case jv_get jv response ''answers'' of None \<Rightarrow> None | Some answers \<Rightarrow> jv_get jv answers QUESTION_ID))
       (\<lambda>answer.
     and_then (guard_err
       ((case jv_get jv answer ''type'' of None \<Rightarrow> None | Some t \<Rightarrow> jv_text jv t) \<noteq> Some ''choice'')
       (JevInvalidAnswer ''answer is not a choice'')) (\<lambda>_.
     map_err JevInvalidAnswer (jv_answer jv answer)))"

definition read_response :: "('s, 'w, 'r) http_agent \<Rightarrow> 'w json_view \<Rightarrow> 'r \<Rightarrow> jev_error + choice_answer" where
  \<comment> \<open>a response that is not tried again\<close>
  "read_response ha jv response =
     (if \<not> (200 \<le> ha_status ha response \<and> ha_status ha response < 300)
      then Inl (JevUnavailable (''HTTP '' @ show_nat (unat (ha_status ha response)) @ '': '' @
        take_chars 300 (case ha_body ha response of None \<Rightarrow> [] | Some detail \<Rightarrow> detail)))
      else and_then (map_err JevInvalidAnswer (ha_json ha response)) (parse_choice_response jv))"

definition retryable_status :: "u16 \<Rightarrow> bool" where
  "retryable_status status \<longleftrightarrow> status = 429 \<or> status = 529"

fun post_loop :: "('s, 'w, 'r) http_agent \<Rightarrow> 'w json_view \<Rightarrow> 'w \<Rightarrow> nat list
    \<Rightarrow> ('s, jev_error, choice_answer) action" where
  \<comment> \<open>the list holds the delays that are left, in milliseconds\<close>
  "post_loop ha jv body [] =
     act_then (act_map_err JevUnavailable (ha_post ha body)) (\<lambda>response.
     from_result (read_response ha jv response))"
| "post_loop ha jv body (delay # delays) =
     act_then (act_map_err JevUnavailable (ha_post ha body)) (\<lambda>response.
     if retryable_status (ha_status ha response)
     then (\<lambda>s. post_loop ha jv body delays (ha_sleep ha delay s))
     else from_result (read_response ha jv response))"

definition type_safe_choose :: "('s, 'w, 'r) http_agent \<Rightarrow> 'w json_view \<Rightarrow> ('s, 'w) decider" where
  \<comment> \<open>\<open><TypeSafeClient as Decider>::choose\<close>\<close>
  "type_safe_choose ha jv request = post_loop ha jv (choice_request_body jv request) [250, 1000]"

definition api_key_of :: "string option \<Rightarrow> (string \<Rightarrow> string) \<Rightarrow> jev_error + string" where
  \<comment> \<open>\<open>from_env\<close>: what the environment holds, and \<open>str::trim\<close>\<close>
  "api_key_of var trim =
     (case var of
        Some key \<Rightarrow> if \<not> blank key then Inr (trim key)
          else Inl (JevUnavailable ''TYPESAFE_API_KEY is not set'')
      | None \<Rightarrow> Inl (JevUnavailable ''TYPESAFE_API_KEY is not set''))"

section \<open>What the checks of a binding amount to\<close>

text \<open>A declarative reading of the ten diagnostics.\<close>

definition binding_ok :: "'v conversation \<Rightarrow> 'w jev_binding \<Rightarrow> string \<Rightarrow> edges \<Rightarrow> bool" where
  "binding_ok c b chooser branches \<longleftrightarrow>
     jb_format b = JEV_BINDING_FORMAT \<and> jb_conversation b = module_id (conv_module c) \<and>
     \<not> blank (jb_model b) \<and>
     (\<exists>x. jb_threshold b = F64 x \<and> 0 \<le> x \<and> x \<le> 1) \<and>
     2 \<le> length (jb_criteria b) \<and>
     (\<exists>f. GChoice (jb_state b) chooser branches f \<in> set (conv_states c)) \<and>
     set (bt_keys (jb_criteria b)) \<subseteq> set (bt_keys branches) \<and>
     set (bt_keys branches) \<subseteq> insert (jb_escalate b) (set (bt_keys (jb_criteria b))) \<and>
     jb_escalate b \<in> set (bt_keys branches)"

lemma in_unit_iff: "in_unit x \<longleftrightarrow> (\<exists>q. x = F64 q \<and> 0 \<le> q \<and> q \<le> 1)"
  by (cases x) (auto simp: in_unit_def)

lemma binding_head_empty:
  "binding_head show_f64 c b = [] \<longleftrightarrow>
     jb_format b = JEV_BINDING_FORMAT \<and> jb_conversation b = module_id (conv_module c) \<and>
     \<not> blank (jb_model b) \<and> in_unit (jb_threshold b) \<and> 2 \<le> length (jb_criteria b)"
  by (auto simp: binding_head_def not_less)

lemma concat_if_Nil: "concat (map (\<lambda>x. if P x then [f x] else []) xs) = [] \<longleftrightarrow> (\<forall>x \<in> set xs. \<not> P x)"
  by (induction xs) auto

lemma binding_tail_empty:
  "binding_tail branches b = [] \<longleftrightarrow>
     set (bt_keys (jb_criteria b)) \<subseteq> set branches \<and>
     set branches \<subseteq> insert (jb_escalate b) (set (bt_keys (jb_criteria b))) \<and>
     jb_escalate b \<in> set branches"
proof -
  have "binding_tail branches b = [] \<longleftrightarrow>
      (\<forall>x \<in> set (bt_keys (jb_criteria b)). x \<in> set branches) \<and>
      (\<forall>x \<in> set branches. x = jb_escalate b \<or> x \<in> set (bt_keys (jb_criteria b))) \<and>
      jb_escalate b \<in> set branches"
    unfolding binding_tail_def append_is_Nil_conv concat_if_Nil bt_contains_def by simp
  then show ?thesis by blast
qed

lemma decide_Inr:
  "decide show_f64 bc ask state s = (Inr d, s') \<longleftrightarrow>
     (\<exists>answer. ask \<lparr>rq_model = jb_model (bc_binding bc), rq_state = state,
          rq_instructions = jb_instructions (bc_binding bc), rq_criteria = jb_criteria (bc_binding bc)\<rparr> s =
          (Inr answer, s') \<and>
        bt_contains (jb_criteria (bc_binding bc)) (ca_choice answer) \<and> in_unit (ca_confidence answer) \<and>
        d = \<lparr>jd_state = jb_state (bc_binding bc), jd_chooser = bc_chooser bc,
          jd_label = (if f64_less (ca_confidence answer) (jb_threshold (bc_binding bc))
            then jb_escalate (bc_binding bc) else ca_choice answer),
          jd_choice = ca_choice answer, jd_confidence = ca_confidence answer,
          jd_threshold = jb_threshold (bc_binding bc),
          jd_escalated = f64_less (ca_confidence answer) (jb_threshold (bc_binding bc)),
          jd_probabilities = ca_probabilities answer, jd_model = jb_model (bc_binding bc)\<rparr>)"
  by (auto simp: decide_def Let_def act_then_Inr done_with_def guard_err_Inr)

end
