(* ===== verification/Jev_Properties.thy ===== *)
theory Jev_Properties
  imports Jev Examples Local_Global
begin

text \<open>
  A bound chooser only ever names a branch of its choice state, so the machine it drives never
  refuses its label; and the client of the service asks a bounded number of times.
\<close>

section \<open>Binding\<close>

lemma jev_bind_Inr:
  fixes c :: "'v conversation" and b :: "'w jev_binding"
  assumes maps: "maps_ok c"
  shows "jev_bind show_f64 c b = Inr bc \<longleftrightarrow>
    well_formed c \<and> (\<exists>chooser branches. binding_ok c b chooser branches \<and>
      bc = \<lparr>bc_binding = b, bc_chooser = chooser, bc_branches = bt_keys branches\<rparr>)"
proof (cases "well_formed c")
  case wf: True
  have sorted: "bs_collect (bt_keys branches) = bt_keys branches" if "bt_ok branches" for branches :: edges
    by (rule strict_sorted_equal [OF _ bs_collect_sorted]) (use that in \<open>simp_all add: bt_ok_def\<close>)
  have at: "GChoice i ch br f \<in> set (conv_states c) \<longleftrightarrow>
      find (\<lambda>s. gid s = i) (conv_states c) = Some (GChoice i ch br f)" for i ch br f
    using find_key_distinct [OF wf_distinct [OF wf], of "GChoice i ch br f"]
    by (auto dest: find_key_SomeD)
  have v: "validate c = Inr ()" by (simp add: validate_ok_iff wf)
  show ?thesis
  proof (cases "\<exists>ch br f. find (\<lambda>s. gid s = jb_state b) (conv_states c) = Some (GChoice (jb_state b) ch br f)")
    case True
    then obtain ch br f where s: "find (\<lambda>s. gid s = jb_state b) (conv_states c) = Some (GChoice (jb_state b) ch br f)"
      by blast
    then have "bt_ok br"
      using maps by (auto simp: maps_ok_def list_all_iff dest!: find_key_SomeD)
    then have keys: "bs_collect (bt_keys br) = bt_keys br" by (rule sorted)
    have "jev_bind show_f64 c b = Inr bc \<longleftrightarrow>
        binding_head show_f64 c b = [] \<and> binding_tail (bt_keys br) b = [] \<and>
        bc = \<lparr>bc_binding = b, bc_chooser = ch, bc_branches = bt_keys br\<rparr>"
      by (auto simp: jev_bind_def v s keys Let_def)
    then show ?thesis
      unfolding binding_head_empty binding_tail_empty binding_ok_def at s in_unit_iff using wf by auto
  next
    case False
    then have "\<not> binding_ok c b ch br" for ch br by (auto simp: binding_ok_def at)
    moreover have "jev_bind show_f64 c b \<noteq> Inr bc"
    proof (cases "find (\<lambda>s. gid s = jb_state b) (conv_states c)")
      case None
      then show ?thesis by (simp add: jev_bind_def v)
    next
      case (Some s)
      then have "gid s = jb_state b" by (auto dest: find_key_SomeD)
      with False Some show ?thesis by (cases s) (auto simp: jev_bind_def v Let_def)
    qed
    ultimately show ?thesis by blast
  qed
next
  case False
  then show ?thesis using validate_ok_iff [of c] by (auto simp: jev_bind_def result_simps)
qed

lemma validate_Inl: "validate c = Inl ds \<Longrightarrow> ds \<noteq> []"
  by (auto simp: validate_def Let_def case_prod_beta split: if_splits)

lemma jev_bind_Inl:
  assumes "jev_bind show_f64 c b = Inl ds"
  shows "ds \<noteq> []"
proof (cases "validate c")
  case (Inl ds')
  with assms validate_Inl show ?thesis by (auto simp: jev_bind_def)
next
  case (Inr u)
  show ?thesis
  proof (cases "find (\<lambda>s. gid s = jb_state b) (conv_states c)")
    case None
    with assms Inr show ?thesis by (auto simp: jev_bind_def)
  next
    case (Some s)
    with assms Inr show ?thesis by (cases s) (auto simp: jev_bind_def Let_def split: if_splits)
  qed
qed

text \<open>C36: binding is exact.  A binding is accepted exactly when the conversation is well formed and
  the ten conditions hold, and then it carries the chooser and the branches of its state.\<close>

theorem jev_bind_exact:
  fixes c :: "'v conversation" and b :: "'w jev_binding"
  assumes "maps_ok c"
  shows "(\<forall>bc. jev_bind show_f64 c b = Inr bc \<longleftrightarrow>
      well_formed c \<and> (\<exists>chooser branches. binding_ok c b chooser branches \<and>
        bc = \<lparr>bc_binding = b, bc_chooser = chooser, bc_branches = bt_keys branches\<rparr>)) \<and>
    (\<forall>ds. jev_bind show_f64 c b = Inl ds \<longrightarrow> ds \<noteq> [])"
  using jev_bind_Inr [OF assms] jev_bind_Inl by (intro conjI allI impI)

definition ping_binding :: "string jev_binding" where
  "ping_binding = \<lparr>jb_schema = None, jb_format = JEV_BINDING_FORMAT, jb_conversation = ''ping'',
     jb_state = ''pick'', jb_model = ''jev-latest'', jb_instructions = ''again?'',
     jb_criteria = [(''again'', None), (''stop'', Some ''enough'')], jb_threshold = F64 1,
     jb_escalate = ''stop''\<rparr>"

definition ping_bound :: "string bound_choice" where
  "ping_bound = \<lparr>bc_binding = ping_binding, bc_chooser = ''server'', bc_branches = [''again'', ''stop'']\<rparr>"

lemma ping_maps: "maps_ok ping"
  by code_simp

lemma ping_binding_ok: "binding_ok ping ping_binding ''server'' [(''again'', ''start''), (''stop'', ''halt'')]"
  by (simp add: binding_ok_def ping_binding_def ping_def blank_def)

lemma jev_bind_exact_witness: "jev_bind (\<lambda>_. []) ping ping_binding = Inr ping_bound"
proof -
  have "well_formed ping" using validate_ping by (simp add: validate_ok_iff)
  with ping_binding_ok have "well_formed ping \<and> (\<exists>chooser branches. binding_ok ping ping_binding chooser branches \<and>
      ping_bound = \<lparr>bc_binding = ping_binding, bc_chooser = chooser, bc_branches = bt_keys branches\<rparr>)"
    by (intro conjI exI [of _ "''server''"] exI [of _ "[(''again'', ''start''), (''stop'', ''halt'')]"])
       (simp_all add: ping_bound_def)
  then show ?thesis by (rule conjunct1 [OF jev_bind_exact [OF ping_maps], THEN spec, THEN iffD2])
qed

section \<open>Deciding\<close>

text \<open>C37: a decision is a declared branch.  Whatever an accepted binding decides, with whatever
  decider, is a branch of the choice state, and the machine of the chooser in that state emits
  it; the label is the answer's unless its confidence is below the threshold, and then it is the
  escalation.\<close>

theorem jev_decision_declared:
  fixes c :: "'v conversation" and b :: "'w jev_binding"
  assumes maps: "maps_ok c" and bound: "jev_bind show_f64 c b = Inr bc"
    and dec: "decide show_f64 bc ask state s = (Inr d, s')"
    and bel: "belongs c identity plan_identity (jd_chooser d) m" and cur: "m_current m = jd_state d"
  shows "jd_label d \<in> set (bc_branches bc) \<and>
    (\<exists>(e :: 'v envelope) m'. emit_select m (jd_label d) = Inr (e, m') \<and>
       env_frame e = FSelect (jd_chooser d) (jd_label d)) \<and>
    jd_label d = (if jd_escalated d then jb_escalate b else jd_choice d) \<and>
    jd_escalated d = f64_less (jd_confidence d) (jb_threshold b)"
proof -
  from bound obtain chooser branches where wf: "well_formed c" and ok: "binding_ok c b chooser branches"
    and bc: "bc = \<lparr>bc_binding = b, bc_chooser = chooser, bc_branches = bt_keys branches\<rparr>"
    by (auto simp: jev_bind_Inr [OF maps])
  from dec have d: "jd_chooser d = chooser" "jd_state d = jb_state b"
      "jd_choice d \<in> set (bt_keys (jb_criteria b))"
      "jd_label d = (if jd_escalated d then jb_escalate b else jd_choice d)"
      "jd_escalated d = f64_less (jd_confidence d) (jb_threshold b)"
    unfolding decide_Inr bc bt_contains_def by (auto simp del: set_map)
  with ok have lab: "jd_label d \<in> set (bt_keys branches)" by (auto simp: binding_ok_def)
  then obtain t where t: "bt_get branches (jd_label d) = Some t"
    by (metis bt_contains_def bt_contains_get option.exhaust)
  from ok obtain f where "GChoice (jb_state b) chooser branches f \<in> set (conv_states c)"
    by (auto simp: binding_ok_def)
  from find_key_distinct [OF wf_distinct [OF wf] this] d(1,2) cur
  have "state_of m = (Inr (ESelect (jb_state b) branches f) :: 'v runtime_error + _)"
    using bel by (simp add: state_of_def belongs_state [OF bel])
  then have "emit_select m (jd_label d) = (Inr (emit m (FSelect (m_role m) (jd_label d)) t) :: 'v runtime_error + _)"
    using t by (simp add: emit_select_def)
  moreover have "m_role m = jd_chooser d" by (rule belongs_fields(1) [OF bel])
  ultimately show ?thesis using lab d(4,5) bc
    by (simp add: emit_def)
qed

definition ping_answer :: choice_answer where
  "ping_answer = \<lparr>ca_choice = ''again'', ca_probabilities = [(''again'', F64 0)],
     ca_confidence = F64 0\<rparr>"

definition ping_decision :: jev_decision where
  \<comment> \<open>a confidence below the threshold\<close>
  "ping_decision = \<lparr>jd_state = ''pick'', jd_chooser = ''server'', jd_label = ''stop'', jd_choice = ''again'',
     jd_confidence = F64 0, jd_threshold = F64 1, jd_escalated = True,
     jd_probabilities = [(''again'', F64 0)], jd_model = ''jev-latest''\<rparr>"

lemma ping_decides:
  "decide show_f64 ping_bound (\<lambda>_. done_with ping_answer) ''?'' () = (Inr ping_decision, ())"
  by (simp add: decide_Inr ping_bound_def ping_binding_def ping_answer_def ping_decision_def done_with_def
      bt_contains_def in_unit_def)

lemma jev_decision_declared_witness:
  "\<exists>(e :: string envelope) m'.
     emit_select ((ping_machine ''server'')\<lparr>m_current := ''pick''\<rparr>) ''stop'' = Inr (e, m') \<and>
     env_frame e = FSelect ''server'' ''stop''"
proof -
  have bound: "jev_bind (\<lambda>_. []) ping ping_binding = Inr ping_bound"
    unfolding jev_bind_Inr [OF ping_maps] using ping_binding_ok validate_ping
    by (auto simp: validate_ok_iff ping_bound_def intro!: exI)
  have "belongs ping ping_identity ping_identity (jd_chooser ping_decision)
      ((ping_machine ''server'')\<lparr>m_current := ''pick''\<rparr>)"
    by (simp add: belongs_def ping_machine_def ping_decision_def ping_def plain_role_def)
  from conjunct1 [OF conjunct2 [OF jev_decision_declared [OF ping_maps bound ping_decides this]]]
  show ?thesis by (simp add: ping_decision_def)
qed

section \<open>Asking\<close>

definition counting_agent :: "('s, 'w, 'r) http_agent \<Rightarrow> ('s \<times> nat \<times> nat, 'w, 'r) http_agent" where
  \<comment> \<open>the same agent, with a count of its requests and of the milliseconds slept\<close>
  "counting_agent ha =
     \<lparr>ha_post = (\<lambda>body (s, n, z). case ha_post ha body s of (r, s') \<Rightarrow> (r, s', n + 1, z)),
      ha_sleep = (\<lambda>d (s, n, z). (ha_sleep ha d s, n, z + d)),
      ha_status = ha_status ha, ha_body = ha_body ha, ha_json = ha_json ha\<rparr>"

lemma post_loop_counts:
  "post_loop (counting_agent ha) jv body delays (s, n, z) = (r, s', n', z') \<Longrightarrow>
     n < n' \<and> n' \<le> n + Suc (length delays) \<and> z' \<le> z + sum_list delays \<and>
     post_loop ha jv body delays s = (r, s')"
proof (induction delays arbitrary: s n z)
  case Nil
  then show ?case
    by (auto simp: act_then_def act_map_err_def from_result_def counting_agent_def read_response_def
        split: prod.splits sum.splits)
next
  case (Cons d ds)
  obtain a s1 where post: "ha_post ha body s = (a, s1)" by force
  show ?case
  proof (cases a)
    case (Inl e)
    with Cons.prems post show ?thesis
      by (auto simp: act_then_def act_map_err_def counting_agent_def)
  next
    case (Inr response)
    show ?thesis
    proof (cases "retryable_status (ha_status ha response)")
      case True
      with Cons.prems post Inr
      have "post_loop (counting_agent ha) jv body ds (ha_sleep ha d s1, n + 1, z + d) = (r, s', n', z')"
        by (simp add: act_then_def act_map_err_def counting_agent_def)
      from Cons.IH [OF this] True post Inr show ?thesis
        by (auto simp: act_then_def act_map_err_def)
    next
      case False
      with Cons.prems post Inr show ?thesis
        by (auto simp: act_then_def act_map_err_def from_result_def counting_agent_def read_response_def)
    qed
  qed
qed

text \<open>The client asks at most three times.  Whatever the service answers, one question makes at
  least one and at most three requests and sleeps at most 1250 milliseconds; counting does not
  change its answer.\<close>

theorem jev_bounded_retry:
  assumes "type_safe_choose (counting_agent ha) jv request (s, 0, 0) = (r, s', requests, slept)"
  shows "1 \<le> requests \<and> requests \<le> 3 \<and> slept \<le> 1250 \<and> type_safe_choose ha jv request s = (r, s')"
  using post_loop_counts [OF assms [unfolded type_safe_choose_def]]
  by (auto simp: type_safe_choose_def)

lemma jev_bounded_retry_witness:
  "1 \<le> (3::nat) \<and> type_safe_choose \<lparr>ha_post = (\<lambda>_ _. (Inr (), ())), ha_sleep = (\<lambda>_ s. s), ha_status = (\<lambda>_. 429),
       ha_body = (\<lambda>_. None), ha_json = (\<lambda>_. Inl [])\<rparr> (undefined :: string json_view)
       \<lparr>rq_model = ''m'', rq_state = ''s'', rq_instructions = ''i'', rq_criteria = []\<rparr> () =
     (Inl (JevUnavailable ''HTTP 429: ''), ())"
proof -
  have shown: "show_nat 429 = ''429''" by code_simp
  let ?ha = "\<lparr>ha_post = (\<lambda>_ _. (Inr (), ())), ha_sleep = (\<lambda>_ s. s), ha_status = (\<lambda>_. 429),
       ha_body = (\<lambda>_. None), ha_json = (\<lambda>_. Inl [])\<rparr> :: (unit, string, unit) http_agent"
  have "type_safe_choose (counting_agent ?ha) (undefined :: string json_view)
      \<lparr>rq_model = ''m'', rq_state = ''s'', rq_instructions = ''i'', rq_criteria = []\<rparr> ((), 0, 0) =
      (Inl (JevUnavailable ''HTTP 429: ''), (), 3, 1250)"
    by (simp add: type_safe_choose_def counting_agent_def act_then_def act_map_err_def from_result_def
        retryable_status_def read_response_def shown)
  from jev_bounded_retry [OF this] show ?thesis by simp
qed

end
