(* ===== verification/Node.thy ===== *)
theory Node
  imports Hex Machine Link
begin

text \<open>
  \<open>src/src/node.rs\<close>: persistent identities, public tickets and the local policy of who may play
  which role of which plan.  Of \<open>iroh\<close> the code uses the text of an endpoint identity, its
  parser, the public key of a secret one, and endpoint addresses: the fields of \<open>iroh_keys\<close>.
  \<open>serde_json\<close> and the file system are arguments too.
\<close>

definition NODE_IDENTITY_FORMAT :: string where
  "NODE_IDENTITY_FORMAT = ''0.1.0''"

definition ENDPOINT_TICKET_FORMAT :: string where
  "ENDPOINT_TICKET_FORMAT = ''0.1.0''"

definition AUTHORIZATION_FORMAT :: string where
  "AUTHORIZATION_FORMAT = ''0.1.0''"

datatype node_error =
    NodeIo string
  | NodeJson string
  | NodeVersion string string string
  | NodeEndpointIdentity string
  | NodeSecretKey
  | NodeIdentityMismatch string
  | NodeMissingAddress
  | NodeUnauthorized string string string
  | NodeNoAuthorizedPeers string string

record ('id, 'ip, 'addr) iroh_keys =
  ik_show :: "'id \<Rightarrow> string"
  ik_parse :: "string \<Rightarrow> 'id option"
  ik_public :: "byte list \<Rightarrow> 'id"
  ik_addr :: "'id \<Rightarrow> 'ip list \<Rightarrow> 'addr"
  ik_addr_id :: "'addr \<Rightarrow> 'id"
  ik_addr_ips :: "'addr \<Rightarrow> 'ip list"

definition require_version :: "string \<Rightarrow> string \<Rightarrow> string \<Rightarrow> node_error + unit" where
  "require_version artifact got wanted = guard_err (got \<noteq> wanted) (NodeVersion artifact got wanted)"

definition parse_endpoint_id :: "('id, 'ip, 'addr) iroh_keys \<Rightarrow> string \<Rightarrow> node_error + 'id" where
  "parse_endpoint_id ik value = ok_or (NodeEndpointIdentity value) (ik_parse ik value)"

section \<open>Files\<close>

text \<open>What the code asks of the file system; a path's parent is \<open>None\<close> when it is absent or empty.\<close>

record ('s, 'p) file_system =
  fs_read :: "'p \<Rightarrow> ('s, string, byte list) action"
  fs_parent :: "'p \<Rightarrow> 'p option"
  fs_create_dirs :: "'p \<Rightarrow> ('s, string, unit) action"
  fs_write :: "'p \<Rightarrow> byte list \<Rightarrow> ('s, string, unit) action"
  fs_open_private :: "'p \<Rightarrow> ('s, string, unit) action"
  fs_append :: "'p \<Rightarrow> byte list \<Rightarrow> ('s, string, unit) action"
  fs_make_private :: "'p \<Rightarrow> ('s, string, unit) action"

definition create_parent :: "('s, 'p) file_system \<Rightarrow> 'p \<Rightarrow> ('s, node_error, unit) action" where
  "create_parent fs path =
     (case fs_parent fs path of
        None \<Rightarrow> done_with ()
      | Some parent \<Rightarrow> act_map_err NodeIo (fs_create_dirs fs parent))"

definition newline :: byte where
  "newline = 10"

definition write_public_json :: "('s, 'p) file_system \<Rightarrow> ('a \<Rightarrow> string + byte list) \<Rightarrow> 'p \<Rightarrow> 'a
    \<Rightarrow> ('s, node_error, unit) action" where
  "write_public_json fs to_json path value =
     act_then (create_parent fs path) (\<lambda>_.
     act_then (from_result (map_err NodeJson (to_json value))) (\<lambda>bytes.
     act_map_err NodeIo (fs_write fs path (bytes @ [newline]))))"

definition load_json :: "('s, 'p) file_system \<Rightarrow> (byte list \<Rightarrow> string + 'a) \<Rightarrow> ('a \<Rightarrow> node_error + unit) \<Rightarrow> 'p
    \<Rightarrow> ('s, node_error, 'a) action" where
  \<comment> \<open>the three \<open>load\<close> functions: read, decode, check\<close>
  "load_json fs from_json check path =
     act_then (act_map_err NodeIo (fs_read fs path)) (\<lambda>bytes.
     act_then (from_result (map_err NodeJson (from_json bytes))) (\<lambda>value.
     act_then (from_result (check value)) (\<lambda>_. done_with value)))"

section \<open>Identities\<close>

record node_identity =
  ni_format :: string
  ni_endpoint :: string
  ni_secret :: string

definition from_secret_key :: "('id, 'ip, 'addr) iroh_keys \<Rightarrow> byte list \<Rightarrow> node_identity" where
  "from_secret_key ik secret =
     \<lparr>ni_format = NODE_IDENTITY_FORMAT, ni_endpoint = ik_show ik (ik_public ik secret),
      ni_secret = encode_hex secret\<rparr>"

definition secret_key :: "('id, 'ip, 'addr) iroh_keys \<Rightarrow> node_identity \<Rightarrow> node_error + byte list" where
  "secret_key ik n =
     and_then (require_version ''Colloq node identity'' (ni_format n) NODE_IDENTITY_FORMAT) (\<lambda>_.
     and_then (ok_or NodeSecretKey (decode_32_bytes (ni_secret n))) (\<lambda>secret.
     and_then (guard_err (ik_show ik (ik_public ik secret) \<noteq> ni_endpoint n)
       (NodeIdentityMismatch (ni_endpoint n))) (\<lambda>_.
     Inr secret)))"

definition identity_endpoint_id :: "('id, 'ip, 'addr) iroh_keys \<Rightarrow> node_identity \<Rightarrow> node_error + 'id" where
  "identity_endpoint_id ik n = and_then (secret_key ik n) (\<lambda>secret. Inr (ik_public ik secret))"

definition load_identity :: "('s, 'p) file_system \<Rightarrow> (byte list \<Rightarrow> string + node_identity)
    \<Rightarrow> ('id, 'ip, 'addr) iroh_keys \<Rightarrow> 'p \<Rightarrow> ('s, node_error, node_identity) action" where
  "load_identity fs from_json ik =
     load_json fs from_json (\<lambda>n. and_then (secret_key ik n) (\<lambda>_. Inr ()))"

definition save_private :: "('s, 'p) file_system \<Rightarrow> (node_identity \<Rightarrow> string + byte list)
    \<Rightarrow> ('id, 'ip, 'addr) iroh_keys \<Rightarrow> 'p \<Rightarrow> node_identity \<Rightarrow> ('s, node_error, unit) action" where
  \<comment> \<open>as built for Unix: the file is opened with mode 0600 and set to it again at the end\<close>
  "save_private fs to_json ik path n =
     act_then (from_result (secret_key ik n)) (\<lambda>_.
     act_then (create_parent fs path) (\<lambda>_.
     act_then (from_result (map_err NodeJson (to_json n))) (\<lambda>bytes.
     act_map_err NodeIo
       (act_then (fs_open_private fs path) (\<lambda>_.
        act_then (fs_append fs path bytes) (\<lambda>_.
        act_then (fs_append fs path [newline]) (\<lambda>_.
        fs_make_private fs path)))))))"

section \<open>Tickets\<close>

record 'ip endpoint_ticket =
  et_format :: string
  et_endpoint :: string
  et_addresses :: "'ip list"

definition from_addr :: "('id, 'ip, 'addr) iroh_keys \<Rightarrow> 'addr \<Rightarrow> 'ip endpoint_ticket" where
  "from_addr ik a =
     \<lparr>et_format = ENDPOINT_TICKET_FORMAT, et_endpoint = ik_show ik (ik_addr_id ik a),
      et_addresses = ik_addr_ips ik a\<rparr>"

definition ticket_endpoint_id :: "('id, 'ip, 'addr) iroh_keys \<Rightarrow> 'ip endpoint_ticket \<Rightarrow> node_error + 'id" where
  "ticket_endpoint_id ik t = parse_endpoint_id ik (et_endpoint t)"

definition endpoint_addr :: "('id, 'ip, 'addr) iroh_keys \<Rightarrow> 'ip endpoint_ticket \<Rightarrow> node_error + 'addr" where
  "endpoint_addr ik t =
     and_then (require_version ''Colloq endpoint ticket'' (et_format t) ENDPOINT_TICKET_FORMAT) (\<lambda>_.
     and_then (guard_err (et_addresses t = []) NodeMissingAddress) (\<lambda>_.
     and_then (ticket_endpoint_id ik t) (\<lambda>i. Inr (ik_addr ik i (et_addresses t)))))"

definition load_ticket :: "('s, 'p) file_system \<Rightarrow> (byte list \<Rightarrow> string + 'ip endpoint_ticket)
    \<Rightarrow> ('id, 'ip, 'addr) iroh_keys \<Rightarrow> 'p \<Rightarrow> ('s, node_error, 'ip endpoint_ticket) action" where
  "load_ticket fs from_json ik =
     load_json fs from_json (\<lambda>t. and_then (endpoint_addr ik t) (\<lambda>_. Inr ()))"

definition save_ticket :: "('s, 'p) file_system \<Rightarrow> ('ip endpoint_ticket \<Rightarrow> string + byte list)
    \<Rightarrow> ('id, 'ip, 'addr) iroh_keys \<Rightarrow> 'p \<Rightarrow> 'ip endpoint_ticket \<Rightarrow> ('s, node_error, unit) action" where
  "save_ticket fs to_json ik path t =
     act_then (from_result (endpoint_addr ik t)) (\<lambda>_. write_public_json fs to_json path t)"

section \<open>The policy\<close>

record authorization_rule =
  ar_endpoint :: string
  ar_role :: string
  ar_plan :: string

record authorization_policy =
  ap_format :: string
  ap_rules :: "authorization_rule list"

definition default_policy :: authorization_policy where
  "default_policy = \<lparr>ap_format = AUTHORIZATION_FORMAT, ap_rules = []\<rparr>"

definition rule_key :: "authorization_rule \<Rightarrow> string \<times> string \<times> string" where
  "rule_key r = (ar_endpoint r, ar_role r, ar_plan r)"

definition rule_for :: "('id, 'ip, 'addr) iroh_keys \<Rightarrow> 'id \<Rightarrow> string \<Rightarrow> prepared_plan \<Rightarrow> authorization_rule" where
  "rule_for ik peer role plan =
     \<lparr>ar_endpoint = ik_show ik peer, ar_role = role, ar_plan = pp_plan_identity plan\<rparr>"

definition has_rule :: "authorization_policy \<Rightarrow> authorization_rule \<Rightarrow> bool" where
  \<comment> \<open>\<open>rules.iter().any(..)\<close> on the three fields\<close>
  "has_rule policy r \<longleftrightarrow>
     list_ex (\<lambda>x. ar_endpoint x = ar_endpoint r \<and> ar_role x = ar_role r \<and> ar_plan x = ar_plan r)
       (ap_rules policy)"

definition allow :: "('id, 'ip, 'addr) iroh_keys \<Rightarrow> 'id \<Rightarrow> string \<Rightarrow> prepared_plan
    \<Rightarrow> authorization_policy \<Rightarrow> authorization_policy" where
  \<comment> \<open>\<open>sort_by\<close> is stable, as \<open>sort_key\<close> is\<close>
  "allow ik peer role plan policy =
     (let r = rule_for ik peer role plan in
      if has_rule policy r then policy
      else policy\<lparr>ap_rules := sort_key rule_key (ap_rules policy @ [r])\<rparr>)"

definition validate_rule :: "('id, 'ip, 'addr) iroh_keys \<Rightarrow> authorization_rule \<Rightarrow> node_error + unit" where
  "validate_rule ik r =
     and_then (parse_endpoint_id ik (ar_endpoint r)) (\<lambda>_.
     guard_err (ar_role r = [] \<or> ar_plan r = [])
       (NodeUnauthorized (ar_endpoint r) (ar_role r) (ar_plan r)))"

definition validate_policy :: "('id, 'ip, 'addr) iroh_keys \<Rightarrow> authorization_policy \<Rightarrow> node_error + unit" where
  "validate_policy ik policy =
     and_then (require_version ''Colloq authorization policy'' (ap_format policy) AUTHORIZATION_FORMAT)
       (\<lambda>_. check_all (validate_rule ik) (ap_rules policy))"

definition authorize :: "('id, 'ip, 'addr) iroh_keys \<Rightarrow> 'id \<Rightarrow> string \<Rightarrow> prepared_plan
    \<Rightarrow> authorization_policy \<Rightarrow> node_error + unit" where
  "authorize ik peer role plan policy =
     and_then (validate_policy ik policy) (\<lambda>_.
     guard_err (\<not> has_rule policy (rule_for ik peer role plan))
       (NodeUnauthorized (ik_show ik peer) role (pp_plan_identity plan)))"

definition authorized_peers :: "('id, 'ip, 'addr) iroh_keys \<Rightarrow> string \<Rightarrow> prepared_plan
    \<Rightarrow> authorization_policy \<Rightarrow> node_error + 'id list" where
  "authorized_peers ik role plan policy =
     and_then (validate_policy ik policy) (\<lambda>_.
     and_then (map_result (\<lambda>r. parse_endpoint_id ik (ar_endpoint r))
       (filter (\<lambda>r. ar_role r = role \<and> ar_plan r = pp_plan_identity plan) (ap_rules policy))) (\<lambda>peers.
     and_then (guard_err (peers = []) (NodeNoAuthorizedPeers role (pp_plan_identity plan))) (\<lambda>_.
     Inr peers)))"

definition load_policy :: "('s, 'p) file_system \<Rightarrow> (byte list \<Rightarrow> string + authorization_policy)
    \<Rightarrow> ('id, 'ip, 'addr) iroh_keys \<Rightarrow> 'p \<Rightarrow> ('s, node_error, authorization_policy) action" where
  "load_policy fs from_json ik = load_json fs from_json (validate_policy ik)"

definition save_policy :: "('s, 'p) file_system \<Rightarrow> (authorization_policy \<Rightarrow> string + byte list)
    \<Rightarrow> ('id, 'ip, 'addr) iroh_keys \<Rightarrow> 'p \<Rightarrow> authorization_policy \<Rightarrow> ('s, node_error, unit) action" where
  "save_policy fs to_json ik path policy =
     act_then (from_result (validate_policy ik policy)) (\<lambda>_. write_public_json fs to_json path policy)"

section \<open>Lemmas\<close>

text \<open>What the code relies on in \<open>iroh\<close>: the text of an identity parses to it.\<close>

definition faithful_ids :: "('id, 'ip, 'addr) iroh_keys \<Rightarrow> bool" where
  "faithful_ids ik \<longleftrightarrow> (\<forall>i. ik_parse ik (ik_show ik i) = Some i)"

lemma faithful_ids_inj: "faithful_ids ik \<Longrightarrow> ik_show ik i = ik_show ik j \<longleftrightarrow> i = j"
  by (metis faithful_ids_def option.inject)

lemma has_rule_in: "has_rule policy r \<longleftrightarrow> r \<in> set (ap_rules policy)"
proof -
  have "(ar_endpoint x = ar_endpoint r \<and> ar_role x = ar_role r \<and> ar_plan x = ar_plan r) \<longleftrightarrow> x = r" for x
    by (cases x; cases r) simp
  then show ?thesis by (simp add: has_rule_def list_ex_iff)
qed

lemma allow_rules: "set (ap_rules (allow ik peer role plan policy)) =
    insert (rule_for ik peer role plan) (set (ap_rules policy))"
  by (auto simp: allow_def has_rule_in Let_def)

lemma allow_format [simp]: "ap_format (allow ik peer role plan policy) = ap_format policy"
  by (simp add: allow_def Let_def)

lemma validate_rule_Inr [result_simps]:
  "validate_rule ik r = Inr u \<longleftrightarrow> (\<exists>i. ik_parse ik (ar_endpoint r) = Some i) \<and> ar_role r \<noteq> [] \<and> ar_plan r \<noteq> []"
  by (auto simp: validate_rule_def parse_endpoint_id_def result_simps)

lemma validate_policy_Inr [result_simps]:
  "validate_policy ik policy = Inr u \<longleftrightarrow> ap_format policy = AUTHORIZATION_FORMAT \<and>
     (\<forall>r \<in> set (ap_rules policy). validate_rule ik r = Inr ())"
  by (auto simp: validate_policy_def require_version_def result_simps)

lemma authorize_Inr [result_simps]:
  "authorize ik peer role plan policy = Inr u \<longleftrightarrow>
     validate_policy ik policy = Inr () \<and> rule_for ik peer role plan \<in> set (ap_rules policy)"
  by (auto simp: authorize_def result_simps has_rule_in)

lemma authorized_peers_Inr [result_simps]:
  "authorized_peers ik role plan policy = Inr peers \<longleftrightarrow>
     validate_policy ik policy = Inr () \<and> peers \<noteq> [] \<and>
     list_all2 (\<lambda>r i. ik_parse ik (ar_endpoint r) = Some i)
       (filter (\<lambda>r. ar_role r = role \<and> ar_plan r = pp_plan_identity plan) (ap_rules policy)) peers"
  by (auto simp: authorized_peers_def result_simps map_result_Inr parse_endpoint_id_def)

text \<open>The invariant of a policy that only \<open>allow\<close> has changed.\<close>

definition policy_sorted :: "authorization_policy \<Rightarrow> bool" where
  "policy_sorted policy \<longleftrightarrow> sorted_wrt (<) (map rule_key (ap_rules policy))"

lemma rule_key_inj: "inj rule_key"
  by (auto simp: inj_def rule_key_def intro: authorization_rule.equality)

lemma policy_sorted_iff:
  "policy_sorted policy \<longleftrightarrow> sorted (map rule_key (ap_rules policy)) \<and> distinct (ap_rules policy)"
  using rule_key_inj by (auto simp: policy_sorted_def strict_sorted_iff distinct_map intro: inj_on_subset)

lemma allow_sorted: "policy_sorted policy \<Longrightarrow> policy_sorted (allow ik peer role plan policy)"
  by (auto simp: policy_sorted_iff allow_def Let_def has_rule_in)

end
