(* ===== verification/Node_Properties.thy ===== *)
theory Node_Properties
  imports Node Examples
begin

text \<open>
  The policy grants exactly what was allowed, is one canonical value for a set of grants, and
  lists the peers it would authorize; an identity is accepted only with its own secret.
\<close>

section \<open>Grants\<close>

text \<open>C35: a grant is exact.  After \<open>allow\<close> on a valid policy, a peer is authorized for a role of a
  plan exactly if it was before or if it is the one, the role and the plan of the new grant:
  nothing is granted in combination.\<close>

theorem policy_grants_exact:
  assumes ids: "faithful_ids ik" and valid: "validate_policy ik policy = Inr ()"
    and names: "role \<noteq> []" "pp_plan_identity plan \<noteq> []"
  shows "authorize ik peer' role' plan' (allow ik peer role plan policy) = Inr () \<longleftrightarrow>
    authorize ik peer' role' plan' policy = Inr () \<or>
    peer' = peer \<and> role' = role \<and> pp_plan_identity plan' = pp_plan_identity plan"
proof -
  have "validate_rule ik (rule_for ik peer role plan) = Inr ()"
    using ids names by (auto simp: validate_rule_Inr rule_for_def faithful_ids_def)
  then have "validate_policy ik (allow ik peer role plan policy) = Inr ()"
    using valid by (simp add: validate_policy_Inr allow_rules)
  moreover have "rule_for ik peer' role' plan' = rule_for ik peer role plan \<longleftrightarrow>
      peer' = peer \<and> role' = role \<and> pp_plan_identity plan' = pp_plan_identity plan"
    by (auto simp: rule_for_def faithful_ids_inj [OF ids])
  ultimately show ?thesis using valid by (auto simp: authorize_Inr allow_rules)
qed

definition plain_keys :: "(string, string, string \<times> string list) iroh_keys" where
  "plain_keys = \<lparr>ik_show = (\<lambda>i. i), ik_parse = Some, ik_public = (\<lambda>s. encode_hex (take 2 s)),
     ik_addr = Pair, ik_addr_id = fst, ik_addr_ips = snd\<rparr>"

lemma plain_keys_faithful: "faithful_ids plain_keys"
  by (simp add: faithful_ids_def plain_keys_def)

lemma default_policy_valid: "validate_policy ik default_policy = Inr ()"
  by (simp add: validate_policy_Inr default_policy_def)

lemma policy_grants_exact_witness:
  "authorize plain_keys ''a'' ''client'' ping_plan (allow plain_keys ''a'' ''client'' ping_plan default_policy) = Inr () \<and>
   authorize plain_keys ''a'' ''server'' ping_plan (allow plain_keys ''a'' ''client'' ping_plan default_policy) \<noteq> Inr ()"
  using policy_grants_exact [OF plain_keys_faithful default_policy_valid, of "''client''" ping_plan "''a''" _ ping_plan "''a''"]
  by (simp add: ping_plan_def ping_identity_def authorize_Inr default_policy_def)

definition policy_of :: "('id, 'ip, 'addr) iroh_keys \<Rightarrow> ('id \<times> string \<times> prepared_plan) list \<Rightarrow> authorization_policy" where
  "policy_of ik grants = fold (\<lambda>(peer, role, plan). allow ik peer role plan) grants default_policy"

lemma fold_allow:
  "ap_format (fold (\<lambda>(peer, role, plan). allow ik peer role plan) grants policy) = ap_format policy"
  "set (ap_rules (fold (\<lambda>(peer, role, plan). allow ik peer role plan) grants policy)) =
     (\<lambda>(peer, role, plan). rule_for ik peer role plan) ` set grants \<union> set (ap_rules policy)"
  "policy_sorted policy \<Longrightarrow>
     policy_sorted (fold (\<lambda>(peer, role, plan). allow ik peer role plan) grants policy)"
  by (induction grants arbitrary: policy) (auto simp: allow_rules allow_sorted)

lemma policy_of_rules:
  "set (ap_rules (policy_of ik grants)) = (\<lambda>(peer, role, plan). rule_for ik peer role plan) ` set grants"
  "policy_sorted (policy_of ik grants)"
  by (simp_all add: policy_of_def fold_allow default_policy_def policy_sorted_def [of "\<lparr>ap_format = _, ap_rules = []\<rparr>"])

text \<open>Policies are canonical.  However grants are ordered or repeated, the policy they lead to
  has each rule once, in ascending order, and no other; the same grants give the same policy.\<close>

theorem policy_canonical:
  shows "policy_sorted (policy_of ik grants) \<and>
    set (ap_rules (policy_of ik grants)) = (\<lambda>(peer, role, plan). rule_for ik peer role plan) ` set grants \<and>
    (set grants = set grants' \<longrightarrow> policy_of ik grants = policy_of ik grants')"
proof (intro conjI impI policy_of_rules)
  assume same: "set grants = set grants'"
  have "map rule_key (ap_rules (policy_of ik grants)) = map rule_key (ap_rules (policy_of ik grants'))"
  proof (rule strict_sorted_equal)
    show "sorted_wrt (<) (map rule_key (ap_rules (policy_of ik grants')))"
      "sorted_wrt (<) (map rule_key (ap_rules (policy_of ik grants)))"
      using policy_of_rules(2) by (auto simp: policy_sorted_def)
    show "set (map rule_key (ap_rules (policy_of ik grants))) = set (map rule_key (ap_rules (policy_of ik grants')))"
      by (simp add: policy_of_rules same)
  qed
  then have "ap_rules (policy_of ik grants) = ap_rules (policy_of ik grants')"
    using rule_key_inj by (metis inj_map_eq_map)
  moreover have "ap_format (policy_of ik grants) = ap_format (policy_of ik grants')"
    by (simp add: policy_of_def fold_allow)
  ultimately show "policy_of ik grants = policy_of ik grants'"
    by (intro authorization_policy.equality) simp_all
qed

lemma policy_canonical_witness:
  "policy_of plain_keys [(''b'', ''server'', ping_plan), (''a'', ''client'', ping_plan), (''b'', ''server'', ping_plan)] =
   policy_of plain_keys [(''a'', ''client'', ping_plan), (''b'', ''server'', ping_plan)]"
  by (rule policy_canonical [THEN conjunct2, THEN conjunct2, THEN mp]) auto

section \<open>Peers\<close>

text \<open>The listed peers are the authorized ones.  A peer that is authorized is listed for its role
  and plan.  If every identity of the policy is written the way its parser's result is shown, the
  listed peers are exactly the authorized ones.\<close>

theorem authorized_peers_exact:
  assumes ids: "faithful_ids ik" and peers: "authorized_peers ik role plan policy = Inr peers"
    and canonical: "\<And>r i. r \<in> set (ap_rules policy) \<Longrightarrow> ik_parse ik (ar_endpoint r) = Some i \<Longrightarrow>
      ik_show ik i = ar_endpoint r"
  shows "peer \<in> set peers \<longleftrightarrow> authorize ik peer role plan policy = Inr ()"
proof
  from peers have valid: "validate_policy ik policy = Inr ()"
    and all: "list_all2 (\<lambda>r i. ik_parse ik (ar_endpoint r) = Some i)
      (filter (\<lambda>r. ar_role r = role \<and> ar_plan r = pp_plan_identity plan) (ap_rules policy)) peers"
    by (simp_all add: authorized_peers_Inr)
  {
    assume "peer \<in> set peers"
    then obtain k where k: "k < length peers" "peers ! k = peer" by (auto simp: in_set_conv_nth)
    let ?rs = "filter (\<lambda>r. ar_role r = role \<and> ar_plan r = pp_plan_identity plan) (ap_rules policy)"
    have r: "?rs ! k \<in> set ?rs" "ik_parse ik (ar_endpoint (?rs ! k)) = Some peer"
      using all k by (auto simp: list_all2_conv_all_nth simp del: set_filter intro: nth_mem)
    then have "rule_for ik peer role plan = ?rs ! k"
      using canonical [of "?rs ! k"] by (auto simp: rule_for_def intro!: authorization_rule.equality)
    with r(1) valid show "authorize ik peer role plan policy = Inr ()"
      by (auto simp: authorize_Inr)
  }
  assume "authorize ik peer role plan policy = Inr ()"
  moreover define rs where
    "rs = filter (\<lambda>r. ar_role r = role \<and> ar_plan r = pp_plan_identity plan) (ap_rules policy)"
  ultimately have "rule_for ik peer role plan \<in> set rs"
    by (auto simp: authorize_Inr rule_for_def)
  then obtain k where k: "k < length rs" "rs ! k = rule_for ik peer role plan"
    unfolding in_set_conv_nth by blast
  with all [folded rs_def] have "k < length peers" "ik_parse ik (ar_endpoint (rule_for ik peer role plan)) = Some (peers ! k)"
    by (auto simp: list_all2_conv_all_nth)
  then show "peer \<in> set peers"
    using ids by (auto simp: rule_for_def faithful_ids_def)
qed

lemma authorized_peers_exact_witness:
  "authorize plain_keys ''a'' ''client'' ping_plan (policy_of plain_keys [(''a'', ''client'', ping_plan)]) = Inr ()"
proof -
  have "authorized_peers plain_keys ''client'' ping_plan (policy_of plain_keys [(''a'', ''client'', ping_plan)]) = Inr [''a'']"
    by code_simp
  from authorized_peers_exact [OF plain_keys_faithful this, of "''a''"] show ?thesis
    by (simp add: plain_keys_def)
qed

section \<open>Identities\<close>

text \<open>An identity is checked against its secret.  The identity made from a secret of 32 bytes
  yields it back.  An identity whose secret does not produce its endpoint yields an error, and
  then saving it touches no file.\<close>

theorem identity_checked:
  assumes "length secret = 32"
  shows "secret_key ik (from_secret_key ik secret) = Inr secret \<and>
    (secret_key ik n = Inr secret' \<longrightarrow> ik_show ik (ik_public ik secret') = ni_endpoint n) \<and>
    (secret_key ik n = Inl e \<longrightarrow> save_private fs to_json ik path n s = (Inl e, s))"
  using assms decode_32_encode [of secret]
  by (auto simp: secret_key_def from_secret_key_def require_version_def result_simps save_private_def
      act_then_def from_result_def)

lemma identity_checked_witness:
  "secret_key plain_keys (from_secret_key plain_keys (replicate 32 7)) = Inr (replicate 32 7)"
  by (rule conjunct1 [OF identity_checked]) simp

end
