(* ===== verification/Deploy.thy ===== *)
theory Deploy
  imports Strings Codec
begin

text \<open>
  \<open>src/src/deploy.rs\<close>: the deployment adapter.  Options are checked, a plan is compiled, and a
  manifest and a Dockerfile are rendered.  The TOML serialiser is an argument; paths are Unix
  paths, texts of bytes.
\<close>

section \<open>Paths\<close>

datatype path_component = RootDir | CurDir | ParentDir | NormalComponent string

definition is_absolute :: "string \<Rightarrow> bool" where
  "is_absolute p \<longleftrightarrow> take 1 p = ''/''"

definition component_of :: "string \<Rightarrow> path_component" where
  "component_of s = (if s = ''..'' then ParentDir else if s = ''.'' then CurDir else NormalComponent s)"

definition path_components :: "string \<Rightarrow> path_component list" where
  \<comment> \<open>\<open>Path::components\<close>: repeated separators and dots are left out, a leading dot is not\<close>
  "path_components p =
     (if is_absolute p then [RootDir] else if take 1 (split_on CHR ''/'' p) = [''.''] then [CurDir] else []) @
     map component_of (filter (\<lambda>s. s \<noteq> [] \<and> s \<noteq> ''.'') (split_on CHR ''/'' p))"

section \<open>Options\<close>

datatype deployment_error = DeployPlan plan_error | DeployToml string | DeployInvalid string

datatype miren_transport = MirenTcp | MirenIroh

record miren_options =
  mo_app_name :: string
  mo_source :: string
  mo_port :: u16
  mo_tokens :: nat
  mo_instances :: nat
  mo_wire :: wire_encoding
  mo_transport :: miren_transport
  mo_node_port :: bool

definition safe_char :: "char \<Rightarrow> bool" where
  \<comment> \<open>\<open>byte.is_ascii_alphanumeric() || matches!(byte, b'.' | b'_' | b'-')\<close>\<close>
  "safe_char c \<longleftrightarrow> is_lower c \<or> is_upper c \<or> is_digit c \<or> c = CHR ''.'' \<or> c = CHR ''_'' \<or> c = CHR ''-''"

fun safe_component :: "path_component \<Rightarrow> bool" where
  "safe_component (NormalComponent value) \<longleftrightarrow> value \<noteq> [] \<and> list_all safe_char value"
| "safe_component _ \<longleftrightarrow> False"

definition validate_build_source :: "(string \<Rightarrow> string) \<Rightarrow> string \<Rightarrow> deployment_error + unit" where
  "validate_build_source quoted_path path =
     and_then (guard_err (is_absolute path \<or> path = [])
       (DeployInvalid ''conversation source must be a non-empty path relative to the repository'')) (\<lambda>_.
     check_all (\<lambda>component. guard_err (\<not> safe_component component)
       (DeployInvalid (''conversation source '' @ quoted_path path @ '' contains a component unsafe for Docker COPY'')))
       (path_components path))"

definition miren_char :: "char \<Rightarrow> bool" where
  "miren_char c \<longleftrightarrow> is_lower c \<or> is_digit c \<or> c = CHR ''-''"

definition valid_miren_name :: "string \<Rightarrow> bool" where
  "valid_miren_name value \<longleftrightarrow>
     value \<noteq> [] \<and> (case value of [] \<Rightarrow> False | c # _ \<Rightarrow> is_lower c) \<and> list_all miren_char value"

definition miren_slug :: "string \<Rightarrow> string" where
  "miren_slug value = map (\<lambda>c. if miren_char c then c else CHR ''-'') value"

definition for_conversation :: "'v conversation \<Rightarrow> string \<Rightarrow> miren_options" where
  "for_conversation c source =
     \<lparr>mo_app_name = ''colloq-'' @ miren_slug (module_id (conv_module c)), mo_source = source,
      mo_port = 7878, mo_tokens = 3, mo_instances = 1, mo_wire = CompactEncoding,
      mo_transport = MirenTcp, mo_node_port = True\<rparr>"

definition validate_options :: "(string \<Rightarrow> string) \<Rightarrow> (string \<Rightarrow> string) \<Rightarrow> 'v conversation \<Rightarrow> miren_options
    \<Rightarrow> deployment_error + unit" where
  \<comment> \<open>\<open>quoted\<close> and \<open>quoted_path\<close> are \<open>{:?}\<close> of a text and of a path\<close>
  "validate_options quoted quoted_path c options =
     and_then (guard_err (\<not> valid_miren_name (mo_app_name options))
       (DeployInvalid (''app name '' @ quoted (mo_app_name options) @
          '' must contain lowercase letters, numbers, or dashes''))) (\<lambda>_.
     and_then (guard_err (mo_port options = 0)
       (DeployInvalid ''the Colloq service port cannot be zero'')) (\<lambda>_.
     and_then (guard_err (mo_instances options = 0)
       (DeployInvalid ''Miren requires at least one fixed service instance'')) (\<lambda>_.
     and_then (guard_err (\<not> list_ex (\<lambda>r. role_id r = ''client'') (conv_roles c) \<or>
         \<not> list_ex (\<lambda>r. role_id r = ''server'') (conv_roles c))
       (DeployInvalid ''the current deployable reference runtime requires client and server roles'')) (\<lambda>_.
     validate_build_source quoted_path (mo_source options)))))"

section \<open>The manifest\<close>

record miren_env =
  me_key :: string
  me_value :: "string option"
  me_required :: "bool option"
  me_sensitive :: "bool option"
  me_description :: "string option"

record miren_port =
  mp_port :: u16
  mp_name :: string
  mp_protocol :: string
  mp_node_port :: "u16 option"

record miren_concurrency =
  mc_mode :: string
  mc_instances :: nat
  mc_shutdown :: string

record miren_service =
  ms_command :: string
  ms_ports :: "miren_port list"
  ms_concurrency :: miren_concurrency

record miren_app =
  ma_name :: string
  ma_dockerfile :: string
  ma_env :: "miren_env list"
  ma_services :: "(string, miren_service) btree_map"

record miren_bundle =
  mb_app_toml :: string
  mb_dockerfile :: string
  mb_dockerfile_path :: string
  mb_plan_identity :: string
  mb_conversation_identity :: string

definition MIREN_DOCKERFILE :: string where
  "MIREN_DOCKERFILE = ''.miren/Dockerfile.colloq''"

definition env_value :: "string \<Rightarrow> string \<Rightarrow> miren_env" where
  "env_value key value = \<lparr>me_key = key, me_value = Some value, me_required = None, me_sensitive = None,
     me_description = None\<rparr>"

definition env_required :: "string \<Rightarrow> bool \<Rightarrow> string \<Rightarrow> miren_env" where
  "env_required key sensitive text = \<lparr>me_key = key, me_value = None, me_required = Some True,
     me_sensitive = Some sensitive, me_description = Some text\<rparr>"

definition miren_command :: "miren_options \<Rightarrow> string" where
  "miren_command options =
     (let wire = encoding_str (mo_wire options);
          port = show_nat (unat (mo_port options));
          tokens = show_nat (mo_tokens options)
      in case mo_transport options of
          MirenTcp \<Rightarrow>
            ''/bin/colloq serve /etc/colloq/conversation.json --listen 0.0.0.0:'' @ port @
            '' --tokens '' @ tokens @ '' --wire '' @ wire @ '' --forever''
        | MirenIroh \<Rightarrow>
            ''/bin/colloq serve-iroh /etc/colloq/conversation.json --identity '' @
            ''/run/colloq/server.colloqnode.json --policy /run/colloq/server.authorization.json '' @
            ''--listen 0.0.0.0:'' @ port @ '' --ticket-out /tmp/server.colloqendpoint.json --tokens '' @
            tokens @ '' --wire '' @ wire)"

definition miren_environment :: "miren_options \<Rightarrow> colloq_plan \<Rightarrow> miren_env list" where
  "miren_environment options plan =
     [env_value ''COLLOQ_PLAN_IDENTITY'' (pl_plan_identity plan),
      env_value ''COLLOQ_CONVERSATION_IDENTITY'' (pl_conversation_identity plan)] @
     (if mo_transport options = MirenIroh
      then [env_required ''COLLOQ_NODE_IDENTITY_JSON'' True
              ''Local Colloq node identity JSON; contains the Iroh private key.'',
            env_required ''COLLOQ_AUTHORIZATION_JSON'' True
              ''Exact peer/role/plan authorization policy JSON.'',
            env_required ''COLLOQ_ADVERTISE_ADDRESS'' False
              ''Public or overlay socket address advertised in the endpoint ticket.'']
      else [])"

definition miren_app_of :: "miren_options \<Rightarrow> colloq_plan \<Rightarrow> miren_app" where
  "miren_app_of options plan =
     \<lparr>ma_name = mo_app_name options, ma_dockerfile = MIREN_DOCKERFILE,
      ma_env = miren_environment options plan,
      ma_services =
        [(''server'',
          \<lparr>ms_command = miren_command options,
           ms_ports = [\<lparr>mp_port = mo_port options, mp_name = ''colloq'',
             mp_protocol = (case mo_transport options of MirenTcp \<Rightarrow> ''tcp'' | MirenIroh \<Rightarrow> ''udp''),
             mp_node_port = (if mo_node_port options then Some (mo_port options) else None)\<rparr>],
           ms_concurrency = \<lparr>mc_mode = ''fixed'', mc_instances = mo_instances options,
             mc_shutdown = ''10s''\<rparr>\<rparr>)]\<rparr>"

definition copy_line :: "string \<Rightarrow> string" where
  "copy_line source = ''COPY '' @ source @ '' /etc/colloq/conversation.json''"

definition dockerfile_lines :: "string \<Rightarrow> string list" where
  "dockerfile_lines source =
     [''FROM rust:1.96-bookworm AS build'',
      ''WORKDIR /src'',
      ''COPY Cargo.toml Cargo.lock ./'',
      ''COPY src ./src'',
      ''RUN cargo build --release --locked'',
      [],
      ''FROM debian:bookworm-slim'',
      ''RUN apt-get update && apt-get install -y --no-install-recommends ca-certificates '' @
        ''&& rm -rf /var/lib/apt/lists/*'',
      ''COPY --from=build /src/target/release/colloq /bin/colloq'',
      copy_line source,
      ''COPY examples/draft-sync.colloqconv.json /etc/colloq/draft-sync.colloqconv.json'',
      ''USER 65532:65532'']"

definition newline_char :: char where
  "newline_char = CHR 0x0A"

definition dockerfile_of :: "string \<Rightarrow> string" where
  "dockerfile_of source = concat (map (\<lambda>line. line @ [newline_char]) (dockerfile_lines source))"

definition render_miren_bundle :: "(string \<Rightarrow> string) \<Rightarrow> (string \<Rightarrow> string) \<Rightarrow> (miren_app \<Rightarrow> string + string)
    \<Rightarrow> 'v externals \<Rightarrow> 'v conversation \<Rightarrow> miren_options \<Rightarrow> deployment_error + miren_bundle" where
  \<comment> \<open>a checked source is made of ASCII characters, so \<open>to_str\<close> succeeds\<close>
  "render_miren_bundle quoted quoted_path to_toml ext c options =
     and_then (validate_options quoted quoted_path c options) (\<lambda>_.
     and_then (map_err DeployPlan (compile ext c)) (\<lambda>plan.
     and_then (map_err DeployToml (to_toml (miren_app_of options plan))) (\<lambda>toml.
     Inr \<lparr>mb_app_toml = toml, mb_dockerfile = dockerfile_of (mo_source options),
          mb_dockerfile_path = MIREN_DOCKERFILE, mb_plan_identity = pl_plan_identity plan,
          mb_conversation_identity = pl_conversation_identity plan\<rparr>)))"

section \<open>Lemmas\<close>

lemma safe_char_not:
  "\<not> safe_char CHR ''/''" "\<not> safe_char newline_char" "safe_char CHR ''.''"
  by (simp_all add: safe_char_def is_lower_def is_upper_def is_digit_def newline_char_def)

lemma safe_component_of:
  "safe_component (component_of s) \<longleftrightarrow> s \<noteq> ''..'' \<and> s \<noteq> ''.'' \<and> s \<noteq> [] \<and> list_all safe_char s"
  by (auto simp: component_of_def)

lemma validate_build_source_Inr:
  "validate_build_source quoted_path p = Inr u \<longleftrightarrow>
     p \<noteq> [] \<and> \<not> is_absolute p \<and> take 1 (split_on CHR ''/'' p) \<noteq> [''.''] \<and>
     ''..'' \<notin> set (split_on CHR ''/'' p) \<and> (\<forall>c \<in> set p. safe_char c \<or> c = CHR ''/'')"
proof -
  have chars: "(\<forall>s \<in> set (split_on CHR ''/'' p). s \<noteq> [] \<and> s \<noteq> ''.'' \<longrightarrow> list_all safe_char s) \<longleftrightarrow>
      (\<forall>c \<in> set p. safe_char c \<or> c = CHR ''/'')"
  proof
    assume all: "\<forall>s \<in> set (split_on CHR ''/'' p). s \<noteq> [] \<and> s \<noteq> ''.'' \<longrightarrow> list_all safe_char s"
    show "\<forall>c \<in> set p. safe_char c \<or> c = CHR ''/''"
    proof
      fix c
      assume "c \<in> set p"
      then consider "c = CHR ''/''" | s where "s \<in> set (split_on CHR ''/'' p)" "c \<in> set s"
        using split_pieces_set [of p "CHR ''/''"] by auto
      then show "safe_char c \<or> c = CHR ''/''"
      proof cases
        case 2
        show ?thesis
        proof (cases "s = ''.''")
          case True
          with 2(2) safe_char_not(3) show ?thesis by simp
        next
          case False
          moreover have "s \<noteq> []" using 2(2) by auto
          ultimately have "list_all safe_char s" using all 2(1) by blast
          with 2(2) show ?thesis by (simp add: list_all_iff)
        qed
      qed simp
    qed
  next
    assume all: "\<forall>c \<in> set p. safe_char c \<or> c = CHR ''/''"
    show "\<forall>s \<in> set (split_on CHR ''/'' p). s \<noteq> [] \<and> s \<noteq> ''.'' \<longrightarrow> list_all safe_char s"
      unfolding list_all_iff
    proof (intro ballI impI)
      fix s c
      assume s: "s \<in> set (split_on CHR ''/'' p)" and c: "c \<in> set s"
      have "c \<in> set p" using split_pieces_subset [OF s] c by blast
      moreover have "c \<noteq> CHR ''/''" using split_pieces_free [OF s] c by blast
      ultimately show "safe_char c" using all by blast
    qed
  qed
  have "validate_build_source quoted_path p = Inr u \<longleftrightarrow>
      p \<noteq> [] \<and> \<not> is_absolute p \<and> (\<forall>x \<in> set (path_components p). safe_component x)"
    by (auto simp: validate_build_source_def result_simps)
  also have "\<dots> \<longleftrightarrow> p \<noteq> [] \<and> \<not> is_absolute p \<and> take 1 (split_on CHR ''/'' p) \<noteq> [''.''] \<and>
      (\<forall>s \<in> set (split_on CHR ''/'' p). s \<noteq> [] \<and> s \<noteq> ''.'' \<longrightarrow> s \<noteq> ''..'' \<and> list_all safe_char s)"
  proof -
    have "(\<forall>x \<in> set (path_components p). safe_component x) \<longleftrightarrow>
        take 1 (split_on CHR ''/'' p) \<noteq> [''.''] \<and>
        (\<forall>s \<in> set (split_on CHR ''/'' p). s \<noteq> [] \<and> s \<noteq> ''.'' \<longrightarrow> safe_component (component_of s))"
      if "\<not> is_absolute p"
      unfolding path_components_def if_not_P [OF that] by (cases "take 1 (split_on CHR ''/'' p) = [''.'']") (simp_all, blast)
    then show ?thesis unfolding safe_component_of by blast
  qed
  finally have "validate_build_source quoted_path p = Inr u \<longleftrightarrow> p \<noteq> [] \<and> \<not> is_absolute p \<and>
      take 1 (split_on CHR ''/'' p) \<noteq> [''.''] \<and> ''..'' \<notin> set (split_on CHR ''/'' p) \<and>
      (\<forall>s \<in> set (split_on CHR ''/'' p). s \<noteq> [] \<and> s \<noteq> ''.'' \<longrightarrow> list_all safe_char s)"
    by fast
  then show ?thesis unfolding chars .
qed

lemma miren_slug_valid: "list_all miren_char (miren_slug s)"
  by (auto simp: miren_slug_def list_all_iff miren_char_def)

lemma default_name_valid: "valid_miren_name (''colloq-'' @ miren_slug s)"
  using miren_slug_valid [of s] by (auto simp: valid_miren_name_def miren_char_def is_lower_def)

end
