(* ===== verification/Deploy_Properties.thy ===== *)
theory Deploy_Properties
  imports Deploy Examples
begin

text \<open>
  What is rendered for a deployment is bound to the compiled plan, and nothing of the options can
  escape its line of the Dockerfile.
\<close>

text \<open>Sources stay inside the build context.  A source is accepted exactly when it is relative,
  not empty, does not start with a dot component, has no parent component, and is made of
  letters, digits, dots, underscores, dashes and slashes.\<close>

theorem build_source_safe:
  "validate_build_source quoted_path p = Inr () \<longleftrightarrow>
     p \<noteq> [] \<and> \<not> is_absolute p \<and> take 1 (split_on CHR ''/'' p) \<noteq> [''.''] \<and>
     ''..'' \<notin> set (split_on CHR ''/'' p) \<and> (\<forall>c \<in> set p. safe_char c \<or> c = CHR ''/'')"
  by (rule validate_build_source_Inr)

lemma build_source_safe_witness:
  "validate_build_source (\<lambda>s. s) ''examples/generate.json'' = Inr ()"
proof -
  have "take 1 (split_on CHR ''/'' ''examples/generate.json'') \<noteq> [''.''] \<and>
      ''..'' \<notin> set (split_on CHR ''/'' ''examples/generate.json'') \<and>
      (\<forall>c \<in> set ''examples/generate.json''. safe_char c \<or> c = CHR ''/'') \<and> \<not> is_absolute ''examples/generate.json''"
    by code_simp
  then show ?thesis by (simp only: build_source_safe) simp
qed

text \<open>A bundle is bound to its plan.  When a bundle is rendered, its identities are those of the
  plan that compiles from the conversation and the manifest carries them; the Dockerfile has the
  twelve lines the adapter writes, the source on the tenth, whatever the source is.\<close>

theorem bundle_bound:
  assumes "render_miren_bundle quoted quoted_path to_toml ext c options = Inr bundle"
  shows "\<exists>plan. compile ext c = Inr plan \<and> mb_plan_identity bundle = pl_plan_identity plan \<and>
      mb_conversation_identity bundle = pl_conversation_identity plan \<and>
      to_toml (miren_app_of options plan) = Inr (mb_app_toml bundle) \<and>
      take 2 (ma_env (miren_app_of options plan)) =
        [env_value ''COLLOQ_PLAN_IDENTITY'' (mb_plan_identity bundle),
         env_value ''COLLOQ_CONVERSATION_IDENTITY'' (mb_conversation_identity bundle)] \<and>
      split_on newline_char (mb_dockerfile bundle) = dockerfile_lines (mo_source options) @ [[]] \<and>
      mo_port options \<noteq> 0 \<and> 0 < mo_instances options \<and> valid_miren_name (mo_app_name options)"
proof -
  from assms obtain plan toml where plan: "compile ext c = Inr plan"
    and toml: "to_toml (miren_app_of options plan) = Inr toml"
    and okay: "validate_options quoted quoted_path c options = Inr ()"
    and mb: "bundle = \<lparr>mb_app_toml = toml, mb_dockerfile = dockerfile_of (mo_source options),
      mb_dockerfile_path = MIREN_DOCKERFILE, mb_plan_identity = pl_plan_identity plan,
      mb_conversation_identity = pl_conversation_identity plan\<rparr>"
    by (auto simp: render_miren_bundle_def result_simps)
  from okay have chars: "\<forall>c \<in> set (mo_source options). safe_char c \<or> c = CHR ''/''"
    and rest: "mo_port options \<noteq> 0" "0 < mo_instances options" "valid_miren_name (mo_app_name options)"
    by (simp_all add: validate_options_def result_simps validate_build_source_Inr)
  then have "newline_char \<notin> set (mo_source options)"
    using safe_char_not(2) by (auto simp: newline_char_def)
  then have free: "newline_char \<notin> set line" if "line \<in> set (dockerfile_lines (mo_source options))" for line
    using that by (auto simp: dockerfile_lines_def copy_line_def newline_char_def)
  have "split_on newline_char (concat (map (\<lambda>line. line @ [newline_char]) ls)) = ls @ [[]]"
    if "\<And>line. line \<in> set ls \<Longrightarrow> newline_char \<notin> set line" for ls
    using that by (induction ls) (simp_all add: split_on_append)
  from this [OF free] have "split_on newline_char (dockerfile_of (mo_source options)) =
      dockerfile_lines (mo_source options) @ [[]]"
    by (simp add: dockerfile_of_def)
  with plan toml mb rest show ?thesis
    by (simp add: miren_app_of_def miren_environment_def)
qed

definition ping_options :: miren_options where
  "ping_options = for_conversation ping ''examples/ping.json''"

lemma ping_options_checked: "validate_options (\<lambda>s. s) (\<lambda>s. s) ping ping_options = Inr ()"
  by code_simp

lemma ping_bundle:
  "\<exists>bundle. render_miren_bundle (\<lambda>s. s) (\<lambda>s. s) (\<lambda>app. Inr (ma_name app)) plain_externals ping ping_options = Inr bundle"
proof -
  have "case compile plain_externals ping of Inr _ \<Rightarrow> True | Inl _ \<Rightarrow> False" by code_simp
  then obtain plan where "compile plain_externals ping = Inr plan" by (auto split: sum.splits)
  with ping_options_checked show ?thesis by (simp add: render_miren_bundle_def)
qed

lemma bundle_bound_witness:
  "\<exists>bundle :: miren_bundle. split_on newline_char (mb_dockerfile bundle) = dockerfile_lines ''examples/ping.json'' @ [[]]"
proof -
  obtain b where
    "render_miren_bundle (\<lambda>s. s) (\<lambda>s. s) (\<lambda>app. Inr (ma_name app)) plain_externals ping ping_options = Inr b"
    using ping_bundle by blast
  from bundle_bound [OF this] show ?thesis by (auto simp: ping_options_def for_conversation_def)
qed

end
