(* ===== verification/Draft.thy ===== *)
theory Draft
  imports Strings Plan_Correct Link
begin

text \<open>
  \<open>src/src/graph.rs\<close>: collaborative drafts and the gate through which one becomes a plan.
  Automerge is an argument: a document is a value of the type \<open>'d\<close>, and \<open>automerge\<close> holds the
  operations the code calls on it.  The walk over the objects of a document takes fuel, one unit
  for each level of nesting, and \<open>None\<close> means that there was not enough.
\<close>

section \<open>Values\<close>

text \<open>\<open>serde_json::Value\<close>, with the numbers and their three readings left open.\<close>

datatype 'n json =
    JNull | JBool bool | JNumber 'n | JString string | JArray "'n json list"
  | JObject "(string \<times> 'n json) list"

datatype 'f scalar =
    ScNull | ScBool bool | ScInt int | ScUint u64 | ScFloat 'f | ScText string

datatype 'f hydrate =
    HScalar "'f scalar" | HList "'f hydrate list" | HMap "(string \<times> 'f hydrate) list"

record ('n, 'f) number_view =
  nv_i64 :: "'n \<Rightarrow> int option"
  nv_u64 :: "'n \<Rightarrow> u64 option"
  nv_f64 :: "'n \<Rightarrow> 'f option"

datatype pointer_detail =
    MustBegin | InvalidEscape | TextContainer | ScalarParent | MissingParent
  | NotAnIndex string | NoSuchIndex nat

datatype draft_error =
    DraftAutomerge string
  | DraftJson string
  | DraftValidation validation_errors
  | DraftPlan plan_error
  | DraftStaleBase
  | DraftInvalidPointer string pointer_detail
  | DraftNonScalarPatch string
  | DraftUnresolvedConflicts string
  | DraftSync string

record 'n draft_patch =
  dp_path :: string
  dp_value :: "'n json"

record draft_conflict =
  dc_path :: string
  dc_values :: nat

definition json_to_scalar :: "('n, 'f) number_view \<Rightarrow> string \<Rightarrow> 'n json \<Rightarrow> draft_error + 'f scalar" where
  "json_to_scalar nv path value =
     (case value of
        JNull \<Rightarrow> Inr ScNull
      | JBool b \<Rightarrow> Inr (ScBool b)
      | JNumber n \<Rightarrow>
          ok_or (DraftNonScalarPatch path)
            (case nv_i64 nv n of
               Some i \<Rightarrow> Some (ScInt i)
             | None \<Rightarrow>
                 (case nv_u64 nv n of
                    Some u \<Rightarrow> Some (ScUint u)
                  | None \<Rightarrow> map_option ScFloat (nv_f64 nv n)))
      | JString s \<Rightarrow> Inr (ScText s)
      | JArray _ \<Rightarrow> Inl (DraftNonScalarPatch path)
      | JObject _ \<Rightarrow> Inl (DraftNonScalarPatch path))"

fun json_to_hydrate :: "('n, 'f) number_view \<Rightarrow> 'n json \<Rightarrow> 'f hydrate option" where
  \<comment> \<open>\<open>None\<close> is the panic of a number that is not finite\<close>
  "json_to_hydrate nv JNull = Some (HScalar ScNull)"
| "json_to_hydrate nv (JBool b) = Some (HScalar (ScBool b))"
| "json_to_hydrate nv (JNumber n) =
     (case nv_i64 nv n of
        Some i \<Rightarrow> Some (HScalar (ScInt i))
      | None \<Rightarrow>
          (case nv_u64 nv n of
             Some u \<Rightarrow> Some (HScalar (ScUint u))
           | None \<Rightarrow> map_option (\<lambda>f. HScalar (ScFloat f)) (nv_f64 nv n)))"
| "json_to_hydrate nv (JString s) = Some (HScalar (ScText s))"
| "json_to_hydrate nv (JArray vs) = map_option HList (those (map (json_to_hydrate nv) vs))"
| "json_to_hydrate nv (JObject kvs) =
     map_option HMap (those (map (\<lambda>(k, v). map_option (Pair k) (json_to_hydrate nv v)) kvs))"

section \<open>JSON pointers\<close>

fun decode_segment :: "string \<Rightarrow> string option" where
  \<comment> \<open>\<open>None\<close> is an invalid escape\<close>
  "decode_segment [] = Some []"
| "decode_segment (c # cs) =
     (if c \<noteq> CHR 0x7E then map_option ((#) c) (decode_segment cs)
      else case cs of
          [] \<Rightarrow> None
        | e # es \<Rightarrow>
            if e = CHR ''0'' then map_option ((#) (CHR 0x7E)) (decode_segment es)
            else if e = CHR ''1'' then map_option ((#) (CHR ''/'')) (decode_segment es)
            else None)"

definition decode_pointer_segment :: "string \<Rightarrow> string \<Rightarrow> draft_error + string" where
  "decode_pointer_segment path segment =
     ok_or (DraftInvalidPointer path InvalidEscape) (decode_segment segment)"

definition parse_pointer :: "string \<Rightarrow> draft_error + string list" where
  "parse_pointer path =
     (if take 1 path \<noteq> ''/'' \<or> path = ''/'' then Inl (DraftInvalidPointer path MustBegin)
      else map_result (decode_pointer_segment path) (split_on CHR ''/'' (drop 1 path)))"

fun escape_segment :: "string \<Rightarrow> string" where
  \<comment> \<open>\<open>replace('~', "~0").replace('/', "~1")\<close> in one pass\<close>
  "escape_segment [] = []"
| "escape_segment (c # cs) =
     (if c = CHR 0x7E then [CHR 0x7E, CHR ''0''] else if c = CHR ''/'' then [CHR 0x7E, CHR ''1''] else [c]) @
     escape_segment cs"

definition push_pointer_segment :: "string \<Rightarrow> string \<Rightarrow> string" where
  "push_pointer_segment path segment = path @ ''/'' @ escape_segment segment"

definition is_decimal :: "char \<Rightarrow> bool" where
  "is_decimal c \<longleftrightarrow> 48 \<le> (of_char c :: nat) \<and> (of_char c :: nat) \<le> 57"

definition decimal_value :: "string \<Rightarrow> nat" where
  "decimal_value s = fold (\<lambda>c n. n * 10 + (of_char c - 48)) s 0"

definition parse_usize :: "string \<Rightarrow> nat option" where
  \<comment> \<open>\<open>str::parse::<usize>\<close> on a 64-bit machine; one leading plus sign is skipped\<close>
  "parse_usize s =
     (let digits = (case s of c # cs \<Rightarrow> if c = CHR ''+'' then cs else s | [] \<Rightarrow> []) in
      if digits = [] \<or> \<not> list_all is_decimal digits \<or> 2 ^ 64 \<le> decimal_value digits then None
      else Some (decimal_value digits))"

definition pointer_index :: "string \<Rightarrow> string \<Rightarrow> draft_error + nat" where
  "pointer_index path segment =
     ok_or (DraftInvalidPointer path (NotAnIndex segment)) (parse_usize segment)"

section \<open>Documents\<close>

datatype obj_type = AmMap | AmTable | AmList | AmText
datatype place = PKey string | PIndex nat
datatype 'o am_value = AmObject 'o | AmScalar

record ('d, 'o, 'h, 'f) automerge =
  am_root :: 'o
  am_heads :: "'d \<Rightarrow> 'h list \<times> 'd"  \<comment> \<open>reading the heads commits what is pending\<close>
  am_type :: "'d \<Rightarrow> 'o \<Rightarrow> string + obj_type"
  am_keys :: "'d \<Rightarrow> 'o \<Rightarrow> string list"
  am_length :: "'d \<Rightarrow> 'o \<Rightarrow> nat"
  am_count :: "'d \<Rightarrow> 'o \<Rightarrow> place \<Rightarrow> string + nat"
  am_get :: "'d \<Rightarrow> 'o \<Rightarrow> place \<Rightarrow> string + 'o am_value option"
  am_put :: "'o \<Rightarrow> place \<Rightarrow> 'f scalar \<Rightarrow> ('d, string, unit) action"

definition object_type :: "('d, 'o, 'h, 'f) automerge \<Rightarrow> 'd \<Rightarrow> 'o \<Rightarrow> draft_error + obj_type" where
  "object_type am d obj = map_err DraftAutomerge (am_type am d obj)"

definition child_value :: "('d, 'o, 'h, 'f) automerge \<Rightarrow> 'd \<Rightarrow> 'o \<Rightarrow> place \<Rightarrow> string
    \<Rightarrow> draft_error + 'o am_value option" where
  \<comment> \<open>refuse more than one value at a place, then read it\<close>
  "child_value am d obj pl path =
     and_then (map_err DraftAutomerge (am_count am d obj pl)) (\<lambda>n.
     and_then (guard_err (1 < n) (DraftUnresolvedConflicts path)) (\<lambda>_.
     map_err DraftAutomerge (am_get am d obj pl)))"

definition child_object :: "('d, 'o, 'h, 'f) automerge \<Rightarrow> 'd \<Rightarrow> 'o \<Rightarrow> string \<Rightarrow> string
    \<Rightarrow> draft_error + 'o" where
  "child_object am d obj segment path =
     and_then (object_type am d obj) (\<lambda>t.
     and_then
       (case t of
          AmMap \<Rightarrow> child_value am d obj (PKey segment) path
        | AmTable \<Rightarrow> child_value am d obj (PKey segment) path
        | AmList \<Rightarrow> and_then (pointer_index path segment) (\<lambda>i. child_value am d obj (PIndex i) path)
        | AmText \<Rightarrow> Inl (DraftInvalidPointer path TextContainer)) (\<lambda>value.
     case value of
       Some (AmObject child) \<Rightarrow> Inr child
     | Some AmScalar \<Rightarrow> Inl (DraftInvalidPointer path ScalarParent)
     | None \<Rightarrow> Inl (DraftInvalidPointer path MissingParent)))"

fun walk_parents :: "('d, 'o, 'h, 'f) automerge \<Rightarrow> 'd \<Rightarrow> 'o \<Rightarrow> string \<Rightarrow> string list
    \<Rightarrow> draft_error + 'o" where
  "walk_parents am d obj traversed [] = Inr obj"
| "walk_parents am d obj traversed (segment # segments) =
     (let traversed = push_pointer_segment traversed segment in
      and_then (child_object am d obj segment traversed) (\<lambda>child.
      walk_parents am d child traversed segments))"

definition put_scalar :: "('d, 'o, 'h, 'f) automerge \<Rightarrow> 'o \<Rightarrow> place \<Rightarrow> 'f scalar \<Rightarrow> ('d, draft_error, unit) action" where
  "put_scalar am obj pl scalar = act_map_err DraftAutomerge (am_put am obj pl scalar)"

definition current_heads :: "('d, 'o, 'h, 'f) automerge \<Rightarrow> ('d, draft_error, 'h list) action" where
  "current_heads am d = (let (heads, d) = am_heads am d in (Inr heads, d))"

definition put_at :: "('d, 'o, 'h, 'f) automerge \<Rightarrow> string \<Rightarrow> 'o \<Rightarrow> string \<Rightarrow> 'f scalar \<Rightarrow> obj_type
    \<Rightarrow> ('d, draft_error, unit) action" where
  \<comment> \<open>the match on the type of the last container\<close>
  "put_at am path obj segment scalar t =
     (case t of
        AmMap \<Rightarrow> put_scalar am obj (PKey segment) scalar
      | AmTable \<Rightarrow> put_scalar am obj (PKey segment) scalar
      | AmList \<Rightarrow>
          act_then (from_result (pointer_index path segment)) (\<lambda>i d.
          act_then (from_result (guard_err (am_length am d obj \<le> i)
            (DraftInvalidPointer path (NoSuchIndex i)))) (\<lambda>_.
          put_scalar am obj (PIndex i) scalar) d)
      | AmText \<Rightarrow> fails_with (DraftInvalidPointer path TextContainer))"

definition apply_scalar_patch :: "('d, 'o, 'h, 'f) automerge \<Rightarrow> ('n, 'f) number_view \<Rightarrow> 'h list
    \<Rightarrow> 'n draft_patch \<Rightarrow> ('d, draft_error, 'h list) action" where
  "apply_scalar_patch am nv expected_heads patch =
     act_then (current_heads am) (\<lambda>heads.
     act_then (from_result (guard_err (heads \<noteq> expected_heads) DraftStaleBase)) (\<lambda>_ d.
     act_then (from_result (parse_pointer (dp_path patch))) (\<lambda>segments.
     act_then (from_result (walk_parents am d (am_root am) [] (butlast segments))) (\<lambda>obj.
     act_then (from_result (json_to_scalar nv (dp_path patch) (dp_value patch))) (\<lambda>scalar.
     act_then (from_result (object_type am d obj)) (\<lambda>t.
     act_then (put_at am (dp_path patch) obj (last segments) scalar t) (\<lambda>_.
     current_heads am))))) d))"

section \<open>Conflicts\<close>

fun concat_results :: "('e + 'a list) option list \<Rightarrow> ('e + 'a list) option" where
  \<comment> \<open>a loop that pushes results and returns at the first error\<close>
  "concat_results [] = Some (Inr [])"
| "concat_results (r # rs) =
     (case r of
        None \<Rightarrow> None
      | Some (Inl e) \<Rightarrow> Some (Inl e)
      | Some (Inr xs) \<Rightarrow>
          (case concat_results rs of
             None \<Rightarrow> None
           | Some (Inl e) \<Rightarrow> Some (Inl e)
           | Some (Inr ys) \<Rightarrow> Some (Inr (xs @ ys))))"

definition conflicts_at :: "('d, 'o, 'h, 'f) automerge \<Rightarrow> 'd
    \<Rightarrow> ('o \<Rightarrow> string \<Rightarrow> (string + draft_conflict list) option) \<Rightarrow> 'o \<Rightarrow> place \<Rightarrow> string
    \<Rightarrow> (string + draft_conflict list) option" where
  \<comment> \<open>the body of the loop over one object's places; \<open>below\<close> is the recursive call\<close>
  "conflicts_at am d below obj pl path =
     (case am_count am d obj pl of
        Inl e \<Rightarrow> Some (Inl e)
      | Inr n \<Rightarrow>
          (case am_get am d obj pl of
             Inl e \<Rightarrow> Some (Inl e)
           | Inr value \<Rightarrow>
               concat_results
                 [Some (Inr (if 1 < n then [\<lparr>dc_path = path, dc_values = n\<rparr>] else [])),
                  (case value of Some (AmObject child) \<Rightarrow> below child path | _ \<Rightarrow> Some (Inr []))]))"

definition places :: "('d, 'o, 'h, 'f) automerge \<Rightarrow> 'd \<Rightarrow> 'o \<Rightarrow> string \<Rightarrow> obj_type \<Rightarrow> (place \<times> string) list" where
  \<comment> \<open>the places of an object in the order of the loop, with their paths\<close>
  "places am d obj path t =
     (case t of
        AmMap \<Rightarrow> map (\<lambda>k. (PKey k, push_pointer_segment path k)) (am_keys am d obj)
      | AmTable \<Rightarrow> map (\<lambda>k. (PKey k, push_pointer_segment path k)) (am_keys am d obj)
      | AmList \<Rightarrow> map (\<lambda>i. (PIndex i, path @ ''/'' @ show_nat i)) [0..<am_length am d obj]
      | AmText \<Rightarrow> [])"

primrec collect_conflicts :: "nat \<Rightarrow> ('d, 'o, 'h, 'f) automerge \<Rightarrow> 'd \<Rightarrow> 'o \<Rightarrow> string
    \<Rightarrow> (string + draft_conflict list) option" where
  "collect_conflicts 0 am d obj path = None"
| "collect_conflicts (Suc fuel) am d obj path =
     (case am_type am d obj of
        Inl e \<Rightarrow> Some (Inl e)
      | Inr t \<Rightarrow>
          concat_results (map (\<lambda>(pl, child_path).
            conflicts_at am d (collect_conflicts fuel am d) obj pl child_path) (places am d obj path t)))"

definition conflicts :: "nat \<Rightarrow> ('d, 'o, 'h, 'f) automerge \<Rightarrow> 'd
    \<Rightarrow> (draft_error + draft_conflict list) option" where
  "conflicts fuel am d = map_option (map_err DraftAutomerge) (collect_conflicts fuel am d (am_root am) [])"

section \<open>The gate\<close>

definition from_conversation :: "('n, 'f) number_view \<Rightarrow> ('v conversation \<Rightarrow> string + 'n json)
    \<Rightarrow> ((string \<times> 'f hydrate) list \<Rightarrow> string + 'd) \<Rightarrow> 'v conversation \<Rightarrow> (draft_error + 'd) option" where
  \<comment> \<open>\<open>None\<close> is a panic: the value is no object, or holds a number that is not finite\<close>
  "from_conversation nv to_value init_root c =
     (case to_value c of
        Inl e \<Rightarrow> Some (Inl (DraftJson e))
      | Inr (JObject root) \<Rightarrow>
          map_option (\<lambda>kvs. map_err DraftAutomerge (init_root kvs))
            (those (map (\<lambda>(k, v). map_option (Pair k) (json_to_hydrate nv v)) root))
      | Inr _ \<Rightarrow> None)"

record 'v promoted_draft =
  pd_conversation :: "'v conversation"
  pd_identity :: string
  pd_plan :: colloq_plan

definition promote :: "nat \<Rightarrow> ('d, 'o, 'h, 'f) automerge \<Rightarrow> ('d \<Rightarrow> string + 'v conversation)
    \<Rightarrow> 'v externals \<Rightarrow> 'd \<Rightarrow> (draft_error + 'v promoted_draft) option" where
  \<comment> \<open>\<open>read\<close> is \<open>materialize\<close> and \<open>serde_json::from_value\<close>\<close>
  "promote fuel am read ext d =
     (case conflicts fuel am d of
        None \<Rightarrow> None
      | Some result \<Rightarrow> Some (
          and_then result (\<lambda>cs.
          and_then (guard_err (cs \<noteq> [])
            (DraftUnresolvedConflicts (join_with '', '' (map dc_path cs)))) (\<lambda>_.
          and_then (map_err DraftJson (read d)) (\<lambda>c.
          and_then (map_err DraftValidation (validate c)) (\<lambda>_.
          and_then (map_err DraftPlan (compile ext c)) (\<lambda>plan.
          Inr \<lparr>pd_conversation = c, pd_identity = pl_conversation_identity plan, pd_plan = plan\<rparr>))))))) "

section \<open>Synchronisation\<close>

record ('d, 'p, 'm) sync_ops =
  sy_new :: 'p
  sy_generate :: "'d \<Rightarrow> 'p \<Rightarrow> 'm option \<times> 'd \<times> 'p"
  sy_encode :: "'m \<Rightarrow> byte list"
  sy_decode :: "byte list \<Rightarrow> string + 'm"
  sy_receive :: "'m \<Rightarrow> 'd \<Rightarrow> 'p \<Rightarrow> (string + unit) \<times> 'd \<times> 'p"
  sy_heads :: "'d \<Rightarrow> string list \<times> 'd"

definition generate_sync_message :: "('d, 'p, 'm) sync_ops \<Rightarrow> 'd \<Rightarrow> 'p \<Rightarrow> byte list option \<times> 'd \<times> 'p" where
  "generate_sync_message sy d p =
     (case sy_generate sy d p of (message, s) \<Rightarrow> (map_option (sy_encode sy) message, s))"

definition receive_sync_message :: "('d, 'p, 'm) sync_ops \<Rightarrow> byte list \<Rightarrow> 'd \<Rightarrow> 'p
    \<Rightarrow> (draft_error + unit) \<times> 'd \<times> 'p" where
  "receive_sync_message sy encoded d p =
     (case sy_decode sy encoded of
        Inl e \<Rightarrow> (Inl (DraftSync e), d, p)
      | Inr message \<Rightarrow>
          (case sy_receive sy message d p of (r, s) \<Rightarrow> (map_err DraftAutomerge r, s)))"

end
