(* ===== verification/Draft_Correct.thy ===== *)
theory Draft_Correct
  imports Draft
begin

text \<open>
  What the operations on drafts achieve.  Pointers: encoding and decoding are inverse.  Patches:
  \<open>reaches\<close> is the declarative walk along a pointer, and a patch succeeds exactly when the walk
  ends at a place the document lets it write.  Conflicts: \<open>conflict_at\<close> says where a document
  holds competing values, and the walk over the document reports exactly those.
\<close>

section \<open>Pointers\<close>

lemma decode_escape: "decode_segment (escape_segment s) = Some s"
  by (induction s) auto

lemma escape_free: "CHR ''/'' \<notin> set (escape_segment s)"
  by (induction s) auto

lemma escape_Nil [simp]: "escape_segment s = [] \<longleftrightarrow> s = []"
  by (cases s) auto

lemma pushed_segments:
  "foldl push_pointer_segment p segs =
     p @ concat (map (\<lambda>s. ''/'' @ escape_segment s) segs)"
  by (induction segs arbitrary: p) (auto simp: push_pointer_segment_def)

lemma pushed_join:
  "segs \<noteq> [] \<Longrightarrow>
     concat (map (\<lambda>s. ''/'' @ escape_segment s) segs) = ''/'' @ join_with ''/'' (map escape_segment segs)"
proof (induction segs)
  case (Cons s segs)
  then show ?case by (cases segs) simp_all
qed simp

lemma parse_pushed:
  assumes "segs \<noteq> []" and "segs \<noteq> [[]]"
  shows "parse_pointer (foldl push_pointer_segment [] segs) = Inr segs"
proof -
  let ?path = "foldl push_pointer_segment [] segs"
  have path: "?path = CHR ''/'' # join_with ''/'' (map escape_segment segs)"
    using pushed_join [OF assms(1)] by (simp add: pushed_segments)
  have "join_with ''/'' (map escape_segment segs) \<noteq> []"
    using assms by (cases segs; cases "tl segs") auto
  moreover have "split_on CHR ''/'' (join_with ''/'' (map escape_segment segs)) = map escape_segment segs"
    using assms by (intro split_join) (auto simp: escape_free)
  moreover have "map_result (decode_pointer_segment ?path) (map escape_segment segs) = Inr segs"
    by (auto simp: map_result_Inr list_all2_conv_all_nth decode_pointer_segment_def decode_escape)
  ultimately show ?thesis by (simp add: parse_pointer_def path)
qed

section \<open>Walks and patches\<close>

definition place_named :: "('d, 'o, 'h, 'f) automerge \<Rightarrow> 'd \<Rightarrow> 'o \<Rightarrow> string \<Rightarrow> place option" where
  \<comment> \<open>what a segment of a pointer names in an object\<close>
  "place_named am d obj segment =
     (case am_type am d obj of
        Inr AmMap \<Rightarrow> Some (PKey segment)
      | Inr AmTable \<Rightarrow> Some (PKey segment)
      | Inr AmList \<Rightarrow> map_option PIndex (parse_usize segment)
      | _ \<Rightarrow> None)"

definition sole_child :: "('d, 'o, 'h, 'f) automerge \<Rightarrow> 'd \<Rightarrow> 'o \<Rightarrow> place \<Rightarrow> 'o \<Rightarrow> bool" where
  "sole_child am d obj pl child \<longleftrightarrow>
     (case am_count am d obj pl of Inr n \<Rightarrow> n \<le> 1 | Inl _ \<Rightarrow> False) \<and>
     am_get am d obj pl = Inr (Some (AmObject child))"

inductive reaches for am d where
  here: "reaches am d obj [] obj"
| down: "\<lbrakk>place_named am d obj segment = Some pl; sole_child am d obj pl child;
    reaches am d child segments target\<rbrakk> \<Longrightarrow> reaches am d obj (segment # segments) target"

inductive_simps reaches_Nil [simp]: "reaches am d obj [] target"
inductive_simps reaches_Cons: "reaches am d obj (segment # segments) target"

definition writable :: "('d, 'o, 'h, 'f) automerge \<Rightarrow> 'd \<Rightarrow> 'o \<Rightarrow> place \<Rightarrow> bool" where
  "writable am d obj pl = (case pl of PKey _ \<Rightarrow> True | PIndex i \<Rightarrow> i < am_length am d obj)"

lemma child_value_Inr:
  "child_value am d obj pl path = Inr v \<longleftrightarrow>
     (\<exists>n. am_count am d obj pl = Inr n \<and> n \<le> 1) \<and> am_get am d obj pl = Inr v"
  by (auto simp: child_value_def result_simps not_less)

lemma sole_child_iff:
  "sole_child am d obj pl child \<longleftrightarrow>
     (\<exists>n. am_count am d obj pl = Inr n \<and> n \<le> 1) \<and> am_get am d obj pl = Inr (Some (AmObject child))"
  by (auto simp: sole_child_def split: sum.splits)

lemma child_of_value:
  "(case v of Some (AmObject child) \<Rightarrow> Inr child | Some AmScalar \<Rightarrow> Inl e | None \<Rightarrow> Inl e') = Inr child \<longleftrightarrow>
     v = Some (AmObject child)"
  by (auto split: option.splits am_value.splits)

lemma child_object_Inr:
  "child_object am d obj segment path = Inr child \<longleftrightarrow>
     (\<exists>pl. place_named am d obj segment = Some pl \<and> sole_child am d obj pl child)"
proof (cases "am_type am d obj")
  case (Inr t)
  then show ?thesis
    by (cases t) (auto simp: child_object_def object_type_def pointer_index_def place_named_def
        sole_child_iff child_value_Inr child_of_value result_simps)
qed (simp add: child_object_def object_type_def place_named_def)

lemma walk_parents_Inr:
  "walk_parents am d obj traversed segments = Inr target \<longleftrightarrow> reaches am d obj segments target"
  by (induction segments arbitrary: obj traversed)
    (auto simp: reaches_Cons Let_def and_then_Inr child_object_Inr)

lemma current_heads_Inr: "current_heads am d = (Inr hs, d') \<longleftrightarrow> am_heads am d = (hs, d')"
  by (auto simp: current_heads_def split: prod.splits)

lemmas patch_simps = apply_scalar_patch_def act_then_Inr current_heads_Inr walk_parents_Inr
  object_type_def result_simps

lemma put_at_Inr:
  assumes "am_type am d obj = Inr t"
  shows "put_at am path obj segment sc t d = (Inr (), d1) \<longleftrightarrow>
     (\<exists>pl. place_named am d obj segment = Some pl \<and> writable am d obj pl \<and>
        am_put am obj pl sc d = (Inr (), d1))"
  using assms
  by (auto simp: put_at_def place_named_def writable_def put_scalar_def action_simps pointer_index_def
      result_simps fails_with_def not_le split: obj_type.splits)

lemma place_named_type: "place_named am d obj segment = Some pl \<Longrightarrow> \<exists>t. am_type am d obj = Inr t"
  by (auto simp: place_named_def split: sum.splits)

lemma patch_succeeds_iff:
  "apply_scalar_patch am nv expected patch d = (Inr heads, d') \<longleftrightarrow>
     (\<exists>d0 segs obj sc t d1.
        am_heads am d = (expected, d0) \<and> parse_pointer (dp_path patch) = Inr segs \<and>
        reaches am d0 (am_root am) (butlast segs) obj \<and>
        json_to_scalar nv (dp_path patch) (dp_value patch) = Inr sc \<and> am_type am d0 obj = Inr t \<and>
        put_at am (dp_path patch) obj (last segs) sc t d0 = (Inr (), d1) \<and>
        am_heads am d1 = (heads, d'))"
  by (auto simp: patch_simps)

lemma patch_error_keeps:
  assumes "apply_scalar_patch am nv expected patch d = (Inl e, d')" and "\<And>m. e \<noteq> DraftAutomerge m"
  shows "d' = snd (am_heads am d)"
  using assms
  by (auto simp: apply_scalar_patch_def act_then_def from_result_def current_heads_def put_at_def put_scalar_def
      act_map_err_def fails_with_def map_err_Inl split: prod.splits sum.splits obj_type.splits)

section \<open>Conflicts\<close>

inductive conflict_at for am d where
  competing: "\<lbrakk>am_type am d obj = Inr t; (pl, p) \<in> set (places am d obj path t);
    am_count am d obj pl = Inr n; 1 < n\<rbrakk> \<Longrightarrow> conflict_at am d obj path \<lparr>dc_path = p, dc_values = n\<rparr>"
| below: "\<lbrakk>am_type am d obj = Inr t; (pl, p) \<in> set (places am d obj path t);
    am_get am d obj pl = Inr (Some (AmObject child)); conflict_at am d child p c\<rbrakk>
    \<Longrightarrow> conflict_at am d obj path c"

inductive_cases conflict_atE: "conflict_at am d obj path c"

primrec shallow :: "nat \<Rightarrow> ('d, 'o, 'h, 'f) automerge \<Rightarrow> 'd \<Rightarrow> 'o \<Rightarrow> bool" where
  \<comment> \<open>the objects below \<open>obj\<close> are nested less than so deep\<close>
  "shallow 0 am d obj = False"
| "shallow (Suc n) am d obj =
     (case am_type am d obj of
        Inl _ \<Rightarrow> True
      | Inr t \<Rightarrow> list_all (\<lambda>(pl, _).
          case am_get am d obj pl of Inr (Some (AmObject child)) \<Rightarrow> shallow n am d child | _ \<Rightarrow> True)
          (places am d obj [] t))"

lemma concat_results_total: "None \<notin> set rs \<Longrightarrow> concat_results rs \<noteq> None"
proof (induction rs)
  case (Cons r rs)
  then obtain x y where "r = Some x" "concat_results rs = Some y" by (cases r) auto
  then show ?case by (auto split: sum.splits)
qed simp

lemma concat_results_set:
  assumes "concat_results (map f zs) = Some (Inr xs)"
  shows "\<exists>g. (\<forall>z \<in> set zs. f z = Some (Inr (g z))) \<and> set xs = (\<Union>z \<in> set zs. set (g z))"
  using assms
proof (induction zs arbitrary: xs)
  case (Cons z zs)
  then obtain ys ws where z: "f z = Some (Inr ys)" and ws: "concat_results (map f zs) = Some (Inr ws)"
    and xs: "xs = ys @ ws"
    by (auto split: option.splits sum.splits)
  from Cons.IH [OF ws] obtain g where
    g: "\<And>z. z \<in> set zs \<Longrightarrow> f z = Some (Inr (g z))" and ws': "set ws = (\<Union>z \<in> set zs. set (g z))"
    by blast
  let ?g = "\<lambda>z. case f z of Some (Inr ys) \<Rightarrow> ys | _ \<Rightarrow> []"
  have "(\<Union>z \<in> set zs. set (?g z)) = set ws" unfolding ws' by (simp add: g)
  with z g xs show ?case by (intro exI [of _ ?g]) simp
qed auto

lemma places_paths: "fst ` set (places am d obj path t) = fst ` set (places am d obj path' t)"
  by (force simp: places_def image_iff split: obj_type.splits)

lemma shallow_below:
  assumes "shallow (Suc n) am d obj" and "am_type am d obj = Inr t"
    and "(pl, p) \<in> set (places am d obj path t)" and "am_get am d obj pl = Inr (Some (AmObject child))"
  shows "shallow n am d child"
proof -
  have "pl \<in> fst ` set (places am d obj [] t)"
    using assms(3) places_paths [of am d obj path t "[]"] by force
  with assms show ?thesis by (fastforce simp: list_all_iff)
qed

lemma collect_conflicts_returns:
  "shallow fuel am d obj \<Longrightarrow> collect_conflicts fuel am d obj path \<noteq> None"
proof (induction fuel arbitrary: obj path)
  case (Suc fuel)
  show ?case
  proof (cases "am_type am d obj")
    case (Inr t)
    have "conflicts_at am d (collect_conflicts fuel am d) obj pl p \<noteq> None"
      if "(pl, p) \<in> set (places am d obj path t)" for pl p
    proof -
      have "collect_conflicts fuel am d child p \<noteq> None"
        if "am_get am d obj pl = Inr (Some (AmObject child))" for child
        using Suc.IH shallow_below [OF Suc.prems Inr] \<open>(pl, p) \<in> _\<close> that by blast
      then show ?thesis
        unfolding conflicts_at_def
        by (auto split: sum.splits option.splits am_value.splits)
    qed
    then have "None \<notin> set (map (\<lambda>(pl, p). conflicts_at am d (collect_conflicts fuel am d) obj pl p)
        (places am d obj path t))"
      by (auto simp: image_iff) (metis not_None_eq)
    from concat_results_total [OF this] show ?thesis by (simp add: Inr)
  qed simp
qed simp

lemma conflicts_at_Inr:
  "conflicts_at am d below obj pl p = Some (Inr xs) \<longleftrightarrow>
     (\<exists>n value ys. am_count am d obj pl = Inr n \<and> am_get am d obj pl = Inr value \<and>
        (case value of Some (AmObject child) \<Rightarrow> below child p | _ \<Rightarrow> Some (Inr [])) = Some (Inr ys) \<and>
        xs = (if 1 < n then [\<lparr>dc_path = p, dc_values = n\<rparr>] else []) @ ys)"
  by (auto simp: conflicts_at_def split: sum.splits option.splits am_value.splits)

lemma collect_conflicts_exact:
  "collect_conflicts fuel am d obj path = Some (Inr cs) \<Longrightarrow> set cs = {c. conflict_at am d obj path c}"
proof (induction fuel arbitrary: obj path cs)
  case (Suc fuel)
  then obtain t where t: "am_type am d obj = Inr t" by (auto split: sum.splits)
  with Suc.prems obtain g where
    g: "\<And>pl p. (pl, p) \<in> set (places am d obj path t) \<Longrightarrow>
        conflicts_at am d (collect_conflicts fuel am d) obj pl p = Some (Inr (g (pl, p)))" and
    cs: "set cs = (\<Union>z \<in> set (places am d obj path t). set (g z))"
    using concat_results_set [of "\<lambda>(pl, p). conflicts_at am d (collect_conflicts fuel am d) obj pl p"
        "places am d obj path t" cs] by fastforce
  have *: "set (g (pl, p)) =
      {\<lparr>dc_path = p, dc_values = n\<rparr> | n. am_count am d obj pl = Inr n \<and> 1 < n} \<union>
      {c. \<exists>child. am_get am d obj pl = Inr (Some (AmObject child)) \<and> conflict_at am d child p c}"
    if "(pl, p) \<in> set (places am d obj path t)" for pl p
  proof -
    from g [OF that] obtain n v ys where
      n: "am_count am d obj pl = Inr n" and v: "am_get am d obj pl = Inr v" and
      ys: "(case v of Some (AmObject child) \<Rightarrow> collect_conflicts fuel am d child p
        | _ \<Rightarrow> Some (Inr [])) = Some (Inr ys)" and
      gp: "g (pl, p) = (if 1 < n then [\<lparr>dc_path = p, dc_values = n\<rparr>] else []) @ ys"
      unfolding conflicts_at_Inr by blast
    have "set ys = {c. \<exists>child. v = Some (AmObject child) \<and> conflict_at am d child p c}"
      using ys Suc.IH by (auto split: option.splits am_value.splits)
    with n v gp show ?thesis by auto
  qed
  show ?case
  proof (intro set_eqI iffI)
    fix c assume "c \<in> set cs"
    then obtain pl p where pl: "(pl, p) \<in> set (places am d obj path t)" and "c \<in> set (g (pl, p))"
      unfolding cs by force
    then show "c \<in> {c. conflict_at am d obj path c}"
      using t unfolding * [OF pl] by (auto intro: conflict_at.intros)
  next
    fix c assume "c \<in> {c. conflict_at am d obj path c}"
    then have "conflict_at am d obj path c" by simp
    then obtain pl p where pl: "(pl, p) \<in> set (places am d obj path t)" and "c \<in> set (g (pl, p))"
    proof (cases rule: conflict_at.cases)
      case (competing t' pl p n)
      with t have pl: "(pl, p) \<in> set (places am d obj path t)" by simp
      from competing have "c \<in> set (g (pl, p))" unfolding * [OF pl] by simp
      with pl that show thesis by blast
    next
      case (below t' pl p child)
      with t have pl: "(pl, p) \<in> set (places am d obj path t)" by simp
      from below have "c \<in> set (g (pl, p))" unfolding * [OF pl] by simp
      with pl that show thesis by blast
    qed
    then show "c \<in> set cs" unfolding cs by blast
  qed
qed simp

end
