(* ===== verification/Draft_Properties.thy ===== *)
theory Draft_Properties
  imports Draft_Correct Examples
begin

text \<open>
  Theorems on drafts: pointers round trip, patches write exactly one place or leave the document
  alone, the conflicts are exactly those of the document, and what is promoted is a conflict-free,
  valid, compiled conversation.  The examples run on a small document: a root map holding a module
  map and a list.
\<close>

section \<open>An example\<close>

type_synonym demo_document = "nat \<times> (nat \<times> obj_type \<times> (place \<times> nat \<times> nat am_value) list) list"

definition entries_of :: "demo_document \<Rightarrow> nat \<Rightarrow> (place \<times> nat \<times> nat am_value) list" where
  "entries_of d obj = (case map_of (snd d) obj of None \<Rightarrow> [] | Some (_, es) \<Rightarrow> es)"

definition demo_automerge :: "(demo_document, nat, nat, unit) automerge" where
  "demo_automerge =
     \<lparr>am_root = 0, am_heads = (\<lambda>d. ([fst d], d)),
      am_type = (\<lambda>d obj. case map_of (snd d) obj of None \<Rightarrow> Inl ''no object'' | Some (t, _) \<Rightarrow> Inr t),
      am_keys = (\<lambda>d obj. concat (map (\<lambda>(pl, _). case pl of PKey k \<Rightarrow> [k] | PIndex _ \<Rightarrow> []) (entries_of d obj))),
      am_length = (\<lambda>d obj. length (entries_of d obj)),
      am_count = (\<lambda>d obj pl. Inr (case map_of (entries_of d obj) pl of None \<Rightarrow> 0 | Some (n, _) \<Rightarrow> n)),
      am_get = (\<lambda>d obj pl. Inr (map_option snd (map_of (entries_of d obj) pl))),
      am_put = (\<lambda>obj pl _ d. (Inr (), fst d + 1, map (\<lambda>(o', t, es).
        (o', t, if o' = obj then (pl, 1, AmScalar) # filter (\<lambda>e. fst e \<noteq> pl) es else es)) (snd d)))\<rparr>"

definition demo_doc :: "nat \<Rightarrow> demo_document" where
  \<comment> \<open>the version of the module has \<open>n\<close> values\<close>
  "demo_doc n = (7,
     [(0, AmMap, [(PKey ''module'', 1, AmObject 1), (PKey ''roles'', 1, AmObject 2)]),
      (1, AmMap, [(PKey ''version'', n, AmScalar)]),
      (2, AmList, [(PIndex 0, 1, AmScalar)])])"

definition demo_numbers :: "(nat, unit) number_view" where
  "demo_numbers = \<lparr>nv_i64 = (\<lambda>n. Some (int n)), nv_u64 = (\<lambda>_. None), nv_f64 = (\<lambda>_. None)\<rparr>"

section \<open>Pointers and patches\<close>

text \<open>JSON pointers round trip.  Parsing the pointer that the walk over a document builds for a
  list of segments gives the segments back, whatever characters they hold; the two lists that
  encode to the empty pointer and to a lone slash are refused.\<close>

theorem pointer_roundtrip:
  "parse_pointer (foldl push_pointer_segment [] segs) =
     (if segs = [] \<or> segs = [[]] then Inl (DraftInvalidPointer (foldl push_pointer_segment [] segs) MustBegin)
      else Inr segs)"
  using parse_pushed [of segs] by (auto simp: parse_pointer_def push_pointer_segment_def)

text \<open>C34: a patch succeeds exactly when the caller edited the current revision, the pointer parses,
  the walk along it meets one object at every step, the last segment names a place the container
  can hold and the value is a scalar; then it writes that scalar at that one place and answers the
  new heads.\<close>

theorem patch_exact:
  fixes am :: "('d, 'o, 'h, 'f) automerge"
  shows "apply_scalar_patch am nv expected patch d = (Inr heads, d') \<longleftrightarrow>
     (\<exists>d0 segs obj pl sc d1.
        am_heads am d = (expected, d0) \<and> parse_pointer (dp_path patch) = Inr segs \<and>
        reaches am d0 (am_root am) (butlast segs) obj \<and>
        place_named am d0 obj (last segs) = Some pl \<and> writable am d0 obj pl \<and>
        json_to_scalar nv (dp_path patch) (dp_value patch) = Inr sc \<and>
        am_put am obj pl sc d0 = (Inr (), d1) \<and> am_heads am d1 = (heads, d'))"
  unfolding patch_succeeds_iff
  by (blast dest: place_named_type put_at_Inr [THEN iffD1] intro: put_at_Inr [THEN iffD2])

text \<open>A refused patch changes nothing.  Whatever the reason but a failure of the document store
  itself, the draft is the one whose pending edits reading the heads commits.\<close>

theorem patch_refusal_keeps:
  assumes "apply_scalar_patch am nv expected patch d = (Inl e, d')" and "\<And>m. e \<noteq> DraftAutomerge m"
  shows "d' = snd (am_heads am d)"
  by (rule patch_error_keeps [OF assms])

definition demo_patch :: "string \<Rightarrow> nat json \<Rightarrow> nat draft_patch" where
  "demo_patch path v = \<lparr>dp_path = path, dp_value = v\<rparr>"

lemma patch_refusal_keeps_witness:
  "apply_scalar_patch demo_automerge demo_numbers [7] (demo_patch ''/roles/1'' JNull) (demo_doc 1) =
     (Inl (DraftInvalidPointer ''/roles/1'' (NoSuchIndex 1)), demo_doc 1)"
proof -
  obtain d' where run: "apply_scalar_patch demo_automerge demo_numbers [7] (demo_patch ''/roles/1'' JNull)
      (demo_doc 1) = (Inl (DraftInvalidPointer ''/roles/1'' (NoSuchIndex 1)), d')"
  proof -
    have "fst (apply_scalar_patch demo_automerge demo_numbers [7] (demo_patch ''/roles/1'' JNull)
        (demo_doc 1)) = Inl (DraftInvalidPointer ''/roles/1'' (NoSuchIndex 1))"
      by code_simp
    then show thesis using that by (metis prod.collapse)
  qed
  have "d' = demo_doc 1"
    using patch_refusal_keeps [OF run] by (simp add: demo_automerge_def)
  with run show ?thesis by simp
qed

section \<open>Conflicts and promotion\<close>

text \<open>C33: the conflicts of a draft are found exactly.  With fuel for the nesting of the document the
  walk ends, and unless the document store fails it lists, with its path and its number of values,
  each place that has more than one, and nothing else.\<close>

theorem conflicts_exact:
  assumes "shallow fuel am d (am_root am)"
  shows "case conflicts fuel am d of
      None \<Rightarrow> False
    | Some (Inl e) \<Rightarrow> \<exists>m. e = DraftAutomerge m
    | Some (Inr cs) \<Rightarrow> set cs = {c. conflict_at am d (am_root am) [] c}"
proof -
  obtain r where r: "collect_conflicts fuel am d (am_root am) [] = Some r"
    using collect_conflicts_returns [OF assms] by blast
  show ?thesis
    using collect_conflicts_exact [of fuel am d "am_root am" "[]"]
    by (cases r) (simp_all add: conflicts_def r)
qed

lemma conflicts_exact_witness:
  "{c. conflict_at demo_automerge (demo_doc 2) 0 [] c} =
     {\<lparr>dc_path = ''/module/version'', dc_values = 2\<rparr>}"
proof -
  have deep: "shallow 3 demo_automerge (demo_doc 2) (am_root demo_automerge)" by code_simp
  have run: "conflicts 3 demo_automerge (demo_doc 2) =
      Some (Inr [\<lparr>dc_path = ''/module/version'', dc_values = 2\<rparr>])"
    by code_simp
  have root: "am_root demo_automerge = 0" by (simp add: demo_automerge_def)
  from conflicts_exact [OF deep] show ?thesis by (simp add: run root)
qed

text \<open>C30: the promotion gate.  A draft is promoted only if no place of its document has competing
  values, its reading as a conversation is well-formed, and that conversation compiles to the plan
  returned, which is sound; the identity returned is the plan's and the conversation's.\<close>

theorem promotion_gate:
  assumes "promote fuel am read ext d = Some (Inr p)"
  shows "(\<nexists>c. conflict_at am d (am_root am) [] c) \<and> read d = Inr (pd_conversation p) \<and>
    well_formed (pd_conversation p) \<and> compile ext (pd_conversation p) = Inr (pd_plan p) \<and>
    plan_sound ext (pd_plan p) \<and> pd_identity p = pl_conversation_identity (pd_plan p) \<and>
    conversation_identity ext (pd_conversation p) = Inr (pd_identity p)"
proof -
  from assms have clean: "conflicts fuel am d = Some (Inr [])"
    and read: "read d = Inr (pd_conversation p)" and valid: "validate (pd_conversation p) = Inr ()"
    and plan: "compile ext (pd_conversation p) = Inr (pd_plan p)"
    and identity: "pd_identity p = pl_conversation_identity (pd_plan p)"
    by (auto simp: promote_def result_simps split: option.splits)
  from clean have "collect_conflicts fuel am d (am_root am) [] = Some (Inr [])"
    by (auto simp: conflicts_def result_simps)
  from collect_conflicts_exact [OF this] compile_shape [OF plan] read valid plan identity
  show ?thesis by (auto simp: conversation_identity_def)
qed

lemma promotion_gate_witness:
  "case promote 3 demo_automerge (\<lambda>_. Inr ping) plain_externals (demo_doc 1) of
     Some (Inr p) \<Rightarrow> plan_sound plain_externals (pd_plan p) \<and> well_formed (pd_conversation p)
   | _ \<Rightarrow> False"
proof -
  have "case promote 3 demo_automerge (\<lambda>_. Inr ping) plain_externals (demo_doc 1) of
      Some (Inr p) \<Rightarrow> True | _ \<Rightarrow> False"
    by code_simp
  then obtain p where run: "promote 3 demo_automerge (\<lambda>_. Inr ping) plain_externals (demo_doc 1) =
      Some (Inr p)"
    by (auto split: option.splits sum.splits)
  from promotion_gate [OF run] have "plan_sound plain_externals (pd_plan p)" "well_formed (pd_conversation p)"
    by blast+
  then show ?thesis unfolding run by simp
qed

end
