(* ===== verification/Exchange.thy ===== *)
theory Exchange
  imports Draft Transport
begin

text \<open>
  \<open>src/src/draft_exchange.rs\<close>: two drafts are synchronised by a conversation between their
  owners.  The synchronisation of Automerge (\<open>sync_ops\<close>) and the JSON values are arguments; the state of a
  peer is its machine, its transport, its draft and its view of the other peer's draft.
\<close>

section \<open>State\<close>

definition MAX_SYNC_ROUNDS :: nat where
  "MAX_SYNC_ROUNDS = 1024"

record 'v bytes_json =
  bj_object :: "string \<Rightarrow> 'v"
  bj_is_object :: "'v \<Rightarrow> bool"
  bj_bytes :: "'v \<Rightarrow> string option"

datatype 'v payload_detail =
    ClientExpected "'v frame" | ServerExpected "'v frame" | ExpectedSync "'v frame"
  | NotAnObject | NoBytes | BadHex string

datatype 'v exchange_error =
    ExRuntime "'v runtime_error"
  | ExDraft draft_error
  | ExPayload "'v payload_detail"
  | ExTooManyRounds

record exchange_report =
  xr_role :: string
  xr_transport :: string
  xr_conversation_identity :: string
  xr_plan_identity :: string
  xr_sent :: nat
  xr_received :: nat
  xr_frames :: u64
  xr_completed :: bool
  xr_heads :: "string list"

record ('t, 'd, 'p) peer =
  pr_machine :: machine
  pr_transport :: 't
  pr_draft :: 'd
  pr_sync :: 'p

type_synonym ('t, 'd, 'p, 'v, 'a) peer_action = "(('t, 'd, 'p) peer, 'v exchange_error, 'a) action"

section \<open>Steps\<close>

definition with_machine :: "(machine \<Rightarrow> 'v runtime_error + ('a \<times> machine)) \<Rightarrow> ('t, 'd, 'p, 'v, 'a) peer_action" where
  "with_machine f x =
     (case f (pr_machine x) of
        Inl e \<Rightarrow> (Inl (ExRuntime e), x)
      | Inr (y, m) \<Rightarrow> (Inr y, x\<lparr>pr_machine := m\<rparr>))"

definition with_transport :: "('t, 'v runtime_error, 'a) action \<Rightarrow> ('t, 'd, 'p, 'v, 'a) peer_action" where
  "with_transport f x =
     (case f (pr_transport x) of (r, t) \<Rightarrow> (map_err ExRuntime r, x\<lparr>pr_transport := t\<rparr>))"

definition generate_message :: "('d, 'p, 'm) sync_ops \<Rightarrow> ('t, 'd, 'p, 'v, byte list option) peer_action" where
  "generate_message sy x =
     (case generate_sync_message sy (pr_draft x) (pr_sync x) of
        (message, d, p) \<Rightarrow> (Inr message, x\<lparr>pr_draft := d, pr_sync := p\<rparr>))"

definition apply_message :: "('d, 'p, 'm) sync_ops \<Rightarrow> byte list \<Rightarrow> ('t, 'd, 'p, 'v, unit) peer_action" where
  "apply_message sy message x =
     (case receive_sync_message sy message (pr_draft x) (pr_sync x) of
        (r, d, p) \<Rightarrow> (map_err ExDraft r, x\<lparr>pr_draft := d, pr_sync := p\<rparr>))"

definition exchange_send :: "('t, 'v) transport \<Rightarrow> (machine \<Rightarrow> 'v runtime_error + ('v envelope \<times> machine))
    \<Rightarrow> ('t, 'd, 'p, 'v, unit) peer_action" where
  \<comment> \<open>\<open>let envelope = machine.emit_..()?; send(transport, envelope)?\<close>\<close>
  "exchange_send tp emit_op = act_then (with_machine emit_op) (\<lambda>e. with_transport (tp_send tp e))"

definition exchange_receive :: "('t, 'v) transport \<Rightarrow> ('t, 'd, 'p, 'v, 'v frame) peer_action" where
  "exchange_receive tp = act_then (with_transport (tp_receive tp)) (\<lambda>e. with_machine (\<lambda>m. accept m e))"

fun sync_frame_payload :: "'v frame \<Rightarrow> 'v exchange_error + 'v" where
  "sync_frame_payload (FData a b message (Some payload)) =
     (if message = ''sync'' then Inr payload
      else Inl (ExPayload (ExpectedSync (FData a b message (Some payload)))))"
| "sync_frame_payload f = Inl (ExPayload (ExpectedSync f))"

definition sync_payload :: "'v bytes_json \<Rightarrow> 'v frame \<Rightarrow> 'v exchange_error + byte list" where
  "sync_payload bj f =
     and_then (sync_frame_payload f) (\<lambda>payload.
     and_then (guard_err (\<not> bj_is_object bj payload) (ExPayload NotAnObject)) (\<lambda>_.
     and_then (ok_or (ExPayload NoBytes) (bj_bytes bj payload)) (\<lambda>encoded.
     map_err (\<lambda>t. ExPayload (BadHex t)) (decode_hex encoded))))"

definition exchange_summary :: "('d, 'p, 'm) sync_ops \<Rightarrow> string \<Rightarrow> nat \<Rightarrow> nat
    \<Rightarrow> ('t, 'd, 'p, 'v, exchange_report) peer_action" where
  \<comment> \<open>\<open>report\<close>\<close>
  "exchange_summary sy name sent received x =
     (let m = pr_machine x in
      case is_successful m of
        Inl e \<Rightarrow> (Inl (ExRuntime e), x)
      | Inr completed \<Rightarrow>
          (case sy_heads sy (pr_draft x) of
             (heads, d) \<Rightarrow>
               (Inr \<lparr>xr_role = m_role m, xr_transport = name,
                  xr_conversation_identity = m_identity m, xr_plan_identity = m_plan_identity m,
                  xr_sent = sent, xr_received = received, xr_frames = m_sequence m,
                  xr_completed = completed, xr_heads = heads\<rparr>,
                x\<lparr>pr_draft := d\<rparr>)))"

definition send_message :: "('t, 'v) transport \<Rightarrow> 'v bytes_json \<Rightarrow> byte list \<Rightarrow> ('t, 'd, 'p, 'v, unit) peer_action" where
  \<comment> \<open>select \<open>message\<close>, then the data\<close>
  "send_message tp bj message =
     act_then (exchange_send tp (\<lambda>m. emit_select m ''message'')) (\<lambda>_.
     exchange_send tp (\<lambda>m. emit_data m (bj_object bj (encode_hex message))))"

definition receive_message :: "('t, 'v) transport \<Rightarrow> 'v bytes_json \<Rightarrow> ('d, 'p, 'm) sync_ops
    \<Rightarrow> ('t, 'd, 'p, 'v, unit) peer_action" where
  "receive_message tp bj sy =
     act_then (exchange_receive tp) (\<lambda>frame.
     act_then (from_result (sync_payload bj frame)) (apply_message sy))"

definition finish_peer :: "('t, 'v) transport \<Rightarrow> ('t, 'd, 'p, 'v, unit) peer_action" where
  "finish_peer tp x = with_transport (tp_finish tp (m_role (pr_machine x))) x"

section \<open>The two peers\<close>

primrec client_rounds :: "nat \<Rightarrow> ('t, 'v) transport \<Rightarrow> 'v bytes_json \<Rightarrow> ('d, 'p, 'm) sync_ops \<Rightarrow> string
    \<Rightarrow> nat \<Rightarrow> nat \<Rightarrow> ('t, 'd, 'p, 'v, exchange_report) peer_action" where
  \<comment> \<open>the rounds left of \<open>for round in 0..MAX_SYNC_ROUNDS\<close>\<close>
  "client_rounds 0 tp bj sy name round received = fails_with ExTooManyRounds"
| "client_rounds (Suc left) tp bj sy name round received =
     act_then (generate_message sy) (\<lambda>message.
     case message of
       None \<Rightarrow>
         act_then (exchange_send tp (\<lambda>m. emit_select m ''done'')) (\<lambda>_.
         act_then (finish_peer tp) (\<lambda>_.
         exchange_summary sy name round received))
     | Some message \<Rightarrow>
         act_then (send_message tp bj message) (\<lambda>_.
         act_then (exchange_receive tp) (\<lambda>selection.
         case selection of
           FSelect by label \<Rightarrow>
             if label = ''message'' then
               act_then (receive_message tp bj sy) (\<lambda>_.
               client_rounds left tp bj sy name (round + 1) (received + 1))
             else if label = ''idle'' then client_rounds left tp bj sy name (round + 1) received
             else fails_with (ExPayload (ClientExpected selection))
         | _ \<Rightarrow> fails_with (ExPayload (ClientExpected selection)))))"

primrec server_rounds :: "nat \<Rightarrow> ('t, 'v) transport \<Rightarrow> 'v bytes_json \<Rightarrow> ('d, 'p, 'm) sync_ops \<Rightarrow> string
    \<Rightarrow> nat \<Rightarrow> nat \<Rightarrow> ('t, 'd, 'p, 'v, exchange_report) peer_action" where
  "server_rounds 0 tp bj sy name sent received = fails_with ExTooManyRounds"
| "server_rounds (Suc left) tp bj sy name sent received =
     act_then (exchange_receive tp) (\<lambda>selection.
     case selection of
       FSelect by label \<Rightarrow>
         if label = ''done'' then
           act_then (finish_peer tp) (\<lambda>_. exchange_summary sy name sent received)
         else if label = ''message'' then
           act_then (receive_message tp bj sy) (\<lambda>_.
           act_then (generate_message sy) (\<lambda>message.
           case message of
             Some message \<Rightarrow>
               act_then (send_message tp bj message) (\<lambda>_.
               server_rounds left tp bj sy name (sent + 1) (received + 1))
           | None \<Rightarrow>
               act_then (exchange_send tp (\<lambda>m. emit_select m ''idle'')) (\<lambda>_.
               server_rounds left tp bj sy name sent (received + 1))))
         else fails_with (ExPayload (ServerExpected selection))
     | _ \<Rightarrow> fails_with (ExPayload (ServerExpected selection)))"

definition as_peer :: "prepared_plan \<Rightarrow> string \<Rightarrow> ('d, 'p, 'm) sync_ops
    \<Rightarrow> ('t, 'd, 'p, 'v, exchange_report) peer_action
    \<Rightarrow> 't \<Rightarrow> 'd \<Rightarrow> ('v exchange_error + exchange_report) \<times> 't \<times> 'd" where
  \<comment> \<open>the machine and the session of a peer live for one run\<close>
  "as_peer plan role sy body t d =
     (case from_plan plan role of
        Inl e \<Rightarrow> (Inl (ExRuntime e), t, d)
      | Inr m \<Rightarrow>
          (case body \<lparr>pr_machine = m, pr_transport = t, pr_draft = d, pr_sync = sy_new sy\<rparr> of
             (r, x) \<Rightarrow> (r, pr_transport x, pr_draft x)))"

definition run_draft_sync_client :: "('t, 'v) transport \<Rightarrow> 'v bytes_json \<Rightarrow> ('d, 'p, 'm) sync_ops \<Rightarrow> prepared_plan
    \<Rightarrow> 't \<Rightarrow> 'd \<Rightarrow> ('v exchange_error + exchange_report) \<times> 't \<times> 'd" where
  "run_draft_sync_client tp bj sy plan t =
     as_peer plan ''client'' sy (client_rounds MAX_SYNC_ROUNDS tp bj sy (tp_plan tp t) 0 0) t"

definition run_draft_sync_server :: "('t, 'v) transport \<Rightarrow> 'v bytes_json \<Rightarrow> ('d, 'p, 'm) sync_ops \<Rightarrow> prepared_plan
    \<Rightarrow> 't \<Rightarrow> 'd \<Rightarrow> ('v exchange_error + exchange_report) \<times> 't \<times> 'd" where
  "run_draft_sync_server tp bj sy plan t =
     as_peer plan ''server'' sy (server_rounds MAX_SYNC_ROUNDS tp bj sy (tp_plan tp t) 0 0) t"

end
