(* ===== verification/Exchange_Correct.thy ===== *)
theory Exchange_Correct
  imports Exchange Examples Plan_Correct
begin

text \<open>
  The exchange of drafts implements its specification.  \<open>lockstep\<close> is what synchronisation
  means: in turns, each side hands the other its next message, until the first has none.  Run on
  the plan of \<open>src/examples/draft-sync.colloqconv.json\<close>, each peer, fed with what the other
  sends, sends what the other was fed with, and both end with the drafts of the specification.
\<close>

section \<open>The conversation\<close>

definition sync_client :: role where
  "sync_client = \<lparr>role_id = ''client'', placement = [''node''], capabilities = [''draft.sync'']\<rparr>"

definition sync_server :: role where
  "sync_server = \<lparr>role_id = ''server'', placement = [''node''], capabilities = [''draft.sync'']\<rparr>"

definition draft_sync :: "string conversation" where
  "draft_sync = \<lparr>conv_schema = Some ''../spec/colloq-conversation-v0.schema.json'',
     conv_format = ''0.1.0'',
     conv_module = \<lparr>module_id = ''colloq.draft-sync'', semantic_version = Some ''0.1.0''\<rparr>,
     conv_roles = [sync_client, sync_server], conv_types = [plain_type ''sync''], conv_failures = [],
     conv_initial = ''client-turn'',
     conv_states =
       [GChoice ''client-turn'' ''client'' [(''done'', ''end''), (''message'', ''client-send'')] [],
        GSend ''client-send'' ''client'' ''server'' ''sync'' ''server-turn'' None [],
        GChoice ''server-turn'' ''server'' [(''idle'', ''client-turn''), (''message'', ''server-send'')] [],
        GSend ''server-send'' ''server'' ''client'' ''sync'' ''client-turn'' None [],
        GEnd ''end''],
     conv_annotations = []\<rparr>"

lemma draft_sync_endpoints:
  "compiled_endpoints draft_sync = [project_role draft_sync sync_client, project_role draft_sync sync_server]"
  by (simp add: compiled_endpoints_def project_validated_def draft_sync_def sync_client_def sync_server_def)

lemma draft_sync_compiles: "case compile_prepared plain_externals draft_sync of Inr _ \<Rightarrow> True | Inl _ \<Rightarrow> False"
  by code_simp

section \<open>The specification\<close>

primrec lockstep :: "nat \<Rightarrow> ('d, 'p, 'm) sync_ops \<Rightarrow> 'd \<times> 'p \<Rightarrow> 'd \<times> 'p
    \<Rightarrow> ((byte list \<times> byte list option) list \<times> 'd \<times> 'd) option" where
  \<comment> \<open>the messages of each round, and the drafts at the end\<close>
  "lockstep 0 sy c s = None"
| "lockstep (Suc left) sy c s =
     (case generate_sync_message sy (fst c) (snd c) of
        (None, c) \<Rightarrow> Some ([], fst c, fst s)
      | (Some forth, c) \<Rightarrow>
          (case receive_sync_message sy forth (fst s) (snd s) of
             (Inl _, _) \<Rightarrow> None
           | (Inr _, s) \<Rightarrow>
               (case generate_sync_message sy (fst s) (snd s) of
                  (None, s) \<Rightarrow> map_option (apfst (Cons (forth, None))) (lockstep left sy c s)
                | (Some back, s) \<Rightarrow>
                    (case receive_sync_message sy back (fst c) (snd c) of
                       (Inl _, _) \<Rightarrow> None
                     | (Inr _, c) \<Rightarrow>
                         map_option (apfst (Cons (forth, Some back))) (lockstep left sy c s)))))"

section \<open>A line between two peers\<close>

record 'v line =
  ln_in :: "'v envelope list"
  ln_out :: "'v envelope list"

definition line_transport :: "('v line, 'v) transport" where
  "line_transport =
     \<lparr>tp_plan = (\<lambda>_. ''line''),
      tp_send = (\<lambda>e t. (Inr (), t\<lparr>ln_out := ln_out t @ [e]\<rparr>)),
      tp_receive = (\<lambda>t. case ln_in t of
          [] \<Rightarrow> (Inl (RtTransportClosed ''line''), t)
        | e # es \<Rightarrow> (Inr e, t\<lparr>ln_in := es\<rparr>)),
      tp_finish = default_finish, tp_abort = id\<rparr>"

definition sync_envelope :: "prepared_plan \<Rightarrow> string \<Rightarrow> u64 \<Rightarrow> 'v frame \<Rightarrow> 'v envelope" where
  "sync_envelope plan state n f =
     \<lparr>env_wire = WIRE_FORMAT, env_conversation = ''colloq.draft-sync'',
      env_identity = pp_conversation_identity plan, env_state = state, env_sequence = n, env_frame = f\<rparr>"

definition sync_data :: "'v bytes_json \<Rightarrow> string \<Rightarrow> string \<Rightarrow> byte list \<Rightarrow> 'v frame" where
  "sync_data bj a b message = FData a b ''sync'' (Some (bj_object bj (encode_hex message)))"

fun client_says :: "prepared_plan \<Rightarrow> 'v bytes_json \<Rightarrow> u64 \<Rightarrow> (byte list \<times> byte list option) list
    \<Rightarrow> 'v envelope list" where
  "client_says plan bj n [] = [sync_envelope plan ''client-turn'' n (FSelect ''client'' ''done'')]"
| "client_says plan bj n ((forth, back) # log) =
     sync_envelope plan ''client-turn'' n (FSelect ''client'' ''message'') #
     sync_envelope plan ''client-send'' (n + 1) (sync_data bj ''client'' ''server'' forth) #
     client_says plan bj (if back = None then n + 3 else n + 4) log"

fun server_says :: "prepared_plan \<Rightarrow> 'v bytes_json \<Rightarrow> u64 \<Rightarrow> (byte list \<times> byte list option) list
    \<Rightarrow> 'v envelope list" where
  "server_says plan bj n [] = []"
| "server_says plan bj n ((forth, None) # log) =
     sync_envelope plan ''server-turn'' (n + 2) (FSelect ''server'' ''idle'') #
     server_says plan bj (n + 3) log"
| "server_says plan bj n ((forth, Some back) # log) =
     sync_envelope plan ''server-turn'' (n + 2) (FSelect ''server'' ''message'') #
     sync_envelope plan ''server-send'' (n + 3) (sync_data bj ''server'' ''client'' back) #
     server_says plan bj (n + 4) log"

fun log_frames :: "u64 \<Rightarrow> (byte list \<times> byte list option) list \<Rightarrow> u64" where
  "log_frames n [] = n + 1"
| "log_frames n ((forth, back) # log) = log_frames (if back = None then n + 3 else n + 4) log"

section \<open>The machines\<close>

definition sync_machine :: "prepared_plan \<Rightarrow> role \<Rightarrow> string \<Rightarrow> u64 \<Rightarrow> machine" where
  "sync_machine plan r state n =
     \<lparr>m_endpoint = project_role draft_sync r, m_identity = pp_conversation_identity plan,
      m_plan_identity = pp_plan_identity plan, m_current = state, m_sequence = n\<rparr>"

lemma sync_from_plan:
  assumes "compile_prepared ext draft_sync = Inr plan"
  shows "from_plan plan ''client'' = Inr (sync_machine plan sync_client ''client-turn'' 0)"
    and "from_plan plan ''server'' = Inr (sync_machine plan sync_server ''client-turn'' 0)"
proof -
  have "pp_endpoints plan = [project_role draft_sync sync_client, project_role draft_sync sync_server]"
    using assms draft_sync_endpoints by (auto elim: compile_prepared_shape)
  then show "from_plan plan ''client'' = Inr (sync_machine plan sync_client ''client-turn'' 0)"
    and "from_plan plan ''server'' = Inr (sync_machine plan sync_server ''client-turn'' 0)"
    by (simp_all add: from_plan_def find_endpoint_def sync_machine_def sync_client_def sync_server_def
        draft_sync_def)
qed

lemmas machine_run = sync_machine_def sync_envelope_def sync_data_def emit_select_def emit_data_def
  accept_def validate_envelope_def state_of_def state_at_def emit_def draft_sync_def sync_client_def
  sync_server_def project_role_def bt_contains_def

lemma sync_client_steps:
  "emit_select (sync_machine plan sync_client ''client-turn'' n) ''done'' =
     Inr (sync_envelope plan ''client-turn'' n (FSelect ''client'' ''done''),
       sync_machine plan sync_client ''end'' (n + 1))"
  "emit_select (sync_machine plan sync_client ''client-turn'' n) ''message'' =
     Inr (sync_envelope plan ''client-turn'' n (FSelect ''client'' ''message''),
       sync_machine plan sync_client ''client-send'' (n + 1))"
  "emit_data (sync_machine plan sync_client ''client-send'' n) (bj_object bj (encode_hex message)) =
     Inr (sync_envelope plan ''client-send'' n (sync_data bj ''client'' ''server'' message),
       sync_machine plan sync_client ''server-turn'' (n + 1))"
  "accept (sync_machine plan sync_client ''server-turn'' n)
     (sync_envelope plan ''server-turn'' n (FSelect ''server'' ''idle'')) =
     Inr (FSelect ''server'' ''idle'', sync_machine plan sync_client ''client-turn'' (n + 1))"
  "accept (sync_machine plan sync_client ''server-turn'' n)
     (sync_envelope plan ''server-turn'' n (FSelect ''server'' ''message'')) =
     Inr (FSelect ''server'' ''message'', sync_machine plan sync_client ''server-send'' (n + 1))"
  "accept (sync_machine plan sync_client ''server-send'' n)
     (sync_envelope plan ''server-send'' n (sync_data bj ''server'' ''client'' message)) =
     Inr (sync_data bj ''server'' ''client'' message, sync_machine plan sync_client ''client-turn'' (n + 1))"
  by (simp_all add: machine_run)

lemma sync_server_steps:
  "accept (sync_machine plan sync_server ''client-turn'' n)
     (sync_envelope plan ''client-turn'' n (FSelect ''client'' ''done'')) =
     Inr (FSelect ''client'' ''done'', sync_machine plan sync_server ''end'' (n + 1))"
  "accept (sync_machine plan sync_server ''client-turn'' n)
     (sync_envelope plan ''client-turn'' n (FSelect ''client'' ''message'')) =
     Inr (FSelect ''client'' ''message'', sync_machine plan sync_server ''client-send'' (n + 1))"
  "accept (sync_machine plan sync_server ''client-send'' n)
     (sync_envelope plan ''client-send'' n (sync_data bj ''client'' ''server'' message)) =
     Inr (sync_data bj ''client'' ''server'' message, sync_machine plan sync_server ''server-turn'' (n + 1))"
  "emit_select (sync_machine plan sync_server ''server-turn'' n) ''idle'' =
     Inr (sync_envelope plan ''server-turn'' n (FSelect ''server'' ''idle''),
       sync_machine plan sync_server ''client-turn'' (n + 1))"
  "emit_select (sync_machine plan sync_server ''server-turn'' n) ''message'' =
     Inr (sync_envelope plan ''server-turn'' n (FSelect ''server'' ''message''),
       sync_machine plan sync_server ''server-send'' (n + 1))"
  "emit_data (sync_machine plan sync_server ''server-send'' n) (bj_object bj (encode_hex message)) =
     Inr (sync_envelope plan ''server-send'' n (sync_data bj ''server'' ''client'' message),
       sync_machine plan sync_server ''client-turn'' (n + 1))"
  by (simp_all add: machine_run)

lemma sync_machine_end:
  "is_successful (sync_machine plan sync_client ''end'' n) = Inr True"
  "is_successful (sync_machine plan sync_server ''end'' n) = Inr True"
  by (simp_all add: is_successful_def machine_run)

section \<open>The runs\<close>

definition bytes_json_ok :: "'v bytes_json \<Rightarrow> bool" where
  \<comment> \<open>\<open>json!({"bytes": s})\<close> is an object whose member \<open>bytes\<close> is \<open>s\<close>\<close>
  "bytes_json_ok bj \<longleftrightarrow> (\<forall>s. bj_is_object bj (bj_object bj s) \<and> bj_bytes bj (bj_object bj s) = Some s)"

lemma sync_payload_data: "bytes_json_ok bj \<Longrightarrow> sync_payload bj (sync_data bj a b message) = Inr message"
  by (simp add: bytes_json_ok_def sync_payload_def sync_data_def decode_encode_hex)

abbreviation peer_on :: "machine \<Rightarrow> 'v envelope list \<Rightarrow> 'v envelope list \<Rightarrow> 'd \<times> 'p \<Rightarrow> ('v line, 'd, 'p) peer" where
  "peer_on m i out c \<equiv> \<lparr>pr_machine = m, pr_transport = \<lparr>ln_in = i, ln_out = out\<rparr>,
     pr_draft = fst c, pr_sync = snd c\<rparr>"

lemma exchange_send_line:
  "exchange_send line_transport f (peer_on m i out c) =
     (case f m of
        Inl e \<Rightarrow> (Inl (ExRuntime e), peer_on m i out c)
      | Inr (e, m') \<Rightarrow> (Inr (), peer_on m' i (out @ [e]) c))"
  by (auto simp: exchange_send_def act_then_def with_machine_def with_transport_def line_transport_def
      split: sum.splits)

lemma exchange_receive_line:
  "exchange_receive line_transport (peer_on m (e # es) out c) =
     (case accept m e of
        Inl err \<Rightarrow> (Inl (ExRuntime err), peer_on m es out c)
      | Inr (f, m') \<Rightarrow> (Inr f, peer_on m' es out c))"
  by (auto simp: exchange_receive_def act_then_def with_machine_def with_transport_def
      line_transport_def split: sum.splits)

lemma generate_line:
  "generate_message sy (peer_on m i out c) =
     (case generate_sync_message sy (fst c) (snd c) of (message, c') \<Rightarrow> (Inr message, peer_on m i out c'))"
  by (simp add: generate_message_def split: prod.splits)

lemma apply_line:
  "apply_message sy message (peer_on m i out c) =
     (case receive_sync_message sy message (fst c) (snd c) of (r, c') \<Rightarrow> (map_err ExDraft r, peer_on m i out c'))"
  by (simp add: apply_message_def split: prod.splits)

lemma finish_line: "finish_peer line_transport (peer_on m i out c) = (Inr (), peer_on m i out c)"
  by (simp add: finish_peer_def with_transport_def line_transport_def default_finish_def)

definition sync_report :: "('d, 'p, 'm) sync_ops \<Rightarrow> prepared_plan \<Rightarrow> string \<Rightarrow> nat \<Rightarrow> nat \<Rightarrow> u64 \<Rightarrow> 'd
    \<Rightarrow> exchange_report" where
  "sync_report sy plan role sent received n d =
     \<lparr>xr_role = role, xr_transport = ''line'', xr_conversation_identity = pp_conversation_identity plan,
      xr_plan_identity = pp_plan_identity plan, xr_sent = sent, xr_received = received, xr_frames = n,
      xr_completed = True, xr_heads = fst (sy_heads sy d)\<rparr>"

lemma summary_on:
  "exchange_summary sy ''line'' sent received (peer_on (sync_machine plan sync_client ''end'' n) i out c) =
     (Inr (sync_report sy plan ''client'' sent received n (fst c)),
      peer_on (sync_machine plan sync_client ''end'' n) i out (snd (sy_heads sy (fst c)), snd c))"
  "exchange_summary sy ''line'' sent received (peer_on (sync_machine plan sync_server ''end'' n) i out c) =
     (Inr (sync_report sy plan ''server'' sent received n (fst c)),
      peer_on (sync_machine plan sync_server ''end'' n) i out (snd (sy_heads sy (fst c)), snd c))"
  by (simp_all add: exchange_summary_def sync_machine_end sync_report_def Let_def split: prod.splits)
    (simp_all add: sync_machine_def sync_client_def sync_server_def)

definition backs :: "(byte list \<times> byte list option) list \<Rightarrow> nat" where
  "backs log = length (filter (\<lambda>(_, back). back \<noteq> None) log)"

lemmas line_run = act_then_def from_result_def send_message_def receive_message_def exchange_send_line
  exchange_receive_line generate_line apply_line finish_line summary_on sync_client_steps
  sync_server_steps sync_payload_data

lemma client_runs_lockstep:
  assumes "lockstep left sy c s = Some (log, dc, ds)" and "bytes_json_ok bj"
  shows "\<exists>pc. client_rounds left line_transport bj sy ''line'' round received
      (peer_on (sync_machine plan sync_client ''client-turn'' n) (server_says plan bj n log) out c) =
    (Inr (sync_report sy plan ''client'' (round + length log) (received + backs log) (log_frames n log) dc),
     peer_on (sync_machine plan sync_client ''end'' (log_frames n log)) [] (out @ client_says plan bj n log)
       (snd (sy_heads sy dc), pc))"
  using assms(1)
proof (induction left arbitrary: c s log round received n out)
  case (Suc left)
  obtain m c1 where g: "generate_sync_message sy (fst c) (snd c) = (m, c1)"
    by (metis surj_pair)
  show ?case
  proof (cases m)
    case None
    with Suc.prems g show ?thesis by (auto simp: line_run backs_def)
  next
    case (Some forth)
    with Suc.prems g obtain s1 m' s2 where
      r: "receive_sync_message sy forth (fst s) (snd s) = (Inr (), s1)" and
      g': "generate_sync_message sy (fst s1) (snd s1) = (m', s2)"
      by (auto split: prod.splits sum.splits)
    let ?out = "out @ [sync_envelope plan ''client-turn'' n (FSelect ''client'' ''message''),
        sync_envelope plan ''client-send'' (n + 1) (sync_data bj ''client'' ''server'' forth)]"
    show ?thesis
    proof (cases m')
      case None
      with Suc.prems g Some r g' obtain log' where
        l: "lockstep left sy c1 s2 = Some (log', dc, ds)" and log: "log = (forth, None) # log'"
        by auto
      from Suc.IH [OF l, of "round + 1" received "n + 3" ?out] g Some assms(2) show ?thesis
        by (simp add: line_run log backs_def add.commute [of "2" n] add.commute [of "3" n]
          add.commute [of "4" n])
    next
      case (Some reply)
      with Suc.prems g \<open>m = Some forth\<close> r g' obtain c2 log' where
        r': "receive_sync_message sy reply (fst c1) (snd c1) = (Inr (), c2)" and
        l: "lockstep left sy c2 s2 = Some (log', dc, ds)" and log: "log = (forth, Some reply) # log'"
        by (auto split: prod.splits sum.splits)
      from Suc.IH [OF l, of "round + 1" "received + 1" "n + 4" ?out] g \<open>m = Some forth\<close> r' assms(2)
      show ?thesis
        by (simp add: line_run log backs_def add.commute [of "2" n] add.commute [of "3" n]
          add.commute [of "4" n])
    qed
  qed
qed simp

lemma server_runs_lockstep:
  assumes "lockstep left sy c s = Some (log, dc, ds)" and "bytes_json_ok bj"
  shows "\<exists>ps. server_rounds left line_transport bj sy ''line'' sent received
      (peer_on (sync_machine plan sync_server ''client-turn'' n) (client_says plan bj n log) out s) =
    (Inr (sync_report sy plan ''server'' (sent + backs log) (received + length log) (log_frames n log) ds),
     peer_on (sync_machine plan sync_server ''end'' (log_frames n log)) [] (out @ server_says plan bj n log)
       (snd (sy_heads sy ds), ps))"
  using assms(1)
proof (induction left arbitrary: c s log sent received n out)
  case (Suc left)
  obtain m c1 where g: "generate_sync_message sy (fst c) (snd c) = (m, c1)"
    by (metis surj_pair)
  show ?case
  proof (cases m)
    case None
    with Suc.prems g show ?thesis by (auto simp: line_run backs_def)
  next
    case (Some forth)
    with Suc.prems g obtain s1 m' s2 where
      r: "receive_sync_message sy forth (fst s) (snd s) = (Inr (), s1)" and
      g': "generate_sync_message sy (fst s1) (snd s1) = (m', s2)"
      by (auto split: prod.splits sum.splits)
    show ?thesis
    proof (cases m')
      case None
      let ?out = "out @ [sync_envelope plan ''server-turn'' (n + 2) (FSelect ''server'' ''idle'')]"
      from None Suc.prems g Some r g' obtain log' where
        l: "lockstep left sy c1 s2 = Some (log', dc, ds)" and log: "log = (forth, None) # log'"
        by auto
      from Suc.IH [OF l, of sent "received + 1" "n + 3" ?out] g' None r assms(2) show ?thesis
        by (simp add: line_run log backs_def add.commute [of "2" n] add.commute [of "3" n]
          add.commute [of "4" n])
    next
      case (Some reply)
      let ?out = "out @ [sync_envelope plan ''server-turn'' (n + 2) (FSelect ''server'' ''message''),
        sync_envelope plan ''server-send'' (n + 3) (sync_data bj ''server'' ''client'' reply)]"
      from Some Suc.prems g \<open>m = Some forth\<close> r g' obtain c2 log' where
        l: "lockstep left sy c2 s2 = Some (log', dc, ds)" and log: "log = (forth, Some reply) # log'"
        by (auto split: prod.splits sum.splits)
      from Suc.IH [OF l, of "sent + 1" "received + 1" "n + 4" ?out] g' Some r assms(2) show ?thesis
        by (simp add: line_run log backs_def add.commute [of "2" n] add.commute [of "3" n]
          add.commute [of "4" n])
    qed
  qed
qed simp

end
