(* ===== verification/Exchange_Properties.thy ===== *)
theory Exchange_Properties
  imports Exchange_Correct
begin

text \<open>
  Theorems on the exchange of drafts: the two peers implement the lockstep synchronisation, and
  neither runs for more than \<open>MAX_SYNC_ROUNDS\<close> rounds.
\<close>

text \<open>C29: the exchange implements lockstep synchronisation.  On any compilation of the draft-sync
  conversation, if handing messages over in turns ends within 1024 rounds without an error, then
  the client, fed with what the server sends, sends what the server was fed with, and conversely;
  both complete with the drafts of the lockstep, report each other's counts and the same number of
  frames, and leave no envelope behind.\<close>

theorem exchange_lockstep:
  assumes "compile_prepared ext draft_sync = Inr plan" and "bytes_json_ok bj"
    and "lockstep MAX_SYNC_ROUNDS sy (dc, sy_new sy) (ds, sy_new sy) = Some (log, dc', ds')"
  shows "\<exists>from_client from_server rc rs.
    run_draft_sync_client line_transport bj sy plan \<lparr>ln_in = from_server, ln_out = []\<rparr> dc =
      (Inr rc, \<lparr>ln_in = [], ln_out = from_client\<rparr>, snd (sy_heads sy dc')) \<and>
    run_draft_sync_server line_transport bj sy plan \<lparr>ln_in = from_client, ln_out = []\<rparr> ds =
      (Inr rs, \<lparr>ln_in = [], ln_out = from_server\<rparr>, snd (sy_heads sy ds')) \<and>
    xr_completed rc \<and> xr_completed rs \<and> xr_sent rc = length log \<and> xr_received rs = length log \<and>
    xr_received rc = xr_sent rs \<and> xr_frames rc = xr_frames rs \<and>
    xr_heads rc = fst (sy_heads sy dc') \<and> xr_heads rs = fst (sy_heads sy ds')"
proof -
  let ?c = "client_says plan bj 0 log" and ?s = "server_says plan bj 0 log"
  from client_runs_lockstep [OF assms(3,2), of 0 0 plan 0 "[]"] obtain pc where
    c: "client_rounds MAX_SYNC_ROUNDS line_transport bj sy ''line'' 0 0
        (peer_on (sync_machine plan sync_client ''client-turn'' 0) ?s [] (dc, sy_new sy)) =
      (Inr (sync_report sy plan ''client'' (length log) (backs log) (log_frames 0 log) dc'),
       peer_on (sync_machine plan sync_client ''end'' (log_frames 0 log)) [] ?c (snd (sy_heads sy dc'), pc))"
    by auto
  from server_runs_lockstep [OF assms(3,2), of 0 0 plan 0 "[]"] obtain ps where
    s: "server_rounds MAX_SYNC_ROUNDS line_transport bj sy ''line'' 0 0
        (peer_on (sync_machine plan sync_server ''client-turn'' 0) ?c [] (ds, sy_new sy)) =
      (Inr (sync_report sy plan ''server'' (backs log) (length log) (log_frames 0 log) ds'),
       peer_on (sync_machine plan sync_server ''end'' (log_frames 0 log)) [] ?s (snd (sy_heads sy ds'), ps))"
    by auto
  have name: "tp_plan line_transport t = ''line''" for t by (simp add: line_transport_def)
  show ?thesis
    using c s
    by (intro exI [of _ ?c] exI [of _ ?s]
        exI [of _ "sync_report sy plan ''client'' (length log) (backs log) (log_frames 0 log) dc'"]
        exI [of _ "sync_report sy plan ''server'' (backs log) (length log) (log_frames 0 log) ds'"])
      (simp add: run_draft_sync_client_def run_draft_sync_server_def as_peer_def name
        sync_from_plan [OF assms(1)] sync_report_def)
qed

definition counter_sync :: "(nat, nat, nat) sync_ops" where
  \<comment> \<open>a draft is a number, and a peer tells it once; the larger one wins\<close>
  "counter_sync =
     \<lparr>sy_new = 0, sy_generate = (\<lambda>d p. if p = 0 then (Some d, d, 1) else (None, d, p)),
      sy_encode = (\<lambda>m. [word_of_nat m]), sy_decode = (\<lambda>bs. Inr (unat (hd bs))),
      sy_receive = (\<lambda>m d p. (Inr (), max m d, p)), sy_heads = (\<lambda>d. ([show_nat d], d))\<rparr>"

definition text_bytes_json :: "string bytes_json" where
  "text_bytes_json = \<lparr>bj_object = id, bj_is_object = (\<lambda>_. True), bj_bytes = Some\<rparr>"

lemma exchange_lockstep_witness:
  "\<exists>plan from_client from_server rc rs.
    compile_prepared plain_externals draft_sync = Inr plan \<and>
    run_draft_sync_client line_transport text_bytes_json counter_sync plan
      \<lparr>ln_in = from_server, ln_out = []\<rparr> 3 = (Inr rc, \<lparr>ln_in = [], ln_out = from_client\<rparr>, 5) \<and>
    run_draft_sync_server line_transport text_bytes_json counter_sync plan
      \<lparr>ln_in = from_client, ln_out = []\<rparr> 5 = (Inr rs, \<lparr>ln_in = [], ln_out = from_server\<rparr>, 5) \<and>
    xr_completed rc \<and> xr_completed rs"
proof -
  obtain plan where plan: "compile_prepared plain_externals draft_sync = Inr plan"
    using draft_sync_compiles by (auto split: sum.splits)
  have ok: "bytes_json_ok text_bytes_json" by (simp add: bytes_json_ok_def text_bytes_json_def)
  have run: "lockstep MAX_SYNC_ROUNDS counter_sync (3, sy_new counter_sync) (5, sy_new counter_sync) =
      Some ([([3], Some [5])], 5, 5)"
  proof -
    have "MAX_SYNC_ROUNDS = Suc (Suc 1022)" by (simp add: MAX_SYNC_ROUNDS_def)
    then obtain k where k: "MAX_SYNC_ROUNDS = Suc (Suc k)" by blast
    show ?thesis
      unfolding k by (simp add: counter_sync_def generate_sync_message_def receive_sync_message_def)
  qed
  from exchange_lockstep [OF plan ok run] plan show ?thesis
    by (simp add: counter_sync_def) blast
qed

end
