(* ===== verification/Closing.thy ===== *)
theory Closing
  imports Link
begin

text \<open>
  How the connections of \<open>src/src/runtime.rs\<close> and \<open>src/src/runtime/iroh.rs\<close> open and close:
  whom an Iroh node accepts and connects to, and the close handshakes of QUIC and Iroh, in which
  four zero bytes are the marker of completion.  The operations of \<open>quinn\<close> and \<open>iroh\<close> are the
  fields of \<open>closing\<close> and \<open>iroh_net\<close>.
\<close>

section \<open>The close handshake\<close>

datatype close_reason = AppClosed nat | OtherReason string

record 's closing =
  cl_write :: "byte list \<Rightarrow> ('s, string, unit) action"
  cl_read :: "nat \<Rightarrow> ('s, string, byte list) action"
  cl_read_timed :: "nat \<Rightarrow> 's \<Rightarrow> (string + byte list) option \<times> 's"  \<comment> \<open>\<open>None\<close>: out of time\<close>
  cl_finish :: "('s, string, unit) action"
  cl_close :: "'s \<Rightarrow> 's"
  cl_stopped :: "'s \<Rightarrow> 's"
  cl_closed :: "'s \<Rightarrow> close_reason \<times> 's"
  cl_reason_text :: "close_reason \<Rightarrow> string"
  cl_endpoint_close :: "'s \<Rightarrow> 's"

record 's closable =
  cb_stream :: 's
  cb_finished :: bool

definition close_marker :: "byte list" where
  "close_marker = be32 0"

definition check_marker :: "string \<Rightarrow> byte list \<Rightarrow> string + unit" where
  "check_marker name marker =
     guard_err (of_be32 marker \<noteq> 0) (''expected Colloq '' @ name @ '' close marker'')"

definition read_close_marker :: "'s closing \<Rightarrow> ('s, string, unit) action" where
  "read_close_marker cl =
     act_then (cl_read cl 4) (\<lambda>marker. from_result (check_marker ''Iroh'' marker))"

definition await_close_marker :: "'s closing \<Rightarrow> ('s, string, unit) action" where
  "await_close_marker cl s =
     (case cl_read_timed cl 4 s of
        (None, s') \<Rightarrow> (Inl ''peer did not answer the Colloq QUIC close handshake'', s')
      | (Some r, s') \<Rightarrow> (and_then r (check_marker ''QUIC''), s'))"

definition updating :: "('s \<Rightarrow> 's) \<Rightarrow> ('s, 'e, unit) action" where
  "updating f s = (Inr (), f s)"

definition quic_finish_body :: "'s closing \<Rightarrow> string \<Rightarrow> ('s, 'v runtime_error, unit) action" where
  \<comment> \<open>the result of \<open>send.finish()\<close> and of the wait for \<open>stopped\<close> are dropped\<close>
  "quic_finish_body cl role =
     (if role = ''client'' then
        act_then (act_map_err RtQuic
          (act_then (cl_write cl close_marker) (\<lambda>_. await_close_marker cl))) (\<lambda>_.
        updating (\<lambda>s. cl_close cl (snd (cl_finish cl s))))
      else if role = ''server'' then
        act_then (act_map_err RtQuic
          (act_then (await_close_marker cl) (\<lambda>_. cl_write cl close_marker))) (\<lambda>_.
        updating (\<lambda>s. cl_stopped cl (snd (cl_finish cl s))))
      else fails_with (RtQuic (''QUIC close handshake does not support role '' @ role)))"

definition await_closed :: "'s closing \<Rightarrow> ('s, 'v runtime_error, unit) action" where
  "await_closed cl s =
     (case cl_closed cl s of
        (reason, s') \<Rightarrow>
          if reason = AppClosed 0 then (Inr (), s')
          else (Inl (RtIroh (''Iroh connection closed before the server acknowledged completion: '' @
            cl_reason_text cl reason)), s'))"

definition iroh_finish_body :: "'s closing \<Rightarrow> string \<Rightarrow> ('s, 'v runtime_error, unit) action" where
  "iroh_finish_body cl role =
     (if role = ''client'' then
        act_then (act_map_err RtIroh
          (act_then (cl_write cl close_marker) (\<lambda>_.
           act_then (read_close_marker cl) (\<lambda>_. cl_write cl close_marker)))) (\<lambda>_.
        act_then (act_map_err RtIroh (cl_finish cl)) (\<lambda>_.
        act_then (await_closed cl) (\<lambda>_.
        updating (cl_endpoint_close cl))))
      else if role = ''server'' then
        act_then (act_map_err RtIroh
          (act_then (read_close_marker cl) (\<lambda>_.
           act_then (cl_write cl close_marker) (\<lambda>_. read_close_marker cl)))) (\<lambda>_.
        act_then (act_map_err RtIroh (cl_finish cl)) (\<lambda>_.
        updating (cl_endpoint_close cl)))
      else fails_with (RtIroh (''Iroh close handshake does not support role '' @ role)))"

definition finish_once :: "('s, 'e, unit) action \<Rightarrow> ('s closable, 'e, unit) action" where
  \<comment> \<open>\<open>if self.finished { return Ok(()) } .. self.finished = true\<close>\<close>
  "finish_once body c =
     (if cb_finished c then (Inr (), c)
      else case body (cb_stream c) of
          (Inl e, s) \<Rightarrow> (Inl e, c\<lparr>cb_stream := s\<rparr>)
        | (Inr _, s) \<Rightarrow> (Inr (), \<lparr>cb_stream = s, cb_finished = True\<rparr>))"

definition quic_finish :: "'s closing \<Rightarrow> string \<Rightarrow> ('s closable, 'v runtime_error, unit) action" where
  "quic_finish cl role = finish_once (quic_finish_body cl role)"

definition iroh_finish :: "'s closing \<Rightarrow> string \<Rightarrow> ('s closable, 'v runtime_error, unit) action" where
  "iroh_finish cl role = finish_once (iroh_finish_body cl role)"

section \<open>Opening an Iroh connection\<close>

record ('s, 'id, 'addr, 'i, 'c, 'st) iroh_net =
  nt_incoming :: "'s \<Rightarrow> 'i option \<times> 's"
  nt_handshake :: "'i \<Rightarrow> ('s, string, 'c) action"
  nt_refuse :: "'c \<Rightarrow> 's \<Rightarrow> 's"
  nt_close :: "'s \<Rightarrow> 's"
  nt_accept_bi :: "'c \<Rightarrow> ('s, string, 'st) action"
  nt_connect :: "'addr \<Rightarrow> ('s, string, 'c) action"
  nt_open_bi :: "'c \<Rightarrow> ('s, string, 'st) action"
  nt_remote :: "'c \<Rightarrow> 'id"
  nt_addr_id :: "'addr \<Rightarrow> 'id"
  nt_show :: "'id \<Rightarrow> string"

record ('id, 'c, 'st) iroh_transport =
  it_connection :: 'c
  it_streams :: 'st
  it_codec :: envelope_codec
  it_remote :: 'id
  it_established :: bool
  it_finished :: bool

definition new_iroh_transport :: "('s, 'id, 'addr, 'i, 'c, 'st) iroh_net \<Rightarrow> 'c \<Rightarrow> 'st \<Rightarrow> envelope_codec
    \<Rightarrow> ('id, 'c, 'st) iroh_transport" where
  "new_iroh_transport nt connection streams codec =
     \<lparr>it_connection = connection, it_streams = streams, it_codec = codec,
      it_remote = nt_remote nt connection, it_established = False, it_finished = False\<rparr>"

definition verify_remote_identity :: "('s, 'id, 'addr, 'i, 'c, 'st) iroh_net \<Rightarrow> 'id \<Rightarrow> 'id
    \<Rightarrow> 'v runtime_error + unit" where
  "verify_remote_identity nt actual expected =
     guard_err (actual \<noteq> expected) (RtIrohPeerIdentity (nt_show nt expected) (nt_show nt actual))"

definition verify_remote_authorized :: "('s, 'id, 'addr, 'i, 'c, 'st) iroh_net \<Rightarrow> 'id \<Rightarrow> 'id list
    \<Rightarrow> 'v runtime_error + unit" where
  "verify_remote_authorized nt actual authorized =
     guard_err (actual \<notin> set authorized)
       (RtIrohPeerIdentity (join_with '','' (map (nt_show nt) authorized)) (nt_show nt actual))"

definition iroh_accept :: "('s, 'id, 'addr, 'i, 'c, 'st) iroh_net \<Rightarrow> 'id list \<Rightarrow> envelope_codec
    \<Rightarrow> ('s, 'v runtime_error, ('id, 'c, 'st) iroh_transport) action" where
  \<comment> \<open>\<open>accept_with_codec\<close>\<close>
  "iroh_accept nt authorized codec s =
     (case nt_incoming nt s of
        (None, s) \<Rightarrow> (Inl (RtIroh ''Iroh endpoint closed''), s)
      | (Some incoming, s) \<Rightarrow>
          act_then (act_map_err RtIroh (nt_handshake nt incoming)) (\<lambda>connection.
          case verify_remote_authorized nt (nt_remote nt connection) authorized of
            Inl e \<Rightarrow> (\<lambda>s. (Inl e, nt_close nt (nt_refuse nt connection s)))
          | Inr _ \<Rightarrow>
              act_then (act_map_err RtIroh (nt_accept_bi nt connection)) (\<lambda>streams.
              done_with (new_iroh_transport nt connection streams codec))) s)"

definition iroh_connect :: "('s, 'id, 'addr, 'i, 'c, 'st) iroh_net \<Rightarrow> 'addr \<Rightarrow> 'id \<Rightarrow> envelope_codec
    \<Rightarrow> ('s, 'v runtime_error, ('id, 'c, 'st) iroh_transport) action" where
  \<comment> \<open>\<open>connect_with_codec\<close>: a wrong address is refused before anything is sent\<close>
  "iroh_connect nt remote expected codec s =
     (case verify_remote_identity nt (nt_addr_id nt remote) expected of
        Inl e \<Rightarrow> (Inl e, nt_close nt s)
      | Inr _ \<Rightarrow>
          act_then (act_map_err RtIroh (nt_connect nt remote)) (\<lambda>connection.
          act_then (from_result (verify_remote_identity nt (nt_remote nt connection) expected)) (\<lambda>_.
          act_then (act_map_err RtIroh (nt_open_bi nt connection)) (\<lambda>streams.
          done_with (new_iroh_transport nt connection streams codec)))) s)"

end
