(* ===== verification/Closing_Properties.thy ===== *)
theory Closing_Properties
  imports Closing
begin

text \<open>
  Theorems on opening and closing connections: an Iroh transport only ever talks to an expected
  peer, and a connection that finished has the peer's marker.
\<close>

text \<open>An Iroh transport talks to an expected peer.  A node that accepts with a list of authorised
  identities only returns a transport whose authenticated remote identity is on it; a node that
  connects only returns one whose remote is the expected peer, and when the address names another
  it closes without a handshake.  Neither transport has a session yet.\<close>

theorem iroh_peer_expected:
  fixes nt :: "('s, 'id, 'addr, 'i, 'c, 'st) iroh_net"
  shows "(case iroh_accept nt authorized codec s of
      (Inr t, _) \<Rightarrow> it_remote t \<in> set authorized \<and> \<not> it_established t
    | (Inl (e :: 'v runtime_error), _) \<Rightarrow> True) \<and>
    (case iroh_connect nt remote expected codec u of
      (Inr t, _) \<Rightarrow> it_remote t = expected \<and> nt_addr_id nt remote = expected \<and> \<not> it_established t
    | (Inl (e :: 'v runtime_error), u') \<Rightarrow> nt_addr_id nt remote = expected \<or>
        e = RtIrohPeerIdentity (nt_show nt expected) (nt_show nt (nt_addr_id nt remote)) \<and>
        u' = nt_close nt u)"
proof (intro conjI)
  show "case iroh_accept nt authorized codec s of
      (Inr t, _) \<Rightarrow> it_remote t \<in> set authorized \<and> \<not> it_established t
    | (Inl (e :: 'v runtime_error), _) \<Rightarrow> True"
    by (auto simp: iroh_accept_def verify_remote_authorized_def new_iroh_transport_def act_then_def
        act_map_err_def done_with_def guard_err_def map_err_Inr split: prod.splits option.splits
        sum.splits if_splits)
  show "case iroh_connect nt remote expected codec u of
      (Inr t, _) \<Rightarrow> it_remote t = expected \<and> nt_addr_id nt remote = expected \<and> \<not> it_established t
    | (Inl (e :: 'v runtime_error), u') \<Rightarrow> nt_addr_id nt remote = expected \<or>
        e = RtIrohPeerIdentity (nt_show nt expected) (nt_show nt (nt_addr_id nt remote)) \<and>
        u' = nt_close nt u"
    by (auto simp: iroh_connect_def verify_remote_identity_def new_iroh_transport_def act_then_def
        act_map_err_def done_with_def from_result_def guard_err_def map_err_Inr
        split: prod.splits option.splits sum.splits if_splits)
qed

text \<open>A finished connection is acknowledged.  Finishing succeeds only for the roles client and
  server, only after a marker of four zero bytes of the peer was read, and for an Iroh client only
  once the server closed the connection with code zero; finishing again, in any role, does
  nothing.\<close>

theorem finish_acknowledged:
  fixes cl :: "'s closing"
  assumes "iroh_finish cl role \<lparr>cb_stream = s, cb_finished = False\<rparr> = (Inr () :: 'v runtime_error + unit, c)"
  shows "cb_finished c \<and> iroh_finish cl role' c = (Inr () :: 'v runtime_error + unit, c) \<and>
    role \<in> {''client'', ''server''} \<and>
    (\<exists>before marker after. cl_read cl 4 before = (Inr marker, after) \<and> of_be32 marker = 0) \<and>
    (role = ''server'' \<or> (\<exists>before after. cl_closed cl before = (AppClosed 0, after)))"
proof -
  from assms obtain s' where body: "iroh_finish_body cl role s = (Inr () :: 'v runtime_error + unit, s')"
    and c: "c = \<lparr>cb_stream = s', cb_finished = True\<rparr>"
    by (auto simp: iroh_finish_def finish_once_def split: prod.splits sum.splits)
  have marker: "\<exists>bytes. cl_read cl 4 x = (Inr bytes, y) \<and> of_be32 bytes = 0"
    if "read_close_marker cl x = (Inr (), y)" for x y
    using that by (auto simp: read_close_marker_def check_marker_def act_then_Inr result_simps)
  have closed: "cl_closed cl x = (AppClosed 0, y)"
    if "await_closed cl x = (Inr () :: 'v runtime_error + unit, y)" for x y
    using that by (auto simp: await_closed_def split: prod.splits if_splits)
  have "cb_finished c \<and> iroh_finish cl role' c = (Inr () :: 'v runtime_error + unit, c)"
    by (simp add: c iroh_finish_def finish_once_def)
  moreover have "role \<in> {''client'', ''server''}"
    using body by (auto simp: iroh_finish_body_def fails_with_def split: if_splits)
  moreover have "\<exists>before marker after. cl_read cl 4 before = (Inr marker, after) \<and> of_be32 marker = 0"
    using body by (auto simp: iroh_finish_body_def fails_with_def action_simps split: if_splits dest!: marker)
  moreover have "role = ''server'' \<or> (\<exists>before after. cl_closed cl before = (AppClosed 0, after))"
    using body by (auto simp: iroh_finish_body_def fails_with_def action_simps split: if_splits dest!: closed)
  ultimately show ?thesis by blast
qed

definition marker_line :: "(byte list \<times> byte list) closing" where
  \<comment> \<open>what is left to read, and what was written\<close>
  "marker_line =
     \<lparr>cl_write = (\<lambda>bs (i, out). (Inr (), i, out @ bs)),
      cl_read = (\<lambda>n (i, out). if length i < n then (Inl ''end'', i, out) else (Inr (take n i), drop n i, out)),
      cl_read_timed = (\<lambda>n (i, out). if length i < n then (None, i, out)
        else (Some (Inr (take n i)), drop n i, out)),
      cl_finish = (\<lambda>s. (Inr (), s)), cl_close = id, cl_stopped = id,
      cl_closed = (\<lambda>s. (AppClosed 0, s)), cl_reason_text = (\<lambda>_. ''closed''), cl_endpoint_close = id\<rparr>"

lemma finish_acknowledged_witness:
  "iroh_finish marker_line ''client'' \<lparr>cb_stream = ([0, 0, 0, 0], []), cb_finished = False\<rparr> =
     (Inr () :: unit runtime_error + unit,
      \<lparr>cb_stream = ([], [0, 0, 0, 0, 0, 0, 0, 0]), cb_finished = True\<rparr>) \<and>
   iroh_finish marker_line ''server'' \<lparr>cb_stream = ([], [0, 0, 0, 0, 0, 0, 0, 0]), cb_finished = True\<rparr> =
     (Inr () :: unit runtime_error + unit,
      \<lparr>cb_stream = ([], [0, 0, 0, 0, 0, 0, 0, 0]), cb_finished = True\<rparr>)"
proof -
  have run: "iroh_finish marker_line ''client'' \<lparr>cb_stream = ([0, 0, 0, 0], []), cb_finished = False\<rparr> =
     (Inr () :: unit runtime_error + unit,
      \<lparr>cb_stream = ([], [0, 0, 0, 0, 0, 0, 0, 0]), cb_finished = True\<rparr>)"
    by (simp add: iroh_finish_def finish_once_def iroh_finish_body_def marker_line_def close_marker_def
        be32_def act_then_def act_map_err_def read_close_marker_def check_marker_def from_result_def
        of_be32_def await_closed_def updating_def)
  from finish_acknowledged [OF run, of "''server''"] run show ?thesis by blast
qed

end
