(* ===== verification/Demos.thy ===== *)
theory Demos
  imports Workload
begin

text \<open>
  The demonstrations of \<open>src/src/runtime.rs\<close> and \<open>src/src/runtime/iroh.rs\<close>: a client and a
  server run in two threads and their reports are compared.  The threads run under the scheduler
  of the system; a demonstration is a function of what its two workers return, where \<open>None\<close> is a
  worker that panicked.
\<close>

type_synonym 'v outcome = "('v runtime_error + 'v execution_report) option"

definition join_workers :: "'v outcome \<Rightarrow> 'v outcome
    \<Rightarrow> 'v runtime_error + ('v execution_report \<times> 'v execution_report)" where
  \<comment> \<open>the client is joined first, and its error wins\<close>
  "join_workers client server =
     and_then (ok_or RtWorkerPanicked client) (\<lambda>r.
     and_then r (\<lambda>client.
     and_then (ok_or RtWorkerPanicked server) (\<lambda>r.
     and_then r (\<lambda>server. Inr (client, server)))))"

definition demo_with :: "string \<Rightarrow> wire_encoding \<Rightarrow> 'v outcome \<Rightarrow> 'v outcome
    \<Rightarrow> 'v runtime_error + 'v demo_summary" where
  "demo_with name encoding client server =
     and_then (join_workers client server) (\<lambda>(client, server).
     Inr (demo_report
       (case encoding of ReferenceEncoding \<Rightarrow> name | CompactEncoding \<Rightarrow> name @ ''+compact'')
       client server))"

definition memory_plan_demo :: "wire_encoding \<Rightarrow> 'v outcome \<Rightarrow> 'v outcome
    \<Rightarrow> 'v runtime_error + 'v demo_summary" where
  "memory_plan_demo = demo_with ''memory''"

definition tcp_plan_demo :: "wire_encoding \<Rightarrow> 'v outcome \<Rightarrow> 'v outcome
    \<Rightarrow> 'v runtime_error + 'v demo_summary" where
  "tcp_plan_demo = demo_with ''tcp''"

definition iroh_plan_demo :: "wire_encoding \<Rightarrow> 'v outcome \<Rightarrow> 'v outcome
    \<Rightarrow> 'v runtime_error + 'v demo_summary" where
  "iroh_plan_demo = demo_with ''iroh''"

definition quic_labelled :: "('v runtime_error \<Rightarrow> string) \<Rightarrow> string \<Rightarrow> 'v runtime_error + 'a
    \<Rightarrow> 'v runtime_error + 'a" where
  \<comment> \<open>\<open>map_err(|error| RuntimeError::Quic(format!("{label}: {error}")))\<close>\<close>
  "quic_labelled show_error label = map_err (\<lambda>error. RtQuic (label @ '': '' @ show_error error))"

definition quic_plan_demo :: "('v runtime_error \<Rightarrow> string) \<Rightarrow> wire_encoding \<Rightarrow> 'v outcome \<Rightarrow> 'v outcome
    \<Rightarrow> 'v runtime_error + 'v demo_summary" where
  "quic_plan_demo show_error encoding client server =
     demo_with ''quic'' encoding (map_option (quic_labelled show_error ''demo client'') client)
       (map_option (quic_labelled show_error ''demo server'') server)"

text \<open>
  The demonstrations that compile their conversation first and run it in the reference encoding.
  The workers are a function of the plan, because the threads are not modelled here; theory
  \<open>Threads\<close> has those of the demonstration in memory.
\<close>

definition compiled_demo :: "'v externals \<Rightarrow> (prepared_plan \<Rightarrow> 'v runtime_error + 'v demo_summary)
    \<Rightarrow> 'v conversation \<Rightarrow> 'v runtime_error + 'v demo_summary" where
  "compiled_demo ext demo c = and_then (map_err RtPlan (compile_prepared ext c)) demo"

definition run_tcp_demo :: "'v externals \<Rightarrow> (prepared_plan \<Rightarrow> 'v outcome \<times> 'v outcome) \<Rightarrow> 'v conversation
    \<Rightarrow> 'v runtime_error + 'v demo_summary" where
  "run_tcp_demo ext workers =
     compiled_demo ext (\<lambda>plan. case workers plan of (client, server) \<Rightarrow>
       tcp_plan_demo ReferenceEncoding client server)"

definition run_quic_demo :: "'v externals \<Rightarrow> ('v runtime_error \<Rightarrow> string)
    \<Rightarrow> (prepared_plan \<Rightarrow> 'v outcome \<times> 'v outcome) \<Rightarrow> 'v conversation \<Rightarrow> 'v runtime_error + 'v demo_summary" where
  "run_quic_demo ext show_error workers =
     compiled_demo ext (\<lambda>plan. case workers plan of (client, server) \<Rightarrow>
       quic_plan_demo show_error ReferenceEncoding client server)"

definition run_iroh_demo :: "'v externals \<Rightarrow> (prepared_plan \<Rightarrow> 'v outcome \<times> 'v outcome) \<Rightarrow> 'v conversation
    \<Rightarrow> 'v runtime_error + 'v demo_summary" where
  "run_iroh_demo ext workers =
     compiled_demo ext (\<lambda>plan. case workers plan of (client, server) \<Rightarrow>
       iroh_plan_demo ReferenceEncoding client server)"

section \<open>Workers\<close>

definition session_worker :: "('t, 'v runtime_error, unit) action
    \<Rightarrow> ('t \<Rightarrow> (('v runtime_error + 'v execution_report) \<times> 't) option) \<Rightarrow> 't
    \<Rightarrow> (('v runtime_error + 'v execution_report) \<times> 't) option" where
  \<comment> \<open>\<open>transport.establish_session(..)?; run_generate_.._plan(..)\<close>\<close>
  "session_worker establish run t =
     (case establish t of
        (Inl e, t) \<Rightarrow> Some (Inl e, t)
      | (Inr _, t) \<Rightarrow> run t)"

definition quic_worker :: "('v runtime_error \<Rightarrow> string) \<Rightarrow> string \<Rightarrow> ('t, 'v runtime_error, unit) action
    \<Rightarrow> ('t \<Rightarrow> (('v runtime_error + 'v execution_report) \<times> 't) option) \<Rightarrow> 't
    \<Rightarrow> (('v runtime_error + 'v execution_report) \<times> 't) option" where
  "quic_worker show_error who establish run =
     session_worker
       (\<lambda>t. case establish t of (r, t) \<Rightarrow> (quic_labelled show_error (who @ '' session'') r, t))
       (\<lambda>t. map_option (\<lambda>(r, t). (quic_labelled show_error (who @ '' execution'') r, t)) (run t))"

section \<open>Demonstrations of a fault\<close>

definition plan_handles :: "prepared_plan \<Rightarrow> string \<Rightarrow> bool" where
  "plan_handles plan failure \<longleftrightarrow>
     list_ex (\<lambda>state. efailure_target state failure \<noteq> None) (concat (map ep_states (pp_endpoints plan)))"

definition check_fault :: "prepared_plan \<Rightarrow> fault_plan \<Rightarrow> 'v runtime_error + unit" where
  \<comment> \<open>the three checks before the run\<close>
  "check_fault plan fault =
     and_then (guard_err (find_endpoint (fp_role fault) (pp_endpoints plan) = None)
       (RtUnknownRole (fp_role fault))) (\<lambda>_.
     and_then (guard_err (\<not> plan_handles plan (fp_failure fault))
       (RtApplication (AppText (''fault plan references undeclared failure '' @ fp_failure fault)))) (\<lambda>_.
     case fp_peer_failure fault of
       None \<Rightarrow> Inr ()
     | Some peer_failure \<Rightarrow> guard_err (\<not> plan_handles plan peer_failure)
         (RtApplication (AppText (''fault plan references undeclared peer failure '' @ peer_failure)))))"

definition memory_plan_fault_demo :: "prepared_plan \<Rightarrow> fault_plan \<Rightarrow> 't \<Rightarrow> 't
    \<Rightarrow> ('t fault_state \<Rightarrow> 't fault_state \<Rightarrow> 'v outcome \<times> 'v outcome \<times> bool)
    \<Rightarrow> 'v runtime_error + 'v demo_summary" where
  \<comment> \<open>\<open>run\<close> runs the two workers on the wrapped transports and reads the flag they share\<close>
  "memory_plan_fault_demo plan fault client_transport server_transport run =
     and_then (check_fault plan fault) (\<lambda>_.
     and_then (with_fired client_transport ''client'' fault False) (\<lambda>client_transport.
     and_then (with_fired server_transport ''server'' fault False) (\<lambda>server_transport.
     case run client_transport server_transport of
       (client, server, fired) \<Rightarrow>
         and_then (join_workers client server) (\<lambda>(client, server).
         and_then (guard_err (\<not> fired) (RtApplication (AppText (''fault plan did not fire: '' @
           fp_role fault @ '' '' @ fault_operation_str (fp_operation fault) @ '' occurrence '' @
           show_nat (fp_occurrence fault) @ '' was not reached'')))) (\<lambda>_.
         Inr ((demo_report ''memory+fault'' client server)\<lparr>dr_fault_plan := Some fault\<rparr>))))))"

definition run_memory_fault_demo :: "'v externals \<Rightarrow> 'v conversation \<Rightarrow> fault_plan \<Rightarrow> 't \<Rightarrow> 't
    \<Rightarrow> (prepared_plan \<Rightarrow> 't fault_state \<Rightarrow> 't fault_state \<Rightarrow> 'v outcome \<times> 'v outcome \<times> bool)
    \<Rightarrow> 'v runtime_error + 'v demo_summary" where
  "run_memory_fault_demo ext c fault client_transport server_transport run =
     compiled_demo ext (\<lambda>plan.
       memory_plan_fault_demo plan fault client_transport server_transport (run plan)) c"

section \<open>Sequences of operations under a fault\<close>

fun injections :: "fault_operation list \<Rightarrow> 't fault_state \<Rightarrow> bool list" where
  \<comment> \<open>which of a wrapper's operations are replaced by the fault\<close>
  "injections [] f = []"
| "injections (operation # operations) f =
     fst (should_inject operation f) # injections operations (snd (should_inject operation f))"

lemma count_operation_keeps [simp]:
  "fs_plan (count_operation operation f) = fs_plan f"
  "fs_role (count_operation operation f) = fs_role f"
  "fs_fired (count_operation operation f) = fs_fired f"
  by (cases operation; simp)+

lemma count_operation_count [simp]:
  "fault_count op (count_operation operation f) = fault_count op f + (if operation = op then 1 else 0)"
  by (cases operation; cases op; simp)

lemma fault_count_fired [simp]: "fault_count op (f\<lparr>fs_fired := b\<rparr>) = fault_count op f"
  by (cases op) simp_all

lemma should_inject_keeps:
  "fs_plan (snd (should_inject operation f)) = fs_plan f"
  "fs_role (snd (should_inject operation f)) = fs_role f"
  "fault_count op (snd (should_inject operation f)) = fault_count op f + (if operation = op then 1 else 0)"
  "fs_fired (snd (should_inject operation f)) \<longleftrightarrow> fs_fired f \<or> fst (should_inject operation f)"
  by (auto simp: should_inject_def Let_def)

lemma should_inject_fires:
  "fst (should_inject operation f) \<longleftrightarrow>
     \<not> fs_fired f \<and> fs_role f = fp_role (fs_plan f) \<and> operation = fp_operation (fs_plan f) \<and>
     fault_count operation f + 1 = fp_occurrence (fs_plan f)"
  by (auto simp: should_inject_def Let_def)

lemma injections_fired: "fs_fired f \<Longrightarrow> i < length operations \<Longrightarrow> \<not> injections operations f ! i"
  by (induction operations arbitrary: f i)
    (auto simp: nth_Cons' should_inject_keeps should_inject_fires)

lemma injections_role:
  "fs_role f \<noteq> fp_role (fs_plan f) \<Longrightarrow> i < length operations \<Longrightarrow> \<not> injections operations f ! i"
  by (induction operations arbitrary: f i)
    (auto simp: nth_Cons' should_inject_keeps should_inject_fires)

abbreviation occurrences :: "fault_operation \<Rightarrow> fault_operation list \<Rightarrow> nat" where
  "occurrences operation operations \<equiv> length (filter ((=) operation) operations)"

lemma occurrences_at:
  "i < length operations \<Longrightarrow> operations ! i = operation \<Longrightarrow>
     occurrences operation (take (Suc i) operations) = occurrences operation (take i operations) + 1"
  by (simp add: take_Suc_conv_app_nth)

lemma injections_exact:
  assumes "\<not> fs_fired f" and "fs_role f = fp_role (fs_plan f)" and "i < length operations"
    and "fp_operation (fs_plan f) = op" and "fault_count op f < fp_occurrence (fs_plan f)"
  shows "injections operations f ! i \<longleftrightarrow>
    operations ! i = op \<and>
    fault_count op f + occurrences op (take (Suc i) operations) = fp_occurrence (fs_plan f)"
  using assms
proof (induction operations arbitrary: f i)
  case (Cons operation operations)
  let ?f1 = "snd (should_inject operation f)" and ?n = "fp_occurrence (fs_plan f)"
  have fires: "fst (should_inject operation f) \<longleftrightarrow> operation = op \<and> fault_count op f + 1 = ?n"
    using Cons.prems by (auto simp: should_inject_fires)
  show ?case
  proof (cases i)
    case 0
    with fires show ?thesis by auto
  next
    case (Suc j)
    then have j: "j < length operations" using Cons.prems(3) by simp
    show ?thesis
    proof (cases "fst (should_inject operation f)")
      case True
      then have "\<not> injections operations ?f1 ! j"
        using j by (simp add: injections_fired should_inject_keeps)
      with True fires j Suc occurrences_at [OF j] show ?thesis by auto
    next
      case False
      have "injections operations ?f1 ! j \<longleftrightarrow> operations ! j = op \<and>
          fault_count op ?f1 + occurrences op (take (Suc j) operations) = fp_occurrence (fs_plan ?f1)"
        using Cons.prems False fires
        by (intro Cons.IH) (auto simp: should_inject_keeps j split: if_splits)
      with Suc show ?thesis by (auto simp: should_inject_keeps split: if_splits)
    qed
  qed
qed simp

end
