(* ===== verification/Demos_Properties.thy ===== *)
theory Demos_Properties
  imports Demos Workload_Examples
begin

text \<open>
  Theorems on fault injection: the fault of a plan fires at its occurrence and nowhere else, and
  the demonstration of a fault reports only runs in which it did.
\<close>

text \<open>C38: a fault fires exactly where its plan says.  In any sequence of sends and receives over a
  fresh wrapper, an operation is replaced by the fault if and only if the wrapper belongs to the
  planned role, the operation is of the planned kind and it is the planned occurrence of that kind;
  a plan whose occurrence is zero makes no wrapper.\<close>

theorem fault_fires_exactly:
  fixes inner :: 't
  assumes "i < length operations"
  shows "case with_fired inner role plan False of
      Inl (e :: 'v runtime_error) \<Rightarrow> fp_occurrence plan = 0
    | Inr f \<Rightarrow> injections operations f ! i \<longleftrightarrow>
        role = fp_role plan \<and> operations ! i = fp_operation plan \<and>
        occurrences (fp_operation plan) (take (Suc i) operations) = fp_occurrence plan"
proof (cases "fp_occurrence plan = 0")
  case True
  then show ?thesis by (simp add: with_fired_def)
next
  case False
  define f where "f = \<lparr>fs_inner = inner, fs_role = role, fs_plan = plan, fs_sends = 0,
    fs_receives = 0, fs_fired = False\<rparr>"
  have made: "with_fired inner role plan False = (Inr f :: 'v runtime_error + 't fault_state)"
    using False by (simp add: with_fired_def f_def)
  have none: "fault_count operation f = 0" for operation
    by (cases operation) (simp_all add: f_def)
  show ?thesis
  proof (cases "role = fp_role plan")
    case True
    then have "injections operations f ! i \<longleftrightarrow> operations ! i = fp_operation plan \<and>
        occurrences (fp_operation plan) (take (Suc i) operations) = fp_occurrence plan"
      using injections_exact [of f i operations "fp_operation plan"] assms False none
      by (simp add: f_def)
    with True made show ?thesis by simp
  next
    case other: False
    then have "\<not> injections operations f ! i"
      using assms by (intro injections_role) (simp_all add: f_def)
    with other made show ?thesis by simp
  qed
qed

definition second_send :: fault_plan where
  "second_send = \<lparr>fp_role = ''client'', fp_operation = FaultSend, fp_occurrence = 2,
     fp_failure = ''transport.reset'', fp_peer_failure = None\<rparr>"

lemma fault_fires_exactly_witness:
  "case with_fired () ''client'' second_send False of
      Inl (e :: unit runtime_error) \<Rightarrow> False
    | Inr f \<Rightarrow> injections [FaultSend, FaultReceive, FaultSend, FaultSend] f ! 2"
  using fault_fires_exactly [where i = 2 and operations = "[FaultSend, FaultReceive, FaultSend, FaultSend]"
      and inner = "()" and role = "''client''" and plan = second_send and ?'v = unit]
  by (simp add: second_send_def with_fired_def numeral_2_eq_2)

text \<open>The demonstration of a fault reports only faults that fired.  If it answers with a report,
  the plan has the role, some endpoint declares a target for the failure and for the peer's failure
  if there is one, both workers returned reports, the fault fired, and the report says which fault
  it was and whether the two traces and outcomes agree.\<close>

theorem fault_demo_sound:
  assumes "memory_plan_fault_demo plan fault tc ts run = Inr summary"
  shows "\<exists>fc fs client server.
    with_fired tc ''client'' fault False = (Inr fc :: 'v runtime_error + 't fault_state) \<and>
    with_fired ts ''server'' fault False = (Inr fs :: 'v runtime_error + 't fault_state) \<and>
    run fc fs = (Some (Inr client), Some (Inr server), True) \<and>
    0 < fp_occurrence fault \<and> fp_role fault \<in> ep_role ` set (pp_endpoints plan) \<and>
    plan_handles plan (fp_failure fault) \<and>
    (case fp_peer_failure fault of None \<Rightarrow> True | Some failure \<Rightarrow> plan_handles plan failure) \<and>
    dr_fault_plan summary = Some fault \<and> dr_client summary = client \<and> dr_server summary = server \<and>
    (dr_trace_equivalent summary \<longleftrightarrow> er_trace client = er_trace (server :: 'v execution_report))"
proof -
  from assms obtain fc fs where
    check: "check_fault plan fault = (Inr () :: 'v runtime_error + unit)" and
    fc: "with_fired tc ''client'' fault False = (Inr fc :: 'v runtime_error + 't fault_state)" and
    fs: "with_fired ts ''server'' fault False = (Inr fs :: 'v runtime_error + 't fault_state)" and
    rest: "(case run fc fs of (client, server, fired) \<Rightarrow>
         and_then (join_workers client server) (\<lambda>(client, server).
         and_then (guard_err (\<not> fired) (RtApplication (AppText (''fault plan did not fire: '' @
           fp_role fault @ '' '' @ fault_operation_str (fp_operation fault) @ '' occurrence '' @
           show_nat (fp_occurrence fault) @ '' was not reached'')))) (\<lambda>_.
         Inr ((demo_report ''memory+fault'' client server)\<lparr>dr_fault_plan := Some fault\<rparr>)))) = Inr summary"
    unfolding memory_plan_fault_demo_def and_then_Inr by (elim exE conjE) (rule that; simp)
  obtain c s fired where outcome: "run fc fs = (c, s, fired)" by (cases "run fc fs")
  from rest obtain client server where
    run: "run fc fs = (Some (Inr client), Some (Inr server), True)" and
    summary: "summary = (demo_report ''memory+fault'' client server)\<lparr>dr_fault_plan := Some fault\<rparr>"
    unfolding outcome by (auto simp: join_workers_def result_simps)
  have "fp_role fault \<in> ep_role ` set (pp_endpoints plan)"
    using check
    by (auto simp: check_fault_def result_simps find_endpoint_def find_None_iff) (metis imageI)
  moreover have "0 < fp_occurrence fault" using fc by (auto simp: with_fired_def result_simps)
  moreover have "plan_handles plan (fp_failure fault) \<and>
      (case fp_peer_failure fault of None \<Rightarrow> True | Some failure \<Rightarrow> plan_handles plan failure)"
    using check by (auto simp: check_fault_def result_simps split: option.splits)
  moreover have "dr_fault_plan summary = Some fault \<and> dr_client summary = client \<and>
      dr_server summary = server \<and> (dr_trace_equivalent summary \<longleftrightarrow> er_trace client = er_trace server)"
    by (simp add: summary demo_report_def)
  ultimately show ?thesis using fc fs run by blast
qed

definition empty_report :: "string \<Rightarrow> string execution_report" where
  "empty_report role = \<lparr>er_role = role, er_transport = [], er_conversation = [], er_identity = [],
     er_plan_identity = [], er_trace_identity = [], er_frames = 0, er_tokens = [], er_completed = True,
     er_successful = False, er_failure = None, er_final_state = [], er_trace = []\<rparr>"

lemma fault_demo_sound_witness:
  "plan_handles generate_plan ''transport.reset'' \<and>
    memory_plan_fault_demo generate_plan second_send () ()
      (\<lambda>_ _. (Some (Inr (empty_report ''client'')), Some (Inr (empty_report ''server'')), True)) =
    Inr ((demo_report ''memory+fault'' (empty_report ''client'') (empty_report ''server''))
      \<lparr>dr_fault_plan := Some second_send\<rparr>)"
proof -
  have run: "memory_plan_fault_demo generate_plan second_send () ()
      (\<lambda>_ _. (Some (Inr (empty_report ''client'')), Some (Inr (empty_report ''server'')), True)) =
    Inr ((demo_report ''memory+fault'' (empty_report ''client'') (empty_report ''server''))
      \<lparr>dr_fault_plan := Some second_send\<rparr>)"
    by code_simp
  from fault_demo_sound [OF run] have "plan_handles generate_plan (fp_failure second_send)" by blast
  with run show ?thesis by (simp add: second_send_def)
qed

end
