(* ===== verification/Reports.thy ===== *)
theory Reports
  imports Node Workload
begin

text \<open>
  What the command line and the benchmark compute around a run: the comparison of two reports of
  one execution, the checks of a deployment, the artifacts an environment variable may replace
  (\<open>src/src/main.rs\<close>), and the statistics of a benchmark (\<open>src/src/benchmark.rs\<close>).  The
  environment is a map from names to values; the parsing and printing of the command line are not
  modelled.
\<close>

section \<open>Two reports of one session\<close>

record 'v session_report =
  sr_conversation_identity :: string
  sr_plan_identity :: string
  sr_trace_identity :: string
  sr_trace_equivalent :: bool
  sr_outcome_equivalent :: bool
  sr_client :: "'v execution_report"
  sr_server :: "'v execution_report"

datatype session_mismatch =
    FieldMismatch string string string
  | NotEquivalent

definition same_field :: "string \<times> string \<times> string \<Rightarrow> session_mismatch + unit" where
  "same_field f = (case f of (field, client, server) \<Rightarrow>
     guard_err (client \<noteq> server) (FieldMismatch field client server))"

definition verify_session_reports :: "'v execution_report \<Rightarrow> 'v execution_report
    \<Rightarrow> session_mismatch + 'v session_report" where
  "verify_session_reports client server =
     and_then (check_all same_field
       [(''conversation_identity'', er_identity client, er_identity server),
        (''plan_identity'', er_plan_identity client, er_plan_identity server)]) (\<lambda>_.
     let trace_equivalent = er_trace_identity client = er_trace_identity server;
         outcome_equivalent = (er_completed client \<and> er_completed server \<and>
           er_successful client = er_successful server \<and> er_failure client = er_failure server \<and>
           er_tokens client = er_tokens server)
     in and_then (guard_err (\<not> trace_equivalent \<or> \<not> outcome_equivalent) NotEquivalent) (\<lambda>_.
     Inr \<lparr>sr_conversation_identity = er_identity client, sr_plan_identity = er_plan_identity client,
          sr_trace_identity = er_trace_identity client, sr_trace_equivalent = trace_equivalent,
          sr_outcome_equivalent = outcome_equivalent, sr_client = client, sr_server = server\<rparr>))"

section \<open>Deployments\<close>

datatype cli_error =
    CliIo string
  | CliJson string
  | CliAddress string
  | CliNode node_error
  | CliExists
  | CliDeployment string string string
  | CliWildcard

definition verify_deployment_identity :: "(string \<Rightarrow> string option) \<Rightarrow> prepared_plan \<Rightarrow> cli_error + unit" where
  "verify_deployment_identity var plan =
     check_all (\<lambda>(key, actual).
       case var key of
         Some expected \<Rightarrow> guard_err (expected \<noteq> actual) (CliDeployment key expected actual)
       | None \<Rightarrow> Inr ())
       [(''COLLOQ_PLAN_IDENTITY'', pp_plan_identity plan),
        (''COLLOQ_CONVERSATION_IDENTITY'', pp_conversation_identity plan)]"

definition ensure_absent :: "('p \<Rightarrow> bool) \<Rightarrow> 'p \<Rightarrow> cli_error + unit" where
  "ensure_absent exists path = guard_err (exists path) CliExists"

definition advertised :: "('id, 'ip, 'addr) iroh_keys \<Rightarrow> (string \<Rightarrow> string option) \<Rightarrow> (string \<Rightarrow> string + 'ip)
    \<Rightarrow> ('ip \<Rightarrow> bool) \<Rightarrow> 'addr \<Rightarrow> 'ip option \<Rightarrow> cli_error + 'ip endpoint_ticket" where
  \<comment> \<open>\<open>endpoint_ticket\<close>: the flag wins over the environment, and both over the bound addresses\<close>
  "advertised ik var parse_address unspecified address advertise =
     (let ticket = from_addr ik address in
      and_then
        (case advertise of
           Some ip \<Rightarrow> Inr (Some ip)
         | None \<Rightarrow>
             (case var ''COLLOQ_ADVERTISE_ADDRESS'' of
                Some value \<Rightarrow> and_then (map_err CliAddress (parse_address value)) (\<lambda>ip. Inr (Some ip))
              | None \<Rightarrow> Inr None)) (\<lambda>advertise.
      let ticket = (case advertise of Some ip \<Rightarrow> ticket\<lparr>et_addresses := [ip]\<rparr> | None \<Rightarrow> ticket) in
      and_then (guard_err (list_ex unspecified (et_addresses ticket)) CliWildcard) (\<lambda>_.
      Inr ticket)))"

definition from_environment :: "(string \<Rightarrow> string option) \<Rightarrow> string \<Rightarrow> (string \<Rightarrow> string + 'a)
    \<Rightarrow> ('a \<Rightarrow> node_error + unit) \<Rightarrow> ('s, node_error, 'a) action \<Rightarrow> ('s, cli_error, 'a) action" where
  \<comment> \<open>an artifact given by a variable is decoded and checked, and otherwise loaded\<close>
  "from_environment var key decode check load =
     (case var key of
        Some encoded \<Rightarrow>
          act_then (from_result (map_err CliJson (decode encoded))) (\<lambda>value.
          act_then (from_result (map_err CliNode (check value))) (\<lambda>_.
          done_with value))
      | None \<Rightarrow> act_map_err CliNode load)"

definition load_node_identity :: "(string \<Rightarrow> string option) \<Rightarrow> (string \<Rightarrow> string + node_identity)
    \<Rightarrow> ('id, 'ip, 'addr) iroh_keys \<Rightarrow> ('s, node_error, node_identity) action
    \<Rightarrow> ('s, cli_error, node_identity) action" where
  "load_node_identity var decode ik =
     from_environment var ''COLLOQ_NODE_IDENTITY_JSON'' decode
       (\<lambda>identity. and_then (secret_key ik identity) (\<lambda>_. Inr ()))"

definition load_authorization_policy :: "(string \<Rightarrow> string option) \<Rightarrow> (string \<Rightarrow> string + authorization_policy)
    \<Rightarrow> ('s, node_error, authorization_policy) action \<Rightarrow> ('s, cli_error, authorization_policy) action" where
  \<comment> \<open>a policy given by the variable is not checked here\<close>
  "load_authorization_policy var decode =
     from_environment var ''COLLOQ_AUTHORIZATION_JSON'' decode (\<lambda>_. Inr ())"

definition load_endpoint_ticket :: "(string \<Rightarrow> string option) \<Rightarrow> (string \<Rightarrow> string + 'ip endpoint_ticket)
    \<Rightarrow> ('id, 'ip, 'addr) iroh_keys \<Rightarrow> ('s, node_error, 'ip endpoint_ticket) action
    \<Rightarrow> ('s, cli_error, 'ip endpoint_ticket) action" where
  "load_endpoint_ticket var decode ik =
     from_environment var ''COLLOQ_SERVER_TICKET_JSON'' decode
       (\<lambda>ticket. and_then (endpoint_addr ik ticket) (\<lambda>_. Inr ()))"

definition write_bytes :: "('s, 'p) file_system \<Rightarrow> 'p \<Rightarrow> byte list \<Rightarrow> ('s, cli_error, unit) action" where
  "write_bytes fs path bytes =
     act_then (act_map_err CliNode (create_parent fs path)) (\<lambda>_.
     act_map_err CliIo (fs_write fs path bytes))"

section \<open>Statistics\<close>

record benchmark_stats =
  bs_min :: u64
  bs_median :: u64
  bs_mean :: u64
  bs_p95 :: u64
  bs_max :: u64

definition div_ceil :: "nat \<Rightarrow> nat \<Rightarrow> nat" where
  "div_ceil a b = (if a mod b = 0 then a div b else a div b + 1)"

definition benchmark_stats_of :: "u64 list \<Rightarrow> benchmark_stats option" where
  \<comment> \<open>\<open>stats\<close>; \<open>None\<close> is the panic on no samples\<close>
  "benchmark_stats_of samples =
     (let samples = sort samples; len = length samples; total = sum_list (map unat samples);
          p95_index = div_ceil (len * 95) 100 - 1
      in if len = 0 then None
         else Some \<lparr>bs_min = samples ! 0, bs_median = samples ! (len div 2),
           bs_mean = word_of_nat (min (total div len) (2 ^ 64 - 1)), bs_p95 = samples ! p95_index,
           bs_max = samples ! (len - 1)\<rparr>)"

end
