(* ===== verification/Reports_Properties.thy ===== *)
theory Reports_Properties
  imports Reports Workload_Examples
begin

text \<open>
  Theorems on the reports around a run: when two reports are taken for one execution, and what the
  statistics of a benchmark say of its samples.
\<close>

section \<open>Sessions\<close>

text \<open>Two reports are accepted as one session exactly when they name the same conversation, plan
  and trace, both completed, and they agree on success, failure and tokens; the answer then repeats
  the identities of both and says so.\<close>

theorem session_reports_exact:
  "verify_session_reports client server = Inr r \<longleftrightarrow>
     er_identity client = er_identity server \<and> er_plan_identity client = er_plan_identity server \<and>
     er_trace_identity client = er_trace_identity server \<and>
     er_completed client \<and> er_completed server \<and> er_successful client = er_successful server \<and>
     er_failure client = er_failure server \<and> er_tokens client = er_tokens server \<and>
     r = \<lparr>sr_conversation_identity = er_identity server, sr_plan_identity = er_plan_identity server,
          sr_trace_identity = er_trace_identity server, sr_trace_equivalent = True,
          sr_outcome_equivalent = True, sr_client = client, sr_server = server\<rparr>"
  by (auto simp: verify_session_reports_def same_field_def result_simps Let_def)

section \<open>Statistics\<close>

lemma percentile_index:
  assumes "0 < (n :: nat)"
  shows "div_ceil (n * 95) 100 - 1 < n" and "n div 2 \<le> div_ceil (n * 95) 100 - 1"
    and "95 * n \<le> 100 * (div_ceil (n * 95) 100 - 1 + 1)"
proof -
  let ?c = "div_ceil (n * 95) 100" and ?h = "n div 2"
  have m: "n * 95 div 100 * 100 + n * 95 mod 100 = n * 95" "n * 95 mod 100 < 100"
    by (rule div_mult_mod_eq) simp
  have c: "n * 95 \<le> 100 * ?c \<and> 100 * ?c < n * 95 + 100"
  proof (cases "n * 95 mod 100 = 0")
    case True
    then have "?c = n * 95 div 100" by (simp add: div_ceil_def)
    with m True show ?thesis by linarith
  next
    case False
    then have "?c = n * 95 div 100 + 1" by (simp add: div_ceil_def)
    with m False show ?thesis by linarith
  qed
  with assms show "?c - 1 < n" by linarith
  from c assms have "?c - 1 + 1 = ?c" by linarith
  with c show "95 * n \<le> 100 * (?c - 1 + 1)" by simp
  have "2 * ?h \<le> n" by simp
  with c assms have "?h < ?c" by linarith
  then show "?h \<le> ?c - 1" by linarith
qed

lemma sorted_prefix_count:
  fixes ys :: "'a :: linorder list"
  assumes "sorted ys" and "k < length ys"
  shows "k + 1 \<le> length (filter (\<lambda>y. y \<le> ys ! k) ys)"
proof -
  have "y \<le> ys ! k" if "y \<in> set (take (k + 1) ys)" for y
    using that assms by (auto simp: in_set_conv_nth sorted_nth_mono)
  then have "filter (\<lambda>y. y \<le> ys ! k) (take (k + 1) ys) = take (k + 1) ys" by simp
  moreover have "length (filter (\<lambda>y. y \<le> ys ! k) (take (k + 1) ys)) \<le> length (filter (\<lambda>y. y \<le> ys ! k) ys)"
    by (metis append_take_drop_id filter_append le_add1 length_append)
  ultimately show ?thesis using assms(2) by simp
qed

lemma filter_sort_length: "length (filter P (sort xs)) = length (filter P xs)"
  by (simp add: filter_sort)

lemma sum_list_bounds:
  fixes f :: "'a \<Rightarrow> nat"
  assumes "\<And>x. x \<in> set xs \<Longrightarrow> a \<le> f x \<and> f x \<le> b"
  shows "length xs * a \<le> sum_list (map f xs)" and "sum_list (map f xs) \<le> length xs * b"
  using assms by (induction xs) fastforce+

lemma mean_between:
  fixes xs :: "u64 list"
  assumes "xs \<noteq> []" and "\<And>x. x \<in> set xs \<Longrightarrow> lo \<le> x \<and> x \<le> hi"
  shows "lo \<le> word_of_nat (min (sum_list (map unat xs) div length xs) (2 ^ 64 - 1))"
    and "word_of_nat (min (sum_list (map unat xs) div length xs) (2 ^ 64 - 1)) \<le> hi"
proof -
  let ?m = "sum_list (map unat xs) div length xs"
  have bounds: "\<And>x. x \<in> set xs \<Longrightarrow> unat lo \<le> unat x \<and> unat x \<le> unat hi"
    using assms(2) by (simp add: word_le_nat_alt)
  have len: "0 < length xs" using assms(1) by simp
  have "unat lo \<le> ?m"
    using sum_list_bounds(1) [of xs "unat lo" unat "unat hi"] bounds len
    by (simp add: less_eq_div_iff_mult_less_eq mult.commute)
  moreover have "?m \<le> unat hi"
  proof -
    have "?m \<le> (length xs * unat hi) div length xs"
      using sum_list_bounds(2) [of xs "unat lo" unat "unat hi"] bounds by (intro div_le_mono) blast
    then show ?thesis using len by simp
  qed
  moreover have "unat hi < 2 ^ 64" using unsigned_less [of hi] by simp
  ultimately have "unat (word_of_nat (min ?m (2 ^ 64 - 1)) :: u64) = ?m"
    by (simp add: unat_of_nat min_def)
  with \<open>unat lo \<le> ?m\<close> \<open>?m \<le> unat hi\<close>
  show "lo \<le> word_of_nat (min ?m (2 ^ 64 - 1))" and "word_of_nat (min ?m (2 ^ 64 - 1)) \<le> hi"
    by (simp_all add: word_le_nat_alt)
qed

text \<open>C39: the statistics of a benchmark.  Of at least one sample they are computed without a panic;
  minimum, median, 95th percentile and maximum are samples in that order, every sample lies between
  the extremes, so does the mean, and at least 95 of 100 samples do not exceed the percentile.\<close>

theorem benchmark_stats_sound:
  assumes "samples \<noteq> []"
  shows "\<exists>st. benchmark_stats_of samples = Some st \<and>
    {bs_min st, bs_median st, bs_p95 st, bs_max st} \<subseteq> set samples \<and>
    bs_min st \<le> bs_median st \<and> bs_median st \<le> bs_p95 st \<and> bs_p95 st \<le> bs_max st \<and>
    set samples \<subseteq> {bs_min st .. bs_max st} \<and> bs_mean st \<in> {bs_min st .. bs_max st} \<and>
    95 * length samples \<le> 100 * length (filter (\<lambda>x. x \<le> bs_p95 st) samples)"
proof -
  let ?s = "sort samples" and ?n = "length samples"
  let ?p = "div_ceil (?n * 95) 100 - 1"
  have n: "0 < ?n" using assms by simp
  note idx = percentile_index [OF n]
  have mono: "?s ! i \<le> ?s ! j" if "i \<le> j" "j < ?n" for i j
    using that by (simp add: sorted_nth_mono)
  have full: "?s \<noteq> []" using n by (metis length_greater_0_conv length_sort)
  have elem: "?s ! i \<in> set samples" if "i < ?n" for i
    using that nth_mem [of i ?s] by simp
  have half: "?n div 2 < ?n" using n by simp
  have range: "?s ! 0 \<le> x \<and> x \<le> ?s ! (?n - 1)" if x: "x \<in> set samples" for x
  proof -
    from x obtain i where i: "i < ?n" "x = ?s ! i" by (metis in_set_conv_nth length_sort set_sort)
    then show ?thesis using mono [of 0 i] mono [of i "?n - 1"] by simp
  qed
  have mean: "?s ! 0 \<le> word_of_nat (min (sum_list (map unat ?s) div length ?s) (2 ^ 64 - 1))"
    "word_of_nat (min (sum_list (map unat ?s) div length ?s) (2 ^ 64 - 1)) \<le> ?s ! (?n - 1)"
  proof -
    from mean_between [OF full, of "?s ! 0" "?s ! (?n - 1)"] range
    show "?s ! 0 \<le> word_of_nat (min (sum_list (map unat ?s) div length ?s) (2 ^ 64 - 1))"
      "word_of_nat (min (sum_list (map unat ?s) div length ?s) (2 ^ 64 - 1)) \<le> ?s ! (?n - 1)"
      by simp_all
  qed
  have count: "95 * ?n \<le> 100 * length (filter (\<lambda>x. x \<le> ?s ! ?p) samples)"
    using sorted_prefix_count [of ?s ?p] idx by (simp add: filter_sort_length)
  show ?thesis
    using n full idx half elem mono range mean count
    by (intro exI [of _ "the (benchmark_stats_of samples)"])
      (auto simp: benchmark_stats_of_def Let_def)
qed

lemma benchmark_stats_sound_witness:
  "\<exists>st. benchmark_stats_of [30, 10, 20] = Some st \<and> bs_min st \<le> bs_median st \<and> bs_p95 st \<le> bs_max st"
  using benchmark_stats_sound [of "[30, 10, 20]"] by blast

end
