(* ===== verification/Commands.thy ===== *)
theory Commands
  imports Reports Closing Exchange
begin

text \<open>
  The commands of \<open>src/src/main.rs\<close> that decide who talks to whom: creating identities, granting,
  bootstrapping two nodes, and serving and connecting over Iroh; and the loop of the TCP server.
  The host (files, environment, random secrets, serde) is an argument.  What a command prints is
  not modelled.
\<close>

section \<open>The host\<close>

record 'a artifact =
  at_encode :: "'a \<Rightarrow> string + byte list"
  at_decode :: "byte list \<Rightarrow> string + 'a"
  at_parse :: "string \<Rightarrow> string + 'a"

record ('s, 'p, 'v, 'ip) host =
  ho_files :: "('s, 'p) file_system"
  ho_exists :: "'p \<Rightarrow> 's \<Rightarrow> bool"
  ho_join :: "'p \<Rightarrow> string \<Rightarrow> 'p"
  ho_generate :: "'s \<Rightarrow> byte list \<times> 's"
  ho_var :: "string \<Rightarrow> string option"
  ho_ext :: "'v externals"
  ho_conversation :: "byte list \<Rightarrow> string + 'v conversation"
  ho_identity :: "node_identity artifact"
  ho_policy :: "authorization_policy artifact"
  ho_ticket :: "'ip endpoint_ticket artifact"
  ho_parse_address :: "string \<Rightarrow> string + 'ip"
  ho_unspecified :: "'ip \<Rightarrow> bool"

datatype 'v command_error =
    CmdCli cli_error
  | CmdNode node_error
  | CmdPlan plan_error
  | CmdRuntime "'v runtime_error"
  | CmdIo string
  | CmdJson string
  | CmdPeer string
  | CmdDraft draft_error
  | CmdExchange "'v exchange_error"

type_synonym ('s, 'v, 'a) command = "('s, 'v command_error, 'a) action"

definition read_json :: "('s, 'p, 'v, 'ip) host \<Rightarrow> (byte list \<Rightarrow> string + 'a) \<Rightarrow> 'p \<Rightarrow> ('s, 'v, 'a) command" where
  "read_json ho decode path =
     act_then (act_map_err CmdIo (fs_read (ho_files ho) path)) (\<lambda>bytes.
     from_result (map_err CmdJson (decode bytes)))"

definition read_plan :: "('s, 'p, 'v, 'ip) host \<Rightarrow> 'p \<Rightarrow> ('s, 'v, prepared_plan) command" where
  \<comment> \<open>\<open>PreparedPlan::compile(&read_json(..)?)?\<close>\<close>
  "read_plan ho path =
     act_then (read_json ho (ho_conversation ho) path) (\<lambda>c.
     from_result (map_err CmdPlan (compile_prepared (ho_ext ho) c)))"

definition absent :: "('s, 'p, 'v, 'ip) host \<Rightarrow> 'p \<Rightarrow> ('s, 'v, unit) command" where
  "absent ho path s = (map_err CmdCli (ensure_absent (\<lambda>p. ho_exists ho p s) path), s)"

definition generate_identity_of :: "('s, 'p, 'v, 'ip) host \<Rightarrow> ('id, 'ip, 'addr) iroh_keys
    \<Rightarrow> ('s, 'v, node_identity) command" where
  \<comment> \<open>\<open>NodeIdentity::generate\<close>\<close>
  "generate_identity_of ho ik s =
     (case ho_generate ho s of (secret, s) \<Rightarrow> (Inr (from_secret_key ik secret), s))"

definition save_identity :: "('s, 'p, 'v, 'ip) host \<Rightarrow> ('id, 'ip, 'addr) iroh_keys \<Rightarrow> 'p \<Rightarrow> node_identity
    \<Rightarrow> ('s, 'v, unit) command" where
  "save_identity ho ik path identity =
     act_map_err CmdNode (save_private (ho_files ho) (at_encode (ho_identity ho)) ik path identity)"

definition save_authorization :: "('s, 'p, 'v, 'ip) host \<Rightarrow> ('id, 'ip, 'addr) iroh_keys \<Rightarrow> 'p
    \<Rightarrow> authorization_policy \<Rightarrow> ('s, 'v, unit) command" where
  "save_authorization ho ik path policy =
     act_map_err CmdNode (save_policy (ho_files ho) (at_encode (ho_policy ho)) ik path policy)"

text \<open>A command whose workload may not return.\<close>

type_synonym ('s, 'v, 'a) running = "'s \<Rightarrow> (('v command_error + 'a) \<times> 's) option"

definition run_then :: "('s, 'v, 'a) command \<Rightarrow> ('a \<Rightarrow> ('s, 'v, 'b) running) \<Rightarrow> ('s, 'v, 'b) running" where
  "run_then f g s = (case f s of (Inl e, s') \<Rightarrow> Some (Inl e, s') | (Inr x, s') \<Rightarrow> g x s')"

section \<open>Identities and grants\<close>

definition node_init :: "('s, 'p, 'v, 'ip) host \<Rightarrow> ('id, 'ip, 'addr) iroh_keys \<Rightarrow> 'p \<Rightarrow> ('s, 'v, unit) command" where
  "node_init ho ik out =
     act_then (absent ho out) (\<lambda>_.
     act_then (generate_identity_of ho ik) (save_identity ho ik out))"

definition policy_allow :: "('s, 'p, 'v, 'ip) host \<Rightarrow> ('id, 'ip, 'addr) iroh_keys \<Rightarrow> 'p \<Rightarrow> 'p \<Rightarrow> string
    \<Rightarrow> string \<Rightarrow> ('s, 'v, unit) command" where
  "policy_allow ho ik conversation policy peer role =
     act_then (read_plan ho conversation) (\<lambda>plan.
     act_then (from_result (ok_or (CmdPeer peer) (ik_parse ik peer))) (\<lambda>peer.
     act_then
       (\<lambda>s. if ho_exists ho policy s
         then act_map_err CmdNode (load_policy (ho_files ho) (at_decode (ho_policy ho)) ik policy) s
         else (Inr default_policy, s)) (\<lambda>authorization.
     save_authorization ho ik policy (allow ik peer role plan authorization))))"

definition bootstrap_policies :: "('id, 'ip, 'addr) iroh_keys \<Rightarrow> 'id \<Rightarrow> 'id \<Rightarrow> prepared_plan \<Rightarrow> prepared_plan
    \<Rightarrow> authorization_policy \<times> authorization_policy" where
  "bootstrap_policies ik server_id client_id generate draft =
     (allow ik client_id ''client'' draft (allow ik client_id ''client'' generate default_policy),
      allow ik server_id ''server'' draft (allow ik server_id ''server'' generate default_policy))"

fun absent_all :: "('s, 'p, 'v, 'ip) host \<Rightarrow> 'p list \<Rightarrow> ('s, 'v, unit) command" where
  "absent_all ho [] = done_with ()"
| "absent_all ho (path # paths) = act_then (absent ho path) (\<lambda>_. absent_all ho paths)"

definition bootstrap_two_node :: "('s, 'p, 'v, 'ip) host \<Rightarrow> ('id, 'ip, 'addr) iroh_keys \<Rightarrow> 'p \<Rightarrow> 'p \<Rightarrow> 'p
    \<Rightarrow> ('s, 'v, unit) command" where
  "bootstrap_two_node ho ik conversation draft_conversation out =
     (let server_path = ho_join ho out ''server.colloqnode.json'';
          client_path = ho_join ho out ''client.colloqnode.json'';
          server_policy_path = ho_join ho out ''server.authorization.json'';
          client_policy_path = ho_join ho out ''client.authorization.json''
      in act_then (read_plan ho conversation) (\<lambda>generate.
         act_then (read_plan ho draft_conversation) (\<lambda>draft.
         act_then (absent_all ho [server_path, client_path, server_policy_path, client_policy_path]) (\<lambda>_.
         act_then (generate_identity_of ho ik) (\<lambda>server.
         act_then (generate_identity_of ho ik) (\<lambda>client.
         act_then (from_result (map_err CmdNode (identity_endpoint_id ik server))) (\<lambda>server_id.
         act_then (from_result (map_err CmdNode (identity_endpoint_id ik client))) (\<lambda>client_id.
         case bootstrap_policies ik server_id client_id generate draft of
           (server_policy, client_policy) \<Rightarrow>
             act_then (save_identity ho ik server_path server) (\<lambda>_.
             act_then (save_identity ho ik client_path client) (\<lambda>_.
             act_then (save_authorization ho ik server_policy_path server_policy) (\<lambda>_.
             save_authorization ho ik client_policy_path client_policy)))))))))))"

section \<open>Nodes over Iroh\<close>

definition node_identity_of :: "('s, 'p, 'v, 'ip) host \<Rightarrow> ('id, 'ip, 'addr) iroh_keys \<Rightarrow> 'p
    \<Rightarrow> ('s, 'v, node_identity) command" where
  "node_identity_of ho ik path =
     act_map_err CmdCli (load_node_identity (ho_var ho) (at_parse (ho_identity ho)) ik
       (load_identity (ho_files ho) (at_decode (ho_identity ho)) ik path))"

definition authorization_of :: "('s, 'p, 'v, 'ip) host \<Rightarrow> ('id, 'ip, 'addr) iroh_keys \<Rightarrow> 'p
    \<Rightarrow> ('s, 'v, authorization_policy) command" where
  "authorization_of ho ik path =
     act_map_err CmdCli (load_authorization_policy (ho_var ho) (at_parse (ho_policy ho))
       (load_policy (ho_files ho) (at_decode (ho_policy ho)) ik path))"

definition ticket_of :: "('s, 'p, 'v, 'ip) host \<Rightarrow> ('id, 'ip, 'addr) iroh_keys \<Rightarrow> 'p
    \<Rightarrow> ('s, 'v, 'ip endpoint_ticket) command" where
  "ticket_of ho ik path =
     act_map_err CmdCli (load_endpoint_ticket (ho_var ho) (at_parse (ho_ticket ho)) ik
       (load_ticket (ho_files ho) (at_decode (ho_ticket ho)) ik path))"

definition iroh_server :: "('s, 'p, 'v, 'ip) host \<Rightarrow> ('id, 'ip, 'addr) iroh_keys
    \<Rightarrow> ('s, 'id, 'addr, 'i, 'c, 'st) iroh_net \<Rightarrow> (byte list \<Rightarrow> ('s, 'v runtime_error, 'addr) action) \<Rightarrow> bool
    \<Rightarrow> wire_encoding \<Rightarrow> 'p \<Rightarrow> 'p \<Rightarrow> 'p \<Rightarrow> 'ip option \<Rightarrow> 'p
    \<Rightarrow> (prepared_plan \<Rightarrow> ('id, 'c, 'st) iroh_transport \<Rightarrow> ('s, 'v, 'r) running) \<Rightarrow> ('s, 'v, 'r) running" where
  \<comment> \<open>\<open>ServeIroh\<close>, and \<open>DraftServeIroh\<close> when \<open>deployed\<close> is false; \<open>serve\<close> is the session and the
    workload on the accepted transport\<close>
  "iroh_server ho ik nt bind_direct deployed wire conversation identity policy advertise ticket_out serve =
     run_then (read_plan ho conversation) (\<lambda>plan.
     run_then (from_result (if deployed then map_err CmdCli (verify_deployment_identity (ho_var ho) plan)
       else Inr ())) (\<lambda>_.
     run_then (node_identity_of ho ik identity) (\<lambda>identity.
     run_then (authorization_of ho ik policy) (\<lambda>authorization.
     run_then (from_result (map_err CmdNode (authorized_peers ik ''client'' plan authorization))) (\<lambda>authorized.
     run_then (from_result (map_err CmdNode (secret_key ik identity))) (\<lambda>secret.
     run_then (act_map_err CmdRuntime (bind_direct secret)) (\<lambda>address.
     run_then (from_result (map_err CmdCli (advertised ik (ho_var ho) (ho_parse_address ho)
       (ho_unspecified ho) address advertise))) (\<lambda>ticket.
     run_then (act_map_err CmdNode (save_ticket (ho_files ho) (at_encode (ho_ticket ho)) ik ticket_out ticket)) (\<lambda>_.
     run_then (act_map_err CmdRuntime (iroh_accept nt authorized (codec_for_plan wire plan))) (\<lambda>transport.
     serve plan transport))))))))))"

definition iroh_client :: "('s, 'p, 'v, 'ip) host \<Rightarrow> ('id, 'ip, 'addr) iroh_keys
    \<Rightarrow> ('s, 'id, 'addr, 'i, 'c, 'st) iroh_net \<Rightarrow> (byte list \<Rightarrow> ('s, 'v runtime_error, 'addr) action)
    \<Rightarrow> wire_encoding \<Rightarrow> 'p \<Rightarrow> 'p \<Rightarrow> 'p \<Rightarrow> 'p
    \<Rightarrow> (prepared_plan \<Rightarrow> ('id, 'c, 'st) iroh_transport \<Rightarrow> ('s, 'v, 'r) running) \<Rightarrow> ('s, 'v, 'r) running" where
  \<comment> \<open>\<open>ConnectIroh\<close> and \<open>DraftConnectIroh\<close>\<close>
  "iroh_client ho ik nt bind_direct wire conversation identity policy server work =
     run_then (read_plan ho conversation) (\<lambda>plan.
     run_then (node_identity_of ho ik identity) (\<lambda>identity.
     run_then (authorization_of ho ik policy) (\<lambda>authorization.
     run_then (ticket_of ho ik server) (\<lambda>ticket.
     run_then (from_result (map_err CmdNode (ticket_endpoint_id ik ticket))) (\<lambda>server_id.
     run_then (from_result (map_err CmdNode (authorize ik server_id ''server'' plan authorization))) (\<lambda>_.
     run_then (from_result (map_err CmdNode (secret_key ik identity))) (\<lambda>secret.
     run_then (act_map_err CmdRuntime (bind_direct secret)) (\<lambda>_.
     run_then (from_result (map_err CmdNode (endpoint_addr ik ticket))) (\<lambda>address.
     run_then (act_map_err CmdRuntime (iroh_connect nt address server_id (codec_for_plan wire plan))) (\<lambda>transport.
     work plan transport))))))))))"

section \<open>The TCP server and client\<close>

text \<open>
  The network: binding, accepting and connecting give the operations of a stream over the state of
  the host.
\<close>

record ('s, 'ip) tcp_net =
  tn_bind :: "'ip \<Rightarrow> ('s, string, unit) action"
  tn_accept :: "('s, string, ('s, io_kind) raw_stream) action"
  tn_connect :: "'ip \<Rightarrow> ('s, io_kind, ('s, io_kind) raw_stream) action"
  tn_nodelay :: "('s, io_kind) raw_stream \<Rightarrow> bool \<Rightarrow> ('s, io_kind, unit) action"
  tn_read_timeout :: "('s, io_kind) raw_stream \<Rightarrow> nat \<Rightarrow> ('s, io_kind, unit) action"  \<comment> \<open>seconds\<close>
  tn_write_timeout :: "('s, io_kind) raw_stream \<Rightarrow> nat \<Rightarrow> ('s, io_kind, unit) action"

definition tcp_from_stream :: "('s, 'ip) tcp_net \<Rightarrow> ('s, io_kind) raw_stream \<Rightarrow> envelope_codec
    \<Rightarrow> ('s, 'v runtime_error, 's \<Rightarrow> 's connection) action" where
  \<comment> \<open>\<open>from_stream_with_codec\<close>: the connection is a function of the state it will run on\<close>
  "tcp_from_stream tn rs codec =
     act_map_err RtIo
       (act_then (tn_nodelay tn rs True) (\<lambda>_.
        act_then (tn_read_timeout tn rs 10) (\<lambda>_.
        act_then (tn_write_timeout tn rs 10) (\<lambda>_.
        done_with (\<lambda>s. \<lparr>cn_stream = s, cn_codec = codec, cn_established = False\<rparr>)))))"

definition tcp_connect :: "('s, 'ip) tcp_net \<Rightarrow> 'ip \<Rightarrow> envelope_codec
    \<Rightarrow> ('s, 'v runtime_error, ('s, io_kind) raw_stream \<times> ('s \<Rightarrow> 's connection)) action" where
  \<comment> \<open>\<open>connect\<close> and \<open>connect_compact\<close>\<close>
  "tcp_connect tn address codec =
     act_then (act_map_err RtIo (tn_connect tn address)) (\<lambda>rs.
     act_then (tcp_from_stream tn rs codec) (\<lambda>connection. done_with (rs, connection)))"

definition tcp_session :: "('s, io_kind) raw_stream \<Rightarrow> 'v serde \<Rightarrow> ('s \<Rightarrow> 's connection) \<Rightarrow> prepared_plan
    \<Rightarrow> string \<Rightarrow> string
    \<Rightarrow> ('s connection \<Rightarrow> (('v runtime_error + 'v execution_report) \<times> 's connection) option)
    \<Rightarrow> ('s, 'v, 'v execution_report) running" where
  \<comment> \<open>\<open>establish_session\<close> and the workload on the transport\<close>
  "tcp_session rs sd connection plan local_role peer_role work s =
     (case tcp_establish_session rs sd plan local_role peer_role (connection s) of
        (Inl e, c) \<Rightarrow> Some (Inl (CmdRuntime e), cn_stream c)
      | (Inr _, c) \<Rightarrow> map_option (\<lambda>(r, c). (map_err CmdRuntime r, cn_stream c)) (work c))"

definition serve_conversation :: "('s, 'ip) tcp_net \<Rightarrow> 'v serde \<Rightarrow> 'v json_ops \<Rightarrow> wire_encoding
    \<Rightarrow> prepared_plan \<Rightarrow> nat \<Rightarrow> ('s, 'v, 'v execution_report) running" where
  "serve_conversation tn sd js wire plan tokens =
     run_then (act_map_err CmdIo (tn_accept tn)) (\<lambda>rs.
     run_then (act_map_err CmdRuntime (tcp_from_stream tn rs (codec_for_plan wire plan))) (\<lambda>connection.
     tcp_session rs sd connection plan ''server'' ''client''
       (run_generate_server_plan (tcp_transport rs sd) js plan tokens)))"

partial_function (option) serve_loop :: "bool \<Rightarrow> ('s, 'v, 'r) running \<Rightarrow> ('s, 'v, unit) running" where
  \<comment> \<open>any error of one conversation leaves the loop\<close>
  "serve_loop forever conversation s =
     (case conversation s of
        None \<Rightarrow> None
      | Some (Inl e, s') \<Rightarrow> Some (Inl e, s')
      | Some (Inr _, s') \<Rightarrow> if forever then serve_loop forever conversation s' else Some (Inr (), s'))"

declare serve_loop.simps [code]

definition serve_command :: "('s, 'p, 'v, 'ip) host \<Rightarrow> ('s, 'ip) tcp_net \<Rightarrow> 'v serde \<Rightarrow> 'v json_ops \<Rightarrow> 'p \<Rightarrow> 'ip
    \<Rightarrow> nat \<Rightarrow> wire_encoding \<Rightarrow> bool \<Rightarrow> ('s, 'v, unit) running" where
  \<comment> \<open>\<open>Serve\<close>\<close>
  "serve_command ho tn sd js conversation listen tokens wire forever =
     run_then (read_plan ho conversation) (\<lambda>plan.
     run_then (from_result (map_err CmdCli (verify_deployment_identity (ho_var ho) plan))) (\<lambda>_.
     run_then (act_map_err CmdIo (tn_bind tn listen)) (\<lambda>_.
     serve_loop forever (serve_conversation tn sd js wire plan tokens))))"

definition connect_command :: "('s, 'p, 'v, 'ip) host \<Rightarrow> ('s, 'ip) tcp_net
    \<Rightarrow> 'v serde \<Rightarrow> 'v json_ops \<Rightarrow> 'p \<Rightarrow> 'ip \<Rightarrow> string \<Rightarrow> nat option \<Rightarrow> wire_encoding
    \<Rightarrow> ('s, 'v, 'v execution_report) running" where
  \<comment> \<open>\<open>Connect\<close>\<close>
  "connect_command ho tn sd js conversation server prompt cancel_after wire =
     run_then (read_plan ho conversation) (\<lambda>plan.
     run_then (act_map_err CmdRuntime (tcp_connect tn server (codec_for_plan wire plan))) (\<lambda>(rs, connection).
     tcp_session rs sd connection plan ''client'' ''server''
       (run_generate_client_plan (tcp_transport rs sd) js plan prompt cancel_after)))"

end
