(* ===== verification/Commands_Properties.thy ===== *)
theory Commands_Properties
  imports Commands Examples
begin

text \<open>
  Theorems on the commands: a session over Iroh only starts with an authorized peer, a bootstrapped
  pair of nodes trusts each other for exactly its two plans, identities are never overwritten, and
  a server that runs for ever ends only with the error of a conversation.
\<close>

section \<open>Who is served\<close>

lemma accepted_authorized:
  assumes "iroh_accept nt authorized codec s = (Inr t, s')"
  shows "it_remote t \<in> set authorized"
  using assms
  by (auto simp: iroh_accept_def verify_remote_authorized_def new_iroh_transport_def act_then_def
      act_map_err_def done_with_def guard_err_def map_err_Inr split: prod.splits option.splits
      sum.splits if_splits)

lemma connected_expected:
  assumes "iroh_connect nt remote expected codec s = (Inr t, s')"
  shows "it_remote t = expected"
  using assms
  by (auto simp: iroh_connect_def verify_remote_identity_def new_iroh_transport_def act_then_def
      act_map_err_def done_with_def from_result_def guard_err_def map_err_Inr
      split: prod.splits option.splits sum.splits if_splits)

lemma listed_rule:
  assumes "authorized_peers ik role plan policy = Inr peers" and "peer \<in> set peers"
  shows "\<exists>rule \<in> set (ap_rules policy). ar_role rule = role \<and> ar_plan rule = pp_plan_identity plan \<and>
    ik_parse ik (ar_endpoint rule) = Some peer"
proof -
  let ?rules = "filter (\<lambda>r. ar_role r = role \<and> ar_plan r = pp_plan_identity plan) (ap_rules policy)"
  have all: "list_all2 (\<lambda>r i. ik_parse ik (ar_endpoint r) = Some i) ?rules peers"
    using assms(1) by (simp add: authorized_peers_Inr)
  from assms(2) obtain j where j: "j < length peers" "peers ! j = peer" by (auto simp: in_set_conv_nth)
  have "j < length ?rules" using j(1) list_all2_lengthD [OF all] by simp
  then have rule_in: "?rules ! j \<in> set ?rules" by (rule nth_mem)
  have "ik_parse ik (ar_endpoint (?rules ! j)) = Some peer"
    using list_all2_nthD2 [OF all j(1)] unfolding j(2) .
  moreover from rule_in have "?rules ! j \<in> set (ap_rules policy) \<and> ar_role (?rules ! j) = role \<and>
      ar_plan (?rules ! j) = pp_plan_identity plan"
    unfolding set_filter by blast
  ultimately show ?thesis by blast
qed

text \<open>
  A command that ends in a session: it ends in an error whatever the session would have done, or the
  session decides its outcome, on a plan and a transport of which more is known.
\<close>

definition gated :: "(('a \<Rightarrow> 't \<Rightarrow> ('s, 'v, 'r) running) \<Rightarrow> ('s, 'v, 'r) running) \<Rightarrow> ('a \<Rightarrow> 't \<Rightarrow> bool) \<Rightarrow> 's \<Rightarrow> bool" where
  "gated run known s \<longleftrightarrow> (\<exists>e s'. \<forall>session. run session s = Some (Inl e, s')) \<or>
     (\<exists>plan transport before. known plan transport \<and> (\<forall>session. run session s = session plan transport before))"

lemma gated_then:
  assumes "\<And>x s'. f s = (Inr x, s') \<Longrightarrow> gated (g x) known s'"
  shows "gated (\<lambda>session. run_then f (\<lambda>x. g x session)) known s"
proof (cases "f s")
  case (Pair r s')
  with assms show ?thesis by (cases r) (auto simp: gated_def run_then_def)
qed

lemma gated_session: "known plan transport \<Longrightarrow> gated (\<lambda>session. session plan transport) known s"
  unfolding gated_def by (intro disjI2 exI [of _ plan] exI [of _ transport] exI [of _ s]) simp

text \<open>What a command that meets a peer loads, in order: the plan, its identity, and its policy.\<close>

definition loads :: "('s, 'p, 'v, 'ip) host \<Rightarrow> ('id, 'ip, 'addr) iroh_keys \<Rightarrow> 'p \<Rightarrow> 'p \<Rightarrow> 'p \<Rightarrow> 's
    \<Rightarrow> prepared_plan \<Rightarrow> authorization_policy \<Rightarrow> 's \<Rightarrow> bool" where
  "loads ho ik conversation identity policy s plan authorization s' \<longleftrightarrow>
     (\<exists>s1 node s2. read_plan ho conversation s = (Inr plan, s1) \<and>
        node_identity_of ho ik identity s1 = (Inr node, s2) \<and>
        authorization_of ho ik policy s2 = (Inr authorization, s'))"

definition peer_served :: "('s, 'p, 'v, 'ip) host \<Rightarrow> ('id, 'ip, 'addr) iroh_keys
    \<Rightarrow> ('s, 'id, 'addr, 'i, 'c, 'st) iroh_net \<Rightarrow> bool \<Rightarrow> 'p \<Rightarrow> 'p \<Rightarrow> 'p \<Rightarrow> 's
    \<Rightarrow> prepared_plan \<Rightarrow> ('id, 'c, 'st) iroh_transport \<Rightarrow> bool" where
  "peer_served ho ik nt deployed conversation identity policy s plan transport \<longleftrightarrow>
     (\<exists>authorization s' rule. loads ho ik conversation identity policy s plan authorization s' \<and>
        (deployed \<longrightarrow> verify_deployment_identity (ho_var ho) plan = Inr ()) \<and>
        validate_policy ik authorization = Inr () \<and> rule \<in> set (ap_rules authorization) \<and>
        ar_role rule = ''client'' \<and> ar_plan rule = pp_plan_identity plan \<and>
        ik_parse ik (ar_endpoint rule) = Some (nt_remote nt (it_connection transport)) \<and>
        it_remote transport = nt_remote nt (it_connection transport))"

definition peer_met :: "('s, 'p, 'v, 'ip) host \<Rightarrow> ('id, 'ip, 'addr) iroh_keys
    \<Rightarrow> ('s, 'id, 'addr, 'i, 'c, 'st) iroh_net \<Rightarrow> 'p \<Rightarrow> 'p \<Rightarrow> 'p \<Rightarrow> 'p \<Rightarrow> 's
    \<Rightarrow> prepared_plan \<Rightarrow> ('id, 'c, 'st) iroh_transport \<Rightarrow> bool" where
  "peer_met ho ik nt conversation identity policy server s plan transport \<longleftrightarrow>
     (\<exists>authorization s' ticket s''. loads ho ik conversation identity policy s plan authorization s' \<and>
        ticket_of ho ik server s' = (Inr ticket, s'') \<and>
        ticket_endpoint_id ik ticket = Inr (nt_remote nt (it_connection transport)) \<and>
        validate_policy ik authorization = Inr () \<and>
        rule_for ik (nt_remote nt (it_connection transport)) ''server'' plan \<in> set (ap_rules authorization) \<and>
        it_remote transport = nt_remote nt (it_connection transport))"

lemma accepted_transport:
  assumes "iroh_accept nt authorized codec s = (Inr t, s')"
  shows "it_remote t = nt_remote nt (it_connection t)"
  using assms
  by (auto simp: iroh_accept_def new_iroh_transport_def act_then_def
      act_map_err_def done_with_def map_err_Inr split: prod.splits option.splits sum.splits)

lemma connected_transport:
  assumes "iroh_connect nt remote expected codec s = (Inr t, s')"
  shows "it_remote t = nt_remote nt (it_connection t)"
  using assms
  by (auto simp: iroh_connect_def new_iroh_transport_def act_then_def
      act_map_err_def done_with_def from_result_def map_err_Inr split: prod.splits option.splits sum.splits)

lemma server_gated:
  fixes ho :: "('s, 'p, 'v, 'ip) host" and nt :: "('s, 'id, 'addr, 'i, 'c, 'st) iroh_net"
  shows "gated (iroh_server ho ik nt bind_direct deployed wire conversation identity policy advertise ticket_out)
    (peer_served ho ik nt deployed conversation identity policy s) s"
  unfolding iroh_server_def
proof (intro gated_then gated_session)
  fix plan s1 u s2 node s3 authorization s4 authorized s5 secret s6 address s7 ticket s8 v s9 transport s10
  assume steps: "read_plan ho conversation s = (Inr plan, s1)"
    "(from_result (if deployed then map_err CmdCli (verify_deployment_identity (ho_var ho) plan) else Inr ()) ::
      ('s, 'v, unit) command) s1 = (Inr u, s2)" "node_identity_of ho ik identity s2 = (Inr node, s3)"
    "authorization_of ho ik policy s3 = (Inr authorization, s4)"
    "(from_result (map_err CmdNode (authorized_peers ik ''client'' plan authorization)) :: ('s, 'v, _) command) s4 =
      (Inr authorized, s5)"
    "(act_map_err CmdRuntime (iroh_accept nt authorized (codec_for_plan wire plan)) :: ('s, 'v, _) command) s9 =
      (Inr transport, s10)"
  from steps(5) have peers: "authorized_peers ik ''client'' plan authorization = Inr authorized"
    by (simp add: map_err_Inr)
  from steps(6) have "iroh_accept nt authorized (codec_for_plan wire plan) s9 =
      (Inr transport :: 'v runtime_error + _, s10)" by (simp add: act_map_err_Inr)
  from listed_rule [OF peers accepted_authorized [OF this]] accepted_transport [OF this] peers steps(1-4)
  show "peer_served ho ik nt deployed conversation identity policy s plan transport"
    by (auto simp: peer_served_def loads_def authorized_peers_Inr map_err_Inr split: if_splits)
qed

lemma client_gated:
  fixes ho :: "('s, 'p, 'v, 'ip) host" and nt :: "('s, 'id, 'addr, 'i, 'c, 'st) iroh_net"
  shows "gated (iroh_client ho ik nt bind_direct wire conversation identity policy server)
    (peer_met ho ik nt conversation identity policy server s) s"
  unfolding iroh_client_def
proof (intro gated_then gated_session)
  fix plan s1 node s2 authorization s3 ticket s4 server_id s5 u s6 secret s7 v s8 address s9 transport s10
  assume steps: "read_plan ho conversation s = (Inr plan, s1)" "node_identity_of ho ik identity s1 = (Inr node, s2)"
    "authorization_of ho ik policy s2 = (Inr authorization, s3)" "ticket_of ho ik server s3 = (Inr ticket, s4)"
    "(from_result (map_err CmdNode (ticket_endpoint_id ik ticket)) :: ('s, 'v, _) command) s4 = (Inr server_id, s5)"
    "(from_result (map_err CmdNode (authorize ik server_id ''server'' plan authorization)) :: ('s, 'v, _) command) s5 =
      (Inr u, s6)"
    "(act_map_err CmdRuntime (iroh_connect nt address server_id (codec_for_plan wire plan)) :: ('s, 'v, _) command) s9 =
      (Inr transport, s10)"
  from steps(7) have "iroh_connect nt address server_id (codec_for_plan wire plan) s9 =
      (Inr transport :: 'v runtime_error + _, s10)" by (simp add: act_map_err_Inr)
  from connected_expected [OF this] connected_transport [OF this] steps(1-6)
  show "peer_met ho ik nt conversation identity policy server s plan transport"
    by (auto simp: peer_met_def loads_def authorize_Inr map_err_Inr)
qed

text \<open>C26: a session over Iroh starts only with an authorized peer.  A serving command either ends in an
  error that no session has a part in, or its outcome is that of the session on a transport whose
  authenticated remote identity is named, in the role client and for the very plan it serves, by a
  rule of the policy it loaded, which is valid; when it is a deployed one, the plan is the deployed
  one too.  A connecting command likewise meets only the peer that its ticket names and that the
  policy it loaded lists in the role server for its plan.\<close>

theorem iroh_sessions_authorized:
  fixes ho :: "('s, 'p, 'v, 'ip) host" and nt :: "('s, 'id, 'addr, 'i, 'c, 'st) iroh_net"
  shows "gated (iroh_server ho ik nt bind_direct deployed wire conversation identity policy advertise ticket_out)
      (peer_served ho ik nt deployed conversation identity policy s) s \<and>
    gated (iroh_client ho ik nt bind_direct wire conversation identity policy server)
      (peer_met ho ik nt conversation identity policy server s) s"
  using server_gated client_gated by (rule conjI)

definition text_keys :: "(string, nat, nat) iroh_keys" where
  "text_keys = \<lparr>ik_show = id, ik_parse = Some, ik_public = map (\<lambda>b. char_of (unat b)),
     ik_addr = (\<lambda>_ _. 0), ik_addr_id = (\<lambda>_. []), ik_addr_ips = (\<lambda>_. [])\<rparr>"

text \<open>In the example a node meets the peer ''c'' as a server and ''s'' as a client, on a host that has no
  files but those two policies.\<close>

definition const_artifact :: "'a \<Rightarrow> 'a artifact" where
  "const_artifact x = \<lparr>at_encode = (\<lambda>_. Inr []), at_decode = (\<lambda>_. Inr x), at_parse = (\<lambda>_. Inl ''none'')\<rparr>"

definition meeting_keys :: "(string, nat, nat) iroh_keys" where
  "meeting_keys = text_keys\<lparr>ik_addr_id := \<lambda>_. ''s'', ik_addr_ips := \<lambda>_. [0]\<rparr>"

definition meeting_host :: "(authorization_policy \<times> authorization_policy \<Rightarrow> authorization_policy)
    \<Rightarrow> (unit, unit, string, nat) host" where
  "meeting_host side =
     \<lparr>ho_files = \<lparr>fs_read = (\<lambda>_ s. (Inr [], s)), fs_parent = (\<lambda>_. None), fs_create_dirs = (\<lambda>_ s. (Inr (), s)),
        fs_write = (\<lambda>_ _ s. (Inr (), s)), fs_open_private = (\<lambda>_ s. (Inr (), s)),
        fs_append = (\<lambda>_ _ s. (Inr (), s)), fs_make_private = (\<lambda>_ s. (Inr (), s))\<rparr>,
      ho_exists = (\<lambda>_ _. True), ho_join = (\<lambda>_ _. ()), ho_generate = (\<lambda>s. ([], s)), ho_var = (\<lambda>_. None),
      ho_ext = plain_externals, ho_conversation = (\<lambda>_. Inr ping),
      ho_identity = const_artifact (from_secret_key meeting_keys (replicate 32 1)),
      ho_policy = const_artifact (side (bootstrap_policies meeting_keys ''s'' ''c'' ping_plan ping_plan)),
      ho_ticket = const_artifact (from_addr meeting_keys 0),
      ho_parse_address = (\<lambda>_. Inl []), ho_unspecified = (\<lambda>_. False)\<rparr>"

definition meeting_net :: "(unit, string, nat, unit, string, unit) iroh_net" where
  \<comment> \<open>a connection is the identity of its remote end\<close>
  "meeting_net =
     \<lparr>nt_incoming = (\<lambda>s. (Some (), s)), nt_handshake = (\<lambda>_ s. (Inr ''c'', s)), nt_refuse = (\<lambda>_ s. s),
      nt_close = (\<lambda>s. s), nt_accept_bi = (\<lambda>_ s. (Inr (), s)), nt_connect = (\<lambda>_ s. (Inr ''s'', s)),
      nt_open_bi = (\<lambda>_ s. (Inr (), s)), nt_remote = (\<lambda>c. c), nt_addr_id = (\<lambda>_. ''s''), nt_show = (\<lambda>i. i)\<rparr>"

lemma meetings_run:
  "iroh_server (meeting_host fst) meeting_keys meeting_net (\<lambda>_ s. (Inr 0, s)) True ReferenceEncoding () () () None ()
     (\<lambda>_ _ _. None) () = (None :: ((string command_error + unit) \<times> unit) option)"
  "iroh_client (meeting_host snd) meeting_keys meeting_net (\<lambda>_ s. (Inr 0, s)) ReferenceEncoding () () () ()
     (\<lambda>_ _ _. None) () = (None :: ((string command_error + unit) \<times> unit) option)"
  by code_simp+

lemma iroh_sessions_authorized_witness:
  "(\<exists>plan transport. peer_served (meeting_host fst) meeting_keys meeting_net True () () () () plan transport) \<and>
   (\<exists>plan transport. peer_met (meeting_host snd) meeting_keys meeting_net () () () () () plan transport)"
proof -
  have started: "\<exists>plan transport. known plan transport" if "gated run known s" and "run (\<lambda>_ _ _. None) s = None"
    for run :: "('a \<Rightarrow> 't \<Rightarrow> ('s, 'v, 'r) running) \<Rightarrow> ('s, 'v, 'r) running" and known s
    using that unfolding gated_def by (metis option.distinct(1))
  note meetings = iroh_sessions_authorized [where bind_direct = "\<lambda>_ s. (Inr 0, s)" and wire = ReferenceEncoding]
  from started [OF conjunct1 [OF meetings] meetings_run(1)] started [OF conjunct2 [OF meetings] meetings_run(2)]
  show ?thesis by simp
qed

section \<open>Bootstrapping\<close>

text \<open>Two bootstrapped nodes trust each other for exactly their two plans.  The server's policy
  authorizes only the client's identity, only as client and only for the two plans, and the
  client's policy authorizes only the server's, only as server and only for the same plans.\<close>

theorem bootstrap_trust_exact:
  assumes "faithful_ids ik" and "pp_plan_identity token_plan \<noteq> []" and "pp_plan_identity sync_plan \<noteq> []"
    and "bootstrap_policies ik server_id client_id token_plan sync_plan = (server_policy, client_policy)"
  shows "(authorize ik peer role plan server_policy = Inr () \<longleftrightarrow>
      peer = client_id \<and> role = ''client'' \<and>
      pp_plan_identity plan \<in> {pp_plan_identity token_plan, pp_plan_identity sync_plan}) \<and>
    (authorize ik peer role plan client_policy = Inr () \<longleftrightarrow>
      peer = server_id \<and> role = ''server'' \<and>
      pp_plan_identity plan \<in> {pp_plan_identity token_plan, pp_plan_identity sync_plan})"
proof -
  have parse: "ik_parse ik (ik_show ik i) = Some i" for i
    using assms(1) by (simp add: faithful_ids_def)
  have pair: "authorize ik peer role plan (allow ik i r sync_plan (allow ik i r token_plan default_policy)) = Inr () \<longleftrightarrow>
      peer = i \<and> role = r \<and> pp_plan_identity plan \<in> {pp_plan_identity token_plan, pp_plan_identity sync_plan}"
    if "r \<noteq> []" for i r
    using that assms(2,3)
    by (auto simp: authorize_Inr validate_policy_Inr validate_rule_Inr allow_rules default_policy_def
        rule_for_def parse faithful_ids_inj [OF assms(1)])
  from assms(4) have "server_policy = allow ik client_id ''client'' sync_plan
      (allow ik client_id ''client'' token_plan default_policy)"
    and "client_policy = allow ik server_id ''server'' sync_plan
      (allow ik server_id ''server'' token_plan default_policy)"
    by (simp_all add: bootstrap_policies_def)
  then show ?thesis using pair by simp
qed

lemma bootstrap_trust_exact_witness:
  "authorize text_keys ''c'' ''client'' ping_plan
      (fst (bootstrap_policies text_keys ''s'' ''c'' ping_plan ping_plan)) = Inr () \<and>
   authorize text_keys ''s'' ''client'' ping_plan
      (fst (bootstrap_policies text_keys ''s'' ''c'' ping_plan ping_plan)) \<noteq> Inr ()"
proof -
  have ids: "faithful_ids text_keys" by (simp add: faithful_ids_def text_keys_def)
  have plan: "pp_plan_identity ping_plan \<noteq> []" by (simp add: ping_plan_def ping_identity_def)
  note trust = bootstrap_trust_exact [OF ids plan plan surjective_pairing, where plan = ping_plan]
  from trust [of "''c''" "''client''"] trust [of "''s''" "''client''"] show ?thesis by simp
qed

lemma absent_all_Inr:
  "absent_all ho paths s = (r, s') \<Longrightarrow> s' = s \<and> (r = Inr () \<longleftrightarrow> (\<forall>p \<in> set paths. \<not> ho_exists ho p s)) \<and>
     (r \<noteq> Inr () \<longrightarrow> r = Inl (CmdCli CliExists))"
  by (induction paths)
    (auto simp: act_then_def absent_def ensure_absent_def done_with_def guard_err_def split: if_splits)

text \<open>No identity is overwritten.  When the path of a new identity exists the command to create it
  only reports that, and so does the bootstrap of two nodes when any of its four paths exists: the
  state of the host is the one after the two conversations were read.\<close>

theorem identities_kept:
  fixes ho :: "('s, 'p, 'v, 'ip) host"
  assumes "ho_exists ho path s" and "path \<in> {ho_join ho out ''server.colloqnode.json'',
      ho_join ho out ''client.colloqnode.json'', ho_join ho out ''server.authorization.json'',
      ho_join ho out ''client.authorization.json''}"
    and "read_plan ho conversation s0 = (Inr token_plan, s1)"
    and "read_plan ho draft_conversation s1 = (Inr sync_plan, s)"
  shows "node_init ho ik path s = (Inl (CmdCli CliExists), s) \<and>
    bootstrap_two_node ho ik conversation draft_conversation out s0 = (Inl (CmdCli CliExists), s)"
proof
  show "node_init ho ik path s = (Inl (CmdCli CliExists), s)"
    using assms(1) by (simp add: node_init_def act_then_def absent_def ensure_absent_def)
  let ?paths = "[ho_join ho out ''server.colloqnode.json'', ho_join ho out ''client.colloqnode.json'',
    ho_join ho out ''server.authorization.json'', ho_join ho out ''client.authorization.json'']"
  obtain r s' where run: "absent_all ho ?paths s = (r, s')" by (cases "absent_all ho ?paths s")
  with absent_all_Inr [OF run] assms(1,2) have "absent_all ho ?paths s = (Inl (CmdCli CliExists), s)"
    by auto
  then show "bootstrap_two_node ho ik conversation draft_conversation out s0 = (Inl (CmdCli CliExists), s)"
    by (simp add: bootstrap_two_node_def act_then_def assms(3,4) Let_def del: absent_all.simps)
qed

section \<open>The server that runs for ever\<close>

lemma serve_loop_never_succeeds:
  assumes "serve_loop forever conversation s = Some (r, s')" and "forever"
  shows "\<exists>e. r = Inl e"
proof -
  have "forever \<longrightarrow> (\<exists>e. fst (r, s') = Inl e)"
  proof (rule serve_loop.raw_induct [where P = "\<lambda>forever conversation s q. forever \<longrightarrow> (\<exists>e. fst q = Inl e)", OF _ assms(1)])
    fix loop :: "bool \<Rightarrow> ('s, 'v, 'r) running \<Rightarrow> ('s, 'v, unit) running"
    fix forever conversation s q
    assume "\<And>forever conversation s q. loop forever conversation s = Some q \<Longrightarrow>
        forever \<longrightarrow> (\<exists>e. fst q = Inl e)"
      and "(case conversation s of
          None \<Rightarrow> None
        | Some (Inl e, s') \<Rightarrow> Some (Inl e, s')
        | Some (Inr _, s') \<Rightarrow> if forever then loop forever conversation s' else Some (Inr (), s')) = Some q"
    then show "forever \<longrightarrow> (\<exists>e. fst q = Inl e)"
      by (cases q) (fastforce split: option.splits prod.splits sum.splits)
  qed
  with assms(2) show ?thesis by simp
qed

text \<open>A server that runs for ever ends only with an error, and any error of one conversation ends
  it: the serve command never returns success, and its loop returns the failure of the next
  conversation at once, however the earlier ones went.\<close>

theorem serve_forever_ends_in_error:
  fixes ho :: "('s, 'p, 'v, 'ip) host"
  shows "(case serve_command ho tn sd js conversation listen tokens wire True u of
      None \<Rightarrow> True | Some (Inl _, _) \<Rightarrow> True | Some (Inr _, _) \<Rightarrow> False) \<and>
    (case serve_conversation tn sd js wire plan tokens s of
      None \<Rightarrow> serve_loop True (serve_conversation tn sd js wire plan tokens) s = None
    | Some (Inl e, s') \<Rightarrow> serve_loop True (serve_conversation tn sd js wire plan tokens) s = Some (Inl e, s')
    | Some (Inr _, s') \<Rightarrow> serve_loop True (serve_conversation tn sd js wire plan tokens) s =
        serve_loop True (serve_conversation tn sd js wire plan tokens) s')"
proof
  show "case serve_command ho tn sd js conversation listen tokens wire True u of
      None \<Rightarrow> True | Some (Inl _, _) \<Rightarrow> True | Some (Inr _, _) \<Rightarrow> False"
    by (auto simp: serve_command_def run_then_def dest!: serve_loop_never_succeeds
        split: option.splits prod.splits sum.splits)
  show "case serve_conversation tn sd js wire plan tokens s of
      None \<Rightarrow> serve_loop True (serve_conversation tn sd js wire plan tokens) s = None
    | Some (Inl e, s') \<Rightarrow> serve_loop True (serve_conversation tn sd js wire plan tokens) s = Some (Inl e, s')
    | Some (Inr _, s') \<Rightarrow> serve_loop True (serve_conversation tn sd js wire plan tokens) s =
        serve_loop True (serve_conversation tn sd js wire plan tokens) s'"
    by (subst (1 2 3) serve_loop.simps) (auto split: option.splits prod.splits sum.splits)
qed

end
