(* ===== verification/Networks.thy ===== *)
theory Networks
  imports Commands
begin

text \<open>
  QUIC and Iroh as transports of a workload, and the commands of \<open>src/src/main.rs\<close> that serve and
  connect over them.  What \<open>quinn\<close> and \<open>iroh\<close> do is an argument: opening an endpoint gives the
  operations of a stream and of its closing over the state of the host.
\<close>

section \<open>The two transports\<close>

record 's open_end =
  oe_connection :: "'s connection"
  oe_finished :: bool

definition on_connection :: "('s connection, 'e, 'a) action \<Rightarrow> ('s open_end, 'e, 'a) action" where
  "on_connection f x = (case f (oe_connection x) of (r, c) \<Rightarrow> (r, x\<lparr>oe_connection := c\<rparr>))"

definition on_closable :: "('s closable, 'e, unit) action \<Rightarrow> ('s open_end, 'e, unit) action" where
  "on_closable f x =
     (case f \<lparr>cb_stream = cn_stream (oe_connection x), cb_finished = oe_finished x\<rparr> of
        (r, k) \<Rightarrow> (r, \<lparr>oe_connection = (oe_connection x)\<lparr>cn_stream := cb_stream k\<rparr>,
          oe_finished = cb_finished k\<rparr>))"

definition abort_end :: "('s, 'e) raw_stream \<Rightarrow> 's open_end \<Rightarrow> 's open_end" where
  "abort_end rs x = x\<lparr>oe_connection := (oe_connection x)\<lparr>cn_stream := rs_close rs (cn_stream (oe_connection x))\<rparr>\<rparr>"

definition quic_transport :: "('s, string) raw_stream \<Rightarrow> 's closing \<Rightarrow> 'v serde \<Rightarrow> ('s open_end, 'v) transport" where
  "quic_transport rs cl sd =
     \<lparr>tp_plan = (\<lambda>x. plan_name ''quic'' (cn_codec (oe_connection x))),
      tp_send = (\<lambda>e. on_connection (quic_send rs sd e)),
      tp_receive = on_connection (quic_receive rs sd),
      tp_finish = (\<lambda>role. on_closable (quic_finish cl role)),
      tp_abort = abort_end rs\<rparr>"

definition iroh_transport_ops :: "('s, string) raw_stream \<Rightarrow> 's closing \<Rightarrow> 'v serde \<Rightarrow> ('s open_end, 'v) transport" where
  "iroh_transport_ops rs cl sd =
     \<lparr>tp_plan = (\<lambda>x. plan_name ''iroh'' (cn_codec (oe_connection x))),
      tp_send = (\<lambda>e. on_connection (iroh_send rs sd e)),
      tp_receive = on_connection (iroh_receive rs sd),
      tp_finish = (\<lambda>role. on_closable (iroh_finish cl role)),
      tp_abort = abort_end rs\<rparr>"

definition fresh_end :: "envelope_codec \<Rightarrow> 's \<Rightarrow> 's open_end" where
  "fresh_end codec s = \<lparr>oe_connection = \<lparr>cn_stream = s, cn_codec = codec, cn_established = False\<rparr>,
     oe_finished = False\<rparr>"

definition end_session :: "('s open_end, 'v runtime_error, 'a) action
    \<Rightarrow> ('s open_end \<Rightarrow> (('v command_error + 'r) \<times> 's open_end) option) \<Rightarrow> envelope_codec
    \<Rightarrow> ('s, 'v, 'r) running" where
  \<comment> \<open>\<open>establish_session\<close> and the work on a new transport, which is dropped at the end\<close>
  "end_session establish work codec s =
     (case establish (fresh_end codec s) of
        (Inl e, x) \<Rightarrow> Some (Inl (CmdRuntime e), cn_stream (oe_connection x))
      | (Inr _, x) \<Rightarrow> map_option (\<lambda>(r, x). (r, cn_stream (oe_connection x))) (work x))"

definition runtime_work :: "('t \<Rightarrow> (('v runtime_error + 'r) \<times> 't) option)
    \<Rightarrow> 't \<Rightarrow> (('v command_error + 'r) \<times> 't) option" where
  "runtime_work work t = map_option (\<lambda>(r, t). (map_err CmdRuntime r, t)) (work t)"

section \<open>QUIC endpoints\<close>

record ('s, 'ip, 'l, 'i, 'c) quic_net =
  qn_bind :: "'ip \<Rightarrow> ('s, string, 'l) action"
  qn_certificate :: "'l \<Rightarrow> byte list"
  qn_local_addr :: "'l \<Rightarrow> string + 'ip"
  qn_incoming :: "'l \<Rightarrow> 's \<Rightarrow> 'i option \<times> 's"
  qn_handshake :: "'i \<Rightarrow> ('s, string, 'c) action"
  qn_accept_bi :: "'c \<Rightarrow> ('s, string, ('s, string) raw_stream \<times> 's closing) action"
  qn_endpoint :: "byte list \<Rightarrow> ('s, string, 'l) action"  \<comment> \<open>a client that trusts one certificate\<close>
  qn_connect :: "'l \<Rightarrow> 'ip \<Rightarrow> string \<Rightarrow> ('s, string, 'c) action"
  qn_open_bi :: "'c \<Rightarrow> ('s, string, ('s, string) raw_stream \<times> 's closing) action"

definition quic_accept :: "('s, 'ip, 'l, 'i, 'c) quic_net \<Rightarrow> 'l
    \<Rightarrow> ('s, 'v runtime_error, ('s, string) raw_stream \<times> 's closing) action" where
  \<comment> \<open>\<open>accept_with_codec\<close>\<close>
  "quic_accept qn listener s =
     (case qn_incoming qn listener s of
        (None, s) \<Rightarrow> (Inl (RtQuic ''QUIC listener closed''), s)
      | (Some incoming, s) \<Rightarrow>
          act_then (act_map_err RtQuic (qn_handshake qn incoming)) (\<lambda>connection.
          act_map_err RtQuic (qn_accept_bi qn connection)) s)"

definition quic_connect :: "('s, 'ip, 'l, 'i, 'c) quic_net \<Rightarrow> 'ip \<Rightarrow> byte list
    \<Rightarrow> ('s, 'v runtime_error, ('s, string) raw_stream \<times> 's closing) action" where
  \<comment> \<open>\<open>connect_with_codec\<close>: the peer must present the trusted certificate, for localhost\<close>
  "quic_connect qn address trusted =
     act_then (act_map_err RtQuic (qn_endpoint qn trusted)) (\<lambda>endpoint.
     act_then (act_map_err RtQuic (qn_connect qn endpoint address ''localhost'')) (\<lambda>connection.
     act_map_err RtQuic (qn_open_bi qn connection)))"

definition quic_session :: "('s, string) raw_stream \<times> 's closing \<Rightarrow> 'v serde \<Rightarrow> wire_encoding \<Rightarrow> prepared_plan
    \<Rightarrow> string \<Rightarrow> string
    \<Rightarrow> (('s open_end, 'v) transport \<Rightarrow> 's open_end \<Rightarrow> (('v runtime_error + 'r) \<times> 's open_end) option)
    \<Rightarrow> ('s, 'v, 'r) running" where
  "quic_session streams sd wire plan local_role peer_role work =
     (case streams of (rs, cl) \<Rightarrow>
        end_session (on_connection (quic_establish_session rs sd plan local_role peer_role))
          (runtime_work (work (quic_transport rs cl sd))) (codec_for_plan wire plan))"

section \<open>The commands over QUIC\<close>

definition serve_quic_command :: "('s, 'p, 'v, 'ip) host \<Rightarrow> ('s, 'ip, 'l, 'i, 'c) quic_net \<Rightarrow> 'v serde
    \<Rightarrow> 'v json_ops \<Rightarrow> 'p \<Rightarrow> 'ip \<Rightarrow> 'p \<Rightarrow> nat \<Rightarrow> wire_encoding \<Rightarrow> ('s, 'v, 'v execution_report) running" where
  "serve_quic_command ho qn sd js conversation listen certificate_out tokens wire =
     run_then (read_plan ho conversation) (\<lambda>plan.
     run_then (act_map_err (CmdRuntime \<circ> RtQuic) (qn_bind qn listen)) (\<lambda>listener.
     run_then (case fs_parent (ho_files ho) certificate_out of
         None \<Rightarrow> done_with ()
       | Some parent \<Rightarrow> act_map_err CmdIo (fs_create_dirs (ho_files ho) parent)) (\<lambda>_.
     run_then (act_map_err CmdIo (fs_write (ho_files ho) certificate_out (qn_certificate qn listener))) (\<lambda>_.
     run_then (from_result (map_err CmdIo (qn_local_addr qn listener))) (\<lambda>_.
     run_then (act_map_err CmdRuntime (quic_accept qn listener)) (\<lambda>streams.
     quic_session streams sd wire plan ''server'' ''client''
       (\<lambda>tp. run_generate_server_plan tp js plan tokens)))))))"

definition connect_quic_command :: "('s, 'p, 'v, 'ip) host \<Rightarrow> ('s, 'ip, 'l, 'i, 'c) quic_net \<Rightarrow> 'v serde
    \<Rightarrow> 'v json_ops \<Rightarrow> 'p \<Rightarrow> 'ip \<Rightarrow> 'p \<Rightarrow> string \<Rightarrow> nat option \<Rightarrow> wire_encoding
    \<Rightarrow> ('s, 'v, 'v execution_report) running" where
  "connect_quic_command ho qn sd js conversation server certificate prompt cancel_after wire =
     run_then (read_plan ho conversation) (\<lambda>plan.
     run_then (act_map_err CmdIo (fs_read (ho_files ho) certificate)) (\<lambda>trusted.
     run_then (act_map_err CmdRuntime (quic_connect qn server trusted)) (\<lambda>streams.
     quic_session streams sd wire plan ''client'' ''server''
       (\<lambda>tp. run_generate_client_plan tp js plan prompt cancel_after))))"

section \<open>The commands over Iroh\<close>

text \<open>The streams of an Iroh connection, its closing, and what it exposes of the two peers.\<close>

type_synonym 's iroh_streams = "('s, string) raw_stream \<times> 's closing \<times> iroh_peer_info"

definition iroh_session :: "prepared_plan \<Rightarrow> ('id, 'c, 's iroh_streams) iroh_transport \<Rightarrow> 'v serde
    \<Rightarrow> string \<Rightarrow> string
    \<Rightarrow> (('s open_end, 'v) transport \<Rightarrow> 's open_end \<Rightarrow> (('v command_error + 'r) \<times> 's open_end) option)
    \<Rightarrow> ('s, 'v, 'r) running" where
  "iroh_session plan transport sd local_role peer_role work =
     (case it_streams transport of (rs, cl, info) \<Rightarrow>
        end_session (on_connection (iroh_establish_session rs info sd plan local_role peer_role))
          (work (iroh_transport_ops rs cl sd)) (it_codec transport))"

definition emit_report :: "('s, 'p, 'v, 'ip) host \<Rightarrow> ('r \<Rightarrow> string + byte list) \<Rightarrow> 'p option \<Rightarrow> 'r
    \<Rightarrow> ('s, 'v, 'r) command" where
  \<comment> \<open>the report that is written is also printed\<close>
  "emit_report ho encode report_out r =
     act_then (from_result (map_err CmdJson (encode r))) (\<lambda>encoded.
     act_then (case report_out of
         None \<Rightarrow> done_with ()
       | Some path \<Rightarrow> act_map_err CmdCli (write_bytes (ho_files ho) path encoded)) (\<lambda>_.
     done_with r))"

definition running_then :: "('s, 'v, 'a) running \<Rightarrow> ('a \<Rightarrow> ('s, 'v, 'b) running) \<Rightarrow> ('s, 'v, 'b) running" where
  "running_then f g s =
     (case f s of
        None \<Rightarrow> None
      | Some (Inl e, s') \<Rightarrow> Some (Inl e, s')
      | Some (Inr x, s') \<Rightarrow> g x s')"

definition emitted :: "('s, 'p, 'v, 'ip) host \<Rightarrow> ('r \<Rightarrow> string + byte list) \<Rightarrow> 'p option
    \<Rightarrow> ('s, 'v, 'r) running \<Rightarrow> ('s, 'v, 'r) running" where
  "emitted ho encode report_out work =
     running_then work (\<lambda>r s. Some (emit_report ho encode report_out r s))"

definition serve_iroh_command :: "('s, 'p, 'v, 'ip) host \<Rightarrow> ('id, 'ip, 'addr) iroh_keys
    \<Rightarrow> ('s, 'id, 'addr, 'i, 'c, 's iroh_streams) iroh_net
    \<Rightarrow> (byte list \<Rightarrow> ('s, 'v runtime_error, 'addr) action) \<Rightarrow> 'v serde \<Rightarrow> 'v json_ops
    \<Rightarrow> ('v execution_report \<Rightarrow> string + byte list) \<Rightarrow> wire_encoding \<Rightarrow> 'p \<Rightarrow> 'p \<Rightarrow> 'p \<Rightarrow> 'ip option \<Rightarrow> 'p
    \<Rightarrow> nat \<Rightarrow> 'p option \<Rightarrow> ('s, 'v, 'v execution_report) running" where
  "serve_iroh_command ho ik nt bind_direct sd js encode wire conversation identity policy advertise ticket_out
     tokens report_out =
     iroh_server ho ik nt bind_direct True wire conversation identity policy advertise ticket_out
       (\<lambda>plan transport. emitted ho encode report_out
         (iroh_session plan transport sd ''server'' ''client''
           (\<lambda>tp. runtime_work (run_generate_server_plan tp js plan tokens))))"

definition connect_iroh_command :: "('s, 'p, 'v, 'ip) host \<Rightarrow> ('id, 'ip, 'addr) iroh_keys
    \<Rightarrow> ('s, 'id, 'addr, 'i, 'c, 's iroh_streams) iroh_net
    \<Rightarrow> (byte list \<Rightarrow> ('s, 'v runtime_error, 'addr) action) \<Rightarrow> 'v serde \<Rightarrow> 'v json_ops
    \<Rightarrow> ('v execution_report \<Rightarrow> string + byte list) \<Rightarrow> wire_encoding \<Rightarrow> 'p \<Rightarrow> 'p \<Rightarrow> 'p \<Rightarrow> 'p
    \<Rightarrow> string \<Rightarrow> nat option \<Rightarrow> 'p option \<Rightarrow> ('s, 'v, 'v execution_report) running" where
  "connect_iroh_command ho ik nt bind_direct sd js encode wire conversation identity policy server prompt
     cancel_after report_out =
     iroh_client ho ik nt bind_direct wire conversation identity policy server
       (\<lambda>plan transport. emitted ho encode report_out
         (iroh_session plan transport sd ''client'' ''server''
           (\<lambda>tp. runtime_work (run_generate_client_plan tp js plan prompt cancel_after))))"

section \<open>Draft synchronisation over Iroh\<close>

record 'd draft_store =
  ds_load :: "byte list \<Rightarrow> draft_error + 'd"
  ds_save :: "'d \<Rightarrow> byte list"

definition host_io :: "('s, 'e, 'a) action \<Rightarrow> ('s open_end, 'e, 'a) action" where
  \<comment> \<open>an operation on the host while a transport is open\<close>
  "host_io f = on_connection (on_stream f)"

definition draft_sync_work :: "('s, 'p, 'v, 'ip) host \<Rightarrow> 'd draft_store \<Rightarrow> 'p
    \<Rightarrow> ('s open_end \<Rightarrow> 'd \<Rightarrow> ('v exchange_error + exchange_report) \<times> 's open_end \<times> 'd)
    \<Rightarrow> ('s open_end, 'v command_error, exchange_report) action" where
  \<comment> \<open>the draft is written back only after a successful exchange\<close>
  "draft_sync_work ho ds draft exchange =
     act_then (host_io (act_map_err CmdIo (fs_read (ho_files ho) draft))) (\<lambda>bytes.
     act_then (from_result (map_err CmdDraft (ds_load ds bytes))) (\<lambda>document x.
     case exchange x document of
       (r, x, document) \<Rightarrow>
         act_then (from_result (map_err CmdExchange r)) (\<lambda>r.
         act_then (host_io (act_map_err CmdCli (write_bytes (ho_files ho) draft (ds_save ds document)))) (\<lambda>_.
         done_with r)) x))"

definition draft_serve_iroh_command :: "('s, 'p, 'v, 'ip) host \<Rightarrow> ('id, 'ip, 'addr) iroh_keys
    \<Rightarrow> ('s, 'id, 'addr, 'i, 'c, 's iroh_streams) iroh_net
    \<Rightarrow> (byte list \<Rightarrow> ('s, 'v runtime_error, 'addr) action) \<Rightarrow> 'v serde \<Rightarrow> 'v bytes_json
    \<Rightarrow> ('d, 'q, 'm) sync_ops \<Rightarrow> 'd draft_store \<Rightarrow> (exchange_report \<Rightarrow> string + byte list)
    \<Rightarrow> wire_encoding \<Rightarrow> 'p \<Rightarrow> 'p \<Rightarrow> 'p \<Rightarrow> 'p \<Rightarrow> 'ip option \<Rightarrow> 'p \<Rightarrow> 'p option
    \<Rightarrow> ('s, 'v, exchange_report) running" where
  \<comment> \<open>without the check of the deployment's identities\<close>
  "draft_serve_iroh_command ho ik nt bind_direct sd bj sy ds encode wire conversation draft identity policy
     advertise ticket_out report_out =
     iroh_server ho ik nt bind_direct False wire conversation identity policy advertise ticket_out
       (\<lambda>plan transport. emitted ho encode report_out
         (iroh_session plan transport sd ''server'' ''client''
           (\<lambda>tp x. Some (draft_sync_work ho ds draft (run_draft_sync_server tp bj sy plan) x))))"

definition draft_connect_iroh_command :: "('s, 'p, 'v, 'ip) host \<Rightarrow> ('id, 'ip, 'addr) iroh_keys
    \<Rightarrow> ('s, 'id, 'addr, 'i, 'c, 's iroh_streams) iroh_net
    \<Rightarrow> (byte list \<Rightarrow> ('s, 'v runtime_error, 'addr) action) \<Rightarrow> 'v serde \<Rightarrow> 'v bytes_json
    \<Rightarrow> ('d, 'q, 'm) sync_ops \<Rightarrow> 'd draft_store \<Rightarrow> (exchange_report \<Rightarrow> string + byte list)
    \<Rightarrow> wire_encoding \<Rightarrow> 'p \<Rightarrow> 'p \<Rightarrow> 'p \<Rightarrow> 'p \<Rightarrow> 'p \<Rightarrow> 'p option
    \<Rightarrow> ('s, 'v, exchange_report) running" where
  "draft_connect_iroh_command ho ik nt bind_direct sd bj sy ds encode wire conversation draft identity policy
     server report_out =
     iroh_client ho ik nt bind_direct wire conversation identity policy server
       (\<lambda>plan transport. emitted ho encode report_out
         (iroh_session plan transport sd ''client'' ''server''
           (\<lambda>tp x. Some (draft_sync_work ho ds draft (run_draft_sync_client tp bj sy plan) x))))"

end
