(* ===== verification/Networks_Properties.thy ===== *)
theory Networks_Properties
  imports Networks Plain_Serde
begin

text \<open>
  Theorems on the sessions of the commands that serve and connect: over each of the three networks a
  workload runs only inside a session that binds the plan and the peer, as the bytes heard on its
  stream declared them.
\<close>

section \<open>Sessions\<close>

text \<open>
  What is heard in a handshake: with its own preface sent, an end reads a length and as many bytes,
  which decode to the preface of its peer, and the two ends exchange their acceptance.
\<close>

definition hears :: "('s, 'v) link \<Rightarrow> 'v serde \<Rightarrow> session_preface \<Rightarrow> 's \<Rightarrow> session_preface \<Rightarrow> 's \<Rightarrow> bool" where
  "hears lk sd own s p s' \<longleftrightarrow>
     (\<exists>encoded prefix received s1 s2 s3 s4.
        encode_session_preface sd own = (Inr encoded :: 'v runtime_error + _) \<and>
        lk_put lk [be32 (length encoded), encoded] s = (Inr (), s1) \<and>
        lk_get lk 4 s1 = (Inr prefix, s2) \<and> lk_get lk (of_be32 prefix) s2 = (Inr received, s3) \<and>
        decode_session_preface sd received = (Inr p :: 'v runtime_error + _) \<and>
        lk_put lk [[SESSION_ACCEPTED]] s3 = (Inr (), s4) \<and> lk_get lk 1 s4 = (Inr [SESSION_ACCEPTED], s'))"

definition session_bound :: "prepared_plan \<Rightarrow> string \<Rightarrow> session_preface \<Rightarrow> 's connection \<Rightarrow> bool" where
  "session_bound plan role p c \<longleftrightarrow>
     cn_established c \<and> codec_fits (cn_codec c) plan \<and> sn_format p = SESSION_FORMAT \<and>
     sn_conversation p = pp_conversation plan \<and> sn_identity p = pp_conversation_identity plan \<and>
     sn_plan_identity p = pp_plan_identity plan \<and> sn_role p = role \<and> sn_wire p = codec_encoding (cn_codec c)"

text \<open>A session on a connection: the preface heard on its stream binds the plan and the peer's role.\<close>

definition session_heard :: "('s, 'v) link \<Rightarrow> 'v serde \<Rightarrow> prepared_plan \<Rightarrow> string \<Rightarrow> session_preface
    \<Rightarrow> 's connection \<Rightarrow> session_preface \<Rightarrow> 's connection \<Rightarrow> bool" where
  "session_heard lk sd plan role own c p c' \<longleftrightarrow>
     (\<exists>s'. hears lk sd own (cn_stream c) p s' \<and> c' = c\<lparr>cn_stream := s', cn_established := True\<rparr> \<and>
        session_bound plan role p c')"

lemma establish_heard:
  fixes lk :: "('s, 'v) link"
  assumes "establish_on lk sd own check c = (Inr p, c')"
    and "check p = Inr () \<Longrightarrow> verify_peer p plan role (codec_encoding (cn_codec c)) = (Inr () :: 'v runtime_error + _)"
    and "codec_fits (cn_codec c) plan"
  shows "session_heard lk sd plan role own c p c'" and "check p = Inr ()"
proof -
  from assms(1) obtain s' where ex: "exchange_prefaces lk sd own check (cn_stream c) = (Inr p, s')"
    and c': "c' = c\<lparr>cn_stream := s', cn_established := True\<rparr>" by (auto simp: establish_on_Inr)
  from ex show check: "check p = Inr ()" unfolding exchange_prefaces_Inr by (elim exE conjE)
  from ex have "hears lk sd own (cn_stream c) p s'" unfolding exchange_prefaces_Inr hears_def by blast
  with c' assms(2) [OF check] assms(3) show "session_heard lk sd plan role own c p c'"
    by (auto simp: session_heard_def session_bound_def verify_peer_Inr)
qed

lemma tcp_heard:
  fixes sd :: "'v serde"
  assumes "tcp_establish_session rs sd plan mine role c = (Inr p :: 'v runtime_error + _, c')"
  shows "\<exists>own. local_session_preface (cn_codec c) plan mine role = (Inr own :: 'v runtime_error + _) \<and>
    session_heard (tcp_link rs) sd plan role own c p c'"
  using assms
  by (fastforce simp: tcp_establish_session_def act_then_Inr local_session_preface_Inr intro: establish_heard(1))

lemma quic_heard:
  fixes sd :: "'v serde"
  assumes "quic_establish_session rs sd plan mine role c = (Inr p :: 'v runtime_error + _, c')"
  shows "\<exists>own. local_session_preface (cn_codec c) plan mine role = (Inr own :: 'v runtime_error + _) \<and>
    session_heard (quic_link rs) sd plan role own c p c'"
  using assms
  by (fastforce simp: quic_establish_session_def act_then_Inr local_session_preface_Inr intro: establish_heard(1))

text \<open>Over Iroh both prefaces carry the exporter value of the connection and their end's identity.\<close>

definition bound_preface :: "session_preface \<Rightarrow> string \<Rightarrow> byte list \<Rightarrow> session_preface" where
  "bound_preface p identity key =
     p\<lparr>sn_endpoint_identity := Some identity, sn_channel_binding := Some (''tls-exporter:'' @ encode_hex key)\<rparr>"

lemma iroh_heard:
  fixes sd :: "'v serde"
  assumes "iroh_establish_session rs info sd plan mine role c = (Inr p :: 'v runtime_error + _, c')"
  shows "\<exists>own key. local_session_preface (cn_codec c) plan mine role = (Inr own :: 'v runtime_error + _) \<and>
    ir_export info CHANNEL_BINDING_LABEL (pp_plan_identity plan) = Inr key \<and>
    session_heard (iroh_link rs) sd plan role (bound_preface own (ir_local info) key) c p c' \<and>
    (ir_remote info = ''missing'' \<or> sn_endpoint_identity p = Some (ir_remote info)) \<and>
    sn_channel_binding p = Some (''tls-exporter:'' @ encode_hex key)"
proof -
  from assms obtain key own where
    key: "ir_export info CHANNEL_BINDING_LABEL (pp_plan_identity plan) = Inr key" and
    own: "local_session_preface (cn_codec c) plan mine role = (Inr own :: 'v runtime_error + _)" and
    est: "establish_on (iroh_link rs) sd (bound_preface own (ir_local info) key)
      (\<lambda>peer. verify_iroh_session_preface peer plan role (codec_encoding (cn_codec c)) (ir_remote info)
        (''tls-exporter:'' @ encode_hex key)) c = (Inr p, c')"
    by (auto simp: iroh_establish_session_def act_then_Inr channel_binding_def result_simps bound_preface_def)
  note heard = establish_heard [OF est, of plan role]
  have "codec_fits (cn_codec c) plan" using own by (simp add: local_session_preface_Inr)
  with heard key own show ?thesis
    by (auto simp: verify_iroh_session_preface_def result_simps split: option.splits)
qed

lemma quic_session_split:
  assumes "quic_establish_session qs sd plan mine role
    \<lparr>cn_stream = s, cn_codec = codec_for_plan wire plan, cn_established = False\<rparr> = (r :: 'v runtime_error + _, c)"
  shows "quic_session (qs, cl) sd wire plan mine role work s = (case r of
      Inl e \<Rightarrow> Some (Inl (CmdRuntime e), cn_stream c)
    | Inr _ \<Rightarrow> map_option (\<lambda>(r, x). (map_err CmdRuntime r, cn_stream (oe_connection x)))
        (work (quic_transport qs cl sd) \<lparr>oe_connection = c, oe_finished = False\<rparr>))"
  using assms by (auto simp: quic_session_def end_session_def on_connection_def fresh_end_def runtime_work_def
      option.map_comp comp_def case_prod_unfold split: sum.splits)

lemma iroh_session_split:
  assumes "it_streams transport = (zs, icl, info)" and "iroh_establish_session zs info sd plan mine role
    \<lparr>cn_stream = s, cn_codec = it_codec transport, cn_established = False\<rparr> = (r :: 'v runtime_error + _, c)"
  shows "iroh_session plan transport sd mine role work s = (case r of
      Inl e \<Rightarrow> Some (Inl (CmdRuntime e), cn_stream c)
    | Inr _ \<Rightarrow> map_option (\<lambda>(r, x). (r, cn_stream (oe_connection x)))
        (work (iroh_transport_ops zs icl sd) \<lparr>oe_connection = c, oe_finished = False\<rparr>))"
  using assms by (auto simp: iroh_session_def end_session_def on_connection_def fresh_end_def split: sum.splits)

text \<open>C25: a workload runs only inside a session bound to its plan and peer.  Over TCP, QUIC and Iroh a
  session either ends in an error that its work has no part in, or its outcome is that of its work
  on the connection on which the handshake took place: the preface its stream brought names the
  conversation, the two identities of the plan, the peer's role and the encoding of the connection.
  Over Iroh that preface also carries the authenticated identity of the remote endpoint and the
  exporter value of this very connection.\<close>

theorem sessions_bound:
  fixes sd :: "'v serde"
  shows "((\<exists>e t. \<forall>work. tcp_session rs sd connection plan mine role work s = Some (Inl (CmdRuntime e), t)) \<or>
      (\<exists>own p c. local_session_preface (cn_codec (connection s)) plan mine role = (Inr own :: 'v runtime_error + _) \<and>
        session_heard (tcp_link rs) sd plan role own (connection s) p c \<and>
        (\<forall>work. tcp_session rs sd connection plan mine role work s =
          map_option (\<lambda>(r, c). (map_err CmdRuntime r, cn_stream c)) (work c)))) \<and>
    ((\<exists>e t. \<forall>work. quic_session (qs, cl) sd wire plan mine role work s = Some (Inl (CmdRuntime e), t)) \<or>
      (\<exists>own p c. local_session_preface (codec_for_plan wire plan) plan mine role = (Inr own :: 'v runtime_error + _) \<and>
        session_heard (quic_link qs) sd plan role own
          \<lparr>cn_stream = s, cn_codec = codec_for_plan wire plan, cn_established = False\<rparr> p c \<and>
        (\<forall>work. quic_session (qs, cl) sd wire plan mine role work s =
          map_option (\<lambda>(r, x). (map_err CmdRuntime r, cn_stream (oe_connection x)))
            (work (quic_transport qs cl sd) \<lparr>oe_connection = c, oe_finished = False\<rparr>)))) \<and>
    ((\<exists>e t. \<forall>work. iroh_session plan transport sd mine role work s = Some (Inl (CmdRuntime e), t)) \<or>
      (\<exists>zs icl info own key p c. it_streams transport = (zs, icl, info) \<and>
        local_session_preface (it_codec transport) plan mine role = (Inr own :: 'v runtime_error + _) \<and>
        ir_export info CHANNEL_BINDING_LABEL (pp_plan_identity plan) = Inr key \<and>
        session_heard (iroh_link zs) sd plan role (bound_preface own (ir_local info) key)
          \<lparr>cn_stream = s, cn_codec = it_codec transport, cn_established = False\<rparr> p c \<and>
        (ir_remote info = ''missing'' \<or> sn_endpoint_identity p = Some (ir_remote info)) \<and>
        sn_channel_binding p = Some (''tls-exporter:'' @ encode_hex key) \<and>
        (\<forall>work. iroh_session plan transport sd mine role work s =
          map_option (\<lambda>(r, x). (r, cn_stream (oe_connection x)))
            (work (iroh_transport_ops zs icl sd) \<lparr>oe_connection = c, oe_finished = False\<rparr>))))"
    (is "?tcp \<and> ?quic \<and> ?iroh")
proof (intro conjI)
  obtain r c where "tcp_establish_session rs sd plan mine role (connection s) =
      (r :: 'v runtime_error + _, c)" by (cases "tcp_establish_session rs sd plan mine role (connection s)") auto
  with tcp_heard show ?tcp by (cases r) (fastforce simp: tcp_session_def)+
next
  let ?c = "\<lparr>cn_stream = s, cn_codec = codec_for_plan wire plan, cn_established = False\<rparr>"
  obtain r c where est: "quic_establish_session qs sd plan mine role ?c = (r :: 'v runtime_error + _, c)"
    by (cases "quic_establish_session qs sd plan mine role ?c") auto
  show ?quic
  proof (cases r)
    case (Inr p)
    with est quic_heard [of qs sd plan mine role ?c] obtain own where
      "local_session_preface (codec_for_plan wire plan) plan mine role = (Inr own :: 'v runtime_error + _)"
      "session_heard (quic_link qs) sd plan role own ?c p c" by auto
    then show ?thesis unfolding quic_session_split [OF est] Inr
      by (intro disjI2 exI [of _ own] exI [of _ p] exI [of _ c]) simp
  qed (auto simp: quic_session_split [OF est])
next
  obtain zs icl info where st: "it_streams transport = (zs, icl, info)" by (cases "it_streams transport")
  let ?c = "\<lparr>cn_stream = s, cn_codec = it_codec transport, cn_established = False\<rparr>"
  obtain r c where est: "iroh_establish_session zs info sd plan mine role ?c = (r :: 'v runtime_error + _, c)"
    by (cases "iroh_establish_session zs info sd plan mine role ?c") auto
  show ?iroh
  proof (cases r)
    case (Inr p)
    with est iroh_heard [of zs info sd plan mine role ?c] st show ?thesis
      unfolding iroh_session_split [OF st est] Inr by (intro disjI2) fastforce
  qed (auto simp: iroh_session_split [OF st est])
qed

text \<open>The three sessions of the example, over the bytes of a whole handshake.\<close>

lemma quic_ping_session:
  "quic_establish_session (wire_stream []) plain_serde ping_plan ''client'' ''server''
     (end_before (ping_preface ''server'')) =
   (Inr (ping_preface ''server''), end_after (ping_preface ''client''))"
proof -
  let ?p = "ping_preface ''client''" and ?q = "ping_preface ''server''"
  have check: "verify_peer ?q ping_plan ''server'' ReferenceEncoding = (Inr () :: string runtime_error + unit)"
    by (auto simp: verify_peer_Inr find_endpoint_def ping_plan_def plain_role_def ping_preface_def)
  have "exchange_prefaces (quic_link (wire_stream [])) plain_serde ?p
      (\<lambda>peer. verify_peer peer ping_plan ''server'' ReferenceEncoding) (cn_stream (end_before ?q)) =
    (Inr ?q, (cn_stream (end_before ?q))\<lparr>we_in := [],
      we_out := we_out (cn_stream (end_before ?q)) @ be32 (length (preface_bytes ?p)) @
        preface_bytes ?p @ [SESSION_ACCEPTED]\<rparr>)"
  proof (rule quic_wire.exchange_completes [where received = "preface_bytes ?q", OF refl refl])
    show "we_in (cn_stream (end_before ?q)) =
        be32 (length (preface_bytes ?q)) @ preface_bytes ?q @ SESSION_ACCEPTED # []"
      by (simp add: end_before_def plain_connection_def handshake_bytes_def)
  qed (use check in \<open>simp_all add: preface_codec\<close>)
  also have "(cn_stream (end_before ?q))\<lparr>we_in := [],
      we_out := we_out (cn_stream (end_before ?q)) @ be32 (length (preface_bytes ?p)) @
        preface_bytes ?p @ [SESSION_ACCEPTED]\<rparr> = cn_stream (end_after ?p)"
    by (simp add: end_before_def end_after_def plain_connection_def blank_end_def handshake_bytes_def)
  finally show ?thesis
    using ping_prefaces(1)
    unfolding quic_establish_session_def act_then_Inr establish_on_Inr from_result_Inr
    by (auto simp: end_before_def end_after_def plain_connection_def)
qed

definition still_closing :: "wire_end closing" where
  "still_closing =
     \<lparr>cl_write = (\<lambda>_ s. (Inr (), s)), cl_read = (\<lambda>n s. (Inr (replicate n 0), s)),
      cl_read_timed = (\<lambda>_ s. (None, s)), cl_finish = (\<lambda>s. (Inr (), s)), cl_close = (\<lambda>s. s), cl_stopped = (\<lambda>s. s),
      cl_closed = (\<lambda>s. (AppClosed 0, s)), cl_reason_text = (\<lambda>_. []), cl_endpoint_close = (\<lambda>s. s)\<rparr>"

definition ping_transport :: "(string, unit, wire_end iroh_streams) iroh_transport" where
  "ping_transport =
     \<lparr>it_connection = (), it_streams = (wire_stream [], still_closing, iroh_example), it_codec = CodecReference,
      it_remote = ''bb'', it_established = False, it_finished = False\<rparr>"

lemma sessions_run:
  "tcp_session (wire_stream TimedOut) plain_serde (\<lambda>s. plain_connection s CodecReference) ping_plan ''client''
     ''server'' (\<lambda>_. None) (cn_stream (end_before (ping_preface ''server''))) = None"
  "quic_session (wire_stream [], still_closing) plain_serde ReferenceEncoding ping_plan ''client'' ''server''
     (\<lambda>_ _. None) (cn_stream (end_before (ping_preface ''server''))) = None"
  "iroh_session ping_plan ping_transport plain_serde ''client'' ''server''
     (\<lambda>_ _. None) (cn_stream (end_before (iroh_preface ''server'' ''bb''))) = None"
proof -
  have ends: "plain_connection (cn_stream (end_before p)) CodecReference = end_before p"
    "\<lparr>cn_stream = cn_stream (end_before p), cn_codec = CodecReference, cn_established = False\<rparr> = end_before p" for p
    by (simp_all add: end_before_def plain_connection_def)
  show "tcp_session (wire_stream TimedOut) plain_serde (\<lambda>s. plain_connection s CodecReference) ping_plan ''client''
     ''server'' (\<lambda>_. None) (cn_stream (end_before (ping_preface ''server''))) = None"
    by (simp add: tcp_session_def ends ping_sessions)
  show "quic_session (wire_stream [], still_closing) plain_serde ReferenceEncoding ping_plan ''client'' ''server''
     (\<lambda>_ _. None) (cn_stream (end_before (ping_preface ''server''))) = None"
    by (simp add: quic_session_def end_session_def on_connection_def fresh_end_def codec_for_plan_def ends
        quic_ping_session runtime_work_def)
  show "iroh_session ping_plan ping_transport plain_serde ''client'' ''server''
     (\<lambda>_ _. None) (cn_stream (end_before (iroh_preface ''server'' ''bb''))) = None"
    by (simp add: iroh_session_def ping_transport_def end_session_def on_connection_def fresh_end_def ends iroh_session)
qed

lemma work_started:
  "(\<exists>e t. \<forall>work. f work = Some (Inl (CmdRuntime e), t)) \<or> Q \<Longrightarrow> f w = None \<Longrightarrow> Q"
  by (metis option.distinct(1))

lemma sessions_bound_witness:
  "(\<exists>own p c. session_heard (tcp_link (wire_stream TimedOut)) plain_serde ping_plan ''server'' own
      (end_before (ping_preface ''server'')) p c) \<and>
   (\<exists>own p c. session_heard (quic_link (wire_stream [])) plain_serde ping_plan ''server'' own
      (end_before (ping_preface ''server'')) p c) \<and>
   (\<exists>own p c. session_heard (iroh_link (wire_stream [])) plain_serde ping_plan ''server'' own
      (end_before (iroh_preface ''server'' ''bb'')) p c \<and> sn_endpoint_identity p = Some ''bb'' \<and>
      sn_channel_binding p = Some (''tls-exporter:'' @ encode_hex [7, 255]))"
proof -
  have ends: "plain_connection (cn_stream (end_before p)) CodecReference = end_before p"
    "\<lparr>cn_stream = cn_stream (end_before p), cn_codec = CodecReference, cn_established = False\<rparr> = end_before p" for p
    by (simp_all add: end_before_def plain_connection_def)
  have codec: "codec_for_plan ReferenceEncoding ping_plan = CodecReference" by (simp add: codec_for_plan_def)
  let ?s = "cn_stream (end_before (ping_preface ''server''))"
    and ?z = "cn_stream (end_before (iroh_preface ''server'' ''bb''))"
  note bound = sessions_bound [where sd = plain_serde and plan = ping_plan and mine = "''client''"
      and role = "''server''"]
  from work_started [OF conjunct1 [OF bound], OF sessions_run(1)]
  have tcp: "\<exists>own p c. session_heard (tcp_link (wire_stream TimedOut)) plain_serde ping_plan ''server'' own
      (end_before (ping_preface ''server'')) p c" unfolding ends by blast
  from work_started [OF conjunct1 [OF conjunct2 [OF bound]], OF sessions_run(2)]
  have quic: "\<exists>own p c. session_heard (quic_link (wire_stream [])) plain_serde ping_plan ''server'' own
      (end_before (ping_preface ''server'')) p c" unfolding codec ends by blast
  from work_started [OF conjunct2 [OF conjunct2 [OF bound]], OF sessions_run(3)]
  have "\<exists>own p c. session_heard (iroh_link (wire_stream [])) plain_serde ping_plan ''server'' own
      (end_before (iroh_preface ''server'' ''bb'')) p c \<and> sn_endpoint_identity p = Some ''bb'' \<and>
      sn_channel_binding p = Some (''tls-exporter:'' @ encode_hex [7, 255])"
    by (auto simp: ping_transport_def iroh_example_def ends simp del: encode_hex_Nil)
  with tcp quic show ?thesis by blast
qed

end
