(* ===== verification/Tools.thy ===== *)
theory Tools
  imports Networks Jev Deploy
begin

text \<open>
  The commands of \<open>src/src/main.rs\<close> that work on conversations, plans, traces, drafts and bindings.
  A command returns its exit status; what it prints is not modelled.  The JSON encoders, Automerge
  and the demonstrations' threads are arguments.
\<close>

section \<open>Commands and their exit status\<close>

datatype 'v tool_error =
    ToolCommand "'v command_error"
  | ToolCli cli_error
  | ToolValidation validation_errors
  | ToolPlan plan_error
  | ToolRuntime "'v runtime_error"
  | ToolTrace trace_failure
  | ToolDraft draft_error
  | ToolDeploy deployment_error
  | ToolSession session_mismatch
  | ToolIo string
  | ToolJson string
  | ToolPanic

type_synonym ('s, 'v, 'a) tool = "('s, 'v tool_error, 'a) action"

fun exit_status :: "'e + nat \<Rightarrow> nat" where
  \<comment> \<open>\<open>std::process::exit(n)\<close>, and what Rust makes of an error of \<open>main\<close>\<close>
  "exit_status (Inr n) = n"
| "exit_status (Inl _) = 1"

definition tool_json :: "('s, 'p, 'v, 'ip) host \<Rightarrow> (byte list \<Rightarrow> string + 'a) \<Rightarrow> 'p \<Rightarrow> ('s, 'v, 'a) tool" where
  "tool_json ho decode path = act_map_err ToolCommand (read_json ho decode path)"

definition tool_write :: "('s, 'p, 'v, 'ip) host \<Rightarrow> 'p \<Rightarrow> byte list \<Rightarrow> ('s, 'v, unit) tool" where
  "tool_write ho path bytes = act_map_err ToolCli (write_bytes (ho_files ho) path bytes)"

fun act_each :: "('a \<Rightarrow> ('s, 'e, unit) action) \<Rightarrow> 'a list \<Rightarrow> ('s, 'e, unit) action" where
  "act_each f [] = done_with ()"
| "act_each f (x # xs) = act_then (f x) (\<lambda>_. act_each f xs)"

section \<open>Checking and projecting\<close>

definition check_command :: "('s, 'p, 'v, 'ip) host \<Rightarrow> (validation_errors \<Rightarrow> string + string) \<Rightarrow> 'p \<Rightarrow> bool
    \<Rightarrow> ('s, 'v, nat) tool" where
  "check_command ho show_errors conversation json =
     act_then (tool_json ho (ho_conversation ho) conversation) (\<lambda>c.
     case validate c of
       Inr _ \<Rightarrow> done_with 0
     | Inl errors \<Rightarrow>
         if json then act_then (from_result (map_err ToolJson (show_errors errors))) (\<lambda>_. done_with 1)
         else fails_with (ToolValidation errors))"

definition endpoint_file :: "('s, 'p, 'v, 'ip) host \<Rightarrow> 'p \<Rightarrow> string \<Rightarrow> 'p" where
  "endpoint_file ho out role = ho_join ho out (role @ ''.endpoint.json'')"

definition project_command :: "('s, 'p, 'v, 'ip) host \<Rightarrow> (endpoint \<Rightarrow> string + byte list) \<Rightarrow> 'p \<Rightarrow> 'p
    \<Rightarrow> ('s, 'v, nat) tool" where
  "project_command ho encode conversation out =
     act_then (tool_json ho (ho_conversation ho) conversation) (\<lambda>c.
     act_then (from_result (map_err ToolValidation (project c))) (\<lambda>endpoints.
     act_then (act_map_err ToolIo (fs_create_dirs (ho_files ho) out)) (\<lambda>_.
     act_then (act_each (\<lambda>e.
       act_then (from_result (map_err ToolJson (encode e))) (\<lambda>bytes.
       act_map_err ToolIo (fs_write (ho_files ho) (endpoint_file ho out (ep_role e)) bytes))) endpoints) (\<lambda>_.
     done_with 0))))"

definition compile_command :: "('s, 'p, 'v, 'ip) host \<Rightarrow> (colloq_plan \<Rightarrow> string + byte list) \<Rightarrow> 'p \<Rightarrow> 'p
    \<Rightarrow> ('s, 'v, nat) tool" where
  "compile_command ho encode conversation out =
     act_then (tool_json ho (ho_conversation ho) conversation) (\<lambda>c.
     act_then (from_result (map_err ToolPlan (compile (ho_ext ho) c))) (\<lambda>plan.
     act_then (case fs_parent (ho_files ho) out of
         None \<Rightarrow> done_with ()
       | Some parent \<Rightarrow> act_map_err ToolIo (fs_create_dirs (ho_files ho) parent)) (\<lambda>_.
     act_then (from_result (map_err ToolJson (encode plan))) (\<lambda>bytes.
     act_then (act_map_err ToolIo (fs_write (ho_files ho) out bytes)) (\<lambda>_.
     done_with 0)))))"

definition verify_trace_command :: "('s, 'p, 'v, 'ip) host \<Rightarrow> (byte list \<Rightarrow> string + 'v frame list) \<Rightarrow> 'p \<Rightarrow> 'p
    \<Rightarrow> ('s, 'v, nat) tool" where
  \<comment> \<open>a valid trace that does not reach a terminal state exits with 2\<close>
  "verify_trace_command ho decode conversation trace =
     act_then (tool_json ho (ho_conversation ho) conversation) (\<lambda>c.
     act_then (tool_json ho decode trace) (\<lambda>frames.
     act_then (from_result (map_err ToolTrace (verify_trace c frames))) (\<lambda>report.
     done_with (if tr_complete report then 0 else 2))))"

definition verify_session_command :: "('s, 'p, 'v, 'ip) host \<Rightarrow> (byte list \<Rightarrow> string + 'v execution_report)
    \<Rightarrow> 'p \<Rightarrow> 'p \<Rightarrow> ('s, 'v, nat) tool" where
  "verify_session_command ho decode client server =
     act_then (tool_json ho decode client) (\<lambda>client.
     act_then (tool_json ho decode server) (\<lambda>server.
     act_then (from_result (map_err ToolSession (verify_session_reports client server))) (\<lambda>_.
     done_with 0)))"

section \<open>Running\<close>

datatype demo_transport = DemoMemory | DemoTcp | DemoQuic | DemoIroh

type_synonym ('s, 'v) demo_runner =
  "demo_transport \<Rightarrow> wire_encoding \<Rightarrow> prepared_plan \<Rightarrow> ('s, 'v runtime_error, 'v demo_summary) action"

definition run_plan_command :: "('s, 'p, 'v, 'ip) host \<Rightarrow> (byte list \<Rightarrow> string + colloq_plan)
    \<Rightarrow> ('s, 'v) demo_runner \<Rightarrow> 'p \<Rightarrow> demo_transport \<Rightarrow> wire_encoding \<Rightarrow> ('s, 'v, 'v demo_summary) tool" where
  \<comment> \<open>\<open>RunPlan\<close>: a stored plan is verified before it runs\<close>
  "run_plan_command ho decode run plan transport wire =
     act_then (tool_json ho decode plan) (\<lambda>artifact.
     act_then (from_result (map_err ToolPlan (prepare (ho_ext ho) artifact))) (\<lambda>plan.
     act_map_err ToolRuntime (run transport wire plan)))"

definition demo_command :: "('s, 'p, 'v, 'ip) host \<Rightarrow> ('s, 'v) demo_runner \<Rightarrow> 'p \<Rightarrow> demo_transport
    \<Rightarrow> ('s, 'v, 'v demo_summary) tool" where
  \<comment> \<open>\<open>Demo\<close>: the conversation is compiled, and runs in the reference encoding\<close>
  "demo_command ho run conversation transport =
     act_then (tool_json ho (ho_conversation ho) conversation) (\<lambda>c.
     act_then (from_result (map_err (ToolRuntime \<circ> RtPlan) (compile_prepared (ho_ext ho) c))) (\<lambda>plan.
     act_map_err ToolRuntime (run transport ReferenceEncoding plan)))"

definition fault_demo_command :: "('s, 'p, 'v, 'ip) host \<Rightarrow> (prepared_plan \<Rightarrow> fault_plan \<Rightarrow> ('s, 'v runtime_error, 'v demo_summary) action)
    \<Rightarrow> 'p \<Rightarrow> string \<Rightarrow> fault_operation \<Rightarrow> nat \<Rightarrow> string \<Rightarrow> string option \<Rightarrow> ('s, 'v, 'v demo_summary) tool" where
  "fault_demo_command ho run conversation role operation occurrence failure peer_failure =
     act_then (tool_json ho (ho_conversation ho) conversation) (\<lambda>c.
     act_then (from_result (map_err (ToolRuntime \<circ> RtPlan) (compile_prepared (ho_ext ho) c))) (\<lambda>plan.
     act_map_err ToolRuntime (run plan
       \<lparr>fp_role = role, fp_operation = operation, fp_occurrence = occurrence, fp_failure = failure,
        fp_peer_failure = peer_failure\<rparr>)))"

section \<open>Drafts\<close>

definition draft_create_command :: "('s, 'p, 'v, 'ip) host \<Rightarrow> 'd draft_store
    \<Rightarrow> ('v conversation \<Rightarrow> (draft_error + 'd) option) \<Rightarrow> 'p \<Rightarrow> 'p \<Rightarrow> ('s, 'v, nat) tool" where
  \<comment> \<open>\<open>create\<close> is \<open>from_conversation\<close> with its encoders; \<open>None\<close> is its panic\<close>
  "draft_create_command ho ds create conversation out =
     act_then (tool_json ho (ho_conversation ho) conversation) (\<lambda>c.
     act_then (from_result (map_err ToolValidation (validate c))) (\<lambda>_.
     act_then (from_result (and_then (ok_or ToolPanic (create c)) (map_err ToolDraft))) (\<lambda>draft.
     act_then (tool_write ho out (ds_save ds draft)) (\<lambda>_. done_with 0))))"

definition patch_at_heads :: "('d, 'o, 'h, 'f) automerge \<Rightarrow> ('n, 'f) number_view \<Rightarrow> string \<Rightarrow> 'n json \<Rightarrow> 'd
    \<Rightarrow> draft_error + 'd" where
  \<comment> \<open>\<open>apply_scalar_patch\<close> with the heads the document has\<close>
  "patch_at_heads am nv pointer json document =
     (case am_heads am document of
        (heads, document) \<Rightarrow>
          (case apply_scalar_patch am nv heads \<lparr>dp_path = pointer, dp_value = json\<rparr> document of
             (Inl e, _) \<Rightarrow> Inl e
           | (Inr _, document) \<Rightarrow> Inr document))"

definition draft_patch_command :: "('s, 'p, 'v, 'ip) host \<Rightarrow> 'd draft_store \<Rightarrow> ('d, 'o, 'h, 'f) automerge
    \<Rightarrow> ('n, 'f) number_view \<Rightarrow> (string \<Rightarrow> string + 'n json) \<Rightarrow> 'p \<Rightarrow> string \<Rightarrow> string \<Rightarrow> 'p option
    \<Rightarrow> ('s, 'v, nat) tool" where
  "draft_patch_command ho ds am nv parse draft pointer new_value out =
     act_then (act_map_err ToolIo (fs_read (ho_files ho) draft)) (\<lambda>bytes.
     act_then (from_result (map_err ToolDraft (ds_load ds bytes))) (\<lambda>document.
     act_then (from_result (map_err ToolJson (parse new_value))) (\<lambda>json.
     act_then (from_result (map_err ToolDraft (patch_at_heads am nv pointer json document))) (\<lambda>document.
     act_then (tool_write ho (case out of Some path \<Rightarrow> path | None \<Rightarrow> draft) (ds_save ds document)) (\<lambda>_.
     done_with 0)))))"

definition draft_promote_command :: "('s, 'p, 'v, 'ip) host \<Rightarrow> 'd draft_store
    \<Rightarrow> ('d \<Rightarrow> (draft_error + 'v promoted_draft) option) \<Rightarrow> ('v conversation \<Rightarrow> string + byte list)
    \<Rightarrow> (colloq_plan \<Rightarrow> string + byte list) \<Rightarrow> 'p \<Rightarrow> 'p \<Rightarrow> 'p \<Rightarrow> ('s, 'v, nat) tool" where
  \<comment> \<open>\<open>gate\<close> is \<open>promote\<close> with its reader and enough fuel for the document\<close>
  "draft_promote_command ho ds gate encode_conversation encode_plan draft conversation_out plan_out =
     act_then (act_map_err ToolIo (fs_read (ho_files ho) draft)) (\<lambda>bytes.
     act_then (from_result (map_err ToolDraft (ds_load ds bytes))) (\<lambda>document.
     act_then (from_result (and_then (ok_or ToolPanic (gate document)) (map_err ToolDraft))) (\<lambda>promoted.
     act_then (from_result (map_err ToolJson (encode_conversation (pd_conversation promoted)))) (\<lambda>bytes.
     act_then (tool_write ho conversation_out bytes) (\<lambda>_.
     act_then (from_result (map_err ToolJson (encode_plan (pd_plan promoted)))) (\<lambda>bytes.
     act_then (tool_write ho plan_out bytes) (\<lambda>_. done_with 0)))))))"

section \<open>Models as choosers\<close>

definition bind_files :: "('s, 'p, 'v, 'ip) host \<Rightarrow> (f64 \<Rightarrow> string) \<Rightarrow> (byte list \<Rightarrow> string + 'w jev_binding)
    \<Rightarrow> 'p \<Rightarrow> 'p \<Rightarrow> ('s, 'v, 'w bound_choice) tool" where
  \<comment> \<open>\<open>jev::bind(&conversation, read_json(&binding)?)?\<close>, which is all that \<open>JevCheck\<close> does\<close>
  "bind_files ho show_f64 decode conversation binding =
     act_then (tool_json ho (ho_conversation ho) conversation) (\<lambda>c.
     act_then (tool_json ho decode binding) (\<lambda>b.
     from_result (map_err ToolValidation (jev_bind show_f64 c b))))"

definition jev_check_command :: "('s, 'p, 'v, 'ip) host \<Rightarrow> (f64 \<Rightarrow> string)
    \<Rightarrow> (byte list \<Rightarrow> string + 'w jev_binding) \<Rightarrow> 'p \<Rightarrow> 'p \<Rightarrow> ('s, 'v, nat) tool" where
  "jev_check_command ho show_f64 decode conversation binding =
     act_then (bind_files ho show_f64 decode conversation binding) (\<lambda>_. done_with 0)"

definition jev_decide_command :: "('s, 'p, 'v, 'ip) host \<Rightarrow> (f64 \<Rightarrow> string)
    \<Rightarrow> (byte list \<Rightarrow> string + 'w jev_binding) \<Rightarrow> (string \<Rightarrow> string + 'w) \<Rightarrow> (string \<Rightarrow> string)
    \<Rightarrow> (string \<Rightarrow> nat \<Rightarrow> ('s, 'w, 'r) http_agent) \<Rightarrow> 'w json_view \<Rightarrow> 'p \<Rightarrow> 'p \<Rightarrow> string \<Rightarrow> nat
    \<Rightarrow> ('s, 'v, jev_decision option) tool" where
  \<comment> \<open>\<open>None\<close>: the failure is printed and the program exits with 1\<close>
  "jev_decide_command ho show_f64 decode parse trim agent jv conversation binding state_json timeout =
     act_then (bind_files ho show_f64 decode conversation binding) (\<lambda>bound.
     act_then (from_result (map_err ToolJson (parse state_json))) (\<lambda>state s.
     case act_then (from_result (api_key_of (ho_var ho ''TYPESAFE_API_KEY'') trim)) (\<lambda>key.
         decide show_f64 bound (type_safe_choose (agent key timeout) jv) state) s of
       (Inl _, s') \<Rightarrow> (Inr None, s')
     | (Inr decision, s') \<Rightarrow> (Inr (Some decision), s')))"

section \<open>Deployment\<close>

definition miren_options_of :: "'v conversation \<Rightarrow> string \<Rightarrow> string option \<Rightarrow> u16 \<Rightarrow> nat \<Rightarrow> nat
    \<Rightarrow> wire_encoding \<Rightarrow> miren_transport \<Rightarrow> bool \<Rightarrow> miren_options" where
  "miren_options_of c source app_name port tokens instances wire transport internal_only =
     (let options = for_conversation c source;
          options = (case app_name of Some app \<Rightarrow> options\<lparr>mo_app_name := app\<rparr> | None \<Rightarrow> options)
      in options\<lparr>mo_port := port, mo_tokens := tokens, mo_instances := instances, mo_wire := wire,
           mo_transport := transport, mo_node_port := \<not> internal_only\<rparr>)"

definition emit_miren_command :: "('s, 'p, 'v, 'ip) host \<Rightarrow> (string \<Rightarrow> 'p) \<Rightarrow> (string \<Rightarrow> byte list)
    \<Rightarrow> (string \<Rightarrow> string) \<Rightarrow> (string \<Rightarrow> string) \<Rightarrow> (miren_app \<Rightarrow> string + string) \<Rightarrow> string \<Rightarrow> string option
    \<Rightarrow> u16 \<Rightarrow> nat \<Rightarrow> nat \<Rightarrow> wire_encoding \<Rightarrow> miren_transport \<Rightarrow> bool \<Rightarrow> ('s, 'v, nat) tool" where
  \<comment> \<open>\<open>as_path\<close> is \<open>Path::new\<close>, \<open>as_bytes\<close> the bytes of a text\<close>
  "emit_miren_command ho as_path as_bytes quoted quoted_path to_toml source app_name port tokens instances
     wire transport internal_only =
     act_then (tool_json ho (ho_conversation ho) (as_path source)) (\<lambda>c.
     act_then (from_result (map_err ToolDeploy (render_miren_bundle quoted quoted_path to_toml (ho_ext ho) c
       (miren_options_of c source app_name port tokens instances wire transport internal_only)))) (\<lambda>bundle.
     act_then (tool_write ho (as_path ''.miren/app.toml'') (as_bytes (mb_app_toml bundle))) (\<lambda>_.
     act_then (tool_write ho (as_path (mb_dockerfile_path bundle)) (as_bytes (mb_dockerfile bundle))) (\<lambda>_.
     done_with 0))))"

end
