(* ===== verification/Tools_Properties.thy ===== *)
theory Tools_Properties
  imports Tools Draft_Properties
begin

text \<open>
  Theorems on the commands that work on files: the exit status of the trace checker, the plan a
  stored artifact runs, the files that projection writes, and what a refused patch leaves behind.
\<close>

section \<open>What the commands rely on in the file system\<close>

definition honest_files :: "('s, 'p) file_system \<Rightarrow> ('s \<Rightarrow> 'p \<Rightarrow> byte list option) \<Rightarrow> bool" where
  \<comment> \<open>reading changes nothing and gives the contents, creating directories keeps every file, and a
    successful write replaces the contents of one file; a path stands for the file it names\<close>
  "honest_files fs look \<longleftrightarrow>
     (\<forall>p s. snd (fs_read fs p s) = s) \<and>
     (\<forall>p s b. look s p = Some b \<longrightarrow> fst (fs_read fs p s) = Inr b) \<and>
     (\<forall>p s q. look (snd (fs_create_dirs fs p s)) q = look s q) \<and>
     (\<forall>p b s s'. fs_write fs p b s = (Inr (), s') \<longrightarrow> look s' = (look s)(p \<mapsto> b))"

lemma honest_read: "honest_files fs look \<Longrightarrow> fs_read fs p s = (r, s') \<Longrightarrow> s' = s"
  unfolding honest_files_def by (metis snd_conv)

lemma honest_contents: "honest_files fs look \<Longrightarrow> look s p = Some b \<Longrightarrow> fs_read fs p s = (Inr b, s)"
  unfolding honest_files_def by (metis prod.collapse)

lemma honest_dirs: "honest_files fs look \<Longrightarrow> fs_create_dirs fs p s = (r, s') \<Longrightarrow> look s' = look s"
  unfolding honest_files_def by (metis ext snd_conv)

lemma honest_write: "honest_files fs look \<Longrightarrow> fs_write fs p b s = (Inr (), s') \<Longrightarrow> look s' = (look s)(p \<mapsto> b)"
  unfolding honest_files_def by metis

definition map_files :: "(string \<rightharpoonup> byte list, string) file_system" where
  "map_files =
     \<lparr>fs_read = (\<lambda>p s. (case s p of Some b \<Rightarrow> Inr b | None \<Rightarrow> Inl ''not found'', s)),
      fs_parent = (\<lambda>_. None), fs_create_dirs = (\<lambda>_ s. (Inr (), s)),
      fs_write = (\<lambda>p b s. (Inr (), s(p \<mapsto> b))), fs_open_private = (\<lambda>p s. (Inr (), s(p \<mapsto> []))),
      fs_append = (\<lambda>p b s. (Inr (), s(p \<mapsto> (case s p of Some c \<Rightarrow> c | None \<Rightarrow> []) @ b))),
      fs_make_private = (\<lambda>_ s. (Inr (), s))\<rparr>"

lemma map_files_honest: "honest_files map_files (\<lambda>s. s)"
  by (simp add: honest_files_def map_files_def)

definition ping_host :: "(string \<rightharpoonup> byte list, string, string, nat) host" where
  \<comment> \<open>a host whose every conversation file holds \<open>ping\<close>\<close>
  "ping_host =
     \<lparr>ho_files = map_files, ho_exists = (\<lambda>p s. s p \<noteq> None), ho_join = (\<lambda>p q. p @ ''/'' @ q),
      ho_generate = (\<lambda>s. ([], s)), ho_var = (\<lambda>_. None), ho_ext = plain_externals,
      ho_conversation = (\<lambda>_. Inr ping),
      ho_identity = \<lparr>at_encode = (\<lambda>_. Inl []), at_decode = (\<lambda>_. Inl []), at_parse = (\<lambda>_. Inl [])\<rparr>,
      ho_policy = \<lparr>at_encode = (\<lambda>_. Inl []), at_decode = (\<lambda>_. Inl []), at_parse = (\<lambda>_. Inl [])\<rparr>,
      ho_ticket = \<lparr>at_encode = (\<lambda>_. Inl []), at_decode = (\<lambda>_. Inl []), at_parse = (\<lambda>_. Inl [])\<rparr>,
      ho_parse_address = (\<lambda>_. Inl []), ho_unspecified = (\<lambda>_. False)\<rparr>"

lemma ping_host_reads:
  "tool_json ping_host decode p s =
     (case s p of None \<Rightarrow> Inl (ToolCommand (CmdIo ''not found''))
      | Some b \<Rightarrow> map_err (\<lambda>e. ToolCommand (CmdJson e)) (decode b), s)"
  by (auto simp: tool_json_def read_json_def ping_host_def map_files_def act_map_err_def act_then_def
      from_result_def map_err_def split: option.splits sum.splits)

lemma ping_host_fields [simp]:
  "ho_files ping_host = map_files" "ho_conversation ping_host = (\<lambda>_. Inr ping)"
  "ho_ext ping_host = plain_externals" "ho_join ping_host p q = p @ ''/'' @ q"
  by (simp_all add: ping_host_def)

section \<open>Traces\<close>

text \<open>The exit status of the trace command tells the three outcomes apart.  Once both files are
  read it is 0 exactly when the conversation is well-formed and the frames lead from its initial
  state to a terminal one, 2 when they lead to another state, and 1 when the conversation is not
  well-formed or the graph refuses a frame; and the command changes nothing.\<close>

theorem verify_trace_exit:
  assumes "tool_json ho (ho_conversation ho) conversation s = (Inr c, s1)"
    and "tool_json ho decode trace s1 = (Inr frames, s2)"
  shows "snd (verify_trace_command ho decode conversation trace s) = s2 \<and>
    exit_status (fst (verify_trace_command ho decode conversation trace s)) =
      (if \<not> well_formed c then 1
       else case conv_run c (conv_initial c) frames of
           None \<Rightarrow> 1
         | Some j \<Rightarrow> if list_ex (\<lambda>state. gid state = j \<and> is_terminal state) (conv_states c) then 0 else 2)"
proof -
  have command: "verify_trace_command ho decode conversation trace s =
      (and_then (map_err ToolTrace (verify_trace c frames)) (\<lambda>r. Inr (if tr_complete r then 0 else 2)), s2)"
    using assms by (simp add: verify_trace_command_def act_then_def from_result_def done_with_def and_then_def
        split: sum.splits)
  show ?thesis
  proof (cases "well_formed c")
    case False
    with verify_trace_invalid [OF False, of frames] show ?thesis by (auto simp: command)
  next
    case True
    show ?thesis
    proof (cases "conv_run c (conv_initial c) frames")
      case None
      with verify_trace_refuse [OF True None] True show ?thesis by (auto simp: command)
    next
      case (Some j)
      from conv_run_ids [OF True wf_initial [OF True] Some]
      obtain st where st: "find (\<lambda>st. gid st = j) (conv_states c) = Some st" by (rule state_ids_find)
      have "list_ex (\<lambda>state. gid state = j \<and> is_terminal state) (conv_states c) \<longleftrightarrow> is_terminal st"
      proof -
        have "state = st" if "state \<in> set (conv_states c)" "gid state = j" for state
          using find_key_distinct [OF wf_distinct [OF True] that(1)] that(2) st by simp
        with find_key_SomeD [OF st] show ?thesis by (auto simp: list_ex_iff)
      qed
      with verify_trace_run [OF True Some] True Some st show ?thesis
        by (simp add: command report_of_def trace_report_at_def)
    qed
  qed
qed

lemma verify_trace_exit_witness:
  "exit_status (fst (verify_trace_command ping_host (\<lambda>_. Inr []) ''c'' ''t''
      [''c'' \<mapsto> [], ''t'' \<mapsto> []])) = 2"
proof -
  have wf: "well_formed ping" using validate_ping by (simp add: validate_ok_iff)
  have open_start: "\<not> list_ex (\<lambda>state. gid state = ''start'' \<and> is_terminal state) (conv_states ping)"
    "conv_initial ping = ''start''"
    by (simp_all add: ping_def)
  show ?thesis
    using verify_trace_exit [of ping_host "''c''" "[''c'' \<mapsto> [], ''t'' \<mapsto> []]" ping "[''c'' \<mapsto> [], ''t'' \<mapsto> []]"
      "\<lambda>_. Inr []" "''t''" "[]" "[''c'' \<mapsto> [], ''t'' \<mapsto> []]"] wf open_start
    by (simp add: ping_host_reads)
qed

section \<open>Plans\<close>

lemma compile_verified: "compile ext c = Inr p \<Longrightarrow> verify ext p = Inr ()"
  by (auto simp: compile_def Let_def result_simps)

lemma compile_prepare: "compile ext c = Inr p \<Longrightarrow> prepare ext p = compile_prepared ext c"
  by (simp add: prepare_def compile_prepared_def compile_verified)

lemma parent_dirs_keep:
  assumes "honest_files fs look"
    and "(case fs_parent fs out of None \<Rightarrow> done_with ()
      | Some parent \<Rightarrow> act_map_err err (fs_create_dirs fs parent)) s = (r, s')"
  shows "look s' = look s"
  using assms(2) by (auto simp: done_with_def act_map_err_def dest: honest_dirs [OF assms(1)]
      split: option.splits prod.splits)

text \<open>C17: a stored plan runs as the plan of its conversation.  When compiling a conversation to a file
  succeeds, the file is accepted by the command that runs plans, which then runs exactly the plan
  that compiling the conversation directly prepares.\<close>

theorem compiled_plan_runs:
  assumes "honest_files (ho_files ho) look"
    and "\<And>p bytes. encode p = Inr bytes \<Longrightarrow> decode bytes = Inr p"
    and "tool_json ho (ho_conversation ho) conversation s = (Inr c, s1)"
    and "compile_command ho encode conversation out s = (Inr n, s')"
  shows "n = 0 \<and> (\<exists>plan. compile_prepared (ho_ext ho) c = Inr plan \<and>
    run_plan_command ho decode run out transport wire s' =
      act_map_err ToolRuntime (run transport wire plan) s')"
proof -
  from assms(3,4) obtain p bytes s2 where p: "compile (ho_ext ho) c = Inr p" and enc: "encode p = Inr bytes"
    and written: "fs_write (ho_files ho) out bytes s2 = (Inr (), s')" and n: "n = 0"
    by (auto simp: compile_command_def act_then_Inr act_map_err_Inr map_err_Inr done_with_def)
  have "look s' out = Some bytes" using honest_write [OF assms(1) written] by simp
  then have read: "tool_json ho decode out s' = (Inr p, s')"
    using honest_contents [OF assms(1)] assms(2) [OF enc]
    by (simp add: tool_json_def read_json_def act_map_err_def act_then_def from_result_def)
  from p obtain plan where plan: "compile_prepared (ho_ext ho) c = Inr plan"
    using compile_shape(6) [OF p] by (auto simp: compile_prepared_def prepared_def)
  then have "run_plan_command ho decode run out transport wire s' =
      act_map_err ToolRuntime (run transport wire plan) s'"
    by (simp add: run_plan_command_def act_then_def from_result_def read compile_prepare [OF p])
  with plan n show ?thesis by simp
qed

lemma compiled_plan_runs_witness:
  "run_plan_command ping_host (\<lambda>_. Inr (ping_file (Some (pp_wire ping_plan)))) (\<lambda>_ _ plan s. (Inl (RtTransportClosed (pp_plan_identity plan)), s))
     ''p'' DemoMemory ReferenceEncoding [''c'' \<mapsto> [], ''p'' \<mapsto> []] =
     (Inl (ToolRuntime (RtTransportClosed ping_identity)), [''c'' \<mapsto> [], ''p'' \<mapsto> []])"
proof -
  let ?encode = "\<lambda>p. if p = ping_file (Some (pp_wire ping_plan)) then Inr [] else Inl ''other''"
  let ?decode = "\<lambda>_. Inr (ping_file (Some (pp_wire ping_plan)))"
  have compiled: "compile plain_externals ping = Inr (ping_file (Some (pp_wire ping_plan)))"
    by code_simp
  have run: "compile_command ping_host ?encode ''c'' ''p'' [''c'' \<mapsto> []] = (Inr 0, [''c'' \<mapsto> [], ''p'' \<mapsto> []])"
    by (simp add: compile_command_def ping_host_reads act_then_def from_result_def compiled act_map_err_def
        done_with_def map_files_def)
  have encoded: "?decode bytes = Inr p" if "?encode p = Inr bytes" for p bytes
    using that by (simp split: if_splits)
  have look: "honest_files (ho_files ping_host) (\<lambda>s. s)" by (simp add: map_files_honest)
  have read: "tool_json ping_host (ho_conversation ping_host) ''c'' [''c'' \<mapsto> []] = (Inr ping, [''c'' \<mapsto> []])"
    by (simp add: ping_host_reads)
  show ?thesis
    using compiled_plan_runs [OF look encoded read run, where transport = DemoMemory
        and wire = ReferenceEncoding and run = "\<lambda>_ _ plan s. (Inl (RtTransportClosed (pp_plan_identity plan)), s)"]
      ping_compiles
    by (simp add: ping_host_reads act_map_err_def ping_plan_def)
qed

section \<open>Endpoint files\<close>

lemma act_each_writes:
  assumes "honest_files fs look"
    and "act_each (\<lambda>x. act_then (from_result (map_err err (encode x))) (\<lambda>bytes.
      act_map_err err' (fs_write fs (place x) bytes))) xs s = (Inr (), s')"
    and "distinct (map place xs)"
  shows "list_all (\<lambda>x. \<exists>bytes. encode x = Inr bytes \<and> look s' (place x) = Some bytes) xs \<and>
    (\<forall>q. q \<notin> place ` set xs \<longrightarrow> look s' q = look s q)"
  using assms(2,3)
proof (induction xs arbitrary: s)
  case Nil
  then show ?case by (simp add: done_with_def)
next
  case (Cons x xs)
  from Cons.prems(1) obtain bytes s1 where x: "encode x = Inr bytes" "fs_write fs (place x) bytes s = (Inr (), s1)"
    and rest: "act_each (\<lambda>x. act_then (from_result (map_err err (encode x))) (\<lambda>bytes.
      act_map_err err' (fs_write fs (place x) bytes))) xs s1 = (Inr (), s')"
    by (auto simp: act_then_Inr act_map_err_Inr map_err_Inr)
  have "look s1 = (look s)(place x \<mapsto> bytes)" by (rule honest_write [OF assms(1) x(2)])
  with Cons.IH [OF rest] Cons.prems(2) x(1) show ?case by auto
qed

text \<open>Projecting to files writes one file for every role and nothing else, when the roles' files
  differ.  The name of the file is the role's identifier as the conversation has it, followed by a
  fixed suffix: nothing checks the characters of that identifier.\<close>

theorem project_files:
  fixes ho :: "('s, 'p, 'v, 'ip) host"
  assumes "honest_files (ho_files ho) look"
    and "distinct (map (\<lambda>r. ho_join ho out (role_id r @ ''.endpoint.json'')) (conv_roles c))"
    and "tool_json ho (ho_conversation ho) conversation s = (Inr c, s1)"
    and "project_command ho encode conversation out s = (Inr n, s')"
  shows "well_formed c \<and>
    list_all (\<lambda>r. \<exists>bytes. encode (project_role c r) = Inr bytes \<and>
      look s' (ho_join ho out (role_id r @ ''.endpoint.json'')) = Some bytes) (conv_roles c) \<and>
    (\<forall>q. q \<notin> (\<lambda>r. ho_join ho out (role_id r @ ''.endpoint.json'')) ` set (conv_roles c) \<longrightarrow>
      look s' q = look s1 q)"
proof -
  let ?place = "\<lambda>e. endpoint_file ho out (ep_role e)"
  from assms(3,4) obtain s2 where wf: "well_formed c"
    and dirs: "fs_create_dirs (ho_files ho) out s1 = (Inr (), s2)"
    and writes: "act_each (\<lambda>e. act_then (from_result (map_err ToolJson (encode e))) (\<lambda>bytes.
       act_map_err ToolIo (fs_write (ho_files ho) (?place e) bytes))) (project_validated c) s2 = (Inr () :: 'v tool_error + _, s')"
    by (auto simp: project_command_def act_then_Inr act_map_err_Inr map_err_Inr done_with_def project_def
        and_then_Inr validate_ok_iff)
  from assms(2) have "distinct (map ?place (project_validated c))"
    by (simp add: project_validated_def endpoint_file_def comp_def)
  from act_each_writes [OF assms(1) writes this] wf honest_dirs [OF assms(1) dirs] show ?thesis
    by (simp add: project_validated_def endpoint_file_def list_all_iff image_image)
qed

definition up_ping :: "string conversation" where
  \<comment> \<open>\<open>ping\<close> with a role named like a path that leaves its directory\<close>
  "up_ping = \<lparr>conv_schema = None, conv_format = ''0.1.0'',
     conv_module = \<lparr>module_id = ''up'', semantic_version = None\<rparr>,
     conv_roles = [plain_role ''../client'', plain_role ''server''],
     conv_types = conv_types ping, conv_failures = [],
     conv_initial = ''start'',
     conv_states = [GSend ''start'' ''../client'' ''server'' ''msg'' ''end'' None [], GEnd ''end''],
     conv_annotations = []\<rparr>"

definition up_host :: "(string \<rightharpoonup> byte list, string, string, nat) host" where
  "up_host = ping_host\<lparr>ho_conversation := \<lambda>_. Inr up_ping\<rparr>"

lemma up_host_fields [simp]: "ho_files up_host = map_files" "ho_join up_host p q = p @ ''/'' @ q"
  by (simp_all add: up_host_def)

lemma up_host_reads: "tool_json up_host (ho_conversation up_host) ''c'' [''c'' \<mapsto> []] = (Inr up_ping, [''c'' \<mapsto> []])"
  by (simp add: up_host_def tool_json_def read_json_def act_map_err_def act_then_def map_files_def from_result_def)

lemma project_up_ping:
  "project up_ping = Inr [project_role up_ping (plain_role ''../client''), project_role up_ping (plain_role ''server'')]"
  by code_simp

lemma project_files_witness:
  "snd (project_command up_host (\<lambda>_. Inr []) ''c'' ''out'' [''c'' \<mapsto> []]) ''out/../client.endpoint.json'' = Some []"
proof -
  obtain s' where run: "project_command up_host (\<lambda>_. Inr []) ''c'' ''out'' [''c'' \<mapsto> []] = (Inr 0, s')"
    by (simp add: project_command_def act_then_def up_host_reads from_result_def project_up_ping act_map_err_def
        done_with_def map_files_def)
  have look: "honest_files (ho_files up_host) (\<lambda>s. s)" by (simp add: map_files_honest)
  have roles: "conv_roles up_ping = [plain_role ''../client'', plain_role ''server'']" by (simp add: up_ping_def)
  then have differ: "distinct (map (\<lambda>r. ho_join up_host ''out'' (role_id r @ ''.endpoint.json'')) (conv_roles up_ping))"
    by (simp add: plain_role_def)
  from project_files [OF look differ up_host_reads run] run show ?thesis
    by (simp add: roles plain_role_def)
qed

section \<open>Patches\<close>

lemma write_bytes_look:
  assumes "honest_files fs look" and "write_bytes fs path bytes s = (Inr (), s')"
  shows "look s' = (look s)(path \<mapsto> bytes)"
proof -
  from assms(2) obtain s1 where parent: "create_parent fs path s = (Inr (), s1)"
    and written: "fs_write fs path bytes s1 = (Inr (), s')"
    by (auto simp: write_bytes_def act_then_Inr act_map_err_Inr)
  have "look s1 = look s"
    using parent by (auto simp: create_parent_def done_with_def act_map_err_def
        dest: honest_dirs [OF assms(1)] split: option.splits prod.splits)
  with honest_write [OF assms(1) written] show ?thesis by simp
qed

text \<open>A refused patch leaves the stored draft alone.  When the command to patch a draft fails other
  than in writing its result, nothing has changed; and when it succeeds the output file, by
  default the draft itself, holds the document to which the patch was applied at its current
  heads, and every other file is as it was.\<close>

theorem draft_patch_safe:
  fixes am :: "('d, 'o, 'h, 'f) automerge"
  assumes "honest_files (ho_files ho) look"
    and "draft_patch_command ho ds am nv parse draft pointer new_value out s = (r, s')"
  shows "case r of
      Inl e \<Rightarrow> (\<exists>cli. e = ToolCli cli) \<or> s' = s
    | Inr _ \<Rightarrow> \<exists>bytes document patched json heads.
        fs_read (ho_files ho) draft s = (Inr bytes, s) \<and> ds_load ds bytes = Inr document \<and>
        parse new_value = Inr json \<and>
        apply_scalar_patch am nv (fst (am_heads am document)) \<lparr>dp_path = pointer, dp_value = json\<rparr>
          (snd (am_heads am document)) = (Inr heads, patched) \<and>
        look s' = (look s)((case out of Some path \<Rightarrow> path | None \<Rightarrow> draft) \<mapsto> ds_save ds patched)"
proof (cases r)
  case (Inl e)
  with assms(2) show ?thesis
    by (auto simp: draft_patch_command_def act_then_def act_map_err_def from_result_def fails_with_def
        done_with_def tool_write_def map_err_Inl dest: honest_read [OF assms(1)]
        split: prod.splits sum.splits)
next
  case (Inr n)
  let ?path = "case out of Some path \<Rightarrow> path | None \<Rightarrow> draft"
  from assms(2) Inr obtain bytes s1 document json patched where
    run: "fs_read (ho_files ho) draft s = (Inr bytes, s1)" "ds_load ds bytes = Inr document"
      "parse new_value = Inr json" "patch_at_heads am nv pointer json document = Inr patched"
    and written: "write_bytes (ho_files ho) ?path (ds_save ds patched) s1 = (Inr (), s')"
    by (auto simp: draft_patch_command_def tool_write_def act_then_Inr act_map_err_Inr map_err_Inr done_with_def)
  have "s1 = s" by (rule honest_read [OF assms(1) run(1)])
  moreover from run(4) obtain heads where "apply_scalar_patch am nv (fst (am_heads am document))
      \<lparr>dp_path = pointer, dp_value = json\<rparr> (snd (am_heads am document)) = (Inr heads, patched)"
    by (auto simp: patch_at_heads_def split: prod.splits sum.splits)
  ultimately show ?thesis using run write_bytes_look [OF assms(1) written] unfolding Inr by auto
qed

definition first_doc :: demo_document where
  "first_doc = demo_doc 1"

definition version_store :: "demo_document draft_store" where
  \<comment> \<open>a stored draft is its version\<close>
  "version_store = \<lparr>ds_load = (\<lambda>_. Inr first_doc), ds_save = (\<lambda>d. [word_of_nat (fst d)])\<rparr>"

lemma draft_patch_safe_witness:
  "snd (draft_patch_command ping_host version_store demo_automerge demo_numbers (\<lambda>_. Inr JNull) ''d''
      ''/module/version'' ''null'' None [''d'' \<mapsto> [7]]) ''d'' = Some [8]"
proof -
  let ?run = "draft_patch_command ping_host version_store demo_automerge demo_numbers (\<lambda>_. Inr JNull) ''d''
      ''/module/version'' ''null'' None [''d'' \<mapsto> [7]]"
  have patch: "fst (snd (apply_scalar_patch demo_automerge demo_numbers [7]
      \<lparr>dp_path = ''/module/version'', dp_value = JNull\<rparr> first_doc)) = 8"
    by code_simp
  have ok: "isl (fst (apply_scalar_patch demo_automerge demo_numbers [7]
      \<lparr>dp_path = ''/module/version'', dp_value = JNull\<rparr> first_doc)) = False"
    by code_simp
  obtain r s' where run: "?run = (r, s')" by (cases ?run)
  have heads: "am_heads demo_automerge first_doc = ([7], first_doc)"
    by (simp add: demo_automerge_def first_doc_def demo_doc_def)
  have look: "honest_files (ho_files ping_host) (\<lambda>s. s)" by (simp add: map_files_honest)
  obtain n where "r = Inr n"
    using run ok by (auto simp: draft_patch_command_def act_then_def act_map_err_def map_files_def from_result_def
        version_store_def patch_at_heads_def heads tool_write_def write_bytes_def create_parent_def done_with_def
        split: prod.splits sum.splits)
  with draft_patch_safe [OF look run] patch heads run show ?thesis
    by (auto simp: version_store_def)
qed

end
