(* ===== verification/Baseline.thy ===== *)
theory Baseline
  imports Tools
begin

text \<open>
  The hand-written baseline protocol of \<open>src/src/benchmark.rs\<close>: a client and a server in two
  threads, with one channel in each direction.  A thread moves from one channel operation to the
  next; the inductive relation \<open>baseline_step\<close> lets any thread that is not blocked move, so it
  covers every schedule.  A thread that returns drops its ends of both channels.
\<close>

section \<open>Messages and errors\<close>

datatype bench_client_message = MsgPrompt string | MsgContinue
datatype bench_server_message = MsgToken u64 | MsgDone

datatype 'v benchmark_error =
    BenchPlan plan_error
  | BenchRuntime "'v runtime_error"
  | BenchInvalidIterations
  | BenchCodec string
  | BenchProtocol string
  | BenchWorkerPanicked

record baseline_serde =
  bs_client_to_vec :: "bench_client_message \<Rightarrow> string + byte list"
  bs_client_from_slice :: "byte list \<Rightarrow> string + bench_client_message"
  bs_server_to_vec :: "bench_server_message \<Rightarrow> string + byte list"
  bs_server_from_slice :: "byte list \<Rightarrow> string + bench_server_message"

section \<open>The two threads\<close>

datatype 'v client_point = ClStart | ClWait nat | ClReply nat | ClEnd "'v benchmark_error + nat"
datatype 'v server_point = SvStart | SvLoop nat | SvAwait nat | SvEnd "'v benchmark_error + unit"

record 'v baseline =
  bl_to_server :: "byte list list"
  bl_to_client :: "byte list list"
  bl_client :: "'v client_point"
  bl_server :: "'v server_point"

fun client_ended :: "'v client_point \<Rightarrow> bool" where
  "client_ended (ClEnd _) = True"
| "client_ended _ = False"

fun server_ended :: "'v server_point \<Rightarrow> bool" where
  "server_ended (SvEnd _) = True"
| "server_ended _ = False"

definition send_json :: "bool \<Rightarrow> ('m \<Rightarrow> string + byte list) \<Rightarrow> 'm \<Rightarrow> byte list list
    \<Rightarrow> 'v benchmark_error + byte list list" where
  \<comment> \<open>\<open>gone\<close>: the receiving thread has returned\<close>
  "send_json gone encode message queue =
     and_then (map_err BenchCodec (encode message)) (\<lambda>encoded.
     if gone then Inl (BenchProtocol ''baseline channel closed during send'') else Inr (queue @ [encoded]))"

definition receive_json :: "bool \<Rightarrow> (byte list \<Rightarrow> string + 'm) \<Rightarrow> byte list list
    \<Rightarrow> (('v benchmark_error + 'm) \<times> byte list list) option" where
  \<comment> \<open>\<open>None\<close>: blocked on an empty channel whose sender is alive\<close>
  "receive_json gone decode queue =
     (case queue of
        encoded # rest \<Rightarrow> Some (map_err BenchCodec (decode encoded), rest)
      | [] \<Rightarrow> if gone then Some (Inl (BenchProtocol ''baseline channel closed during receive''), []) else None)"

definition server_prompt :: "string \<Rightarrow> bench_client_message \<Rightarrow> 'v server_point" where
  "server_prompt expected message =
     (case message of
        MsgPrompt given \<Rightarrow>
          if given = expected then SvLoop 0
          else SvEnd (Inl (BenchProtocol ''baseline server received a different prompt''))
      | MsgContinue \<Rightarrow> SvEnd (Inl (BenchProtocol ''baseline server expected a prompt'')))"

definition server_loop :: "baseline_serde \<Rightarrow> nat \<Rightarrow> nat \<Rightarrow> 'v baseline \<Rightarrow> 'v baseline" where
  \<comment> \<open>the head of \<open>for index in 0..tokens\<close>, and the message after the loop\<close>
  "server_loop bs tokens index b =
     (let gone = client_ended (bl_client b);
          message = (if index < tokens then MsgToken (word_of_nat index + 1) else MsgDone);
          next = (if index < tokens then SvAwait index else SvEnd (Inr ()))
      in case send_json gone (bs_server_to_vec bs) message (bl_to_client b) of
          Inl e \<Rightarrow> b\<lparr>bl_server := SvEnd (Inl e)\<rparr>
        | Inr queue \<Rightarrow> b\<lparr>bl_to_client := queue, bl_server := next\<rparr>)"

definition server_step :: "baseline_serde \<Rightarrow> string \<Rightarrow> nat \<Rightarrow> 'v baseline \<Rightarrow> 'v baseline option" where
  "server_step bs prompt tokens b =
     (let receive = receive_json (client_ended (bl_client b)) (bs_client_from_slice bs) (bl_to_server b) in
      case bl_server b of
        SvStart \<Rightarrow> map_option (\<lambda>(r, queue). b\<lparr>bl_to_server := queue, bl_server :=
          (case r of Inl e \<Rightarrow> SvEnd (Inl e) | Inr message \<Rightarrow> server_prompt prompt message)\<rparr>) receive
      | SvLoop index \<Rightarrow> Some (server_loop bs tokens index b)
      | SvAwait index \<Rightarrow> map_option (\<lambda>(r, queue). b\<lparr>bl_to_server := queue, bl_server :=
          (case r of
             Inl e \<Rightarrow> SvEnd (Inl e)
           | Inr MsgContinue \<Rightarrow> SvLoop (Suc index)
           | Inr (MsgPrompt _) \<Rightarrow> SvEnd (Inl (BenchProtocol ''baseline server expected continue'')))\<rparr>) receive
      | SvEnd _ \<Rightarrow> None)"

definition client_send :: "baseline_serde \<Rightarrow> bench_client_message \<Rightarrow> nat \<Rightarrow> 'v baseline \<Rightarrow> 'v baseline" where
  "client_send bs message received b =
     (case send_json (server_ended (bl_server b)) (bs_client_to_vec bs) message (bl_to_server b) of
        Inl e \<Rightarrow> b\<lparr>bl_client := ClEnd (Inl e)\<rparr>
      | Inr queue \<Rightarrow> b\<lparr>bl_to_server := queue, bl_client := ClWait received\<rparr>)"

definition client_receive :: "nat \<Rightarrow> bench_server_message \<Rightarrow> 'v client_point" where
  "client_receive received message =
     (case message of
        MsgToken i \<Rightarrow>
          if i = word_of_nat received + 1 then ClReply (received + 1)
          else ClEnd (Inl (BenchProtocol (''baseline client received token '' @ show_nat (unat i) @
            '' out of order'')))
      | MsgDone \<Rightarrow> ClEnd (Inr received))"

definition client_step :: "baseline_serde \<Rightarrow> string \<Rightarrow> 'v baseline \<Rightarrow> 'v baseline option" where
  "client_step bs prompt b =
     (case bl_client b of
        ClStart \<Rightarrow> Some (client_send bs (MsgPrompt prompt) 0 b)
      | ClWait received \<Rightarrow> map_option (\<lambda>(r, queue). b\<lparr>bl_to_client := queue, bl_client :=
          (case r of Inl e \<Rightarrow> ClEnd (Inl e) | Inr message \<Rightarrow> client_receive received message)\<rparr>)
          (receive_json (server_ended (bl_server b)) (bs_server_from_slice bs) (bl_to_client b))
      | ClReply received \<Rightarrow> Some (client_send bs MsgContinue received b)
      | ClEnd _ \<Rightarrow> None)"

section \<open>One run\<close>

definition baseline_start :: "'v baseline" where
  "baseline_start = \<lparr>bl_to_server = [], bl_to_client = [], bl_client = ClStart, bl_server = SvStart\<rparr>"

inductive baseline_step :: "baseline_serde \<Rightarrow> string \<Rightarrow> nat \<Rightarrow> 'v baseline \<Rightarrow> 'v baseline \<Rightarrow> bool"
  for bs :: baseline_serde and prompt :: string and tokens :: nat where
  client_moves: "client_step bs prompt b = Some b' \<Longrightarrow> baseline_step bs prompt tokens b b'"
| server_moves: "server_step bs prompt tokens b = Some b' \<Longrightarrow> baseline_step bs prompt tokens b b'"

inductive baseline_run :: "baseline_serde \<Rightarrow> string \<Rightarrow> nat \<Rightarrow> nat \<Rightarrow> 'v baseline \<Rightarrow> bool"
  for bs :: baseline_serde and prompt :: string and tokens :: nat where
  baseline_starts: "baseline_run bs prompt tokens 0 baseline_start"
| baseline_steps: "baseline_run bs prompt tokens n b \<Longrightarrow> baseline_step bs prompt tokens b b' \<Longrightarrow>
    baseline_run bs prompt tokens (Suc n) b'"

definition baseline_outcome :: "nat \<Rightarrow> 'v baseline \<Rightarrow> ('v benchmark_error + unit) option" where
  \<comment> \<open>the joins, the client's first, and the count; \<open>None\<close> while the threads that matter run\<close>
  "baseline_outcome tokens b =
     (case bl_client b of
        ClEnd client \<Rightarrow>
          (case bl_server b of
             SvEnd server \<Rightarrow> Some (
               and_then client (\<lambda>received.
               and_then server (\<lambda>_.
               guard_err (received \<noteq> tokens) (BenchProtocol (''baseline client received '' @
                 show_nat received @ '' tokens; expected '' @ show_nat tokens)))))
           | _ \<Rightarrow> None)
      | _ \<Rightarrow> None)"

definition baseline_next :: "baseline_serde \<Rightarrow> string \<Rightarrow> nat \<Rightarrow> 'v baseline
    \<Rightarrow> 'v baseline + 'v baseline" where
  \<comment> \<open>one schedule: the client moves whenever it can\<close>
  "baseline_next bs prompt tokens b =
     (case client_step bs prompt b of
        Some b' \<Rightarrow> Inr b'
      | None \<Rightarrow> (case server_step bs prompt tokens b of Some b' \<Rightarrow> Inr b' | None \<Rightarrow> Inl b))"

definition run_baseline_iteration :: "baseline_serde \<Rightarrow> string \<Rightarrow> nat \<Rightarrow> ('v benchmark_error + unit) option" where
  "run_baseline_iteration bs prompt tokens =
     Option.bind (iterate (baseline_next bs prompt tokens) baseline_start) (baseline_outcome tokens)"

section \<open>Lemmas\<close>

definition faithful_baseline :: "baseline_serde \<Rightarrow> bool" where
  \<comment> \<open>what the code relies on in \<open>serde_json\<close>: messages encode, and decode to themselves\<close>
  "faithful_baseline bs \<longleftrightarrow>
     (\<forall>m. \<exists>bytes. bs_client_to_vec bs m = Inr bytes \<and> bs_client_from_slice bs bytes = Inr m) \<and>
     (\<forall>m. \<exists>bytes. bs_server_to_vec bs m = Inr bytes \<and> bs_server_from_slice bs bytes = Inr m)"

definition client_bytes :: "baseline_serde \<Rightarrow> bench_client_message \<Rightarrow> byte list" where
  "client_bytes bs m = (case bs_client_to_vec bs m of Inr bytes \<Rightarrow> bytes | Inl _ \<Rightarrow> [])"

definition server_bytes :: "baseline_serde \<Rightarrow> bench_server_message \<Rightarrow> byte list" where
  "server_bytes bs m = (case bs_server_to_vec bs m of Inr bytes \<Rightarrow> bytes | Inl _ \<Rightarrow> [])"

lemma faithful_codec:
  assumes "faithful_baseline bs"
  shows "bs_client_to_vec bs m = Inr (client_bytes bs m)"
    and "bs_client_from_slice bs (client_bytes bs m) = Inr m"
    and "bs_server_to_vec bs n = Inr (server_bytes bs n)"
    and "bs_server_from_slice bs (server_bytes bs n) = Inr n"
  using assms unfolding faithful_baseline_def client_bytes_def server_bytes_def
  by (metis sum.simps(6))+

text \<open>The configuration after any number of steps: four for each token.\<close>

fun round_config :: "baseline_serde \<Rightarrow> nat \<Rightarrow> nat \<Rightarrow> 'v baseline" where
  \<comment> \<open>within the round of token \<open>k\<close>\<close>
  "round_config bs k 0 =
     \<lparr>bl_to_server = [], bl_to_client = [], bl_client = ClWait k, bl_server = SvLoop k\<rparr>"
| "round_config bs k (Suc 0) =
     \<lparr>bl_to_server = [], bl_to_client = [server_bytes bs (MsgToken (word_of_nat k + 1))],
      bl_client = ClWait k, bl_server = SvAwait k\<rparr>"
| "round_config bs k (Suc (Suc 0)) =
     \<lparr>bl_to_server = [], bl_to_client = [], bl_client = ClReply (k + 1), bl_server = SvAwait k\<rparr>"
| "round_config bs k (Suc (Suc (Suc _))) =
     \<lparr>bl_to_server = [client_bytes bs MsgContinue], bl_to_client = [], bl_client = ClWait (k + 1),
      bl_server = SvAwait k\<rparr>"

definition config_at :: "baseline_serde \<Rightarrow> string \<Rightarrow> nat \<Rightarrow> nat \<Rightarrow> 'v baseline" where
  "config_at bs prompt tokens n =
     (if n = 0 then baseline_start
      else if n = 1 then \<lparr>bl_to_server = [client_bytes bs (MsgPrompt prompt)], bl_to_client = [],
        bl_client = ClWait 0, bl_server = SvStart\<rparr>
      else if n \<le> 4 * tokens + 2 then round_config bs ((n - 2) div 4) ((n - 2) mod 4)
      else if n = 4 * tokens + 3 then \<lparr>bl_to_server = [], bl_to_client = [server_bytes bs MsgDone],
        bl_client = ClWait tokens, bl_server = SvEnd (Inr ())\<rparr>
      else \<lparr>bl_to_server = [], bl_to_client = [], bl_client = ClEnd (Inr tokens), bl_server = SvEnd (Inr ())\<rparr>)"

lemmas baseline_moves =
  client_step_def server_step_def client_send_def client_receive_def server_loop_def server_prompt_def
  send_json_def receive_json_def Let_def

lemma round_moves:
  assumes "faithful_baseline bs" and "k < tokens"
  shows "client_step bs prompt (round_config bs k 0) = None"
    and "server_step bs prompt tokens (round_config bs k 0) = Some (round_config bs k (Suc 0))"
    and "client_step bs prompt (round_config bs k (Suc 0)) = Some (round_config bs k (Suc (Suc 0)))"
    and "server_step bs prompt tokens (round_config bs k (Suc 0)) = None"
    and "client_step bs prompt (round_config bs k (Suc (Suc 0))) = Some (round_config bs k (Suc (Suc (Suc 0))))"
    and "server_step bs prompt tokens (round_config bs k (Suc (Suc 0))) = None"
    and "client_step bs prompt (round_config bs k (Suc (Suc (Suc 0)))) = None"
    and "server_step bs prompt tokens (round_config bs k (Suc (Suc (Suc 0)))) = Some (round_config bs (Suc k) 0)"
  using assms(2) by (simp_all add: numeral_eq_Suc baseline_moves faithful_codec [OF assms(1)])

lemma config_in_round: "k < tokens \<Longrightarrow> r < 4 \<Longrightarrow> config_at bs prompt tokens (4 * k + r + 2) = round_config bs k r"
  by (simp add: config_at_def)

lemma config_last_round: "config_at bs prompt tokens (4 * tokens + 2) = round_config bs tokens 0"
  by (simp add: config_at_def)

lemma config_moves:
  fixes b :: "'v baseline"
  assumes faithful: "faithful_baseline bs" and n: "n < 4 * tokens + 4"
    and b: "b = config_at bs prompt tokens n"
  shows "client_step bs prompt b = Some (config_at bs prompt tokens (Suc n)) \<and>
      server_step bs prompt tokens b = None \<or>
    client_step bs prompt b = None \<and>
      server_step bs prompt tokens b = Some (config_at bs prompt tokens (Suc n))"
proof -
  note codec = faithful_codec [OF faithful]
  consider "n = 0" | "n = 1" | k r where "k < tokens" "r < 4" "n = 4 * k + r + 2"
    | "n = 4 * tokens + 2" | "n = 4 * tokens + 3"
  proof -
    have "\<exists>k r. k < tokens \<and> r < 4 \<and> n = 4 * k + r + 2" if "2 \<le> n" "n < 4 * tokens + 2"
      by (rule exI [of _ "(n - 2) div 4"], rule exI [of _ "(n - 2) mod 4"]) (use that in auto)
    then show ?thesis using that n by fastforce
  qed
  then show ?thesis
  proof cases
    case 1
    then show ?thesis by (simp add: b config_at_def baseline_start_def baseline_moves codec)
  next
    case 2
    then show ?thesis by (simp add: b config_at_def baseline_moves codec)
  next
    case (3 k r)
    have here: "b = round_config bs k r" unfolding b 3(3) by (rule config_in_round [OF 3(1,2)])
    have after: "config_at bs prompt tokens (Suc n) =
        (if r = 3 then round_config bs (Suc k) 0 else round_config bs k (Suc r))"
    proof (cases "r = 3")
      case True
      then have "Suc n = 4 * Suc k + 0 + 2" using 3 by simp
      then show ?thesis
        using True 3 config_in_round [of "Suc k" tokens 0] config_last_round [of bs prompt tokens]
        by (cases "Suc k = tokens") auto
    next
      case False
      then have "Suc r < 4" "Suc n = 4 * k + Suc r + 2" using 3 by simp_all
      then show ?thesis using False 3 config_in_round [of k tokens "Suc r"] by simp
    qed
    from 3(2) consider "r = 0" | "r = 1" | "r = 2" | "r = 3" by linarith
    then show ?thesis
      by cases (simp_all add: here after round_moves [OF faithful 3(1)] numeral_eq_Suc
        del: round_config.simps)
  next
    case 4
    then show ?thesis
      unfolding b 4 config_last_round by (simp add: config_at_def baseline_moves codec)
  next
    case 5
    then show ?thesis unfolding b by (simp add: config_at_def baseline_moves codec)
  qed
qed

lemma config_ends:
  "client_step bs prompt (config_at bs prompt tokens (4 * tokens + 4)) = None"
  "server_step bs prompt tokens (config_at bs prompt tokens (4 * tokens + 4)) = None"
  "baseline_outcome tokens (config_at bs prompt tokens (4 * tokens + 4)) = Some (Inr ())"
  by (simp_all add: config_at_def client_step_def server_step_def baseline_outcome_def)

lemma run_config:
  fixes b :: "'v baseline"
  assumes "baseline_run bs prompt tokens n b" and "faithful_baseline bs"
  shows "n \<le> 4 * tokens + 4 \<and> b = config_at bs prompt tokens n"
  using assms(1)
proof induction
  case baseline_starts
  then show ?case by (simp add: config_at_def)
next
  case (baseline_steps n b b')
  have "n \<noteq> 4 * tokens + 4"
    using baseline_steps.IH baseline_steps.hyps(2) by (auto simp: config_ends elim!: baseline_step.cases)
  then have "n < 4 * tokens + 4" using baseline_steps.IH by simp
  with config_moves [OF assms(2) this, of b prompt] baseline_steps.IH baseline_steps.hyps(2) show ?case
    by (auto elim: baseline_step.cases)
qed

lemma iterate_config:
  assumes "faithful_baseline bs" and "n + m = 4 * tokens + 4"
  shows "iterate (baseline_next bs prompt tokens) (config_at bs prompt tokens n :: 'v baseline) =
    Some (config_at bs prompt tokens (4 * tokens + 4))"
  using assms(2)
proof (induction m arbitrary: n)
  case 0
  then show ?case by (subst iterate.simps) (simp add: baseline_next_def config_ends)
next
  case (Suc m)
  then have "n < 4 * tokens + 4" "Suc n + m = 4 * tokens + 4" by simp_all
  define b :: "'v baseline" where "b = config_at bs prompt tokens n"
  have "baseline_next bs prompt tokens b = Inr (config_at bs prompt tokens (Suc n))"
    using config_moves [OF assms(1) \<open>n < 4 * tokens + 4\<close> b_def] by (auto simp: baseline_next_def)
  with Suc.IH [OF \<open>Suc n + m = 4 * tokens + 4\<close>] show ?case
    unfolding b_def [symmetric] by (subst iterate.simps) simp
qed

lemma baseline_iteration_ok:
  assumes "faithful_baseline bs"
  shows "run_baseline_iteration bs prompt tokens = Some (Inr () :: 'v benchmark_error + unit)"
proof -
  have "config_at bs prompt tokens 0 = (baseline_start :: 'v baseline)" by (simp add: config_at_def)
  with iterate_config [OF assms, of 0 "4 * tokens + 4" tokens prompt]
  have "iterate (baseline_next bs prompt tokens) (baseline_start :: 'v baseline) =
      Some (config_at bs prompt tokens (4 * tokens + 4))"
    by (metis add_0)
  then show ?thesis by (simp only: run_baseline_iteration_def config_ends Option.bind.bind_lunit)
qed

end
