(* ===== verification/Benchmark.thy ===== *)
theory Benchmark
  imports Baseline
begin

text \<open>
  The benchmark of \<open>src/src/benchmark.rs\<close>: what one iteration of each variant does and checks, the
  order in which samples are taken, and the report.  The clock, the threads of the memory
  demonstration and serde are arguments; a value \<open>None\<close> is a panic of the statistics or a
  baseline run that does not return.
\<close>

section \<open>Operations that may not return\<close>

type_synonym ('s, 'v, 'a) bench = "'s \<Rightarrow> (('v benchmark_error + 'a) \<times> 's) option"

definition bench_result :: "'v benchmark_error + 'a \<Rightarrow> ('s, 'v, 'a) bench" where
  "bench_result r s = Some (r, s)"

definition bench_then :: "('s, 'v, 'a) bench \<Rightarrow> ('a \<Rightarrow> ('s, 'v, 'b) bench) \<Rightarrow> ('s, 'v, 'b) bench" where
  "bench_then f g s =
     (case f s of
        None \<Rightarrow> None
      | Some (Inl e, s') \<Rightarrow> Some (Inl e, s')
      | Some (Inr x, s') \<Rightarrow> g x s')"

fun bench_each :: "('s, 'v, unit) bench list \<Rightarrow> ('s, 'v, unit) bench" where
  "bench_each [] = bench_result (Inr ())"
| "bench_each (op # ops) = bench_then op (\<lambda>_. bench_each ops)"

record build_info =
  bi_version :: string
  bi_profile :: string
  bi_os :: string
  bi_arch :: string

record ('s, 'v) bench_env =
  bv_build :: build_info
  bv_now :: "'s \<Rightarrow> nat \<times> 's"  \<comment> \<open>\<open>Instant::now\<close>, in nanoseconds\<close>
  bv_ext :: "'v externals"
  bv_serde :: "'v serde"
  bv_json :: "'v json_ops"
  bv_baseline :: baseline_serde
  bv_memory :: "wire_encoding \<Rightarrow> prepared_plan \<Rightarrow> string \<Rightarrow> nat \<Rightarrow> ('s, 'v runtime_error, 'v demo_summary) action"

section \<open>Time\<close>

definition bench_now :: "('s, 'v) bench_env \<Rightarrow> ('s, 'v, nat) bench" where
  "bench_now env s = (case bv_now env s of (t, s) \<Rightarrow> Some (Inr t, s))"

definition elapsed_ns :: "('s, 'v) bench_env \<Rightarrow> nat \<Rightarrow> ('s, 'v, u64) bench" where
  \<comment> \<open>a monotonic clock: an earlier time counts as none\<close>
  "elapsed_ns env start =
     bench_then (bench_now env) (\<lambda>t. bench_result (Inr (word_of_nat (min (t - start) (2 ^ 64 - 1)))))"

definition measure_ns :: "('s, 'v) bench_env \<Rightarrow> ('s, 'v, unit) bench \<Rightarrow> ('s, 'v, u64) bench" where
  \<comment> \<open>\<open>measure\<close>\<close>
  "measure_ns env operation =
     bench_then (bench_now env) (\<lambda>start.
     bench_then operation (\<lambda>_.
     elapsed_ns env start))"

section \<open>Iterations\<close>

definition run_compile_iteration :: "('s, 'v) bench_env \<Rightarrow> 'v conversation \<Rightarrow> ('s, 'v, unit) bench" where
  "run_compile_iteration env c = bench_result (
     and_then (map_err BenchPlan (compile (bv_ext env) c)) (\<lambda>plan.
     guard_err (length (pl_endpoints plan) \<noteq> 2)
       (BenchProtocol ''compiled plan did not contain two endpoints'')))"

definition completes_workload :: "nat \<Rightarrow> 'v demo_summary \<Rightarrow> bool" where
  "completes_workload tokens r \<longleftrightarrow>
     er_successful (dr_client r) \<and> er_successful (dr_server r) \<and>
     length (er_tokens (dr_client r)) = tokens \<and> length (er_tokens (dr_server r)) = tokens"

definition run_demo_iteration :: "('s, 'v) bench_env \<Rightarrow> wire_encoding \<Rightarrow> string \<Rightarrow> prepared_plan \<Rightarrow> string \<Rightarrow> nat
    \<Rightarrow> ('s, 'v, unit) bench" where
  "run_demo_iteration env wire complaint plan prompt tokens =
     bench_then (\<lambda>s. Some (act_map_err BenchRuntime (bv_memory env wire plan prompt tokens) s)) (\<lambda>r.
     bench_result (guard_err (\<not> completes_workload tokens r) (BenchProtocol complaint)))"

definition run_eve_warm_iteration :: "('s, 'v) bench_env \<Rightarrow> prepared_plan \<Rightarrow> string \<Rightarrow> nat \<Rightarrow> ('s, 'v, unit) bench" where
  "run_eve_warm_iteration env = run_demo_iteration env ReferenceEncoding
     ''Colloq reference iteration did not complete the requested workload''"

definition run_eve_compact_warm_iteration :: "('s, 'v) bench_env \<Rightarrow> prepared_plan \<Rightarrow> string \<Rightarrow> nat
    \<Rightarrow> ('s, 'v, unit) bench" where
  "run_eve_compact_warm_iteration env = run_demo_iteration env CompactEncoding
     ''Colloq compact iteration did not complete the requested workload''"

definition run_eve_cold_iteration :: "('s, 'v) bench_env \<Rightarrow> 'v conversation \<Rightarrow> string \<Rightarrow> nat \<Rightarrow> ('s, 'v, unit) bench" where
  "run_eve_cold_iteration env c prompt tokens =
     bench_then (bench_result (map_err BenchPlan (compile_prepared (bv_ext env) c))) (\<lambda>plan.
     run_eve_warm_iteration env plan prompt tokens)"

definition baseline_iteration :: "('s, 'v) bench_env \<Rightarrow> string \<Rightarrow> nat \<Rightarrow> ('s, 'v, unit) bench" where
  "baseline_iteration env prompt tokens s =
     map_option (\<lambda>r. (r, s)) (run_baseline_iteration (bv_baseline env) prompt tokens)"

section \<open>Measured steps\<close>

definition plan_machine :: "prepared_plan \<Rightarrow> string \<Rightarrow> ('s, 'v, machine) bench" where
  "plan_machine plan role = bench_result (map_err BenchRuntime (from_plan plan role))"

definition measure_session_startup :: "('s, 'v) bench_env \<Rightarrow> prepared_plan \<Rightarrow> ('s, 'v, u64) bench" where
  "measure_session_startup env plan =
     bench_then (bench_now env) (\<lambda>start.
     bench_then (plan_machine plan ''client'') (\<lambda>_.
     bench_then (plan_machine plan ''server'') (\<lambda>_.
     elapsed_ns env start)))"

definition measure_transition :: "('s, 'v) bench_env \<Rightarrow> ('v envelope \<Rightarrow> 'v benchmark_error + 'v envelope)
    \<Rightarrow> prepared_plan \<Rightarrow> string \<Rightarrow> ('s, 'v, u64) bench" where
  \<comment> \<open>\<open>travel\<close> encodes an envelope and decodes it again\<close>
  "measure_transition env travel plan prompt =
     bench_then (plan_machine plan ''client'') (\<lambda>client.
     bench_then (plan_machine plan ''server'') (\<lambda>server.
     bench_then (bench_now env) (\<lambda>start.
     bench_then (bench_result (
       and_then (map_err BenchRuntime (emit_data client (js_text (bv_json env) prompt))) (\<lambda>(envelope, _).
       and_then (travel envelope) (\<lambda>decoded.
       map_err BenchRuntime (accept server decoded))))) (\<lambda>_.
     elapsed_ns env start))))"

definition measure_eve_checked_transition :: "('s, 'v) bench_env \<Rightarrow> prepared_plan \<Rightarrow> string \<Rightarrow> ('s, 'v, u64) bench" where
  "measure_eve_checked_transition env = measure_transition env (\<lambda>envelope.
     and_then (map_err BenchCodec (envelope_to_vec (bv_serde env) envelope)) (\<lambda>encoded.
     map_err BenchCodec (envelope_from_slice (bv_serde env) encoded)))"

definition measure_eve_compact_checked_transition :: "('s, 'v) bench_env \<Rightarrow> prepared_plan \<Rightarrow> string
    \<Rightarrow> ('s, 'v, u64) bench" where
  "measure_eve_compact_checked_transition env plan =
     measure_transition env (\<lambda>envelope. map_err BenchRuntime (compact_round_trip (bv_serde env) plan envelope)) plan"

definition measure_baseline_json_transition :: "('s, 'v) bench_env \<Rightarrow> string \<Rightarrow> ('s, 'v, u64) bench" where
  "measure_baseline_json_transition env prompt =
     bench_then (bench_now env) (\<lambda>start.
     bench_then (bench_result (
       and_then (map_err BenchCodec (bs_client_to_vec (bv_baseline env) (MsgPrompt prompt))) (\<lambda>encoded.
       and_then (map_err BenchCodec (bs_client_from_slice (bv_baseline env) encoded)) (\<lambda>decoded.
       guard_err (decoded \<noteq> MsgPrompt prompt) (BenchProtocol ''baseline transition changed the prompt''))))) (\<lambda>_.
     elapsed_ns env start))"

section \<open>Samples\<close>

text \<open>Samples are kept by variant, in the order in which they were taken.\<close>

definition rotation :: "nat \<Rightarrow> nat \<Rightarrow> nat list" where
  \<comment> \<open>\<open>(index + offset) % width\<close>, offset by offset within each iteration\<close>
  "rotation width iterations =
     concat (map (\<lambda>index. map (\<lambda>offset. (index + offset) mod width) [0..<width]) [0..<iterations])"

fun take_samples :: "(nat \<Rightarrow> ('s, 'v, u64) bench) \<Rightarrow> nat list \<Rightarrow> (nat \<Rightarrow> u64 list)
    \<Rightarrow> ('s, 'v, nat \<Rightarrow> u64 list) bench" where
  "take_samples measured [] samples = bench_result (Inr samples)"
| "take_samples measured (k # ks) samples =
     bench_then (measured k) (\<lambda>sample.
     take_samples measured ks (samples(k := samples k @ [sample])))"

definition full_variant :: "('s, 'v) bench_env \<Rightarrow> 'v conversation \<Rightarrow> prepared_plan \<Rightarrow> string \<Rightarrow> nat \<Rightarrow> nat
    \<Rightarrow> ('s, 'v, unit) bench" where
  "full_variant env c plan prompt tokens k =
     (if k = 0 then run_compile_iteration env c
      else if k = 1 then run_eve_cold_iteration env c prompt tokens
      else if k = 2 then run_eve_warm_iteration env plan prompt tokens
      else if k = 3 then run_eve_compact_warm_iteration env plan prompt tokens
      else baseline_iteration env prompt tokens)"

definition transition_variant :: "('s, 'v) bench_env \<Rightarrow> prepared_plan \<Rightarrow> string \<Rightarrow> nat \<Rightarrow> ('s, 'v, u64) bench" where
  "transition_variant env plan prompt k =
     (if k = 0 then measure_eve_checked_transition env plan prompt
      else if k = 1 then measure_eve_compact_checked_transition env plan prompt
      else if k = 2 then measure_baseline_json_transition env prompt
      else measure_session_startup env plan)"

definition transition_order :: "nat \<Rightarrow> nat list" where
  \<comment> \<open>each iteration starts with the session startup, which is variant 3\<close>
  "transition_order iterations =
     concat (map (\<lambda>index. 3 # map (\<lambda>offset. (index + offset) mod 3) [0..<3]) [0..<iterations])"

definition unmeasured :: "('s, 'v, u64) bench \<Rightarrow> ('s, 'v, unit) bench" where
  "unmeasured m = bench_then m (\<lambda>_. bench_result (Inr ()))"

definition warmup :: "('s, 'v) bench_env \<Rightarrow> 'v conversation \<Rightarrow> prepared_plan \<Rightarrow> string \<Rightarrow> nat
    \<Rightarrow> ('s, 'v, unit) bench list" where
  "warmup env c plan prompt tokens =
     [run_compile_iteration env c, run_eve_cold_iteration env c prompt tokens,
      run_eve_warm_iteration env plan prompt tokens, run_eve_compact_warm_iteration env plan prompt tokens,
      baseline_iteration env prompt tokens, unmeasured (measure_session_startup env plan),
      unmeasured (measure_eve_checked_transition env plan prompt),
      unmeasured (measure_eve_compact_checked_transition env plan prompt),
      unmeasured (measure_baseline_json_transition env prompt)]"

section \<open>The report\<close>

record benchmark_config =
  bg_version :: string
  bg_iterations :: nat
  bg_warmup :: nat
  bg_tokens :: nat
  bg_prompt_bytes :: nat
  bg_profile :: string
  bg_os :: string
  bg_arch :: string

definition BENCHMARK_NAME :: string where
  "BENCHMARK_NAME = ''request-token-done/json-channels/v0''"

definition benchmark_notes :: "string list" where
  "benchmark_notes =
     [''This is a local reference-runtime microbenchmark, not a production performance claim.'',
      ''Every full-workload variant includes thread creation, channels, JSON encoding, and JSON de'' @
      ''coding in every sample.'',
      ''Colloq cold includes validation, identity, projection, session startup, state-machine chec'' @
      ''ks, and full wire envelopes.'',
      ''Colloq warm reuses a verified plan but still includes session startup, state-machine check'' @
      ''s, and full wire envelopes.'',
      ''Colloq compact warm reuses the same verified plan and exchanges transition ID, sequence, a'' @
      ''nd optional payload instead of repeated semantic strings.'',
      ''Checked-transition samples exclude session creation and channels; they include two local m'' @
      ''achine transitions plus reference or compact envelope JSON encoding and decoding.'',
      ''Run the release binary on an otherwise idle machine and compare saved reports, not isolate'' @
      ''d runs.'']"

record 'r benchmark_report =
  bp_benchmark :: string
  bp_config :: benchmark_config
  bp_compile :: benchmark_stats
  bp_session :: benchmark_stats
  bp_transition :: benchmark_stats
  bp_compact_transition :: benchmark_stats
  bp_baseline_transition :: benchmark_stats
  bp_cold :: benchmark_stats
  bp_warm :: benchmark_stats
  bp_compact_warm :: benchmark_stats
  bp_baseline :: benchmark_stats
  bp_cold_ratio :: 'r
  bp_warm_ratio :: 'r
  bp_compact_ratio :: 'r
  bp_warm_speedup :: 'r
  bp_compact_speedup :: 'r
  bp_transition_ratio :: 'r
  bp_compact_transition_ratio :: 'r
  bp_notes :: "string list"

definition median_ratio :: "(u64 \<Rightarrow> u64 \<Rightarrow> 'r) \<Rightarrow> benchmark_stats \<Rightarrow> benchmark_stats \<Rightarrow> 'r" where
  \<comment> \<open>\<open>a.median_ns as f64 / b.median_ns.max(1) as f64\<close>; the quotient is an argument\<close>
  "median_ratio over a b = over (bs_median a) (max (bs_median b) 1)"

definition report_of_samples :: "build_info \<Rightarrow> (u64 \<Rightarrow> u64 \<Rightarrow> 'r) \<Rightarrow> nat \<Rightarrow> nat \<Rightarrow> nat \<Rightarrow> string
    \<Rightarrow> (nat \<Rightarrow> u64 list) \<Rightarrow> (nat \<Rightarrow> u64 list) \<Rightarrow> 'r benchmark_report option" where
  "report_of_samples build over iterations warmup_iterations tokens prompt full steps =
     (case (map benchmark_stats_of [full 0, steps 3, steps 0, steps 1, steps 2, full 1, full 2, full 3, full 4]) of
        [Some compiled, Some session, Some transition, Some compact_transition, Some baseline_transition,
         Some cold, Some warm, Some compact_warm, Some conventional] \<Rightarrow>
          Some \<lparr>bp_benchmark = BENCHMARK_NAME,
            bp_config = \<lparr>bg_version = bi_version build, bg_iterations = iterations,
              bg_warmup = warmup_iterations, bg_tokens = tokens, bg_prompt_bytes = length prompt,
              bg_profile = bi_profile build, bg_os = bi_os build, bg_arch = bi_arch build\<rparr>,
            bp_compile = compiled, bp_session = session,
            bp_transition = transition, bp_compact_transition = compact_transition,
            bp_baseline_transition = baseline_transition, bp_cold = cold, bp_warm = warm,
            bp_compact_warm = compact_warm, bp_baseline = conventional,
            bp_cold_ratio = median_ratio over cold conventional,
            bp_warm_ratio = median_ratio over warm conventional,
            bp_compact_ratio = median_ratio over compact_warm conventional,
            bp_warm_speedup = median_ratio over cold warm,
            bp_compact_speedup = median_ratio over warm compact_warm,
            bp_transition_ratio = median_ratio over transition baseline_transition,
            bp_compact_transition_ratio = median_ratio over compact_transition baseline_transition,
            bp_notes = benchmark_notes\<rparr>
      | _ \<Rightarrow> None)"

definition run_reference_benchmark :: "('s, 'v) bench_env \<Rightarrow> (u64 \<Rightarrow> u64 \<Rightarrow> 'r) \<Rightarrow> 'v conversation \<Rightarrow> string
    \<Rightarrow> nat \<Rightarrow> nat \<Rightarrow> nat \<Rightarrow> ('s, 'v, 'r benchmark_report) bench" where
  "run_reference_benchmark env over c prompt tokens iterations warmup_iterations =
     bench_then (bench_result (guard_err (iterations = 0) BenchInvalidIterations)) (\<lambda>_.
     bench_then (bench_result (map_err BenchPlan (compile_prepared (bv_ext env) c))) (\<lambda>plan.
     bench_then (bench_each (concat (replicate warmup_iterations (warmup env c plan prompt tokens)))) (\<lambda>_.
     bench_then (take_samples (\<lambda>k. measure_ns env (full_variant env c plan prompt tokens k))
       (rotation 5 iterations) (\<lambda>_. [])) (\<lambda>full.
     bench_then (take_samples (transition_variant env plan prompt) (transition_order iterations) (\<lambda>_. [])) (\<lambda>steps s.
     map_option (\<lambda>r. (Inr r, s))
       (report_of_samples (bv_build env) over iterations warmup_iterations tokens prompt full steps))))))"

end
