(* ===== verification/Benchmark_Properties.thy ===== *)
theory Benchmark_Properties
  imports Benchmark Reports_Properties Plain_Serde
begin

text \<open>
  Theorems on the benchmark: the baseline protocol completes under every schedule, and the benchmark
  returns, with as many samples of each variant as it was asked for.
\<close>

section \<open>The baseline protocol\<close>

text \<open>C40: the baseline protocol has one execution, whatever the scheduler does.  With an encoding that
  decodes what it encoded, in every configuration that any interleaving of the two threads reaches
  before step 4n + 4, for n tokens, there is exactly one next configuration, so neither deadlock nor
  race; that step ends both threads, and the run counts as a success with all n tokens received.
  The one schedule the iteration follows therefore stands for all.\<close>

theorem baseline_completes:
  fixes b :: "'v baseline"
  assumes "faithful_baseline bs" and "baseline_run bs prompt tokens n b"
  shows "n \<le> 4 * tokens + 4 \<and>
    (if n = 4 * tokens + 4 then baseline_outcome tokens b = Some (Inr ())
     else (\<exists>!b'. baseline_step bs prompt tokens b b')) \<and>
    run_baseline_iteration bs prompt tokens = Some (Inr () :: 'v benchmark_error + unit)"
proof -
  from run_config [OF assms(2,1)] have n: "n \<le> 4 * tokens + 4" and b: "b = config_at bs prompt tokens n"
    by simp_all
  have "\<exists>!b'. baseline_step bs prompt tokens b b'" if "n \<noteq> 4 * tokens + 4"
  proof -
    from that n have "n < 4 * tokens + 4" by simp
    from config_moves [OF assms(1) this b]
    have "baseline_step bs prompt tokens b b' \<longleftrightarrow> b' = config_at bs prompt tokens (Suc n)" for b'
      by (auto simp: baseline_step.simps)
    then show ?thesis by simp
  qed
  with n b config_ends(3) baseline_iteration_ok [OF assms(1)] show ?thesis by auto
qed

definition plain_baseline :: baseline_serde where
  \<comment> \<open>a tag, and the bytes of a text or the eight bytes of a number\<close>
  "plain_baseline =
     \<lparr>bs_client_to_vec = (\<lambda>m. Inr (case m of MsgPrompt t \<Rightarrow> 0 # text_bytes t | MsgContinue \<Rightarrow> [1])),
      bs_client_from_slice = (\<lambda>bytes. Inr (if take 1 bytes = [0] then MsgPrompt (bytes_text (drop 1 bytes))
        else MsgContinue)),
      bs_server_to_vec = (\<lambda>m. Inr (case m of MsgToken i \<Rightarrow> 0 # be64 i | MsgDone \<Rightarrow> [1])),
      bs_server_from_slice = (\<lambda>bytes. Inr (if take 1 bytes = [0] then MsgToken (of_be64 (drop 1 bytes))
        else MsgDone))\<rparr>"

lemma plain_baseline_faithful: "faithful_baseline plain_baseline"
  using of_be64_be64 [where rest = "[]"]
  by (simp add: faithful_baseline_def plain_baseline_def split: bench_client_message.splits
      bench_server_message.splits)

lemma baseline_completes_witness:
  "baseline_run plain_baseline ''hi'' 2 0 (baseline_start :: nat baseline) \<and>
   (\<exists>!b. baseline_step plain_baseline ''hi'' 2 (baseline_start :: nat baseline) b) \<and>
   run_baseline_iteration plain_baseline ''hi'' 2 = Some (Inr () :: nat benchmark_error + unit)"
  using baseline_completes [where prompt = "''hi''" and tokens = 2 and 'v = nat,
      OF plain_baseline_faithful baseline_starts]
  by (simp add: baseline_starts)

section \<open>The order of the samples\<close>

lemma count_list_distinct: "distinct xs \<Longrightarrow> count_list xs x = (if x \<in> set xs then 1 else 0)"
  by (induction xs) auto

lemma count_list_concat: "count_list (concat xss) x = sum_list (map (\<lambda>xs. count_list xs x) xss)"
  by (induction xss) simp_all

lemma shifted_inj:
  fixes i :: nat
  assumes "(i + a) mod w = (i + b) mod w" and "a < w" and "b < w"
  shows "a = b"
proof -
  have "x = y" if "x \<le> y" "y < w" "(i + x) mod w = (i + y) mod w" for x y
  proof -
    have "w dvd y - x" using that mod_eq_dvd_iff_nat [of "i + x" "i + y" w] by simp
    with that(2) show "x = y" using that(1) by (metis diff_is_0_eq' dvd_imp_le le_antisym less_imp_diff_less not_le zero_less_diff)
  qed
  from this [of a b] this [of b a] assms show ?thesis by (metis linear)
qed

lemma one_rotation: "count_list (map (\<lambda>offset. (i + offset) mod w) [0..<w]) k = (if k < w then 1 else 0)"
proof (cases "w = 0")
  case False
  let ?xs = "map (\<lambda>offset. (i + offset) mod w) [0..<w]"
  have d: "distinct ?xs" by (auto simp: distinct_map intro!: inj_onI dest: shifted_inj)
  have sub: "set ?xs \<subseteq> {..<w}" using False by auto
  have "set ?xs = {..<w}"
    by (rule card_subset_eq [OF _ sub]) (use distinct_card [OF d] in simp_all)
  with d show ?thesis by (simp add: count_list_distinct del: set_map)
qed simp

lemma rotation_balanced: "count_list (rotation w n) k = (if k < w then n else 0)"
  by (simp add: rotation_def count_list_concat comp_def one_rotation sum_list_triv del: upt_Suc)

lemma transition_order_balanced:
  assumes "k < 4"
  shows "count_list (transition_order n) k = n"
proof -
  have "count_list (3 # map (\<lambda>offset. (i + offset) mod 3) [0..<3]) k = 1" for i
    using assms one_rotation [of i 3 k] by (cases "k = 3") (simp_all add: one_rotation del: upt_Suc upt_rec_numeral)
  then show ?thesis
    by (simp add: transition_order_def count_list_concat comp_def sum_list_triv del: count_list.simps)
qed

section \<open>The benchmark returns\<close>

definition returns :: "('s, 'v, 'a) bench \<Rightarrow> bool" where
  "returns f \<longleftrightarrow> (\<forall>s. f s \<noteq> None)"

lemma returnsE:
  assumes "returns f"
  obtains r s' where "f s = Some (r, s')"
  by (metis assms returns_def not_Some_eq surj_pair that)

lemma bench_then_result [simp]:
  "bench_then (bench_result (Inl e)) g s = Some (Inl e, s)"
  "bench_then (bench_result (Inr x)) g s = g x s"
  by (simp_all add: bench_then_def bench_result_def)

named_theorems returning "operations of a benchmark that return"

lemma returns_basic [returning]:
  "returns (bench_result r)" "returns (bench_now env)" "returns (\<lambda>s. Some (g s))"
  by (auto simp: returns_def bench_result_def bench_now_def split: prod.splits)

lemma returns_then [returning]: "returns f \<Longrightarrow> (\<And>x. returns (g x)) \<Longrightarrow> returns (bench_then f g)"
  unfolding returns_def bench_then_def by (auto split: option.splits prod.splits sum.splits)

lemma returns_each: "(\<And>op. op \<in> set ops \<Longrightarrow> returns op) \<Longrightarrow> returns (bench_each ops)"
  by (induction ops) (auto intro: returning)

lemma returns_samples: "(\<And>k. returns (measured k)) \<Longrightarrow> returns (take_samples measured ks samples)"
  by (induction ks arbitrary: samples) (auto intro: returning)

lemma returns_elapsed [returning]: "returns (elapsed_ns env start)"
  unfolding elapsed_ns_def by (intro returning)

lemma returns_measure [returning]: "returns operation \<Longrightarrow> returns (measure_ns env operation)"
  unfolding measure_ns_def by (intro returning)

lemma returns_demo [returning]: "returns (run_demo_iteration env wire complaint plan prompt tokens)"
  unfolding run_demo_iteration_def by (intro returning)

lemma returns_baseline:
  "faithful_baseline (bv_baseline env) \<Longrightarrow> returns (baseline_iteration env prompt tokens)"
  by (simp add: returns_def baseline_iteration_def baseline_iteration_ok)

lemma returns_variant:
  "faithful_baseline (bv_baseline env) \<Longrightarrow> returns (full_variant env c plan prompt tokens k)"
  unfolding full_variant_def run_compile_iteration_def run_eve_cold_iteration_def run_eve_warm_iteration_def
    run_eve_compact_warm_iteration_def by (auto intro: returning returns_baseline)

lemma returns_machine [returning]: "returns (plan_machine plan role)"
  unfolding plan_machine_def by (rule returning)

lemma returns_transition [returning]: "returns (measure_transition env travel plan prompt)"
  unfolding measure_transition_def by (intro returning)

lemma returns_step [returning]:
  "returns (measure_eve_checked_transition env plan prompt)"
  "returns (measure_eve_compact_checked_transition env plan prompt)"
  "returns (measure_baseline_json_transition env prompt)"
  "returns (measure_session_startup env plan)"
  unfolding measure_eve_checked_transition_def measure_eve_compact_checked_transition_def
    measure_baseline_json_transition_def measure_session_startup_def by (intro returning)+

lemma returns_transition_variant [returning]: "returns (transition_variant env plan prompt k)"
  by (simp add: transition_variant_def returning)

lemma returns_warmup:
  assumes "faithful_baseline (bv_baseline env)"
  shows "returns (bench_each (concat (replicate n (warmup env c plan prompt tokens))))"
proof (rule returns_each)
  fix op
  assume "op \<in> set (concat (replicate n (warmup env c plan prompt tokens)))"
  then have "op \<in> set (warmup env c plan prompt tokens)" by auto
  then show "returns op"
    using returns_baseline [OF assms, of prompt tokens]
    by (auto simp: warmup_def unmeasured_def run_compile_iteration_def run_eve_cold_iteration_def
        run_eve_warm_iteration_def run_eve_compact_warm_iteration_def intro: returning)
qed

section \<open>How many samples\<close>

lemma bench_then_Inr:
  "bench_then f g s = Some (Inr y, s'') \<longleftrightarrow> (\<exists>x s'. f s = Some (Inr x, s') \<and> g x s' = Some (Inr y, s''))"
  by (auto simp: bench_then_def split: option.splits prod.splits sum.splits)

lemma take_samples_count:
  "take_samples measured ks samples s = Some (Inr samples', s') \<Longrightarrow>
     length (samples' k) = length (samples k) + count_list ks k"
  by (induction ks arbitrary: samples s) (auto simp: bench_result_def bench_then_Inr split: if_splits)

lemma stats_of_samples: "samples \<noteq> [] \<Longrightarrow> \<exists>st. benchmark_stats_of samples = Some st"
proof -
  assume "samples \<noteq> []"
  then have "sort samples \<noteq> []" by (metis length_0_conv length_sort)
  then show ?thesis by (simp add: benchmark_stats_of_def Let_def)
qed

lemma report_exists:
  assumes "\<And>k. k < 5 \<Longrightarrow> full k \<noteq> []" and "\<And>k. k < 4 \<Longrightarrow> steps k \<noteq> []"
  shows "report_of_samples build over iterations warmup_iterations tokens prompt full steps \<noteq> None"
proof -
  have full: "\<exists>st. benchmark_stats_of (full k) = Some st" if "k < 5" for k
    using assms(1) [OF that] by (rule stats_of_samples)
  have steps: "\<exists>st. benchmark_stats_of (steps k) = Some st" if "k < 4" for k
    using assms(2) [OF that] by (rule stats_of_samples)
  show ?thesis
    using full [of 0] full [of 1] full [of 2] full [of 3] full [of 4] steps [of 0] steps [of 1] steps [of 2]
      steps [of 3]
    by (auto simp: report_of_samples_def)
qed

lemma full_samples:
  "take_samples measured (rotation 5 n) (\<lambda>_. []) s = Some (Inr full, s') \<Longrightarrow> k < 5 \<Longrightarrow> length (full k) = n"
  using take_samples_count [of measured "rotation 5 n" "\<lambda>_. []" s full s' k] by (simp add: rotation_balanced)

lemma step_samples:
  "take_samples measured (transition_order n) (\<lambda>_. []) s = Some (Inr steps, s') \<Longrightarrow> k < 4 \<Longrightarrow> length (steps k) = n"
  using take_samples_count [of measured "transition_order n" "\<lambda>_. []" s steps s' k]
  by (simp add: transition_order_balanced)

lemma full_report:
  assumes "0 < n" and "\<forall>k < 5. length (full k) = n" and "\<forall>k < 4. length (steps k) = n"
  shows "\<exists>r. report_of_samples build over n warmup_iterations tokens prompt full steps = Some r"
proof -
  have "report_of_samples build over n warmup_iterations tokens prompt full steps \<noteq> None"
    by (rule report_exists) (use assms in fastforce)+
  then show ?thesis by simp
qed

text \<open>Each of the three stages after the compilation returns.\<close>

lemma benchmark_stages:
  assumes "faithful_baseline (bv_baseline env)" and plan: "compile_prepared (bv_ext env) c = Inr plan" and n: "0 < n"
  obtains r1 s1 r2 s2 r3 s3 measured where
    "bench_each (concat (replicate w (warmup env c plan prompt tokens))) s = Some (r1, s1)"
    and "take_samples measured (rotation 5 n) (\<lambda>_. []) s1 = Some (r2, s2)"
    and "take_samples (transition_variant env plan prompt) (transition_order n) (\<lambda>_. []) s2 = Some (r3, s3)"
    and "run_reference_benchmark env over c prompt tokens n w s =
      bench_then (\<lambda>_. Some (r1, s1)) (\<lambda>_. bench_then (\<lambda>_. Some (r2, s2)) (\<lambda>full.
        bench_then (\<lambda>_. Some (r3, s3)) (\<lambda>steps s. map_option (\<lambda>r. (Inr r, s))
          (report_of_samples (bv_build env) over n w tokens prompt full steps)))) s"
proof -
  obtain r1 s1 where warm: "bench_each (concat (replicate w (warmup env c plan prompt tokens))) s = Some (r1, s1)"
    by (rule returnsE [OF returns_warmup [OF assms(1)]])
  obtain r2 s2 where full: "take_samples (\<lambda>k. measure_ns env (full_variant env c plan prompt tokens k))
      (rotation 5 n) (\<lambda>_. []) s1 = Some (r2, s2)"
    by (rule returnsE [OF returns_samples [OF returns_measure [OF returns_variant [OF assms(1)]]]])
  obtain r3 s3 where steps: "take_samples (transition_variant env plan prompt) (transition_order n) (\<lambda>_. []) s2 =
      Some (r3, s3)"
    by (rule returnsE [OF returns_samples [OF returns_transition_variant]])
  show thesis
    using n plan warm full steps
    by (intro that [OF warm full steps], cases r1; cases r2)
      (simp_all add: run_reference_benchmark_def bench_then_def [of "bench_each _"]
        bench_then_def [of "take_samples _ _ _"] bench_then_def [of "\<lambda>_. Some _"])
qed

text \<open>The benchmark returns, and measures every variant equally often.  With an encoding for the
  baseline that decodes what it encoded, the benchmark never panics and never hangs; asking for no
  iterations is refused before anything runs, and a report is computed from exactly as many
  samples of each of the nine variants as iterations were asked for, whatever the rotation.\<close>

theorem benchmark_returns:
  assumes "faithful_baseline (bv_baseline env)"
  shows "case run_reference_benchmark env over c prompt tokens iterations warmup_iterations s of
      None \<Rightarrow> False
    | Some (Inl e, s') \<Rightarrow> iterations = 0 \<longrightarrow> e = BenchInvalidIterations \<and> s' = s
    | Some (Inr r, s') \<Rightarrow> 0 < iterations \<and> (\<exists>full steps.
        (\<forall>k < 5. length (full k) = iterations) \<and> (\<forall>k < 4. length (steps k) = iterations) \<and>
        report_of_samples (bv_build env) over iterations warmup_iterations tokens prompt full steps = Some r)"
proof (cases "iterations = 0")
  case True
  then show ?thesis by (simp add: run_reference_benchmark_def)
next
  case False
  then have n: "0 < iterations" by simp
  show ?thesis
  proof (cases "compile_prepared (bv_ext env) c")
    case (Inl e)
    with False show ?thesis by (simp add: run_reference_benchmark_def)
  next
    case (Inr plan)
    show ?thesis
    proof (rule benchmark_stages [OF assms Inr n, of warmup_iterations prompt tokens s over], goal_cases)
      case (1 r1 s1 r2 s2 r3 s3 measured)
      show ?case
      proof (cases "isl r1 \<or> isl r2 \<or> isl r3")
        case True
        with n show ?thesis unfolding 1(4) by (cases r1; cases r2; cases r3) (auto simp: bench_then_def)
      next
        case no_errors: False
        then obtain full steps where r: "r2 = Inr full" "r3 = Inr steps" "\<exists>u. r1 = Inr u"
          by (cases r1; cases r2; cases r3) auto
        have counts: "\<forall>k < 5. length (full k) = iterations" "\<forall>k < 4. length (steps k) = iterations"
          using full_samples [OF 1(2) [unfolded r(1)]] step_samples [OF 1(3) [unfolded r(2)]] by auto
        obtain rep where "report_of_samples (bv_build env) over iterations warmup_iterations tokens prompt full steps = Some rep"
          using full_report [OF n counts] by blast
        with r n counts show ?thesis unfolding 1(4) by (auto simp: bench_then_def)
      qed
    qed
  qed
qed

definition tick_env :: "(nat, string) bench_env" where
  \<comment> \<open>a clock that ticks when it is read, and demonstrations that fail\<close>
  "tick_env = \<lparr>bv_build = \<lparr>bi_version = [], bi_profile = [], bi_os = [], bi_arch = []\<rparr>, bv_now = (\<lambda>t. (t, t + 1)), bv_ext = plain_externals, bv_serde = plain_serde,
     bv_json = plain_json, bv_baseline = plain_baseline,
     bv_memory = (\<lambda>_ _ _ _ t. (Inl RtWorkerPanicked, t + 5))\<rparr>"

lemma benchmark_returns_witness:
  "run_reference_benchmark tick_env (\<lambda>_ _. ()) ping ''hi'' 3 2 1 0 \<noteq> None \<and>
   run_reference_benchmark tick_env (\<lambda>_ _. ()) ping ''hi'' 3 0 1 0 = Some (Inl BenchInvalidIterations, 0)"
proof -
  have "faithful_baseline (bv_baseline tick_env)" by (simp add: tick_env_def plain_baseline_faithful)
  note run = benchmark_returns [OF this, where over = "\<lambda>_ _. ()" and c = ping and prompt = "''hi''"
      and tokens = 3 and warmup_iterations = 1 and s = 0]
  from run [where iterations = 2] run [where iterations = 0] show ?thesis by (auto split: option.splits prod.splits sum.splits)
qed

end
