(* ===== verification/Typing.thy ===== *)
theory Typing
  imports System_Properties
begin

text \<open>
  The types of a conversation as a type system for its frames: which frames a conversation can
  carry, and that no run of a compiled system, faults included, carries any other.
\<close>

inductive frame_typed :: "'v conversation \<Rightarrow> 'v frame \<Rightarrow> bool" for c :: "'v conversation" where
  data_typed: "from \<in> role_ids c \<Longrightarrow> to \<in> role_ids c \<Longrightarrow> from \<noteq> to \<Longrightarrow> message \<in> type_ids c \<Longrightarrow>
    frame_typed c (FData from to message payload)"
| select_typed: "chooser \<in> role_ids c \<Longrightarrow> label \<noteq> [] \<Longrightarrow> frame_typed c (FSelect chooser label)"
| cancel_typed: "from \<in> role_ids c \<Longrightarrow> to \<in> role_ids c \<Longrightarrow> from \<noteq> to \<Longrightarrow> scope \<noteq> [] \<Longrightarrow>
    frame_typed c (FCancel from to scope)"
| fault_typed: "observer \<in> role_ids c \<Longrightarrow> failure \<in> failure_ids c \<Longrightarrow> frame_typed c (FFault observer failure)"

inductive_simps frame_typed_simps [simp]:
  "frame_typed c (FData from to message payload)" "frame_typed c (FSelect chooser label)"
  "frame_typed c (FCancel from to scope)" "frame_typed c (FFault observer failure)"

lemma failure_target_declared:
  assumes "wf_state c s" and "failure_target s failure = Some t"
  shows "failure \<in> failure_ids c"
  using assms by (cases s) (auto simp: wf_failures_def dest: map_of_SomeD)

lemma step_typed:
  assumes "well_formed c" and "conv_step c i f j"
  shows "frame_typed c f"
  using assms(2)
proof cases
  case (step_data sender to message deadline on_failure payload)
  from wf_states [OF assms(1) step_data(2)] step_data(1) show ?thesis by simp
next
  case (step_select chooser branches on_failure label)
  from wf_states [OF assms(1) step_select(2)] step_select(1,3) show ?thesis by (auto dest: map_of_SomeD)
next
  case (step_cancel sender to scope on_failure)
  from wf_states [OF assms(1) step_cancel(2)] step_cancel(1) show ?thesis by simp
next
  case (step_fault s observer failure)
  from failure_target_declared [OF wf_states [OF assms(1) step_fault(2)] step_fault(5)] step_fault(1,4)
  show ?thesis by simp
qed

lemma run_typed: "conv_steps c i fs j \<Longrightarrow> well_formed c \<Longrightarrow> list_all (frame_typed c) fs"
  by (induction rule: conv_steps.induct) (auto intro: step_typed)

text \<open>C3: every frame of a compiled system is well typed.  In every reachable system, faults included,
  the trace of a side holds only data of declared message types between two different declared
  roles, non-empty labels chosen by declared roles, cancellations of named scopes, and faults that
  the conversation declares; and so is whatever its machine can emit next.\<close>

theorem frames_well_typed:
  fixes a b :: "'v side" and c :: "'v conversation"
  assumes plan: "compile_prepared ext c = Inr plan" and pair: "role_pair c p q"
    and reach: "reachable_system plan p q (a, b)"
  shows "list_all (frame_typed c) (sd_trace a) \<and>
    (\<forall>e m. emits (sd_machine a) (e :: 'v envelope) m \<longrightarrow> frame_typed c (env_frame e))"
proof -
  note parts = reachable_parts [OF plan pair reach]
  note distinct = wf_distinct [OF parts(1)]
  have "conv_run c (conv_initial c) (sd_trace a) = Some (m_current (sd_machine a))"
    using parts(2) by (simp add: side_ok_def)
  then have "list_all (frame_typed c) (sd_trace a)"
    using run_typed parts(1) by (auto simp: conv_run_iff [OF distinct])
  moreover have "frame_typed c (env_frame e)" if "emits (sd_machine a) (e :: 'v envelope) m" for e m
    using emits_global(1) [OF parts(4) that] step_typed [OF parts(1)] by (auto simp: conv_next_iff [OF distinct])
  ultimately show ?thesis by blast
qed

lemma frames_well_typed_witness:
  "frame_typed ping (FData ''client'' ''server'' ''msg'' (Some ''hello''))"
proof -
  have "emits (ping_machine ''client'') ping_envelope ((ping_machine ''client'')\<lparr>m_current := ''pick'', m_sequence := 1\<rparr>)"
    using ping_emits by (rule emits_data)
  moreover have "sd_machine (start_side (ping_machine ''client'')) = ping_machine ''client''"
    "env_frame ping_envelope = FData ''client'' ''server'' ''msg'' (Some ''hello'')"
    by (simp_all add: start_side_def ping_envelope_def emit_def)
  ultimately show ?thesis
    using frames_well_typed [OF ping_compiles ping_pair ping_start_reachable] by metis
qed

end
