(* ===== verification/Threads.thy ===== *)
theory Threads
  imports Demos
begin

text \<open>
  Two workers in two threads over the channels in memory, as the demonstrations of
  \<open>src/src/runtime.rs\<close> run them.  A worker is a function over any transport, so what it does next
  is found by running it over a transport that replays the answers it has had so far and stops at
  the first call that has none.  This turns every such function into a sequence of steps, and a
  pair of workers into a step relation that interleaves them freely.
\<close>

section \<open>A transport that replays answers\<close>

datatype 'v call = CallSend "'v envelope" | CallReceive | CallFinish string | CallAbort

datatype 'v answer = AnsDone "'v runtime_error + unit" | AnsEnvelope "'v runtime_error + 'v envelope"

record 'v replay =
  rp_answers :: "'v answer list"
  rp_pending :: "'v call option"

definition stopped :: "'v runtime_error" where
  \<comment> \<open>not a failure of the transport, so that no workload handles it\<close>
  "stopped = RtApplication (AppText ''pending'')"

definition ask :: "'v call \<Rightarrow> ('v answer \<Rightarrow> 'v runtime_error + 'a) \<Rightarrow> ('v replay, 'v runtime_error, 'a) action" where
  "ask call read r =
     (if rp_pending r \<noteq> None then (Inl stopped, r)
      else case rp_answers r of
          [] \<Rightarrow> (Inl stopped, r\<lparr>rp_pending := Some call\<rparr>)
        | a # as \<Rightarrow> (read a, r\<lparr>rp_answers := as\<rparr>))"

fun done_answer :: "'v answer \<Rightarrow> 'v runtime_error + unit" where
  "done_answer (AnsDone r) = r"
| "done_answer (AnsEnvelope _) = Inl stopped"

fun envelope_answer :: "'v answer \<Rightarrow> 'v runtime_error + 'v envelope" where
  "envelope_answer (AnsEnvelope r) = r"
| "envelope_answer (AnsDone _) = Inl stopped"

definition replay_transport :: "string \<Rightarrow> ('v replay, 'v) transport" where
  "replay_transport name =
     \<lparr>tp_plan = (\<lambda>_. name),
      tp_send = (\<lambda>e. ask (CallSend e) done_answer),
      tp_receive = ask CallReceive envelope_answer,
      tp_finish = (\<lambda>role. ask (CallFinish role) done_answer),
      tp_abort = (\<lambda>r. snd (ask CallAbort done_answer r))\<rparr>"

type_synonym ('v, 'r) worker = "'v replay \<Rightarrow> (('v runtime_error + 'r) \<times> 'v replay) option"

datatype ('v, 'r) status = Calls "'v call" | Returns "'v runtime_error + 'r" | Spins

definition status_after :: "('v, 'r) worker \<Rightarrow> 'v answer list \<Rightarrow> ('v, 'r) status" where
  \<comment> \<open>what a worker does after these answers; \<open>Spins\<close> is a loop without a call\<close>
  "status_after w as =
     (case w \<lparr>rp_answers = as, rp_pending = None\<rparr> of
        None \<Rightarrow> Spins
      | Some (r, t) \<Rightarrow> (case rp_pending t of Some call \<Rightarrow> Calls call | None \<Rightarrow> Returns r))"

section \<open>Two threads\<close>

datatype who = TheClient | TheServer

fun other :: "who \<Rightarrow> who" where
  "other TheClient = TheServer"
| "other TheServer = TheClient"

lemma other_other [simp]: "other (other p) = p" "other p \<noteq> p" "p \<noteq> other p"
  by (cases p; simp)+

lemma not_other [simp]: "p' \<noteq> p \<longleftrightarrow> p' = other p"
  by (cases p; cases p') auto

definition end_of :: "who \<Rightarrow> memory_net \<Rightarrow> memory_net" where
  \<comment> \<open>the channels as one of the two ends has them\<close>
  "end_of p net = (case p of TheClient \<Rightarrow> net | TheServer \<Rightarrow> swap_net net)"

definition memory_answer :: "'v serde \<Rightarrow> envelope_codec \<Rightarrow> 'v call \<Rightarrow> memory_net
    \<Rightarrow> ('v answer \<times> memory_net) option" where
  \<comment> \<open>\<open>None\<close> blocks the thread\<close>
  "memory_answer sd codec call net =
     (case call of
        CallSend e \<Rightarrow> Some (apfst AnsDone (memory_send sd codec e net))
      | CallReceive \<Rightarrow> map_option (apfst AnsEnvelope) (memory_receive sd codec net)
      | CallFinish role \<Rightarrow> Some (apfst AnsDone (default_finish role net))
      | CallAbort \<Rightarrow> Some (AnsDone (Inr ()), memory_abort net))"

datatype ('v, 'r) thread = Running "'v answer list" | Ended "'v runtime_error + 'r"

record ('v, 'r) duo =
  du_thread :: "who \<Rightarrow> ('v, 'r) thread"
  du_net :: memory_net

definition thread_step :: "'v serde \<Rightarrow> envelope_codec \<Rightarrow> ('v, 'r) worker \<Rightarrow> ('v, 'r) thread \<Rightarrow> memory_net
    \<Rightarrow> (('v, 'r) thread \<times> memory_net) option" where
  \<comment> \<open>a worker that returns drops its transport, and with it its two ends\<close>
  "thread_step sd codec w thread net =
     (case thread of
        Ended _ \<Rightarrow> None
      | Running as \<Rightarrow>
          (case status_after w as of
             Spins \<Rightarrow> None
           | Returns r \<Rightarrow> Some (Ended r, memory_abort net)
           | Calls call \<Rightarrow>
               map_option (\<lambda>(a, net). (Running (as @ [a]), net)) (memory_answer sd codec call net)))"

definition duo_move :: "'v serde \<Rightarrow> envelope_codec \<Rightarrow> (who \<Rightarrow> ('v, 'r) worker) \<Rightarrow> who \<Rightarrow> ('v, 'r) duo
    \<Rightarrow> ('v, 'r) duo option" where
  "duo_move sd codec w p d =
     map_option (\<lambda>(thread, net). \<lparr>du_thread = (du_thread d)(p := thread), du_net = end_of p net\<rparr>)
       (thread_step sd codec (w p) (du_thread d p) (end_of p (du_net d)))"

inductive duo_step :: "'v serde \<Rightarrow> envelope_codec \<Rightarrow> (who \<Rightarrow> ('v, 'r) worker) \<Rightarrow> ('v, 'r) duo
    \<Rightarrow> ('v, 'r) duo \<Rightarrow> bool" for sd codec w where
  either_moves: "duo_move sd codec w p d = Some d' \<Longrightarrow> duo_step sd codec w d d'"

inductive_cases duo_stepE: "duo_step sd codec w d d'"

definition duo_start :: "('v, 'r) duo" where
  "duo_start = \<lparr>du_thread = (\<lambda>_. Running []), du_net = memory_pair\<rparr>"

inductive duo_run :: "'v serde \<Rightarrow> envelope_codec \<Rightarrow> (who \<Rightarrow> ('v, 'r) worker) \<Rightarrow> nat \<Rightarrow> ('v, 'r) duo \<Rightarrow> bool"
  for sd codec w where
  duo_starts: "duo_run sd codec w 0 duo_start"
| duo_steps: "duo_run sd codec w n d \<Longrightarrow> duo_step sd codec w d d' \<Longrightarrow> duo_run sd codec w (Suc n) d'"

definition duo_next :: "'v serde \<Rightarrow> envelope_codec \<Rightarrow> (who \<Rightarrow> ('v, 'r) worker) \<Rightarrow> ('v, 'r) duo
    \<Rightarrow> ('v, 'r) duo + ('v, 'r) duo" where
  \<comment> \<open>one schedule: the client moves when it can\<close>
  "duo_next sd codec w d =
     (case duo_move sd codec w TheClient d of
        Some d' \<Rightarrow> Inr d'
      | None \<Rightarrow> (case duo_move sd codec w TheServer d of Some d' \<Rightarrow> Inr d' | None \<Rightarrow> Inl d))"

section \<open>The demonstration in memory\<close>

definition generation_workers :: "'v json_ops \<Rightarrow> prepared_plan \<Rightarrow> string \<Rightarrow> nat \<Rightarrow> nat option \<Rightarrow> string
    \<Rightarrow> who \<Rightarrow> ('v, 'v execution_report) worker" where
  "generation_workers js plan prompt token_limit cancel_after name p =
     (case p of
        TheClient \<Rightarrow> run_generate_client_plan (replay_transport name) js plan prompt cancel_after
      | TheServer \<Rightarrow> run_generate_server_plan (replay_transport name) js plan token_limit)"

definition joined :: "'v runtime_error + 'r \<Rightarrow> ('v runtime_error + 'r) option" where
  \<comment> \<open>\<open>join()\<close> of a thread that panicked is an error\<close>
  "joined r = (case r of Inl (RtPanic _) \<Rightarrow> None | _ \<Rightarrow> Some r)"

definition memory_demo_of :: "wire_encoding \<Rightarrow> ('v, 'v execution_report) duo
    \<Rightarrow> ('v runtime_error + 'v demo_summary) option" where
  \<comment> \<open>\<open>None\<close> while a thread is running\<close>
  "memory_demo_of encoding d =
     (case (du_thread d TheClient, du_thread d TheServer) of
        (Ended client, Ended server) \<Rightarrow> Some (memory_plan_demo encoding (joined client) (joined server))
      | _ \<Rightarrow> None)"

definition run_memory_plan_demo :: "'v serde \<Rightarrow> 'v json_ops \<Rightarrow> prepared_plan \<Rightarrow> string \<Rightarrow> nat \<Rightarrow> nat option
    \<Rightarrow> wire_encoding \<Rightarrow> ('v runtime_error + 'v demo_summary) option" where
  "run_memory_plan_demo sd js plan prompt token_limit cancel_after encoding =
     (let codec = codec_for_plan encoding plan in
      Option.bind
        (iterate (duo_next sd codec
          (generation_workers js plan prompt token_limit cancel_after (memory_plan codec))) duo_start)
        (memory_demo_of encoding))"

definition run_memory_demo :: "'v externals \<Rightarrow> 'v serde \<Rightarrow> 'v json_ops \<Rightarrow> 'v conversation \<Rightarrow> string \<Rightarrow> nat
    \<Rightarrow> nat option \<Rightarrow> ('v runtime_error + 'v demo_summary) option" where
  "run_memory_demo ext sd js c prompt token_limit cancel_after =
     (case compile_prepared ext c of
        Inl error \<Rightarrow> Some (Inl (RtPlan error))
      | Inr plan \<Rightarrow> run_memory_plan_demo sd js plan prompt token_limit cancel_after ReferenceEncoding)"

section \<open>What is to happen\<close>

datatype 'v event = Sends who "'v envelope" | Receives who "'v envelope" | Finishes who string

fun actor :: "'v event \<Rightarrow> who" where
  "actor (Sends p e) = p"
| "actor (Receives p e) = p"
| "actor (Finishes p role) = p"

fun call_of :: "'v event \<Rightarrow> 'v call" where
  "call_of (Sends p e) = CallSend e"
| "call_of (Receives p e) = CallReceive"
| "call_of (Finishes p role) = CallFinish role"

fun answer_of :: "'v event \<Rightarrow> 'v answer" where
  "answer_of (Sends p e) = AnsDone (Inr ())"
| "answer_of (Receives p e) = AnsEnvelope (Inr e)"
| "answer_of (Finishes p role) = AnsDone (Inr ())"

text \<open>The events of one end, and whether a worker makes them in this order and then returns.\<close>

abbreviation own :: "who \<Rightarrow> 'v event list \<Rightarrow> 'v event list" where
  "own p \<equiv> filter (\<lambda>h. actor h = p)"

fun follows :: "('v, 'r) worker \<Rightarrow> 'v answer list \<Rightarrow> 'v event list \<Rightarrow> 'v runtime_error + 'r \<Rightarrow> bool" where
  "follows w as [] r \<longleftrightarrow> status_after w as = Returns r"
| "follows w as (h # hs) r \<longleftrightarrow> status_after w as = Calls (call_of h) \<and> follows w (as @ [answer_of h]) hs r"

text \<open>
  A log without faults, from what waits at each end: every receive finds its envelope first in the
  queue, and nothing is left at the end.
\<close>

fun smooth :: "(who \<Rightarrow> 'v envelope list) \<Rightarrow> 'v event list \<Rightarrow> bool" where
  "smooth q [] \<longleftrightarrow> (\<forall>p. q p = [])"
| "smooth q (Sends p e # log) \<longleftrightarrow> smooth (q(other p := q (other p) @ [e])) log"
| "smooth q (Receives p e # log) \<longleftrightarrow> q p \<noteq> [] \<and> hd (q p) = e \<and> smooth (q(p := tl (q p))) log"
| "smooth q (Finishes p role # log) \<longleftrightarrow> smooth q log"

fun advance :: "'v event \<Rightarrow> (who \<Rightarrow> 'v envelope list) \<Rightarrow> who \<Rightarrow> 'v envelope list" where
  "advance (Sends p e) q = q(other p := q (other p) @ [e])"
| "advance (Receives p e) q = q(p := tl (q p))"
| "advance (Finishes p role) q = q"

fun possible :: "'v event \<Rightarrow> (who \<Rightarrow> 'v envelope list) \<Rightarrow> bool" where
  "possible (Receives p e) q \<longleftrightarrow> q p \<noteq> [] \<and> hd (q p) = e"
| "possible _ q \<longleftrightarrow> True"

lemma smooth_Cons: "smooth q (h # log) \<longleftrightarrow> possible h q \<and> smooth (advance h q) log"
  by (cases h) auto

text \<open>An event of one end commutes with the events of the other before it, once it is possible.\<close>

lemma possible_advance:
  assumes "actor h \<noteq> actor g" and "possible g q" and "possible h q"
  shows "possible g (advance h q) \<and> advance g (advance h q) = advance h (advance g q)"
  using assms by (cases h; cases g) (auto simp: fun_upd_twist)

lemma smooth_first:
  assumes "smooth q (log1 @ h # log2)" and "\<forall>g \<in> set log1. actor g \<noteq> actor h"
    and "(\<exists>p e. h = Receives p e) \<longrightarrow> q (actor h) \<noteq> []"
  shows "possible h q \<and> smooth (advance h q) (log1 @ log2)"
  using assms
proof (induction log1 arbitrary: q)
  case Nil
  then show ?case by (simp add: smooth_Cons)
next
  case (Cons g log1)
  from Cons.prems(1) have g: "possible g q" "smooth (advance g q) (log1 @ h # log2)"
    by (simp_all add: smooth_Cons)
  have other: "actor g = other (actor h)" using Cons.prems(2) by (cases "actor g"; cases "actor h") auto
  have "(\<exists>p e. h = Receives p e) \<longrightarrow> advance g q (actor h) \<noteq> []"
    using Cons.prems(3) other by (cases g) auto
  with Cons.IH [OF g(2)] Cons.prems(2)
  have IH: "possible h (advance g q)" "smooth (advance h (advance g q)) (log1 @ log2)" by simp_all
  have h: "possible h q"
    using IH(1) Cons.prems(3) other by (cases h; cases g) (auto simp: hd_append split: if_splits)
  have "possible g (advance h q)" "advance g (advance h q) = advance h (advance g q)"
    using possible_advance [of h g q] g(1) h other by auto
  with h IH(2) show ?case by (simp add: smooth_Cons)
qed

lemma smooth_no_send:
  assumes "smooth q log" and "own (other p) log = []"
  shows "q (other p) = [] \<and> (\<forall>h \<in> set log. \<forall>e. h \<noteq> Sends p e)"
  using assms
proof (induction log arbitrary: q)
  case (Cons h log)
  then have h: "actor h = p" and rest: "own (other p) log = []" by (auto split: if_splits)
  from Cons.prems(1) have "smooth (advance h q) log" by (simp add: smooth_Cons)
  from Cons.IH [OF this rest] h show ?case by (cases h) auto
qed simp

end
