(* ===== verification/Threads_Correct.thy ===== *)
theory Threads_Correct
  imports Threads
begin

text \<open>
  Every schedule of two workers that follow a log without faults ends as the log does.  The
  invariant of a configuration is a log of what is still to happen; a step of either thread removes
  its first event from the log, wherever it stands, because the events of the two ends commute.
\<close>

section \<open>The invariant\<close>

definition carries :: "'v serde \<Rightarrow> envelope_codec \<Rightarrow> byte list \<Rightarrow> 'v envelope \<Rightarrow> bool" where
  "carries sd codec bytes e \<longleftrightarrow>
     codec_encode sd codec e = (Inr bytes :: 'v runtime_error + byte list) \<and>
     codec_decode sd codec bytes = (Inr e :: 'v runtime_error + 'v envelope)"

definition carried :: "'v serde \<Rightarrow> envelope_codec \<Rightarrow> 'v envelope \<Rightarrow> bool" where
  \<comment> \<open>the codec writes the envelope, within its limit, and reads back what it wrote\<close>
  "carried sd codec e \<longleftrightarrow> (\<exists>bytes. carries sd codec bytes e)"

definition alive :: "('v, 'r) duo \<Rightarrow> who \<Rightarrow> bool" where
  "alive d p \<longleftrightarrow> (case du_thread d p of Running _ \<Rightarrow> True | Ended _ \<Rightarrow> False)"

definition inbound :: "('v, 'r) duo \<Rightarrow> who \<Rightarrow> channel" where
  "inbound d p = mn_back (end_of p (du_net d))"

definition expecting :: "'v serde \<Rightarrow> envelope_codec \<Rightarrow> (who \<Rightarrow> ('v, 'r) worker) \<Rightarrow> (who \<Rightarrow> 'v runtime_error + 'r)
    \<Rightarrow> 'v event list \<Rightarrow> ('v, 'r) duo \<Rightarrow> bool" where
  "expecting sd codec w r log d \<longleftrightarrow>
     (\<exists>q. smooth q log \<and> (\<forall>p e. Sends p e \<in> set log \<longrightarrow> carried sd codec e) \<and>
       (\<forall>p. (case du_thread d p of
               Running as \<Rightarrow> follows (w p) as (own p log) (r p)
             | Ended x \<Rightarrow> x = r p \<and> own p log = []) \<and>
          list_all2 (carries sd codec) (ch_queue (inbound d p)) (q p) \<and>
          ch_sender (inbound d p) = alive d (other p) \<and> ch_receiver (inbound d p) = alive d p))"

definition work_left :: "'v event list \<Rightarrow> ('v, 'r) duo \<Rightarrow> nat" where
  "work_left log d = length log + (if alive d TheClient then 1 else 0) + (if alive d TheServer then 1 else 0)"

lemma end_of_end_of [simp]: "end_of p (end_of p net) = net"
  by (cases p) (simp_all add: end_of_def swap_net_def)

lemma end_of_forth: "mn_forth (end_of p net) = mn_back (end_of (other p) net)"
  by (cases p) (simp_all add: end_of_def swap_net_def)

lemma end_of_swap: "mn_back (end_of (other p) (end_of p net)) = mn_forth net"
    "mn_back (end_of p (end_of p net)) = mn_back net"
  by (cases p; simp add: end_of_def swap_net_def)+

lemma all_who: "(\<forall>p'. P p') \<longleftrightarrow> P p \<and> P (other p)"
  by (metis (full_types) other.simps who.exhaust)

text \<open>What a thread's step leaves of a log.\<close>

lemma own_split:
  assumes "own p log = h # hs"
  obtains log1 log2 where "log = log1 @ h # log2" and "\<forall>g \<in> set log1. actor g \<noteq> p"
    and "actor h = p" and "own p log2 = hs"
  using assms by (auto simp: filter_eq_Cons_iff)

lemma own_others: "\<forall>g \<in> set log. actor g \<noteq> p \<Longrightarrow> own p log = []"
  by (auto simp: filter_empty_conv)

lemma event_done:
  assumes inv: "expecting sd codec w r log d" and running: "du_thread d p = Running as"
    and own: "own p log = h # hs"
    and ready: "(\<exists>p' e. h = Receives p' e) \<longrightarrow> ch_queue (inbound d p) \<noteq> []"
  shows "\<exists>d' log'. duo_move sd codec w p d = Some d' \<and> expecting sd codec w r log' d' \<and>
    du_thread d' = (du_thread d)(p := Running (as @ [answer_of h])) \<and>
    own p log' = hs \<and> own (other p) log' = own (other p) log \<and>
    Suc (work_left log' d') = work_left log d"
proof -
  from inv obtain q where smooth: "smooth q log" and sent: "\<forall>p e. Sends p e \<in> set log \<longrightarrow> carried sd codec e"
    and threads: "\<And>p. case du_thread d p of Running as \<Rightarrow> follows (w p) as (own p log) (r p)
        | Ended x \<Rightarrow> x = r p \<and> own p log = []"
    and queue: "\<And>p. list_all2 (carries sd codec) (ch_queue (inbound d p)) (q p)"
    and ends: "\<And>p. ch_sender (inbound d p) = alive d (other p)" "\<And>p. ch_receiver (inbound d p) = alive d p"
    unfolding expecting_def by blast
  obtain log1 log2 where log: "log = log1 @ h # log2" and log1: "\<forall>g \<in> set log1. actor g \<noteq> p"
    and h: "actor h = p" and own2: "own p log2 = hs"
    using own by (rule own_split)
  have "q p \<noteq> []" if "\<exists>p e. h = Receives p e" using ready that queue [of p] by (auto simp: list_all2_Nil)
  with smooth_first [of q log1 h log2] smooth log log1 h
  have first: "possible h q" "smooth (advance h q) (log1 @ log2)" by auto
  from threads [of p] running own
  have calls: "status_after (w p) as = Calls (call_of h)" and rest: "follows (w p) (as @ [answer_of h]) hs (r p)"
    by simp_all
  let ?net = "end_of p (du_net d)"
  have net: "inbound d p = mn_back ?net" "inbound d (other p) = mn_forth ?net"
    by (simp_all add: inbound_def end_of_forth)
  have goal: ?thesis
    if answer: "memory_answer sd codec (call_of h) ?net = Some (answer_of h, net)"
      and inq: "list_all2 (carries sd codec) (ch_queue (mn_back net)) (advance h q p)"
      and outq: "list_all2 (carries sd codec) (ch_queue (mn_forth net)) (advance h q (other p))"
      and kept: "ch_sender (mn_back net) = ch_sender (mn_back ?net)" "ch_receiver (mn_back net) = ch_receiver (mn_back ?net)"
        "ch_sender (mn_forth net) = ch_sender (mn_forth ?net)" "ch_receiver (mn_forth net) = ch_receiver (mn_forth ?net)"
    for net
  proof -
    define d' :: "('a, 'b) duo" where
      "d' = \<lparr>du_thread = (du_thread d)(p := Running (as @ [answer_of h])), du_net = end_of p net\<rparr>"
    have move: "duo_move sd codec w p d = Some d'"
      using answer by (simp add: duo_move_def thread_step_def running calls d'_def)
    have alive: "alive d' = alive d" by (rule ext) (simp add: alive_def d'_def running)
    have inb: "inbound d' p = mn_back net" "inbound d' (other p) = mn_forth net"
      by (simp_all add: inbound_def d'_def end_of_swap)
    have kept_log: "own (other p) (log1 @ log2) = own (other p) log" "own p (log1 @ log2) = own p log2"
      using h own_others [OF log1] by (simp_all add: log)
    then have rest': "case du_thread d' p' of Running as \<Rightarrow> follows (w p') as (own p' (log1 @ log2)) (r p')
        | Ended x \<Rightarrow> x = r p' \<and> own p' (log1 @ log2) = []" for p'
      using rest own2 threads [of "other p"] by (cases "p' = p") (auto simp: d'_def simp del: filter_append split: thread.splits)
    have "expecting sd codec w r (log1 @ log2) d'"
      unfolding expecting_def
    proof (intro exI [of _ "advance h q"] conjI)
      show "smooth (advance h q) (log1 @ log2)" by (rule first(2))
      show "\<forall>p e. Sends p e \<in> set (log1 @ log2) \<longrightarrow> carried sd codec e" using sent by (simp add: log)
      show "\<forall>p'. (case du_thread d' p' of Running as \<Rightarrow> follows (w p') as (own p' (log1 @ log2)) (r p')
             | Ended x \<Rightarrow> x = r p' \<and> own p' (log1 @ log2) = []) \<and>
          list_all2 (carries sd codec) (ch_queue (inbound d' p')) (advance h q p') \<and>
          ch_sender (inbound d' p') = alive d' (other p') \<and> ch_receiver (inbound d' p') = alive d' p'"
        unfolding all_who [where p = p]
        using rest' [of p] rest' [of "other p"] inq outq kept ends [of p] ends [of "other p"] net
        by (simp add: inb alive)
    qed
    moreover have "Suc (work_left (log1 @ log2) d') = work_left log d" by (simp add: work_left_def alive log)
    moreover have "du_thread d' = (du_thread d)(p := Running (as @ [answer_of h]))" by (simp add: d'_def)
    ultimately show ?thesis using move kept_log own2 by blast
  qed
  have queues: "list_all2 (carries sd codec) (ch_queue (mn_back ?net)) (q p)"
    "list_all2 (carries sd codec) (ch_queue (mn_forth ?net)) (q (other p))"
    using queue [of p] queue [of "other p"] net by simp_all
  show ?thesis
  proof (cases h)
    case (Sends p' e)
    with h have e: "h = Sends p e" by simp
    with sent log obtain bytes where bytes: "carries sd codec bytes e" by (auto simp: carried_def)
    have "alive d (other p)"
    proof (rule ccontr)
      assume "\<not> alive d (other p)"
      with threads [of "other p"] have "own (other p) log = []" by (auto simp: alive_def split: thread.splits)
      from smooth_no_send [OF smooth this] log e show False by simp
    qed
    moreover have "alive d p" by (simp add: alive_def running)
    ultimately have "memory_answer sd codec (call_of h) ?net = Some (answer_of h,
        ?net\<lparr>mn_forth := (mn_forth ?net)\<lparr>ch_queue := ch_queue (mn_forth ?net) @ [bytes]\<rparr>\<rparr>)"
      using bytes ends [of "other p"] net
      by (simp add: e memory_answer_def memory_send_def channel_send_def carries_def)
    then show ?thesis
      by (rule goal) (use queues bytes e in \<open>simp_all add: list_all2_appendI\<close>)
  next
    case (Receives p' e)
    with h have e: "h = Receives p e" by simp
    with first(1) obtain es where q: "q p = e # es" by (cases "q p") auto
    with queues(1) obtain bytes rest where bytes: "ch_queue (mn_back ?net) = bytes # rest" "carries sd codec bytes e"
      "list_all2 (carries sd codec) rest es"
      by (auto simp: list_all2_Cons2)
    have "alive d p" by (simp add: alive_def running)
    then have "memory_answer sd codec (call_of h) ?net = Some (answer_of h,
        ?net\<lparr>mn_back := (mn_back ?net)\<lparr>ch_queue := rest\<rparr>\<rparr>)"
      using bytes ends [of p] net
      by (simp add: e memory_answer_def memory_receive_def channel_receive_def carries_def)
    then show ?thesis
      by (rule goal) (use queues bytes e q in simp_all)
  next
    case (Finishes p' role)
    with h have e: "h = Finishes p role" by simp
    have "memory_answer sd codec (call_of h) ?net = Some (answer_of h, ?net)"
      by (simp add: e memory_answer_def default_finish_def)
    then show ?thesis by (rule goal) (use queues e in simp_all)
  qed
qed

lemma thread_ends:
  assumes inv: "expecting sd codec w r log d" and running: "du_thread d p = Running as" and own: "own p log = []"
  shows "\<exists>d'. duo_move sd codec w p d = Some d' \<and> expecting sd codec w r log d' \<and>
    Suc (work_left log d') = work_left log d"
proof -
  from inv obtain q where smooth: "smooth q log" and sent: "\<forall>p e. Sends p e \<in> set log \<longrightarrow> carried sd codec e"
    and threads: "\<And>p. case du_thread d p of Running as \<Rightarrow> follows (w p) as (own p log) (r p)
        | Ended x \<Rightarrow> x = r p \<and> own p log = []"
    and queue: "\<And>p. list_all2 (carries sd codec) (ch_queue (inbound d p)) (q p)"
    and ends: "\<And>p. ch_sender (inbound d p) = alive d (other p)" "\<And>p. ch_receiver (inbound d p) = alive d p"
    unfolding expecting_def by blast
  let ?net = "end_of p (du_net d)"
  define d' :: "('a, 'b) duo" where
    "d' = \<lparr>du_thread = (du_thread d)(p := Ended (r p)), du_net = end_of p (memory_abort ?net)\<rparr>"
  have net: "inbound d p = mn_back ?net" "inbound d (other p) = mn_forth ?net"
    by (simp_all add: inbound_def end_of_forth)
  from threads [of p] running own have "status_after (w p) as = Returns (r p)" by simp
  then have move: "duo_move sd codec w p d = Some d'"
    by (simp add: duo_move_def thread_step_def running d'_def)
  have thread: "du_thread d' p = Ended (r p)" "du_thread d' (other p) = du_thread d (other p)"
    by (simp_all add: d'_def)
  have alive: "alive d' p = False" "alive d' (other p) = alive d (other p)" "alive d p"
    by (simp_all add: alive_def d'_def running)
  have inb: "inbound d' p = (inbound d p)\<lparr>ch_receiver := False\<rparr>"
    "inbound d' (other p) = (inbound d (other p))\<lparr>ch_sender := False\<rparr>"
    unfolding net by (simp_all add: inbound_def d'_def end_of_swap memory_abort_def)
  have "expecting sd codec w r log d'"
    unfolding expecting_def
  proof (intro exI [of _ q] conjI)
    show "\<forall>p'. (case du_thread d' p' of Running as \<Rightarrow> follows (w p') as (own p' log) (r p')
           | Ended x \<Rightarrow> x = r p' \<and> own p' log = []) \<and>
        list_all2 (carries sd codec) (ch_queue (inbound d' p')) (q p') \<and>
        ch_sender (inbound d' p') = alive d' (other p') \<and> ch_receiver (inbound d' p') = alive d' p'"
      unfolding all_who [where p = p]
      using own threads [of "other p"] queue [of p] queue [of "other p"] ends [of p] ends [of "other p"]
      by (simp add: inb alive thread)
  qed (use smooth sent in simp_all)
  moreover have "Suc (work_left log d') = work_left log d"
    using alive by (cases p) (simp_all add: work_left_def)
  ultimately show ?thesis using move by blast
qed

section \<open>Steps and schedules\<close>

lemma receive_ready:
  assumes inv: "expecting sd codec w r log d" and move: "duo_move sd codec w p d = Some d'"
    and running: "du_thread d p = Running as" and own: "own p log = h # hs"
  shows "(\<exists>p' e. h = Receives p' e) \<longrightarrow> ch_queue (inbound d p) \<noteq> []"
proof (intro impI notI, elim exE)
  fix p' e
  assume h: "h = Receives p' e" and empty: "ch_queue (inbound d p) = []"
  from inv obtain q where smooth: "smooth q log"
    and threads: "\<And>p. case du_thread d p of Running as \<Rightarrow> follows (w p) as (own p log) (r p)
        | Ended x \<Rightarrow> x = r p \<and> own p log = []"
    and queue: "\<And>p. list_all2 (carries sd codec) (ch_queue (inbound d p)) (q p)"
    and ends: "\<And>p. ch_sender (inbound d p) = alive d (other p)" "\<And>p. ch_receiver (inbound d p) = alive d p"
    unfolding expecting_def by blast
  from empty queue [of p] have q: "q p = []" by simp
  have alive: "alive d p" by (simp add: alive_def running)
  show False
  proof (cases "alive d (other p)")
    case True
    from threads [of p] running own h have "status_after (w p) as = Calls CallReceive" by simp
    with move running True alive empty ends [of p] show False
      by (simp add: duo_move_def thread_step_def memory_answer_def memory_receive_def channel_receive_def
          inbound_def)
  next
    case False
    with threads [of "other p"] have "own (other p) log = []" by (auto simp: alive_def split: thread.splits)
    with own have "log = h # hs"
      by (metis (mono_tags, lifting) filter_True filter_empty_conv not_other)
    moreover have "actor h = p" using own by (rule own_split)
    ultimately show False using smooth q h by auto
  qed
qed

lemma expecting_moves:
  assumes inv: "expecting sd codec w r log d" and move: "duo_move sd codec w p d = Some d'"
  shows "\<exists>log'. expecting sd codec w r log' d' \<and> Suc (work_left log' d') = work_left log d"
proof -
  from move obtain as where running: "du_thread d p = Running as"
    by (auto simp: duo_move_def thread_step_def split: thread.splits)
  show ?thesis
  proof (cases "own p log")
    case Nil
    from thread_ends [OF inv running this] move show ?thesis by auto
  next
    case (Cons h hs)
    from event_done [OF inv running Cons receive_ready [OF inv move running Cons]] move show ?thesis by auto
  qed
qed

lemma expecting_can_move:
  assumes inv: "expecting sd codec w r log d" and left: "work_left log d \<noteq> 0"
  shows "\<exists>p d'. duo_move sd codec w p d = Some d'"
proof -
  from inv obtain q where smooth: "smooth q log"
    and threads: "\<And>p. case du_thread d p of Running as \<Rightarrow> follows (w p) as (own p log) (r p)
        | Ended x \<Rightarrow> x = r p \<and> own p log = []"
    and queue: "\<And>p. list_all2 (carries sd codec) (ch_queue (inbound d p)) (q p)"
    unfolding expecting_def by blast
  show ?thesis
  proof (cases log)
    case Nil
    with left obtain p where "alive d p" by (auto simp: work_left_def split: if_splits)
    then obtain as where "du_thread d p = Running as" by (auto simp: alive_def split: thread.splits)
    from thread_ends [OF inv this] Nil show ?thesis by auto
  next
    case (Cons h log2)
    let ?p = "actor h"
    have own: "own ?p log = h # own ?p log2" by (simp add: Cons)
    with threads [of ?p] obtain as where running: "du_thread d ?p = Running as"
      by (cases "du_thread d ?p") auto
    have "ch_queue (inbound d ?p) \<noteq> []" if "\<exists>p' e. h = Receives p' e"
      using that smooth Cons queue [of ?p] by auto
    with event_done [OF inv running own] show ?thesis by auto
  qed
qed

lemma expecting_ended:
  assumes "expecting sd codec w r log d" and "work_left log d = 0"
  shows "du_thread d p = Ended (r p)" and "duo_move sd codec w p d = None"
proof -
  have "\<not> alive d p" using assms(2) by (cases p) (auto simp: work_left_def split: if_splits)
  with assms(1) show "du_thread d p = Ended (r p)"
    by (auto simp: expecting_def alive_def split: thread.splits)
  then show "duo_move sd codec w p d = None" by (simp add: duo_move_def thread_step_def)
qed

lemma expecting_start:
  fixes sd :: "'v serde" and w :: "who \<Rightarrow> ('v, 'r) worker"
  assumes "smooth (\<lambda>_. []) log" and "\<forall>p e. Sends p e \<in> set log \<longrightarrow> carried sd codec e"
    and "\<And>p. follows (w p) [] (own p log) (r p)"
  shows "expecting sd codec w r log duo_start"
proof -
  have "inbound (duo_start :: ('v, 'r) duo) p = open_channel" for p
    by (cases p) (simp_all add: inbound_def duo_start_def end_of_def swap_net_def memory_pair_def)
  with assms show ?thesis
    unfolding expecting_def by (intro exI [of _ "\<lambda>_. []"]) (auto simp: duo_start_def open_channel_def alive_def)
qed

lemma work_left_start: "work_left log duo_start = length log + 2"
  by (simp add: work_left_def alive_def duo_start_def)

lemma schedules_follow:
  fixes d :: "('v, 'r) duo"
  assumes "duo_run sd codec w n d" and start: "expecting sd codec w r log duo_start"
  shows "\<exists>log'. expecting sd codec w r log' d \<and> n + work_left log' d = work_left log (duo_start :: ('v, 'r) duo)"
  using assms(1)
proof induction
  case duo_starts
  with start show ?case by auto
next
  case (duo_steps n d d')
  then obtain log1 where one: "expecting sd codec w r log1 d" "n + work_left log1 d = work_left log (duo_start :: ('v, 'r) duo)"
    by blast
  from duo_steps.hyps(2) obtain p where "duo_move sd codec w p d = Some d'" by (rule duo_stepE) blast
  from expecting_moves [OF one(1) this] one(2) show ?case by (metis add_Suc add_Suc_right)
qed

text \<open>
  Every schedule takes as many steps as the log has events, and one more for each end; before that
  it can go on, and then both threads have ended with the results of the log.
\<close>

lemma every_schedule_ends:
  assumes run: "duo_run sd codec w n d" and "smooth (\<lambda>_. []) log"
    and "\<forall>p e. Sends p e \<in> set log \<longrightarrow> carried sd codec e"
    and "\<And>p. follows (w p) [] (own p log) (r p)"
  shows "n \<le> length log + 2"
    and "n = length log + 2 \<Longrightarrow> du_thread d p = Ended (r p)"
    and "n = length log + 2 \<Longrightarrow> \<not> duo_step sd codec w d d'"
    and "n < length log + 2 \<Longrightarrow> \<exists>d'. duo_step sd codec w d d'"
proof -
  have start: "expecting sd codec w r log duo_start"
    by (rule expecting_start) (fact assms(2-4))+
  obtain log' where log': "expecting sd codec w r log' d" and n: "n + work_left log' d = length log + 2"
    using schedules_follow [OF run start] by (auto simp: work_left_start)
  from n show "n \<le> length log + 2" by simp
  show "du_thread d p = Ended (r p)" if "n = length log + 2"
    by (rule expecting_ended [OF log']) (use n that in simp)
  show "\<not> duo_step sd codec w d d'" if "n = length log + 2"
    using expecting_ended(2) [OF log'] n that by (auto elim!: duo_stepE)
  show "\<exists>d'. duo_step sd codec w d d'" if "n < length log + 2"
  proof -
    from n that have "work_left log' d \<noteq> 0" by simp
    from expecting_can_move [OF log' this] show ?thesis by (blast intro: either_moves)
  qed
qed

lemma duo_next_moves:
  "duo_next sd codec w d = Inr d' \<Longrightarrow> \<exists>p. duo_move sd codec w p d = Some d'"
  "duo_next sd codec w d = Inl d' \<Longrightarrow> d' = d \<and> duo_move sd codec w p d = None"
  by (auto simp: duo_next_def split: option.splits) (cases p; simp)

lemma one_schedule_ends:
  assumes "expecting sd codec w r log d"
  shows "\<exists>d'. iterate (duo_next sd codec w) d = Some d' \<and> du_thread d' = (\<lambda>p. Ended (r p))"
  using assms
proof (induction "work_left log d" arbitrary: d log rule: less_induct)
  case less
  show ?case
  proof (cases "duo_next sd codec w d")
    case (Inl d')
    then have d': "d' = d" and none: "duo_move sd codec w p d = None" for p
      using duo_next_moves(2) [OF Inl] by blast+
    with expecting_can_move [OF less.prems] have "work_left log d = 0" by fastforce
    from expecting_ended(1) [OF less.prems this] Inl d' show ?thesis
      by (intro exI [of _ d]) (auto simp: iterate.simps)
  next
    case (Inr d')
    from duo_next_moves(1) [OF Inr] obtain p where "duo_move sd codec w p d = Some d'" by blast
    from expecting_moves [OF less.prems this] obtain log' where log': "expecting sd codec w r log' d'"
      and less': "Suc (work_left log' d') = work_left log d"
      by blast
    from less' have "work_left log' d' < work_left log d" by simp
    from less.hyps [OF this log'] Inr show ?thesis by (simp add: iterate.simps)
  qed
qed

end
