(* ===== verification/Fault_Threads.thy ===== *)
theory Fault_Threads
  imports Threads_Correct
begin

text \<open>
  The demonstration of a fault in \<open>src/src/runtime.rs\<close>: two workers in two threads, each over its
  end of the channels in memory wrapped by the fault injection, with one flag between the two
  wrappers.  An operation of a wrapper takes two steps, the decision to inject, which counts and
  sets the flag, and then either the abort or the operation of the channel, so that the other
  thread may run in between.  A step is given the wrapper of its thread as the other theories have
  it, with the shared channels and the shared flag read into it and written back.
\<close>

section \<open>Threads over wrapped channels\<close>

fun role_name :: "who \<Rightarrow> string" where
  "role_name TheClient = ''client''"
| "role_name TheServer = ''server''"

fun operation_of :: "'v call \<Rightarrow> fault_operation option" where
  "operation_of (CallSend e) = Some FaultSend"
| "operation_of CallReceive = Some FaultReceive"
| "operation_of _ = None"

fun error_answer :: "fault_operation \<Rightarrow> 'v runtime_error \<Rightarrow> 'v answer" where
  "error_answer FaultSend error = AnsDone (Inl error)"
| "error_answer FaultReceive error = AnsEnvelope (Inl error)"

fun peer_answer :: "'t fault_state \<Rightarrow> fault_operation \<Rightarrow> 'v answer \<Rightarrow> 'v answer" where
  "peer_answer f operation (AnsDone r) = AnsDone (map_peer_error f operation r)"
| "peer_answer f operation (AnsEnvelope r) = AnsEnvelope (map_peer_error f operation r)"

datatype ('v, 'r) fault_thread =
    FtRunning "'v answer list"
  | FtInjecting "'v answer list" fault_operation
  | FtCalling "'v answer list" fault_operation "'v call"
  | FtEnded "'v runtime_error + 'r"

definition fault_thread_step :: "'v serde \<Rightarrow> envelope_codec \<Rightarrow> ('v, 'r) worker \<Rightarrow> ('v, 'r) fault_thread
    \<Rightarrow> memory_net fault_state \<Rightarrow> (('v, 'r) fault_thread \<times> memory_net fault_state) option" where
  "fault_thread_step sd codec w thread f =
     (case thread of
        FtEnded _ \<Rightarrow> None
      | FtInjecting as operation \<Rightarrow>
          Some (FtRunning (as @ [error_answer operation (injected_error f operation (fp_failure (fs_plan f)))]),
            f\<lparr>fs_inner := memory_abort (fs_inner f)\<rparr>)
      | FtCalling as operation call \<Rightarrow>
          map_option (\<lambda>(a, net). (FtRunning (as @ [peer_answer f operation a]), f\<lparr>fs_inner := net\<rparr>))
            (memory_answer sd codec call (fs_inner f))
      | FtRunning as \<Rightarrow>
          (case status_after w as of
             Spins \<Rightarrow> None
           | Returns r \<Rightarrow> Some (FtEnded r, f\<lparr>fs_inner := memory_abort (fs_inner f)\<rparr>)
           | Calls call \<Rightarrow>
               (case operation_of call of
                  Some operation \<Rightarrow>
                    (case should_inject operation f of
                       (inject, f) \<Rightarrow> Some (if inject then FtInjecting as operation
                         else FtCalling as operation call, f))
                | None \<Rightarrow> map_option (\<lambda>(a, net). (FtRunning (as @ [a]), f\<lparr>fs_inner := net\<rparr>))
                    (memory_answer sd codec call (fs_inner f)))))"

record ('v, 'r) fault_duo =
  fd_thread :: "who \<Rightarrow> ('v, 'r) fault_thread"
  fd_sends :: "who \<Rightarrow> nat"
  fd_receives :: "who \<Rightarrow> nat"
  fd_fired :: bool
  fd_net :: memory_net

definition wrapper_of :: "fault_plan \<Rightarrow> who \<Rightarrow> ('v, 'r) fault_duo \<Rightarrow> memory_net fault_state" where
  "wrapper_of fault p d =
     \<lparr>fs_inner = end_of p (fd_net d), fs_role = role_name p, fs_plan = fault, fs_sends = fd_sends d p,
      fs_receives = fd_receives d p, fs_fired = fd_fired d\<rparr>"

definition put_wrapper :: "who \<Rightarrow> ('v, 'r) fault_duo \<Rightarrow> ('v, 'r) fault_thread \<Rightarrow> memory_net fault_state
    \<Rightarrow> ('v, 'r) fault_duo" where
  "put_wrapper p d thread f =
     \<lparr>fd_thread = (fd_thread d)(p := thread), fd_sends = (fd_sends d)(p := fs_sends f),
      fd_receives = (fd_receives d)(p := fs_receives f), fd_fired = fs_fired f,
      fd_net = end_of p (fs_inner f)\<rparr>"

definition fault_move :: "'v serde \<Rightarrow> envelope_codec \<Rightarrow> (who \<Rightarrow> ('v, 'r) worker) \<Rightarrow> fault_plan \<Rightarrow> who
    \<Rightarrow> ('v, 'r) fault_duo \<Rightarrow> ('v, 'r) fault_duo option" where
  "fault_move sd codec w fault p d =
     map_option (\<lambda>(thread, f). put_wrapper p d thread f)
       (fault_thread_step sd codec (w p) (fd_thread d p) (wrapper_of fault p d))"

inductive fault_step :: "'v serde \<Rightarrow> envelope_codec \<Rightarrow> (who \<Rightarrow> ('v, 'r) worker) \<Rightarrow> fault_plan
    \<Rightarrow> ('v, 'r) fault_duo \<Rightarrow> ('v, 'r) fault_duo \<Rightarrow> bool" for sd codec w fault where
  either_steps: "fault_move sd codec w fault p d = Some d' \<Longrightarrow> fault_step sd codec w fault d d'"

inductive_cases fault_stepE: "fault_step sd codec w fault d d'"

definition fault_start :: "('v, 'r) fault_duo" where
  "fault_start = \<lparr>fd_thread = (\<lambda>_. FtRunning []), fd_sends = (\<lambda>_. 0), fd_receives = (\<lambda>_. 0),
     fd_fired = False, fd_net = memory_pair\<rparr>"

inductive fault_run :: "'v serde \<Rightarrow> envelope_codec \<Rightarrow> (who \<Rightarrow> ('v, 'r) worker) \<Rightarrow> fault_plan \<Rightarrow> nat
    \<Rightarrow> ('v, 'r) fault_duo \<Rightarrow> bool" for sd codec w fault where
  fault_starts: "fault_run sd codec w fault 0 fault_start"
| fault_steps: "fault_run sd codec w fault n d \<Longrightarrow> fault_step sd codec w fault d d' \<Longrightarrow>
    fault_run sd codec w fault (Suc n) d'"

definition fault_next :: "'v serde \<Rightarrow> envelope_codec \<Rightarrow> (who \<Rightarrow> ('v, 'r) worker) \<Rightarrow> fault_plan
    \<Rightarrow> ('v, 'r) fault_duo \<Rightarrow> ('v, 'r) fault_duo + ('v, 'r) fault_duo" where
  \<comment> \<open>one schedule: the client moves when it can\<close>
  "fault_next sd codec w fault d =
     (case fault_move sd codec w fault TheClient d of
        Some d' \<Rightarrow> Inr d'
      | None \<Rightarrow> (case fault_move sd codec w fault TheServer d of Some d' \<Rightarrow> Inr d' | None \<Rightarrow> Inl d))"

section \<open>The demonstration\<close>

definition memory_fault_demo_of :: "prepared_plan \<Rightarrow> fault_plan \<Rightarrow> ('v, 'v execution_report) fault_duo
    \<Rightarrow> ('v runtime_error + 'v demo_summary) option" where
  \<comment> \<open>what is done once both threads are joined; \<open>None\<close> while one is running\<close>
  "memory_fault_demo_of plan fault d =
     (case (fd_thread d TheClient, fd_thread d TheServer) of
        (FtEnded client, FtEnded server) \<Rightarrow>
          Some (memory_plan_fault_demo plan fault memory_pair memory_pair
            (\<lambda>_ _. (joined client, joined server, fd_fired d)))
      | _ \<Rightarrow> None)"

definition run_memory_plan_fault_demo :: "'v serde \<Rightarrow> 'v json_ops \<Rightarrow> prepared_plan \<Rightarrow> string \<Rightarrow> nat
    \<Rightarrow> nat option \<Rightarrow> fault_plan \<Rightarrow> ('v runtime_error + 'v demo_summary) option" where
  "run_memory_plan_fault_demo sd js plan prompt token_limit cancel_after fault =
     (case and_then (check_fault plan fault) (\<lambda>_. with_fired memory_pair ''client'' fault False) of
        Inl error \<Rightarrow> Some (Inl error)
      | Inr _ \<Rightarrow>
          Option.bind
            (iterate (fault_next sd CodecReference
              (generation_workers js plan prompt token_limit cancel_after (memory_plan CodecReference)) fault)
              fault_start)
            (memory_fault_demo_of plan fault))"

section \<open>The two steps of an operation\<close>

text \<open>Without a step of the other thread in between they are the operation of the wrapper.\<close>

lemma send_in_two_steps:
  assumes "tp_send tp = memory_send sd codec" and "tp_abort tp = memory_abort"
    and "status_after w as = Calls (CallSend e)"
    and "fault_thread_step sd codec w (FtRunning as) f = Some (thread, f1)"
  shows "fault_thread_step sd codec w thread f1 =
    (case tp_send (faulty_transport tp) e f of (r, f') \<Rightarrow> Some (FtRunning (as @ [AnsDone r]), f'))"
  using assms
  by (auto simp: fault_thread_step_def faulty_transport_def faulty_operation_def memory_answer_def
      split: prod.splits if_splits)

lemma receive_in_two_steps:
  assumes "tp_abort tp = memory_abort" and "memory_receive sd codec (fs_inner f) = Some (tp_receive tp (fs_inner f))"
    and "status_after w as = Calls CallReceive"
    and "fault_thread_step sd codec w (FtRunning as) f = Some (thread, f1)"
  shows "fault_thread_step sd codec w thread f1 =
    (case tp_receive (faulty_transport tp) f of (r, f') \<Rightarrow> Some (FtRunning (as @ [AnsEnvelope r]), f'))"
proof -
  have "fs_inner (snd (should_inject FaultReceive f)) = fs_inner f"
    by (simp add: should_inject_def Let_def)
  with assms show ?thesis
    by (auto simp: fault_thread_step_def faulty_transport_def faulty_operation_def memory_answer_def
        split: prod.splits if_splits)
qed

end
