(* ===== verification/Fault_Correct.thy ===== *)
theory Fault_Correct
  imports Fault_Threads
begin

text \<open>
  Every schedule of two workers over wrapped channels ends, when the workers follow a log without
  faults and give up in good order at any failure of the transport.  Until the fault fires the two
  threads are those of theory \<open>Threads_Correct\<close>, with a step more for each operation; once the
  injecting side has aborted, the sides no longer affect each other: it gives up, and its peer goes
  on along the log with what is still queued, to its end or to its first operation on the cut
  channels.
\<close>

section \<open>Giving up\<close>

definition fails_with :: "('v, 'r) worker \<Rightarrow> 'v answer list \<Rightarrow> 'v answer \<Rightarrow> 'v runtime_error + 'r \<Rightarrow> bool" where
  \<comment> \<open>after this answer the worker aborts its transport and returns\<close>
  "fails_with w as a x \<longleftrightarrow>
     status_after w (as @ [a]) = Calls CallAbort \<and> status_after w (as @ [a, AnsDone (Inr ())]) = Returns x"

fun graceful :: "('v, 'r) worker \<Rightarrow> string set \<Rightarrow> (string \<Rightarrow> 'v runtime_error + 'r \<Rightarrow> bool) \<Rightarrow> 'v answer list
    \<Rightarrow> 'v event list \<Rightarrow> bool" where
  \<comment> \<open>at any event, at any of these failures, the worker gives up with an acceptable result\<close>
  "graceful w F Q as [] \<longleftrightarrow> True"
| "graceful w F Q as (h # hs) \<longleftrightarrow>
     (\<forall>operation error failure. operation_of (call_of h) = Some operation \<longrightarrow>
        transport_failure error = Some failure \<longrightarrow> failure \<in> F \<longrightarrow>
        (\<exists>x. fails_with w as (error_answer operation error) x \<and> Q failure x)) \<and>
     graceful w F Q (as @ [answer_of h]) hs"

lemma gracefulD:
  assumes "graceful w F Q as (h # hs)" and "operation_of (call_of h) = Some operation"
    and "transport_failure error = Some failure" and "failure \<in> F"
  shows "\<exists>x. fails_with w as (error_answer operation error) x \<and> Q failure x"
  using assms by auto

definition failing :: "('v, 'r) worker \<Rightarrow> (string \<Rightarrow> 'v runtime_error + 'r \<Rightarrow> bool) \<Rightarrow> string \<Rightarrow> nat
    \<Rightarrow> ('v, 'r) fault_thread \<Rightarrow> bool" where
  \<comment> \<open>with that many steps to go\<close>
  "failing w Q failure k th \<longleftrightarrow>
     (\<exists>as a x. fails_with w as a x \<and> Q failure x \<and>
        (th = FtRunning (as @ [a]) \<and> k = 2 \<or> th = FtRunning (as @ [a, AnsDone (Inr ())]) \<and> k = 1 \<or>
         th = FtEnded x \<and> k = 0))"

lemma failing_step:
  assumes "failing w Q failure k th" and "fault_thread_step sd codec w th f = Some (th', f')"
  shows "failing w Q failure (k - 1) th' \<and> 0 < k \<and> f' = f\<lparr>fs_inner := memory_abort (fs_inner f)\<rparr>"
proof -
  from assms(1) obtain as a x where x: "fails_with w as a x" "Q failure x"
    and th: "th = FtRunning (as @ [a]) \<and> k = 2 \<or> th = FtRunning (as @ [a, AnsDone (Inr ())]) \<and> k = 1 \<or>
      th = FtEnded x \<and> k = 0"
    by (auto simp: failing_def)
  from th show ?thesis
  proof (elim disjE conjE)
    assume "th = FtRunning (as @ [a])" "k = 2"
    with x assms(2) show ?thesis
      by (auto simp: failing_def fails_with_def fault_thread_step_def memory_answer_def)
  next
    assume "th = FtRunning (as @ [a, AnsDone (Inr ())])" "k = 1"
    with x assms(2) show ?thesis
      by (auto simp: failing_def fails_with_def fault_thread_step_def)
  next
    assume "th = FtEnded x" "k = 0"
    with assms(2) show ?thesis by (simp add: fault_thread_step_def)
  qed
qed

lemma failing_moves:
  assumes "failing w Q failure k th" and "0 < k"
  shows "\<exists>th' f'. fault_thread_step sd codec w th f = Some (th', f')"
  using assms by (auto simp: failing_def fails_with_def fault_thread_step_def memory_answer_def)

lemma failing_done: "failing w Q failure 0 th \<Longrightarrow> \<exists>x. th = FtEnded x \<and> Q failure x"
  by (auto simp: failing_def)

section \<open>The peer of the injecting side\<close>

fun received :: "'v event list \<Rightarrow> 'v envelope list" where
  "received [] = []"
| "received (Receives p e # hs) = e # received hs"
| "received (_ # hs) = received hs"

lemma smooth_received: "smooth q log \<Longrightarrow> \<exists>rest. received (own p log) = q p @ rest"
proof (induction log arbitrary: q)
  case (Cons h log)
  then have "\<exists>rest. received (own p log) = advance h q p @ rest" and "possible h q"
    by (simp_all add: smooth_Cons)
  then show ?case by (cases h; cases "q p") (auto split: if_splits)
qed simp

fun poised :: "('v, 'r) worker \<Rightarrow> string set \<Rightarrow> (string \<Rightarrow> 'v runtime_error + 'r \<Rightarrow> bool) \<Rightarrow> 'v event list
    \<Rightarrow> nat \<Rightarrow> ('v, 'r) fault_thread \<Rightarrow> bool" where
  \<comment> \<open>with these events to go, and at most that many steps\<close>
  "poised w F Q hs k (FtRunning as) \<longleftrightarrow> graceful w F Q as hs \<and> k = 2 * length hs + 3"
| "poised w F Q hs k (FtInjecting as operation) \<longleftrightarrow> graceful w F Q as hs \<and> k = 2 * length hs + 2 \<and>
     (\<exists>call. status_after w as = Calls call \<and> operation_of call = Some operation)"
| "poised w F Q hs k (FtCalling as operation call) \<longleftrightarrow> graceful w F Q as hs \<and> k = 2 * length hs + 2 \<and>
     status_after w as = Calls call \<and> operation_of call = Some operation"
| "poised w F Q hs k (FtEnded x) \<longleftrightarrow> k = 0"

fun bare :: "('v, 'r) fault_thread \<Rightarrow> ('v, 'r) thread" where
  "bare (FtRunning as) = Running as"
| "bare (FtInjecting as operation) = Running as"
| "bare (FtCalling as operation call) = Running as"
| "bare (FtEnded x) = Ended x"

definition following :: "'v serde \<Rightarrow> envelope_codec \<Rightarrow> ('v, 'r) worker \<Rightarrow> string set
    \<Rightarrow> (string \<Rightarrow> 'v runtime_error + 'r \<Rightarrow> bool) \<Rightarrow> 'v runtime_error + 'r \<Rightarrow> nat \<Rightarrow> ('v, 'r) fault_thread
    \<Rightarrow> channel \<Rightarrow> bool" where
  \<comment> \<open>along the log, with what is queued being the next it expects\<close>
  "following sd codec w F Q r k th inbox \<longleftrightarrow>
     (\<exists>hs as q rest. bare th = Running as \<and> (\<forall>as op. th \<noteq> FtInjecting as op) \<and> follows w as hs r \<and>
        poised w F Q hs k th \<and> (\<forall>p e. Sends p e \<in> set hs \<longrightarrow> carried sd codec e) \<and>
        list_all2 (carries sd codec) (ch_queue inbox) q \<and> received hs = q @ rest \<and> ch_receiver inbox)"

definition peer_state :: "'v serde \<Rightarrow> envelope_codec \<Rightarrow> ('v, 'r) worker \<Rightarrow> string set
    \<Rightarrow> (string \<Rightarrow> 'v runtime_error + 'r \<Rightarrow> bool) \<Rightarrow> string \<Rightarrow> 'v runtime_error + 'r \<Rightarrow> nat
    \<Rightarrow> ('v, 'r) fault_thread \<Rightarrow> channel \<Rightarrow> bool" where
  "peer_state sd codec w F Q failure r k th inbox \<longleftrightarrow>
     following sd codec w F Q r k th inbox \<or> th = FtEnded r \<and> k = 0 \<or> failing w Q failure k th"

definition peer_failure_of :: "fault_plan \<Rightarrow> string" where
  "peer_failure_of fault = (case fp_peer_failure fault of Some failure \<Rightarrow> failure | None \<Rightarrow> ''transport.closed'')"

text \<open>On a cut channel the peer meets the failure that the plan has for it.\<close>

lemma peer_error:
  assumes "fs_fired f" and "fs_role f \<noteq> fp_role (fs_plan f)"
  shows "\<exists>error. peer_answer f operation (AnsDone (Inl (RtTransportClosed ''memory''))) = AnsDone (Inl error) \<and>
      peer_answer f operation (AnsEnvelope (Inl (RtTransportClosed ''memory''))) = AnsEnvelope (Inl error) \<and>
      transport_failure error = Some (peer_failure_of (fs_plan f))"
  using assms by (simp add: map_peer_error_def peer_failure_of_def injected_error_def split: option.splits)

lemma map_peer_ok [simp]: "map_peer_error f operation (Inr x) = Inr x"
  by (simp add: map_peer_error_def)

text \<open>The answer to an operation of the peer: the one of the log, or a failure.\<close>

lemma peer_calls:
  assumes cut: "\<not> ch_sender (mn_back net)" "\<not> ch_receiver (mn_forth net)" and open_end: "ch_receiver (mn_back net)"
    and queue: "list_all2 (carries sd codec) (ch_queue (mn_back net)) q" "received (h # hs) = q @ rest"
    and carried: "\<forall>p e. Sends p e \<in> set (h # hs) \<longrightarrow> carried sd codec e"
    and operation: "operation_of (call_of h) = Some operation"
  shows "(\<exists>net' q'. memory_answer sd codec (call_of h) net = Some (answer_of h, net') \<and>
      list_all2 (carries sd codec) (ch_queue (mn_back net')) q' \<and> received hs = q' @ rest \<and>
      ch_receiver (mn_back net') \<and> ch_sender (mn_back net') = ch_sender (mn_back net) \<and> mn_forth net' = mn_forth net) \<or>
    memory_answer sd codec (call_of h) net = Some (error_answer operation (RtTransportClosed ''memory''), net)"
proof (cases h)
  case (Sends p e)
  with carried obtain bytes where "codec_encode sd codec e = (Inr bytes :: 'a runtime_error + byte list)"
    by (auto simp: carried_def carries_def)
  with Sends cut(2) operation show ?thesis
    by (auto simp: memory_answer_def memory_send_def channel_send_def)
next
  case (Receives p e)
  show ?thesis
  proof (cases "ch_queue (mn_back net)")
    case Nil
    with Receives cut(1) open_end operation show ?thesis
      by (auto simp: memory_answer_def memory_receive_def channel_receive_def)
  next
    case (Cons bytes left)
    with queue Receives obtain q' where q: "q = e # q'" and "carries sd codec bytes e"
      and left: "list_all2 (carries sd codec) left q'"
      by (auto simp: list_all2_Cons1)
    with Cons Receives open_end have "memory_answer sd codec (call_of h) net =
        Some (answer_of h, net\<lparr>mn_back := (mn_back net)\<lparr>ch_queue := left\<rparr>\<rparr>)"
      by (simp add: memory_answer_def memory_receive_def channel_receive_def carries_def)
    moreover have "received hs = q' @ rest" using queue(2) q Receives by simp
    ultimately show ?thesis
      using left open_end
      by (intro disjI1 exI [of _ "net\<lparr>mn_back := (mn_back net)\<lparr>ch_queue := left\<rparr>\<rparr>"] exI [of _ q']) simp
  qed
next
  case (Finishes p role)
  with operation show ?thesis by simp
qed

lemma should_inject_other:
  assumes "fs_role f \<noteq> fp_role (fs_plan f)"
  shows "should_inject operation f = (False, count_operation operation f)"
  using assms by (simp add: should_inject_def Let_def)

lemma count_operation_inner [simp]: "fs_inner (count_operation operation f) = fs_inner f"
  by (cases operation) simp_all

abbreviation cut_off :: "memory_net \<Rightarrow> bool" where
  \<comment> \<open>the other end has aborted\<close>
  "cut_off net \<equiv> \<not> ch_sender (mn_back net) \<and> \<not> ch_receiver (mn_forth net)"

lemma following_step:
  fixes sd :: "'v serde" and w :: "('v, 'r) worker"
  assumes following: "following sd codec w F Q r k th (mn_back (fs_inner f))"
    and cut: "cut_off (fs_inner f)" and f: "fs_fired f" "fs_role f \<noteq> fp_role (fs_plan f)"
    and known: "peer_failure_of (fs_plan f) \<in> F"
  shows "\<exists>th' f' k'. fault_thread_step sd codec w th f = Some (th', f') \<and> k' < k \<and>
    peer_state sd codec w F Q (peer_failure_of (fs_plan f)) r k' th' (mn_back (fs_inner f')) \<and>
    cut_off (fs_inner f') \<and> fs_fired f'"
proof -
  from following obtain hs as q rest where th: "bare th = Running as" "\<forall>as op. th \<noteq> FtInjecting as op"
    and hs: "follows w as hs r" "poised w F Q hs k th" "\<forall>p e. Sends p e \<in> set hs \<longrightarrow> carried sd codec e"
    and queue: "list_all2 (carries sd codec) (ch_queue (mn_back (fs_inner f))) q" "received hs = q @ rest"
    and open_end: "ch_receiver (mn_back (fs_inner f))"
    unfolding following_def by blast
  have goes_on: "following sd codec w F Q r (2 * length hs' + 3) (FtRunning (as @ [answer_of h])) (mn_back net)"
    if "hs = h # hs'" "list_all2 (carries sd codec) (ch_queue (mn_back net)) q'" "received hs' = q' @ rest'"
      "ch_receiver (mn_back net)" "graceful w F Q as hs"
    for h hs' q' net rest'
    using that hs(1,3) unfolding following_def by (intro exI [of _ hs'] exI [of _ q'] exI) auto
  show ?thesis
  proof (cases th)
    case (FtRunning as')
    with th have th': "th = FtRunning as" by simp
    show ?thesis
    proof (cases hs)
      case Nil
      with hs th' have "fault_thread_step sd codec w th f = Some (FtEnded r, f\<lparr>fs_inner := memory_abort (fs_inner f)\<rparr>)"
        "0 < k"
        by (simp_all add: fault_thread_step_def)
      with cut f(1) show ?thesis by (fastforce simp: peer_state_def memory_abort_def)
    next
      case (Cons h hs')
      with hs(1) have status: "status_after w as = Calls (call_of h)" by simp
      from hs(2) th' Cons have k: "k = 2 * length hs' + 5" and graceful: "graceful w F Q as hs" by simp_all
      show ?thesis
      proof (cases "operation_of (call_of h)")
        case None
        then obtain p role where h: "h = Finishes p role" by (cases h) auto
        with queue(2) Cons have "received hs' = q @ rest" by simp
        from goes_on [OF Cons queue(1) this open_end graceful]
        have "peer_state sd codec w F Q (peer_failure_of (fs_plan f)) r (2 * length hs' + 3)
            (FtRunning (as @ [answer_of h])) (mn_back (fs_inner f))"
          by (simp add: peer_state_def)
        with h status cut f(1) k th' show ?thesis
          by (intro exI [of _ "FtRunning (as @ [answer_of h])"] exI [of _ f] exI [of _ "2 * length hs' + 3"])
            (simp add: fault_thread_step_def memory_answer_def default_finish_def)
      next
        case (Some operation)
        let ?th = "FtCalling as operation (call_of h)"
        have "following sd codec w F Q r (2 * length hs + 2) ?th (mn_back (fs_inner f))"
          unfolding following_def
          by (intro exI [of _ hs] exI [of _ as] exI [of _ q] exI [of _ rest])
            (use hs queue open_end status Some graceful in auto)
        with status Some cut f k th' Cons show ?thesis
          by (intro exI [of _ ?th] exI [of _ "count_operation operation f"] exI [of _ "2 * length hs + 2"])
            (simp add: fault_thread_step_def should_inject_other peer_state_def)
      qed
    qed
  next
    case (FtCalling as' operation call)
    with th have th': "th = FtCalling as operation call" by simp
    from hs(2) th' have status: "status_after w as = Calls call" and operation: "operation_of call = Some operation"
      and k: "k = 2 * length hs + 2" and graceful: "graceful w F Q as hs"
      by simp_all
    with hs(1) obtain h hs' where hs': "hs = h # hs'" and call: "call = call_of h" by (cases hs) auto
    note calls = peer_calls [OF _ _ open_end queue(1) _ hs(3) [unfolded hs'] operation [unfolded call],
      of rest, folded hs']
    obtain error :: "'v runtime_error" where error: "peer_answer f operation (error_answer operation (RtTransportClosed ''memory'')) =
        error_answer operation error" "transport_failure error = Some (peer_failure_of (fs_plan f))"
      using peer_error [OF f, of operation] by (cases operation) auto
    from calls cut queue(2) consider
        (next_event) net' q' where "memory_answer sd codec (call_of h) (fs_inner f) = Some (answer_of h, net')"
          "list_all2 (carries sd codec) (ch_queue (mn_back net')) q'" "received hs' = q' @ rest"
          "ch_receiver (mn_back net')" "ch_sender (mn_back net') = ch_sender (mn_back (fs_inner f))"
          "mn_forth net' = mn_forth (fs_inner f)"
      | (cut_short) "memory_answer sd codec (call_of h) (fs_inner f) =
          Some (error_answer operation (RtTransportClosed ''memory''), fs_inner f)"
      by blast
    then show ?thesis
    proof cases
      case next_event
      have "peer_answer f operation (answer_of h) = answer_of h" by (cases h) simp_all
      with next_event(1) th' call have "fault_thread_step sd codec w th f =
          Some (FtRunning (as @ [answer_of h]), f\<lparr>fs_inner := net'\<rparr>)"
        by (simp add: fault_thread_step_def)
      moreover have "following sd codec w F Q r (2 * length hs' + 3) (FtRunning (as @ [answer_of h])) (mn_back net')"
        by (rule goes_on) (fact hs' next_event graceful)+
      ultimately show ?thesis
        using next_event(5,6) cut f(1) k hs'
        by (intro exI [of _ "FtRunning (as @ [answer_of h])"] exI [of _ "f\<lparr>fs_inner := net'\<rparr>"]
            exI [of _ "2 * length hs' + 3"]) (simp add: peer_state_def)
    next
      case cut_short
      from gracefulD [OF graceful [unfolded hs'] operation [unfolded call] error(2) known] obtain x where
        "fails_with w as (error_answer operation error) x" "Q (peer_failure_of (fs_plan f)) x"
        by blast
      then have "failing w Q (peer_failure_of (fs_plan f)) 2 (FtRunning (as @ [error_answer operation error]))"
        unfolding failing_def by blast
      moreover from cut_short th' call error(1) have "fault_thread_step sd codec w th f =
          Some (FtRunning (as @ [error_answer operation error]), f\<lparr>fs_inner := fs_inner f\<rparr>)"
        by (simp add: fault_thread_step_def)
      moreover have "2 < k" using k hs' by simp
      ultimately show ?thesis
        using cut f(1)
        by (intro exI [of _ "FtRunning (as @ [error_answer operation error])"] exI [of _ "f\<lparr>fs_inner := fs_inner f\<rparr>"]
            exI [of _ 2]) (simp add: peer_state_def)
    qed
  qed (use th in simp_all)
qed

section \<open>The invariant of a configuration\<close>

definition bare_duo :: "('v, 'r) fault_duo \<Rightarrow> ('v, 'r) duo" where
  \<comment> \<open>the threads without the wrappers\<close>
  "bare_duo d = \<lparr>du_thread = (\<lambda>p. bare (fd_thread d p)), du_net = fd_net d\<rparr>"

lemma bare_put: "bare_duo (put_wrapper p d th f) =
    \<lparr>du_thread = (du_thread (bare_duo d))(p := bare th), du_net = end_of p (fs_inner f)\<rparr>"
  by (auto simp: bare_duo_def put_wrapper_def)

lemma bare_simps [simp]:
  "du_thread (bare_duo d) p = bare (fd_thread d p)" "du_net (bare_duo d) = fd_net d"
  by (simp_all add: bare_duo_def)

lemma put_simps [simp]:
  "fd_thread (put_wrapper p d th f) = (fd_thread d)(p := th)"
  "fd_fired (put_wrapper p d th f) = fs_fired f" "fd_net (put_wrapper p d th f) = end_of p (fs_inner f)"
  by (simp_all add: put_wrapper_def)

lemma wrapper_simps [simp]:
  "fs_inner (wrapper_of fault p d) = end_of p (fd_net d)" "fs_fired (wrapper_of fault p d) = fd_fired d"
  "fs_role (wrapper_of fault p d) = role_name p" "fs_plan (wrapper_of fault p d) = fault"
  by (simp_all add: wrapper_of_def)

definition counted :: "fault_operation \<Rightarrow> who \<Rightarrow> ('v, 'r) fault_duo \<Rightarrow> nat" where
  "counted operation p d = (case operation of FaultSend \<Rightarrow> fd_sends d p | FaultReceive \<Rightarrow> fd_receives d p)"

lemma fault_count_wrapper [simp]: "fault_count operation (wrapper_of fault p d) = counted operation p d"
  by (cases operation) (simp_all add: wrapper_of_def counted_def)

lemma counted_put [simp]: "counted operation p' (put_wrapper p d th f) =
    (if p' = p then fault_count operation f else counted operation p' d)"
  by (cases operation) (simp_all add: put_wrapper_def counted_def)

lemma fault_count_inner [simp]: "fault_count operation (f\<lparr>fs_inner := net\<rparr>) = fault_count operation f"
  by (cases operation) simp_all

lemma role_name_eq [simp]: "role_name p = role_name p' \<longleftrightarrow> p = p'"
  by (cases p; cases p') simp_all

definition uses :: "fault_operation \<Rightarrow> 'v event list \<Rightarrow> nat" where
  "uses operation hs = length (filter (\<lambda>h. operation_of (call_of h) = Some operation) hs)"

lemma uses_Cons: "uses operation (h # hs) =
    (if operation_of (call_of h) = Some operation then 1 else 0) + uses operation hs"
  by (simp add: uses_def)

fun pending :: "fault_operation \<Rightarrow> ('v, 'r) fault_thread \<Rightarrow> nat" where
  "pending operation (FtInjecting as operation') = (if operation = operation' then 1 else 0)"
| "pending operation (FtCalling as operation' call) = (if operation = operation' then 1 else 0)"
| "pending operation _ = 0"

text \<open>Before the fault: \<open>p0\<close> is the side of the plan and \<open>whole\<close> the operations of the planned kind in its log.\<close>

definition unharmed :: "'v serde \<Rightarrow> envelope_codec \<Rightarrow> (who \<Rightarrow> ('v, 'r) worker) \<Rightarrow> string set
    \<Rightarrow> (who \<Rightarrow> string \<Rightarrow> 'v runtime_error + 'r \<Rightarrow> bool) \<Rightarrow> (who \<Rightarrow> 'v runtime_error + 'r) \<Rightarrow> fault_plan \<Rightarrow> who
    \<Rightarrow> nat \<Rightarrow> 'v event list \<Rightarrow> (who \<Rightarrow> nat) \<Rightarrow> ('v, 'r) fault_duo \<Rightarrow> bool" where
  "unharmed sd codec w F Q r fault p0 whole log k d \<longleftrightarrow>
     expecting sd codec w r log (bare_duo d) \<and>
     (\<forall>p. poised (w p) F (Q p) (own p log) (k p) (fd_thread d p)) \<and>
     counted (fp_operation fault) p0 d + uses (fp_operation fault) (own p0 log) =
       whole + pending (fp_operation fault) (fd_thread d p0) \<and>
     (\<forall>p as operation. fd_thread d p = FtInjecting as operation \<longrightarrow>
        p = p0 \<and> operation = fp_operation fault \<and> fd_fired d) \<and>
     (if fd_fired d
      then counted (fp_operation fault) p0 d = fp_occurrence fault \<and>
        (\<exists>as. fd_thread d p0 = FtInjecting as (fp_operation fault))
      else counted (fp_operation fault) p0 d < fp_occurrence fault)"

definition broken :: "'v serde \<Rightarrow> envelope_codec \<Rightarrow> (who \<Rightarrow> ('v, 'r) worker) \<Rightarrow> string set
    \<Rightarrow> (who \<Rightarrow> string \<Rightarrow> 'v runtime_error + 'r \<Rightarrow> bool) \<Rightarrow> (who \<Rightarrow> 'v runtime_error + 'r) \<Rightarrow> fault_plan \<Rightarrow> who
    \<Rightarrow> nat \<Rightarrow> (who \<Rightarrow> nat) \<Rightarrow> ('v, 'r) fault_duo \<Rightarrow> bool" where
  "broken sd codec w F Q r fault p0 whole k d \<longleftrightarrow>
     fd_fired d \<and> fp_occurrence fault \<le> whole \<and>
     failing (w p0) (Q p0) (fp_failure fault) (k p0) (fd_thread d p0) \<and>
     peer_state sd codec (w (other p0)) F (Q (other p0)) (peer_failure_of fault) (r (other p0)) (k (other p0))
       (fd_thread d (other p0)) (mn_back (end_of (other p0) (fd_net d))) \<and>
     cut_off (end_of (other p0) (fd_net d))"

text \<open>A step before the fault that another log still explains.\<close>

lemma unharmed_update:
  assumes inv: "unharmed sd codec w F Q r fault p0 whole log k d"
    and log: "expecting sd codec w r log' (bare_duo (put_wrapper p d th f))" "own (other p) log' = own (other p) log"
    and thread: "poised (w p) F (Q p) (own p log') k' th"
    and count: "p = p0 \<Longrightarrow> fault_count (fp_operation fault) f + uses (fp_operation fault) (own p log') =
      whole + pending (fp_operation fault) th"
    and injecting: "\<And>as operation. th = FtInjecting as operation \<Longrightarrow> p = p0 \<and> operation = fp_operation fault \<and> fs_fired f"
    and fired: "p = p0 \<Longrightarrow> if fs_fired f then fault_count (fp_operation fault) f = fp_occurrence fault \<and>
        (\<exists>as. th = FtInjecting as (fp_operation fault))
      else fault_count (fp_operation fault) f < fp_occurrence fault"
    and other: "p \<noteq> p0 \<Longrightarrow> fs_fired f = fd_fired d"
  shows "unharmed sd codec w F Q r fault p0 whole log' (k(p := k')) (put_wrapper p d th f)"
proof -
  from inv have threads: "\<And>p. poised (w p) F (Q p) (own p log) (k p) (fd_thread d p)"
    by (simp add: unharmed_def)
  have "poised (w p') F (Q p') (own p' log') ((k(p := k')) p') (((fd_thread d)(p := th)) p')" for p'
    using thread threads [of "other p"] log(2) by (cases "p' = p") auto
  moreover have "p' = p0 \<and> operation = fp_operation fault \<and> fs_fired f"
    if "((fd_thread d)(p := th)) p' = FtInjecting as operation" for p' as operation
    using that injecting inv other by (cases "p' = p") (auto simp: unharmed_def)
  moreover have "counted (fp_operation fault) p0 (put_wrapper p d th f) + uses (fp_operation fault) (own p0 log') =
      whole + pending (fp_operation fault) (((fd_thread d)(p := th)) p0)"
    using count log(2) inv by (cases "p0 = p") (auto simp: unharmed_def)
  moreover have "if fs_fired f
      then counted (fp_operation fault) p0 (put_wrapper p d th f) = fp_occurrence fault \<and>
        (\<exists>as. ((fd_thread d)(p := th)) p0 = FtInjecting as (fp_operation fault))
      else counted (fp_operation fault) p0 (put_wrapper p d th f) < fp_occurrence fault"
    using fired other inv by (cases "p0 = p") (auto simp: unharmed_def split: if_splits)
  ultimately show ?thesis using log(1) unfolding unharmed_def put_simps by blast
qed

section \<open>Steps before the fault\<close>

definition steps_left :: "(who \<Rightarrow> nat) \<Rightarrow> nat" where
  "steps_left k = k TheClient + k TheServer"

lemma steps_left_less: "k' < k p \<Longrightarrow> steps_left (k(p := k')) < steps_left k"
  by (cases p) (simp_all add: steps_left_def)

lemma moveE:
  assumes "fault_move sd codec w fault p d = Some d'"
  obtains th f where "fault_thread_step sd codec (w p) (fd_thread d p) (wrapper_of fault p d) = Some (th, f)"
    and "d' = put_wrapper p d th f"
  using assms by (auto simp: fault_move_def)

lemma unharmed_thread:
  assumes "unharmed sd codec w F Q r fault p0 whole log k d"
  shows "expecting sd codec w r log (bare_duo d)" and "poised (w p) F (Q p) (own p log) (k p) (fd_thread d p)"
    and "fd_thread d p0 = FtRunning as \<or> fd_thread d p0 = FtCalling as' operation call \<Longrightarrow> \<not> fd_fired d"
    and "\<not> fd_fired d \<Longrightarrow> counted (fp_operation fault) p0 d < fp_occurrence fault"
    and "counted (fp_operation fault) p0 d + uses (fp_operation fault) (own p0 log) =
      whole + pending (fp_operation fault) (fd_thread d p0)"
proof -
  from assms have inv: "expecting sd codec w r log (bare_duo d)" "\<And>p. poised (w p) F (Q p) (own p log) (k p) (fd_thread d p)"
    "if fd_fired d then counted (fp_operation fault) p0 d = fp_occurrence fault \<and>
        (\<exists>as. fd_thread d p0 = FtInjecting as (fp_operation fault))
      else counted (fp_operation fault) p0 d < fp_occurrence fault"
    "counted (fp_operation fault) p0 d + uses (fp_operation fault) (own p0 log) =
      whole + pending (fp_operation fault) (fd_thread d p0)"
    unfolding unharmed_def by blast+
  show "expecting sd codec w r log (bare_duo d)" "poised (w p) F (Q p) (own p log) (k p) (fd_thread d p)"
    "counted (fp_operation fault) p0 d + uses (fp_operation fault) (own p0 log) =
      whole + pending (fp_operation fault) (fd_thread d p0)"
    by (fact inv)+
  show "\<not> fd_fired d" if "fd_thread d p0 = FtRunning as \<or> fd_thread d p0 = FtCalling as' operation call"
    using inv(3) that by (auto split: if_splits)
  show "counted (fp_operation fault) p0 d < fp_occurrence fault" if "\<not> fd_fired d"
    using inv(3) that by simp
qed

lemma expecting_follows:
  assumes "expecting sd codec w r log d" and "du_thread d p = Running as"
  shows "follows (w p) as (own p log) (r p)"
proof -
  from assms(1) have "case du_thread d p of Running as \<Rightarrow> follows (w p) as (own p log) (r p)
      | Ended x \<Rightarrow> x = r p \<and> own p log = []"
    unfolding expecting_def by blast
  with assms(2) show ?thesis by simp
qed

lemma unharmed_return:
  assumes inv: "unharmed sd codec w F Q r fault p0 whole log k d"
    and thread: "fd_thread d p = FtRunning as" and own: "own p log = []"
  shows "\<exists>d'. fault_move sd codec w fault p d = Some d' \<and>
    unharmed sd codec w F Q r fault p0 whole log (k(p := 0)) d' \<and> 0 < k p"
proof -
  let ?f = "(wrapper_of fault p d)\<lparr>fs_inner := memory_abort (end_of p (fd_net d))\<rparr>"
  note facts = unharmed_thread [OF inv]
  have running: "du_thread (bare_duo d) p = Running as" using thread by simp
  have status: "status_after (w p) as = Returns (r p)"
    using expecting_follows [OF facts(1) running] own by simp
  then have move: "fault_move sd codec w fault p d = Some (put_wrapper p d (FtEnded (r p)) ?f)"
    by (simp add: fault_move_def thread fault_thread_step_def)
  obtain d2 where d2: "duo_move sd codec w p (bare_duo d) = Some d2" "expecting sd codec w r log d2"
    using thread_ends [OF facts(1) running own] by blast
  then have "d2 = bare_duo (put_wrapper p d (FtEnded (r p)) ?f)"
    using status thread by (simp add: duo_move_def thread_step_def bare_put)
  with d2(2) have "unharmed sd codec w F Q r fault p0 whole log (k(p := 0)) (put_wrapper p d (FtEnded (r p)) ?f)"
    using facts(3,4,5) thread by (intro unharmed_update [OF inv]) auto
  moreover have "0 < k p" using facts(2) [of p] thread by simp
  ultimately show ?thesis using move by blast
qed

lemma unharmed_event:
  \<comment> \<open>an event of the log takes place\<close>
  assumes inv: "unharmed sd codec w F Q r fault p0 whole log k d"
    and thread: "fd_thread d p = FtRunning as \<and> operation_of (call_of h) = None \<or>
      fd_thread d p = FtCalling as operation (call_of h)"
    and own: "own p log = h # hs"
    and ready: "(\<exists>p' e. h = Receives p' e) \<longrightarrow> ch_queue (mn_back (end_of p (fd_net d))) \<noteq> []"
  shows "\<exists>d' log'. fault_move sd codec w fault p d = Some d' \<and>
    unharmed sd codec w F Q r fault p0 whole log' (k(p := 2 * length hs + 3)) d' \<and> 2 * length hs + 3 < k p"
proof -
  note facts = unharmed_thread [OF inv]
  have running: "du_thread (bare_duo d) p = Running as" using thread by auto
  have status: "status_after (w p) as = Calls (call_of h)"
    using expecting_follows [OF facts(1) running] own by simp
  have "inbound (bare_duo d) p = mn_back (end_of p (fd_net d))" by (simp add: inbound_def)
  with event_done [OF facts(1) running own] ready obtain d2 log' where
    d2: "duo_move sd codec w p (bare_duo d) = Some d2" "expecting sd codec w r log' d2"
      "du_thread d2 = (du_thread (bare_duo d))(p := Running (as @ [answer_of h]))"
    and log': "own p log' = hs" "own (other p) log' = own (other p) log"
    by auto
  from d2(1) status running obtain a net where
    answer: "memory_answer sd codec (call_of h) (end_of p (fd_net d)) = Some (a, net)"
    and d2': "d2 = \<lparr>du_thread = (du_thread (bare_duo d))(p := Running (as @ [a])), du_net = end_of p net\<rparr>"
    by (auto simp: duo_move_def thread_step_def)
  from d2' d2(3) have a: "a = answer_of h" by (auto dest: fun_cong [of _ _ p])
  let ?f = "(wrapper_of fault p d)\<lparr>fs_inner := net\<rparr>"
  let ?d = "put_wrapper p d (FtRunning (as @ [answer_of h])) ?f"
  have "peer_answer (wrapper_of fault p d) operation (answer_of h) = answer_of h" by (cases h) simp_all
  with thread status answer a have move: "fault_move sd codec w fault p d = Some ?d"
    by (auto simp: fault_move_def fault_thread_step_def)
  have count: "pending (fp_operation fault) (fd_thread d p) + uses (fp_operation fault) hs = uses (fp_operation fault) (own p log)"
    using thread own facts(2) [of p] status by (auto simp: uses_Cons)
  have "unharmed sd codec w F Q r fault p0 whole log' (k(p := 2 * length hs + 3)) ?d"
  proof (rule unharmed_update [OF inv])
    show "expecting sd codec w r log' (bare_duo ?d)" using d2(2) d2' a by (simp add: bare_put)
    show "poised (w p) F (Q p) (own p log') (2 * length hs + 3) (FtRunning (as @ [answer_of h]))"
      using facts(2) [of p] thread own log'(1) by auto
    show "fault_count (fp_operation fault) ?f + uses (fp_operation fault) (own p log') =
        whole + pending (fp_operation fault) (FtRunning (as @ [answer_of h]))" if "p = p0"
      using count facts(5) log'(1) that by simp
  qed (use facts(3,4) log' thread in auto)
  moreover have "2 * length hs + 3 < k p" using facts(2) [of p] thread own by auto
  ultimately show ?thesis using move by blast
qed

lemma unharmed_decide:
  \<comment> \<open>the wrapper decides whether to inject\<close>
  assumes inv: "unharmed sd codec w F Q r fault p0 whole log k d" and p0: "role_name p0 = fp_role fault"
    and thread: "fd_thread d p = FtRunning as" and own: "own p log = h # hs"
    and operation: "operation_of (call_of h) = Some operation"
  shows "\<exists>d'. fault_move sd codec w fault p d = Some d' \<and>
    unharmed sd codec w F Q r fault p0 whole log (k(p := 2 * length hs + 4)) d' \<and> 2 * length hs + 4 < k p"
proof -
  note facts = unharmed_thread [OF inv]
  have running: "du_thread (bare_duo d) p = Running as" using thread by auto
  have status: "status_after (w p) as = Calls (call_of h)"
    using expecting_follows [OF facts(1) running] own by simp
  let ?f = "snd (should_inject operation (wrapper_of fault p d))"
    and ?inject = "fst (should_inject operation (wrapper_of fault p d))"
  let ?th = "if ?inject then FtInjecting as operation else FtCalling as operation (call_of h)"
  have move: "fault_move sd codec w fault p d = Some (put_wrapper p d ?th ?f)"
    using thread status operation by (simp add: fault_move_def fault_thread_step_def split: prod.splits)
  have inject: "?inject \<longleftrightarrow> p = p0 \<and> \<not> fd_fired d \<and> operation = fp_operation fault \<and>
      counted operation p d + 1 = fp_occurrence fault"
    by (auto simp: should_inject_fires p0 [symmetric])
  have fired: "\<not> fd_fired d" if "p = p0" using facts(3) [of as] thread that by simp
  have kept: "fs_fired ?f \<longleftrightarrow> fd_fired d \<or> ?inject" "fs_inner ?f = end_of p (fd_net d)"
    "fault_count (fp_operation fault) ?f = counted (fp_operation fault) p d + (if operation = fp_operation fault then 1 else 0)"
    by (auto simp: should_inject_keeps should_inject_def Let_def)
  have same: "bare_duo (put_wrapper p d ?th ?f) = bare_duo d"
  proof -
    have "(du_thread (bare_duo d))(p := Running as) = du_thread (bare_duo d)" using running by (auto simp: fun_eq_iff)
    then show ?thesis by (simp add: bare_put kept)
  qed
  have graceful: "graceful (w p) F (Q p) as (own p log)" and k: "k p = 2 * length (own p log) + 3"
    using facts(2) [of p] thread by simp_all
  have "unharmed sd codec w F Q r fault p0 whole log (k(p := 2 * length hs + 4)) (put_wrapper p d ?th ?f)"
  proof (rule unharmed_update [OF inv])
    show "expecting sd codec w r log (bare_duo (put_wrapper p d ?th ?f))" using facts(1) by (simp add: same)
    show "poised (w p) F (Q p) (own p log) (2 * length hs + 4) ?th"
      using graceful status operation own by auto
    show "fault_count (fp_operation fault) ?f + uses (fp_operation fault) (own p log) =
        whole + pending (fp_operation fault) ?th" if "p = p0"
      using facts(5) thread that kept(3) by (cases "operation = fp_operation fault") auto
    show "p = p0 \<and> operation' = fp_operation fault \<and> fs_fired ?f" if "?th = FtInjecting as' operation'" for as' operation'
      using that inject kept(1) by (auto split: if_splits)
    show "if fs_fired ?f then fault_count (fp_operation fault) ?f = fp_occurrence fault \<and>
        (\<exists>as. ?th = FtInjecting as (fp_operation fault))
      else fault_count (fp_operation fault) ?f < fp_occurrence fault" if "p = p0"
      using fired [OF that] facts(4) inject kept(1,3) that
      by (cases "operation = fp_operation fault") auto
    show "fs_fired ?f = fd_fired d" if "p \<noteq> p0" using that inject kept(1) by blast
  qed simp
  moreover have "2 * length hs + 4 < k p" using k own by simp
  ultimately show ?thesis using move by blast
qed

lemma unharmed_breaks:
  \<comment> \<open>the fault is injected\<close>
  assumes inv: "unharmed sd codec w F Q r fault p0 whole log k d" and p0: "role_name p0 = fp_role fault"
    and known: "fp_failure fault \<in> F"
    and thread: "fd_thread d p = FtInjecting as operation"
  shows "\<exists>d' k'. fault_move sd codec w fault p d = Some d' \<and> broken sd codec w F Q r fault p0 whole k' d' \<and>
    steps_left k' < steps_left k"
proof -
  note facts = unharmed_thread [OF inv]
  have p: "p = p0" "operation = fp_operation fault" "fd_fired d"
    using inv thread unfolding unharmed_def by blast+
  have count: "counted (fp_operation fault) p0 d = fp_occurrence fault"
    using inv p(3) by (simp add: unharmed_def)
  have running: "du_thread (bare_duo d) p = Running as" using thread by simp
  from facts(2) [of p] thread obtain call where call: "status_after (w p) as = Calls call"
      "operation_of call = Some operation" and graceful: "graceful (w p) F (Q p) as (own p log)"
    and k: "k p = 2 * length (own p log) + 2"
    by auto
  from expecting_follows [OF facts(1) running] call(1) obtain h hs where own: "own p log = h # hs" and h: "call = call_of h"
    by (cases "own p log") auto
  let ?error = "injected_error (wrapper_of fault p d) operation (fp_failure fault)"
  let ?th = "FtRunning (as @ [error_answer operation ?error])"
    and ?f = "(wrapper_of fault p d)\<lparr>fs_inner := memory_abort (end_of p (fd_net d))\<rparr>"
  let ?d = "put_wrapper p d ?th ?f" and ?k = "k(p := 2)"
  have move: "fault_move sd codec w fault p d = Some ?d"
    by (simp add: fault_move_def thread fault_thread_step_def)
  have "fp_occurrence fault \<le> whole"
    using facts(5) own call(2) p thread count by (simp add: uses_Cons h)
  moreover have "failing (w p0) (Q p0) (fp_failure fault) 2 ?th"
  proof -
    have "transport_failure ?error = Some (fp_failure fault)" by (simp add: injected_error_def)
    from gracefulD [OF graceful [unfolded own] _ this known] call(2) h obtain x where
      "fails_with (w p) as (error_answer operation ?error) x" "Q p (fp_failure fault) x"
      by blast
    then show ?thesis unfolding failing_def p(1) [symmetric] by blast
  qed
  moreover have "peer_state sd codec (w (other p)) F (Q (other p)) (peer_failure_of fault) (r (other p)) (k (other p))
      (fd_thread d (other p)) (mn_back (end_of (other p) (fd_net ?d)))"
  proof -
    have cut: "mn_back (end_of (other p) (fd_net ?d)) = (mn_back (end_of (other p) (fd_net d)))\<lparr>ch_sender := False\<rparr>"
      by (simp add: end_of_swap memory_abort_def end_of_forth)
    obtain q where smooth: "smooth q log" and sent: "\<forall>p e. Sends p e \<in> set log \<longrightarrow> carried sd codec e"
      and queue: "\<And>p. list_all2 (carries sd codec) (ch_queue (inbound (bare_duo d) p)) (q p)"
      and ends: "\<And>p. ch_receiver (inbound (bare_duo d) p) = alive (bare_duo d) p"
      and threads: "\<And>p. case du_thread (bare_duo d) p of Running as \<Rightarrow> follows (w p) as (own p log) (r p)
        | Ended x \<Rightarrow> x = r p \<and> own p log = []"
      using facts(1) unfolding expecting_def by blast
    note inbox = queue [of "other p", unfolded inbound_def bare_simps] ends [of "other p", unfolded inbound_def bare_simps]
    show ?thesis
    proof (cases "bare (fd_thread d (other p))")
      case (Ended x)
      then have "fd_thread d (other p) = FtEnded x" by (cases "fd_thread d (other p)") simp_all
      with threads [of "other p"] facts(2) [of "other p"] show ?thesis by (simp add: peer_state_def)
    next
      case (Running as')
      obtain rest where "received (own (other p) log) = q (other p) @ rest"
        using smooth_received [OF smooth, of "other p"] by blast
      moreover have "fd_thread d (other p) \<noteq> FtInjecting as' operation'" for as' operation'
        using inv p(1) unfolding unharmed_def by (metis other_other(2))
      moreover have "follows (w (other p)) as' (own (other p) log) (r (other p))"
        using threads [of "other p"] Running by simp
      moreover have "\<forall>p' e. Sends p' e \<in> set (own (other p) log) \<longrightarrow> carried sd codec e" using sent by simp
      ultimately have "following sd codec (w (other p)) F (Q (other p)) (r (other p)) (k (other p))
          (fd_thread d (other p)) (mn_back (end_of (other p) (fd_net ?d)))"
        using facts(2) [of "other p"] inbox Running unfolding following_def cut
        by (intro exI [of _ "own (other p) log"] exI [of _ as'] exI [of _ "q (other p)"] exI [of _ rest])
          (simp add: alive_def)
      then show ?thesis by (simp add: peer_state_def)
    qed
  qed
  moreover have "cut_off (end_of (other p) (fd_net ?d))"
    by (simp add: end_of_forth end_of_swap memory_abort_def)
  ultimately have "broken sd codec w F Q r fault p0 whole ?k ?d"
    using p by (simp add: broken_def)
  moreover have "steps_left ?k < steps_left k" using k own by (intro steps_left_less) simp
  ultimately show ?thesis using move by blast
qed

definition explained :: "'v serde \<Rightarrow> envelope_codec \<Rightarrow> (who \<Rightarrow> ('v, 'r) worker) \<Rightarrow> string set
    \<Rightarrow> (who \<Rightarrow> string \<Rightarrow> 'v runtime_error + 'r \<Rightarrow> bool) \<Rightarrow> (who \<Rightarrow> 'v runtime_error + 'r) \<Rightarrow> fault_plan \<Rightarrow> who
    \<Rightarrow> nat \<Rightarrow> nat \<Rightarrow> ('v, 'r) fault_duo \<Rightarrow> bool" where
  \<comment> \<open>before or after the fault, with at most \<open>n\<close> steps to go\<close>
  "explained sd codec w F Q r fault p0 whole n d \<longleftrightarrow>
     (\<exists>k. n = steps_left k \<and>
       ((\<exists>log. unharmed sd codec w F Q r fault p0 whole log k d) \<or> broken sd codec w F Q r fault p0 whole k d))"

lemma explainedI:
  "unharmed sd codec w F Q r fault p0 whole log k d \<Longrightarrow> explained sd codec w F Q r fault p0 whole (steps_left k) d"
  "broken sd codec w F Q r fault p0 whole k d \<Longrightarrow> explained sd codec w F Q r fault p0 whole (steps_left k) d"
  by (auto simp: explained_def)

lemma unharmed_step:
  assumes inv: "unharmed sd codec w F Q r fault p0 whole log k d" and p0: "role_name p0 = fp_role fault"
    and known: "fp_failure fault \<in> F" and move: "fault_move sd codec w fault p d = Some d'"
  shows "\<exists>n. explained sd codec w F Q r fault p0 whole n d' \<and> n < steps_left k"
proof (cases "fd_thread d p")
  case (FtRunning as)
  then have running: "du_thread (bare_duo d) p = Running as" by simp
  show ?thesis
  proof (cases "own p log")
    case Nil
    from unharmed_return [OF inv FtRunning this] move show ?thesis
      by (auto intro: explainedI steps_left_less)
  next
    case (Cons h hs)
    show ?thesis
    proof (cases "operation_of (call_of h)")
      case None
      then have "(\<exists>p' e. h = Receives p' e) \<longrightarrow> ch_queue (mn_back (end_of p (fd_net d))) \<noteq> []" by auto
      from unharmed_event [OF inv _ Cons this, of as undefined] FtRunning None move show ?thesis
        by (auto intro: explainedI steps_left_less)
    next
      case (Some operation)
      from unharmed_decide [OF inv p0 FtRunning Cons Some] move show ?thesis
        by (auto intro: explainedI steps_left_less)
    qed
  qed
next
  case (FtInjecting as operation)
  from unharmed_breaks [OF inv p0 known this] move show ?thesis by (auto intro: explainedI)
next
  case (FtCalling as operation call)
  note facts = unharmed_thread [OF inv]
  from FtCalling have running: "du_thread (bare_duo d) p = Running as" by simp
  from facts(2) [of p] FtCalling have status: "status_after (w p) as = Calls call"
    and comm: "operation_of call = Some operation"
    by simp_all
  with expecting_follows [OF facts(1) running] obtain h hs where own: "own p log = h # hs" and h: "call = call_of h"
    by (cases "own p log") auto
  have "\<exists>d2. duo_move sd codec w p (bare_duo d) = Some d2"
    using move FtCalling status running
    by (auto simp: fault_move_def fault_thread_step_def duo_move_def thread_step_def)
  then have "(\<exists>p' e. h = Receives p' e) \<longrightarrow> ch_queue (mn_back (end_of p (fd_net d))) \<noteq> []"
    using receive_ready [OF facts(1) _ running own] by (auto simp: inbound_def)
  from unharmed_event [OF inv _ own this, of as operation] FtCalling h move show ?thesis
    by (auto intro: explainedI steps_left_less)
next
  case (FtEnded x)
  with move show ?thesis by (simp add: fault_move_def fault_thread_step_def)
qed

lemma unharmed_can_move:
  assumes inv: "unharmed sd codec w F Q r fault p0 whole log k d" and p0: "role_name p0 = fp_role fault"
    and known: "fp_failure fault \<in> F" and left: "steps_left k \<noteq> 0"
  shows "\<exists>p d'. fault_move sd codec w fault p d = Some d'"
proof -
  note facts = unharmed_thread [OF inv]
  from facts(1) obtain q where smooth: "smooth q log"
    and queue: "\<And>p. list_all2 (carries sd codec) (ch_queue (inbound (bare_duo d) p)) (q p)"
    and threads: "\<And>p. case bare (fd_thread d p) of Running as \<Rightarrow> follows (w p) as (own p log) (r p)
        | Ended x \<Rightarrow> x = r p \<and> own p log = []"
    unfolding expecting_def bare_simps by blast
  obtain p where p: "fd_thread d p = FtEnded x \<Longrightarrow> False" "log \<noteq> [] \<Longrightarrow> p = actor (hd log)" for x
  proof (cases log)
    case Nil
    from left obtain p where "k p \<noteq> 0" by (auto simp: steps_left_def)
    with facts(2) [of p] Nil show thesis by (intro that [of p]) auto
  next
    case (Cons h hs)
    with threads [of "actor h"] show thesis by (intro that [of "actor h"]) auto
  qed
  show ?thesis
  proof (cases "fd_thread d p")
    case (FtRunning as)
    show ?thesis
    proof (cases "own p log")
      case Nil
      from unharmed_return [OF inv FtRunning this] show ?thesis by blast
    next
      case (Cons h hs)
      show ?thesis
      proof (cases "operation_of (call_of h)")
        case None
        then have "(\<exists>p' e. h = Receives p' e) \<longrightarrow> ch_queue (mn_back (end_of p (fd_net d))) \<noteq> []" by auto
        from unharmed_event [OF inv _ Cons this, of as undefined] FtRunning None show ?thesis by auto
      next
        case (Some operation)
        from unharmed_decide [OF inv p0 FtRunning Cons Some] show ?thesis by blast
      qed
    qed
  next
    case (FtInjecting as operation)
    from unharmed_breaks [OF inv p0 known this] show ?thesis by blast
  next
    case (FtCalling as operation call)
    then have running: "du_thread (bare_duo d) p = Running as" by simp
    from facts(2) [of p] FtCalling have "status_after (w p) as = Calls call" by simp
    with expecting_follows [OF facts(1) running] obtain h hs where own: "own p log = h # hs" and h: "call = call_of h"
      by (cases "own p log") auto
    then obtain log2 where "log = h # log2" "actor h = p" using p(2) by (cases log) auto
    with smooth queue [of p] have "(\<exists>p' e. h = Receives p' e) \<longrightarrow> ch_queue (mn_back (end_of p (fd_net d))) \<noteq> []"
      using own by (auto simp: inbound_def)
    from unharmed_event [OF inv _ own this, of as operation] FtCalling h show ?thesis by auto
  next
    case (FtEnded x)
    with p(1) show ?thesis by blast
  qed
qed

section \<open>Steps after the fault\<close>

lemma failing_keeps_cut: "cut_off net \<Longrightarrow> cut_off (memory_abort net)"
  by (simp add: memory_abort_def)

lemma peer_state_inbox:
  assumes "ch_queue inbox' = ch_queue inbox" and "ch_receiver inbox' = ch_receiver inbox"
  shows "peer_state sd codec w F Q failure r k th inbox' = peer_state sd codec w F Q failure r k th inbox"
  unfolding peer_state_def following_def assms ..

lemma peer_step:
  assumes state: "peer_state sd codec w F Q (peer_failure_of (fs_plan f)) r k th (mn_back (fs_inner f))"
    and cut: "cut_off (fs_inner f)" and f: "fs_fired f" "fs_role f \<noteq> fp_role (fs_plan f)"
    and known: "peer_failure_of (fs_plan f) \<in> F"
  shows "fault_thread_step sd codec w th f = Some (th', f') \<Longrightarrow>
      \<exists>k' < k. peer_state sd codec w F Q (peer_failure_of (fs_plan f)) r k' th' (mn_back (fs_inner f')) \<and>
        cut_off (fs_inner f') \<and> fs_fired f'"
    and "0 < k \<Longrightarrow> \<exists>th' f'. fault_thread_step sd codec w th f = Some (th', f')"
proof -
  from state consider "following sd codec w F Q r k th (mn_back (fs_inner f))" | "th = FtEnded r" "k = 0"
    | "failing w Q (peer_failure_of (fs_plan f)) k th"
    unfolding peer_state_def by blast
  then have "(\<forall>th' f'. fault_thread_step sd codec w th f = Some (th', f') \<longrightarrow>
      (\<exists>k' < k. peer_state sd codec w F Q (peer_failure_of (fs_plan f)) r k' th' (mn_back (fs_inner f')) \<and>
        cut_off (fs_inner f') \<and> fs_fired f')) \<and>
    (0 < k \<longrightarrow> (\<exists>th' f'. fault_thread_step sd codec w th f = Some (th', f')))"
  proof cases
    case 1
    from following_step [OF this cut f known] show ?thesis by auto
  next
    case 2
    then show ?thesis by (simp add: fault_thread_step_def)
  next
    case 3
    have "\<exists>k' < k. peer_state sd codec w F Q (peer_failure_of (fs_plan f)) r k' th' (mn_back (fs_inner f')) \<and>
        cut_off (fs_inner f') \<and> fs_fired f'"
      if "fault_thread_step sd codec w th f = Some (th', f')" for th' f'
      using failing_step [OF 3 that] cut f(1) failing_keeps_cut [OF cut]
      by (intro exI [of _ "k - 1"]) (simp add: peer_state_def)
    with failing_moves [OF 3] show ?thesis by blast
  qed
  then show "fault_thread_step sd codec w th f = Some (th', f') \<Longrightarrow>
      \<exists>k' < k. peer_state sd codec w F Q (peer_failure_of (fs_plan f)) r k' th' (mn_back (fs_inner f')) \<and>
        cut_off (fs_inner f') \<and> fs_fired f'"
    and "0 < k \<Longrightarrow> \<exists>th' f'. fault_thread_step sd codec w th f = Some (th', f')"
    by blast+
qed

lemma broken_step:
  assumes inv: "broken sd codec w F Q r fault p0 whole k d" and p0: "role_name p0 = fp_role fault"
    and known: "peer_failure_of fault \<in> F" and move: "fault_move sd codec w fault p d = Some d'"
  shows "\<exists>n. explained sd codec w F Q r fault p0 whole n d' \<and> n < steps_left k"
proof -
  from inv have fired: "fd_fired d" "fp_occurrence fault \<le> whole"
    and failing: "failing (w p0) (Q p0) (fp_failure fault) (k p0) (fd_thread d p0)"
    and peer: "peer_state sd codec (w (other p0)) F (Q (other p0)) (peer_failure_of fault) (r (other p0)) (k (other p0))
       (fd_thread d (other p0)) (mn_back (end_of (other p0) (fd_net d)))"
    and cut: "cut_off (end_of (other p0) (fd_net d))"
    unfolding broken_def by blast+
  from move obtain th f where step: "fault_thread_step sd codec (w p) (fd_thread d p) (wrapper_of fault p d) = Some (th, f)"
    and d': "d' = put_wrapper p d th f"
    by (rule moveE)
  show ?thesis
  proof (cases "p = p0")
    case True
    with step failing_step [OF failing, of sd codec "wrapper_of fault p0 d"]
    have th: "failing (w p0) (Q p0) (fp_failure fault) (k p0 - 1) th" "0 < k p0"
      and f: "f = (wrapper_of fault p0 d)\<lparr>fs_inner := memory_abort (end_of p0 (fd_net d))\<rparr>"
      by auto
    have net: "mn_back (end_of (other p0) (fd_net d')) = (mn_back (end_of (other p0) (fd_net d)))\<lparr>ch_sender := False\<rparr>"
      by (simp add: d' True f end_of_swap end_of_forth memory_abort_def)
    have "peer_state sd codec (w (other p0)) F (Q (other p0)) (peer_failure_of fault) (r (other p0)) (k (other p0))
       (fd_thread d (other p0)) (mn_back (end_of (other p0) (fd_net d')))"
      by (rule peer_state_inbox [THEN iffD2, OF _ _ peer]) (simp_all add: net)
    moreover have "cut_off (end_of (other p0) (fd_net d'))"
      using cut by (simp add: d' True f end_of_swap end_of_forth memory_abort_def)
    ultimately have "broken sd codec w F Q r fault p0 whole (k(p0 := k p0 - 1)) d'"
      using fired th(1) by (simp add: broken_def d' True f)
    then show ?thesis
      using th(2) by (intro exI conjI) (erule explainedI, rule steps_left_less, simp)
  next
    case False
    then have p: "p = other p0" by simp
    have role: "role_name (other p0) \<noteq> fp_role fault" using p0 [symmetric] by simp
    from peer_step(1) [where f = "wrapper_of fault (other p0) d", simplified, OF peer cut fired(1) role known
        step [unfolded p]] obtain k' where
      k': "k' < k (other p0)" "peer_state sd codec (w (other p0)) F (Q (other p0)) (peer_failure_of fault) (r (other p0)) k'
        th (mn_back (fs_inner f))" "cut_off (fs_inner f)" "fs_fired f"
      by blast
    then have "broken sd codec w F Q r fault p0 whole (k(other p0 := k')) d'"
      using fired(2) failing by (simp add: broken_def d' p)
    then show ?thesis
      using k'(1) by (intro exI conjI) (erule explainedI, rule steps_left_less, simp)
  qed
qed

lemma broken_can_move:
  assumes inv: "broken sd codec w F Q r fault p0 whole k d" and p0: "role_name p0 = fp_role fault"
    and known: "peer_failure_of fault \<in> F" and left: "steps_left k \<noteq> 0"
  shows "\<exists>p d'. fault_move sd codec w fault p d = Some d'"
proof -
  from inv have fired: "fd_fired d"
    and failing: "failing (w p0) (Q p0) (fp_failure fault) (k p0) (fd_thread d p0)"
    and peer: "peer_state sd codec (w (other p0)) F (Q (other p0)) (peer_failure_of fault) (r (other p0)) (k (other p0))
       (fd_thread d (other p0)) (mn_back (end_of (other p0) (fd_net d)))"
    and cut: "cut_off (end_of (other p0) (fd_net d))"
    unfolding broken_def by blast+
  have role: "role_name (other p0) \<noteq> fp_role fault" using p0 [symmetric] by simp
  from left have "0 < k p0 \<or> 0 < k (other p0)" by (cases p0) (auto simp: steps_left_def)
  then show ?thesis
    using failing_moves [OF failing, of sd codec "wrapper_of fault p0 d"]
      peer_step(2) [where f = "wrapper_of fault (other p0) d", simplified, OF peer cut fired role known]
    by (force simp: fault_move_def)
qed

section \<open>Every schedule\<close>

definition fault_over :: "(who \<Rightarrow> string \<Rightarrow> 'v runtime_error + 'r \<Rightarrow> bool) \<Rightarrow> (who \<Rightarrow> 'v runtime_error + 'r)
    \<Rightarrow> fault_plan \<Rightarrow> who \<Rightarrow> nat \<Rightarrow> ('v, 'r) fault_duo \<Rightarrow> bool" where
  \<comment> \<open>both threads have ended, with the fault when the planned operation is reached and without it otherwise\<close>
  "fault_over Q r fault p0 whole d \<longleftrightarrow>
     (if fp_occurrence fault \<le> whole
      then fd_fired d \<and> (\<exists>x. fd_thread d p0 = FtEnded x \<and> Q p0 (fp_failure fault) x) \<and>
        (\<exists>x. fd_thread d (other p0) = FtEnded x \<and>
          (x = r (other p0) \<or> Q (other p0) (peer_failure_of fault) x))
      else \<not> fd_fired d \<and> (\<forall>p. fd_thread d p = FtEnded (r p)))"

lemma explained_step:
  assumes "explained sd codec w F Q r fault p0 whole n d" and "role_name p0 = fp_role fault"
    and "fp_failure fault \<in> F" and "peer_failure_of fault \<in> F"
  shows "fault_step sd codec w fault d d' \<Longrightarrow> \<exists>n'. explained sd codec w F Q r fault p0 whole n' d' \<and> n' < n"
    and "n \<noteq> 0 \<Longrightarrow> \<exists>d'. fault_step sd codec w fault d d'"
proof -
  show "\<exists>n'. explained sd codec w F Q r fault p0 whole n' d' \<and> n' < n" if step: "fault_step sd codec w fault d d'"
  proof -
    from step obtain p where "fault_move sd codec w fault p d = Some d'" by (rule fault_stepE)
    moreover from assms(1) obtain k where n: "n = steps_left k"
      and "(\<exists>log. unharmed sd codec w F Q r fault p0 whole log k d) \<or> broken sd codec w F Q r fault p0 whole k d"
      unfolding explained_def by blast
    ultimately show ?thesis
      unfolding n by (elim disjE exE) (erule (1) unharmed_step [OF _ assms(2,3)], erule (1) broken_step [OF _ assms(2,4)])
  qed
  show "\<exists>d'. fault_step sd codec w fault d d'" if "n \<noteq> 0"
  proof -
    from assms(1) obtain k where n: "n = steps_left k"
      and "(\<exists>log. unharmed sd codec w F Q r fault p0 whole log k d) \<or> broken sd codec w F Q r fault p0 whole k d"
      unfolding explained_def by blast
    then have "\<exists>p d'. fault_move sd codec w fault p d = Some d'"
      using that unfolding n
      by (elim disjE exE) (erule (1) unharmed_can_move [OF _ assms(2,3)], erule (1) broken_can_move [OF _ assms(2,4)])
    then show ?thesis by (blast intro: either_steps)
  qed
qed

lemma explained_over:
  assumes "explained sd codec w F Q r fault p0 whole 0 d"
  shows "fault_over Q r fault p0 whole d"
proof -
  from assms obtain k where k: "steps_left k = 0" and cases: "(\<exists>log. unharmed sd codec w F Q r fault p0 whole log k d) \<or>
      broken sd codec w F Q r fault p0 whole k d"
    unfolding explained_def by metis
  have none: "k p = 0" for p using k by (cases p) (simp_all add: steps_left_def)
  from cases show ?thesis
  proof (elim disjE exE)
    fix log
    assume inv: "unharmed sd codec w F Q r fault p0 whole log k d"
    note facts = unharmed_thread [OF inv]
    have ended: "\<exists>x. fd_thread d p = FtEnded x" for p
      using facts(2) [of p] none [of p] by (cases "fd_thread d p") simp_all
    have expected: "case bare (fd_thread d p) of Running as \<Rightarrow> follows (w p) as (own p log) (r p)
        | Ended x \<Rightarrow> x = r p \<and> own p log = []" for p
      using facts(1) unfolding expecting_def bare_simps by blast
    have all: "fd_thread d p = FtEnded (r p)" "own p log = []" for p
      using ended [of p] expected [of p] by auto
    have "\<not> fd_fired d" using inv all(1) [of p0] by (auto simp: unharmed_def split: if_splits)
    moreover from facts(4) [OF this] facts(5) have "\<not> fp_occurrence fault \<le> whole"
      by (simp add: all uses_def)
    ultimately show ?thesis using all(1) by (simp add: fault_over_def)
  next
    assume inv: "broken sd codec w F Q r fault p0 whole k d"
    then have "failing (w p0) (Q p0) (fp_failure fault) 0 (fd_thread d p0)"
      and peer: "peer_state sd codec (w (other p0)) F (Q (other p0)) (peer_failure_of fault) (r (other p0)) 0
       (fd_thread d (other p0)) (mn_back (end_of (other p0) (fd_net d)))"
      and fired: "fd_fired d" "fp_occurrence fault \<le> whole"
      using none [of p0] none [of "other p0"] unfolding broken_def by simp_all
    from failing_done [OF this(1)] obtain x where x: "fd_thread d p0 = FtEnded x" "Q p0 (fp_failure fault) x" by blast
    have "\<not> poised (w (other p0)) F (Q (other p0)) hs 0 th" if "bare th = Running as" for hs th as
      using that by (cases th) auto
    with peer failing_done have "\<exists>x. fd_thread d (other p0) = FtEnded x \<and>
        (x = r (other p0) \<or> Q (other p0) (peer_failure_of fault) x)"
      unfolding peer_state_def following_def by blast
    with x fired show ?thesis by (simp add: fault_over_def)
  qed
qed

lemma fault_over_stuck: "fault_over Q r fault p0 whole d \<Longrightarrow> \<not> fault_step sd codec w fault d d'"
proof
  assume over: "fault_over Q r fault p0 whole d" and "fault_step sd codec w fault d d'"
  then obtain p where "fault_move sd codec w fault p d = Some d'" by (auto elim: fault_stepE)
  moreover have "\<exists>x. fd_thread d p = FtEnded x"
    using over by (cases "p = p0") (auto simp: fault_over_def split: if_splits)
  ultimately show False by (auto simp: fault_move_def fault_thread_step_def)
qed

text \<open>What the two workers and their log have to satisfy.\<close>

definition fault_ready :: "'v serde \<Rightarrow> envelope_codec \<Rightarrow> (who \<Rightarrow> ('v, 'r) worker) \<Rightarrow> string set
    \<Rightarrow> (who \<Rightarrow> string \<Rightarrow> 'v runtime_error + 'r \<Rightarrow> bool) \<Rightarrow> (who \<Rightarrow> 'v runtime_error + 'r) \<Rightarrow> fault_plan \<Rightarrow> who
    \<Rightarrow> 'v event list \<Rightarrow> bool" where
  "fault_ready sd codec w F Q r fault p0 log \<longleftrightarrow>
     smooth (\<lambda>_. []) log \<and> (\<forall>p e. Sends p e \<in> set log \<longrightarrow> carried sd codec e) \<and>
     (\<forall>p. follows (w p) [] (own p log) (r p) \<and> graceful (w p) F (Q p) [] (own p log)) \<and>
     role_name p0 = fp_role fault \<and> fp_failure fault \<in> F \<and> peer_failure_of fault \<in> F \<and> 0 < fp_occurrence fault"

lemma own_lengths: "length (own TheClient log) + length (own TheServer log) = length log"
proof (induction log)
  case (Cons h log)
  then show ?case by (cases "actor h") simp_all
qed simp

lemma explained_start:
  fixes sd :: "'v serde" and w :: "who \<Rightarrow> ('v, 'r) worker"
  assumes "fault_ready sd codec w F Q r fault p0 log"
  shows "explained sd codec w F Q r fault p0 (uses (fp_operation fault) (own p0 log)) (2 * length log + 6) fault_start"
proof -
  let ?k = "\<lambda>p. 2 * length (own p log) + 3"
  have "bare_duo (fault_start :: ('v, 'r) fault_duo) = duo_start"
    by (simp add: bare_duo_def fault_start_def duo_start_def)
  moreover have "expecting sd codec w r log duo_start"
    using assms unfolding fault_ready_def by (intro expecting_start) blast+
  ultimately have "unharmed sd codec w F Q r fault p0 (uses (fp_operation fault) (own p0 log)) log ?k fault_start"
    using assms by (auto simp: unharmed_def fault_ready_def fault_start_def counted_def split: fault_operation.splits)
  moreover have "steps_left ?k = 2 * length log + 6"
    unfolding own_lengths [of log, symmetric] by (simp add: steps_left_def)
  ultimately show ?thesis using explainedI(1) by metis
qed

lemma every_fault_schedule:
  assumes run: "fault_run sd codec w fault n d" and ready: "fault_ready sd codec w F Q r fault p0 log"
  shows "\<exists>left. explained sd codec w F Q r fault p0 (uses (fp_operation fault) (own p0 log)) left d \<and>
    n + left \<le> 2 * length log + 6"
  using run
proof induction
  case fault_starts
  from explained_start [OF ready] show ?case by auto
next
  case (fault_steps n d d')
  then obtain left where left: "explained sd codec w F Q r fault p0 (uses (fp_operation fault) (own p0 log)) left d"
    "n + left \<le> 2 * length log + 6" by blast
  from ready have "role_name p0 = fp_role fault" "fp_failure fault \<in> F" "peer_failure_of fault \<in> F"
    by (simp_all add: fault_ready_def)
  from explained_step(1) [OF left(1) this fault_steps.hyps(2)] left(2) show ?case by fastforce
qed

lemma fault_next_moves:
  "fault_next sd codec w fault d = Inr d' \<Longrightarrow> fault_step sd codec w fault d d'"
  "fault_next sd codec w fault d = Inl d' \<Longrightarrow> d' = d \<and> \<not> fault_step sd codec w fault d d2"
proof -
  show "fault_next sd codec w fault d = Inr d' \<Longrightarrow> fault_step sd codec w fault d d'"
    by (auto simp: fault_next_def intro: either_steps split: option.splits)
  assume next_is: "fault_next sd codec w fault d = Inl d'"
  then have "fault_move sd codec w fault p d = None" for p
    by (cases p) (auto simp: fault_next_def split: option.splits)
  with next_is show "d' = d \<and> \<not> fault_step sd codec w fault d d2"
    by (auto simp: fault_next_def elim: fault_stepE split: option.splits)
qed

lemma one_fault_schedule:
  assumes "explained sd codec w F Q r fault p0 whole n d" and "role_name p0 = fp_role fault"
    and "fp_failure fault \<in> F" and "peer_failure_of fault \<in> F"
  shows "\<exists>d'. iterate (fault_next sd codec w fault) d = Some d' \<and> fault_over Q r fault p0 whole d'"
  using assms(1)
proof (induction n arbitrary: d rule: less_induct)
  case (less n)
  note steps = explained_step [OF less.prems assms(2-4)]
  show ?case
  proof (cases "fault_next sd codec w fault d")
    case (Inl d')
    with steps(2) fault_next_moves(2) [OF Inl] have "n = 0" by blast
    with explained_over less.prems Inl fault_next_moves(2) [OF Inl] show ?thesis
      by (intro exI [of _ d]) (simp add: iterate.simps)
  next
    case (Inr d')
    from steps(1) [OF fault_next_moves(1) [OF Inr]] obtain n' where
      "explained sd codec w F Q r fault p0 whole n' d'" "n' < n" by blast
    with less.IH Inr show ?thesis by (simp add: iterate.simps)
  qed
qed

end
