(* ===== verification/Generation.thy ===== *)
theory Generation
  imports Threads_Correct Workload_Examples Plan_Correct
begin

text \<open>
  What the token generation is to do on the conversation of
  \<open>src/examples/generate.colloqconv.json\<close>: a log of what the two ends send and receive, for any
  number of tokens and any point at which the client cancels.  The two workers of
  \<open>src/src/runtime.rs\<close> follow it, whatever plan the conversation is compiled to.
\<close>

section \<open>The log\<close>

definition generate_client :: role where
  "generate_client = \<lparr>role_id = ''client'', placement = [''cpu''], capabilities = []\<rparr>"

definition generate_server :: role where
  "generate_server = \<lparr>role_id = ''server'', placement = [''accelerator''], capabilities = [''model.infer'']\<rparr>"

definition plan_envelope :: "prepared_plan \<Rightarrow> string \<Rightarrow> u64 \<Rightarrow> 'v frame \<Rightarrow> 'v envelope" where
  "plan_envelope plan state n f =
     \<lparr>env_wire = WIRE_FORMAT, env_conversation = ''example.generate'',
      env_identity = pp_conversation_identity plan, env_state = state, env_sequence = n, env_frame = f\<rparr>"

definition token_id_at :: "nat \<Rightarrow> u64" where
  "token_id_at i = word_of_nat i + 1"

abbreviation passes :: "who \<Rightarrow> 'v envelope \<Rightarrow> 'v event list" where
  "passes p e \<equiv> [Sends p e, Receives (other p) e]"

definition cancels :: "nat option \<Rightarrow> nat \<Rightarrow> bool" where
  "cancels cancel_after n \<longleftrightarrow> (case cancel_after of None \<Rightarrow> False | Some limit \<Rightarrow> limit \<le> n)"

definition closing :: "'v event list" where
  "closing = [Finishes TheServer ''server'', Finishes TheClient ''client'']"

fun token_log :: "prepared_plan \<Rightarrow> 'v json_ops \<Rightarrow> nat option \<Rightarrow> nat \<Rightarrow> nat \<Rightarrow> u64 \<Rightarrow> 'v event list" where
  \<comment> \<open>from \<open>i\<close> tokens sent, \<open>left\<close> to send and sequence number \<open>n\<close>\<close>
  "token_log plan js cancel_after i 0 n =
     passes TheServer (plan_envelope plan ''decide'' n (FSelect ''server'' ''done'')) @ closing"
| "token_log plan js cancel_after i (Suc left) n =
     passes TheServer (plan_envelope plan ''decide'' n (FSelect ''server'' ''token'')) @
     passes TheServer (plan_envelope plan ''emit-token'' (n + 1)
       (FData ''server'' ''client'' ''token'' (Some (js_id js (token_id_at i))))) @
     (if cancels cancel_after (Suc i)
      then passes TheClient (plan_envelope plan ''client-action'' (n + 2) (FSelect ''client'' ''cancel'')) @
        passes TheClient (plan_envelope plan ''cancel'' (n + 3) (FCancel ''client'' ''server'' ''generation'')) @
        closing
      else passes TheClient (plan_envelope plan ''client-action'' (n + 2) (FSelect ''client'' ''continue'')) @
        token_log plan js cancel_after (Suc i) left (n + 3))"

definition generation_log :: "prepared_plan \<Rightarrow> 'v json_ops \<Rightarrow> string \<Rightarrow> nat option \<Rightarrow> nat \<Rightarrow> 'v event list" where
  "generation_log plan js prompt cancel_after limit =
     passes TheClient (plan_envelope plan ''start'' 0
       (FData ''client'' ''server'' ''prompt'' (Some (js_text js prompt)))) @
     token_log plan js cancel_after 0 limit 1"

fun sent_frames :: "'v event list \<Rightarrow> 'v frame list" where
  "sent_frames [] = []"
| "sent_frames (Sends p e # log) = env_frame e # sent_frames log"
| "sent_frames (_ # log) = sent_frames log"

fun sent_envelopes :: "'v event list \<Rightarrow> 'v envelope list" where
  "sent_envelopes [] = []"
| "sent_envelopes (Sends p e # log) = e # sent_envelopes log"
| "sent_envelopes (_ # log) = sent_envelopes log"

lemma sends_sent: "Sends p e \<in> set log \<Longrightarrow> e \<in> set (sent_envelopes log)"
  by (induction log rule: sent_envelopes.induct) auto

definition tokens_given :: "nat option \<Rightarrow> nat \<Rightarrow> nat" where
  "tokens_given cancel_after limit = (case cancel_after of None \<Rightarrow> limit | Some n \<Rightarrow> min n limit)"

lemma sent_frames_append [simp]: "sent_frames (log1 @ log2) = sent_frames log1 @ sent_frames log2"
  by (induction log1 rule: sent_frames.induct) simp_all

lemma own_passes: "own p (passes p' e @ log) = (if p = p' then Sends p e else Receives p e) # own p log"
  by (cases p; cases p') simp_all

lemma smooth_passes: "smooth (\<lambda>_. []) (passes p e @ log) \<longleftrightarrow> smooth (\<lambda>_. []) log"
proof -
  have "smooth (\<lambda>_. []) (passes p e @ log) \<longleftrightarrow> smooth ((\<lambda>_. [])(other p := [])) log" by simp
  also have "(\<lambda>_. [])(other p := []) = (\<lambda>_. [])" by auto
  finally show ?thesis .
qed

lemma token_log_smooth: "smooth (\<lambda>_. []) (token_log plan js cancel_after i left n)"
  by (induction left arbitrary: i n) (simp_all only: token_log.simps smooth_passes closing_def smooth.simps split: if_splits, simp_all)

lemma generation_log_smooth: "smooth (\<lambda>_. []) (generation_log plan js prompt cancel_after limit)"
  by (simp only: generation_log_def smooth_passes token_log_smooth)

section \<open>The machines\<close>

definition generate_machine :: "prepared_plan \<Rightarrow> role \<Rightarrow> string \<Rightarrow> u64 \<Rightarrow> machine" where
  "generate_machine plan r state n =
     \<lparr>m_endpoint = project_role generate r, m_identity = pp_conversation_identity plan,
      m_plan_identity = pp_plan_identity plan, m_current = state, m_sequence = n\<rparr>"

lemma generate_from_plan:
  assumes "compile_prepared ext generate = Inr plan"
  shows "from_plan plan ''client'' = Inr (generate_machine plan generate_client ''start'' 0)"
    and "from_plan plan ''server'' = Inr (generate_machine plan generate_server ''start'' 0)"
proof -
  have "compiled_endpoints generate = [project_role generate generate_client, project_role generate generate_server]"
    by (simp add: compiled_endpoints_def project_validated_def generate_def generate_client_def generate_server_def)
  then have "pp_endpoints plan = [project_role generate generate_client, project_role generate generate_server]"
    using assms by (auto elim: compile_prepared_shape)
  then show "from_plan plan ''client'' = Inr (generate_machine plan generate_client ''start'' 0)"
    and "from_plan plan ''server'' = Inr (generate_machine plan generate_server ''start'' 0)"
    by (simp_all add: from_plan_def find_endpoint_def generate_machine_def generate_client_def
        generate_server_def generate_def)
qed

lemmas generate_run = generate_machine_def plan_envelope_def emit_select_def emit_data_def emit_cancel_def
  accept_def validate_envelope_def state_of_def state_at_def emit_def generate_def generate_client_def
  generate_server_def project_role_def bt_contains_def

lemma generate_client_steps:
  "emit_data (generate_machine plan generate_client ''start'' n) v =
     Inr (plan_envelope plan ''start'' n (FData ''client'' ''server'' ''prompt'' (Some v)),
       generate_machine plan generate_client ''decide'' (n + 1))"
  "accept (generate_machine plan generate_client ''decide'' n)
     (plan_envelope plan ''decide'' n (FSelect ''server'' ''done'')) =
     Inr (FSelect ''server'' ''done'', generate_machine plan generate_client ''end'' (n + 1))"
  "accept (generate_machine plan generate_client ''decide'' n)
     (plan_envelope plan ''decide'' n (FSelect ''server'' ''token'')) =
     Inr (FSelect ''server'' ''token'', generate_machine plan generate_client ''emit-token'' (n + 1))"
  "accept (generate_machine plan generate_client ''emit-token'' n)
     (plan_envelope plan ''emit-token'' n (FData ''server'' ''client'' ''token'' (Some v))) =
     Inr (FData ''server'' ''client'' ''token'' (Some v), generate_machine plan generate_client ''client-action'' (n + 1))"
  "emit_select (generate_machine plan generate_client ''client-action'' n) ''continue'' =
     Inr (plan_envelope plan ''client-action'' n (FSelect ''client'' ''continue''),
       generate_machine plan generate_client ''decide'' (n + 1))"
  "emit_select (generate_machine plan generate_client ''client-action'' n) ''cancel'' =
     Inr (plan_envelope plan ''client-action'' n (FSelect ''client'' ''cancel''),
       generate_machine plan generate_client ''cancel'' (n + 1))"
  "emit_cancel (generate_machine plan generate_client ''cancel'' n) =
     Inr (plan_envelope plan ''cancel'' n (FCancel ''client'' ''server'' ''generation''),
       generate_machine plan generate_client ''end'' (n + 1))"
  by (simp_all add: generate_run)

lemma generate_server_steps:
  "accept (generate_machine plan generate_server ''start'' n)
     (plan_envelope plan ''start'' n (FData ''client'' ''server'' ''prompt'' (Some v))) =
     Inr (FData ''client'' ''server'' ''prompt'' (Some v), generate_machine plan generate_server ''decide'' (n + 1))"
  "emit_select (generate_machine plan generate_server ''decide'' n) ''done'' =
     Inr (plan_envelope plan ''decide'' n (FSelect ''server'' ''done''),
       generate_machine plan generate_server ''end'' (n + 1))"
  "emit_select (generate_machine plan generate_server ''decide'' n) ''token'' =
     Inr (plan_envelope plan ''decide'' n (FSelect ''server'' ''token''),
       generate_machine plan generate_server ''emit-token'' (n + 1))"
  "emit_data (generate_machine plan generate_server ''emit-token'' n) v =
     Inr (plan_envelope plan ''emit-token'' n (FData ''server'' ''client'' ''token'' (Some v)),
       generate_machine plan generate_server ''client-action'' (n + 1))"
  "accept (generate_machine plan generate_server ''client-action'' n)
     (plan_envelope plan ''client-action'' n (FSelect ''client'' ''continue'')) =
     Inr (FSelect ''client'' ''continue'', generate_machine plan generate_server ''decide'' (n + 1))"
  "accept (generate_machine plan generate_server ''client-action'' n)
     (plan_envelope plan ''client-action'' n (FSelect ''client'' ''cancel'')) =
     Inr (FSelect ''client'' ''cancel'', generate_machine plan generate_server ''cancel'' (n + 1))"
  "accept (generate_machine plan generate_server ''cancel'' n)
     (plan_envelope plan ''cancel'' n (FCancel ''client'' ''server'' ''generation'')) =
     Inr (FCancel ''client'' ''server'' ''generation'', generate_machine plan generate_server ''end'' (n + 1))"
  by (simp_all add: generate_run)

lemma generate_complete:
  "is_complete (generate_machine plan generate_client ''decide'' n) = Inr False"
  "is_complete (generate_machine plan generate_server ''decide'' n) = Inr False"
  "is_complete (generate_machine plan generate_client ''end'' n) = Inr True"
  "is_complete (generate_machine plan generate_server ''end'' n) = Inr True"
  "is_successful (generate_machine plan generate_client ''end'' n) = Inr True"
  "is_successful (generate_machine plan generate_server ''end'' n) = Inr True"
  "machine_failure (generate_machine plan generate_client ''end'' n) = Inr None"
  "machine_failure (generate_machine plan generate_server ''end'' n) = Inr None"
  by (simp_all add: is_complete_def is_successful_def machine_failure_def generate_run)

lemma generate_roles [simp]:
  "m_role (generate_machine plan generate_client i n) = ''client''"
  "m_role (generate_machine plan generate_server i n) = ''server''"
  by (simp_all add: generate_run)

section \<open>What a worker does next\<close>

definition status_of :: "(('v runtime_error + 'r) \<times> 'v replay) option \<Rightarrow> ('v, 'r) status" where
  "status_of result =
     (case result of
        None \<Rightarrow> Spins
      | Some (r, t) \<Rightarrow> (case rp_pending t of Some call \<Rightarrow> Calls call | None \<Rightarrow> Returns r))"

lemma status_of_simps [simp]:
  "status_of (Some (r, \<lparr>rp_answers = as, rp_pending = Some call\<rparr>)) = Calls call"
  "status_of (Some (r, \<lparr>rp_answers = as, rp_pending = None\<rparr>)) = Returns r"
  by (simp_all add: status_of_def)

fun follows_on :: "('v answer list \<Rightarrow> ('v, 'r) status) \<Rightarrow> 'v event list \<Rightarrow> 'v runtime_error + 'r \<Rightarrow> bool" where
  \<comment> \<open>\<open>follows\<close>, with the answers still to come as the argument of a function\<close>
  "follows_on f [] r \<longleftrightarrow> f [] = Returns r"
| "follows_on f (h # hs) r \<longleftrightarrow> f [] = Calls (call_of h) \<and> follows_on (\<lambda>bs. f (answer_of h # bs)) hs r"

lemma follows_iff: "follows w as hs r \<longleftrightarrow>
    follows_on (\<lambda>bs. status_of (w \<lparr>rp_answers = as @ bs, rp_pending = None\<rparr>)) hs r"
  by (induction hs arbitrary: as) (simp_all add: status_after_def status_of_def)

abbreviation replaying :: "machine \<Rightarrow> 'v frame list \<Rightarrow> 'v answer list \<Rightarrow> 'v call option \<Rightarrow> ('v replay, 'v) run" where
  "replaying m trace as pending \<equiv> \<lparr>rn_machine = m, rn_trace = trace,
     rn_transport = \<lparr>rp_answers = as, rp_pending = pending\<rparr>\<rparr>"

lemma replay_receive:
  "run_receive (replay_transport name) (replaying m trace [] None) =
     (Inl stopped, replaying m trace [] (Some CallReceive))"
  "run_receive (replay_transport name) (replaying m trace (AnsEnvelope (Inr e) # as) None) =
     (case accept m e of
        Inl err \<Rightarrow> (Inl err, replaying m trace as None)
      | Inr (f, m') \<Rightarrow> (Inr (Some f), replaying m' (trace @ [f]) as None))"
  by (simp_all add: run_receive_def replay_transport_def ask_def stopped_def receive_and_record_def
      settle_def and_then_def split: sum.splits)

lemma replay_send:
  "emit_and_send (replay_transport name) op (replaying m trace [] None) =
     (case op m of
        Inl err \<Rightarrow> (Inl err, replaying m trace [] None)
      | Inr (e, m') \<Rightarrow> (Inl stopped, replaying m' trace [] (Some (CallSend e))))"
  "emit_and_send (replay_transport name) op (replaying m trace (AnsDone (Inr ()) # as) None) =
     (case op m of
        Inl err \<Rightarrow> (Inl err, replaying m trace (AnsDone (Inr ()) # as) None)
      | Inr (e, m') \<Rightarrow> (Inr True, replaying m' (trace @ [env_frame e]) as None))"
  by (simp_all add: emit_and_send_def run_send_def replay_transport_def ask_def stopped_def send_and_record_def
      settle_def split: sum.splits)

lemma plan_envelope_frame [simp]: "env_frame (plan_envelope plan state n f) = f"
  by (simp add: plan_envelope_def)

definition generation_report :: "'v json_ops \<Rightarrow> prepared_plan \<Rightarrow> role \<Rightarrow> string \<Rightarrow> u64 \<Rightarrow> u64 list \<Rightarrow> 'v frame list
    \<Rightarrow> 'v execution_report" where
  "generation_report js plan r name n tokens trace =
     \<lparr>er_role = role_id r, er_transport = name, er_conversation = ''example.generate'',
      er_identity = pp_conversation_identity plan, er_plan_identity = pp_plan_identity plan,
      er_trace_identity = trace_identity js trace, er_frames = n, er_tokens = tokens, er_completed = True,
      er_successful = True, er_failure = None, er_final_state = ''end'', er_trace = trace\<rparr>"

lemma report_at_end:
  "report js (generate_machine plan generate_client ''end'' n) name tokens trace =
     Inr (generation_report js plan generate_client name n tokens trace)"
  "report js (generate_machine plan generate_server ''end'' n) name tokens trace =
     Inr (generation_report js plan generate_server name n tokens trace)"
  by (simp_all add: report_def generate_complete generation_report_def)
    (simp_all add: generate_run)

lemma conclude_replay:
  "conclude (replay_transport name) js name' (Inl stopped, replaying m trace as pending) =
     (Inl stopped, \<lparr>rp_answers = as, rp_pending = pending\<rparr>)"
  "is_successful m = (Inr True :: 'v runtime_error + bool) \<Longrightarrow>
   conclude (replay_transport name) js name' (Inr tokens, replaying m trace [] None) =
     (Inl stopped, \<lparr>rp_answers = [], rp_pending = Some (CallFinish (m_role m))\<rparr>)"
  "is_successful m = (Inr True :: 'v runtime_error + bool) \<Longrightarrow>
   conclude (replay_transport name) js name' (Inr tokens, replaying m trace (AnsDone (Inr ()) # as) None) =
     (report js m name' tokens (trace :: 'v frame list), \<lparr>rp_answers = as, rp_pending = None\<rparr>)"
  by (simp_all add: conclude_def replay_transport_def ask_def)

text \<open>The rest of the two workers, from a round of their loops.\<close>

definition client_from :: "'v json_ops \<Rightarrow> string \<Rightarrow> nat option \<Rightarrow> u64 list \<Rightarrow> ('v replay, 'v) run
    \<Rightarrow> (('v runtime_error + 'v execution_report) \<times> 'v replay) option" where
  "client_from js name cancel_after tokens r =
     map_option (conclude (replay_transport name) js name)
       (iterate (loop_step (client_round (replay_transport name) js cancel_after)) (tokens, r))"

definition server_from :: "'v json_ops \<Rightarrow> string \<Rightarrow> nat \<Rightarrow> u64 list \<Rightarrow> ('v replay, 'v) run
    \<Rightarrow> (('v runtime_error + 'v execution_report) \<times> 'v replay) option" where
  "server_from js name limit tokens r =
     map_option (conclude (replay_transport name) js name)
       (iterate (loop_step (server_round (replay_transport name) js limit)) (tokens, r))"

lemma from_unfold:
  "client_from js name cancel_after tokens r =
     (case loop_step (client_round (replay_transport name) js cancel_after) (tokens, r) of
        Inl x \<Rightarrow> Some (conclude (replay_transport name) js name x)
      | Inr (tokens, r) \<Rightarrow> client_from js name cancel_after tokens r)"
  "server_from js name limit tokens r =
     (case loop_step (server_round (replay_transport name) js limit) (tokens, r) of
        Inl x \<Rightarrow> Some (conclude (replay_transport name) js name x)
      | Inr (tokens, r) \<Rightarrow> server_from js name limit tokens r)"
  unfolding client_from_def server_from_def by (subst iterate.simps, simp split: sum.splits prod.splits)+

definition json_faithful :: "'v json_ops \<Rightarrow> bool" where
  \<comment> \<open>\<open>json!({"id": n})\<close> has the member \<open>id\<close> that was put in, and the prompt's \<open>text\<close>\<close>
  "json_faithful js \<longleftrightarrow> (\<forall>n. js_get_id js (js_id js n) = Some n) \<and> (\<forall>s. js_get_text js (js_text js s) = Some s)"

lemma json_faithfulD: "json_faithful js \<Longrightarrow> js_get_id js (js_id js n) = Some n"
    "json_faithful js \<Longrightarrow> js_get_text js (js_text js s) = Some s"
  by (simp_all add: json_faithful_def)

lemmas round_run = Let_def loop_step_def act_then_def from_result_def done_with_def generate_complete replay_receive
  replay_send generate_client_steps generate_server_steps conclude_replay json_faithfulD

lemma from_end:
  "client_from js name cancel_after tokens (replaying (generate_machine plan generate_client ''end'' n) trace as None) =
     Some (conclude (replay_transport name) js name
       (Inr tokens, replaying (generate_machine plan generate_client ''end'' n) trace as None))"
  "server_from js name limit tokens (replaying (generate_machine plan generate_server ''end'' n) trace as None) =
     Some (conclude (replay_transport name) js name
       (Inr tokens, replaying (generate_machine plan generate_server ''end'' n) trace as None))"
  by (simp_all add: from_unfold [where tokens = tokens] loop_step_def generate_complete)

abbreviation server_done where
  "server_done plan n \<equiv> plan_envelope plan ''decide'' n (FSelect ''server'' ''done'')"

abbreviation server_token where
  "server_token plan n \<equiv> plan_envelope plan ''decide'' n (FSelect ''server'' ''token'')"

abbreviation token_frame where
  "token_frame js i \<equiv> FData ''server'' ''client'' ''token'' (Some (js_id js (token_id_at i)))"

abbreviation client_choice where
  "client_choice plan n label \<equiv> plan_envelope plan ''client-action'' n (FSelect ''client'' label)"

abbreviation client_cancel where
  "client_cancel plan n \<equiv> plan_envelope plan ''cancel'' n (FCancel ''client'' ''server'' ''generation'')"

abbreviation so_far :: "nat \<Rightarrow> u64 list" where
  "so_far i \<equiv> map token_id_at [0..<i]"

lemma cancel_branch: "(case cancel_after of None \<Rightarrow> False | Some limit \<Rightarrow> limit \<le> length (so_far i @ [x])) =
    cancels cancel_after (Suc i)"
  by (simp add: cancels_def split: option.splits)

lemma client_rounds_replay:
  fixes js :: "'v json_ops" and trace :: "'v frame list" and name :: string and cancel_after :: "nat option"
    and i :: nat and plan :: prepared_plan and n :: u64
  assumes js: "json_faithful js"
  defines "at \<equiv> \<lambda>as. client_from js name cancel_after (so_far i)
    (replaying (generate_machine plan generate_client ''decide'' n) trace as None)"
    and "tok \<equiv> AnsEnvelope (Inr (server_token plan n))"
    and "dat \<equiv> AnsEnvelope (Inr (plan_envelope plan ''emit-token'' (n + 1) (token_frame js i)))"
    and "ok \<equiv> AnsDone (Inr ())"
    and "three \<equiv> \<lambda>label. trace @ [FSelect ''server'' ''token'', token_frame js i, FSelect ''client'' label]"
  shows "status_of (at []) = Calls CallReceive"
    and "status_of (at [tok]) = Calls CallReceive"
    and "\<not> cancels cancel_after (Suc i) \<Longrightarrow> status_of (at [tok, dat]) = Calls (CallSend (client_choice plan (n + 2) ''continue''))"
    and "\<not> cancels cancel_after (Suc i) \<Longrightarrow> at (tok # dat # ok # as) = client_from js name cancel_after (so_far (Suc i))
      (replaying (generate_machine plan generate_client ''decide'' (n + 3)) (three ''continue'') as None)"
    and "cancels cancel_after (Suc i) \<Longrightarrow> status_of (at [tok, dat]) = Calls (CallSend (client_choice plan (n + 2) ''cancel''))"
    and "cancels cancel_after (Suc i) \<Longrightarrow> status_of (at [tok, dat, ok]) = Calls (CallSend (client_cancel plan (n + 3)))"
    and "cancels cancel_after (Suc i) \<Longrightarrow> status_of (at [tok, dat, ok, ok]) = Calls (CallFinish ''client'')"
    and "cancels cancel_after (Suc i) \<Longrightarrow> status_of (at [tok, dat, ok, ok, ok]) = Returns (Inr (generation_report js plan
      generate_client name (n + 4) (so_far (Suc i)) (three ''cancel'' @ [FCancel ''client'' ''server'' ''generation''])))"
    and "status_of (at [AnsEnvelope (Inr (server_done plan n))]) = Calls (CallFinish ''client'')"
    and "status_of (at [AnsEnvelope (Inr (server_done plan n)), ok]) = Returns (Inr (generation_report js plan
      generate_client name (n + 1) (so_far i) (trace @ [FSelect ''server'' ''done''])))"
  unfolding at_def tok_def dat_def ok_def three_def
  by (subst from_unfold, simp add: client_round_def cancel_branch round_run from_end js report_at_end add.assoc)+

lemma server_rounds_replay:
  fixes js :: "'v json_ops" and trace :: "'v frame list" and name :: string and limit :: nat
    and i :: nat and plan :: prepared_plan and n :: u64
  defines "at \<equiv> \<lambda>as. server_from js name limit (so_far i)
    (replaying (generate_machine plan generate_server ''decide'' n) trace as None)"
    and "cont \<equiv> AnsEnvelope (Inr (client_choice plan (n + 2) ''continue''))"
    and "cancel \<equiv> AnsEnvelope (Inr (client_choice plan (n + 2) ''cancel''))"
    and "scope \<equiv> AnsEnvelope (Inr (client_cancel plan (n + 3)))"
    and "ok \<equiv> AnsDone (Inr ())"
    and "three \<equiv> \<lambda>label. trace @ [FSelect ''server'' ''token'', token_frame js i, FSelect ''client'' label]"
  shows "i < limit \<Longrightarrow> status_of (at []) = Calls (CallSend (server_token plan n))"
    and "i < limit \<Longrightarrow> status_of (at [ok]) =
      Calls (CallSend (plan_envelope plan ''emit-token'' (n + 1) (token_frame js i)))"
    and "i < limit \<Longrightarrow> status_of (at [ok, ok]) = Calls CallReceive"
    and "i < limit \<Longrightarrow> at (ok # ok # cont # as) = server_from js name limit (so_far (Suc i))
      (replaying (generate_machine plan generate_server ''decide'' (n + 3)) (three ''continue'') as None)"
    and "i < limit \<Longrightarrow> status_of (at [ok, ok, cancel]) = Calls CallReceive"
    and "i < limit \<Longrightarrow> status_of (at [ok, ok, cancel, scope]) = Calls (CallFinish ''server'')"
    and "i < limit \<Longrightarrow> status_of (at [ok, ok, cancel, scope, ok]) = Returns (Inr (generation_report js plan
      generate_server name (n + 4) (so_far (Suc i)) (three ''cancel'' @ [FCancel ''client'' ''server'' ''generation''])))"
    and "limit \<le> i \<Longrightarrow> status_of (at []) = Calls (CallSend (server_done plan n))"
    and "limit \<le> i \<Longrightarrow> status_of (at [ok]) = Calls (CallFinish ''server'')"
    and "limit \<le> i \<Longrightarrow> status_of (at [ok, ok]) = Returns (Inr (generation_report js plan
      generate_server name (n + 1) (so_far i) (trace @ [FSelect ''server'' ''done''])))"
  unfolding at_def cont_def cancel_def scope_def ok_def three_def
  by (subst from_unfold, simp add: server_round_def token_id_at_def [symmetric] round_run from_end report_at_end
      add.assoc)+

section \<open>The workers follow the log\<close>

fun tokens_at_end :: "nat option \<Rightarrow> nat \<Rightarrow> nat \<Rightarrow> nat" where
  "tokens_at_end cancel_after i 0 = i"
| "tokens_at_end cancel_after i (Suc left) =
     (if cancels cancel_after (Suc i) then Suc i else tokens_at_end cancel_after (Suc i) left)"

lemma client_follows_rounds:
  assumes js: "json_faithful js"
  shows "follows_on (\<lambda>as. status_of (client_from js name cancel_after (so_far i)
      (replaying (generate_machine plan generate_client ''decide'' n) trace as None)))
    (own TheClient (token_log plan js cancel_after i left n))
    (Inr (generation_report js plan generate_client name
      (n + word_of_nat (length (sent_frames (token_log plan js cancel_after i left n))))
      (so_far (tokens_at_end cancel_after i left))
      (trace @ sent_frames (token_log plan js cancel_after i left n))))"
proof (induction left arbitrary: i n trace)
  case 0
  show ?case by (simp add: closing_def client_rounds_replay [OF js])
next
  case (Suc left)
  show ?case
  proof (cases "cancels cancel_after (Suc i)")
    case True
    then show ?thesis by (simp add: closing_def client_rounds_replay [OF js])
  next
    case False
    with Suc.IH [of "Suc i" "n + 3"
      "trace @ [FSelect ''server'' ''token'', token_frame js i, FSelect ''client'' ''continue'']"] show ?thesis
      by (simp add: client_rounds_replay [OF js] add.assoc del: upt_Suc)
  qed
qed

lemma server_follows_rounds:
  assumes "i + left = limit"
  shows "follows_on (\<lambda>as. status_of (server_from js name limit (so_far i)
      (replaying (generate_machine plan generate_server ''decide'' n) trace as None)))
    (own TheServer (token_log plan js cancel_after i left n))
    (Inr (generation_report js plan generate_server name
      (n + word_of_nat (length (sent_frames (token_log plan js cancel_after i left n))))
      (so_far (tokens_at_end cancel_after i left))
      (trace @ sent_frames (token_log plan js cancel_after i left n))))"
  using assms
proof (induction left arbitrary: i n trace)
  case 0
  then show ?case by (simp add: closing_def server_rounds_replay)
next
  case (Suc left)
  then have i: "i < limit" by simp
  show ?case
  proof (cases "cancels cancel_after (Suc i)")
    case True
    with i show ?thesis by (simp add: closing_def server_rounds_replay)
  next
    case False
    with i Suc.IH [of "Suc i" "n + 3"
      "trace @ [FSelect ''server'' ''token'', token_frame js i, FSelect ''client'' ''continue'']"] Suc.prems show ?thesis
      by (simp add: server_rounds_replay add.assoc del: upt_Suc)
  qed
qed

lemma tokens_at_end_given:
  "cancel_after \<noteq> Some 0 \<Longrightarrow> tokens_at_end cancel_after 0 limit = tokens_given cancel_after limit"
proof -
  have "tokens_at_end cancel_after i left =
      (case cancel_after of None \<Rightarrow> i + left | Some n \<Rightarrow> min n (i + left))"
    if "\<And>n. cancel_after = Some n \<Longrightarrow> i < n" for i left
    using that by (induction left arbitrary: i) (auto simp: cancels_def split: option.splits)
  note rounds = this [of 0 limit]
  assume "cancel_after \<noteq> Some 0"
  then show ?thesis using rounds by (cases cancel_after) (auto simp: tokens_given_def)
qed

lemma tokens_at_end_ge: "i \<le> tokens_at_end cancel_after i left"
proof (induction left arbitrary: i)
  case (Suc left)
  from Suc.IH [of "Suc i"] show ?case by auto
qed simp

lemma token_log_length:
  "length (token_log plan js cancel_after i left n) + 6 * i = 6 * tokens_at_end cancel_after i left + 4"
proof (induction left arbitrary: i n)
  case (Suc left)
  from Suc.IH [of "Suc i" "n + 3"] show ?case by (simp add: closing_def)
qed (simp add: closing_def)

section \<open>The two workers\<close>

definition generation_result :: "'v json_ops \<Rightarrow> prepared_plan \<Rightarrow> string \<Rightarrow> string \<Rightarrow> nat option \<Rightarrow> nat \<Rightarrow> who
    \<Rightarrow> 'v execution_report" where
  "generation_result js plan name prompt cancel_after limit p =
     (let trace = sent_frames (generation_log plan js prompt cancel_after limit) in
      generation_report js plan (case p of TheClient \<Rightarrow> generate_client | TheServer \<Rightarrow> generate_server) name
        (word_of_nat (length trace)) (so_far (tokens_given cancel_after limit)) trace)"

lemma generation_follows:
  assumes plan: "compile_prepared ext generate = Inr plan" and js: "json_faithful js" and "cancel_after \<noteq> Some 0"
  shows "follows (generation_workers js plan prompt limit cancel_after name p) []
    (own p (generation_log plan js prompt cancel_after limit))
    (Inr (generation_result js plan name prompt cancel_after limit p))"
proof (cases p)
  case TheClient
  let ?prompt = "FData ''client'' ''server'' ''prompt'' (Some (js_text js prompt))"
  have "run_generate_client_plan (replay_transport name) js plan prompt cancel_after \<lparr>rp_answers = [], rp_pending = None\<rparr> =
      Some (Inl stopped, \<lparr>rp_answers = [], rp_pending = Some (CallSend (plan_envelope plan ''start'' 0 ?prompt))\<rparr>)"
    using assms(3) by (simp add: run_generate_client_plan_def generate_from_plan [OF plan] round_run)
  moreover have "run_generate_client_plan (replay_transport name) js plan prompt cancel_after
      \<lparr>rp_answers = AnsDone (Inr ()) # as, rp_pending = None\<rparr> =
      client_from js name cancel_after (so_far 0)
        (replaying (generate_machine plan generate_client ''decide'' 1) [?prompt] as None)" for as
    using assms(3)
    by (simp add: run_generate_client_plan_def generate_from_plan [OF plan] round_run client_from_def)
      (simp add: replay_transport_def)
  ultimately show ?thesis
    using client_follows_rounds [OF js, of name cancel_after 0 plan 1 "[?prompt]" limit] TheClient
      tokens_at_end_given [OF assms(3)]
    by (simp add: follows_iff generation_log_def generation_workers_def generation_result_def)
next
  case TheServer
  let ?prompt = "FData ''client'' ''server'' ''prompt'' (Some (js_text js prompt))"
  have "run_generate_server_plan (replay_transport name) js plan limit \<lparr>rp_answers = [], rp_pending = None\<rparr> =
      Some (Inl stopped, \<lparr>rp_answers = [], rp_pending = Some CallReceive\<rparr>)"
    by (simp add: run_generate_server_plan_def generate_from_plan [OF plan] round_run)
  moreover have "run_generate_server_plan (replay_transport name) js plan limit
      \<lparr>rp_answers = AnsEnvelope (Inr (plan_envelope plan ''start'' 0 ?prompt)) # as, rp_pending = None\<rparr> =
      server_from js name limit (so_far 0)
        (replaying (generate_machine plan generate_server ''decide'' 1) [?prompt] as None)" for as
    using js
    by (simp add: run_generate_server_plan_def generate_from_plan [OF plan] round_run server_from_def)
      (simp add: replay_transport_def)
  ultimately show ?thesis
    using server_follows_rounds [of 0 limit limit js name plan 1 "[?prompt]" cancel_after] TheServer
      tokens_at_end_given [OF assms(3)]
    by (simp add: follows_iff generation_log_def generation_workers_def generation_result_def)
qed

end
