(* ===== verification/Fault_Generation.thy ===== *)
theory Fault_Generation
  imports Fault_Correct Generation
begin

text \<open>
  The two workers of the token generation give up in good order: at any failure of the transport
  that the conversation of \<open>src/examples/generate.colloqconv.json\<close> declares, at any operation, each
  aborts its transport and reports that failure, with the frames and the tokens it had before.
\<close>

section \<open>Failed machines\<close>

definition generate_failures :: "string set" where
  "generate_failures = {''transport.closed'', ''transport.timeout'', ''transport.reset'',
     ''transport.unreachable'', ''transport.uncertain''}"

definition failed_state :: "string \<Rightarrow> string" where
  "failed_state failure =
     (if failure = ''transport.closed'' then ''transport-failed''
      else if failure = ''transport.timeout'' then ''transport-timeout''
      else if failure = ''transport.reset'' then ''transport-reset''
      else if failure = ''transport.unreachable'' then ''transport-unreachable''
      else ''transport-uncertain'')"

definition running_states :: "string set" where
  "running_states = {''start'', ''decide'', ''emit-token'', ''client-action'', ''cancel''}"

lemma transport_edges_get:
  "failure \<in> generate_failures \<Longrightarrow> bt_get transport_edges failure = Some (failed_state failure)"
  unfolding generate_failures_def
  by (elim insertE emptyE) (simp_all add: transport_edges_def failed_state_def)

lemma running_edges:
  assumes "state \<in> running_states"
  shows "\<exists>s. find (\<lambda>s. eid s = state) (ep_states (project_role generate r)) = Some s \<and>
    efailure_target s = bt_get transport_edges"
  using assms unfolding running_states_def
  by (elim insertE emptyE) (simp_all add: generate_def project_role_def fun_eq_iff)

lemma generate_fails:
  assumes "failure \<in> generate_failures" and "state \<in> running_states"
  shows "observe_failure_at (generate_machine plan r current n) state failure =
    Inr (FFault (role_id r) failure,
      generate_machine plan r (failed_state failure) (if current = state then n + 1 else n))"
  using running_edges [OF assms(2), of r] transport_edges_get [OF assms(1)]
  by (auto simp: observe_failure_at_def state_at_def generate_machine_def project_role_def)

lemma generate_failed_state:
  assumes "failure \<in> generate_failures"
  shows "state_of (generate_machine plan r (failed_state failure) n) = Inr (EFail (failed_state failure) failure)"
  using assms unfolding generate_failures_def
  by (elim insertE emptyE)
    (simp_all add: state_of_def state_at_def generate_machine_def generate_def project_role_def failed_state_def)

lemma generate_failed:
  assumes "failure \<in> generate_failures"
  shows "is_complete (generate_machine plan r (failed_state failure) n) = Inr True"
    and "is_successful (generate_machine plan r (failed_state failure) n) = Inr False"
    and "machine_failure (generate_machine plan r (failed_state failure) n) = Inr (Some failure)"
  by (simp_all add: is_complete_def is_successful_def machine_failure_def generate_failed_state [OF assms])

definition failed_report :: "'v json_ops \<Rightarrow> prepared_plan \<Rightarrow> role \<Rightarrow> string \<Rightarrow> string \<Rightarrow> u64 \<Rightarrow> u64 list
    \<Rightarrow> 'v frame list \<Rightarrow> 'v execution_report" where
  "failed_report js plan r name failure n tokens trace =
     \<lparr>er_role = role_id r, er_transport = name, er_conversation = ''example.generate'',
      er_identity = pp_conversation_identity plan, er_plan_identity = pp_plan_identity plan,
      er_trace_identity = trace_identity js trace, er_frames = n,
      er_tokens = tokens, er_completed = True, er_successful = False, er_failure = Some failure,
      er_final_state = failed_state failure, er_trace = trace\<rparr>"

lemma report_failed:
  assumes "failure \<in> generate_failures"
  shows "report js (generate_machine plan r (failed_state failure) n) name tokens trace =
    Inr (failed_report js plan r name failure n tokens trace)"
  by (simp add: report_def generate_failed [OF assms] failed_report_def)
    (simp add: generate_machine_def generate_def project_role_def)

section \<open>A failed operation\<close>

lemma replay_receive_fails:
  fixes error :: "'v runtime_error"
  assumes "transport_failure error = Some failure"
    and "observe_failure m failure = (Inr (f, m') :: 'v runtime_error + _)"
  shows "run_receive (replay_transport name) (replaying m trace [AnsEnvelope (Inl error)] None) =
      (Inr None, replaying m' (trace @ [f]) [] (Some CallAbort))"
    and "run_receive (replay_transport name) (replaying m trace [AnsEnvelope (Inl error), AnsDone (Inr ())] None) =
      (Inr None, replaying m' (trace @ [f]) [] None)"
  using assms by (simp_all add: run_receive_def replay_transport_def ask_def receive_and_record_def settle_def)

lemma replay_send_fails:
  fixes error :: "'v runtime_error"
  assumes "transport_failure error = Some failure" and "emission m = Inr (e, m1)"
    and "observe_failure_at m1 (env_state e) failure = (Inr (f, m') :: 'v runtime_error + _)"
  shows "emit_and_send (replay_transport name) emission (replaying m trace [AnsDone (Inl error)] None) =
      (Inr False, replaying m' (trace @ [f]) [] (Some CallAbort))"
    and "emit_and_send (replay_transport name) emission (replaying m trace [AnsDone (Inl error), AnsDone (Inr ())] None) =
      (Inr False, replaying m' (trace @ [f]) [] None)"
  using assms by (simp_all add: emit_and_send_def run_send_def replay_transport_def ask_def send_and_record_def
      settle_def)

lemma conclude_failed:
  assumes "failure \<in> generate_failures"
  shows "conclude (replay_transport name) js name'
      (Inr tokens, replaying (generate_machine plan r (failed_state failure) n) trace as waiting) =
    (Inr (failed_report js plan r name' failure n tokens trace), \<lparr>rp_answers = as, rp_pending = waiting\<rparr>)"
  by (simp add: conclude_def generate_failed [OF assms] report_failed [OF assms])

lemma plan_envelope_state [simp]: "env_state (plan_envelope plan state n f) = state"
  by (simp add: plan_envelope_def)

lemma generate_current [simp]: "m_current (generate_machine plan r state n) = state"
  by (simp add: generate_machine_def)

section \<open>Where a round may fail\<close>

lemma generate_role_ids [simp]: "role_id generate_client = ''client''" "role_id generate_server = ''server''"
  by (simp_all add: generate_client_def generate_server_def)

lemmas fail_run = round_run replay_receive_fails replay_send_fails observe_failure_def generate_fails
  running_states_def

text \<open>One round, from the state in which rounds begin.\<close>

lemma client_unfold:
  "client_from js name cancel_after tokens (replaying (generate_machine plan generate_client ''decide'' n) trace as None) =
     (case loop_step (client_round (replay_transport name) js cancel_after)
         (tokens, replaying (generate_machine plan generate_client ''decide'' n) trace as None) of
        Inl x \<Rightarrow> Some (conclude (replay_transport name) js name x)
      | Inr (tokens, r) \<Rightarrow> client_from js name cancel_after tokens r)"
  by (rule from_unfold)

lemma server_unfold:
  "server_from js name limit tokens (replaying (generate_machine plan generate_server ''decide'' n) trace as None) =
     (case loop_step (server_round (replay_transport name) js limit)
         (tokens, replaying (generate_machine plan generate_server ''decide'' n) trace as None) of
        Inl x \<Rightarrow> Some (conclude (replay_transport name) js name x)
      | Inr (tokens, r) \<Rightarrow> server_from js name limit tokens r)"
  by (rule from_unfold)

definition gives_up :: "('v answer list \<Rightarrow> ('v, 'r) status) \<Rightarrow> 'v answer list \<Rightarrow> 'r \<Rightarrow> bool" where
  "gives_up f as rep \<longleftrightarrow> f as = Calls CallAbort \<and> f (as @ [AnsDone (Inr ())]) = Returns (Inr rep)"

lemma client_rounds_fail:
  fixes js :: "'v json_ops" and trace :: "'v frame list" and name :: string and cancel_after :: "nat option"
    and i :: nat and plan :: prepared_plan and n :: u64 and error :: "'v runtime_error" and failure :: string
  assumes js: "json_faithful js" and error: "transport_failure error = Some failure" "failure \<in> generate_failures"
  defines "at \<equiv> \<lambda>as. status_of (client_from js name cancel_after (so_far i)
    (replaying (generate_machine plan generate_client ''decide'' n) trace as None))"
    and "tok \<equiv> AnsEnvelope (Inr (server_token plan n))"
    and "dat \<equiv> AnsEnvelope (Inr (plan_envelope plan ''emit-token'' (n + 1) (token_frame js i)))"
    and "ok \<equiv> AnsDone (Inr ())"
    and "rep \<equiv> \<lambda>n tokens frames. failed_report js plan generate_client name failure n tokens
      (trace @ frames @ [FFault ''client'' failure])"
  shows "gives_up at [AnsEnvelope (Inl error)] (rep (n + 1) (so_far i) [])"
    and "gives_up at [tok, AnsEnvelope (Inl error)] (rep (n + 2) (so_far i) [FSelect ''server'' ''token''])"
    and "gives_up at [tok, dat, AnsDone (Inl error)]
      (rep (n + 3) (so_far (Suc i)) [FSelect ''server'' ''token'', token_frame js i])"
    and "cancels cancel_after (Suc i) \<Longrightarrow> gives_up at [tok, dat, ok, AnsDone (Inl error)]
      (rep (n + 4) (so_far (Suc i)) [FSelect ''server'' ''token'', token_frame js i, FSelect ''client'' ''cancel''])"
  using error
  unfolding gives_up_def at_def tok_def dat_def ok_def rep_def
  by (simp_all add: client_unfold [of _ _ _ _ _ n] client_round_def cancel_branch fail_run js conclude_failed add.assoc)

lemma server_rounds_fail:
  fixes js :: "'v json_ops" and trace :: "'v frame list" and name :: string and limit :: nat
    and i :: nat and plan :: prepared_plan and n :: u64 and error :: "'v runtime_error" and failure :: string
  assumes error: "transport_failure error = Some failure" "failure \<in> generate_failures"
  defines "at \<equiv> \<lambda>as. status_of (server_from js name limit (so_far i)
    (replaying (generate_machine plan generate_server ''decide'' n) trace as None))"
    and "cancel \<equiv> AnsEnvelope (Inr (client_choice plan (n + 2) ''cancel''))"
    and "ok \<equiv> AnsDone (Inr ())"
    and "rep \<equiv> \<lambda>n tokens frames. failed_report js plan generate_server name failure n tokens
      (trace @ frames @ [FFault ''server'' failure])"
  shows "i < limit \<Longrightarrow> gives_up at [AnsDone (Inl error)] (rep (n + 1) (so_far i) [])"
    and "i < limit \<Longrightarrow> gives_up at [ok, AnsDone (Inl error)] (rep (n + 2) (so_far i) [FSelect ''server'' ''token''])"
    and "i < limit \<Longrightarrow> gives_up at [ok, ok, AnsEnvelope (Inl error)]
      (rep (n + 3) (so_far (Suc i)) [FSelect ''server'' ''token'', token_frame js i])"
    and "i < limit \<Longrightarrow> gives_up at [ok, ok, cancel, AnsEnvelope (Inl error)]
      (rep (n + 4) (so_far (Suc i)) [FSelect ''server'' ''token'', token_frame js i, FSelect ''client'' ''cancel''])"
    and "limit \<le> i \<Longrightarrow> gives_up at [AnsDone (Inl error)] (rep (n + 1) (so_far i) [])"
  using error
  unfolding gives_up_def at_def cancel_def ok_def rep_def
  by (simp_all add: server_unfold [of _ _ _ _ _ n] server_round_def token_id_at_def [symmetric] fail_run
      conclude_failed add.assoc)

section \<open>Every operation of the workers\<close>

definition fails_on :: "('v answer list \<Rightarrow> ('v, 'r) status) \<Rightarrow> string set
    \<Rightarrow> (string \<Rightarrow> 'v runtime_error + 'r \<Rightarrow> bool) \<Rightarrow> fault_operation \<Rightarrow> bool" where
  "fails_on f F Q operation \<longleftrightarrow>
     (\<forall>error failure. transport_failure error = Some failure \<longrightarrow> failure \<in> F \<longrightarrow>
        (\<exists>x. f [error_answer operation error] = Calls CallAbort \<and>
          f [error_answer operation error, AnsDone (Inr ())] = Returns x \<and> Q failure x))"

fun graceful_on :: "('v answer list \<Rightarrow> ('v, 'r) status) \<Rightarrow> string set
    \<Rightarrow> (string \<Rightarrow> 'v runtime_error + 'r \<Rightarrow> bool) \<Rightarrow> 'v event list \<Rightarrow> bool" where
  \<comment> \<open>\<open>graceful\<close>, with the answers still to come as the argument of a function\<close>
  "graceful_on f F Q [] \<longleftrightarrow> True"
| "graceful_on f F Q (h # hs) \<longleftrightarrow>
     (\<forall>operation. operation_of (call_of h) = Some operation \<longrightarrow> fails_on f F Q operation) \<and>
     graceful_on (\<lambda>bs. f (answer_of h # bs)) F Q hs"

lemma graceful_iff: "graceful w F Q as hs \<longleftrightarrow>
    graceful_on (\<lambda>bs. status_of (w \<lparr>rp_answers = as @ bs, rp_pending = None\<rparr>)) F Q hs"
  by (induction hs arbitrary: as)
    (auto simp: fails_with_def fails_on_def status_after_def status_of_def)

definition generate_role :: "who \<Rightarrow> role" where
  "generate_role p = (case p of TheClient \<Rightarrow> generate_client | TheServer \<Rightarrow> generate_server)"

definition gave_up :: "'v json_ops \<Rightarrow> prepared_plan \<Rightarrow> string \<Rightarrow> 'v frame list \<Rightarrow> nat \<Rightarrow> who \<Rightarrow> string
    \<Rightarrow> 'v runtime_error + 'v execution_report \<Rightarrow> bool" where
  \<comment> \<open>a report of the failure, after a part of the frames and at most \<open>k\<close> tokens\<close>
  "gave_up js plan name frames k p failure x \<longleftrightarrow>
     (\<exists>n i before after. x = Inr (failed_report js plan (generate_role p) name failure n (so_far i)
        (before @ [FFault (role_name p) failure])) \<and> i \<le> k \<and> frames = before @ after)"

lemma fails_onI:
  assumes "\<And>error failure. transport_failure error = Some failure \<Longrightarrow> failure \<in> F \<Longrightarrow>
    \<exists>rep. f [error_answer operation error] = Calls CallAbort \<and>
      f [error_answer operation error, AnsDone (Inr ())] = Returns (Inr rep) \<and> Q failure (Inr rep)"
  shows "fails_on f F Q operation"
  using assms unfolding fails_on_def by blast

lemma gave_upI:
  "i \<le> k \<Longrightarrow> frames = before @ after \<Longrightarrow> gave_up js plan name frames k p failure
     (Inr (failed_report js plan (generate_role p) name failure n (so_far i) (before @ [FFault (role_name p) failure])))"
  by (auto simp: gave_up_def)

lemma generate_role_simps [simp]:
  "generate_role TheClient = generate_client" "generate_role TheServer = generate_server"
  by (simp_all add: generate_role_def)

lemma client_rounds_graceful:
  fixes js :: "'v json_ops" and trace :: "'v frame list" and name :: string and cancel_after :: "nat option"
    and i :: nat and plan :: prepared_plan and n :: u64
  assumes js: "json_faithful js"
  defines "at \<equiv> \<lambda>as. status_of (client_from js name cancel_after (so_far i)
    (replaying (generate_machine plan generate_client ''decide'' n) trace as None))"
    and "tok \<equiv> AnsEnvelope (Inr (server_token plan n))"
    and "dat \<equiv> AnsEnvelope (Inr (plan_envelope plan ''emit-token'' (n + 1) (token_frame js i)))"
    and "ok \<equiv> AnsDone (Inr ())"
  shows "i \<le> k \<Longrightarrow> frames = trace @ after \<Longrightarrow>
      fails_on at generate_failures (gave_up js plan name frames k TheClient) FaultReceive"
    and "i \<le> k \<Longrightarrow> frames = trace @ FSelect ''server'' ''token'' # after \<Longrightarrow>
      fails_on (\<lambda>bs. at (tok # bs)) generate_failures (gave_up js plan name frames k TheClient) FaultReceive"
    and "Suc i \<le> k \<Longrightarrow> frames = trace @ FSelect ''server'' ''token'' # token_frame js i # after \<Longrightarrow>
      fails_on (\<lambda>bs. at (tok # dat # bs)) generate_failures (gave_up js plan name frames k TheClient) FaultSend"
    and "Suc i \<le> k \<Longrightarrow> cancels cancel_after (Suc i) \<Longrightarrow>
      frames = trace @ FSelect ''server'' ''token'' # token_frame js i # FSelect ''client'' ''cancel'' # after \<Longrightarrow>
      fails_on (\<lambda>bs. at (tok # dat # ok # bs)) generate_failures (gave_up js plan name frames k TheClient) FaultSend"
proof -
  note fails = client_rounds_fail [OF js, where name = name and cancel_after = cancel_after and i = i
      and plan = plan and n = n and trace = trace, folded at_def tok_def dat_def ok_def]
  show "fails_on at generate_failures (gave_up js plan name frames k TheClient) FaultReceive"
    if "i \<le> k" "frames = trace @ after"
    by (rule fails_onI, frule (1) fails(1))
      (use that gave_upI [of i k frames "trace @ []" after js plan name TheClient] in \<open>simp add: gives_up_def del: upt_Suc\<close>)
  show "fails_on (\<lambda>bs. at (tok # bs)) generate_failures (gave_up js plan name frames k TheClient) FaultReceive"
    if "i \<le> k" "frames = trace @ FSelect ''server'' ''token'' # after"
    by (rule fails_onI, frule (1) fails(2))
      (use that gave_upI [of i k frames "trace @ [FSelect ''server'' ''token'']" after js plan name TheClient] in \<open>simp add: gives_up_def del: upt_Suc\<close>)
  show "fails_on (\<lambda>bs. at (tok # dat # bs)) generate_failures (gave_up js plan name frames k TheClient) FaultSend"
    if "Suc i \<le> k" "frames = trace @ FSelect ''server'' ''token'' # token_frame js i # after"
    by (rule fails_onI, frule (1) fails(3))
      (use that gave_upI [of "Suc i" k frames "trace @ [FSelect ''server'' ''token'', token_frame js i]" after js plan name TheClient] in \<open>simp add: gives_up_def del: upt_Suc\<close>)
  show "fails_on (\<lambda>bs. at (tok # dat # ok # bs)) generate_failures (gave_up js plan name frames k TheClient) FaultSend"
    if "Suc i \<le> k" "cancels cancel_after (Suc i)"
      "frames = trace @ FSelect ''server'' ''token'' # token_frame js i # FSelect ''client'' ''cancel'' # after"
    by (rule fails_onI, frule (1) fails(4) [OF _ _ that(2)])
      (use that gave_upI [of "Suc i" k frames "trace @ [FSelect ''server'' ''token'', token_frame js i, FSelect ''client'' ''cancel'']" after js plan name TheClient] in \<open>simp add: gives_up_def del: upt_Suc\<close>)
qed

lemma server_rounds_graceful:
  fixes js :: "'v json_ops" and trace :: "'v frame list" and name :: string and limit :: nat
    and i :: nat and plan :: prepared_plan and n :: u64
  defines "at \<equiv> \<lambda>as. status_of (server_from js name limit (so_far i)
    (replaying (generate_machine plan generate_server ''decide'' n) trace as None))"
    and "cancel \<equiv> AnsEnvelope (Inr (client_choice plan (n + 2) ''cancel''))"
    and "ok \<equiv> AnsDone (Inr ())"
  shows "i \<le> k \<Longrightarrow> i < limit \<Longrightarrow> frames = trace @ after \<Longrightarrow>
      fails_on at generate_failures (gave_up js plan name frames k TheServer) FaultSend"
    and "i \<le> k \<Longrightarrow> i < limit \<Longrightarrow> frames = trace @ FSelect ''server'' ''token'' # after \<Longrightarrow>
      fails_on (\<lambda>bs. at (ok # bs)) generate_failures (gave_up js plan name frames k TheServer) FaultSend"
    and "Suc i \<le> k \<Longrightarrow> i < limit \<Longrightarrow> frames = trace @ FSelect ''server'' ''token'' # token_frame js i # after \<Longrightarrow>
      fails_on (\<lambda>bs. at (ok # ok # bs)) generate_failures (gave_up js plan name frames k TheServer) FaultReceive"
    and "Suc i \<le> k \<Longrightarrow> i < limit \<Longrightarrow> frames = trace @ FSelect ''server'' ''token'' # token_frame js i # FSelect ''client'' ''cancel'' # after \<Longrightarrow>
      fails_on (\<lambda>bs. at (ok # ok # cancel # bs)) generate_failures (gave_up js plan name frames k TheServer) FaultReceive"
    and "i \<le> k \<Longrightarrow> limit \<le> i \<Longrightarrow> frames = trace @ after \<Longrightarrow>
      fails_on at generate_failures (gave_up js plan name frames k TheServer) FaultSend"
proof -
  note fails = server_rounds_fail [where name = name and limit = limit and i = i and js = js
      and plan = plan and n = n and trace = trace, folded at_def cancel_def ok_def]
  show "fails_on at generate_failures (gave_up js plan name frames k TheServer) FaultSend"
    if "i \<le> k" "i < limit" "frames = trace @ after"
    by (rule fails_onI, frule (1) fails(1) [OF _ _ that(2)])
      (use that gave_upI [of i k frames "trace @ []" after js plan name TheServer] in \<open>simp add: gives_up_def del: upt_Suc\<close>)
  show "fails_on (\<lambda>bs. at (ok # bs)) generate_failures (gave_up js plan name frames k TheServer) FaultSend"
    if "i \<le> k" "i < limit" "frames = trace @ FSelect ''server'' ''token'' # after"
    by (rule fails_onI, frule (1) fails(2) [OF _ _ that(2)])
      (use that gave_upI [of i k frames "trace @ [FSelect ''server'' ''token'']" after js plan name TheServer] in \<open>simp add: gives_up_def del: upt_Suc\<close>)
  show "fails_on (\<lambda>bs. at (ok # ok # bs)) generate_failures (gave_up js plan name frames k TheServer) FaultReceive"
    if "Suc i \<le> k" "i < limit" "frames = trace @ FSelect ''server'' ''token'' # token_frame js i # after"
    by (rule fails_onI, frule (1) fails(3) [OF _ _ that(2)])
      (use that gave_upI [of "Suc i" k frames "trace @ [FSelect ''server'' ''token'', token_frame js i]" after js plan name TheServer] in \<open>simp add: gives_up_def del: upt_Suc\<close>)
  show "fails_on (\<lambda>bs. at (ok # ok # cancel # bs)) generate_failures (gave_up js plan name frames k TheServer) FaultReceive"
    if "Suc i \<le> k" "i < limit" "frames = trace @ FSelect ''server'' ''token'' # token_frame js i # FSelect ''client'' ''cancel'' # after"
    by (rule fails_onI, frule (1) fails(4) [OF _ _ that(2)])
      (use that gave_upI [of "Suc i" k frames "trace @ [FSelect ''server'' ''token'', token_frame js i, FSelect ''client'' ''cancel'']" after js plan name TheServer] in \<open>simp add: gives_up_def del: upt_Suc\<close>)
  show "fails_on at generate_failures (gave_up js plan name frames k TheServer) FaultSend"
    if "i \<le> k" "limit \<le> i" "frames = trace @ after"
    by (rule fails_onI, frule (1) fails(5) [OF _ _ that(2)])
      (use that gave_upI [of i k frames "trace @ []" after js plan name TheServer] in \<open>simp add: gives_up_def del: upt_Suc\<close>)
qed

section \<open>The two workers\<close>

lemma client_graceful_rounds:
  assumes js: "json_faithful js" and "frames = trace @ sent_frames (token_log plan js cancel_after i left n)"
    and "tokens_at_end cancel_after i left \<le> k"
  shows "graceful_on (\<lambda>as. status_of (client_from js name cancel_after (so_far i)
      (replaying (generate_machine plan generate_client ''decide'' n) trace as None)))
    generate_failures (gave_up js plan name frames k TheClient)
    (own TheClient (token_log plan js cancel_after i left n))"
  using assms(2,3)
proof (induction left arbitrary: i n trace)
  case 0
  then show ?case by (simp add: closing_def client_rounds_graceful(1) [OF js])
next
  case (Suc left)
  have i: "Suc i \<le> k" using Suc.prems(2) tokens_at_end_ge [of "Suc i" cancel_after left]
    by (simp split: if_splits)
  show ?case
  proof (cases "cancels cancel_after (Suc i)")
    case True
    with Suc.prems i show ?thesis
      by (simp add: closing_def client_rounds_graceful [OF js])
  next
    case False
    with Suc.IH [of "trace @ [FSelect ''server'' ''token'', token_frame js i, FSelect ''client'' ''continue'']" "Suc i" "n + 3"]
      Suc.prems i show ?thesis
      by (simp add: client_rounds_graceful [OF js] client_rounds_replay [OF js] add.assoc del: upt_Suc)
  qed
qed

lemma server_graceful_rounds:
  assumes "frames = trace @ sent_frames (token_log plan js cancel_after i left n)"
    and "tokens_at_end cancel_after i left \<le> k" and "i + left = limit"
  shows "graceful_on (\<lambda>as. status_of (server_from js name limit (so_far i)
      (replaying (generate_machine plan generate_server ''decide'' n) trace as None)))
    generate_failures (gave_up js plan name frames k TheServer)
    (own TheServer (token_log plan js cancel_after i left n))"
  using assms
proof (induction left arbitrary: i n trace)
  case 0
  then show ?case by (simp add: closing_def server_rounds_graceful(5))
next
  case (Suc left)
  have i: "Suc i \<le> k" "i < limit" using Suc.prems tokens_at_end_ge [of "Suc i" cancel_after left]
    by (simp_all split: if_splits)
  show ?case
  proof (cases "cancels cancel_after (Suc i)")
    case True
    with Suc.prems i show ?thesis
      by (simp add: closing_def server_rounds_graceful(1-4))
  next
    case False
    with Suc.IH [of "trace @ [FSelect ''server'' ''token'', token_frame js i, FSelect ''client'' ''continue'']" "Suc i" "n + 3"]
      Suc.prems i show ?thesis
      by (simp add: server_rounds_graceful(1-3) server_rounds_replay add.assoc del: upt_Suc)
  qed
qed

lemma generation_graceful:
  assumes plan: "compile_prepared ext generate = Inr plan" and js: "json_faithful js" and cancel: "cancel_after \<noteq> Some 0"
  shows "graceful (generation_workers js plan prompt limit cancel_after name p) generate_failures
    (gave_up js plan name (sent_frames (generation_log plan js prompt cancel_after limit))
      (tokens_given cancel_after limit) p) []
    (own p (generation_log plan js prompt cancel_after limit))"
proof -
  let ?prompt = "FData ''client'' ''server'' ''prompt'' (Some (js_text js prompt))"
  let ?frames = "sent_frames (generation_log plan js prompt cancel_after limit)"
  have start: "?frames = [] @ ?frames" by simp
  show ?thesis
  proof (cases p)
    case TheClient
    let ?w = "run_generate_client_plan (replay_transport name) js plan prompt cancel_after"
    have "fails_on (\<lambda>bs. status_of (?w \<lparr>rp_answers = bs, rp_pending = None\<rparr>)) generate_failures
        (gave_up js plan name ?frames (tokens_given cancel_after limit) TheClient) FaultSend"
      using cancel gave_upI [OF _ start, of 0 "tokens_given cancel_after limit" js plan name TheClient]
      by (intro fails_onI) (simp add: run_generate_client_plan_def generate_from_plan [OF plan] fail_run
        report_failed, simp add: replay_transport_def)
    moreover have "?w \<lparr>rp_answers = AnsDone (Inr ()) # as, rp_pending = None\<rparr> =
        client_from js name cancel_after (so_far 0)
          (replaying (generate_machine plan generate_client ''decide'' 1) [?prompt] as None)" for as
      using cancel
      by (simp add: run_generate_client_plan_def generate_from_plan [OF plan] round_run client_from_def)
        (simp add: replay_transport_def)
    ultimately show ?thesis
      using client_graceful_rounds [OF js, of ?frames "[?prompt]" plan cancel_after 0 limit 1
        "tokens_given cancel_after limit" name] TheClient tokens_at_end_given [OF cancel, of limit]
      by (simp add: graceful_iff generation_log_def generation_workers_def)
  next
    case TheServer
    let ?w = "run_generate_server_plan (replay_transport name) js plan limit"
    have "fails_on (\<lambda>bs. status_of (?w \<lparr>rp_answers = bs, rp_pending = None\<rparr>)) generate_failures
        (gave_up js plan name ?frames (tokens_given cancel_after limit) TheServer) FaultReceive"
      using gave_upI [OF _ start, of 0 "tokens_given cancel_after limit" js plan name TheServer]
      by (intro fails_onI) (simp add: run_generate_server_plan_def generate_from_plan [OF plan] fail_run
        report_failed, simp add: replay_transport_def)
    moreover have "?w \<lparr>rp_answers = AnsEnvelope (Inr (plan_envelope plan ''start'' 0 ?prompt)) # as, rp_pending = None\<rparr> =
        server_from js name limit (so_far 0)
          (replaying (generate_machine plan generate_server ''decide'' 1) [?prompt] as None)" for as
      using js
      by (simp add: run_generate_server_plan_def generate_from_plan [OF plan] round_run server_from_def)
        (simp add: replay_transport_def)
    ultimately show ?thesis
      using server_graceful_rounds [of ?frames "[?prompt]" plan js cancel_after 0 limit 1
        "tokens_given cancel_after limit" limit name] TheServer tokens_at_end_given [OF cancel, of limit]
      by (simp add: graceful_iff generation_log_def generation_workers_def)
  qed
qed

section \<open>How many operations there are\<close>

definition cancelled :: "nat option \<Rightarrow> nat \<Rightarrow> bool" where
  "cancelled cancel_after limit \<longleftrightarrow> (case cancel_after of None \<Rightarrow> False | Some n \<Rightarrow> n \<le> limit)"

definition operations_given :: "fault_operation \<Rightarrow> who \<Rightarrow> nat option \<Rightarrow> nat \<Rightarrow> nat" where
  \<comment> \<open>the sends or receives of one side in a run without a fault\<close>
  "operations_given operation p cancel_after limit =
     (let k = tokens_given cancel_after limit; stop = cancelled cancel_after limit in
      if (operation = FaultSend) = (p = TheClient) then (if stop then k + 2 else k + 1)
      else (if stop then 2 * k else 2 * k + 1))"

lemma token_log_uses:
  assumes "\<And>n. cancel_after = Some n \<Longrightarrow> i < n"
  shows "uses operation (own p (token_log plan js cancel_after i left n)) +
      (if (operation = FaultSend) = (p = TheClient) then i else 2 * i) =
    (let k = tokens_given cancel_after (i + left); stop = cancelled cancel_after (i + left) in
     if (operation = FaultSend) = (p = TheClient) then (if stop then k + 1 else k)
     else (if stop then 2 * k else 2 * k + 1))"
  using assms
proof (induction left arbitrary: i n)
  case 0
  then show ?case
    by (cases cancel_after; cases operation; cases p)
      (auto simp: closing_def uses_def tokens_given_def cancelled_def Let_def)
next
  case (Suc left)
  show ?case
  proof (cases "cancels cancel_after (Suc i)")
    case True
    with Suc.prems show ?thesis
      by (cases cancel_after; cases operation; cases p)
        (auto simp: closing_def uses_def tokens_given_def cancelled_def cancels_def Let_def min_def)
  next
    case False
    with Suc.prems have "\<And>n. cancel_after = Some n \<Longrightarrow> Suc i < n" by (auto simp: cancels_def)
    from Suc.IH [OF this, of "n + 3"] False show ?thesis
      by (cases operation; cases p) (simp_all add: uses_Cons Let_def split: if_splits)
  qed
qed

lemma generation_uses:
  assumes "cancel_after \<noteq> Some 0"
  shows "uses operation (own p (generation_log plan js prompt cancel_after limit)) =
    operations_given operation p cancel_after limit"
proof -
  have "\<And>n. cancel_after = Some n \<Longrightarrow> 0 < n" using assms by auto
  from token_log_uses [of cancel_after 0 operation p plan js limit 1, OF this] show ?thesis
  by (cases operation; cases p) (auto simp: generation_log_def operations_given_def uses_Cons Let_def split: if_splits)
qed

end
