(* ===== verification/Generation_Properties.thy ===== *)
theory Generation_Properties
  imports Generation Plain_Serde
begin

text \<open>
  The demonstration in memory completes under every schedule of its two threads.
\<close>

section \<open>Every schedule of the token generation\<close>

definition demo_reached :: "wire_encoding \<Rightarrow> 'v execution_report \<Rightarrow> 'v execution_report
    \<Rightarrow> 'v demo_summary" where
  "demo_reached encoding client server =
     demo_report (case encoding of ReferenceEncoding \<Rightarrow> ''memory'' | CompactEncoding \<Rightarrow> ''memory+compact'')
       client server"

lemma memory_demo_of_ended:
  assumes "du_thread d TheClient = Ended (Inr client)" and "du_thread d TheServer = Ended (Inr server)"
  shows "memory_demo_of encoding d = Some (Inr (demo_reached encoding client server))"
  using assms by (cases encoding) (simp_all add: memory_demo_of_def joined_def memory_plan_demo_def demo_with_def
      join_workers_def demo_reached_def)

lemma generation_result_fields [simp]:
  "er_tokens (generation_result js plan name prompt cancel_after limit p) = so_far (tokens_given cancel_after limit)"
  "er_completed (generation_result js plan name prompt cancel_after limit p)"
  "er_successful (generation_result js plan name prompt cancel_after limit p)"
  "er_failure (generation_result js plan name prompt cancel_after limit p) = None"
  "er_final_state (generation_result js plan name prompt cancel_after limit p) = ''end''"
  "er_trace (generation_result js plan name prompt cancel_after limit p) =
     sent_frames (generation_log plan js prompt cancel_after limit)"
  by (simp_all add: generation_result_def generation_report_def Let_def)

lemma generation_log_length:
  assumes "cancel_after \<noteq> Some 0"
  shows "length (generation_log plan js prompt cancel_after limit) = 6 * tokens_given cancel_after limit + 6"
  using token_log_length [of plan js cancel_after 0 limit 1] tokens_at_end_given [OF assms]
  by (simp add: generation_log_def)

text \<open>C5: the demonstration in memory completes whatever the scheduler does.  On any compilation of the
  generate conversation, with a codec that carries the envelopes of the session, every interleaving
  of the two threads over the two channels, dropped ends included, can go on until step 6k + 8 and
  no further, where k is the number of tokens asked for or, if the client cancels earlier, that
  number; then both workers have returned, and the demonstration reports that both received or sent
  exactly the tokens 1 to k, completed successfully in the same state and recorded the same trace.
  The one schedule that the executable form follows therefore returns this report.\<close>

theorem memory_demo_completes:
  fixes js :: "'v json_ops" and sd :: "'v serde" and d :: "('v, 'v execution_report) duo"
  assumes plan: "compile_prepared ext generate = Inr plan" and js: "json_faithful js"
    and cancel: "cancel_after \<noteq> Some 0"
    and codec: "list_all (carried sd (codec_for_plan encoding plan))
      (sent_envelopes (generation_log plan js prompt cancel_after limit))"
    and run: "duo_run sd (codec_for_plan encoding plan) (generation_workers js plan prompt limit cancel_after
      (memory_plan (codec_for_plan encoding plan))) n d"
  shows "\<exists>summary.
    run_memory_plan_demo sd js plan prompt limit cancel_after encoding = Some (Inr summary) \<and>
    n \<le> 6 * tokens_given cancel_after limit + 8 \<and>
    (if n = 6 * tokens_given cancel_after limit + 8 then memory_demo_of encoding d = Some (Inr summary)
     else \<exists>d'. duo_step sd (codec_for_plan encoding plan) (generation_workers js plan prompt limit cancel_after
       (memory_plan (codec_for_plan encoding plan))) d d') \<and>
    dr_trace_equivalent summary \<and> dr_outcome_equivalent summary \<and> er_successful (dr_client summary) \<and>
    er_tokens (dr_client summary) = map (\<lambda>i. word_of_nat i + 1) [0..<tokens_given cancel_after limit] \<and>
    er_tokens (dr_server summary) = er_tokens (dr_client summary)"
proof -
  let ?codec = "codec_for_plan encoding plan"
  let ?w = "generation_workers js plan prompt limit cancel_after (memory_plan ?codec)"
  let ?log = "generation_log plan js prompt cancel_after limit"
  let ?r = "generation_result js plan (memory_plan ?codec) prompt cancel_after limit"
  let ?summary = "demo_reached encoding (?r TheClient) (?r TheServer)"
  have steps: "6 * tokens_given cancel_after limit + 8 = length ?log + 2"
    using generation_log_length [OF cancel, of plan js prompt limit] by simp
  note follows = generation_follows [OF plan js cancel, of prompt limit "memory_plan ?codec"]
  have codec': "\<forall>p e. Sends p e \<in> set ?log \<longrightarrow> carried sd ?codec e"
    using codec sends_sent by (fastforce simp: list_all_iff)
  note ends = every_schedule_ends [where r = "\<lambda>p. Inr (?r p)", OF run generation_log_smooth codec' follows]
  have ended: "memory_demo_of encoding d = Some (Inr ?summary)"
    if "\<And>p. du_thread d p = Ended (Inr (?r p))" for d
    using memory_demo_of_ended that by blast
  have "expecting sd ?codec ?w (\<lambda>p. Inr (?r p)) ?log duo_start"
    by (rule expecting_start) (rule generation_log_smooth, rule codec', rule follows)
  from one_schedule_ends [OF this] have "run_memory_plan_demo sd js plan prompt limit cancel_after encoding = Some (Inr ?summary)"
    by (auto simp: run_memory_plan_demo_def Let_def ended)
  moreover have "memory_demo_of encoding d = Some (Inr ?summary)" if "n = length ?log + 2"
    by (rule ended) (rule ends(2) [OF that])
  moreover have "\<exists>d'. duo_step sd ?codec ?w d d'" if "n \<noteq> length ?log + 2"
    by (rule ends(4)) (use ends(1) that in simp)
  moreover have "dr_trace_equivalent ?summary" "dr_outcome_equivalent ?summary" "er_successful (dr_client ?summary)"
    "er_tokens (dr_client ?summary) = so_far (tokens_given cancel_after limit)"
    "er_tokens (dr_server ?summary) = er_tokens (dr_client ?summary)"
    by (simp_all add: demo_reached_def demo_report_def)
  ultimately show ?thesis
    unfolding steps using ends(1) by (intro exI [of _ ?summary]) (auto simp: token_id_at_def)
qed

lemma plain_json_faithful: "json_faithful plain_json"
  by (simp add: json_faithful_def plain_json_def)

definition short_envelope :: "string envelope \<Rightarrow> bool" where
  "short_envelope e \<longleftrightarrow>
     (let texts = [env_wire e, env_conversation e, env_identity e, env_state e] @ frame_texts (env_frame e) in
      length texts \<le> 10 \<and> list_all (\<lambda>s. length s \<le> 1000) texts) \<and>
     (case env_frame e of FData _ _ _ (Some v) \<Rightarrow> v \<noteq> plain_null | _ \<Rightarrow> True)"

lemma put_texts_length: "list_all (\<lambda>s. length s \<le> k) ss \<Longrightarrow> length (put_texts ss) \<le> length ss * (k + 4)"
  by (induction ss) auto

lemma short_carried:
  assumes "short_envelope e"
  shows "carried plain_serde CodecReference e"
proof -
  let ?texts = "[env_wire e, env_conversation e, env_identity e, env_state e] @ frame_texts (env_frame e)"
  from assms have short: "list_all (\<lambda>s. length s \<le> 1000) ?texts" "length ?texts \<le> 10"
    and null: "null_free plain_serde e"
    by (auto simp: short_envelope_def Let_def null_free_def plain_serde_def)
  have "length (put_texts ?texts) \<le> 10 * 1004"
    using put_texts_length [OF short(1)] mult_le_mono1 [OF short(2), of 1004] by simp
  moreover have "list_all (\<lambda>s. length s \<le> MAX_U32) ?texts"
    by (rule list.pred_mono_strong [OF short(1)]) (simp add: MAX_U32_def)
  moreover have "length ?texts \<le> MAX_U32" using short(2) by (simp add: MAX_U32_def)
  ultimately obtain bytes where "encode_envelope plain_serde e = (Inr bytes :: string runtime_error + _)"
    unfolding plain_serde_def by (auto simp: encode_envelope_def pack_def result_simps MAX_ENVELOPE_BYTES_def)
  with ref.enc_dec [OF conjI [OF plain_faithful(1) null] this] show ?thesis
    by (auto simp: carried_def carries_def codec_encode_def codec_decode_def)
qed

lemma short_envelopes:
  "list_all short_envelope (sent_envelopes (generation_log generate_plan plain_json ''hi'' (Some 1) 2))"
  by code_simp

lemma memory_demo_completes_witness:
  "\<exists>summary. run_memory_plan_demo plain_serde plain_json generate_plan ''hi'' 2 (Some 1) ReferenceEncoding =
      Some (Inr summary) \<and> er_tokens (dr_client summary) = [1] \<and> dr_outcome_equivalent summary"
proof -
  have carried: "list_all (carried plain_serde (codec_for_plan ReferenceEncoding generate_plan))
      (sent_envelopes (generation_log generate_plan plain_json ''hi'' (Some 1) 2))"
    by (rule list.pred_mono_strong [OF short_envelopes]) (simp add: codec_for_plan_def short_carried)
  have tokens: "tokens_given (Some 1) 2 = 1" by (simp add: tokens_given_def)
  have cancel: "Some 1 \<noteq> Some (0 :: nat)" by simp
  from memory_demo_completes [OF generate_compiles plain_json_faithful cancel carried duo_starts]
  show ?thesis unfolding tokens by auto
qed

end
