(* ===== verification/Fault_Properties.thy ===== *)
theory Fault_Properties
  imports Fault_Generation Generation_Properties
begin

text \<open>
  The demonstration of a fault under every schedule of its two threads, and two schedules of one
  demonstration with different outcomes.
\<close>

section \<open>The checks of a plan\<close>

lemma generate_endpoints:
  assumes "compile_prepared ext generate = Inr plan"
  shows "pp_endpoints plan = [project_role generate generate_client, project_role generate generate_server]"
proof -
  have "compiled_endpoints generate = [project_role generate generate_client, project_role generate generate_server]"
    by (simp add: compiled_endpoints_def project_validated_def generate_def generate_client_def generate_server_def)
  with assms show ?thesis by (auto elim: compile_prepared_shape)
qed

lemma generate_edges:
  assumes "s \<in> set (conv_states generate)" and "failure_target s failure = Some y"
  shows "failure \<in> generate_failures"
proof -
  have "bt_get transport_edges failure \<noteq> None" using assms by (auto simp: generate_def)
  then show "failure \<in> generate_failures"
    by (auto simp: transport_edges_def generate_failures_def split: if_splits)
qed

lemma generate_handles:
  assumes plan: "compile_prepared ext generate = Inr plan" and "plan_handles plan failure"
  shows "failure \<in> generate_failures"
  using assms(2) by (auto simp: plan_handles_def generate_endpoints [OF plan] list_ex_iff project_role_def
      intro: generate_edges)

lemma check_fault_generate:
  assumes plan: "compile_prepared ext generate = Inr plan" and check: "check_fault plan fault = (Inr () :: 'v runtime_error + unit)"
  obtains p where "role_name p = fp_role fault" and "fp_failure fault \<in> generate_failures"
    and "peer_failure_of fault \<in> generate_failures"
proof -
  from check have role: "find_endpoint (fp_role fault) (pp_endpoints plan) \<noteq> None"
    and failure: "plan_handles plan (fp_failure fault)"
    and peer: "\<And>failure. fp_peer_failure fault = Some failure \<Longrightarrow> plan_handles plan failure"
    by (auto simp: check_fault_def result_simps split: option.splits)
  have "fp_role fault = ''client'' \<or> fp_role fault = ''server''"
    using role by (auto simp: generate_endpoints [OF plan] find_endpoint_def project_role_def split: if_splits)
  then obtain p where "role_name p = fp_role fault" using role_name.simps by metis
  moreover have "peer_failure_of fault \<in> generate_failures"
    using generate_handles [OF plan peer]
    by (auto simp: peer_failure_of_def generate_failures_def split: option.splits)
  ultimately show thesis using generate_handles [OF plan failure] by (intro that)
qed

section \<open>Every schedule of a fault demonstration\<close>

definition side_report :: "who \<Rightarrow> 'v demo_summary \<Rightarrow> 'v execution_report" where
  "side_report p summary = (case p of TheClient \<Rightarrow> dr_client summary | TheServer \<Rightarrow> dr_server summary)"

definition not_fired :: "fault_plan \<Rightarrow> 'v runtime_error" where
  "not_fired fault = RtApplication (AppText (''fault plan did not fire: '' @ fp_role fault @ '' '' @
     fault_operation_str (fp_operation fault) @ '' occurrence '' @ show_nat (fp_occurrence fault) @
     '' was not reached''))"

lemma memory_fault_demo_ended:
  fixes d :: "('v, 'v execution_report) fault_duo"
  assumes check: "check_fault plan fault = (Inr () :: 'v runtime_error + unit)" and occurrence: "0 < fp_occurrence fault"
    and "fd_thread d TheClient = FtEnded (Inr client)" and "fd_thread d TheServer = FtEnded (Inr server)"
  shows "memory_fault_demo_of plan fault d =
    Some (if fd_fired d then Inr ((demo_report ''memory+fault'' client server)\<lparr>dr_fault_plan := Some fault\<rparr>)
      else Inl (not_fired fault))"
  using assms by (simp add: memory_fault_demo_of_def memory_plan_fault_demo_def with_fired_def joined_def
      join_workers_def not_fired_def)

definition failed_before_end :: "who \<Rightarrow> string \<Rightarrow> 'v frame list \<Rightarrow> nat \<Rightarrow> 'v execution_report \<Rightarrow> bool" where
  \<comment> \<open>the failure is the last of a part of the frames, and at most \<open>k\<close> tokens were exchanged\<close>
  "failed_before_end p failure frames k rep \<longleftrightarrow>
     er_role rep = role_name p \<and> er_completed rep \<and> \<not> er_successful rep \<and> er_failure rep = Some failure \<and>
     er_final_state rep = failed_state failure \<and>
     (\<exists>before after. frames = before @ after \<and> er_trace rep = before @ [FFault (role_name p) failure]) \<and>
     (\<exists>i \<le> k. er_tokens rep = map (\<lambda>i. word_of_nat i + 1) [0..<i])"

lemma gave_up_failed:
  "gave_up js plan name frames k p failure x \<Longrightarrow> \<exists>rep. x = Inr rep \<and> failed_before_end p failure frames k rep"
proof -
  assume "gave_up js plan name frames k p failure x"
  then obtain n i before after where x: "x = Inr (failed_report js plan (generate_role p) name failure n (so_far i)
      (before @ [FFault (role_name p) failure]))" and i: "i \<le> k" and frames: "frames = before @ after"
    by (auto simp: gave_up_def)
  have "failed_before_end p failure frames k (failed_report js plan (generate_role p) name failure n (so_far i)
      (before @ [FFault (role_name p) failure]))"
    unfolding failed_before_end_def
  proof (intro conjI)
    show "\<exists>j \<le> k. er_tokens (failed_report js plan (generate_role p) name failure n (so_far i)
        (before @ [FFault (role_name p) failure])) = map (\<lambda>i. word_of_nat i + 1) [0..<j]"
      using i by (intro exI [of _ i]) (simp add: failed_report_def token_id_at_def)
  qed (use frames in \<open>cases p; simp add: failed_report_def\<close>)+
  with x show ?thesis by blast
qed

lemma fault_demo_over:
  fixes d :: "('v, 'v execution_report) fault_duo"
  assumes check: "check_fault plan fault = (Inr () :: 'v runtime_error + unit)" and occurrence: "0 < fp_occurrence fault"
    and p: "role_name p = fp_role fault"
    and over: "fault_over (gave_up js plan name frames k) (\<lambda>p. Inr (r p)) fault p whole d"
  shows "\<exists>result. memory_fault_demo_of plan fault d = Some result \<and>
    (if fp_occurrence fault \<le> whole
     then \<exists>summary. result = Inr summary \<and> dr_fault_plan summary = Some fault \<and>
       failed_before_end p (fp_failure fault) frames k (side_report p summary) \<and>
       (side_report (other p) summary = r (other p) \<or>
        failed_before_end (other p) (peer_failure_of fault) frames k (side_report (other p) summary))
     else result = Inl (not_fired fault))"
proof (cases "fp_occurrence fault \<le> whole")
  case True
  with over obtain x y where fired: "fd_fired d" and x: "fd_thread d p = FtEnded x" "gave_up js plan name frames k p (fp_failure fault) x"
    and y: "fd_thread d (other p) = FtEnded y" "y = Inr (r (other p)) \<or>
      gave_up js plan name frames k (other p) (peer_failure_of fault) y"
    by (auto simp: fault_over_def)
  from gave_up_failed [OF x(2)] obtain rep where rep: "x = Inr rep" "failed_before_end p (fp_failure fault) frames k rep"
    by blast
  from y(2) gave_up_failed obtain rep' where rep': "y = Inr rep'" "rep' = r (other p) \<or>
      failed_before_end (other p) (peer_failure_of fault) frames k rep'"
    by blast
  show ?thesis
  proof (cases p)
    case TheClient
    with x(1) y(1) rep(1) rep'(1) memory_fault_demo_ended [OF check occurrence, of d rep rep'] fired True rep(2) rep'(2)
    show ?thesis by (simp add: side_report_def demo_report_def)
  next
    case TheServer
    with x(1) y(1) rep(1) rep'(1) memory_fault_demo_ended [OF check occurrence, of d rep' rep] fired True rep(2) rep'(2)
    show ?thesis by (simp add: side_report_def demo_report_def)
  qed
next
  case False
  with over memory_fault_demo_ended [OF check occurrence, of d "r TheClient" "r TheServer"] show ?thesis
    by (simp add: fault_over_def)
qed

definition fault_demo_outcome :: "'v json_ops \<Rightarrow> prepared_plan \<Rightarrow> string \<Rightarrow> nat \<Rightarrow> nat option \<Rightarrow> fault_plan
    \<Rightarrow> 'v runtime_error + 'v demo_summary \<Rightarrow> bool" where
  "fault_demo_outcome js plan prompt limit cancel_after fault result \<longleftrightarrow>
     (let frames = sent_frames (generation_log plan js prompt cancel_after limit);
          k = tokens_given cancel_after limit;
          p = (if fp_role fault = ''client'' then TheClient else TheServer)
      in if fp_occurrence fault \<le> operations_given (fp_operation fault) p cancel_after limit
         then \<exists>summary. result = Inr summary \<and> dr_fault_plan summary = Some fault \<and>
           failed_before_end p (fp_failure fault) frames k (side_report p summary) \<and>
           (er_successful (side_report (other p) summary) \<and> er_trace (side_report (other p) summary) = frames \<or>
            failed_before_end (other p) (peer_failure_of fault) frames k (side_report (other p) summary))
         else result = Inl (not_fired fault))"

lemma fault_over_outcome:
  fixes d :: "('v, 'v execution_report) fault_duo" and name
  assumes check: "check_fault plan fault = (Inr () :: 'v runtime_error + unit)" and occurrence: "0 < fp_occurrence fault"
    and p: "role_name p = fp_role fault"
    and over: "fault_over (gave_up js plan name (sent_frames (generation_log plan js prompt cancel_after limit))
        (tokens_given cancel_after limit))
      (\<lambda>p. Inr (generation_result js plan name prompt cancel_after limit p)) fault p
      (operations_given (fp_operation fault) p cancel_after limit) d"
  shows "\<exists>result. memory_fault_demo_of plan fault d = Some result \<and>
    fault_demo_outcome js plan prompt limit cancel_after fault result"
proof -
  let ?frames = "sent_frames (generation_log plan js prompt cancel_after limit)"
    and ?k = "tokens_given cancel_after limit" and ?r = "generation_result js plan name prompt cancel_after limit"
    and ?whole = "operations_given (fp_operation fault) p cancel_after limit"
  have side: "(if fp_role fault = ''client'' then TheClient else TheServer) = p" using p by (cases p) auto
  obtain result where demo: "memory_fault_demo_of plan fault d = Some result"
    and result: "if fp_occurrence fault \<le> ?whole
      then \<exists>summary. result = Inr summary \<and> dr_fault_plan summary = Some fault \<and>
        failed_before_end p (fp_failure fault) ?frames ?k (side_report p summary) \<and>
        (side_report (other p) summary = ?r (other p) \<or>
         failed_before_end (other p) (peer_failure_of fault) ?frames ?k (side_report (other p) summary))
      else result = Inl (not_fired fault)"
    using fault_demo_over [OF check occurrence p over] by blast
  have "er_successful (?r q) \<and> er_trace (?r q) = ?frames" for q
    by (simp add: generation_result_fields)
  then have "fault_demo_outcome js plan prompt limit cancel_after fault result"
    using result unfolding fault_demo_outcome_def Let_def side by (auto split: if_splits)
  with demo show ?thesis by blast
qed

text \<open>C6: a fault demonstration ends, with a typed failure, whatever the scheduler does.  On any
  compilation of the generate conversation and any fault plan that passes the checks, every
  interleaving of the two threads, with the flag they share set and the channels cut in separate
  steps, takes at most 12k + 18 steps for k tokens, and as long as a thread is running one of them
  can go on.  When both have ended: if the planned role has at least as many operations of the
  planned kind as the plan's occurrence, which the number of tokens and a cancellation determine,
  then the report carries the plan, the planned role reports the planned failure at the end of a
  part of the frames of the run without a fault, and its peer the plan's failure for it in the same
  way, unless it had everything it needed and completed; otherwise the demonstration is refused
  because the fault did not fire.  The executable schedule returns such a result.\<close>

theorem fault_demo_ends:
  fixes js :: "'v json_ops" and sd :: "'v serde" and d :: "('v, 'v execution_report) fault_duo"
  assumes plan: "compile_prepared ext generate = Inr plan" and js: "json_faithful js"
    and cancel: "cancel_after \<noteq> Some 0"
    and codec: "list_all (carried sd CodecReference)
      (sent_envelopes (generation_log plan js prompt cancel_after limit))"
    and check: "check_fault plan fault = (Inr () :: 'v runtime_error + unit)" and occurrence: "0 < fp_occurrence fault"
    and run: "fault_run sd CodecReference
      (generation_workers js plan prompt limit cancel_after (memory_plan CodecReference)) fault n d"
  shows "n \<le> 12 * tokens_given cancel_after limit + 18 \<and>
    ((\<exists>d'. fault_step sd CodecReference
        (generation_workers js plan prompt limit cancel_after (memory_plan CodecReference)) fault d d') \<or>
     (\<exists>result. memory_fault_demo_of plan fault d = Some result \<and>
        fault_demo_outcome js plan prompt limit cancel_after fault result)) \<and>
    (\<exists>result. run_memory_plan_fault_demo sd js plan prompt limit cancel_after fault = Some result \<and>
      fault_demo_outcome js plan prompt limit cancel_after fault result)"
proof -
  let ?w = "generation_workers js plan prompt limit cancel_after (memory_plan CodecReference)"
  let ?log = "generation_log plan js prompt cancel_after limit" and ?k = "tokens_given cancel_after limit"
  let ?r = "generation_result js plan (memory_plan CodecReference) prompt cancel_after limit"
  let ?Q = "gave_up js plan (memory_plan CodecReference) (sent_frames ?log) ?k"
  obtain p where p: "role_name p = fp_role fault" "fp_failure fault \<in> generate_failures"
    "peer_failure_of fault \<in> generate_failures"
    using check_fault_generate [OF plan check] .
  let ?whole = "operations_given (fp_operation fault) p cancel_after limit"
  have ready: "fault_ready sd CodecReference ?w generate_failures ?Q (\<lambda>p. Inr (?r p)) fault p ?log"
    unfolding fault_ready_def
  proof (intro conjI allI impI)
    show "carried sd CodecReference e" if "Sends p' e \<in> set ?log" for p' e
      using codec sends_sent [OF that] by (simp add: list_all_iff)
  qed (fact generation_log_smooth generation_follows [OF plan js cancel] generation_graceful [OF plan js cancel]
      p occurrence)+
  note outcome = fault_over_outcome [OF check occurrence p(1)]
  obtain left where left: "explained sd CodecReference ?w generate_failures ?Q (\<lambda>p. Inr (?r p)) fault p ?whole left d"
    and n: "n + left \<le> 2 * length ?log + 6"
    using every_fault_schedule [OF run ready] unfolding generation_uses [OF cancel] by blast
  have "(\<exists>d'. fault_step sd CodecReference ?w fault d d') \<or> fault_over ?Q (\<lambda>p. Inr (?r p)) fault p ?whole d"
  proof (cases "left = 0")
    case True
    from explained_over [OF left [unfolded True]] show ?thesis by (rule disjI2)
  qed (use explained_step(2) [OF left p] in blast)
  moreover have "n \<le> 12 * ?k + 18"
    using n generation_log_length [OF cancel, of plan js prompt limit] by simp
  moreover have "\<exists>result. run_memory_plan_fault_demo sd js plan prompt limit cancel_after fault = Some result \<and>
      fault_demo_outcome js plan prompt limit cancel_after fault result"
  proof -
    from one_fault_schedule [OF explained_start [OF ready] p, unfolded generation_uses [OF cancel]]
    obtain d2 where "iterate (fault_next sd CodecReference ?w fault) fault_start = Some d2"
      "fault_over ?Q (\<lambda>p. Inr (?r p)) fault p ?whole d2" by blast
    moreover from outcome [OF this(2)] obtain result where "memory_fault_demo_of plan fault d2 = Some result"
      "fault_demo_outcome js plan prompt limit cancel_after fault result" by blast
    ultimately show ?thesis using check occurrence
      by (simp add: run_memory_plan_fault_demo_def with_fired_def)
  qed
  ultimately show ?thesis using outcome by blast
qed

definition example_fault :: fault_plan where
  \<comment> \<open>the second send of the server, as in \<open>docs/runtime.md\<close>\<close>
  "example_fault = \<lparr>fp_role = ''server'', fp_operation = FaultSend, fp_occurrence = 2,
     fp_failure = ''transport.timeout'', fp_peer_failure = Some ''transport.uncertain''\<rparr>"

lemma example_fault_checked: "check_fault generate_plan example_fault = (Inr () :: string runtime_error + unit)"
  by code_simp

lemma example_carried:
  "list_all (carried plain_serde CodecReference)
    (sent_envelopes (generation_log generate_plan plain_json ''hi'' (Some 1) 2))"
  by (rule list.pred_mono_strong [OF short_envelopes]) (simp add: short_carried)

lemma fault_demo_ends_witness:
  "\<exists>summary. run_memory_plan_fault_demo plain_serde plain_json generate_plan ''hi'' 2 (Some 1) example_fault =
      Some (Inr summary) \<and> dr_fault_plan summary = Some example_fault \<and>
      er_failure (dr_server summary) = Some ''transport.timeout''"
proof -
  have cancel: "Some 1 \<noteq> Some (0 :: nat)" and occurrence: "0 < fp_occurrence example_fault"
    by (simp_all add: example_fault_def)
  have "fp_role example_fault \<noteq> ''client''" "fp_failure example_fault = ''transport.timeout''"
    "fp_occurrence example_fault \<le> operations_given (fp_operation example_fault) TheServer (Some 1) 2"
    by (simp_all add: example_fault_def operations_given_def cancelled_def tokens_given_def)
  with fault_demo_ends [OF generate_compiles plain_json_faithful cancel example_carried example_fault_checked
      occurrence fault_starts]
  show ?thesis by (auto simp: fault_demo_outcome_def Let_def failed_before_end_def side_report_def)
qed

section \<open>An outcome that depends on the schedule\<close>

fun fault_schedule :: "'v serde \<Rightarrow> envelope_codec \<Rightarrow> (who \<Rightarrow> ('v, 'r) worker) \<Rightarrow> fault_plan \<Rightarrow> who list
    \<Rightarrow> ('v, 'r) fault_duo \<Rightarrow> ('v, 'r) fault_duo option" where
  "fault_schedule sd codec w fault [] d = Some d"
| "fault_schedule sd codec w fault (p # ps) d =
     Option.bind (fault_move sd codec w fault p d) (fault_schedule sd codec w fault ps)"

lemma fault_schedule_run:
  "fault_run sd codec w fault n d \<Longrightarrow> fault_schedule sd codec w fault ps d = Some d' \<Longrightarrow>
     fault_run sd codec w fault (n + length ps) d'"
proof (induction ps arbitrary: n d)
  case (Cons p ps)
  then obtain d1 where d1: "fault_move sd codec w fault p d = Some d1" "fault_schedule sd codec w fault ps d1 = Some d'"
    by (auto split: Option.bind_splits)
  from fault_steps [OF Cons.prems(1) either_steps [OF d1(1)]] Cons.IH [OF _ d1(2)] show ?case by fastforce
qed simp

definition racing_fault :: fault_plan where
  "racing_fault = \<lparr>fp_role = ''client'', fp_operation = FaultReceive, fp_occurrence = 1,
     fp_failure = ''transport.closed'', fp_peer_failure = None\<rparr>"

text \<open>The workers of a demonstration of no tokens, as their log and their failures have them.\<close>

lemma racing_status:
  fixes js :: "'v json_ops" and prompt :: string and name :: string
  assumes plan: "compile_prepared ext generate = Inr plan" and js: "json_faithful js"
  defines "w \<equiv> generation_workers js plan prompt 0 None name"
    and "e \<equiv> plan_envelope plan ''start'' 0 (FData ''client'' ''server'' ''prompt'' (Some (js_text js prompt)))"
    and "f \<equiv> plan_envelope plan ''decide'' 1 (FSelect ''server'' ''done'')"
  shows "status_after (w TheClient) [] = Calls (CallSend e)"
    and "status_after (w TheClient) [AnsDone (Inr ())] = Calls CallReceive"
    and "\<exists>x. status_after (w TheClient) [AnsDone (Inr ()), AnsEnvelope (Inl (RtInjectedFailure a b c ''transport.closed''))]
        = Calls CallAbort \<and>
      status_after (w TheClient) [AnsDone (Inr ()), AnsEnvelope (Inl (RtInjectedFailure a b c ''transport.closed'')),
        AnsDone (Inr ())] = Returns (Inr x)"
    and "status_after (w TheServer) [] = Calls CallReceive"
    and "status_after (w TheServer) [AnsEnvelope (Inr e)] = Calls (CallSend f)"
    and "status_after (w TheServer) [AnsEnvelope (Inr e), AnsDone (Inr ())] = Calls (CallFinish ''server'')"
    and "status_after (w TheServer) [AnsEnvelope (Inr e), AnsDone (Inr ()), AnsDone (Inr ())] =
      Returns (Inr (generation_result js plan name prompt None 0 TheServer))"
    and "\<exists>x. status_after (w TheServer) [AnsEnvelope (Inr e), AnsDone (Inl (RtTransportClosed ''memory''))]
        = Calls CallAbort \<and>
      status_after (w TheServer) [AnsEnvelope (Inr e), AnsDone (Inl (RtTransportClosed ''memory'')),
        AnsDone (Inr ())] = Returns (Inr x) \<and> \<not> er_successful x"
proof -
  have none: "None \<noteq> Some (0 :: nat)" by simp
  have closed: "''transport.closed'' \<in> generate_failures" by (simp add: generate_failures_def)
  note follows = generation_follows [OF plan js none, of prompt 0 name] and
    graceful = generation_graceful [OF plan js none, of prompt 0 name]
  from follows [of TheClient] follows [of TheServer]
  show "status_after (w TheClient) [] = Calls (CallSend e)"
    and "status_after (w TheClient) [AnsDone (Inr ())] = Calls CallReceive"
    and "status_after (w TheServer) [] = Calls CallReceive"
    and "status_after (w TheServer) [AnsEnvelope (Inr e)] = Calls (CallSend f)"
    and "status_after (w TheServer) [AnsEnvelope (Inr e), AnsDone (Inr ())] = Calls (CallFinish ''server'')"
    and "status_after (w TheServer) [AnsEnvelope (Inr e), AnsDone (Inr ()), AnsDone (Inr ())] =
      Returns (Inr (generation_result js plan name prompt None 0 TheServer))"
    by (simp_all add: generation_log_def closing_def w_def e_def f_def)
  let ?Q = "gave_up js plan name (sent_frames (generation_log plan js prompt None 0)) (tokens_given None 0)"
  from graceful [of TheClient] have client: "graceful (w TheClient) generate_failures (?Q TheClient)
      [AnsDone (Inr ())] [Receives TheClient f, Finishes TheClient ''client'']"
    by (simp add: generation_log_def closing_def w_def f_def del: split_paired_All)
  from gracefulD [OF client, of FaultReceive "RtInjectedFailure a b c ''transport.closed''" "''transport.closed''"] closed
    gave_up_failed
  show "\<exists>x. status_after (w TheClient) [AnsDone (Inr ()), AnsEnvelope (Inl (RtInjectedFailure a b c ''transport.closed''))]
        = Calls CallAbort \<and>
      status_after (w TheClient) [AnsDone (Inr ()), AnsEnvelope (Inl (RtInjectedFailure a b c ''transport.closed'')),
        AnsDone (Inr ())] = Returns (Inr x)"
    by (simp add: fails_with_def) blast
  from graceful [of TheServer] have server: "graceful (w TheServer) generate_failures (?Q TheServer)
      [AnsEnvelope (Inr e)] [Sends TheServer f, Finishes TheServer ''server'']"
    by (simp add: generation_log_def closing_def w_def e_def f_def del: split_paired_All)
  from gracefulD [OF server, of FaultSend "RtTransportClosed ''memory''" "''transport.closed''"] closed
  obtain x where x: "fails_with (w TheServer) [AnsEnvelope (Inr e)] (AnsDone (Inl (RtTransportClosed ''memory''))) x"
    "?Q TheServer ''transport.closed'' x" by auto
  from gave_up_failed [OF x(2)] obtain rep where "x = Inr rep" "\<not> er_successful rep"
    by (auto simp: failed_before_end_def)
  with x(1)
  show "\<exists>x. status_after (w TheServer) [AnsEnvelope (Inr e), AnsDone (Inl (RtTransportClosed ''memory''))]
        = Calls CallAbort \<and>
      status_after (w TheServer) [AnsEnvelope (Inr e), AnsDone (Inl (RtTransportClosed ''memory'')),
        AnsDone (Inr ())] = Returns (Inr x) \<and> \<not> er_successful x"
    by (simp add: fails_with_def)
qed

lemmas fault_run_simps = fault_move_def fault_thread_step_def memory_answer_def wrapper_of_def put_wrapper_def
  should_inject_def memory_send_def memory_receive_def channel_send_def channel_receive_def memory_abort_def
  default_finish_def end_of_def swap_net_def fault_start_def memory_pair_def open_channel_def
  injected_error_def map_peer_error_def

theorem fault_outcome_races:
  fixes js :: "'v json_ops" and sd :: "'v serde"
  assumes plan: "compile_prepared ext generate = Inr plan" and js: "json_faithful js"
    and codec: "list_all (carried sd CodecReference) (sent_envelopes (generation_log plan js prompt None 0))"
  shows "\<exists>m n d1 d2 s1 s2.
    fault_run sd CodecReference (generation_workers js plan prompt 0 None (memory_plan CodecReference)) racing_fault m d1 \<and>
    fault_run sd CodecReference (generation_workers js plan prompt 0 None (memory_plan CodecReference)) racing_fault n d2 \<and>
    memory_fault_demo_of plan racing_fault d1 = Some (Inr s1) \<and> er_successful (dr_server s1) \<and>
    memory_fault_demo_of plan racing_fault d2 = Some (Inr s2) \<and> \<not> er_successful (dr_server s2)"
proof -
  let ?w = "generation_workers js plan prompt 0 None (memory_plan CodecReference)"
  define e where "e = plan_envelope plan ''start'' 0 (FData ''client'' ''server'' ''prompt'' (Some (js_text js prompt)))"
  define f :: "'v envelope" where "f = plan_envelope plan ''decide'' 1 (FSelect ''server'' ''done'')"
  note status = racing_status [OF plan js, where prompt = prompt and name = "memory_plan CodecReference",
      folded e_def f_def]
  from codec obtain b c where b: "carries sd CodecReference b e" and c: "carries sd CodecReference c f"
    by (auto simp: generation_log_def closing_def carried_def e_def f_def)
  obtain x where x: "status_after (?w TheClient) [AnsDone (Inr ()), AnsEnvelope (Inl (RtInjectedFailure ''client''
      ''receive'' (Suc 0) ''transport.closed''))] = Calls CallAbort"
    "status_after (?w TheClient) [AnsDone (Inr ()), AnsEnvelope (Inl (RtInjectedFailure ''client'' ''receive'' (Suc 0)
      ''transport.closed'')), AnsDone (Inr ())] = Returns (Inr x)"
    using status(3) by blast
  obtain y where y: "status_after (?w TheServer) [AnsEnvelope (Inr e), AnsDone (Inl (RtTransportClosed ''memory''))]
      = Calls CallAbort"
    "status_after (?w TheServer) [AnsEnvelope (Inr e), AnsDone (Inl (RtTransportClosed ''memory'')), AnsDone (Inr ())]
      = Returns (Inr y)" "\<not> er_successful y"
    using status(8) by blast
  note run = status(1,2,4-7) x(1,2) y(1,2) b [unfolded carries_def] c [unfolded carries_def] fault_run_simps
    racing_fault_def
  let ?r = "Inr (generation_result js plan (memory_plan CodecReference) prompt None 0 TheServer) ::
    'v runtime_error + 'v execution_report"
  have one: "\<exists>d. fault_schedule sd CodecReference ?w racing_fault
      (replicate 3 TheClient @ replicate 6 TheServer @ replicate 3 TheClient) fault_start = Some d \<and>
      fd_thread d TheClient = FtEnded (Inr x) \<and> fd_thread d TheServer = FtEnded ?r \<and> fd_fired d"
    by (simp add: run numeral_eq_Suc)
  have two: "\<exists>d. fault_schedule sd CodecReference ?w racing_fault
      (replicate 6 TheClient @ replicate 6 TheServer) fault_start = Some d \<and>
      fd_thread d TheClient = FtEnded (Inr x) \<and> fd_thread d TheServer = FtEnded (Inr y) \<and> fd_fired d"
    by (simp add: run numeral_eq_Suc)
  have check: "check_fault plan racing_fault = (Inr () :: 'v runtime_error + unit)"
    by (simp add: check_fault_def plan_handles_def generate_endpoints [OF plan] racing_fault_def find_endpoint_def
        project_role_def generate_def transport_edges_def)
  have occurrence: "0 < fp_occurrence racing_fault" by (simp add: racing_fault_def)
  from one obtain d1 where d1: "fault_schedule sd CodecReference ?w racing_fault
      (replicate 3 TheClient @ replicate 6 TheServer @ replicate 3 TheClient) fault_start = Some d1"
    "fd_thread d1 TheClient = FtEnded (Inr x)" "fd_thread d1 TheServer = FtEnded ?r" "fd_fired d1" by blast
  from two obtain d2 where d2: "fault_schedule sd CodecReference ?w racing_fault
      (replicate 6 TheClient @ replicate 6 TheServer) fault_start = Some d2"
    "fd_thread d2 TheClient = FtEnded (Inr x)" "fd_thread d2 TheServer = FtEnded (Inr y)" "fd_fired d2" by blast
  note ended = memory_fault_demo_ended [OF check occurrence d1(2,3)] memory_fault_demo_ended [OF check occurrence d2(2,3)]
  show ?thesis
    using fault_schedule_run [OF fault_starts d1(1)] fault_schedule_run [OF fault_starts d2(1)] ended d1(4) d2(4) y(3)
    by (intro exI conjI) (assumption | simp add: demo_report_def)+
qed

end
