(* ===== verification/Command_Line.thy ===== *)
theory Command_Line
  imports Tools
begin

text \<open>
  The dispatch of \<open>src/src/main.rs\<close> over the commands that work on this host alone: identities and
  grants, conversations, plans, traces, drafts, bindings, deployments and demonstrations.  Parsing
  the arguments and printing are not modelled; what a command needs from serde, Automerge, the HTTP
  agent and the threads is a field of the kit.
\<close>

datatype 'p local_command =
    NodeInit 'p
  | PolicyAllow 'p 'p string string
  | BootstrapTwoNode 'p 'p 'p
  | Check 'p bool
  | Project 'p 'p
  | Compile 'p 'p
  | JevCheck 'p 'p
  | JevDecide 'p 'p string nat
  | DraftCreate 'p 'p
  | DraftPatch 'p string string "'p option"
  | DraftPromote 'p 'p 'p
  | EmitMiren string "string option" u16 nat nat wire_encoding miren_transport bool
  | RunPlan 'p demo_transport wire_encoding string nat "nat option"
  | VerifyTrace 'p 'p
  | Demo 'p demo_transport string nat "nat option"
  | FaultDemo 'p string nat "nat option" string fault_operation nat string "string option"
  | VerifySession 'p 'p

record ('s, 'p, 'v, 'd, 'o, 'h, 'f, 'n, 'w, 'r) kit =
  kt_errors :: "validation_errors \<Rightarrow> string + string"
  kt_endpoint :: "endpoint \<Rightarrow> string + byte list"
  kt_plan_encode :: "colloq_plan \<Rightarrow> string + byte list"
  kt_plan_decode :: "byte list \<Rightarrow> string + colloq_plan"
  kt_frames :: "byte list \<Rightarrow> string + 'v frame list"
  kt_report :: "byte list \<Rightarrow> string + 'v execution_report"
  kt_conversation :: "'v conversation \<Rightarrow> string + byte list"
  kt_store :: "'d draft_store"
  kt_automerge :: "('d, 'o, 'h, 'f) automerge"
  kt_numbers :: "('n, 'f) number_view"
  kt_parse :: "string \<Rightarrow> string + 'n json"
  kt_create :: "'v conversation \<Rightarrow> (draft_error + 'd) option"
  kt_gate :: "'d \<Rightarrow> (draft_error + 'v promoted_draft) option"
  kt_show_f64 :: "f64 \<Rightarrow> string"
  kt_binding :: "byte list \<Rightarrow> string + 'w jev_binding"
  kt_value :: "string \<Rightarrow> string + 'w"
  kt_trim :: "string \<Rightarrow> string"
  kt_agent :: "string \<Rightarrow> nat \<Rightarrow> ('s, 'w, 'r) http_agent"
  kt_view :: "'w json_view"
  kt_path :: "string \<Rightarrow> 'p"
  kt_bytes :: "string \<Rightarrow> byte list"
  kt_quoted :: "string \<Rightarrow> string"
  kt_quoted_path :: "string \<Rightarrow> string"
  kt_toml :: "miren_app \<Rightarrow> string + string"
  kt_demo :: "string \<Rightarrow> nat \<Rightarrow> nat option \<Rightarrow> ('s, 'v) demo_runner"
  kt_fault_demo :: "string \<Rightarrow> nat \<Rightarrow> nat option \<Rightarrow> prepared_plan \<Rightarrow> fault_plan
    \<Rightarrow> ('s, 'v runtime_error, 'v demo_summary) action"

definition succeeds_with :: "nat \<Rightarrow> ('s, 'e, 'a) action \<Rightarrow> ('s, 'e, nat) action" where
  \<comment> \<open>a command that only prints its result\<close>
  "succeeds_with n f = act_then f (\<lambda>_. done_with n)"

fun run_command :: "('s, 'p, 'v, 'ip) host \<Rightarrow> ('id, 'ip, 'addr) iroh_keys
    \<Rightarrow> ('s, 'p, 'v, 'd, 'o, 'h, 'f, 'n, 'w, 'r) kit \<Rightarrow> 'p local_command \<Rightarrow> ('s, 'v, nat) tool" where
  "run_command ho ik kt (NodeInit out) = succeeds_with 0 (act_map_err ToolCommand (node_init ho ik out))"
| "run_command ho ik kt (PolicyAllow conversation policy peer role) =
     succeeds_with 0 (act_map_err ToolCommand (policy_allow ho ik conversation policy peer role))"
| "run_command ho ik kt (BootstrapTwoNode conversation draft_conversation out) =
     succeeds_with 0 (act_map_err ToolCommand (bootstrap_two_node ho ik conversation draft_conversation out))"
| "run_command ho ik kt (Check conversation json) = check_command ho (kt_errors kt) conversation json"
| "run_command ho ik kt (Project conversation out) = project_command ho (kt_endpoint kt) conversation out"
| "run_command ho ik kt (Compile conversation out) = compile_command ho (kt_plan_encode kt) conversation out"
| "run_command ho ik kt (JevCheck conversation binding) =
     jev_check_command ho (kt_show_f64 kt) (kt_binding kt) conversation binding"
| "run_command ho ik kt (JevDecide conversation binding state_json timeout) =
     act_then (jev_decide_command ho (kt_show_f64 kt) (kt_binding kt) (kt_value kt) (kt_trim kt) (kt_agent kt)
       (kt_view kt) conversation binding state_json timeout) (\<lambda>decision.
     done_with (if decision = None then 1 else 0))"
| "run_command ho ik kt (DraftCreate conversation out) =
     draft_create_command ho (kt_store kt) (kt_create kt) conversation out"
| "run_command ho ik kt (DraftPatch draft pointer new_value out) =
     draft_patch_command ho (kt_store kt) (kt_automerge kt) (kt_numbers kt) (kt_parse kt) draft pointer new_value out"
| "run_command ho ik kt (DraftPromote draft conversation_out plan_out) =
     draft_promote_command ho (kt_store kt) (kt_gate kt) (kt_conversation kt) (kt_plan_encode kt) draft
       conversation_out plan_out"
| "run_command ho ik kt (EmitMiren source app_name port tokens instances wire transport internal_only) =
     emit_miren_command ho (kt_path kt) (kt_bytes kt) (kt_quoted kt) (kt_quoted_path kt) (kt_toml kt) source
       app_name port tokens instances wire transport internal_only"
| "run_command ho ik kt (RunPlan plan transport wire prompt tokens cancel_after) =
     succeeds_with 0 (run_plan_command ho (kt_plan_decode kt) (kt_demo kt prompt tokens cancel_after) plan transport wire)"
| "run_command ho ik kt (VerifyTrace conversation trace) = verify_trace_command ho (kt_frames kt) conversation trace"
| "run_command ho ik kt (Demo conversation transport prompt tokens cancel_after) =
     succeeds_with 0 (demo_command ho (kt_demo kt prompt tokens cancel_after) conversation transport)"
| "run_command ho ik kt (FaultDemo conversation prompt tokens cancel_after role operation occurrence failure peer_failure) =
     succeeds_with 0 (fault_demo_command ho (kt_fault_demo kt prompt tokens cancel_after) conversation role operation
       occurrence failure peer_failure)"
| "run_command ho ik kt (VerifySession client server) = verify_session_command ho (kt_report kt) client server"

end
