(* ===== verification/Arguments.thy ===== *)
theory Arguments
  imports Command_Line Networks Benchmark
begin

text \<open>
  The command line of \<open>src/src/main.rs\<close>: the commands, the arguments each declares to \<open>clap\<close> with
  their defaults, and how the values of the arguments become a command.  \<open>clap\<close> itself is an
  argument: it matches words with the declarations, applies the defaults and parses numbers.
\<close>

section \<open>Commands\<close>

datatype ('p, 'ip) cli_command =
    Local "'p local_command"
  | Benchmark 'p string nat nat nat
  | Serve 'p 'ip nat wire_encoding bool
  | Connect 'p 'ip string "nat option" wire_encoding
  | ServeQuic 'p 'ip 'p nat wire_encoding
  | ConnectQuic 'p 'ip 'p string "nat option" wire_encoding
  | ServeIroh 'p 'p 'p 'ip "'ip option" 'p nat wire_encoding "'p option"
  | ConnectIroh 'p 'p 'p 'p string "nat option" wire_encoding "'p option"
  | DraftServeIroh 'p 'p 'p 'p 'ip "'ip option" 'p wire_encoding "'p option"
  | DraftConnectIroh 'p 'p 'p 'p 'p wire_encoding "'p option"

section \<open>Declarations and matches\<close>

datatype presence = Required | Optional | Default string

datatype arg_spec =
    Positional string presence
  | Setting string presence  \<comment> \<open>\<open>--name value\<close>\<close>
  | Switch string  \<comment> \<open>\<open>--name\<close>\<close>

record matches =
  mt_value :: "string \<rightharpoonup> string"
  mt_switch :: "string \<Rightarrow> bool"

text \<open>
  \<open>cl_parse\<close> is given the declared commands and the words after the program's name; it gives the
  command and its values, defaults included, or the exit status with which it ends the program: 0
  for help and version, 2 for words it refuses.  \<open>cl_number\<close> parses a number of some bits.
\<close>

record clap =
  cl_parse :: "(string \<times> arg_spec list) list \<Rightarrow> string list \<Rightarrow> nat + string \<times> matches"
  cl_number :: "nat \<Rightarrow> string \<Rightarrow> nat option"

text \<open>What the values are parsed with: numbers, paths and socket addresses.\<close>

record ('p, 'ip) readers =
  rd_number :: "nat \<Rightarrow> string \<Rightarrow> nat option"
  rd_path :: "string \<Rightarrow> 'p"
  rd_address :: "string \<Rightarrow> string + 'ip"

fun demo_transport_of :: "string \<Rightarrow> demo_transport option" where
  "demo_transport_of s =
     (if s = ''memory'' then Some DemoMemory else if s = ''tcp'' then Some DemoTcp
      else if s = ''quic'' then Some DemoQuic else if s = ''iroh'' then Some DemoIroh else None)"

fun wire_encoding_of :: "string \<Rightarrow> wire_encoding option" where
  "wire_encoding_of s =
     (if s = ''reference'' then Some ReferenceEncoding else if s = ''compact'' then Some CompactEncoding
      else None)"

fun deployment_transport_of :: "string \<Rightarrow> miren_transport option" where
  "deployment_transport_of s =
     (if s = ''tcp'' then Some MirenTcp else if s = ''iroh'' then Some MirenIroh else None)"

fun fault_operation_named :: "string \<Rightarrow> fault_operation option" where
  "fault_operation_named s =
     (if s = ''send'' then Some FaultSend else if s = ''receive'' then Some FaultReceive else None)"

section \<open>Values\<close>

text \<open>A reader takes the value of an argument, or of an argument that may be left out, to the rest.\<close>

definition valued :: "(string \<Rightarrow> 'a option) \<Rightarrow> matches \<Rightarrow> string \<Rightarrow> ('a \<Rightarrow> 'b option) \<Rightarrow> 'b option" where
  "valued read m name k = Option.bind (Option.bind (mt_value m name) read) k"

definition valued_opt :: "(string \<Rightarrow> 'a option) \<Rightarrow> matches \<Rightarrow> string \<Rightarrow> ('a option \<Rightarrow> 'b option) \<Rightarrow> 'b option" where
  "valued_opt read m name k =
     (case mt_value m name of None \<Rightarrow> k None | Some s \<Rightarrow> Option.bind (map_option Some (read s)) k)"

abbreviation text_value :: "string \<Rightarrow> string option" where
  "text_value \<equiv> Some"

abbreviation path_value :: "('p, 'ip) readers \<Rightarrow> string \<Rightarrow> 'p option" where
  "path_value rd s \<equiv> Some (rd_path rd s)"

abbreviation address_value :: "('p, 'ip) readers \<Rightarrow> string \<Rightarrow> 'ip option" where
  "address_value rd s \<equiv> (case rd_address rd s of Inl _ \<Rightarrow> None | Inr a \<Rightarrow> Some a)"

abbreviation usize_value :: "('p, 'ip) readers \<Rightarrow> string \<Rightarrow> nat option" where
  "usize_value rd \<equiv> rd_number rd 64"

type_synonym ('p, 'ip) subcommand = "string \<times> arg_spec list \<times> (matches \<Rightarrow> ('p, 'ip) cli_command option)"

section \<open>The declarations\<close>

definition node_init_cli :: "('p, 'ip) readers \<Rightarrow> ('p, 'ip) subcommand" where
  "node_init_cli rd =
    (''node-init'',
     [Setting ''out'' (Default ''build/node.colloqnode.json'')],
     \<lambda>m.
       valued (path_value rd) m ''out'' (\<lambda>out.
       Some (Local (NodeInit out))))"

definition policy_allow_cli :: "('p, 'ip) readers \<Rightarrow> ('p, 'ip) subcommand" where
  "policy_allow_cli rd =
    (''policy-allow'',
     [Positional ''conversation'' (Default ''examples/generate.colloqconv.json''),
      Setting ''policy'' (Default ''build/colloq.authorization.json''),
      Setting ''peer'' Required,
      Setting ''role'' Required],
     \<lambda>m.
       valued (path_value rd) m ''conversation'' (\<lambda>conversation.
       valued (path_value rd) m ''policy'' (\<lambda>policy.
       valued text_value m ''peer'' (\<lambda>peer.
       valued text_value m ''role'' (\<lambda>role.
       Some (Local (PolicyAllow conversation policy peer role)))))))"

definition bootstrap_two_node_cli :: "('p, 'ip) readers \<Rightarrow> ('p, 'ip) subcommand" where
  "bootstrap_two_node_cli rd =
    (''bootstrap-two-node'',
     [Positional ''conversation'' (Default ''examples/generate.colloqconv.json''),
      Setting ''draft-conversation'' (Default ''examples/draft-sync.colloqconv.json''),
      Setting ''out'' (Default ''build/two-node'')],
     \<lambda>m.
       valued (path_value rd) m ''conversation'' (\<lambda>conversation.
       valued (path_value rd) m ''draft-conversation'' (\<lambda>draft_conversation.
       valued (path_value rd) m ''out'' (\<lambda>out.
       Some (Local (BootstrapTwoNode conversation draft_conversation out))))))"

definition check_cli :: "('p, 'ip) readers \<Rightarrow> ('p, 'ip) subcommand" where
  "check_cli rd =
    (''check'',
     [Positional ''conversation'' Required,
      Switch ''json''],
     \<lambda>m.
       valued (path_value rd) m ''conversation'' (\<lambda>conversation.
       Some (Local (Check conversation (mt_switch m ''json'')))))"

definition project_cli :: "('p, 'ip) readers \<Rightarrow> ('p, 'ip) subcommand" where
  "project_cli rd =
    (''project'',
     [Positional ''conversation'' Required,
      Setting ''out'' (Default ''build/endpoints'')],
     \<lambda>m.
       valued (path_value rd) m ''conversation'' (\<lambda>conversation.
       valued (path_value rd) m ''out'' (\<lambda>out.
       Some (Local (Project conversation out)))))"

definition compile_cli :: "('p, 'ip) readers \<Rightarrow> ('p, 'ip) subcommand" where
  "compile_cli rd =
    (''compile'',
     [Positional ''conversation'' (Default ''examples/generate.colloqconv.json''),
      Setting ''out'' (Default ''build/generate.colloqplan.json'')],
     \<lambda>m.
       valued (path_value rd) m ''conversation'' (\<lambda>conversation.
       valued (path_value rd) m ''out'' (\<lambda>out.
       Some (Local (Compile conversation out)))))"

definition jev_check_cli :: "('p, 'ip) readers \<Rightarrow> ('p, 'ip) subcommand" where
  "jev_check_cli rd =
    (''jev-check'',
     [Positional ''conversation'' (Default ''examples/route.colloqconv.json''),
      Positional ''binding'' (Default ''examples/route.colloqjev.json'')],
     \<lambda>m.
       valued (path_value rd) m ''conversation'' (\<lambda>conversation.
       valued (path_value rd) m ''binding'' (\<lambda>binding.
       Some (Local (JevCheck conversation binding)))))"

definition jev_decide_cli :: "('p, 'ip) readers \<Rightarrow> ('p, 'ip) subcommand" where
  "jev_decide_cli rd =
    (''jev-decide'',
     [Positional ''conversation'' (Default ''examples/route.colloqconv.json''),
      Positional ''binding'' (Default ''examples/route.colloqjev.json''),
      Setting ''state-json'' Required,
      Setting ''timeout-seconds'' (Default ''10'')],
     \<lambda>m.
       valued (path_value rd) m ''conversation'' (\<lambda>conversation.
       valued (path_value rd) m ''binding'' (\<lambda>binding.
       valued text_value m ''state-json'' (\<lambda>state_json.
       valued (usize_value rd) m ''timeout-seconds'' (\<lambda>timeout_seconds.
       Some (Local (JevDecide conversation binding state_json timeout_seconds)))))))"

definition draft_create_cli :: "('p, 'ip) readers \<Rightarrow> ('p, 'ip) subcommand" where
  "draft_create_cli rd =
    (''draft-create'',
     [Positional ''conversation'' Required,
      Setting ''out'' (Default ''build/generate.colloqdraft'')],
     \<lambda>m.
       valued (path_value rd) m ''conversation'' (\<lambda>conversation.
       valued (path_value rd) m ''out'' (\<lambda>out.
       Some (Local (DraftCreate conversation out)))))"

definition draft_patch_cli :: "('p, 'ip) readers \<Rightarrow> ('p, 'ip) subcommand" where
  "draft_patch_cli rd =
    (''draft-patch'',
     [Positional ''draft'' Required,
      Setting ''pointer'' Required,
      Setting ''value'' Required,
      Setting ''out'' Optional],
     \<lambda>m.
       valued (path_value rd) m ''draft'' (\<lambda>draft.
       valued text_value m ''pointer'' (\<lambda>pointer.
       valued text_value m ''value'' (\<lambda>new_value.
       valued_opt (path_value rd) m ''out'' (\<lambda>out.
       Some (Local (DraftPatch draft pointer new_value out)))))))"

definition draft_promote_cli :: "('p, 'ip) readers \<Rightarrow> ('p, 'ip) subcommand" where
  "draft_promote_cli rd =
    (''draft-promote'',
     [Positional ''draft'' Required,
      Setting ''conversation-out'' (Default ''build/promoted.colloqconv.json''),
      Setting ''plan-out'' (Default ''build/promoted.colloqplan.json'')],
     \<lambda>m.
       valued (path_value rd) m ''draft'' (\<lambda>draft.
       valued (path_value rd) m ''conversation-out'' (\<lambda>conversation_out.
       valued (path_value rd) m ''plan-out'' (\<lambda>plan_out.
       Some (Local (DraftPromote draft conversation_out plan_out))))))"

definition emit_miren_cli :: "('p, 'ip) readers \<Rightarrow> ('p, 'ip) subcommand" where
  "emit_miren_cli rd =
    (''emit-miren'',
     [Positional ''conversation'' (Default ''examples/generate.colloqconv.json''),
      Setting ''app-name'' Optional,
      Setting ''port'' (Default ''7878''),
      Setting ''tokens'' (Default ''3''),
      Setting ''instances'' (Default ''1''),
      Setting ''wire'' (Default ''compact''),
      Setting ''transport'' (Default ''tcp''),
      Switch ''internal-only''],
     \<lambda>m.
       valued text_value m ''conversation'' (\<lambda>conversation.
       valued_opt text_value m ''app-name'' (\<lambda>app_name.
       valued (rd_number rd 16) m ''port'' (\<lambda>port.
       valued (usize_value rd) m ''tokens'' (\<lambda>tokens.
       valued (usize_value rd) m ''instances'' (\<lambda>instances.
       valued wire_encoding_of m ''wire'' (\<lambda>wire.
       valued deployment_transport_of m ''transport'' (\<lambda>transport.
       Some (Local (EmitMiren conversation app_name (word_of_nat port) tokens instances wire transport
         (mt_switch m ''internal-only'')))))))))))"

definition run_plan_cli :: "('p, 'ip) readers \<Rightarrow> ('p, 'ip) subcommand" where
  "run_plan_cli rd =
    (''run-plan'',
     [Positional ''plan'' (Default ''build/generate.colloqplan.json''),
      Setting ''transport'' (Default ''memory''),
      Setting ''wire'' (Default ''reference''),
      Setting ''prompt'' (Default ''Explain why the conversation is the computation.''),
      Setting ''tokens'' (Default ''3''),
      Setting ''cancel-after'' Optional],
     \<lambda>m.
       valued (path_value rd) m ''plan'' (\<lambda>plan.
       valued demo_transport_of m ''transport'' (\<lambda>transport.
       valued wire_encoding_of m ''wire'' (\<lambda>wire.
       valued text_value m ''prompt'' (\<lambda>prompt.
       valued (usize_value rd) m ''tokens'' (\<lambda>tokens.
       valued_opt (usize_value rd) m ''cancel-after'' (\<lambda>cancel_after.
       Some (Local (RunPlan plan transport wire prompt tokens cancel_after)))))))))"

definition verify_trace_cli :: "('p, 'ip) readers \<Rightarrow> ('p, 'ip) subcommand" where
  "verify_trace_cli rd =
    (''verify-trace'',
     [Positional ''conversation'' Required,
      Positional ''trace'' Required],
     \<lambda>m.
       valued (path_value rd) m ''conversation'' (\<lambda>conversation.
       valued (path_value rd) m ''trace'' (\<lambda>trace.
       Some (Local (VerifyTrace conversation trace)))))"

definition demo_cli :: "('p, 'ip) readers \<Rightarrow> ('p, 'ip) subcommand" where
  "demo_cli rd =
    (''demo'',
     [Positional ''conversation'' (Default ''examples/generate.colloqconv.json''),
      Setting ''transport'' (Default ''memory''),
      Setting ''prompt'' (Default ''Explain why the conversation is the computation.''),
      Setting ''tokens'' (Default ''3''),
      Setting ''cancel-after'' Optional],
     \<lambda>m.
       valued (path_value rd) m ''conversation'' (\<lambda>conversation.
       valued demo_transport_of m ''transport'' (\<lambda>transport.
       valued text_value m ''prompt'' (\<lambda>prompt.
       valued (usize_value rd) m ''tokens'' (\<lambda>tokens.
       valued_opt (usize_value rd) m ''cancel-after'' (\<lambda>cancel_after.
       Some (Local (Demo conversation transport prompt tokens cancel_after))))))))"

definition fault_demo_cli :: "('p, 'ip) readers \<Rightarrow> ('p, 'ip) subcommand" where
  "fault_demo_cli rd =
    (''fault-demo'',
     [Positional ''conversation'' (Default ''examples/generate.colloqconv.json''),
      Setting ''prompt'' (Default ''Exercise typed transport failure.''),
      Setting ''tokens'' (Default ''5''),
      Setting ''cancel-after'' Optional,
      Setting ''fault-role'' (Default ''server''),
      Setting ''fault-operation'' (Default ''send''),
      Setting ''fault-at'' (Default ''2''),
      Setting ''failure'' (Default ''transport.closed''),
      Setting ''peer-failure'' Optional],
     \<lambda>m.
       valued (path_value rd) m ''conversation'' (\<lambda>conversation.
       valued text_value m ''prompt'' (\<lambda>prompt.
       valued (usize_value rd) m ''tokens'' (\<lambda>tokens.
       valued_opt (usize_value rd) m ''cancel-after'' (\<lambda>cancel_after.
       valued text_value m ''fault-role'' (\<lambda>fault_role.
       valued fault_operation_named m ''fault-operation'' (\<lambda>fault_operation.
       valued (usize_value rd) m ''fault-at'' (\<lambda>fault_at.
       valued text_value m ''failure'' (\<lambda>failure.
       valued_opt text_value m ''peer-failure'' (\<lambda>peer_failure.
       Some (Local (FaultDemo conversation prompt tokens cancel_after fault_role fault_operation
         fault_at failure peer_failure))))))))))))"

definition benchmark_cli :: "('p, 'ip) readers \<Rightarrow> ('p, 'ip) subcommand" where
  "benchmark_cli rd =
    (''benchmark'',
     [Positional ''conversation'' (Default ''examples/generate.colloqconv.json''),
      Setting ''prompt'' (Default ''Measure the conversation runtime.''),
      Setting ''tokens'' (Default ''3''),
      Setting ''iterations'' (Default ''200''),
      Setting ''warmup'' (Default ''20'')],
     \<lambda>m.
       valued (path_value rd) m ''conversation'' (\<lambda>conversation.
       valued text_value m ''prompt'' (\<lambda>prompt.
       valued (usize_value rd) m ''tokens'' (\<lambda>tokens.
       valued (usize_value rd) m ''iterations'' (\<lambda>iterations.
       valued (usize_value rd) m ''warmup'' (\<lambda>warmup.
       Some (Benchmark conversation prompt tokens iterations warmup)))))))"

definition serve_cli :: "('p, 'ip) readers \<Rightarrow> ('p, 'ip) subcommand" where
  "serve_cli rd =
    (''serve'',
     [Positional ''conversation'' (Default ''examples/generate.colloqconv.json''),
      Setting ''listen'' (Default ''127.0.0.1:7878''),
      Setting ''tokens'' (Default ''3''),
      Setting ''wire'' (Default ''reference''),
      Switch ''forever''],
     \<lambda>m.
       valued (path_value rd) m ''conversation'' (\<lambda>conversation.
       valued (address_value rd) m ''listen'' (\<lambda>listen.
       valued (usize_value rd) m ''tokens'' (\<lambda>tokens.
       valued wire_encoding_of m ''wire'' (\<lambda>wire.
       Some (Serve conversation listen tokens wire (mt_switch m ''forever'')))))))"

definition connect_cli :: "('p, 'ip) readers \<Rightarrow> ('p, 'ip) subcommand" where
  "connect_cli rd =
    (''connect'',
     [Positional ''conversation'' (Default ''examples/generate.colloqconv.json''),
      Setting ''server'' (Default ''127.0.0.1:7878''),
      Setting ''prompt'' (Default ''Explain why the conversation is the computation.''),
      Setting ''cancel-after'' Optional,
      Setting ''wire'' (Default ''reference'')],
     \<lambda>m.
       valued (path_value rd) m ''conversation'' (\<lambda>conversation.
       valued (address_value rd) m ''server'' (\<lambda>server.
       valued text_value m ''prompt'' (\<lambda>prompt.
       valued_opt (usize_value rd) m ''cancel-after'' (\<lambda>cancel_after.
       valued wire_encoding_of m ''wire'' (\<lambda>wire.
       Some (Connect conversation server prompt cancel_after wire)))))))"

definition serve_quic_cli :: "('p, 'ip) readers \<Rightarrow> ('p, 'ip) subcommand" where
  "serve_quic_cli rd =
    (''serve-quic'',
     [Positional ''conversation'' (Default ''examples/generate.colloqconv.json''),
      Setting ''listen'' (Default ''127.0.0.1:7879''),
      Setting ''certificate-out'' (Default ''build/colloq-quic-cert.der''),
      Setting ''tokens'' (Default ''3''),
      Setting ''wire'' (Default ''reference'')],
     \<lambda>m.
       valued (path_value rd) m ''conversation'' (\<lambda>conversation.
       valued (address_value rd) m ''listen'' (\<lambda>listen.
       valued (path_value rd) m ''certificate-out'' (\<lambda>certificate_out.
       valued (usize_value rd) m ''tokens'' (\<lambda>tokens.
       valued wire_encoding_of m ''wire'' (\<lambda>wire.
       Some (ServeQuic conversation listen certificate_out tokens wire)))))))"

definition connect_quic_cli :: "('p, 'ip) readers \<Rightarrow> ('p, 'ip) subcommand" where
  "connect_quic_cli rd =
    (''connect-quic'',
     [Positional ''conversation'' (Default ''examples/generate.colloqconv.json''),
      Setting ''server'' (Default ''127.0.0.1:7879''),
      Setting ''certificate'' (Default ''build/colloq-quic-cert.der''),
      Setting ''prompt'' (Default ''Explain why the conversation is the computation.''),
      Setting ''cancel-after'' Optional,
      Setting ''wire'' (Default ''reference'')],
     \<lambda>m.
       valued (path_value rd) m ''conversation'' (\<lambda>conversation.
       valued (address_value rd) m ''server'' (\<lambda>server.
       valued (path_value rd) m ''certificate'' (\<lambda>certificate.
       valued text_value m ''prompt'' (\<lambda>prompt.
       valued_opt (usize_value rd) m ''cancel-after'' (\<lambda>cancel_after.
       valued wire_encoding_of m ''wire'' (\<lambda>wire.
       Some (ConnectQuic conversation server certificate prompt cancel_after wire))))))))"

definition serve_iroh_cli :: "('p, 'ip) readers \<Rightarrow> ('p, 'ip) subcommand" where
  "serve_iroh_cli rd =
    (''serve-iroh'',
     [Positional ''conversation'' (Default ''examples/generate.colloqconv.json''),
      Setting ''identity'' (Default ''build/two-node/server.colloqnode.json''),
      Setting ''policy'' (Default ''build/two-node/server.authorization.json''),
      Setting ''listen'' (Default ''127.0.0.1:7880''),
      Setting ''advertise'' Optional,
      Setting ''ticket-out'' (Default ''build/two-node/server.colloqendpoint.json''),
      Setting ''tokens'' (Default ''3''),
      Setting ''wire'' (Default ''compact''),
      Setting ''report-out'' Optional],
     \<lambda>m.
       valued (path_value rd) m ''conversation'' (\<lambda>conversation.
       valued (path_value rd) m ''identity'' (\<lambda>identity.
       valued (path_value rd) m ''policy'' (\<lambda>policy.
       valued (address_value rd) m ''listen'' (\<lambda>listen.
       valued_opt (address_value rd) m ''advertise'' (\<lambda>advertise.
       valued (path_value rd) m ''ticket-out'' (\<lambda>ticket_out.
       valued (usize_value rd) m ''tokens'' (\<lambda>tokens.
       valued wire_encoding_of m ''wire'' (\<lambda>wire.
       valued_opt (path_value rd) m ''report-out'' (\<lambda>report_out.
       Some (ServeIroh conversation identity policy listen advertise ticket_out tokens wire report_out)))))))))))"

definition connect_iroh_cli :: "('p, 'ip) readers \<Rightarrow> ('p, 'ip) subcommand" where
  "connect_iroh_cli rd =
    (''connect-iroh'',
     [Positional ''conversation'' (Default ''examples/generate.colloqconv.json''),
      Setting ''identity'' (Default ''build/two-node/client.colloqnode.json''),
      Setting ''policy'' (Default ''build/two-node/client.authorization.json''),
      Setting ''server'' (Default ''build/two-node/server.colloqendpoint.json''),
      Setting ''prompt'' (Default ''Explain why the conversation is the computation.''),
      Setting ''cancel-after'' Optional,
      Setting ''wire'' (Default ''compact''),
      Setting ''report-out'' Optional],
     \<lambda>m.
       valued (path_value rd) m ''conversation'' (\<lambda>conversation.
       valued (path_value rd) m ''identity'' (\<lambda>identity.
       valued (path_value rd) m ''policy'' (\<lambda>policy.
       valued (path_value rd) m ''server'' (\<lambda>server.
       valued text_value m ''prompt'' (\<lambda>prompt.
       valued_opt (usize_value rd) m ''cancel-after'' (\<lambda>cancel_after.
       valued wire_encoding_of m ''wire'' (\<lambda>wire.
       valued_opt (path_value rd) m ''report-out'' (\<lambda>report_out.
       Some (ConnectIroh conversation identity policy server prompt cancel_after wire report_out))))))))))"

definition draft_serve_iroh_cli :: "('p, 'ip) readers \<Rightarrow> ('p, 'ip) subcommand" where
  "draft_serve_iroh_cli rd =
    (''draft-serve-iroh'',
     [Positional ''conversation'' (Default ''examples/draft-sync.colloqconv.json''),
      Setting ''draft'' Required,
      Setting ''identity'' (Default ''build/two-node/server.colloqnode.json''),
      Setting ''policy'' (Default ''build/two-node/server.authorization.json''),
      Setting ''listen'' (Default ''127.0.0.1:7881''),
      Setting ''advertise'' Optional,
      Setting ''ticket-out'' (Default ''build/two-node/draft-server.colloqendpoint.json''),
      Setting ''wire'' (Default ''compact''),
      Setting ''report-out'' Optional],
     \<lambda>m.
       valued (path_value rd) m ''conversation'' (\<lambda>conversation.
       valued (path_value rd) m ''draft'' (\<lambda>draft.
       valued (path_value rd) m ''identity'' (\<lambda>identity.
       valued (path_value rd) m ''policy'' (\<lambda>policy.
       valued (address_value rd) m ''listen'' (\<lambda>listen.
       valued_opt (address_value rd) m ''advertise'' (\<lambda>advertise.
       valued (path_value rd) m ''ticket-out'' (\<lambda>ticket_out.
       valued wire_encoding_of m ''wire'' (\<lambda>wire.
       valued_opt (path_value rd) m ''report-out'' (\<lambda>report_out.
       Some (DraftServeIroh conversation draft identity policy listen advertise ticket_out wire
         report_out)))))))))))"

definition draft_connect_iroh_cli :: "('p, 'ip) readers \<Rightarrow> ('p, 'ip) subcommand" where
  "draft_connect_iroh_cli rd =
    (''draft-connect-iroh'',
     [Positional ''conversation'' (Default ''examples/draft-sync.colloqconv.json''),
      Setting ''draft'' Required,
      Setting ''identity'' (Default ''build/two-node/client.colloqnode.json''),
      Setting ''policy'' (Default ''build/two-node/client.authorization.json''),
      Setting ''server'' (Default ''build/two-node/draft-server.colloqendpoint.json''),
      Setting ''wire'' (Default ''compact''),
      Setting ''report-out'' Optional],
     \<lambda>m.
       valued (path_value rd) m ''conversation'' (\<lambda>conversation.
       valued (path_value rd) m ''draft'' (\<lambda>draft.
       valued (path_value rd) m ''identity'' (\<lambda>identity.
       valued (path_value rd) m ''policy'' (\<lambda>policy.
       valued (path_value rd) m ''server'' (\<lambda>server.
       valued wire_encoding_of m ''wire'' (\<lambda>wire.
       valued_opt (path_value rd) m ''report-out'' (\<lambda>report_out.
       Some (DraftConnectIroh conversation draft identity policy server wire report_out)))))))))"

definition verify_session_cli :: "('p, 'ip) readers \<Rightarrow> ('p, 'ip) subcommand" where
  "verify_session_cli rd =
    (''verify-session'',
     [Setting ''client'' Required,
      Setting ''server'' Required],
     \<lambda>m.
       valued (path_value rd) m ''client'' (\<lambda>client.
       valued (path_value rd) m ''server'' (\<lambda>server.
       Some (Local (VerifySession client server)))))"

definition subcommands :: "('p, 'ip) readers \<Rightarrow> ('p, 'ip) subcommand list" where
  "subcommands rd =
    [node_init_cli rd, policy_allow_cli rd, bootstrap_two_node_cli rd, check_cli rd, project_cli rd,
     compile_cli rd, jev_check_cli rd, jev_decide_cli rd, draft_create_cli rd, draft_patch_cli rd,
     draft_promote_cli rd, emit_miren_cli rd, run_plan_cli rd, verify_trace_cli rd, demo_cli rd,
     fault_demo_cli rd, benchmark_cli rd, serve_cli rd, connect_cli rd, serve_quic_cli rd,
     connect_quic_cli rd, serve_iroh_cli rd, connect_iroh_cli rd, draft_serve_iroh_cli rd,
     draft_connect_iroh_cli rd, verify_session_cli rd]"

definition declared :: "('p, 'ip) readers \<Rightarrow> (string \<times> arg_spec list) list" where
  "declared rd = map (\<lambda>(name, specs, _). (name, specs)) (subcommands rd)"

definition command_of :: "('p, 'ip) readers \<Rightarrow> string \<Rightarrow> matches \<Rightarrow> ('p, 'ip) cli_command option" where
  "command_of rd name m = Option.bind (map_of (subcommands rd) name) (\<lambda>(_, build). build m)"

definition parse_cli :: "clap \<Rightarrow> (string \<Rightarrow> 'p) \<Rightarrow> (string \<Rightarrow> string + 'ip) \<Rightarrow> string list
    \<Rightarrow> nat + ('p, 'ip) cli_command" where
  \<comment> \<open>\<open>Cli::parse\<close>, or the exit status; a value that does not parse is an error of usage\<close>
  "parse_cli cl path address words =
     (let rd = \<lparr>rd_number = cl_number cl, rd_path = path, rd_address = address\<rparr>
      in and_then (cl_parse cl (declared rd) words) (\<lambda>(name, m). ok_or 2 (command_of rd name m)))"

end
