(* ===== verification/Program.thy ===== *)
theory Program
  imports Arguments
begin

text \<open>
  \<open>main\<close> of \<open>src/src/main.rs\<close>: every command, from the words of the command line to the exit
  status.  The networks, the encoders of the reports and the environment of the benchmark are the
  fields of a record; what is printed is not modelled.
\<close>

record ('s, 'v, 'ip, 'id, 'addr, 'i, 'c, 'l, 'qi, 'qc, 'd, 'q, 'm, 'r) network =
  nw_tcp :: "('s, 'ip) tcp_net"
  nw_quic :: "('s, 'ip, 'l, 'qi, 'qc) quic_net"
  nw_iroh :: "('s, 'id, 'addr, 'i, 'c, 's iroh_streams) iroh_net"
  nw_bind_direct :: "byte list \<Rightarrow> 'ip \<Rightarrow> ('s, 'v runtime_error, 'addr) action"
  nw_serde :: "'v serde"
  nw_json :: "'v json_ops"
  nw_bytes :: "'v bytes_json"
  nw_sync :: "('d, 'q, 'm) sync_ops"
  nw_report :: "'v execution_report \<Rightarrow> string + byte list"
  nw_exchange :: "exchange_report \<Rightarrow> string + byte list"
  nw_bench :: "('s, 'v) bench_env"
  nw_over :: "u64 \<Rightarrow> u64 \<Rightarrow> 'r"  \<comment> \<open>the quotient of two times\<close>

datatype 'v main_error =
    MainTool "'v tool_error"
  | MainCommand "'v command_error"
  | MainBenchmark "'v benchmark_error"

type_synonym ('s, 'v) program = "'s \<Rightarrow> (('v main_error + nat) \<times> 's) option"

definition concluded :: "('s, 'v, 'a) running \<Rightarrow> ('s, 'v) program" where
  \<comment> \<open>a command that ends with \<open>Ok(())\<close> or with its error\<close>
  "concluded work s =
     map_option (\<lambda>(r, s). (map_sum MainCommand (\<lambda>_. 0) r, s)) (work s)"

definition wildcard :: "('s, 'p, 'v, 'ip) host \<Rightarrow> (byte list \<Rightarrow> 'ip \<Rightarrow> ('s, 'v runtime_error, 'addr) action)
    \<Rightarrow> byte list \<Rightarrow> ('s, 'v runtime_error, 'addr) action" where
  \<comment> \<open>a client binds any free port; the panic of \<open>expect\<close> is an error value\<close>
  "wildcard ho bind_direct secret =
     (case ho_parse_address ho ''0.0.0.0:0'' of
        Inl _ \<Rightarrow> fails_with (RtPanic ''valid wildcard address'')
      | Inr address \<Rightarrow> bind_direct secret address)"

definition benchmark_command :: "('s, 'p, 'v, 'ip) host \<Rightarrow> ('s, 'v) bench_env \<Rightarrow> (u64 \<Rightarrow> u64 \<Rightarrow> 'r) \<Rightarrow> 'p
    \<Rightarrow> string \<Rightarrow> nat \<Rightarrow> nat \<Rightarrow> nat \<Rightarrow> ('s, 'v) program" where
  \<comment> \<open>\<open>Benchmark\<close>\<close>
  "benchmark_command ho env over conversation prompt tokens iterations warmup_iterations s =
     (case read_json ho (ho_conversation ho) conversation s of
        (Inl e, s) \<Rightarrow> Some (Inl (MainCommand e), s)
      | (Inr c, s) \<Rightarrow>
          map_option (\<lambda>(r, s). (map_sum MainBenchmark (\<lambda>_. 0) r, s))
            (run_reference_benchmark env over c prompt tokens iterations warmup_iterations s))"

fun run_main :: "('s, 'p, 'v, 'ip) host \<Rightarrow> ('id, 'ip, 'addr) iroh_keys
    \<Rightarrow> ('s, 'p, 'v, 'd, 'o, 'h, 'f, 'n, 'w, 'x) kit
    \<Rightarrow> ('s, 'v, 'ip, 'id, 'addr, 'i, 'c, 'l, 'qi, 'qc, 'd, 'q, 'm, 'r) network
    \<Rightarrow> ('p, 'ip) cli_command \<Rightarrow> ('s, 'v) program" where
  "run_main ho ik kt nw (Local command) =
     (\<lambda>s. Some (act_map_err MainTool (run_command ho ik kt command) s))"
| "run_main ho ik kt nw (Benchmark conversation prompt tokens iterations warmup_iterations) =
     benchmark_command ho (nw_bench nw) (nw_over nw) conversation prompt tokens iterations warmup_iterations"
| "run_main ho ik kt nw (Serve conversation listen tokens wire forever) =
     concluded (serve_command ho (nw_tcp nw) (nw_serde nw) (nw_json nw) conversation listen tokens wire forever)"
| "run_main ho ik kt nw (Connect conversation server prompt cancel_after wire) =
     concluded (connect_command ho (nw_tcp nw) (nw_serde nw) (nw_json nw) conversation server prompt cancel_after wire)"
| "run_main ho ik kt nw (ServeQuic conversation listen certificate_out tokens wire) =
     concluded (serve_quic_command ho (nw_quic nw) (nw_serde nw) (nw_json nw) conversation listen certificate_out
       tokens wire)"
| "run_main ho ik kt nw (ConnectQuic conversation server certificate prompt cancel_after wire) =
     concluded (connect_quic_command ho (nw_quic nw) (nw_serde nw) (nw_json nw) conversation server certificate
       prompt cancel_after wire)"
| "run_main ho ik kt nw (ServeIroh conversation identity policy listen advertise ticket_out tokens wire report_out) =
     concluded (serve_iroh_command ho ik (nw_iroh nw) (\<lambda>secret. nw_bind_direct nw secret listen) (nw_serde nw)
       (nw_json nw) (nw_report nw) wire conversation identity policy advertise ticket_out tokens report_out)"
| "run_main ho ik kt nw (ConnectIroh conversation identity policy server prompt cancel_after wire report_out) =
     concluded (connect_iroh_command ho ik (nw_iroh nw) (wildcard ho (nw_bind_direct nw)) (nw_serde nw)
       (nw_json nw) (nw_report nw) wire conversation identity policy server prompt cancel_after report_out)"
| "run_main ho ik kt nw (DraftServeIroh conversation draft identity policy listen advertise ticket_out wire report_out) =
     concluded (draft_serve_iroh_command ho ik (nw_iroh nw) (\<lambda>secret. nw_bind_direct nw secret listen) (nw_serde nw)
       (nw_bytes nw) (nw_sync nw) (kt_store kt) (nw_exchange nw) wire conversation draft identity policy advertise
       ticket_out report_out)"
| "run_main ho ik kt nw (DraftConnectIroh conversation draft identity policy server wire report_out) =
     concluded (draft_connect_iroh_command ho ik (nw_iroh nw) (wildcard ho (nw_bind_direct nw)) (nw_serde nw)
       (nw_bytes nw) (nw_sync nw) (kt_store kt) (nw_exchange nw) wire conversation draft identity policy server
       report_out)"

definition run_words :: "clap \<Rightarrow> ('s, 'p, 'v, 'ip) host \<Rightarrow> ('id, 'ip, 'addr) iroh_keys
    \<Rightarrow> ('s, 'p, 'v, 'd, 'o, 'h, 'f, 'n, 'w, 'x) kit
    \<Rightarrow> ('s, 'v, 'ip, 'id, 'addr, 'i, 'c, 'l, 'qi, 'qc, 'd, 'q, 'm, 'r) network \<Rightarrow> string list
    \<Rightarrow> ('s, 'v) program" where
  \<comment> \<open>\<open>main\<close> on the words after the name of the program\<close>
  "run_words cl ho ik kt nw words s =
     (case parse_cli cl (kt_path kt) (ho_parse_address ho) words of
        Inl status \<Rightarrow> Some (Inr status, s)
      | Inr command \<Rightarrow> run_main ho ik kt nw command s)"

end
