(* ===== verification/Confinement.thy ===== *)
theory Confinement
  imports Program
begin

text \<open>
  Which files an action may write, by the ways actions are combined, and what the commands that work
  on this host alone write.  Of the host it is assumed that an operation on a file changes no other
  file, and of the secrets and of the HTTP agent that they change none.
\<close>

section \<open>What a command may write\<close>

definition writes_only :: "('s \<Rightarrow> 'p \<Rightarrow> byte list option) \<Rightarrow> 'p set \<Rightarrow> ('s, 'e, 'a) action \<Rightarrow> bool" where
  "writes_only look P f \<longleftrightarrow> (\<forall>s q. q \<notin> P \<longrightarrow> look (snd (f s)) q = look s q)"

definition orderly_files :: "('s, 'p) file_system \<Rightarrow> ('s \<Rightarrow> 'p \<Rightarrow> byte list option) \<Rightarrow> bool" where
  \<comment> \<open>an operation, failed or not, changes the contents of no file but the one it names\<close>
  "orderly_files fs look \<longleftrightarrow>
     (\<forall>p. writes_only look {} (fs_read fs p) \<and> writes_only look {} (fs_create_dirs fs p) \<and>
        writes_only look {p} (fs_open_private fs p) \<and> writes_only look {p} (fs_make_private fs p) \<and>
        (\<forall>b. writes_only look {p} (fs_write fs p b) \<and> writes_only look {p} (fs_append fs p b)))"

definition orderly_kit :: "('s, 'p, 'v, 'ip) host \<Rightarrow> ('s, 'p, 'v, 'd, 'o, 'h, 'f, 'n, 'w, 'r) kit
    \<Rightarrow> ('s \<Rightarrow> 'p \<Rightarrow> byte list option) \<Rightarrow> bool" where
  \<comment> \<open>drawing a secret and asking the service write no file\<close>
  "orderly_kit ho kt look \<longleftrightarrow>
     (\<forall>s. look (snd (ho_generate ho s)) = look s) \<and>
     (\<forall>key timeout body. writes_only look {} (ha_post (kt_agent kt key timeout) body)) \<and>
     (\<forall>key timeout delay s. look (ha_sleep (kt_agent kt key timeout) delay s) = look s)"

section \<open>Rules\<close>

named_theorems writes_rules "how the ways to combine actions confine what they write"

lemma writes_basic [writes_rules]:
  "writes_only look P (done_with x)" "writes_only look P (fails_with e)" "writes_only look P (from_result r)"
  by (simp_all add: writes_only_def done_with_def fails_with_def from_result_def)

lemma writes_then [writes_rules]:
  "writes_only look P f \<Longrightarrow> (\<And>x. writes_only look P (g x)) \<Longrightarrow> writes_only look P (act_then f g)"
  unfolding writes_only_def act_then_def by (auto split: prod.splits sum.splits) (metis snd_conv)+

lemma writes_then_result:
  assumes "\<And>x. r = Inr x \<Longrightarrow> writes_only look P (g x)"
  shows "writes_only look P (act_then (from_result r) g)"
  using assms unfolding writes_only_def act_then_def from_result_def by (cases r) auto

lemma writes_map_err [writes_rules]: "writes_only look P f \<Longrightarrow> writes_only look P (act_map_err h f)"
  unfolding writes_only_def act_map_err_def by (simp split: prod.splits) (metis snd_conv)

lemma writes_if [writes_rules]:
  "writes_only look P f \<Longrightarrow> writes_only look P g \<Longrightarrow> writes_only look P (if b then f else g)"
  by simp

lemma writes_option [writes_rules]:
  "writes_only look P f \<Longrightarrow> (\<And>x. writes_only look P (g x)) \<Longrightarrow>
     writes_only look P (case y of None \<Rightarrow> f | Some x \<Rightarrow> g x)"
  by (cases y) simp_all

lemma writes_sum [writes_rules]:
  "(\<And>e. writes_only look P (f e)) \<Longrightarrow> (\<And>x. writes_only look P (g x)) \<Longrightarrow>
     writes_only look P (case r of Inl e \<Rightarrow> f e | Inr x \<Rightarrow> g x)"
  by (cases r) simp_all

lemma writes_each [writes_rules]:
  "(\<And>x. writes_only look P (f x)) \<Longrightarrow> writes_only look P (act_each f xs)"
  by (induction xs) (auto intro: writes_rules)

lemma writes_mono: "writes_only look P f \<Longrightarrow> P \<subseteq> Q \<Longrightarrow> writes_only look Q f"
  by (auto simp: writes_only_def)

lemma writes_none: "writes_only look {} f \<Longrightarrow> writes_only look P f"
  by (rule writes_mono) auto

lemma writes_prod [writes_rules]:
  "(\<And>x z. writes_only look P (g x z)) \<Longrightarrow> writes_only look P (case y of (x, z) \<Rightarrow> g x z)"
  by (cases y) simp

lemma writes_file:
  assumes "orderly_files fs look"
  shows "writes_only look P (fs_read fs p)" "writes_only look P (fs_create_dirs fs p)"
    and "p \<in> P \<Longrightarrow> writes_only look P (fs_open_private fs p)" "p \<in> P \<Longrightarrow> writes_only look P (fs_make_private fs p)"
    and "p \<in> P \<Longrightarrow> writes_only look P (fs_write fs p b)" "p \<in> P \<Longrightarrow> writes_only look P (fs_append fs p b)"
  using assms unfolding orderly_files_def by (auto elim!: allE [of _ p] intro: writes_mono)

lemma writes_reading:
  assumes files: "orderly_files (ho_files ho) look"
  shows "writes_only look P (read_json ho decode path)" "writes_only look P (tool_json ho decode path)"
    and "writes_only look P (read_plan ho path)" "writes_only look P (absent ho path)"
    and "writes_only look P (absent_all ho paths)" "writes_only look P (load_json (ho_files ho) from_json check path)"
proof -
  note ops = writes_file [OF files]
  show read: "writes_only look P (read_json ho decode path)" for decode :: "byte list \<Rightarrow> string + 'x" and path
    unfolding read_json_def by (intro writes_rules ops)
  show "writes_only look P (tool_json ho decode path)"
    unfolding tool_json_def by (intro writes_rules read)
  show "writes_only look P (read_plan ho path)"
    unfolding read_plan_def by (intro writes_rules read)
  show absent: "writes_only look P (absent ho path)" for path
    by (simp add: writes_only_def absent_def)
  show "writes_only look P (absent_all ho paths)"
    by (induction paths) (auto intro: writes_rules absent)
  show "writes_only look P (load_json (ho_files ho) from_json check path)"
    unfolding load_json_def by (intro writes_rules ops)
qed

lemma writes_writing:
  assumes files: "orderly_files (ho_files ho) look" and "path \<in> P"
  shows "writes_only look P (tool_write ho path bytes)" "writes_only look P (save_identity ho ik path identity)"
    and "writes_only look P (save_authorization ho ik path policy)"
proof -
  note ops = writes_file [OF files] and into = writes_file(3-6) [OF files assms(2)]
  have parent: "writes_only look P (create_parent (ho_files ho) path)"
    unfolding create_parent_def by (intro writes_rules ops)
  show "writes_only look P (tool_write ho path bytes)"
    unfolding tool_write_def write_bytes_def by (intro writes_rules parent into)
  show "writes_only look P (save_identity ho ik path identity)"
    unfolding save_identity_def save_private_def by (intro writes_rules parent into)
  show "writes_only look P (save_authorization ho ik path policy)"
    unfolding save_authorization_def save_policy_def write_public_json_def by (intro writes_rules parent into)
qed

lemma writes_deciding:
  assumes kit: "orderly_kit ho kt look"
  shows "writes_only look P (decide show_f64 bound (type_safe_choose (kt_agent kt key timeout) jv) state)"
proof -
  have post: "writes_only look P (ha_post (kt_agent kt key timeout) body)" for body
    using kit by (auto simp: orderly_kit_def intro: writes_none)
  have sleep: "writes_only look P f \<Longrightarrow> writes_only look P (\<lambda>s. f (ha_sleep (kt_agent kt key timeout) delay s))"
    for f :: "('a, jev_error, choice_answer) action" and delay
    using kit by (simp add: orderly_kit_def writes_only_def)
  have "writes_only look P (post_loop (kt_agent kt key timeout) jv body delays)" for body delays
    by (induction delays) (auto intro!: writes_rules post sleep)
  then have "writes_only look P (type_safe_choose (kt_agent kt key timeout) jv request)" for request
    by (simp add: writes_only_def type_safe_choose_def del: post_loop.simps)
  then show ?thesis unfolding decide_def Let_def by (intro writes_rules)
qed

section \<open>Each command\<close>

lemma node_commands_write:
  fixes ho :: "('s, 'p, 'v, 'ip) host"
  assumes host: "orderly_files (ho_files ho) look" "orderly_kit ho kt look"
  shows "out \<in> P \<Longrightarrow> writes_only look P (node_init ho ik out)"
    and "policy \<in> P \<Longrightarrow> writes_only look P (policy_allow ho ik conversation policy peer role)"
    and "ho_join ho out ` {''server.colloqnode.json'', ''client.colloqnode.json'',
       ''server.authorization.json'', ''client.authorization.json''} \<subseteq> P \<Longrightarrow>
      writes_only look P (bootstrap_two_node ho ik conversation draft_conversation out)"
proof -
  note reading = writes_reading [OF host(1)] and writing = writes_writing [OF host(1)]
  have secret: "writes_only look P (generate_identity_of ho ik)"
    using host(2) by (auto simp: writes_only_def generate_identity_of_def orderly_kit_def split: prod.splits)
      (metis snd_conv)
  show "writes_only look P (node_init ho ik out)" if "out \<in> P"
    unfolding node_init_def by (intro writes_rules reading secret writing that)
  show "writes_only look P (policy_allow ho ik conversation policy peer role)" if "policy \<in> P"
  proof -
    have stored: "writes_only look P (act_map_err CmdNode (load_policy (ho_files ho) (at_decode (ho_policy ho)) ik policy)
        :: ('s, 'v command_error, authorization_policy) action)"
      unfolding load_policy_def by (intro writes_rules reading)
    have load: "writes_only look P (\<lambda>s. if ho_exists ho policy s
         then act_map_err CmdNode (load_policy (ho_files ho) (at_decode (ho_policy ho)) ik policy) s
         else (Inr default_policy, s) :: ('v command_error + authorization_policy) \<times> 's)"
      using stored by (simp add: writes_only_def)
    show ?thesis unfolding policy_allow_def by (intro writes_rules reading load writing that)
  qed
  show "writes_only look P (bootstrap_two_node ho ik conversation draft_conversation out)"
    if "ho_join ho out ` {''server.colloqnode.json'', ''client.colloqnode.json'',
       ''server.authorization.json'', ''client.authorization.json''} \<subseteq> P"
    unfolding bootstrap_two_node_def Let_def
    by (intro writes_rules reading secret writing) (use that in auto)
qed

lemma tool_commands_write:
  assumes files: "orderly_files (ho_files ho) look"
  shows "writes_only look P (check_command ho show_errors conversation json)"
    and "out \<in> P \<Longrightarrow> writes_only look P (compile_command ho encode_plan conversation out)"
    and "writes_only look P (verify_trace_command ho decode_frames conversation trace)"
    and "writes_only look P (verify_session_command ho decode_report conversation trace)"
    and "writes_only look P (bind_files ho show_f64 decode_binding conversation binding)"
    and "out \<in> P \<Longrightarrow> writes_only look P (draft_create_command ho ds create conversation out)"
    and "(case out' of Some p \<Rightarrow> p | None \<Rightarrow> draft) \<in> P \<Longrightarrow>
      writes_only look P (draft_patch_command ho ds am nv parse draft pointer new_value out')"
    and "out \<in> P \<Longrightarrow> plan_out \<in> P \<Longrightarrow>
      writes_only look P (draft_promote_command ho ds gate encode_conversation encode_plan draft out plan_out)"
proof -
  note ops = writes_file [OF files] and reading = writes_reading [OF files] and writing = writes_writing [OF files]
  show "writes_only look P (check_command ho show_errors conversation json)"
    unfolding check_command_def by (intro writes_rules reading)
  show "writes_only look P (compile_command ho encode_plan conversation out)" if "out \<in> P"
    unfolding compile_command_def by (intro writes_rules reading ops that)
  show "writes_only look P (verify_trace_command ho decode_frames conversation trace)"
    unfolding verify_trace_command_def by (intro writes_rules reading)
  show "writes_only look P (verify_session_command ho decode_report conversation trace)"
    unfolding verify_session_command_def by (intro writes_rules reading)
  show "writes_only look P (bind_files ho show_f64 decode_binding conversation binding)"
    unfolding bind_files_def by (intro writes_rules reading)
  show "writes_only look P (draft_create_command ho ds create conversation out)" if "out \<in> P"
    unfolding draft_create_command_def by (intro writes_rules reading writing that)
  show "writes_only look P (draft_patch_command ho ds am nv parse draft pointer new_value out')"
    if "(case out' of Some p \<Rightarrow> p | None \<Rightarrow> draft) \<in> P"
    unfolding draft_patch_command_def by (intro writes_rules reading ops writing that)
  show "writes_only look P (draft_promote_command ho ds gate encode_conversation encode_plan draft out plan_out)"
    if "out \<in> P" "plan_out \<in> P"
    unfolding draft_promote_command_def by (intro writes_rules reading ops writing that)
qed

text \<open>A projection writes one file for each role of the conversation it reads.\<close>

lemma project_writes:
  fixes ho :: "('s, 'p, 'v, 'ip) host"
  assumes files: "orderly_files (ho_files ho) look"
    and q: "\<And>c s1 role. (tool_json ho (ho_conversation ho) conversation :: ('s, 'v, _) tool) s = (Inr c, s1) \<Longrightarrow>
      role \<in> set (conv_roles c) \<Longrightarrow> q \<noteq> endpoint_file ho out (role_id role)"
  shows "look (snd (project_command ho encode_endpoint conversation out s)) q = look s q"
proof -
  obtain a s1 where read: "(tool_json ho (ho_conversation ho) conversation :: ('s, 'v, _) tool) s = (a, s1)"
    by (cases "(tool_json ho (ho_conversation ho) conversation :: ('s, 'v, _) tool) s")
  have "writes_only look {} (tool_json ho (ho_conversation ho) conversation :: ('s, 'v, _) tool)"
    by (rule writes_reading [OF files])
  with read have s1: "look s1 q = look s q" unfolding writes_only_def by (metis empty_iff snd_conv)
  show ?thesis
  proof (cases a)
    case (Inr c)
    let ?P = "(\<lambda>role. endpoint_file ho out (role_id role)) ` set (conv_roles c)"
    have each: "writes_only look ?P (act_each (\<lambda>e.
        act_then (from_result (map_err ToolJson (encode_endpoint e))) (\<lambda>bytes.
        act_map_err ToolIo (fs_write (ho_files ho) (endpoint_file ho out (ep_role e)) bytes))) es
        :: ('s, 'v tool_error, unit) action)" if "ep_role ` set es \<subseteq> role_id ` set (conv_roles c)" for es
      using that
      by (induction es) (auto intro!: writes_rules writes_file [OF files] simp del: act_each.simps(2)
          simp: act_each.simps(2) image_iff)
    have roles: "ep_role ` set endpoints \<subseteq> role_id ` set (conv_roles c)"
      if "map_err ToolValidation (project c) = (Inr endpoints :: 'v tool_error + _)" for endpoints
      using that by (auto simp: project_def project_validated_def result_simps map_err_Inr)
    have "writes_only look ?P (act_then (from_result (map_err ToolValidation (project c))) (\<lambda>endpoints.
        act_then (act_map_err ToolIo (fs_create_dirs (ho_files ho) out)) (\<lambda>_.
        act_then (act_each (\<lambda>e.
          act_then (from_result (map_err ToolJson (encode_endpoint e))) (\<lambda>bytes.
          act_map_err ToolIo (fs_write (ho_files ho) (endpoint_file ho out (ep_role e)) bytes))) endpoints) (\<lambda>_.
        done_with 0))) :: ('s, 'v, nat) tool)"
      by (intro writes_then_result writes_then writes_map_err writes_file [OF files] writes_basic each roles)
    moreover have "q \<notin> ?P" using q read Inr by auto
    ultimately show ?thesis
      using read s1 Inr by (simp add: project_command_def act_then_def writes_only_def)
  qed (use read s1 in \<open>simp add: project_command_def act_then_def\<close>)
qed

lemma emit_miren_writes:
  assumes files: "orderly_files (ho_files ho) look"
  shows "writes_only look {as_path ''.miren/app.toml'', as_path MIREN_DOCKERFILE}
    (emit_miren_command ho as_path as_bytes quoted quoted_path to_toml source app_name port tokens instances wire
       transport internal_only)"
proof -
  note reading = writes_reading [OF files] and writing = writes_writing [OF files]
  have dockerfile: "mb_dockerfile_path mb = MIREN_DOCKERFILE"
    if "map_err ToolDeploy (render_miren_bundle quoted quoted_path to_toml ext c opts) =
      (Inr mb :: 'c tool_error + miren_bundle)" for ext c opts mb
    using that by (auto simp: render_miren_bundle_def result_simps Let_def)
  show ?thesis
    unfolding emit_miren_command_def
    by (intro writes_rules(4) reading writes_then_result writing writes_rules(1)) (auto dest: dockerfile)
qed

end
