(* ===== verification/Confinement_Networks.thy ===== *)
theory Confinement_Networks
  imports Confinement
begin

text \<open>
  What the commands that serve and connect write.  Of \<open>std::net\<close>, \<open>quinn\<close> and \<open>iroh\<close> it is assumed
  that no operation on an endpoint or a stream changes a file; a connection, a workload and an
  exchange then change none either, whatever state they are carried in.
\<close>

section \<open>More rules\<close>

definition untouched :: "('s \<Rightarrow> 'p \<Rightarrow> byte list option) \<Rightarrow> ('s \<Rightarrow> 's) \<Rightarrow> bool" where
  "untouched look f \<longleftrightarrow> (\<forall>s. look (f s) = look s)"

definition hands_out :: "('s, 'e, 'a) action \<Rightarrow> ('a \<Rightarrow> bool) \<Rightarrow> bool" where
  "hands_out f good \<longleftrightarrow> (\<forall>s x s'. f s = (Inr x, s') \<longrightarrow> good x)"

definition runs_only :: "('s \<Rightarrow> 'p \<Rightarrow> byte list option) \<Rightarrow> 'p set \<Rightarrow> ('s \<Rightarrow> ('r \<times> 's) option) \<Rightarrow> bool" where
  "runs_only look P f \<longleftrightarrow> (\<forall>s r s' q. f s = Some (r, s') \<longrightarrow> q \<notin> P \<longrightarrow> look s' q = look s q)"

lemma writes_at_state:
  assumes "\<And>c. writes_only look P (f c)" and "\<And>c x. writes_only look P (g c x)"
  shows "writes_only look P (\<lambda>c. act_then (f c) (g c) c)"
proof -
  have "writes_only look P (act_then (f c) (g c))" for c using assms by (rule writes_then)
  then show ?thesis by (simp add: writes_only_def)
qed

lemma writes_step: "untouched look h \<Longrightarrow> writes_only look P (\<lambda>s. (r, h s))"
  by (simp add: untouched_def writes_only_def)

lemma writes_after:
  assumes "writes_only look P f" and "\<And>r s q. q \<notin> P \<Longrightarrow> look (snd (g r s)) q = look s q"
  shows "writes_only look P (\<lambda>s. case f s of (r, s') \<Rightarrow> g r s')"
  using assms unfolding writes_only_def by (simp split: prod.splits) (metis snd_conv)

lemma writes_then_hands_out:
  assumes "writes_only look P f" and "hands_out f good" and "\<And>x. good x \<Longrightarrow> writes_only look P (g x)"
  shows "writes_only look P (act_then f g)"
  using assms unfolding writes_only_def hands_out_def act_then_def
  by (auto split: prod.splits sum.splits) (metis snd_conv)+

lemma hands_out_map_err: "hands_out f good \<Longrightarrow> hands_out (act_map_err h f) good"
  by (simp add: hands_out_def act_map_err_Inr)

lemma hands_out_then:
  "(\<And>x. hands_out (g x) good) \<Longrightarrow> hands_out (act_then f g) good"
  by (fastforce simp: hands_out_def act_then_Inr)

lemma hands_out_then_hands_out:
  "hands_out f good \<Longrightarrow> (\<And>x. good x \<Longrightarrow> hands_out (g x) fine) \<Longrightarrow> hands_out (act_then f g) fine"
  by (fastforce simp: hands_out_def act_then_Inr)

lemma hands_out_done: "good x \<Longrightarrow> hands_out (done_with x) good"
  by (simp add: hands_out_def done_with_def)

lemma runs_actions:
  assumes "writes_only look P f" and "\<And>x. runs_only look P (g x)"
  shows "runs_only look P (run_then f g)"
  unfolding runs_only_def
proof (intro allI impI)
  fix s r s' q
  assume run: "run_then f g s = Some (r, s')" and q: "q \<notin> P"
  obtain a s1 where f: "f s = (a, s1)" by (cases "f s")
  with assms(1) q have "look s1 q = look s q" unfolding writes_only_def by (metis snd_conv)
  with run f q assms(2) show "look s' q = look s q"
    by (cases a) (auto simp: run_then_def runs_only_def)
qed

lemma runs_actions_hands_out:
  assumes "writes_only look P f" and "hands_out f good" and "\<And>x. good x \<Longrightarrow> runs_only look P (g x)"
  shows "runs_only look P (run_then f g)"
  unfolding runs_only_def
proof (intro allI impI)
  fix s r s' q
  assume run: "run_then f g s = Some (r, s')" and q: "q \<notin> P"
  obtain a s1 where f: "f s = (a, s1)" by (cases "f s")
  with assms(1) q have "look s1 q = look s q" unfolding writes_only_def by (metis snd_conv)
  show "look s' q = look s q"
  proof (cases a)
    case (Inr x)
    with assms(2) f have "runs_only look P (g x)" by (auto simp: hands_out_def intro: assms(3))
    with run f q Inr \<open>look s1 q = look s q\<close> show ?thesis by (auto simp: run_then_def runs_only_def)
  qed (use run f \<open>look s1 q = look s q\<close> in \<open>auto simp: run_then_def\<close>)
qed

lemma runs_running:
  "runs_only look P f \<Longrightarrow> (\<And>x. runs_only look P (g x)) \<Longrightarrow> runs_only look P (running_then f g)"
  by (fastforce simp: runs_only_def running_then_def split: option.splits sum.splits prod.splits)

lemma runs_action: "writes_only look P f \<Longrightarrow> runs_only look P (\<lambda>s. Some (f s))"
  by (auto simp: runs_only_def writes_only_def) (metis snd_conv)

lemma runs_mono: "runs_only look P f \<Longrightarrow> P \<subseteq> Q \<Longrightarrow> runs_only look Q f"
  by (fastforce simp: runs_only_def)

lemma runs_none: "runs_only look {} f \<Longrightarrow> runs_only look P f"
  by (rule runs_mono) auto

lemma runs_concluded: "runs_only look P f \<Longrightarrow> runs_only look P (concluded f)"
  by (auto simp: runs_only_def concluded_def)

lemma runs_loop:
  fixes conversation :: "('s, 'v, 'r) running"
  assumes "runs_only look P conversation"
  shows "runs_only look P (serve_loop forever conversation)"
  unfolding runs_only_def
proof (intro allI impI)
  fix s r s' q
  assume run: "serve_loop forever conversation s = Some (r, s')" and q: "q \<notin> P"
  have "runs_only look P conversation \<longrightarrow> look (snd (r, s')) q = look s q"
  proof (rule serve_loop.raw_induct [where P = "\<lambda>forever conversation s t.
      runs_only look P conversation \<longrightarrow> look (snd t) q = look s q", OF _ run], intro impI)
    fix loop :: "bool \<Rightarrow> ('s, 'v, 'r) running \<Rightarrow> ('s, 'v, unit) running"
    fix forever s t and conversation :: "('s, 'v, 'r) running"
    assume ih: "\<And>forever conversation s t. loop forever conversation s = Some t \<Longrightarrow>
        runs_only look P conversation \<longrightarrow> look (snd t) q = look s q"
      and step: "(case conversation s of
          None \<Rightarrow> None
        | Some (Inl e, s') \<Rightarrow> Some (Inl e, s')
        | Some (Inr _, s') \<Rightarrow> if forever then loop forever conversation s' else Some (Inr (), s')) = Some t"
      and runs: "runs_only look P conversation"
    from step obtain a s1 where c: "conversation s = Some (a, s1)" by (auto split: option.splits)
    with runs q have "look s1 q = look s q" unfolding runs_only_def by blast
    with step c ih [of forever conversation s1 t] runs show "look (snd t) q = look s q"
      by (auto split: sum.splits if_splits)
  qed
  with assms show "look s' q = look s q" by simp
qed

lemmas shape_rules = writes_rules(1-10)

section \<open>Streams and connections\<close>

definition orderly_stream :: "('s \<Rightarrow> 'p \<Rightarrow> byte list option) \<Rightarrow> ('s, 'e) raw_stream \<Rightarrow> bool" where
  "orderly_stream look rs \<longleftrightarrow>
     (\<forall>bytes. writes_only look {} (rs_write rs bytes)) \<and> writes_only look {} (rs_flush rs) \<and>
     (\<forall>n. writes_only look {} (rs_read rs n)) \<and> untouched look (rs_close rs)"

definition orderly_closing :: "('s \<Rightarrow> 'p \<Rightarrow> byte list option) \<Rightarrow> 's closing \<Rightarrow> bool" where
  "orderly_closing look cl \<longleftrightarrow>
     (\<forall>bytes. writes_only look {} (cl_write cl bytes)) \<and> (\<forall>n. writes_only look {} (cl_read cl n)) \<and>
     (\<forall>n. untouched look (\<lambda>s. snd (cl_read_timed cl n s))) \<and> writes_only look {} (cl_finish cl) \<and>
     untouched look (cl_close cl) \<and> untouched look (cl_stopped cl) \<and> untouched look (\<lambda>s. snd (cl_closed cl s)) \<and>
     untouched look (cl_endpoint_close cl)"

definition orderly_link :: "('s \<Rightarrow> 'p \<Rightarrow> byte list option) \<Rightarrow> ('s, 'v) link \<Rightarrow> bool" where
  "orderly_link look lk \<longleftrightarrow>
     (\<forall>chunks. writes_only look {} (lk_put lk chunks)) \<and> (\<forall>n. writes_only look {} (lk_get lk n)) \<and>
     untouched look (lk_reject lk) \<and> untouched look (lk_abort lk)"

lemma stream_ends:
  assumes "orderly_stream look rs"
  shows "look (snd (rs_write rs bytes s)) = look s" "look (snd (rs_flush rs s)) = look s"
    "look (rs_close rs s) = look s"
  using assms by (auto simp: orderly_stream_def writes_only_def untouched_def)

lemma writes_chunks: "(\<And>b. writes_only look P (w b)) \<Longrightarrow> writes_only look P (write_chunks w chunks)"
  by (induction chunks) (auto intro: writes_rules)

lemma links_orderly:
  "orderly_stream look rs \<Longrightarrow> orderly_link look (tcp_link rs)"
  "orderly_stream look qs \<Longrightarrow> orderly_link look (quic_link qs)"
  "orderly_stream look qs \<Longrightarrow> orderly_link look (iroh_link qs)"
  by (simp_all add: orderly_link_def tcp_link_def quic_link_def iroh_link_def untouched_def stream_ends)
    (auto simp: orderly_stream_def intro!: shape_rules writes_chunks)

text \<open>A connection looks at the files through its stream.\<close>

lemma writes_on_stream:
  "writes_only look P f \<Longrightarrow> writes_only (\<lambda>c. look (cn_stream c)) P (on_stream f)"
  by (simp add: writes_only_def on_stream_def split: prod.splits) (metis snd_conv)

lemma framed_write:
  assumes "orderly_link look lk"
  shows "writes_only (\<lambda>c. look (cn_stream c)) {} (framed_send lk sd required e)"
    and "writes_only (\<lambda>c. look (cn_stream c)) {} (framed_receive lk sd required)"
proof -
  have ops: "writes_only (\<lambda>c. look (cn_stream c)) {} (on_stream (lk_put lk chunks))"
    "writes_only (\<lambda>c. look (cn_stream c)) {} (on_stream (lk_get lk n))" for chunks n
    using assms by (auto simp: orderly_link_def intro: writes_on_stream)
  show "writes_only (\<lambda>c. look (cn_stream c)) {} (framed_send lk sd required e)"
    unfolding framed_send_def [abs_def] by (intro writes_at_state shape_rules ops)
  show "writes_only (\<lambda>c. look (cn_stream c)) {} (framed_receive lk sd required)"
    unfolding framed_receive_def [abs_def] Let_def by (intro writes_at_state shape_rules ops)
qed

lemma exchange_writes:
  assumes "orderly_link look lk"
  shows "writes_only look {} (exchange_prefaces lk sd own check)"
proof -
  have ops: "writes_only look {} (lk_put lk chunks)" "writes_only look {} (lk_get lk n)"
    and ends: "look (lk_abort lk s) = look s" "look (lk_reject lk s) = look s" for chunks n s
    using assms by (auto simp: orderly_link_def untouched_def)
  show ?thesis
    unfolding exchange_prefaces_def [abs_def] Let_def
    by (intro shape_rules ops writes_step writes_after)
      (auto simp: untouched_def ends split: sum.splits)
qed

lemma establish_writes:
  assumes "orderly_link look lk"
  shows "writes_only (\<lambda>c. look (cn_stream c)) {} (establish_on lk sd own check)"
  unfolding establish_on_def
  by (intro shape_rules writes_on_stream exchange_writes assms writes_step) (simp add: untouched_def)

lemma sessions_write:
  "orderly_stream look rs \<Longrightarrow> writes_only (\<lambda>c. look (cn_stream c)) {} (tcp_establish_session rs sd plan mine role)"
  "orderly_stream look qs \<Longrightarrow> writes_only (\<lambda>c. look (cn_stream c)) {} (quic_establish_session qs sd plan mine role)"
  "orderly_stream look qs \<Longrightarrow>
     writes_only (\<lambda>c. look (cn_stream c)) {} (iroh_establish_session qs info sd plan mine role)"
  unfolding tcp_establish_session_def [abs_def] quic_establish_session_def [abs_def]
    iroh_establish_session_def [abs_def]
  by (intro writes_at_state shape_rules establish_writes links_orderly, assumption)+

section \<open>Transports and their closing\<close>

definition orderly_transport :: "('t \<Rightarrow> 'p \<Rightarrow> byte list option) \<Rightarrow> ('t, 'v) transport \<Rightarrow> bool" where
  "orderly_transport look tp \<longleftrightarrow>
     (\<forall>e. writes_only look {} (tp_send tp e)) \<and> writes_only look {} (tp_receive tp) \<and>
     (\<forall>role. writes_only look {} (tp_finish tp role)) \<and> untouched look (tp_abort tp)"

lemma closing_writes:
  assumes "orderly_closing look cl"
  shows "writes_only look {} (quic_finish_body cl role)" and "writes_only look {} (iroh_finish_body cl role)"
proof -
  have ops: "writes_only look {} (cl_write cl bytes)" "writes_only look {} (cl_read cl n)"
    "writes_only look {} (cl_finish cl)" for bytes n
    using assms by (auto simp: orderly_closing_def)
  have ends: "look (cl_close cl s) = look s" "look (cl_stopped cl s) = look s" "look (snd (cl_closed cl s)) = look s"
    "look (cl_endpoint_close cl s) = look s" "look (snd (cl_read_timed cl n s)) = look s"
    "look (snd (cl_finish cl s)) = look s" for s n
    using assms by (auto simp: orderly_closing_def untouched_def writes_only_def)
  have reads: "writes_only look {} (await_close_marker cl)" "writes_only look {} (await_closed cl)"
    using ends(3) ends(5) by (auto simp: writes_only_def await_close_marker_def await_closed_def
        split: prod.splits option.splits) (metis snd_conv)+
  have marker: "writes_only look {} (read_close_marker cl)"
    unfolding read_close_marker_def by (intro shape_rules ops)
  have updates: "writes_only look {} (updating h)" if "untouched look h" for h
    using that by (simp add: writes_only_def updating_def untouched_def)
  show "writes_only look {} (quic_finish_body cl role)"
    unfolding quic_finish_body_def by (intro shape_rules ops reads updates) (auto simp: untouched_def ends)
  show "writes_only look {} (iroh_finish_body cl role)"
    unfolding iroh_finish_body_def by (intro shape_rules ops reads marker updates) (auto simp: untouched_def ends)
qed

lemma writes_finish_once:
  "writes_only look P f \<Longrightarrow> writes_only (\<lambda>k. look (cb_stream k)) P (finish_once f)"
  by (auto simp: writes_only_def finish_once_def split: prod.splits sum.splits) (metis snd_conv)+

text \<open>An open end looks at the files through its connection.\<close>

abbreviation end_look :: "('s \<Rightarrow> 'p \<Rightarrow> byte list option) \<Rightarrow> 's open_end \<Rightarrow> 'p \<Rightarrow> byte list option" where
  "end_look look x \<equiv> look (cn_stream (oe_connection x))"

lemma writes_on_connection:
  "writes_only (\<lambda>c. look (cn_stream c)) P f \<Longrightarrow> writes_only (end_look look) P (on_connection f)"
  by (simp add: writes_only_def on_connection_def split: prod.splits) (metis snd_conv)

lemma writes_on_closable:
  fixes f :: "('s closable, 'e, unit) action"
  assumes "writes_only (\<lambda>k. look (cb_stream k)) P f"
  shows "writes_only (end_look look) P (on_closable f)"
  unfolding writes_only_def
proof (intro allI impI)
  fix x :: "'s open_end" and q
  let ?k = "\<lparr>cb_stream = cn_stream (oe_connection x), cb_finished = oe_finished x\<rparr>"
  assume "q \<notin> P"
  with assms have "look (cb_stream (snd (f ?k))) q = look (cb_stream ?k) q" unfolding writes_only_def by blast
  then show "end_look look (snd (on_closable f x)) q = end_look look x q"
    by (auto simp: on_closable_def split: prod.splits)
qed

lemma default_writes: "writes_only look P (default_finish role)"
  by (simp add: writes_only_def default_finish_def)

lemma transports_orderly:
  "orderly_stream look rs \<Longrightarrow> orderly_transport (\<lambda>c. look (cn_stream c)) (tcp_transport rs sd)"
  "orderly_stream look qs \<Longrightarrow> orderly_closing look cl \<Longrightarrow> orderly_transport (end_look look) (quic_transport qs cl sd)"
  "orderly_stream look qs \<Longrightarrow> orderly_closing look cl \<Longrightarrow>
     orderly_transport (end_look look) (iroh_transport_ops qs cl sd)"
  by (auto simp: orderly_transport_def tcp_transport_def quic_transport_def iroh_transport_ops_def tcp_send_def
      tcp_receive_def quic_send_def quic_receive_def iroh_send_def iroh_receive_def quic_finish_def iroh_finish_def
      untouched_def abort_end_def default_writes stream_ends
      intro!: writes_on_connection writes_on_closable writes_finish_once closing_writes framed_write links_orderly)

section \<open>Workloads\<close>

text \<open>A running workload, and a peer of an exchange, look at the files through their transport.\<close>

abbreviation run_look :: "('t \<Rightarrow> 'p \<Rightarrow> byte list option) \<Rightarrow> ('t, 'v) run \<Rightarrow> 'p \<Rightarrow> byte list option" where
  "run_look look r \<equiv> look (rn_transport r)"

lemma settle_keeps: "orderly_transport look tp \<Longrightarrow> look (settle tp answer t) = look t"
  by (auto simp: settle_def orderly_transport_def untouched_def split: sum.splits)

lemma run_steps_write:
  assumes "orderly_transport look tp"
  shows "writes_only (run_look look) {} (run_send tp e)" and "writes_only (run_look look) {} (run_receive tp)"
    and "writes_only (run_look look) {} (emit_and_send tp emit_op)"
proof -
  have ops: "look (snd (tp_send tp e t)) = look t" "look (snd (tp_receive tp t)) = look t" for e t
    using assms by (auto simp: orderly_transport_def writes_only_def)
  show send: "writes_only (run_look look) {} (run_send tp e)" for e
    using ops(1) [of e]
    by (auto simp: writes_only_def run_send_def settle_keeps [OF assms] split: prod.splits sum.splits)
      (metis snd_conv)+
  show "writes_only (run_look look) {} (run_receive tp)"
    using ops(2)
    by (auto simp: writes_only_def run_receive_def settle_keeps [OF assms] split: prod.splits sum.splits)
      (metis snd_conv)+
  show "writes_only (run_look look) {} (emit_and_send tp emit_op)"
    using send by (auto simp: writes_only_def emit_and_send_def split: prod.splits sum.splits)
qed

lemma writes_frame [writes_rules]:
  assumes "\<And>a b m p. writes_only look P (f a b m p)" and "\<And>a l. writes_only look P (g a l)"
    and "\<And>a b l. writes_only look P (h a b l)" and "\<And>a l. writes_only look P (k a l)"
  shows "writes_only look P (case frame of FData a b m p \<Rightarrow> f a b m p | FSelect a l \<Rightarrow> g a l
    | FCancel a b l \<Rightarrow> h a b l | FFault a l \<Rightarrow> k a l)"
  using assms by (cases frame) simp_all

lemma rounds_write:
  assumes "orderly_transport look tp"
  shows "writes_only (run_look look) {} (client_round tp js cancel_after tokens)"
    and "writes_only (run_look look) {} (server_round tp js token_limit tokens)"
  unfolding client_round_def server_round_def Let_def
  by (intro shape_rules writes_frame run_steps_write [OF assms])+

lemma loop_writes:
  assumes "\<And>tokens. writes_only (run_look look) {} (body tokens)"
    and "iterate (loop_step body) (tokens, r) = Some (answer, r')"
  shows "run_look look r' = run_look look r"
proof -
  have "run_look look (snd (answer, r')) = run_look look r"
  proof (rule iterate_invariant [OF assms(2), where P = "\<lambda>(tokens, x). run_look look x = run_look look r"
      and Q = "\<lambda>y. run_look look (snd y) = run_look look r"])
    have body: "run_look look (snd (body tokens x)) = run_look look x" for tokens x
      using assms(1) by (auto simp: writes_only_def)
    show "case s' of (tokens, x) \<Rightarrow> run_look look x = run_look look r"
      if "case s of (tokens, x) \<Rightarrow> run_look look x = run_look look r" and "loop_step body s = Inr s'" for s s'
      using that body
      by (auto simp: loop_step_def split: prod.splits sum.splits if_splits) (metis snd_conv)+
    show "run_look look (snd y) = run_look look r"
      if "case s of (tokens, x) \<Rightarrow> run_look look x = run_look look r" and "loop_step body s = Inl y" for s y
      using that body
      by (auto simp: loop_step_def split: prod.splits sum.splits if_splits) (metis snd_conv)+
  qed simp
  then show ?thesis by simp
qed

lemma conclude_keeps:
  assumes "orderly_transport look tp"
  shows "look (snd (conclude tp js name result)) = run_look look (snd result)"
proof -
  have "look (snd (tp_finish tp role t)) = look t" for role t
    using assms by (auto simp: orderly_transport_def writes_only_def)
  then show ?thesis
    by (auto simp: conclude_def split: prod.splits sum.splits if_splits) (metis snd_conv)+
qed

lemma looped_run:
  assumes tp: "orderly_transport look tp" and body: "\<And>tokens. writes_only (run_look look) {} (body tokens)"
    and run: "map_option (conclude tp js name) (iterate (loop_step body) (tokens, r)) = Some (answer, t')"
  shows "look t' = run_look look r"
proof -
  from run obtain result where it: "iterate (loop_step body) (tokens, r) = Some result"
    and t': "conclude tp js name result = (answer, t')" by auto
  have "run_look look (snd result) = run_look look r"
    using it by (cases result) (auto dest: loop_writes [OF body])
  with conclude_keeps [OF tp, of js name result] t' show ?thesis by simp
qed

lemma workloads_run:
  fixes tp :: "('t, 'v) transport"
  assumes "orderly_transport look tp"
  shows "runs_only look {} (run_generate_client_plan tp js plan prompt cancel_after)"
    and "runs_only look {} (run_generate_server_plan tp js plan token_limit)"
proof -
  have steps: "run_look look (snd (emit_and_send tp emit_op r)) = run_look look r"
    "run_look look (snd (run_receive tp r)) = run_look look r" for emit_op r
    using run_steps_write [OF assms] by (auto simp: writes_only_def)
  note looped = looped_run [OF assms rounds_write(1) [OF assms]] looped_run [OF assms rounds_write(2) [OF assms]]
  show "runs_only look {} (run_generate_client_plan tp js plan prompt cancel_after)"
    unfolding runs_only_def
  proof (intro allI impI)
    fix t a t' q
    assume run: "run_generate_client_plan tp js plan prompt cancel_after t = Some (a, t')"
    show "look t' q = look t q"
    proof (cases "from_plan plan ''client'' :: 'v runtime_error + machine")
      case (Inr m)
      obtain b r where s: "emit_and_send tp (\<lambda>m. emit_data m (js_text js prompt))
          \<lparr>rn_machine = m, rn_trace = [], rn_transport = t\<rparr> = (b, r)" by (cases "emit_and_send tp (\<lambda>m. emit_data m (js_text js prompt))
          \<lparr>rn_machine = m, rn_trace = [], rn_transport = t\<rparr>")
      then have "run_look look r = look t" using steps(1) by (metis run.select_convs(3) snd_conv)
      with run Inr s looped(1) show ?thesis
        by (auto simp: run_generate_client_plan_def split: if_splits sum.splits)
    qed (use run in \<open>auto simp: run_generate_client_plan_def split: if_splits\<close>)
  qed
  show "runs_only look {} (run_generate_server_plan tp js plan token_limit)"
    unfolding runs_only_def
  proof (intro allI impI)
    fix t a t' q
    assume run: "run_generate_server_plan tp js plan token_limit t = Some (a, t')"
    show "look t' q = look t q"
    proof (cases "from_plan plan ''server'' :: 'v runtime_error + machine")
      case (Inr m)
      obtain b r where s: "run_receive tp \<lparr>rn_machine = m, rn_trace = [], rn_transport = t\<rparr> = (b, r)"
        by (cases "run_receive tp \<lparr>rn_machine = m, rn_trace = [], rn_transport = t\<rparr>")
      then have "run_look look r = look t" using steps(2) by (metis run.select_convs(3) snd_conv)
      with run Inr s looped(2) show ?thesis
        by (auto simp: run_generate_server_plan_def split: option.splits sum.splits)
    qed (use run in \<open>auto simp: run_generate_server_plan_def\<close>)
  qed
qed

section \<open>Exchanges of drafts\<close>

abbreviation peer_look :: "('t \<Rightarrow> 'p \<Rightarrow> byte list option) \<Rightarrow> ('t, 'd, 's) peer \<Rightarrow> 'p \<Rightarrow> byte list option" where
  "peer_look look x \<equiv> look (pr_transport x)"

lemma peer_steps_write:
  "writes_only (peer_look look) {} (with_machine f)"
  "writes_only look {} g \<Longrightarrow> writes_only (peer_look look) {} (with_transport g)"
  "writes_only (peer_look look) {} (generate_message sy)"
  "writes_only (peer_look look) {} (apply_message sy message)"
  "writes_only (peer_look look) {} (exchange_summary sy name sent received)"
proof -
  show "writes_only (peer_look look) {} (with_transport g)" if "writes_only look {} g"
    using that by (simp add: writes_only_def with_transport_def split: prod.splits) (metis snd_conv)
qed (auto simp: writes_only_def with_machine_def generate_message_def apply_message_def exchange_summary_def Let_def
    split: sum.splits prod.splits)

lemma peer_rounds_write:
  assumes "orderly_transport look tp"
  shows "writes_only (peer_look look) {} (client_rounds n tp bj sy name turn received)"
    and "writes_only (peer_look look) {} (server_rounds n tp bj sy name sent received)"
proof -
  have ops: "writes_only look {} (tp_send tp e)" "writes_only look {} (tp_receive tp)"
    "writes_only look {} (tp_finish tp role)" for e role
    using assms by (auto simp: orderly_transport_def)
  have sends: "writes_only (peer_look look) {} (exchange_send tp emit_op)" for emit_op
    unfolding exchange_send_def by (intro shape_rules peer_steps_write ops)
  have receives: "writes_only (peer_look look) {} (exchange_receive tp)"
    unfolding exchange_receive_def by (intro shape_rules peer_steps_write ops)
  have messages: "writes_only (peer_look look) {} (send_message tp bj message)"
    "writes_only (peer_look look) {} (receive_message tp bj sy)" for message
    unfolding send_message_def receive_message_def by (intro shape_rules sends receives peer_steps_write)+
  have finishes: "writes_only (peer_look look) {} (finish_peer tp)"
    using peer_steps_write(2) [OF ops(3)] unfolding writes_only_def finish_peer_def by blast
  show "writes_only (peer_look look) {} (client_rounds n tp bj sy name turn received)"
    by (induction n arbitrary: turn received)
      (auto intro!: shape_rules writes_frame peer_steps_write sends receives messages finishes)
  show "writes_only (peer_look look) {} (server_rounds n tp bj sy name sent received)"
    by (induction n arbitrary: sent received)
      (auto intro!: shape_rules writes_frame peer_steps_write sends receives messages finishes)
qed

lemma exchanges_keep:
  fixes tp :: "('t, 'v) transport" and sy :: "('d, 's, 'm) sync_ops"
  assumes "orderly_transport look tp"
  shows "look (fst (snd (run_draft_sync_client tp bj sy plan t d))) = look t"
    and "look (fst (snd (run_draft_sync_server tp bj sy plan t d))) = look t"
proof -
  have peer: "look (fst (snd (as_peer plan role sy body t d))) = look t"
    if "writes_only (peer_look look) {} body" for role and body :: "('t, 'd, 's, 'v, exchange_report) peer_action"
  proof (cases "from_plan plan role :: 'v runtime_error + machine")
    case (Inr m)
    have "look (pr_transport (snd (body \<lparr>pr_machine = m, pr_transport = t, pr_draft = d, pr_sync = sy_new sy\<rparr>))) =
        look t" using that by (simp add: writes_only_def fun_eq_iff)
    with Inr show ?thesis by (auto simp: as_peer_def split: prod.splits)
  qed (simp add: as_peer_def)
  show "look (fst (snd (run_draft_sync_client tp bj sy plan t d))) = look t"
    and "look (fst (snd (run_draft_sync_server tp bj sy plan t d))) = look t"
    unfolding run_draft_sync_client_def run_draft_sync_server_def
    by (rule peer, rule peer_rounds_write [OF assms])+
qed

section \<open>Sessions\<close>

lemma tcp_session_runs:
  assumes "orderly_stream look rs" and "runs_only (\<lambda>c. look (cn_stream c)) {} work"
    and "\<And>s. cn_stream (connection s) = s"
  shows "runs_only look {} (tcp_session rs sd connection plan mine role work)"
  unfolding runs_only_def
proof (intro allI impI)
  fix s r s' q
  assume run: "tcp_session rs sd connection plan mine role work s = Some (r, s')"
  obtain a c where est: "tcp_establish_session rs sd plan mine role (connection s) = (a, c)"
    by (cases "tcp_establish_session rs sd plan mine role (connection s)")
  then have "look (cn_stream c) q = look s q"
    using sessions_write(1) [OF assms(1)] unfolding writes_only_def by (metis assms(3) empty_iff snd_conv)
  with run est assms(2) show "look s' q = look s q"
    by (auto simp: tcp_session_def runs_only_def split: sum.splits)
qed

lemma end_session_runs:
  assumes "writes_only (end_look look) {} establish" and "runs_only (end_look look) P work"
  shows "runs_only look P (end_session establish work codec)"
  unfolding runs_only_def
proof (intro allI impI)
  fix s r s' q
  assume run: "end_session establish work codec s = Some (r, s')" and q: "q \<notin> P"
  obtain a x where est: "establish (fresh_end codec s) = (a, x)" by (cases "establish (fresh_end codec s)")
  have "end_look look (fresh_end codec s) q = look s q" by (simp add: fresh_end_def)
  with est assms(1) have "end_look look x q = look s q" unfolding writes_only_def by (metis empty_iff snd_conv)
  with run est assms(2) q show "look s' q = look s q"
    by (fastforce simp: end_session_def runs_only_def split: sum.splits)
qed

lemma runtime_work_runs: "runs_only look P work \<Longrightarrow> runs_only look P (runtime_work work)"
  by (auto simp: runs_only_def runtime_work_def)

lemma quic_session_runs:
  assumes "orderly_stream look rs" and "orderly_closing look cl"
    and "\<And>tp. orderly_transport (end_look look) tp \<Longrightarrow> runs_only (end_look look) {} (work tp)"
  shows "runs_only look {} (quic_session (rs, cl) sd wire plan mine role work)"
  unfolding quic_session_def prod.case
  by (intro end_session_runs writes_on_connection sessions_write runtime_work_runs assms transports_orderly)

lemma iroh_session_runs:
  assumes "it_streams transport = (rs, cl, info)" and "orderly_stream look rs" and "orderly_closing look cl"
    and "\<And>tp. orderly_transport (end_look look) tp \<Longrightarrow> runs_only (end_look look) P (work tp)"
  shows "runs_only look P (iroh_session plan transport sd mine role work)"
  unfolding iroh_session_def assms(1) prod.case
  by (intro end_session_runs writes_on_connection sessions_write assms(2-4) transports_orderly)

section \<open>Networks\<close>

definition orderly_tcp :: "('s \<Rightarrow> 'p \<Rightarrow> byte list option) \<Rightarrow> ('s, 'ip) tcp_net \<Rightarrow> bool" where
  "orderly_tcp look tn \<longleftrightarrow>
     (\<forall>address. writes_only look {} (tn_bind tn address)) \<and>
     writes_only look {} (tn_accept tn) \<and> hands_out (tn_accept tn) (orderly_stream look) \<and>
     (\<forall>address. writes_only look {} (tn_connect tn address) \<and> hands_out (tn_connect tn address) (orderly_stream look)) \<and>
     (\<forall>rs b. writes_only look {} (tn_nodelay tn rs b)) \<and>
     (\<forall>rs n. writes_only look {} (tn_read_timeout tn rs n) \<and> writes_only look {} (tn_write_timeout tn rs n))"

definition orderly_quic :: "('s \<Rightarrow> 'p \<Rightarrow> byte list option) \<Rightarrow> ('s, 'ip, 'l, 'i, 'c) quic_net \<Rightarrow> bool" where
  "orderly_quic look qn \<longleftrightarrow>
     (\<forall>address. writes_only look {} (qn_bind qn address)) \<and> (\<forall>l. untouched look (\<lambda>s. snd (qn_incoming qn l s))) \<and>
     (\<forall>i. writes_only look {} (qn_handshake qn i)) \<and> (\<forall>bytes. writes_only look {} (qn_endpoint qn bytes)) \<and>
     (\<forall>l address name. writes_only look {} (qn_connect qn l address name)) \<and>
     (\<forall>c. writes_only look {} (qn_accept_bi qn c) \<and> writes_only look {} (qn_open_bi qn c) \<and>
        hands_out (qn_accept_bi qn c) (\<lambda>(rs, cl). orderly_stream look rs \<and> orderly_closing look cl) \<and>
        hands_out (qn_open_bi qn c) (\<lambda>(rs, cl). orderly_stream look rs \<and> orderly_closing look cl))"

definition orderly_ends :: "('s \<Rightarrow> 'p \<Rightarrow> byte list option) \<Rightarrow> 's iroh_streams \<Rightarrow> bool" where
  "orderly_ends look streams \<longleftrightarrow>
     (case streams of (rs, cl, info) \<Rightarrow> orderly_stream look rs \<and> orderly_closing look cl)"

definition orderly_iroh :: "('s \<Rightarrow> 'p \<Rightarrow> byte list option)
    \<Rightarrow> ('s, 'id, 'addr, 'i, 'c, 's iroh_streams) iroh_net \<Rightarrow> bool" where
  "orderly_iroh look nt \<longleftrightarrow>
     untouched look (\<lambda>s. snd (nt_incoming nt s)) \<and> (\<forall>i. writes_only look {} (nt_handshake nt i)) \<and>
     (\<forall>c. untouched look (nt_refuse nt c)) \<and> untouched look (nt_close nt) \<and>
     (\<forall>address. writes_only look {} (nt_connect nt address)) \<and>
     (\<forall>c. writes_only look {} (nt_accept_bi nt c) \<and> writes_only look {} (nt_open_bi nt c) \<and>
        hands_out (nt_accept_bi nt c) (orderly_ends look) \<and> hands_out (nt_open_bi nt c) (orderly_ends look))"

lemma tcp_commands_run:
  fixes ho :: "('s, 'p, 'v, 'ip) host" and tn :: "('s, 'ip) tcp_net"
  assumes files: "orderly_files (ho_files ho) look" and net: "orderly_tcp look tn"
  shows "runs_only look P (serve_command ho tn sd js conversation listen tokens wire forever)"
    and "runs_only look P (connect_command ho tn sd js conversation address prompt cancel_after wire)"
proof -
  have ops: "writes_only look {} (tn_bind tn address)" "writes_only look {} (tn_accept tn)"
    "writes_only look {} (tn_connect tn address)" "writes_only look {} (tn_nodelay tn rs b)"
    "writes_only look {} (tn_read_timeout tn rs n)" "writes_only look {} (tn_write_timeout tn rs n)"
    "hands_out (tn_accept tn) (orderly_stream look)" "hands_out (tn_connect tn address) (orderly_stream look)"
    for address rs b n
    using net by (auto simp: orderly_tcp_def)
  define lifts where "lifts connection \<longleftrightarrow> (\<forall>s. cn_stream (connection s) = s)" for connection :: "'s \<Rightarrow> 's connection"
  have stream: "writes_only look {} (tcp_from_stream tn rs codec)"
    and lift: "hands_out (tcp_from_stream tn rs codec) lifts" for rs codec
    unfolding tcp_from_stream_def
    by (intro shape_rules ops) (intro hands_out_map_err hands_out_then hands_out_done, simp add: lifts_def)
  have connect: "writes_only look {} (tcp_connect tn address codec)"
    and connected: "hands_out (tcp_connect tn address codec) (\<lambda>(rs, connection). orderly_stream look rs \<and> lifts connection)"
    for address codec
    unfolding tcp_connect_def
    by (intro shape_rules ops stream)
      (intro hands_out_then_hands_out [OF hands_out_map_err [OF ops(8)]] hands_out_then_hands_out [OF lift] hands_out_done, simp)
  have session: "runs_only look {} (tcp_session rs sd connection plan mine role (work (tcp_transport rs sd)))"
    if "orderly_stream look rs" "lifts connection"
      and "\<And>tp. orderly_transport (\<lambda>c. look (cn_stream c)) tp \<Longrightarrow> runs_only (\<lambda>c. look (cn_stream c)) {} (work tp)"
    for rs connection plan mine role
      and work :: "('s connection, 'v) transport \<Rightarrow> 's connection \<Rightarrow> (('v runtime_error + 'v execution_report) \<times> 's connection) option"
    using that by (auto simp: lifts_def intro!: tcp_session_runs transports_orderly)
  have served: "runs_only look {} (serve_conversation tn sd js wire plan tokens)" for plan
    unfolding serve_conversation_def
  proof (rule runs_actions_hands_out [OF _ hands_out_map_err [OF ops(7)]])
    fix rs :: "('s, io_kind) raw_stream" assume rs: "orderly_stream look rs"
    show "runs_only look {} (run_then (act_map_err CmdRuntime (tcp_from_stream tn rs (codec_for_plan wire plan)))
        (\<lambda>connection. tcp_session rs sd connection plan ''server'' ''client''
          (run_generate_server_plan (tcp_transport rs sd) js plan tokens)))"
      by (rule runs_actions_hands_out [OF _ hands_out_map_err [OF lift]], intro shape_rules stream)
        (rule session [OF rs _ workloads_run(2)])
  qed (intro shape_rules ops)
  show "runs_only look P (serve_command ho tn sd js conversation listen tokens wire forever)"
    unfolding serve_command_def
    by (rule runs_none, intro runs_actions writes_reading [OF files] shape_rules ops runs_loop served)
  show "runs_only look P (connect_command ho tn sd js conversation address prompt cancel_after wire)"
    unfolding connect_command_def
  proof (rule runs_none, rule runs_actions [OF writes_reading(3) [OF files]])
    fix plan
    show "runs_only look {} (run_then (act_map_err CmdRuntime (tcp_connect tn address (codec_for_plan wire plan)))
        (\<lambda>(rs, connection). tcp_session rs sd connection plan ''client'' ''server''
          (run_generate_client_plan (tcp_transport rs sd) js plan prompt cancel_after)))"
      by (rule runs_actions_hands_out [OF _ hands_out_map_err [OF connected]], intro shape_rules connect)
        (auto intro: session [OF _ _ workloads_run(1)])
  qed
qed

lemma quic_opens:
  fixes qn :: "('s, 'ip, 'l, 'i, 'c) quic_net" and look :: "'s \<Rightarrow> 'p \<Rightarrow> byte list option"
  assumes "orderly_quic look qn"
  defines "good \<equiv> \<lambda>(rs, cl). orderly_stream look rs \<and> orderly_closing look cl"
  shows "writes_only look P (quic_accept qn l :: ('s, 'v runtime_error, _) action)"
    and "hands_out (quic_accept qn l :: ('s, 'v runtime_error, _) action) good"
    and "writes_only look P (quic_connect qn address trusted :: ('s, 'v runtime_error, _) action)"
    and "hands_out (quic_connect qn address trusted :: ('s, 'v runtime_error, _) action) good"
proof -
  have ops: "writes_only look {} (qn_handshake qn i)" "writes_only look {} (qn_endpoint qn bytes)"
    "writes_only look {} (qn_connect qn l address name)" "writes_only look {} (qn_accept_bi qn c)"
    "writes_only look {} (qn_open_bi qn c)" "hands_out (qn_accept_bi qn c) good" "hands_out (qn_open_bi qn c) good"
    and incoming: "look (snd (qn_incoming qn l s)) = look s" for i bytes l address name c s
    using assms by (auto simp: orderly_quic_def untouched_def)
  have accept: "writes_only look {} (act_then (act_map_err RtQuic (qn_handshake qn i)) (\<lambda>connection.
      act_map_err RtQuic (qn_accept_bi qn connection)) :: ('s, 'v runtime_error, _) action)" for i
    by (intro shape_rules ops)
  show "writes_only look P (quic_accept qn l :: ('s, 'v runtime_error, _) action)"
    unfolding writes_only_def
  proof (intro allI impI)
    fix s q
    obtain i s1 where i: "qn_incoming qn l s = (i, s1)" by (cases "qn_incoming qn l s")
    with incoming have "look s1 = look s" by (metis snd_conv)
    with i accept show "look (snd (quic_accept qn l s :: ('v runtime_error + _) \<times> _)) q = look s q"
      by (auto simp: quic_accept_def writes_only_def split: option.splits)
  qed
  show "hands_out (quic_accept qn l :: ('s, 'v runtime_error, _) action) good"
    using ops(6) by (auto simp: hands_out_def quic_accept_def act_then_Inr act_map_err_Inr split: prod.splits option.splits) blast
  show "writes_only look P (quic_connect qn address trusted :: ('s, 'v runtime_error, _) action)"
    unfolding quic_connect_def by (rule writes_none, intro shape_rules ops)
  show "hands_out (quic_connect qn address trusted :: ('s, 'v runtime_error, _) action) good"
    unfolding quic_connect_def by (intro hands_out_then hands_out_map_err ops)
qed

lemma quic_commands_run:
  fixes ho :: "('s, 'p, 'v, 'ip) host" and qn :: "('s, 'ip, 'l, 'i, 'c) quic_net"
  assumes files: "orderly_files (ho_files ho) look" and net: "orderly_quic look qn"
  shows "certificate_out \<in> P \<Longrightarrow>
      runs_only look P (serve_quic_command ho qn sd js conversation listen certificate_out tokens wire)"
    and "runs_only look P (connect_quic_command ho qn sd js conversation address certificate prompt cancel_after wire)"
proof -
  note opens = quic_opens [OF net]
  have bind: "writes_only look P (qn_bind qn listen)"
    using net by (auto simp: orderly_quic_def intro: writes_none)
  have session: "runs_only look P (quic_session streams sd wire plan mine role work)"
    if "case streams of (rs, cl) \<Rightarrow> orderly_stream look rs \<and> orderly_closing look cl"
      and "\<And>tp. orderly_transport (end_look look) tp \<Longrightarrow> runs_only (end_look look) {} (work tp)"
    for streams plan mine role
      and work :: "('s open_end, 'v) transport \<Rightarrow> 's open_end \<Rightarrow> (('v runtime_error + 'v execution_report) \<times> 's open_end) option"
    using that by (cases streams, intro runs_none [where P = P]) (auto intro!: quic_session_runs)
  note ops = writes_file [OF files]
  show "runs_only look P (serve_quic_command ho qn sd js conversation listen certificate_out tokens wire)"
    if "certificate_out \<in> P"
    unfolding serve_quic_command_def
    by (rule runs_actions [OF writes_reading(3) [OF files]], rule runs_actions [OF writes_map_err [OF bind]],
        rule runs_actions, intro shape_rules ops, rule runs_actions, intro shape_rules ops that,
        rule runs_actions, intro shape_rules, rule runs_actions_hands_out [OF _ hands_out_map_err [OF opens(2)]],
        intro shape_rules opens, rule session [OF _ workloads_run(2)])
  show "runs_only look P (connect_quic_command ho qn sd js conversation address certificate prompt cancel_after wire)"
    unfolding connect_quic_command_def
    by (rule runs_actions [OF writes_reading(3) [OF files]], rule runs_actions [OF writes_map_err [OF ops(1)]],
        rule runs_actions_hands_out [OF _ hands_out_map_err [OF opens(4)]], intro shape_rules opens,
        rule session [OF _ workloads_run(1)])
qed

section \<open>Iroh\<close>

lemma iroh_opens:
  fixes nt :: "('s, 'id, 'addr, 'i, 'c, 's iroh_streams) iroh_net" and look :: "'s \<Rightarrow> 'p \<Rightarrow> byte list option"
  assumes "orderly_iroh look nt"
  defines "good \<equiv> \<lambda>transport :: ('id, 'c, 's iroh_streams) iroh_transport. orderly_ends look (it_streams transport)"
  shows "writes_only look P (iroh_accept nt authorized codec :: ('s, 'v runtime_error, _) action)"
    and "hands_out (iroh_accept nt authorized codec :: ('s, 'v runtime_error, _) action) good"
    and "writes_only look P (iroh_connect nt address expected codec :: ('s, 'v runtime_error, _) action)"
    and "hands_out (iroh_connect nt address expected codec :: ('s, 'v runtime_error, _) action) good"
proof -
  have ops: "writes_only look {} (nt_handshake nt i)" "writes_only look {} (nt_connect nt address)"
    "writes_only look {} (nt_accept_bi nt c)" "writes_only look {} (nt_open_bi nt c)"
    "hands_out (nt_accept_bi nt c) (orderly_ends look)"
    "hands_out (nt_open_bi nt c) (orderly_ends look)"
    and ends: "look (snd (nt_incoming nt s)) = look s" "look (nt_refuse nt c s) = look s" "look (nt_close nt s) = look s"
    for i address c s
    using assms(1) by (auto simp: orderly_iroh_def untouched_def)
  have made: "orderly_ends look streams \<Longrightarrow> good (new_iroh_transport nt connection streams codec)" for streams connection
    by (simp add: good_def new_iroh_transport_def)
  let ?accept = "\<lambda>i. act_then (act_map_err RtIroh (nt_handshake nt i)) (\<lambda>connection.
      case verify_remote_authorized nt (nt_remote nt connection) authorized of
        Inl e \<Rightarrow> (\<lambda>s. (Inl e, nt_close nt (nt_refuse nt connection s)))
      | Inr _ \<Rightarrow>
          act_then (act_map_err RtIroh (nt_accept_bi nt connection)) (\<lambda>streams.
          done_with (new_iroh_transport nt connection streams codec))) :: ('s, 'v runtime_error, _) action"
  have accept: "writes_only look {} (?accept i)" for i
    by (intro shape_rules writes_step ops) (simp add: untouched_def ends)
  have accepted: "hands_out (?accept i) good" for i
  proof (rule hands_out_then)
    fix connection
    have "hands_out (act_then (act_map_err RtIroh (nt_accept_bi nt connection)) (\<lambda>streams.
        done_with (new_iroh_transport nt connection streams codec)) :: ('s, 'v runtime_error, _) action) good"
      by (rule hands_out_then_hands_out [OF hands_out_map_err [OF ops(5)]]) (rule hands_out_done, erule made)
    then show "hands_out ((case verify_remote_authorized nt (nt_remote nt connection) authorized of
        Inl e \<Rightarrow> (\<lambda>s. (Inl e, nt_close nt (nt_refuse nt connection s)))
      | Inr _ \<Rightarrow>
          act_then (act_map_err RtIroh (nt_accept_bi nt connection)) (\<lambda>streams.
          done_with (new_iroh_transport nt connection streams codec))) :: ('s, 'v runtime_error, _) action) good"
      by (simp add: hands_out_def split: sum.splits)
  qed
  let ?connect = "act_then (act_map_err RtIroh (nt_connect nt address)) (\<lambda>connection.
      act_then (from_result (verify_remote_identity nt (nt_remote nt connection) expected)) (\<lambda>_.
      act_then (act_map_err RtIroh (nt_open_bi nt connection)) (\<lambda>streams.
      done_with (new_iroh_transport nt connection streams codec)))) :: ('s, 'v runtime_error, _) action"
  have connect: "writes_only look {} ?connect" by (intro shape_rules ops)
  have connected: "hands_out ?connect good"
    by (rule hands_out_then, rule hands_out_then, rule hands_out_then_hands_out [OF hands_out_map_err [OF ops(6)]])
      (rule hands_out_done, erule made)
  have incoming: "look s1 = look s" if "nt_incoming nt s = (i, s1)" for s i s1
    using ends(1) [of s] that by simp
  show "writes_only look P (iroh_accept nt authorized codec :: ('s, 'v runtime_error, _) action)"
    using accept incoming
    by (auto simp: writes_only_def iroh_accept_def split: prod.splits option.splits)
  show "hands_out (iroh_accept nt authorized codec :: ('s, 'v runtime_error, _) action) good"
    using accepted by (auto simp: hands_out_def iroh_accept_def split: prod.splits option.splits)
  show "writes_only look P (iroh_connect nt address expected codec :: ('s, 'v runtime_error, _) action)"
    using connect ends(3) by (auto simp: writes_only_def iroh_connect_def split: sum.splits)
  show "hands_out (iroh_connect nt address expected codec :: ('s, 'v runtime_error, _) action) good"
    using connected by (auto simp: hands_out_def iroh_connect_def split: sum.splits)
qed

lemma loads_write:
  assumes files: "orderly_files (ho_files ho) look"
  shows "writes_only look P (node_identity_of ho ik path)" and "writes_only look P (authorization_of ho ik path)"
    and "writes_only look P (ticket_of ho ik path)"
proof -
  note reading = writes_reading(6) [OF files]
  show "writes_only look P (node_identity_of ho ik path)"
    unfolding node_identity_of_def load_node_identity_def from_environment_def load_identity_def
    by (intro shape_rules reading)
  show "writes_only look P (authorization_of ho ik path)"
    unfolding authorization_of_def load_authorization_policy_def from_environment_def load_policy_def
    by (intro shape_rules reading)
  show "writes_only look P (ticket_of ho ik path)"
    unfolding ticket_of_def load_endpoint_ticket_def from_environment_def load_ticket_def
    by (intro shape_rules reading)
qed

lemma iroh_server_runs:
  fixes ho :: "('s, 'p, 'v, 'ip) host" and nt :: "('s, 'id, 'addr, 'i, 'c, 's iroh_streams) iroh_net"
  assumes files: "orderly_files (ho_files ho) look" and net: "orderly_iroh look nt"
    and bind: "\<And>secret. writes_only look {} (bind_direct secret)" and out: "ticket_out \<in> P"
    and serve: "\<And>plan transport. orderly_ends look (it_streams transport) \<Longrightarrow> runs_only look P (serve plan transport)"
  shows "runs_only look P (iroh_server ho ik nt bind_direct deployed wire conversation identity policy advertise
    ticket_out serve)"
proof -
  note reading = writes_reading [OF files] and loads = loads_write [OF files] and opens = iroh_opens [OF net]
  have ticket: "writes_only look P (save_ticket (ho_files ho) encode ik ticket_out ticket)" for encode ticket
    unfolding save_ticket_def write_public_json_def create_parent_def
    by (intro shape_rules writes_file [OF files] out)
  show ?thesis
    unfolding iroh_server_def
    by (rule runs_actions [OF reading(3)], rule runs_actions, intro shape_rules,
        rule runs_actions [OF loads(1)], rule runs_actions [OF loads(2)],
        rule runs_actions, intro shape_rules, rule runs_actions, intro shape_rules,
        rule runs_actions [OF writes_map_err [OF writes_none [OF bind]]], rule runs_actions, intro shape_rules,
        rule runs_actions [OF writes_map_err [OF ticket]],
        rule runs_actions_hands_out [OF writes_map_err [OF opens(1)] hands_out_map_err [OF opens(2)]], rule serve)
qed

lemma iroh_client_runs:
  fixes ho :: "('s, 'p, 'v, 'ip) host" and nt :: "('s, 'id, 'addr, 'i, 'c, 's iroh_streams) iroh_net"
  assumes files: "orderly_files (ho_files ho) look" and net: "orderly_iroh look nt"
    and bind: "\<And>secret. writes_only look {} (bind_direct secret)"
    and work: "\<And>plan transport. orderly_ends look (it_streams transport) \<Longrightarrow> runs_only look P (work plan transport)"
  shows "runs_only look P (iroh_client ho ik nt bind_direct wire conversation identity policy server work)"
proof -
  note reading = writes_reading [OF files] and loads = loads_write [OF files] and opens = iroh_opens [OF net]
  show ?thesis
    unfolding iroh_client_def
    by (rule runs_actions [OF reading(3)], rule runs_actions [OF loads(1)], rule runs_actions [OF loads(2)],
        rule runs_actions [OF loads(3)], rule runs_actions, intro shape_rules, rule runs_actions, intro shape_rules,
        rule runs_actions, intro shape_rules, rule runs_actions [OF writes_map_err [OF writes_none [OF bind]]],
        rule runs_actions, intro shape_rules,
        rule runs_actions_hands_out [OF writes_map_err [OF opens(3)] hands_out_map_err [OF opens(4)]], rule work)
qed

lemma emitted_runs:
  assumes "orderly_files (ho_files ho) look" and "set_option report_out \<subseteq> P" and "runs_only look P work"
  shows "runs_only look P (emitted ho encode report_out work)"
proof -
  have "writes_only look P (emit_report ho encode report_out r)" for r
    using assms(2) unfolding emit_report_def write_bytes_def create_parent_def
    by (cases report_out) (auto intro!: shape_rules writes_file [OF assms(1)])
  then show ?thesis
    unfolding emitted_def by (intro runs_running [OF assms(3)] runs_action)
qed

lemma writes_host_io: "writes_only look P f \<Longrightarrow> writes_only (end_look look) P (host_io f)"
  unfolding host_io_def by (intro writes_on_connection writes_on_stream)

lemma draft_work_writes:
  fixes ho :: "('s, 'p, 'v, 'ip) host"
  assumes files: "orderly_files (ho_files ho) look" and out: "draft \<in> P"
    and exchange: "\<And>x d. end_look look (fst (snd (exchange x d))) = end_look look x"
  shows "writes_only (end_look look) P (draft_sync_work ho ds draft exchange)"
proof -
  have saved: "writes_only (end_look look) P (act_then (from_result (map_err CmdExchange r)) (\<lambda>r.
      act_then (host_io (act_map_err CmdCli (write_bytes (ho_files ho) draft (ds_save ds document)))) (\<lambda>_.
      done_with r)))" for r document
    unfolding write_bytes_def create_parent_def
    by (intro shape_rules writes_host_io writes_file [OF files] out)
  have synced: "writes_only (end_look look) P (\<lambda>x. case exchange x document of
      (r, x, document) \<Rightarrow>
        act_then (from_result (map_err CmdExchange r)) (\<lambda>r.
        act_then (host_io (act_map_err CmdCli (write_bytes (ho_files ho) draft (ds_save ds document)))) (\<lambda>_.
        done_with r)) x)" for document
    unfolding writes_only_def
  proof (intro allI impI)
    fix x q assume q: "q \<notin> P"
    obtain r y d where e: "exchange x document = (r, y, d)" by (cases "exchange x document")
    with exchange [of x document] have "end_look look y = end_look look x" by simp
    with saved [of r d] q e show "end_look look (snd (case exchange x document of
      (r, x, document) \<Rightarrow>
        act_then (from_result (map_err CmdExchange r)) (\<lambda>r.
        act_then (host_io (act_map_err CmdCli (write_bytes (ho_files ho) draft (ds_save ds document)))) (\<lambda>_.
        done_with r)) x)) q = end_look look x q"
      by (simp add: writes_only_def)
  qed
  show ?thesis
    unfolding draft_sync_work_def by (intro writes_then writes_host_io shape_rules writes_file [OF files] synced)
qed

lemma iroh_commands_run:
  fixes ho :: "('s, 'p, 'v, 'ip) host" and nt :: "('s, 'id, 'addr, 'i, 'c, 's iroh_streams) iroh_net"
  assumes files: "orderly_files (ho_files ho) look" and net: "orderly_iroh look nt"
    and bind: "\<And>secret. writes_only look {} (bind_direct secret)" and out: "set_option report_out \<subseteq> P"
  shows "ticket_out \<in> P \<Longrightarrow> runs_only look P (serve_iroh_command ho ik nt bind_direct sd js encode wire conversation
      identity policy advertise ticket_out tokens report_out)"
    and "runs_only look P (connect_iroh_command ho ik nt bind_direct sd js encode wire conversation
      identity policy server prompt cancel_after report_out)"
    and "ticket_out \<in> P \<Longrightarrow> draft \<in> P \<Longrightarrow> runs_only look P (draft_serve_iroh_command ho ik nt bind_direct sd bj sy ds
      encode' wire conversation draft identity policy advertise ticket_out report_out)"
    and "draft \<in> P \<Longrightarrow> runs_only look P (draft_connect_iroh_command ho ik nt bind_direct sd bj sy ds
      encode' wire conversation draft identity policy server report_out)"
proof -
  have session: "runs_only look P (emitted ho encode report_out (iroh_session plan transport sd mine role work))"
    if "orderly_ends look (it_streams transport)"
      and "\<And>tp. orderly_transport (end_look look) tp \<Longrightarrow> runs_only (end_look look) P (work tp)"
    for encode plan mine role and transport :: "('id, 'c, 's iroh_streams) iroh_transport"
      and work :: "('s open_end, 'v) transport \<Rightarrow> 's open_end \<Rightarrow> (('v command_error + 'r) \<times> 's open_end) option"
    using that by (cases "it_streams transport")
      (auto simp: orderly_ends_def intro!: emitted_runs [OF files out] iroh_session_runs)
  note workload = runs_none [OF runtime_work_runs [OF workloads_run(1)]]
    runs_none [OF runtime_work_runs [OF workloads_run(2)]]
  note exchange = runs_action [OF draft_work_writes [OF files _ exchanges_keep(1)]]
    runs_action [OF draft_work_writes [OF files _ exchanges_keep(2)]]
  show "runs_only look P (serve_iroh_command ho ik nt bind_direct sd js encode wire conversation
      identity policy advertise ticket_out tokens report_out)" if "ticket_out \<in> P"
    unfolding serve_iroh_command_def
    by (rule iroh_server_runs [OF files net bind that], rule session, assumption, rule workload)
  show "runs_only look P (connect_iroh_command ho ik nt bind_direct sd js encode wire conversation
      identity policy server prompt cancel_after report_out)"
    unfolding connect_iroh_command_def
    by (rule iroh_client_runs [OF files net bind], rule session, assumption, rule workload)
  show "runs_only look P (draft_serve_iroh_command ho ik nt bind_direct sd bj sy ds
      encode' wire conversation draft identity policy advertise ticket_out report_out)"
    if "ticket_out \<in> P" "draft \<in> P"
    unfolding draft_serve_iroh_command_def
    by (rule iroh_server_runs [OF files net bind that(1)], rule session, assumption, rule exchange [OF that(2)])
  show "runs_only look P (draft_connect_iroh_command ho ik nt bind_direct sd bj sy ds
      encode' wire conversation draft identity policy server report_out)" if "draft \<in> P"
    unfolding draft_connect_iroh_command_def
    by (rule iroh_client_runs [OF files net bind], rule session, assumption, rule exchange [OF that])
qed

definition orderly_network :: "('s \<Rightarrow> 'p \<Rightarrow> byte list option)
    \<Rightarrow> ('s, 'v, 'ip, 'id, 'addr, 'i, 'c, 'l, 'qi, 'qc, 'd, 'q, 'm, 'r) network \<Rightarrow> bool" where
  \<comment> \<open>no operation on an endpoint or a stream writes a file\<close>
  "orderly_network look nw \<longleftrightarrow>
     orderly_tcp look (nw_tcp nw) \<and> orderly_quic look (nw_quic nw) \<and> orderly_iroh look (nw_iroh nw) \<and>
     (\<forall>secret address. writes_only look {} (nw_bind_direct nw secret address))"

end
