(* ===== verification/Command_Line_Properties.thy ===== *)
theory Command_Line_Properties
  imports Confinement_Networks Tools_Properties Commands_Properties
begin

text \<open>
  Theorems on the commands as a whole: which files a command may write, over every network.
\<close>

section \<open>The whole command line\<close>

lemma check_status:
  fixes ho :: "('s, 'p, 'v, 'ip) host"
  assumes "check_command ho show_errors conversation json s = (Inr n, s')"
  shows "n \<in> {0, 1}"
proof -
  from assms obtain c s1 where c: "tool_json ho (ho_conversation ho) conversation s = (Inr c, s1)"
    by (auto simp: check_command_def act_then_Inr)
  show ?thesis
  proof (cases "validate c")
    case (Inl errors)
    with assms c show ?thesis
      by (cases json) (auto simp: check_command_def act_then_def from_result_def done_with_def fails_with_def
          split: sum.splits)
  next
    case (Inr u)
    with assms c show ?thesis by (simp add: check_command_def act_then_def done_with_def)
  qed
qed

text \<open>The files a command writes, from its options, the conversation a projection reads and, for a
  deployment, the two paths that are fixed.\<close>

fun outputs :: "('s, 'p, 'v, 'ip) host \<Rightarrow> (string \<Rightarrow> 'p) \<Rightarrow> 's \<Rightarrow> ('p, 'ip) cli_command \<Rightarrow> 'p set" where
  "outputs ho path s (Local (NodeInit out)) = {out}"
| "outputs ho path s (Local (PolicyAllow _ policy _ _)) = {policy}"
| "outputs ho path s (Local (BootstrapTwoNode _ _ out)) =
     ho_join ho out ` {''server.colloqnode.json'', ''client.colloqnode.json'',
       ''server.authorization.json'', ''client.authorization.json''}"
| "outputs ho path s (Local (Project conversation out)) =
     (case fst (read_json ho (ho_conversation ho) conversation s) of
        Inl _ \<Rightarrow> {}
      | Inr c \<Rightarrow> (\<lambda>role. ho_join ho out (role_id role @ ''.endpoint.json'')) ` set (conv_roles c))"
| "outputs ho path s (Local (Compile _ out)) = {out}"
| "outputs ho path s (Local (DraftCreate _ out)) = {out}"
| "outputs ho path s (Local (DraftPatch draft _ _ out)) = {case out of Some p \<Rightarrow> p | None \<Rightarrow> draft}"
| "outputs ho path s (Local (DraftPromote _ conversation_out plan_out)) = {conversation_out, plan_out}"
| "outputs ho path s (Local (EmitMiren _ _ _ _ _ _ _ _)) = {path ''.miren/app.toml'', path MIREN_DOCKERFILE}"
| "outputs ho path s (ServeQuic _ _ certificate_out _ _) = {certificate_out}"
| "outputs ho path s (ServeIroh _ _ _ _ _ ticket_out _ _ report_out) = insert ticket_out (set_option report_out)"
| "outputs ho path s (ConnectIroh _ _ _ _ _ _ _ report_out) = set_option report_out"
| "outputs ho path s (DraftServeIroh _ draft _ _ _ _ ticket_out _ report_out) =
     insert draft (insert ticket_out (set_option report_out))"
| "outputs ho path s (DraftConnectIroh _ draft _ _ _ _ report_out) = insert draft (set_option report_out)"
| "outputs ho path s _ = {}"

fun demonstrates :: "('p, 'ip) cli_command \<Rightarrow> bool" where
  \<comment> \<open>both peers run in this process, over a network of its own\<close>
  "demonstrates (Local (RunPlan _ _ _ _ _ _)) \<longleftrightarrow> True"
| "demonstrates (Local (Demo _ _ _ _ _)) \<longleftrightarrow> True"
| "demonstrates (Local (FaultDemo _ _ _ _ _ _ _ _ _)) \<longleftrightarrow> True"
| "demonstrates (Benchmark _ _ _ _ _) \<longleftrightarrow> True"
| "demonstrates _ \<longleftrightarrow> False"

lemma deciding_writes:
  fixes ho :: "('s, 'p, 'v, 'ip) host"
  assumes "orderly_files (ho_files ho) look" and "orderly_kit ho kt look"
  shows "writes_only look P (jev_decide_command ho (kt_show_f64 kt) (kt_binding kt) (kt_value kt)
      (kt_trim kt) (kt_agent kt) (kt_view kt) conversation binding state_json timeout)"
proof -
  have "writes_only look P (\<lambda>s. case f s of (Inl _, s') \<Rightarrow> (Inr None, s') | (Inr d, s') \<Rightarrow> (Inr (Some d), s'))"
    if "writes_only look P f" for f :: "('s, jev_error, jev_decision) action"
    using that unfolding writes_only_def by (simp split: prod.splits sum.splits) (metis snd_conv)
  note outcome = this
  show ?thesis
    unfolding jev_decide_command_def
    by (intro writes_rules(1-10) tool_commands_write [OF assms(1)] outcome writes_deciding [OF assms(2)])
qed

lemma local_confined:
  fixes ho :: "('s, 'p, 'v, 'ip) host"
  assumes "orderly_files (ho_files ho) look" and "orderly_kit ho kt look"
    and "\<not> demonstrates (Local command)" and "q \<notin> outputs ho (kt_path kt) s (Local command)"
  shows "look (snd (run_command ho ik kt command s)) q = look s q"
proof (cases "\<exists>conversation out. command = Project conversation out")
  case True
  then obtain conversation out where c: "command = Project conversation out" by blast
  have "q \<noteq> endpoint_file ho out (role_id role)"
    if "(tool_json ho (ho_conversation ho) conversation :: ('s, 'v, _) tool) s = (Inr c, s1)"
      and "role \<in> set (conv_roles c)" for c s1 role
    using that assms(4) by (auto simp: c tool_json_def act_map_err_Inr endpoint_file_def)
  then show ?thesis unfolding c run_command.simps by (rule project_writes [OF assms(1)])
next
  case False
  note node = node_commands_write [OF assms(1,2)] and tool = tool_commands_write [OF assms(1)]
    and reading = writes_reading [OF assms(1)]
  have "writes_only look (outputs ho (kt_path kt) s (Local command)) (run_command ho ik kt command)"
    using assms(3) False
    by (cases command)
      (auto simp: succeeds_with_def jev_check_command_def
        intro!: writes_rules node tool reading deciding_writes [OF assms(1,2)] emit_miren_writes [OF assms(1)])
  with assms(4) show ?thesis unfolding writes_only_def by blast
qed

lemma local_status:
  fixes ho :: "('s, 'p, 'v, 'ip) host"
  assumes "run_command ho ik kt command s = (Inr n, s')"
  shows "n \<in> {0, 1, 2} \<and> (n = 2 \<longrightarrow> (\<exists>conversation trace. command = VerifyTrace conversation trace))"
  using assms
  by (cases command)
    (auto simp: succeeds_with_def act_then_Inr done_with_def project_command_def compile_command_def
      jev_check_command_def draft_create_command_def draft_patch_command_def draft_promote_command_def
      emit_miren_command_def verify_trace_command_def verify_session_command_def
      dest!: check_status split: if_splits)

lemma concluded_status:
  assumes "concluded work s = Some (r, s')"
  shows "exit_status r \<le> 1"
proof -
  from assms obtain z where "work s = Some z" and "r = map_sum MainCommand (\<lambda>_. 0) (fst z)"
    by (auto simp: concluded_def)
  then show ?thesis by (cases "fst z") auto
qed

lemma wildcard_writes:
  "(\<And>secret address. writes_only look {} (bind_direct secret address)) \<Longrightarrow>
     writes_only look {} (wildcard ho bind_direct secret)"
  by (auto simp: wildcard_def split: sum.splits intro: writes_rules)

lemma network_confined:
  fixes ho :: "('s, 'p, 'v, 'ip) host"
  assumes "orderly_files (ho_files ho) look" and "orderly_network look nw"
    and "\<not> demonstrates command" and "\<nexists>c. command = Local c"
  shows "runs_only look (outputs ho (kt_path kt) s command) (run_main ho ik kt nw command)"
proof -
  have nets: "orderly_tcp look (nw_tcp nw)" "orderly_quic look (nw_quic nw)" "orderly_iroh look (nw_iroh nw)"
    and bind: "\<And>secret address. writes_only look {} (nw_bind_direct nw secret address)"
    using assms(2) by (simp_all add: orderly_network_def)
  note iroh = iroh_commands_run [OF assms(1) nets(3) bind]
    iroh_commands_run [OF assms(1) nets(3) wildcard_writes [OF bind]]
  from assms(3,4) show ?thesis
    by (cases command)
      (auto intro!: runs_concluded tcp_commands_run [OF assms(1) nets(1)] quic_commands_run [OF assms(1) nets(2)] iroh)
qed

text \<open>C31: a command writes only the files listed for it.  Take a host whose file operations change no file
  but the one they name, and whose secrets, HTTP agent and sockets change none.  Whatever a command
  does, and whether it fails or not, every other file untouched its contents: an initialised node, a
  policy, a plan, a draft, a promoted conversation, a certificate, a ticket and a report go to the
  path their option names, and a patched or synchronised draft replaces itself; a bootstrap writes
  four files of fixed names under its directory; a projection writes, under its directory, a file
  for each role named in the conversation it read; a deployment writes the two fixed paths of its
  bundle; and checking, verifying, deciding, serving and connecting over TCP and connecting over QUIC
  write none.  The commands that run both peers of a demonstration or of the benchmark in their own process are not covered.  Of the
  commands covered only the trace checker gives the exit status 2.\<close>

theorem commands_confined:
  fixes ho :: "('s, 'p, 'v, 'ip) host"
  assumes host: "orderly_files (ho_files ho) look" "orderly_kit ho kt look" "orderly_network look nw"
    and covered: "\<not> demonstrates command"
    and run: "run_main ho ik kt nw command s = Some (r, s')"
  shows "(\<forall>q. q \<notin> outputs ho (kt_path kt) s command \<longrightarrow> look s' q = look s q) \<and>
    exit_status r \<in> {0, 1, 2} \<and>
    (exit_status r = 2 \<longrightarrow> (\<exists>conversation trace. command = Local (VerifyTrace conversation trace)))"
proof (cases "\<exists>c. command = Local c")
  case True
  then obtain c where c: "command = Local c" by blast
  obtain a t where t: "run_command ho ik kt c s = (a, t)" by (cases "run_command ho ik kt c s")
  with run have out: "r = map_err MainTool a" "s' = t" by (simp_all add: c act_map_err_def)
  have "look t q = look s q" if "q \<notin> outputs ho (kt_path kt) s (Local c)" for q
    using local_confined [OF host(1,2) covered [unfolded c] that, of ik] by (simp add: t)
  with t local_status [of ho ik kt c s] show ?thesis by (cases a) (auto simp: c out)
next
  case False
  have "exit_status r \<le> 1"
    using run covered False by (cases command) (auto dest: concluded_status)
  moreover from network_confined [OF host(1,3) covered False] run
  have "\<forall>q. q \<notin> outputs ho (kt_path kt) s command \<longrightarrow> look s' q = look s q"
    unfolding runs_only_def by blast
  ultimately show ?thesis by auto
qed

definition offline :: "(string \<rightharpoonup> byte list, unit, unit) http_agent" where
  "offline = \<lparr>ha_post = (\<lambda>_. fails_with ''offline''), ha_sleep = (\<lambda>_ s. s), ha_status = (\<lambda>_. 500),
     ha_body = (\<lambda>_. None), ha_json = (\<lambda>_. Inl ''offline'')\<rparr>"

definition ping_kit :: "(string \<rightharpoonup> byte list, string, string, demo_document, nat, nat, unit, nat, unit, unit) kit" where
  \<comment> \<open>a kit that encodes everything to the empty file, reads back the compilation of \<open>ping\<close> and has no
    service and no threads\<close>
  "ping_kit =
     \<lparr>kt_errors = (\<lambda>_. Inr []), kt_endpoint = (\<lambda>_. Inr []), kt_plan_encode = (\<lambda>_. Inr []),
      kt_plan_decode = (\<lambda>_. Inr (ping_file (Some (pp_wire ping_plan)))), kt_frames = (\<lambda>_. Inr []),
      kt_report = (\<lambda>_. Inl ''none''), kt_conversation = (\<lambda>_. Inr []), kt_store = version_store,
      kt_automerge = demo_automerge, kt_numbers = demo_numbers, kt_parse = (\<lambda>_. Inr JNull),
      kt_create = (\<lambda>_. Some (Inr first_doc)), kt_gate = (\<lambda>_. None), kt_show_f64 = (\<lambda>_. []),
      kt_binding = (\<lambda>_. Inl ''none''), kt_value = (\<lambda>_. Inr ()), kt_trim = id, kt_agent = (\<lambda>_ _. offline),
      kt_view = \<lparr>jv_get = (\<lambda>_ _. None), jv_text = (\<lambda>_. None), jv_answer = (\<lambda>_. Inl ''none''),
        jv_object = (\<lambda>_. ()), jv_string = (\<lambda>_. ()), jv_criteria = (\<lambda>_. ())\<rparr>,
      kt_path = id, kt_bytes = (\<lambda>_. []), kt_quoted = id, kt_quoted_path = id, kt_toml = (\<lambda>_. Inr []),
      kt_demo = (\<lambda>_ _ _ _ _ _. fails_with RtWorkerPanicked),
      kt_fault_demo = (\<lambda>_ _ _ _ _. fails_with RtWorkerPanicked)\<rparr>"

lemma map_files_orderly: "orderly_files map_files (\<lambda>s. s)"
  by (auto simp: orderly_files_def writes_only_def map_files_def)

lemma ping_kit_orderly: "orderly_kit ping_host ping_kit (\<lambda>s. s)"
  by (simp add: orderly_kit_def ping_kit_def ping_host_def writes_only_def offline_def fails_with_def)

text \<open>A host that no one calls: its listeners are bound and closed, and its streams are cut.\<close>

definition quiet_network :: "(string \<rightharpoonup> byte list, string, nat, string, nat, unit, unit, unit, unit, unit,
    demo_document, unit, unit, unit) network \<Rightarrow> (string \<rightharpoonup> byte list, string, nat, string, nat, unit, unit, unit,
    unit, unit, demo_document, unit, unit, unit) network" where
  "quiet_network nw = nw
     \<lparr>nw_tcp := \<lparr>tn_bind = (\<lambda>_ s. (Inr (), s)), tn_accept = fails_with ''closed'',
        tn_connect = (\<lambda>_. fails_with TimedOut), tn_nodelay = (\<lambda>_ _ s. (Inr (), s)),
        tn_read_timeout = (\<lambda>_ _ s. (Inr (), s)), tn_write_timeout = (\<lambda>_ _ s. (Inr (), s))\<rparr>,
      nw_quic := \<lparr>qn_bind = (\<lambda>_ s. (Inr (), s)), qn_certificate = (\<lambda>_. [48, 49]), qn_local_addr = (\<lambda>_. Inr 0),
        qn_incoming = (\<lambda>_ s. (None, s)), qn_handshake = (\<lambda>_. fails_with ''closed''),
        qn_accept_bi = (\<lambda>_. fails_with ''closed''), qn_endpoint = (\<lambda>_. fails_with ''closed''),
        qn_connect = (\<lambda>_ _ _. fails_with ''closed''), qn_open_bi = (\<lambda>_. fails_with ''closed'')\<rparr>,
      nw_iroh := \<lparr>nt_incoming = (\<lambda>s. (None, s)), nt_handshake = (\<lambda>_. fails_with ''closed''),
        nt_refuse = (\<lambda>_ s. s), nt_close = (\<lambda>s. s), nt_accept_bi = (\<lambda>_. fails_with ''closed''),
        nt_connect = (\<lambda>_. fails_with ''closed''), nt_open_bi = (\<lambda>_. fails_with ''closed''), nt_remote = (\<lambda>_. []),
        nt_addr_id = (\<lambda>_. []), nt_show = (\<lambda>i. i)\<rparr>,
      nw_bind_direct := (\<lambda>_ _. fails_with RtWorkerPanicked)\<rparr>"

lemma quiet_network_orderly: "orderly_network (\<lambda>s. s) (quiet_network nw)"
  by (simp add: orderly_network_def orderly_tcp_def orderly_quic_def orderly_iroh_def quiet_network_def
      writes_only_def untouched_def hands_out_def fails_with_def)

lemma commands_confined_witness:
  "\<forall>nw. \<exists>r s'. run_main ping_host text_keys ping_kit (quiet_network nw) (ServeQuic ''c'' 0 ''cert'' 1 ReferenceEncoding)
      [''c'' \<mapsto> [], ''d'' \<mapsto> [7]] = Some (r, s') \<and> s' ''cert'' = Some [48, 49] \<and> s' ''d'' = Some [7]"
proof
  fix nw
  let ?run = "run_main ping_host text_keys ping_kit (quiet_network nw) (ServeQuic ''c'' 0 ''cert'' 1 ReferenceEncoding)
      [''c'' \<mapsto> [], ''d'' \<mapsto> [7]]"
  have "\<exists>r s'. ?run = Some (r, s') \<and> s' ''cert'' = Some [48, 49]"
    by (simp add: concluded_def serve_quic_command_def run_then_def read_plan_def read_json_def ping_host_def
        map_files_def act_then_def act_map_err_def from_result_def done_with_def ping_compiles quiet_network_def
        quic_accept_def)
  then obtain r s' where run: "?run = Some (r, s')" and cert: "s' ''cert'' = Some [48, 49]" by blast
  have files: "orderly_files (ho_files ping_host) (\<lambda>s. s)" by (simp add: map_files_orderly)
  from commands_confined [OF files ping_kit_orderly quiet_network_orderly _ run] have "s' ''d'' = Some [7]"
    by simp
  with run cert show "\<exists>r s'. ?run = Some (r, s') \<and> s' ''cert'' = Some [48, 49] \<and> s' ''d'' = Some [7]" by blast
qed

end
