(* ===== verification/Arguments_Correct.thy ===== *)
theory Arguments_Correct
  imports Program
begin

text \<open>
  What the program relies on in \<open>clap\<close>, as a law on well-spelled words, a small parser that obeys it,
  and what each declared command makes of its words.
\<close>

section \<open>Well-spelled words\<close>

datatype word_item = Given string | Put string string | Turn_on string

fun spelled :: "word_item \<Rightarrow> string list" where
  "spelled (Given v) = [v]"
| "spelled (Put n v) = [''--'' @ n, v]"
| "spelled (Turn_on n) = [''--'' @ n]"

definition givens :: "word_item list \<Rightarrow> string list" where
  "givens items = concat (map (\<lambda>item. case item of Given v \<Rightarrow> [v] | _ \<Rightarrow> []) items)"

definition puts :: "word_item list \<Rightarrow> (string \<times> string) list" where
  "puts items = concat (map (\<lambda>item. case item of Put n v \<Rightarrow> [(n, v)] | _ \<Rightarrow> []) items)"

definition turned_on :: "word_item list \<Rightarrow> string list" where
  "turned_on items = concat (map (\<lambda>item. case item of Turn_on n \<Rightarrow> [n] | _ \<Rightarrow> []) items)"

definition positionals :: "arg_spec list \<Rightarrow> (string \<times> presence) list" where
  "positionals specs = concat (map (\<lambda>spec. case spec of Positional n p \<Rightarrow> [(n, p)] | _ \<Rightarrow> []) specs)"

definition settings :: "arg_spec list \<Rightarrow> (string \<times> presence) list" where
  "settings specs = concat (map (\<lambda>spec. case spec of Setting n p \<Rightarrow> [(n, p)] | _ \<Rightarrow> []) specs)"

definition switches :: "arg_spec list \<Rightarrow> string list" where
  "switches specs = concat (map (\<lambda>spec. case spec of Switch n \<Rightarrow> [n] | _ \<Rightarrow> []) specs)"

definition assigned :: "arg_spec list \<Rightarrow> word_item list \<Rightarrow> (string \<times> string) list" where
  "assigned specs items = puts items @ zip (map fst (positionals specs)) (givens items)"

definition matched :: "arg_spec list \<Rightarrow> word_item list \<Rightarrow> matches" where
  \<comment> \<open>the words give a value or else the default does\<close>
  "matched specs items =
     \<lparr>mt_value = (\<lambda>n. case map_of (assigned specs items) n of
         Some v \<Rightarrow> Some v
       | None \<Rightarrow> (case map_of (positionals specs @ settings specs) n of Some (Default v) \<Rightarrow> Some v | _ \<Rightarrow> None)),
      mt_switch = (\<lambda>n. n \<in> set (turned_on items))\<rparr>"

definition plain_value :: "string \<Rightarrow> bool" where
  "plain_value v \<longleftrightarrow> v \<noteq> [] \<and> hd v \<noteq> CHR ''-''"

definition well_spelled :: "arg_spec list \<Rightarrow> word_item list \<Rightarrow> bool" where
  \<comment> \<open>every option once and declared, no more values than there are places, nothing required left out\<close>
  "well_spelled specs items \<longleftrightarrow>
     list_all plain_value (givens items) \<and> length (givens items) \<le> length (positionals specs) \<and>
     list_all (\<lambda>(n, v). plain_value v \<and> n \<in> set (map fst (settings specs))) (puts items) \<and>
     list_all (\<lambda>n. n \<in> set (switches specs)) (turned_on items) \<and>
     distinct (map fst (puts items)) \<and> distinct (turned_on items) \<and>
     distinct (map fst (positionals specs @ settings specs) @ switches specs) \<and>
     list_all (\<lambda>(n, p). p = Required \<longrightarrow> map_of (assigned specs items) n \<noteq> None) (positionals specs @ settings specs)"

definition clap_reads :: "clap \<Rightarrow> (string \<times> arg_spec list) list \<Rightarrow> bool" where
  \<comment> \<open>well-spelled words are matched, and a number in decimal is read if it fits\<close>
  "clap_reads cl decls \<longleftrightarrow>
     (\<forall>name specs items. map_of decls name = Some specs \<longrightarrow> well_spelled specs items \<longrightarrow>
        cl_parse cl decls (name # concat (map spelled items)) = Inr (name, matched specs items)) \<and>
     (\<forall>bits n. n < 2 ^ bits \<longrightarrow> cl_number cl bits (show_nat n) = Some n)"

section \<open>A parser\<close>

fun scan :: "arg_spec list \<Rightarrow> string list \<Rightarrow> word_item list option" where
  "scan specs [] = Some []"
| "scan specs (w # ws) =
     (if take 2 w \<noteq> ''--'' then map_option ((#) (Given w)) (scan specs ws)
      else if drop 2 w \<in> set (switches specs) then map_option ((#) (Turn_on (drop 2 w))) (scan specs ws)
      else case ws of
          [] \<Rightarrow> None
        | v # ws \<Rightarrow> map_option ((#) (Put (drop 2 w) v)) (scan specs ws))"

definition plain_number :: "nat \<Rightarrow> string \<Rightarrow> nat option" where
  "plain_number bits s =
     (if s = [] \<or> \<not> list_all is_decimal s \<or> 2 ^ bits \<le> decimal_value s then None else Some (decimal_value s))"

definition plain_parse :: "(string \<times> arg_spec list) list \<Rightarrow> string list \<Rightarrow> nat + string \<times> matches" where
  "plain_parse decls words =
     (case words of
        [] \<Rightarrow> Inl 2
      | name # words \<Rightarrow>
          and_then (ok_or 2 (map_of decls name)) (\<lambda>specs.
          and_then (ok_or 2 (scan specs words)) (\<lambda>items.
          if well_spelled specs items then Inr (name, matched specs items) else Inl 2)))"

definition plain_clap :: clap where
  "plain_clap = \<lparr>cl_parse = plain_parse, cl_number = plain_number\<rparr>"

lemma item_parts [simp]:
  "givens [] = []" "puts [] = []" "turned_on [] = []"
  "givens (Given v # items) = v # givens items" "givens (Put n v # items) = givens items"
  "givens (Turn_on n # items) = givens items"
  "puts (Given v # items) = puts items" "puts (Put n v # items) = (n, v) # puts items"
  "puts (Turn_on n # items) = puts items"
  "turned_on (Given v # items) = turned_on items" "turned_on (Put n v # items) = turned_on items"
  "turned_on (Turn_on n # items) = n # turned_on items"
  by (simp_all add: givens_def puts_def turned_on_def)

lemma spec_parts [simp]:
  "positionals [] = []" "settings [] = []" "switches [] = []"
  "positionals (Positional n p # specs) = (n, p) # positionals specs" "positionals (Setting n p # specs) = positionals specs"
  "positionals (Switch n # specs) = positionals specs"
  "settings (Positional n p # specs) = settings specs" "settings (Setting n p # specs) = (n, p) # settings specs"
  "settings (Switch n # specs) = settings specs"
  "switches (Positional n p # specs) = switches specs" "switches (Setting n p # specs) = switches specs"
  "switches (Switch n # specs) = n # switches specs"
  by (simp_all add: positionals_def settings_def switches_def)

lemma scan_spelled:
  assumes "list_all plain_value (givens items)"
    and "list_all (\<lambda>(n, v). n \<notin> set (switches specs)) (puts items)"
    and "list_all (\<lambda>n. n \<in> set (switches specs)) (turned_on items)"
  shows "scan specs (concat (map spelled items)) = Some items"
  using assms
proof (induction items)
  case (Cons item items)
  show ?case
  proof (cases item)
    case (Given v)
    with Cons.prems(1) have "take 2 v \<noteq> ''--''" by (cases v) (auto simp: plain_value_def)
    with Given Cons show ?thesis by simp
  qed (use Cons in auto)
qed simp

lemma show_nat_decimal: "list_all is_decimal (show_nat n) \<and> show_nat n \<noteq> [] \<and> decimal_value (show_nat n) = n"
proof (induction n rule: show_nat.induct)
  case (1 n)
  have digit: "is_decimal (char_of (48 + d))" "of_char (char_of (48 + d) :: char) = 48 + d" if "d < 10" for d :: nat
  proof -
    show "of_char (char_of (48 + d) :: char) = 48 + d" using that by simp
    then show "is_decimal (char_of (48 + d))" using that by (simp add: is_decimal_def)
  qed
  show ?case
  proof (cases "n < 10")
    case True
    with digit [of n] show ?thesis by (simp add: show_nat.simps [of n] decimal_value_def)
  next
    case False
    have "n mod 10 < 10" by simp
    from digit [OF this] False 1 [OF False] show ?thesis
      by (simp add: show_nat.simps [of n] decimal_value_def)
  qed
qed

lemma plain_clap_reads: "clap_reads plain_clap decls"
  unfolding clap_reads_def
proof (intro conjI allI impI)
  fix name specs items assume decls: "map_of decls name = Some specs" and well: "well_spelled specs items"
  from well have "list_all (\<lambda>(n, v). n \<notin> set (switches specs)) (puts items)"
    by (fastforce simp: well_spelled_def list_all_iff)
  with well have "scan specs (concat (map spelled items)) = Some items"
    by (intro scan_spelled) (simp_all add: well_spelled_def)
  with decls well show "cl_parse plain_clap decls (name # concat (map spelled items)) = Inr (name, matched specs items)"
    by (simp add: plain_clap_def plain_parse_def)
qed (simp add: plain_clap_def plain_number_def show_nat_decimal)

end
