(* ===== verification/Arguments_Properties.thy ===== *)
theory Arguments_Properties
  imports Arguments_Correct
begin

text \<open>
  Theorems on the command line: every command can be spelled and is read back as it was spelled.
\<close>

section \<open>Spelling a command\<close>

fun demo_transport_name :: "demo_transport \<Rightarrow> string" where
  "demo_transport_name DemoMemory = ''memory''"
| "demo_transport_name DemoTcp = ''tcp''"
| "demo_transport_name DemoQuic = ''quic''"
| "demo_transport_name DemoIroh = ''iroh''"

fun deployment_transport_name :: "miren_transport \<Rightarrow> string" where
  "deployment_transport_name MirenTcp = ''tcp''"
| "deployment_transport_name MirenIroh = ''iroh''"

definition put_opt :: "string \<Rightarrow> ('a \<Rightarrow> string) \<Rightarrow> 'a option \<Rightarrow> 
     word_item list" where
  "put_opt n show x = (case x of None \<Rightarrow> [] | Some v \<Rightarrow> [Put n (show v)])"

fun local_items :: "('p \<Rightarrow> string) \<Rightarrow> 'p local_command \<Rightarrow> string \<times> 
     word_item list" where
  "local_items show_path (NodeInit out) =
     (''node-init'', [Put ''out'' (show_path out)])"
| "local_items show_path (PolicyAllow conversation policy peer role) =
     (''policy-allow'', [Given (show_path conversation), Put ''policy'' (show_path policy), Put ''peer'' peer,
       Put ''role'' role])"
| "local_items show_path (BootstrapTwoNode conversation draft_conversation out) =
     (''bootstrap-two-node'', [Given (show_path conversation),
       Put ''draft-conversation'' (show_path draft_conversation), Put ''out'' (show_path out)])"
| "local_items show_path (Check conversation as_json) =
     (''check'', [Given (show_path conversation)] @
        (if as_json then [Turn_on ''json''] else []))"
| "local_items show_path (Project conversation out) =
     (''project'', [Given (show_path conversation), Put ''out'' (show_path out)])"
| "local_items show_path (Compile conversation out) =
     (''compile'', [Given (show_path conversation), Put ''out'' (show_path out)])"
| "local_items show_path (JevCheck conversation binding) =
     (''jev-check'', [Given (show_path conversation), Given (show_path binding)])"
| "local_items show_path (JevDecide conversation binding state_json timeout_seconds) =
     (''jev-decide'', [Given (show_path conversation), Given (show_path binding),
       Put ''state-json'' state_json, Put ''timeout-seconds'' (show_nat timeout_seconds)])"
| "local_items show_path (DraftCreate conversation out) =
     (''draft-create'', [Given (show_path conversation), Put ''out'' (show_path out)])"
| "local_items show_path (DraftPatch draft pointer new_value out) =
     (''draft-patch'', [Given (show_path draft), Put ''pointer'' pointer, Put ''value'' new_value] @
        put_opt ''out'' show_path out)"
| "local_items show_path (DraftPromote draft conversation_out plan_out) =
     (''draft-promote'', [Given (show_path draft), Put ''conversation-out'' (show_path conversation_out),
       Put ''plan-out'' (show_path plan_out)])"
| "local_items show_path (EmitMiren conversation app_name port tokens instances wire transport internal_only) =
     (''emit-miren'', [Given conversation] @
        put_opt ''app-name'' id app_name @
        [Put ''port'' (show_nat (unat port)), Put ''tokens'' (show_nat tokens),
          Put ''instances'' (show_nat instances), Put ''wire'' (encoding_str wire),
          Put ''transport'' (deployment_transport_name transport)] @
        (if internal_only then [Turn_on ''internal-only''] else []))"
| "local_items show_path (RunPlan plan transport wire prompt tokens cancel_after) =
     (''run-plan'', [Given (show_path plan), Put ''transport'' (demo_transport_name transport),
       Put ''wire'' (encoding_str wire), Put ''prompt'' prompt, Put ''tokens'' (show_nat tokens)] @
        put_opt ''cancel-after'' show_nat cancel_after)"
| "local_items show_path (VerifyTrace conversation trace) =
     (''verify-trace'', [Given (show_path conversation), Given (show_path trace)])"
| "local_items show_path (Demo conversation transport prompt tokens cancel_after) =
     (''demo'', [Given (show_path conversation), Put ''transport'' (demo_transport_name transport),
       Put ''prompt'' prompt, Put ''tokens'' (show_nat tokens)] @
        put_opt ''cancel-after'' show_nat cancel_after)"
| "local_items show_path (FaultDemo conversation prompt tokens cancel_after fault_role fault_operation fault_at 
     failure peer_failure) =
     (''fault-demo'', [Given (show_path conversation), Put ''prompt'' prompt,
       Put ''tokens'' (show_nat tokens)] @
        put_opt ''cancel-after'' show_nat cancel_after @
        [Put ''fault-role'' fault_role, Put ''fault-operation'' (fault_operation_str fault_operation),
          Put ''fault-at'' (show_nat fault_at), Put ''failure'' failure] @
        put_opt ''peer-failure'' id peer_failure)"
| "local_items show_path (VerifySession client server) =
     (''verify-session'', [Put ''client'' (show_path client), Put ''server'' (show_path server)])"

fun command_items :: "('p \<Rightarrow> string) \<Rightarrow> ('ip \<Rightarrow> string) \<Rightarrow> ('p, 'ip) cli_command
    \<Rightarrow> string \<times> word_item list" where
  "command_items show_path show_address (Local command) = local_items show_path command"
| "command_items show_path show_address (Benchmark conversation prompt tokens iterations warming) =
     (''benchmark'', [Given (show_path conversation), Put ''prompt'' prompt, Put ''tokens'' (show_nat tokens),
       Put ''iterations'' (show_nat iterations), Put ''warmup'' (show_nat warming)])"
| "command_items show_path show_address (Serve conversation listen tokens wire forever) =
     (''serve'', [Given (show_path conversation), Put ''listen'' (show_address listen),
       Put ''tokens'' (show_nat tokens), Put ''wire'' (encoding_str wire)] @
        (if forever then [Turn_on ''forever''] else []))"
| "command_items show_path show_address (Connect conversation server prompt cancel_after wire) =
     (''connect'', [Given (show_path conversation), Put ''server'' (show_address server),
       Put ''prompt'' prompt] @
        put_opt ''cancel-after'' show_nat cancel_after @
        [Put ''wire'' (encoding_str wire)])"
| "command_items show_path show_address (ServeQuic conversation listen certificate_out tokens wire) =
     (''serve-quic'', [Given (show_path conversation), Put ''listen'' (show_address listen),
       Put ''certificate-out'' (show_path certificate_out), Put ''tokens'' (show_nat tokens),
       Put ''wire'' (encoding_str wire)])"
| "command_items show_path show_address (ConnectQuic conversation server certificate prompt cancel_after wire) =
     (''connect-quic'', [Given (show_path conversation), Put ''server'' (show_address server),
       Put ''certificate'' (show_path certificate), Put ''prompt'' prompt] @
        put_opt ''cancel-after'' show_nat cancel_after @
        [Put ''wire'' (encoding_str wire)])"
| "command_items show_path show_address (ServeIroh conversation identity policy listen advertise ticket_out 
     tokens wire report_out) =
     (''serve-iroh'', [Given (show_path conversation), Put ''identity'' (show_path identity),
       Put ''policy'' (show_path policy), Put ''listen'' (show_address listen)] @
        put_opt ''advertise'' show_address advertise @
        [Put ''ticket-out'' (show_path ticket_out), Put ''tokens'' (show_nat tokens),
          Put ''wire'' (encoding_str wire)] @
        put_opt ''report-out'' show_path report_out)"
| "command_items show_path show_address (ConnectIroh conversation identity policy server prompt cancel_after 
     wire report_out) =
     (''connect-iroh'', [Given (show_path conversation), Put ''identity'' (show_path identity),
       Put ''policy'' (show_path policy), Put ''server'' (show_path server), Put ''prompt'' prompt] @
        put_opt ''cancel-after'' show_nat cancel_after @
        [Put ''wire'' (encoding_str wire)] @
        put_opt ''report-out'' show_path report_out)"
| "command_items show_path show_address (DraftServeIroh conversation draft identity policy listen advertise 
     ticket_out wire report_out) =
     (''draft-serve-iroh'', [Given (show_path conversation), Put ''draft'' (show_path draft),
       Put ''identity'' (show_path identity), Put ''policy'' (show_path policy),
       Put ''listen'' (show_address listen)] @
        put_opt ''advertise'' show_address advertise @
        [Put ''ticket-out'' (show_path ticket_out), Put ''wire'' (encoding_str wire)] @
        put_opt ''report-out'' show_path report_out)"
| "command_items show_path show_address (DraftConnectIroh conversation draft identity policy server wire 
     report_out) =
     (''draft-connect-iroh'', [Given (show_path conversation), Put ''draft'' (show_path draft),
       Put ''identity'' (show_path identity), Put ''policy'' (show_path policy),
       Put ''server'' (show_path server), Put ''wire'' (encoding_str wire)] @
        put_opt ''report-out'' show_path report_out)"

definition spelling :: "('p \<Rightarrow> string) \<Rightarrow> ('ip \<Rightarrow> string) \<Rightarrow> ('p, 'ip) cli_command
    \<Rightarrow> string list" where
  \<comment> \<open>the words of a command with every option written out\<close>
  "spelling show_path show_address command =
     (case command_items show_path show_address command of (name,
       items) \<Rightarrow> name # concat (map spelled items))"

definition option_list :: "'a option \<Rightarrow> 'a list" where
  "option_list x = (case x of None \<Rightarrow> [] | Some y \<Rightarrow> [y])"

fun command_texts :: "('p, 'ip) cli_command \<Rightarrow> string list" where
  "command_texts (Local (PolicyAllow conversation policy peer role)) = [peer, role]"
| "command_texts (Local (JevDecide conversation binding state_json timeout_seconds)) = [state_json]"
| "command_texts (Local (DraftPatch draft pointer new_value out)) = [pointer, new_value]"
| "command_texts (Local (EmitMiren conversation app_name port tokens instances wire transport internal_only)) =
     [conversation] @ option_list app_name"
| "command_texts (Local (RunPlan plan transport wire prompt tokens cancel_after)) = [prompt]"
| "command_texts (Local (Demo conversation transport prompt tokens cancel_after)) = [prompt]"
| "command_texts (Local (FaultDemo conversation prompt tokens cancel_after fault_role fault_operation fault_at 
     failure peer_failure)) = [prompt, fault_role, failure] @ option_list peer_failure"
| "command_texts (Benchmark conversation prompt tokens iterations warming) = [prompt]"
| "command_texts (Connect conversation server prompt cancel_after wire) = [prompt]"
| "command_texts (ConnectQuic conversation server certificate prompt cancel_after wire) = [prompt]"
| "command_texts (ConnectIroh conversation identity policy server prompt cancel_after wire report_out) =
     [prompt]"
| "command_texts _ = []"

fun command_numbers :: "('p, 'ip) cli_command \<Rightarrow> nat list" where
  "command_numbers (Local (JevDecide conversation binding state_json timeout_seconds)) = [timeout_seconds]"
| "command_numbers (Local (EmitMiren conversation app_name port tokens instances wire transport internal_only)) 
     = [tokens, instances]"
| "command_numbers (Local (RunPlan plan transport wire prompt tokens cancel_after)) =
     [tokens] @ option_list cancel_after"
| "command_numbers (Local (Demo conversation transport prompt tokens cancel_after)) =
     [tokens] @ option_list cancel_after"
| "command_numbers (Local (FaultDemo conversation prompt tokens cancel_after fault_role fault_operation 
     fault_at failure peer_failure)) = [tokens] @ option_list cancel_after @ [fault_at]"
| "command_numbers (Benchmark conversation prompt tokens iterations warming) = [tokens, iterations, warming]"
| "command_numbers (Serve conversation listen tokens wire forever) = [tokens]"
| "command_numbers (Connect conversation server prompt cancel_after wire) = option_list cancel_after"
| "command_numbers (ServeQuic conversation listen certificate_out tokens wire) = [tokens]"
| "command_numbers (ConnectQuic conversation server certificate prompt cancel_after wire) =
     option_list cancel_after"
| "command_numbers (ServeIroh conversation identity policy listen advertise ticket_out tokens wire report_out) 
     = [tokens]"
| "command_numbers (ConnectIroh conversation identity policy server prompt cancel_after wire report_out) =
     option_list cancel_after"
| "command_numbers _ = []"

section \<open>Reading it back\<close>

lemmas cli_defs = node_init_cli_def policy_allow_cli_def bootstrap_two_node_cli_def check_cli_def project_cli_def compile_cli_def jev_check_cli_def jev_decide_cli_def draft_create_cli_def draft_patch_cli_def draft_promote_cli_def emit_miren_cli_def run_plan_cli_def verify_trace_cli_def demo_cli_def fault_demo_cli_def benchmark_cli_def serve_cli_def connect_cli_def serve_quic_cli_def connect_quic_cli_def serve_iroh_cli_def connect_iroh_cli_def draft_serve_iroh_cli_def draft_connect_iroh_cli_def verify_session_cli_def

lemma declared_names [simp]:
  "fst (node_init_cli rd) = ''node-init''"
  "fst (policy_allow_cli rd) = ''policy-allow''"
  "fst (bootstrap_two_node_cli rd) = ''bootstrap-two-node''"
  "fst (check_cli rd) = ''check''"
  "fst (project_cli rd) = ''project''"
  "fst (compile_cli rd) = ''compile''"
  "fst (jev_check_cli rd) = ''jev-check''"
  "fst (jev_decide_cli rd) = ''jev-decide''"
  "fst (draft_create_cli rd) = ''draft-create''"
  "fst (draft_patch_cli rd) = ''draft-patch''"
  "fst (draft_promote_cli rd) = ''draft-promote''"
  "fst (emit_miren_cli rd) = ''emit-miren''"
  "fst (run_plan_cli rd) = ''run-plan''"
  "fst (verify_trace_cli rd) = ''verify-trace''"
  "fst (demo_cli rd) = ''demo''"
  "fst (fault_demo_cli rd) = ''fault-demo''"
  "fst (benchmark_cli rd) = ''benchmark''"
  "fst (serve_cli rd) = ''serve''"
  "fst (connect_cli rd) = ''connect''"
  "fst (serve_quic_cli rd) = ''serve-quic''"
  "fst (connect_quic_cli rd) = ''connect-quic''"
  "fst (serve_iroh_cli rd) = ''serve-iroh''"
  "fst (connect_iroh_cli rd) = ''connect-iroh''"
  "fst (draft_serve_iroh_cli rd) = ''draft-serve-iroh''"
  "fst (draft_connect_iroh_cli rd) = ''draft-connect-iroh''"
  "fst (verify_session_cli rd) = ''verify-session''"
  by (simp_all add: cli_defs)

lemma map_of_step: "map_of (p # ps) k = (if fst p = k then Some (snd p) else map_of ps k)"
  by simp

lemma subcommand_names: "distinct (map fst (subcommands rd))"
  by (simp add: subcommands_def)

lemma name_items_app [simp]:
  "givens (put_opt n show x @ items) = givens items" "givens (put_opt n show x) = []"
  "puts (put_opt n show x @ items) = puts (put_opt n show x) @ puts items"
  "turned_on (put_opt n show x @ items) = turned_on items" "turned_on (put_opt n show x) = []"
  "puts (put_opt n show None) = []" "puts (put_opt n show (Some v)) = [(n, show v)]"
  by (cases x; simp add: put_opt_def)+

lemma parse_declared:
  fixes rd :: "('p, 'ip) readers"
  assumes clap: "clap_reads cl (declared rd)" and sub: "(name, specs, build) \<in> set (subcommands rd)"
    and spelled: "well_spelled specs items"
    and rd: "rd = \<lparr>rd_number = cl_number cl, rd_path = path, rd_address = address\<rparr>"
  shows "parse_cli cl path address (name # concat (map spelled items)) = ok_or 2 (build (matched specs items))"
proof -
  have sub': "map_of (subcommands rd) name = Some (specs, build)"
    using sub subcommand_names by (intro map_of_is_SomeI)
  have "map_of (map (\<lambda>(name, specs, _). (name, specs)) xs) name = map_option fst (map_of xs name)"
    for xs :: "('p, 'ip) subcommand list" and name
    by (induction xs) auto
  with sub' have "map_of (declared rd) name = Some specs" by (simp add: declared_def)
  with clap spelled have "cl_parse cl (declared rd) (name # concat (map spelled items)) = Inr (name, matched specs items)"
    unfolding clap_reads_def by blast
  with sub' show ?thesis unfolding parse_cli_def Let_def rd [symmetric] by (simp add: command_of_def)
qed

lemma shown_plain [simp]:
  "plain_value (show_nat n)" "plain_value (encoding_str wire)" "plain_value (demo_transport_name transport)"
  "plain_value (deployment_transport_name mode)" "plain_value (fault_operation_str operation)"
proof -
  show "plain_value (show_nat n)"
    using show_nat_decimal [of n] by (cases "show_nat n") (auto simp: plain_value_def is_decimal_def)
  show "plain_value (encoding_str wire)" by (cases wire) (simp_all add: plain_value_def)
  show "plain_value (demo_transport_name transport)" by (cases transport) (simp_all add: plain_value_def)
  show "plain_value (deployment_transport_name mode)" by (cases mode) (simp_all add: plain_value_def)
  show "plain_value (fault_operation_str operation)" by (cases operation) (simp_all add: plain_value_def)
qed

lemma shown_read [simp]:
  "wire_encoding_of (encoding_str wire) = Some wire"
  "demo_transport_of (demo_transport_name transport) = Some transport"
  "deployment_transport_of (deployment_transport_name mode) = Some mode"
  "fault_operation_named (fault_operation_str operation) = Some operation"
  by ((cases wire; simp), (cases transport; simp), (cases mode; simp), (cases operation; simp))

declare wire_encoding_of.simps [simp del] demo_transport_of.simps [simp del] deployment_transport_of.simps [simp del]
  fault_operation_named.simps [simp del]

definition reads_back :: "('p, 'ip) readers \<Rightarrow> ('p \<Rightarrow> string) \<Rightarrow> ('ip \<Rightarrow> string) \<Rightarrow> ('p, 'ip) cli_command \<Rightarrow> bool" where
  "reads_back rd show_path show_address command \<longleftrightarrow>
     (case command_items show_path show_address command of (name, items) \<Rightarrow>
       case map_of (subcommands rd) name of
         None \<Rightarrow> False
       | Some (specs, build) \<Rightarrow> well_spelled specs items \<and> build (matched specs items) = Some command)"

lemmas reading = reads_back_def well_spelled_def matched_def assigned_def valued_def valued_opt_def put_opt_def
  option_list_def

lemma lookups:
  "map_of (subcommands rd) ''node-init'' = Some (snd (node_init_cli rd))"
  "map_of (subcommands rd) ''policy-allow'' = Some (snd (policy_allow_cli rd))"
  "map_of (subcommands rd) ''bootstrap-two-node'' = Some (snd (bootstrap_two_node_cli rd))"
  "map_of (subcommands rd) ''check'' = Some (snd (check_cli rd))"
  "map_of (subcommands rd) ''project'' = Some (snd (project_cli rd))"
  "map_of (subcommands rd) ''compile'' = Some (snd (compile_cli rd))"
  "map_of (subcommands rd) ''jev-check'' = Some (snd (jev_check_cli rd))"
  "map_of (subcommands rd) ''jev-decide'' = Some (snd (jev_decide_cli rd))"
  "map_of (subcommands rd) ''draft-create'' = Some (snd (draft_create_cli rd))"
  "map_of (subcommands rd) ''draft-patch'' = Some (snd (draft_patch_cli rd))"
  "map_of (subcommands rd) ''draft-promote'' = Some (snd (draft_promote_cli rd))"
  "map_of (subcommands rd) ''emit-miren'' = Some (snd (emit_miren_cli rd))"
  "map_of (subcommands rd) ''run-plan'' = Some (snd (run_plan_cli rd))"
  "map_of (subcommands rd) ''verify-trace'' = Some (snd (verify_trace_cli rd))"
  "map_of (subcommands rd) ''demo'' = Some (snd (demo_cli rd))"
  "map_of (subcommands rd) ''fault-demo'' = Some (snd (fault_demo_cli rd))"
  "map_of (subcommands rd) ''benchmark'' = Some (snd (benchmark_cli rd))"
  "map_of (subcommands rd) ''serve'' = Some (snd (serve_cli rd))"
  "map_of (subcommands rd) ''connect'' = Some (snd (connect_cli rd))"
  "map_of (subcommands rd) ''serve-quic'' = Some (snd (serve_quic_cli rd))"
  "map_of (subcommands rd) ''connect-quic'' = Some (snd (connect_quic_cli rd))"
  "map_of (subcommands rd) ''serve-iroh'' = Some (snd (serve_iroh_cli rd))"
  "map_of (subcommands rd) ''connect-iroh'' = Some (snd (connect_iroh_cli rd))"
  "map_of (subcommands rd) ''draft-serve-iroh'' = Some (snd (draft_serve_iroh_cli rd))"
  "map_of (subcommands rd) ''draft-connect-iroh'' = Some (snd (draft_connect_iroh_cli rd))"
  "map_of (subcommands rd) ''verify-session'' = Some (snd (verify_session_cli rd))"
  by (simp_all add: subcommands_def map_of_step)

definition faithful_readers :: "('p, 'ip) readers \<Rightarrow> ('p \<Rightarrow> string) \<Rightarrow> ('ip \<Rightarrow> string) \<Rightarrow> ('p, 'ip) cli_command \<Rightarrow> bool" where
  \<comment> \<open>on the paths and the addresses of a command\<close>
  "faithful_readers rd show_path show_address command \<longleftrightarrow>
     (\<forall>p \<in> set1_cli_command command. plain_value (show_path p) \<and> rd_path rd (show_path p) = p) \<and>
     (\<forall>a \<in> set2_cli_command command. plain_value (show_address a) \<and> rd_address rd (show_address a) = Inr a) \<and>
     (\<forall>bits n. n < 2 ^ bits \<longrightarrow> rd_number rd bits (show_nat n) = Some n)"

lemma local_reads_back:
  assumes "faithful_readers rd show_path show_address (Local command)"
    and "list_all plain_value (command_texts (Local command))"
    and "list_all (\<lambda>n. n < 2 ^ 64) (command_numbers (Local command))"
  shows "reads_back rd show_path show_address (Local command)"
proof -
  have port: "rd_number rd 16 (show_nat (unat port)) = Some (unat port)" for port :: u16
    using assms(1) unsigned_less [of port, where 'a = nat] by (simp add: faithful_readers_def)
  show ?thesis
    using assms by (cases command) (simp_all add: faithful_readers_def reading lookups cli_defs port split: option.splits)
qed

lemma every_command_reads_back:
  assumes "faithful_readers rd show_path show_address command"
    and "list_all plain_value (command_texts command)" and "list_all (\<lambda>n. n < 2 ^ 64) (command_numbers command)"
  shows "reads_back rd show_path show_address command"
proof (cases command)
  case (Local command)
  with assms local_reads_back show ?thesis by metis
qed (use assms in \<open>simp_all add: faithful_readers_def reading lookups cli_defs split: option.splits\<close>)

text \<open>C32: every command can be given on the command line.  With a parser that matches well-spelled
  words with the declared arguments and reads the numbers that fit, and with paths and addresses
  that parse from their text, the words that name a command and write out all its options parse to
  that very command: each of the 26 commands is declared with exactly the arguments it is built
  from, each value ends in its place, and leaving an optional value out means it is absent.\<close>

theorem command_line_roundtrip:
  assumes clap: "clap_reads cl (declared \<lparr>rd_number = cl_number cl, rd_path = path, rd_address = address\<rparr>)"
    and "\<And>p. p \<in> set1_cli_command command \<Longrightarrow> plain_value (show_path p) \<and> path (show_path p) = p"
    and "\<And>a. a \<in> set2_cli_command command \<Longrightarrow> plain_value (show_address a) \<and> address (show_address a) = Inr a"
    and "list_all plain_value (command_texts command)" and "list_all (\<lambda>n. n < 2 ^ 64) (command_numbers command)"
  shows "parse_cli cl path address (spelling show_path show_address command) = Inr command"
proof -
  define rd where "rd = \<lparr>rd_number = cl_number cl, rd_path = path, rd_address = address\<rparr>"
  have "faithful_readers rd show_path show_address command"
    using assms(2,3) clap by (simp add: faithful_readers_def rd_def clap_reads_def)
  from every_command_reads_back [OF this assms(4,5)] obtain name items specs build
    where "command_items show_path show_address command = (name, items)"
      "map_of (subcommands rd) name = Some (specs, build)" "well_spelled specs items"
      "build (matched specs items) = Some command"
    by (auto simp: reads_back_def split: prod.splits option.splits)
  with parse_declared [OF clap [folded rd_def] map_of_SomeD _ rd_def, of name specs build items] show ?thesis
    by (simp add: spelling_def)
qed

lemma command_line_roundtrip_witness:
  "parse_cli plain_clap id Inr [''serve'', ''c.json'', ''--listen'', ''localhost'', ''--tokens'', ''7'', ''--wire'',
     ''compact'', ''--forever''] = Inr (Serve ''c.json'' ''localhost'' 7 CompactEncoding True)"
proof -
  have "spelling id id (Serve ''c.json'' ''localhost'' 7 CompactEncoding True) = [''serve'', ''c.json'', ''--listen'',
      ''localhost'', ''--tokens'', ''7'', ''--wire'', ''compact'', ''--forever'']"
    by code_simp
  with command_line_roundtrip [OF plain_clap_reads, of "Serve ''c.json'' ''localhost'' 7 CompactEncoding True" id id id Inr]
  show ?thesis by (simp add: plain_value_def)
qed

end
