(* ===== verification/Program_Properties.thy ===== *)
theory Program_Properties
  imports Arguments_Properties Command_Line_Properties Deploy_Properties Node_Properties
begin

text \<open>
  Theorems on the program as a whole: what the deployed server does, and what two bootstrapped nodes
  find when they are started with the defaults.
\<close>

section \<open>The deployed server\<close>

definition deployed_command :: "(string \<Rightarrow> 'p) \<Rightarrow> 'ip \<Rightarrow> miren_options \<Rightarrow> ('p, 'ip) cli_command" where
  "deployed_command path listen options =
     (let conversation = path ''/etc/colloq/conversation.json''
      in case mo_transport options of
        MirenTcp \<Rightarrow> Serve conversation listen (mo_tokens options) (mo_wire options) True
      | MirenIroh \<Rightarrow> ServeIroh conversation (path ''/run/colloq/server.colloqnode.json'')
          (path ''/run/colloq/server.authorization.json'') listen None (path ''/tmp/server.colloqendpoint.json'')
          (mo_tokens options) (mo_wire options) None)"

lemma shown_words: "CHR '' '' \<notin> set (show_nat n)" "CHR '' '' \<notin> set (encoding_str wire)"
proof -
  show "CHR '' '' \<notin> set (show_nat n)"
    using show_nat_decimal [of n] by (auto simp: list_all_iff is_decimal_def)
  show "CHR '' '' \<notin> set (encoding_str wire)" by (cases wire) simp_all
qed

lemma deployed_words:
  "tl (split_on CHR '' '' (miren_command options)) =
     (case mo_transport options of
        MirenTcp \<Rightarrow> ''serve'' # concat (map spelled [Given ''/etc/colloq/conversation.json'',
          Put ''listen'' (''0.0.0.0:'' @ show_nat (unat (mo_port options))),
          Put ''tokens'' (show_nat (mo_tokens options)), Put ''wire'' (encoding_str (mo_wire options)), Turn_on ''forever''])
      | MirenIroh \<Rightarrow> ''serve-iroh'' # concat (map spelled [Given ''/etc/colloq/conversation.json'',
          Put ''identity'' ''/run/colloq/server.colloqnode.json'',
          Put ''policy'' ''/run/colloq/server.authorization.json'',
          Put ''listen'' (''0.0.0.0:'' @ show_nat (unat (mo_port options))),
          Put ''ticket-out'' ''/tmp/server.colloqendpoint.json'', Put ''tokens'' (show_nat (mo_tokens options)),
          Put ''wire'' (encoding_str (mo_wire options))]))"
proof -
  have port: "CHR '' '' \<notin> set (''0.0.0.0:'' @ show_nat n)" for n
    using shown_words(1) by simp
  note steps = split_on_append [OF port, simplified] split_on_append [OF shown_words(1)]
    split_on_append [OF shown_words(2)] split_on_free [OF shown_words(2)]
  show ?thesis
    by (cases "mo_transport options") (simp_all add: miren_command_def Let_def steps)
qed

lemma deployed_understood:
  assumes clap: "clap_reads cl (declared \<lparr>rd_number = cl_number cl, rd_path = path, rd_address = address\<rparr>)"
    and "mo_tokens options < 2 ^ 64"
    and "address (''0.0.0.0:'' @ show_nat (unat (mo_port options))) = Inr listen"
  shows "parse_cli cl path address (tl (split_on CHR '' '' (miren_command options))) =
    Inr (deployed_command path listen options)"
proof -
  define rd where "rd = \<lparr>rd_number = cl_number cl, rd_path = path, rd_address = address\<rparr>"
  have tokens: "cl_number cl 64 (show_nat (mo_tokens options)) = Some (mo_tokens options)"
    using clap assms(2) by (simp add: clap_reads_def)
  have known: "(name, specs, build) \<in> set (subcommands rd)" if "map_of (subcommands rd) name = Some (specs, build)"
    for name specs build by (rule map_of_SomeD [OF that])
  note parsed = parse_declared [OF clap [folded rd_def] known _ rd_def]
  show ?thesis
  proof (cases "mo_transport options")
    case MirenTcp
    have sub: "map_of (subcommands rd) ''serve'' = Some (fst (snd (serve_cli rd)), snd (snd (serve_cli rd)))"
      by (simp add: lookups)
    show ?thesis
      unfolding deployed_words MirenTcp miren_transport.case
      by (subst parsed [OF sub]; cases "mo_wire options"; auto simp: reading cli_defs deployed_command_def MirenTcp rd_def
        assms(3) [simplified] tokens plain_value_def [of "_ # _"])
  next
    case MirenIroh
    have sub: "map_of (subcommands rd) ''serve-iroh'' = Some (fst (snd (serve_iroh_cli rd)), snd (snd (serve_iroh_cli rd)))"
      by (simp add: lookups)
    show ?thesis
      unfolding deployed_words MirenIroh miren_transport.case
      by (subst parsed [OF sub]; cases "mo_wire options"; auto simp: reading cli_defs deployed_command_def MirenIroh rd_def
        assms(3) [simplified] tokens plain_value_def [of "_ # _"])
  qed
qed

lemma compiled_prepares:
  assumes "compile ext c = Inr p"
  shows "\<exists>plan. compile_prepared ext c = Inr plan \<and> pp_plan_identity plan = pl_plan_identity p \<and>
    pp_conversation_identity plan = pl_conversation_identity p"
proof -
  from assms obtain wire where "pl_wire p = Some wire"
    by (auto simp: compile_def result_simps Let_def)
  with assms show ?thesis by (simp add: compile_prepared_def prepared_def)
qed

definition manifest_environment :: "(string \<Rightarrow> string option) \<Rightarrow> miren_app \<Rightarrow> bool" where
  \<comment> \<open>the process sees the values of the manifest\<close>
  "manifest_environment var app \<longleftrightarrow>
     (\<forall>entry \<in> set (ma_env app). \<forall>text. me_value entry = Some text \<longrightarrow> var (me_key entry) = Some text)"

lemma deployment_checked:
  assumes "manifest_environment var (miren_app_of options p)" and "pp_plan_identity plan = pl_plan_identity p"
    and "pp_conversation_identity plan = pl_conversation_identity p"
  shows "verify_deployment_identity var plan = Inr ()"
  using assms
  by (simp add: manifest_environment_def miren_app_of_def miren_environment_def env_value_def
      verify_deployment_identity_def)

text \<open>C27: the deployed server serves the plan of its bundle.  When a bundle is rendered and the command
  of its manifest is run, split at its spaces, in the environment of the manifest, on a host where
  the conversation file holds the conversation that was rendered, then the program passes the check
  of the deployment's identities and its whole run is: over TCP, binding port on every address and
  serving conversations of the plan whose identity the bundle carries, without an end, with the
  tokens and the encoding of the options; over Iroh, the server of that plan on that port with the
  identity and the policy of the deployment, as if there were no check to pass.\<close>

theorem deployment_serves:
  fixes ho :: "('s, 'p, 'v, 'ip) host"
    and nw :: "('s, 'v, 'ip, 'id, 'addr, 'i, 'c, 'l, 'qi, 'qc, 'd, 'q, 'm, 'r) network"
  assumes clap: "clap_reads cl (declared \<lparr>rd_number = cl_number cl, rd_path = kt_path kt,
      rd_address = ho_parse_address ho\<rparr>)"
    and tokens: "mo_tokens options < 2 ^ 64"
    and listen: "ho_parse_address ho (''0.0.0.0:'' @ show_nat (unat (mo_port options))) = Inr listen"
    and rendered: "render_miren_bundle quoted quoted_path to_toml (ho_ext ho) c options = Inr bundle"
    and p: "compile (ho_ext ho) c = Inr p"
    and env: "manifest_environment (ho_var ho) (miren_app_of options p)"
    and service: "map_of (ma_services (miren_app_of options p)) ''server'' = Some service"
    and stored: "read_json ho (ho_conversation ho) (kt_path kt ''/etc/colloq/conversation.json'') s = (Inr c, s1)"
  shows "\<exists>plan. compile_prepared (ho_ext ho) c = Inr plan \<and> pp_plan_identity plan = mb_plan_identity bundle \<and>
    run_words cl ho ik kt nw (tl (split_on CHR '' '' (ms_command service))) s =
      (case mo_transport options of
         MirenTcp \<Rightarrow> concluded (run_then (act_map_err CmdIo (tn_bind (nw_tcp nw) listen)) (\<lambda>_.
           serve_loop True (serve_conversation (nw_tcp nw) (nw_serde nw) (nw_json nw) (mo_wire options) plan
             (mo_tokens options)))) s1
       | MirenIroh \<Rightarrow> concluded (iroh_server ho ik (nw_iroh nw) (\<lambda>secret. nw_bind_direct nw secret listen) False
           (mo_wire options) (kt_path kt ''/etc/colloq/conversation.json'')
           (kt_path kt ''/run/colloq/server.colloqnode.json'') (kt_path kt ''/run/colloq/server.authorization.json'')
           None (kt_path kt ''/tmp/server.colloqendpoint.json'')
           (\<lambda>plan transport. emitted ho (nw_report nw) None (iroh_session plan transport (nw_serde nw) ''server''
             ''client'' (\<lambda>tp. runtime_work (run_generate_server_plan tp (nw_json nw) plan (mo_tokens options)))))) s)"
proof -
  obtain plan where plan: "compile_prepared (ho_ext ho) c = Inr plan" "pp_plan_identity plan = pl_plan_identity p"
    "pp_conversation_identity plan = pl_conversation_identity p"
    using compiled_prepares [OF p] by blast
  have checked: "verify_deployment_identity (ho_var ho) plan = Inr ()"
    by (rule deployment_checked [OF env plan(2,3)])
  have loaded: "read_plan ho (kt_path kt ''/etc/colloq/conversation.json'') s = (Inr plan, s1)"
    by (simp add: read_plan_def act_then_def stored plan(1) from_result_def)
  have command: "ms_command service = miren_command options"
    using service by (auto simp: miren_app_of_def)
  have parsed: "run_words cl ho ik kt nw (tl (split_on CHR '' '' (ms_command service))) s =
      run_main ho ik kt nw (deployed_command (kt_path kt) listen options) s"
    unfolding run_words_def command
    by (simp add: deployed_understood [where address = "ho_parse_address ho", OF clap tokens listen])
  have "pp_plan_identity plan = mb_plan_identity bundle"
    using rendered p plan(2) by (auto simp: render_miren_bundle_def result_simps)
  moreover have "run_main ho ik kt nw (deployed_command (kt_path kt) listen options) s =
      (case mo_transport options of
         MirenTcp \<Rightarrow> concluded (run_then (act_map_err CmdIo (tn_bind (nw_tcp nw) listen)) (\<lambda>_.
           serve_loop True (serve_conversation (nw_tcp nw) (nw_serde nw) (nw_json nw) (mo_wire options) plan
             (mo_tokens options)))) s1
       | MirenIroh \<Rightarrow> concluded (iroh_server ho ik (nw_iroh nw) (\<lambda>secret. nw_bind_direct nw secret listen) False
           (mo_wire options) (kt_path kt ''/etc/colloq/conversation.json'')
           (kt_path kt ''/run/colloq/server.colloqnode.json'') (kt_path kt ''/run/colloq/server.authorization.json'')
           None (kt_path kt ''/tmp/server.colloqendpoint.json'')
           (\<lambda>plan transport. emitted ho (nw_report nw) None (iroh_session plan transport (nw_serde nw) ''server''
             ''client'' (\<lambda>tp. runtime_work (run_generate_server_plan tp (nw_json nw) plan (mo_tokens options)))))) s)"
    by (cases "mo_transport options")
      (simp_all add: deployed_command_def Let_def concluded_def serve_command_def serve_iroh_command_def
        iroh_server_def run_then_def loaded checked from_result_def)
  ultimately show ?thesis using plan(1) parsed by auto
qed

definition deployed_host :: "(string \<rightharpoonup> byte list, string, string, nat) host" where
  \<comment> \<open>the environment of a manifest for \<open>ping\<close>, and one address\<close>
  "deployed_host = ping_host\<lparr>ho_var := map_of [(''COLLOQ_PLAN_IDENTITY'', pp_plan_identity ping_plan),
     (''COLLOQ_CONVERSATION_IDENTITY'', pp_conversation_identity ping_plan)], ho_parse_address := (\<lambda>_. Inr 0)\<rparr>"

lemma deployment_serves_witness:
  "\<forall>nw :: (string \<rightharpoonup> byte list, string, nat, string, nat, unit, unit, unit, unit, unit, demo_document, unit, unit, unit) network.
     run_words plain_clap deployed_host text_keys ping_kit nw (tl (split_on CHR '' '' (miren_command ping_options)))
       [''/etc/colloq/conversation.json'' \<mapsto> []] =
     concluded (run_then (act_map_err CmdIo (tn_bind (nw_tcp nw) 0)) (\<lambda>_. serve_loop True
       (serve_conversation (nw_tcp nw) (nw_serde nw) (nw_json nw) CompactEncoding ping_plan 3)))
       [''/etc/colloq/conversation.json'' \<mapsto> []]"
proof
  fix nw :: "(string \<rightharpoonup> byte list, string, nat, string, nat, unit, unit, unit, unit, unit, demo_document, unit, unit, unit) network"
  let ?s = "[''/etc/colloq/conversation.json'' \<mapsto> []] :: string \<rightharpoonup> byte list"
  obtain mb where "render_miren_bundle (\<lambda>s. s) (\<lambda>s. s) (\<lambda>app. Inr (ma_name app)) plain_externals ping ping_options =
      Inr mb"
    using ping_bundle by blast
  then have rendered: "render_miren_bundle (\<lambda>s. s) (\<lambda>s. s) (\<lambda>app. Inr (ma_name app)) (ho_ext deployed_host) ping
      ping_options = Inr mb"
    by (simp add: deployed_host_def)
  then obtain p where p: "compile (ho_ext deployed_host) ping = Inr p"
    by (auto simp: render_miren_bundle_def result_simps)
  then have same: "pp_plan_identity ping_plan = pl_plan_identity p" "pp_conversation_identity ping_plan = pl_conversation_identity p"
    using compiled_prepares [OF p] ping_compiles by (auto simp: deployed_host_def)
  have chosen: "mo_transport ping_options = MirenTcp" "mo_tokens ping_options = 3" "mo_wire ping_options = CompactEncoding"
    by (simp_all add: ping_options_def for_conversation_def)
  have env: "manifest_environment (ho_var deployed_host) (miren_app_of ping_options p)"
    by (simp add: manifest_environment_def miren_app_of_def miren_environment_def env_value_def chosen deployed_host_def same)
  have tokens: "mo_tokens ping_options < 2 ^ 64" by (simp add: chosen)
  have listen: "ho_parse_address deployed_host (''0.0.0.0:'' @ show_nat (unat (mo_port ping_options))) = Inr 0"
    by (simp add: deployed_host_def)
  obtain service where service: "map_of (ma_services (miren_app_of ping_options p)) ''server'' = Some service"
    "ms_command service = miren_command ping_options"
    by (simp add: miren_app_of_def)
  have stored: "read_json deployed_host (ho_conversation deployed_host) (kt_path ping_kit ''/etc/colloq/conversation.json'') ?s =
      (Inr ping, ?s)"
    by (simp add: read_json_def deployed_host_def ping_kit_def map_files_def act_then_def act_map_err_def from_result_def)
  from deployment_serves [OF plain_clap_reads tokens listen rendered p env service(1) stored, of text_keys nw]
  show "run_words plain_clap deployed_host text_keys ping_kit nw (tl (split_on CHR '' '' (miren_command ping_options))) ?s =
      concluded (run_then (act_map_err CmdIo (tn_bind (nw_tcp nw) 0)) (\<lambda>_. serve_loop True
        (serve_conversation (nw_tcp nw) (nw_serde nw) (nw_json nw) CompactEncoding ping_plan 3))) ?s"
    by (auto simp: chosen service(2) deployed_host_def ping_compiles)
qed

section \<open>Two bootstrapped nodes\<close>

definition storing_files :: "('s, 'p) file_system \<Rightarrow> ('s \<Rightarrow> 'p \<Rightarrow> byte list option) \<Rightarrow> bool" where
  \<comment> \<open>honest, and a private file is emptied when it is opened and then grows\<close>
  "storing_files fs look \<longleftrightarrow>
     honest_files fs look \<and>
     (\<forall>p s s'. fs_open_private fs p s = (Inr (), s') \<longrightarrow> look s' = (look s)(p \<mapsto> [])) \<and>
     (\<forall>p a b s s'. look s p = Some a \<longrightarrow> fs_append fs p b s = (Inr (), s') \<longrightarrow> look s' = (look s)(p \<mapsto> a @ b)) \<and>
     (\<forall>p s s'. fs_make_private fs p s = (Inr (), s') \<longrightarrow> look s' = look s)"

definition reads_back_line :: "'a artifact \<Rightarrow> bool" where
  \<comment> \<open>what was encoded is decoded from a file that ends in a newline\<close>
  "reads_back_line art \<longleftrightarrow> (\<forall>x b. at_encode art x = Inr b \<longrightarrow> at_decode art (b @ [newline]) = Inr x)"

lemma storing_honest: "storing_files fs look \<Longrightarrow> honest_files fs look"
  by (simp add: storing_files_def)

lemma storing_steps:
  assumes "storing_files fs look"
  shows "fs_open_private fs p s = (Inr (), s') \<Longrightarrow> look s' = (look s)(p \<mapsto> [])"
    and "look s p = Some a \<Longrightarrow> fs_append fs p b s = (Inr (), s') \<Longrightarrow> look s' = (look s)(p \<mapsto> a @ b)"
    and "fs_make_private fs p s = (Inr (), s') \<Longrightarrow> look s' = look s"
  using assms unfolding storing_files_def by blast+

lemma create_parent_keeps:
  assumes "storing_files fs look" and "create_parent fs p s = (Inr (), s')"
  shows "look s' = look s"
proof (cases "fs_parent fs p")
  case (Some parent)
  with assms(2) have "fs_create_dirs fs parent s = (Inr (), s')" by (simp add: create_parent_def act_map_err_Inr)
  then show ?thesis by (rule honest_dirs [OF storing_honest [OF assms(1)]])
qed (use assms(2) in \<open>simp add: create_parent_def done_with_def\<close>)

lemma saved_private:
  assumes fs: "storing_files fs look" and save: "save_private fs encode ik p n s = (Inr (), s')"
  shows "\<exists>b. encode n = Inr b \<and> look s' = (look s)(p \<mapsto> b @ [newline])"
proof -
  from save obtain b s1 s2 s3 s4 where b: "encode n = Inr b" and parent: "create_parent fs p s = (Inr (), s1)"
    and writes: "fs_open_private fs p s1 = (Inr (), s2)" "fs_append fs p b s2 = (Inr (), s3)"
      "fs_append fs p [newline] s3 = (Inr (), s4)" "fs_make_private fs p s4 = (Inr (), s')"
    by (auto simp: save_private_def action_simps map_err_Inr)
  note steps = storing_steps [OF fs]
  have s2: "look s2 = (look s)(p \<mapsto> [])"
    using steps(1) [OF writes(1)] create_parent_keeps [OF fs parent] by simp
  have s3: "look s3 = (look s)(p \<mapsto> b)" using steps(2) [OF _ writes(2), of "[]"] s2 by simp
  have "look s' = (look s)(p \<mapsto> b @ [newline])"
    using steps(2) [OF _ writes(3), of b] steps(3) [OF writes(4)] s3 by simp
  with b show ?thesis by blast
qed

lemma saved_policy:
  assumes fs: "storing_files fs look" and save: "save_policy fs encode ik p policy s = (Inr (), s')"
  shows "validate_policy ik policy = Inr () \<and> (\<exists>b. encode policy = Inr b \<and> look s' = (look s)(p \<mapsto> b @ [newline]))"
proof -
  from save obtain b s1 where b: "encode policy = Inr b" "validate_policy ik policy = Inr ()"
    and parent: "create_parent fs p s = (Inr (), s1)" and written: "fs_write fs p (b @ [newline]) s1 = (Inr (), s')"
    by (auto simp: save_policy_def write_public_json_def action_simps map_err_Inr)
  with create_parent_keeps [OF fs parent] fs honest_write show ?thesis by (metis storing_files_def)
qed

lemma found_identity:
  assumes "storing_files (ho_files ho) look" and "reads_back_line (ho_identity ho)"
    and "ho_var ho ''COLLOQ_NODE_IDENTITY_JSON'' = None"
    and "at_encode (ho_identity ho) n = Inr b" and "look s p = Some (b @ [newline])"
    and "identity_endpoint_id ik n = Inr i"
  shows "node_identity_of ho ik p s = (Inr n, s)"
proof -
  have "fs_read (ho_files ho) p s = (Inr (b @ [newline]), s)"
    by (rule honest_contents [OF storing_honest [OF assms(1)] assms(5)])
  moreover have "at_decode (ho_identity ho) (b @ [newline]) = Inr n"
    using assms(2,4) by (simp add: reads_back_line_def)
  ultimately show ?thesis
    using assms(3,6)
    by (auto simp: node_identity_of_def load_node_identity_def from_environment_def load_identity_def load_json_def
        identity_endpoint_id_def result_simps action_simps done_with_def)
qed

lemma found_policy:
  assumes "storing_files (ho_files ho) look" and "reads_back_line (ho_policy ho)"
    and "ho_var ho ''COLLOQ_AUTHORIZATION_JSON'' = None"
    and "at_encode (ho_policy ho) policy = Inr b" and "look s p = Some (b @ [newline])"
    and "validate_policy ik policy = Inr ()"
  shows "authorization_of ho ik p s = (Inr policy, s)"
proof -
  have "fs_read (ho_files ho) p s = (Inr (b @ [newline]), s)"
    by (rule honest_contents [OF storing_honest [OF assms(1)] assms(5)])
  moreover have "at_decode (ho_policy ho) (b @ [newline]) = Inr policy"
    using assms(2,4) by (simp add: reads_back_line_def)
  ultimately show ?thesis
    using assms(3,6)
    by (auto simp: authorization_of_def load_authorization_policy_def from_environment_def load_policy_def load_json_def
        action_simps done_with_def)
qed

lemma bootstrap_leaves:
  fixes ho :: "('s, 'p, 'v, 'ip) host"
  assumes fs: "storing_files (ho_files ho) look"
    and paths: "distinct (map (ho_join ho out) [''server.colloqnode.json'', ''client.colloqnode.json'',
      ''server.authorization.json'', ''client.authorization.json''])"
    and run: "(bootstrap_two_node ho ik conversation draft_conversation out :: ('s, 'v, unit) command) s = (Inr (), s')"
  obtains plan sync_plan s1 s2 server client server_id client_id b1 b2 b3 b4 where
    "(read_plan ho conversation :: ('s, 'v, prepared_plan) command) s = (Inr plan, s1)"
    "(read_plan ho draft_conversation :: ('s, 'v, prepared_plan) command) s1 = (Inr sync_plan, s2)"
    "identity_endpoint_id ik server = Inr server_id" "identity_endpoint_id ik client = Inr client_id"
    "at_encode (ho_identity ho) server = Inr b1" "look s' (ho_join ho out ''server.colloqnode.json'') = Some (b1 @ [newline])"
    "at_encode (ho_identity ho) client = Inr b2" "look s' (ho_join ho out ''client.colloqnode.json'') = Some (b2 @ [newline])"
    "at_encode (ho_policy ho) (fst (bootstrap_policies ik server_id client_id plan sync_plan)) = Inr b3"
    "look s' (ho_join ho out ''server.authorization.json'') = Some (b3 @ [newline])"
    "at_encode (ho_policy ho) (snd (bootstrap_policies ik server_id client_id plan sync_plan)) = Inr b4"
    "look s' (ho_join ho out ''client.authorization.json'') = Some (b4 @ [newline])"
    "validate_policy ik (fst (bootstrap_policies ik server_id client_id plan sync_plan)) = Inr ()"
    "validate_policy ik (snd (bootstrap_policies ik server_id client_id plan sync_plan)) = Inr ()"
proof -
  from run obtain plan sync_plan s1 s2 s3 s4 s5 s6 s7 server client server_id client_id where
    plans: "(read_plan ho conversation :: ('s, 'v, prepared_plan) command) s = (Inr plan, s1)"
      "(read_plan ho draft_conversation :: ('s, 'v, prepared_plan) command) s1 = (Inr sync_plan, s2)"
    and ids: "identity_endpoint_id ik server = Inr server_id" "identity_endpoint_id ik client = Inr client_id"
    and saves: "save_private (ho_files ho) (at_encode (ho_identity ho)) ik (ho_join ho out ''server.colloqnode.json'')
        server s4 = (Inr (), s5)"
      "save_private (ho_files ho) (at_encode (ho_identity ho)) ik (ho_join ho out ''client.colloqnode.json'')
        client s5 = (Inr (), s6)"
      "save_policy (ho_files ho) (at_encode (ho_policy ho)) ik (ho_join ho out ''server.authorization.json'')
        (fst (bootstrap_policies ik server_id client_id plan sync_plan)) s6 = (Inr (), s7)"
      "save_policy (ho_files ho) (at_encode (ho_policy ho)) ik (ho_join ho out ''client.authorization.json'')
        (snd (bootstrap_policies ik server_id client_id plan sync_plan)) s7 = (Inr (), s')"
    by (clarsimp simp: bootstrap_two_node_def Let_def action_simps map_err_Inr save_identity_def save_authorization_def
        bootstrap_policies_def)
  from saved_private [OF fs saves(1)] saved_private [OF fs saves(2)] saved_policy [OF fs saves(3)]
    saved_policy [OF fs saves(4)] show thesis
    using that [OF plans ids] paths by fastforce
qed

lemma bootstrap_peers:
  assumes ids: "faithful_ids ik"
    and valid: "validate_policy ik (fst (bootstrap_policies ik server_id client_id plan sync_plan)) = Inr ()"
      "validate_policy ik (snd (bootstrap_policies ik server_id client_id plan sync_plan)) = Inr ()"
    and which: "used \<in> {plan, sync_plan}"
  shows "\<exists>peers. authorized_peers ik ''client'' used (fst (bootstrap_policies ik server_id client_id plan sync_plan)) =
      Inr peers \<and> set peers = {client_id}"
    and "authorize ik server_id ''server'' used (snd (bootstrap_policies ik server_id client_id plan sync_plan)) = Inr ()"
proof -
  let ?P = "fst (bootstrap_policies ik server_id client_id plan sync_plan)"
  let ?rs = "filter (\<lambda>r. ar_role r = ''client'' \<and> ar_plan r = pp_plan_identity used) (ap_rules ?P)"
  have rules: "set (ap_rules ?P) = {rule_for ik client_id ''client'' plan, rule_for ik client_id ''client'' sync_plan}"
    by (auto simp: bootstrap_policies_def allow_rules default_policy_def)
  have "list_all2 (\<lambda>r i. ik_parse ik (ar_endpoint r) = Some i) rs (replicate (length rs) client_id)"
    if "\<And>r. r \<in> set rs \<Longrightarrow> ik_parse ik (ar_endpoint r) = Some client_id" for rs
    using that by (induction rs) simp_all
  moreover have "ik_parse ik (ar_endpoint r) = Some client_id" if "r \<in> set ?rs" for r
    using that ids unfolding set_filter rules by (auto simp: faithful_ids_def rule_for_def)
  ultimately have all: "list_all2 (\<lambda>r i. ik_parse ik (ar_endpoint r) = Some i) ?rs (replicate (length ?rs) client_id)"
    by blast
  have "rule_for ik client_id ''client'' used \<in> set ?rs"
    using rules which by (auto simp: rule_for_def)
  then have "?rs \<noteq> []" by force
  with all valid(1) show "\<exists>peers. authorized_peers ik ''client'' used ?P = Inr peers \<and> set peers = {client_id}"
    by (intro exI [of _ "replicate (length ?rs) client_id"]) (simp add: authorized_peers_Inr set_replicate_conv_if)
  show "authorize ik server_id ''server'' used (snd (bootstrap_policies ik server_id client_id plan sync_plan)) = Inr ()"
    using valid(2) which by (auto simp: authorize_Inr bootstrap_policies_def allow_rules)
qed

lemma default_commands:
  assumes clap: "clap_reads cl (declared \<lparr>rd_number = cl_number cl, rd_path = path, rd_address = address\<rparr>)"
    and listen: "address ''127.0.0.1:7880'' = Inr listen"
  shows "parse_cli cl path address [''bootstrap-two-node''] =
      Inr (Local (BootstrapTwoNode (path ''examples/generate.colloqconv.json'')
        (path ''examples/draft-sync.colloqconv.json'') (path ''build/two-node'')))"
    and "parse_cli cl path address [''serve-iroh''] =
      Inr (ServeIroh (path ''examples/generate.colloqconv.json'') (path ''build/two-node/server.colloqnode.json'')
        (path ''build/two-node/server.authorization.json'') listen None
        (path ''build/two-node/server.colloqendpoint.json'') 3 CompactEncoding None)"
    and "parse_cli cl path address [''connect-iroh''] =
      Inr (ConnectIroh (path ''examples/generate.colloqconv.json'') (path ''build/two-node/client.colloqnode.json'')
        (path ''build/two-node/client.authorization.json'') (path ''build/two-node/server.colloqendpoint.json'')
        ''Explain why the conversation is the computation.'' None CompactEncoding None)"
proof -
  define rd where "rd = \<lparr>rd_number = cl_number cl, rd_path = path, rd_address = address\<rparr>"
  have "(3 :: nat) < 2 ^ 64" by simp
  then have "cl_number cl 64 (show_nat 3) = Some 3" using clap unfolding clap_reads_def by blast
  moreover have "show_nat 3 = ''3''" by code_simp
  ultimately have three: "cl_number cl 64 ''3'' = Some 3" by simp
  have known: "(name, specs, build) \<in> set (subcommands rd)" if "map_of (subcommands rd) name = Some (specs, build)"
    for name specs build by (rule map_of_SomeD [OF that])
  note parsed = parse_declared [OF clap [folded rd_def] known _ rd_def, where items = "[]", simplified]
  show "parse_cli cl path address [''bootstrap-two-node''] =
      Inr (Local (BootstrapTwoNode (path ''examples/generate.colloqconv.json'')
        (path ''examples/draft-sync.colloqconv.json'') (path ''build/two-node'')))"
    by (subst parsed [where name = "''bootstrap-two-node''" and specs = "fst (snd (bootstrap_two_node_cli rd))"
        and build = "snd (snd (bootstrap_two_node_cli rd))"])
      (simp_all add: lookups reading cli_defs rd_def)
  show "parse_cli cl path address [''serve-iroh''] =
      Inr (ServeIroh (path ''examples/generate.colloqconv.json'') (path ''build/two-node/server.colloqnode.json'')
        (path ''build/two-node/server.authorization.json'') listen None
        (path ''build/two-node/server.colloqendpoint.json'') 3 CompactEncoding None)"
    by (subst parsed [where name = "''serve-iroh''" and specs = "fst (snd (serve_iroh_cli rd))"
        and build = "snd (snd (serve_iroh_cli rd))"])
      (simp_all add: lookups reading cli_defs rd_def three listen wire_encoding_of.simps)
  show "parse_cli cl path address [''connect-iroh''] =
      Inr (ConnectIroh (path ''examples/generate.colloqconv.json'') (path ''build/two-node/client.colloqnode.json'')
        (path ''build/two-node/client.authorization.json'') (path ''build/two-node/server.colloqendpoint.json'')
        ''Explain why the conversation is the computation.'' None CompactEncoding None)"
    by (subst parsed [where name = "''connect-iroh''" and specs = "fst (snd (connect_iroh_cli rd))"
        and build = "snd (snd (connect_iroh_cli rd))"])
      (simp_all add: lookups reading cli_defs rd_def wire_encoding_of.simps)
qed

text \<open>C28: two bootstrapped nodes meet.  After the program has bootstrapped two nodes with its defaults,
  on a file system that keeps what is written, the defaults of serving and of connecting over Iroh
  name the files it left, and without artifacts in the environment these hold what the two commands
  need: the server finds a valid identity and a policy that lists exactly the other node's identity
  as a client of the plan of the generate conversation, and the client a valid identity and a
  policy that authorizes the server's identity as the server of that plan.\<close>

theorem bootstrapped_nodes_meet:
  fixes ho :: "('s, 'p, 'v, 'ip) host"
    and nw :: "('s, 'v, 'ip, 'id, 'addr, 'i, 'c, 'l, 'qi, 'qc, 'd, 'q, 'm, 'r) network"
  assumes clap: "clap_reads cl (declared \<lparr>rd_number = cl_number cl, rd_path = kt_path kt,
      rd_address = ho_parse_address ho\<rparr>)"
    and listen: "ho_parse_address ho ''127.0.0.1:7880'' = Inr listen" and ids: "faithful_ids ik"
    and fs: "storing_files (ho_files ho) look"
    and encoders: "reads_back_line (ho_identity ho)" "reads_back_line (ho_policy ho)"
    and env: "ho_var ho ''COLLOQ_NODE_IDENTITY_JSON'' = None" "ho_var ho ''COLLOQ_AUTHORIZATION_JSON'' = None"
    and join: "\<And>name. ho_join ho (kt_path kt ''build/two-node'') name = kt_path kt (''build/two-node/'' @ name)"
    and paths: "distinct (map (\<lambda>name. kt_path kt (''build/two-node/'' @ name)) [''server.colloqnode.json'',
      ''client.colloqnode.json'', ''server.authorization.json'', ''client.authorization.json''])"
    and run: "run_words cl ho ik kt nw [''bootstrap-two-node''] s = Some (Inr 0, s')"
  shows "\<exists>conversation identity policy ticket client_identity client_policy prompt plan s1 server client
      server_id client_id granted trusted peers.
    parse_cli cl (kt_path kt) (ho_parse_address ho) [''serve-iroh''] =
      Inr (ServeIroh conversation identity policy listen None ticket 3 CompactEncoding None) \<and>
    parse_cli cl (kt_path kt) (ho_parse_address ho) [''connect-iroh''] =
      Inr (ConnectIroh conversation client_identity client_policy ticket prompt None CompactEncoding None) \<and>
    (read_plan ho conversation :: ('s, 'v, prepared_plan) command) s = (Inr plan, s1) \<and>
    (node_identity_of ho ik identity :: ('s, 'v, node_identity) command) s' = (Inr server, s') \<and>
    identity_endpoint_id ik server = Inr server_id \<and>
    (authorization_of ho ik policy :: ('s, 'v, authorization_policy) command) s' = (Inr granted, s') \<and>
    authorized_peers ik ''client'' plan granted = Inr peers \<and> set peers = {client_id} \<and>
    (node_identity_of ho ik client_identity :: ('s, 'v, node_identity) command) s' = (Inr client, s') \<and>
    identity_endpoint_id ik client = Inr client_id \<and>
    (authorization_of ho ik client_policy :: ('s, 'v, authorization_policy) command) s' = (Inr trusted, s') \<and>
    authorize ik server_id ''server'' plan trusted = Inr ()"
proof -
  note defaults = default_commands [OF clap listen]
  have booted: "(bootstrap_two_node ho ik (kt_path kt ''examples/generate.colloqconv.json'')
      (kt_path kt ''examples/draft-sync.colloqconv.json'') (kt_path kt ''build/two-node'') :: ('s, 'v, unit) command) s =
      (Inr (), s')"
    using run by (auto simp: run_words_def defaults(1) succeeds_with_def act_map_err_def act_then_def done_with_def
        map_err_def split: prod.splits sum.splits)
  have named: "distinct (map (ho_join ho (kt_path kt ''build/two-node'')) [''server.colloqnode.json'',
      ''client.colloqnode.json'', ''server.authorization.json'', ''client.authorization.json''])"
    using paths by (simp add: join)
  obtain plan sync_plan s1 s2 server client server_id client_id b1 b2 b3 b4
    where plan: "(read_plan ho (kt_path kt ''examples/generate.colloqconv.json'') :: ('s, 'v, prepared_plan) command) s =
        (Inr plan, s1)"
    and who: "identity_endpoint_id ik server = Inr server_id" "identity_endpoint_id ik client = Inr client_id"
    and left: "at_encode (ho_identity ho) server = Inr b1"
      "look s' (ho_join ho (kt_path kt ''build/two-node'') ''server.colloqnode.json'') = Some (b1 @ [newline])"
      "at_encode (ho_identity ho) client = Inr b2"
      "look s' (ho_join ho (kt_path kt ''build/two-node'') ''client.colloqnode.json'') = Some (b2 @ [newline])"
      "at_encode (ho_policy ho) (fst (bootstrap_policies ik server_id client_id plan sync_plan)) = Inr b3"
      "look s' (ho_join ho (kt_path kt ''build/two-node'') ''server.authorization.json'') = Some (b3 @ [newline])"
      "at_encode (ho_policy ho) (snd (bootstrap_policies ik server_id client_id plan sync_plan)) = Inr b4"
      "look s' (ho_join ho (kt_path kt ''build/two-node'') ''client.authorization.json'') = Some (b4 @ [newline])"
    and valid: "validate_policy ik (fst (bootstrap_policies ik server_id client_id plan sync_plan)) = Inr ()"
      "validate_policy ik (snd (bootstrap_policies ik server_id client_id plan sync_plan)) = Inr ()"
    by (rule bootstrap_leaves [OF fs named booted]) (rule that)
  note looks = left(2,4,6,8) [unfolded join, simplified]
  note identity = found_identity [OF fs encoders(1) env(1)] and policy = found_policy [OF fs encoders(2) env(2)]
  obtain peers where peers: "authorized_peers ik ''client'' plan
      (fst (bootstrap_policies ik server_id client_id plan sync_plan)) = Inr peers" "set peers = {client_id}"
    using bootstrap_peers(1) [OF ids valid, of plan] by blast
  have trusted: "authorize ik server_id ''server'' plan
      (snd (bootstrap_policies ik server_id client_id plan sync_plan)) = Inr ()"
    by (rule bootstrap_peers(2) [OF ids valid]) simp
  show ?thesis
    by (intro exI conjI, rule defaults(2), rule defaults(3), rule plan, rule identity [OF left(1) looks(1) who(1)],
      rule who(1), rule policy [OF left(5) looks(3) valid(1)], rule peers(1), rule peers(2),
      rule identity [OF left(3) looks(2) who(2)], rule who(2), rule policy [OF left(7) looks(4) valid(2)], rule trusted)
qed

definition demo_identity :: "byte \<Rightarrow> node_identity" where
  "demo_identity b = from_secret_key text_keys (replicate 32 b)"

definition demo_policies :: "authorization_policy \<times> authorization_policy" where
  "demo_policies = bootstrap_policies text_keys (ik_public text_keys (replicate 32 1))
     (ik_public text_keys (replicate 32 2)) ping_plan ping_plan"

definition two_artifact :: "'a \<Rightarrow> 'a \<Rightarrow> 'a artifact" where
  \<comment> \<open>an encoder of two values\<close>
  "two_artifact x y =
     \<lparr>at_encode = (\<lambda>z. if z = x then Inr [1] else if z = y then Inr [2] else Inl ''unknown''),
      at_decode = (\<lambda>b. Inr (if hd b = 1 then x else y)), at_parse = (\<lambda>_. Inl ''none'')\<rparr>"

lemma two_artifact_reads: "reads_back_line (two_artifact x y)"
  by (simp add: reads_back_line_def two_artifact_def)

definition bootstrap_host :: "(string \<rightharpoonup> byte list, string, string, nat) host" where
  \<comment> \<open>secrets that differ from one draw to the next\<close>
  "bootstrap_host = ping_host
     \<lparr>ho_generate := (\<lambda>s. (replicate 32 (if s ''drawn'' = None then 1 else 2), s(''drawn'' \<mapsto> []))),
      ho_identity := two_artifact (demo_identity 1) (demo_identity 2),
      ho_policy := two_artifact (fst demo_policies) (snd demo_policies), ho_parse_address := (\<lambda>_. Inr 0)\<rparr>"

lemma map_files_storing: "storing_files map_files (\<lambda>s. s)"
  by (auto simp: storing_files_def map_files_honest) (auto simp: map_files_def)

definition fresh_files :: "string \<rightharpoonup> byte list" where
  "fresh_files = [''examples/generate.colloqconv.json'' \<mapsto> [], ''examples/draft-sync.colloqconv.json'' \<mapsto> []]"

lemma bootstrap_host_fields [simp]:
  "ho_files bootstrap_host = map_files" "ho_join bootstrap_host p q = p @ ''/'' @ q"
  "ho_exists bootstrap_host p s \<longleftrightarrow> s p \<noteq> None" "ho_var bootstrap_host key = None"
  "ho_identity bootstrap_host = two_artifact (demo_identity 1) (demo_identity 2)"
  "ho_policy bootstrap_host = two_artifact (fst demo_policies) (snd demo_policies)"
  "ho_parse_address bootstrap_host a = Inr 0" "ho_conversation bootstrap_host = (\<lambda>_. Inr ping)"
  "ho_ext bootstrap_host = plain_externals"
  "ho_generate bootstrap_host s = (replicate 32 (if s ''drawn'' = None then 1 else 2), s(''drawn'' \<mapsto> []))"
  by (simp_all add: bootstrap_host_def ping_host_def)

lemma demo_identity_fields:
  "secret_key text_keys (demo_identity b) = Inr (replicate 32 b)"
  "identity_endpoint_id text_keys (demo_identity b) = Inr (ik_public text_keys (replicate 32 b))"
  by (simp_all add: demo_identity_def identity_endpoint_id_def identity_checked [THEN conjunct1])

lemma demo_policies_valid:
  "validate_policy text_keys (fst demo_policies) = Inr ()" "validate_policy text_keys (snd demo_policies) = Inr ()"
  by (auto simp: demo_policies_def bootstrap_policies_def validate_policy_Inr validate_rule_Inr allow_rules
      default_policy_def rule_for_def text_keys_def ping_plan_def ping_identity_def AUTHORIZATION_FORMAT_def)

lemma bootstrap_runs:
  "\<exists>s'. (bootstrap_two_node bootstrap_host text_keys ''examples/generate.colloqconv.json''
      ''examples/draft-sync.colloqconv.json'' ''build/two-node'' :: (_, string, unit) command) fresh_files = (Inr (), s')"
proof -
  have plans: "(read_plan bootstrap_host p :: (_, string, _) command) fresh_files = (Inr ping_plan, fresh_files)"
    if "fresh_files p = Some []" for p
    using that by (simp add: read_plan_def read_json_def map_files_def act_then_def act_map_err_def from_result_def
        ping_compiles)
  have differ: "demo_identity 1 \<noteq> demo_identity 2"
    using demo_identity_fields(1) [of 1] demo_identity_fields(1) [of 2] by (auto simp: numeral_eq_Suc)
  have policies: "bootstrap_policies text_keys (ik_public text_keys (replicate 32 1)) (ik_public text_keys (replicate 32 2))
      ping_plan ping_plan = demo_policies"
    by (simp add: demo_policies_def)
  have drawn: "from_secret_key text_keys (replicate 32 b) = demo_identity b" for b
    by (simp add: demo_identity_def)
  have fresh: "fresh_files ''examples/generate.colloqconv.json'' = Some []"
    "fresh_files ''examples/draft-sync.colloqconv.json'' = Some []" "fresh_files ''drawn'' = None"
    "fresh_files ''build/two-node/server.colloqnode.json'' = None" "fresh_files ''build/two-node/client.colloqnode.json'' = None"
    "fresh_files ''build/two-node/server.authorization.json'' = None"
    "fresh_files ''build/two-node/client.authorization.json'' = None"
    by (simp_all add: fresh_files_def)
  obtain granted trusted where two: "demo_policies = (granted, trusted)" by (cases demo_policies)
  note run = act_then_def act_map_err_def from_result_def done_with_def map_files_def create_parent_def
  show ?thesis
    by (simp add: bootstrap_two_node_def Let_def plans fresh absent_def ensure_absent_def
        generate_identity_of_def drawn policies two save_identity_def save_private_def save_authorization_def save_policy_def
        write_public_json_def demo_identity_fields
        demo_policies_valid [unfolded two, simplified] differ two_artifact_def run)
qed

lemma bootstrapped_nodes_meet_witness:
  "\<forall>nw :: (string \<rightharpoonup> byte list, string, nat, string, nat, unit, unit, unit, unit, unit, demo_document, unit, unit, unit) network.
     \<exists>s' policy granted peers.
       run_words plain_clap bootstrap_host text_keys ping_kit nw [''bootstrap-two-node''] fresh_files = Some (Inr 0, s') \<and>
       (authorization_of bootstrap_host text_keys policy :: (_, string, _) command) s' = (Inr granted, s') \<and>
       authorized_peers text_keys ''client'' ping_plan granted = Inr peers \<and> length (remdups peers) = 1"
proof
  fix nw :: "(string \<rightharpoonup> byte list, string, nat, string, nat, unit, unit, unit, unit, unit, demo_document, unit, unit, unit) network"
  have kit: "kt_path ping_kit = id" by (simp add: ping_kit_def)
  have listen: "ho_parse_address bootstrap_host ''127.0.0.1:7880'' = Inr 0" by simp
  obtain s' where booted: "(bootstrap_two_node bootstrap_host text_keys ''examples/generate.colloqconv.json''
      ''examples/draft-sync.colloqconv.json'' ''build/two-node'' :: (_, string, unit) command) fresh_files = (Inr (), s')"
    using bootstrap_runs by blast
  have run: "run_words plain_clap bootstrap_host text_keys ping_kit nw [''bootstrap-two-node''] fresh_files = Some (Inr 0, s')"
    by (simp add: run_words_def default_commands(1) [where address = "ho_parse_address bootstrap_host", OF plain_clap_reads listen] kit succeeds_with_def act_then_def
        act_map_err_def booted done_with_def)
  have ids: "faithful_ids text_keys" by (simp add: faithful_ids_def text_keys_def)
  have storing: "storing_files (ho_files bootstrap_host) (\<lambda>s. s)" by (simp add: map_files_storing)
  have encoders: "reads_back_line (ho_identity bootstrap_host)" "reads_back_line (ho_policy bootstrap_host)"
    by (simp_all add: two_artifact_reads)
  have env: "ho_var bootstrap_host ''COLLOQ_NODE_IDENTITY_JSON'' = None"
    "ho_var bootstrap_host ''COLLOQ_AUTHORIZATION_JSON'' = None"
    by simp_all
  have join: "ho_join bootstrap_host (kt_path ping_kit ''build/two-node'') name = kt_path ping_kit (''build/two-node/'' @ name)"
    for name by (simp add: kit)
  have paths: "distinct (map (\<lambda>name. kt_path ping_kit (''build/two-node/'' @ name)) [''server.colloqnode.json'',
      ''client.colloqnode.json'', ''server.authorization.json'', ''client.authorization.json''])"
    by (simp add: kit)
  have plan: "(read_plan bootstrap_host p :: (_, string, _) command) s = (Inr plan, s1) \<Longrightarrow> plan = ping_plan" for p s plan s1
    by (auto simp: read_plan_def read_json_def act_then_def act_map_err_def from_result_def ping_compiles map_err_def
        split: prod.splits sum.splits)
  from bootstrapped_nodes_meet [OF plain_clap_reads listen ids storing encoders env join paths run] obtain policy granted plan
    s1 conversation peers i where
    "(read_plan bootstrap_host conversation :: (_, string, _) command) fresh_files = (Inr plan, s1)"
    "(authorization_of bootstrap_host text_keys policy :: (_, string, _) command) s' = (Inr granted, s')"
    "authorized_peers text_keys ''client'' plan granted = Inr peers" "set peers = {i}"
    by (elim exE conjE) (rule that)
  moreover from this(4) have "length (remdups peers) = 1" by (simp add: length_remdups_card_conv)
  ultimately show "\<exists>s' policy granted peers.
      run_words plain_clap bootstrap_host text_keys ping_kit nw [''bootstrap-two-node''] fresh_files = Some (Inr 0, s') \<and>
      (authorization_of bootstrap_host text_keys policy :: (_, string, _) command) s' = (Inr granted, s') \<and>
      authorized_peers text_keys ''client'' ping_plan granted = Inr peers \<and> length (remdups peers) = 1"
    using run plan by blast
qed

end
