(* ===== verification/Spec2Isabelle.thy ===== *)
theory Spec2Isabelle
  imports System_Properties Machine_Properties Graph_Properties Plan_Properties Wire_Properties
    Workload_Properties Jev_Properties Node_Properties Deploy_Properties Draft_Properties
    Exchange_Properties Closing_Properties Demos_Properties Reports_Properties Commands_Properties
    Networks_Properties Tools_Properties Benchmark_Properties Typing Fault_Properties
    Command_Line_Properties Program_Properties
begin

text \<open>
  A verification library of Colloq, a Rust implementation of typed two-party conversations.

  The program.  A conversation (\<open>src/src/lib.rs\<close>) is a global state graph over two roles: send and
  choose and cancel states, ends and failures.  It is validated, projected onto each role, and
  compiled (\<open>src/src/plan.rs\<close>) to a plan: the endpoints, a dictionary of transitions for the compact
  encoding, and the identities of the conversation and of the plan.  At run time
  (\<open>src/src/runtime.rs\<close>, \<open>src/src/runtime/iroh.rs\<close>) each role executes its endpoint as a machine that
  emits and accepts envelopes over a transport (memory, TCP, QUIC, Iroh); a session preface binds a
  connection to the plan and its peers, failures of a transport become fault frames of the trace,
  and a fault plan injects one.  On top are the token workload, its demonstrations and reports, the
  exchange of collaborative drafts (\<open>src/src/graph.rs\<close>, \<open>src/src/draft_exchange.rs\<close>), models as
  choosers (\<open>src/src/jev.rs\<close>), the identities and policies of nodes (\<open>src/src/node.rs\<close>), the Miren
  deployment adapter (\<open>src/src/deploy.rs\<close>), and the command line (\<open>src/src/main.rs\<close>,
  \<open>src/src/benchmark.rs\<close>).

  Foundations.  \<open>Prelude\<close> has results as sums (\<open>and_then\<close> is the question mark operator), lists
  searched by a key, decimal numerals; \<open>Ordered\<close> the B-tree maps and sets; \<open>Hex\<close> the text forms;
  \<open>Strings\<close> splitting and joining; \<open>Link\<close> operations that change a state and may fail.  A Rust string
  is the list of its UTF-8 bytes.  A panic is an error value or \<open>None\<close>, never an undefined value.

  The graph.  \<open>Conversation\<close> (data), \<open>Validation\<close> (\<open>validate\<close> and its diagnostics), \<open>Trace\<close>
  (\<open>verify_trace\<close>), \<open>Projection\<close> (\<open>project\<close>).  \<open>Well_Formed\<close> has the declarative reading of the
  diagnostics and the exactness of the reachability walk, \<open>Conformance\<close> and \<open>Runs\<close> the paths of a
  graph and the runs that verify; \<open>Graph_Properties\<close> states the theorems.

  Plans.  \<open>Wire\<close> (the dictionary), \<open>Plan\<close> (\<open>compile\<close>, \<open>verify\<close>, \<open>prepare\<close>), \<open>Plan_Correct\<close>,
  \<open>Plan_Properties\<close>.

  Machines and systems.  \<open>Machine\<close> is \<open>EndpointMachine\<close> with every operation; \<open>Two_Party\<close> the
  inductive relation of two machines, their traces and the two queues between them, in which
  operations interleave freely and transports may fail at any point; \<open>Schedules\<close> its executable
  form; \<open>Local_Global\<close> relates a machine's trace to the global graph.  \<open>Machine_Properties\<close> and
  \<open>System_Properties\<close> hold the invariants of reachable systems; \<open>Typing\<close> proves that every frame that
  travels in one is typed by the conversation.

  Transports.  \<open>Codec\<close> (the two encodings of an envelope), \<open>Link\<close> and \<open>Framing\<close> (length-prefixed
  frames over any byte stream, and the locale of streams with its interpretations), \<open>Transport\<close>
  (the trait, the memory channels, the fault injection), \<open>Session\<close> (the prefaces and their exchange),
  \<open>Plain_Serde\<close> (a concrete encoder for the witnesses), \<open>Closing\<close> (accepting, connecting and the
  close handshakes); \<open>Wire_Properties\<close> and \<open>Closing_Properties\<close> state the theorems.  A payload that is
  present and the JSON null is read back as absent, by either encoding: \<open>as_read\<close> of \<open>Framing\<close>.

  Workloads.  \<open>Workload\<close> is the client and the server of the token example over any transport, with
  triples and loop rules in \<open>Workload_Correct\<close>, runs in \<open>Workload_Examples\<close>, theorems in
  \<open>Workload_Properties\<close>.  \<open>Demos\<close> joins two workers and checks fault plans, and proves where an
  injected fault fires.  \<open>Exchange\<close> is the draft exchange, \<open>Exchange_Correct\<close> its simulation of the
  specification \<open>lockstep\<close> on the plan of \<open>src/examples/draft-sync.colloqconv.json\<close>.

  Around the runtime.  \<open>Jev\<close>, \<open>Node\<close>, \<open>Deploy\<close>, \<open>Draft\<close> with \<open>Draft_Correct\<close>, and \<open>Reports\<close> model the
  files of their names (\<open>graph.rs\<close> for drafts; \<open>main.rs\<close> and \<open>benchmark.rs\<close> for reports).  The commands of
  \<open>main.rs\<close> are composed from all of them: \<open>Commands\<close> creates identities and grants and serves and
  connects over TCP and Iroh, \<open>Networks\<close> adds the QUIC and Iroh transports as objects of the trait,
  their endpoints and the commands over them, \<open>Tools\<close> has the commands that read and write files,
  with their exit status, and \<open>Command_Line\<close> the dispatch over the commands that work on this host
  alone.  Their theorems are in the theory of the same name that ends in \<open>Properties\<close>: a session is
  tied to the bytes heard on its stream in \<open>Networks_Properties\<close>, and an Iroh command to the policy
  it loaded in \<open>Commands_Properties\<close>.  \<open>Confinement\<close> has the rules for what an action may write and
  what the commands on this host write, \<open>Confinement_Networks\<close> the same for streams, handshakes,
  workloads, exchanges and the commands over the three networks; \<open>Command_Line_Properties\<close> lists the
  files of every command and proves that it writes no other.

  The program.  \<open>Arguments\<close> has every command of \<open>main.rs\<close> with the arguments it declares, their
  defaults and the command their values make; \<open>Program\<close> is \<open>main\<close>, from the words to the exit status.
  \<open>Arguments_Correct\<close> states what is relied on in \<open>clap\<close> and has a parser that obeys it,
  \<open>Arguments_Properties\<close> proves that every command can be spelled and is read back, and
  \<open>Program_Properties\<close> composes the parts: what the deployed server does with the command and the
  environment that \<open>deploy.rs\<close> renders, and what two bootstrapped nodes find when they are started
  with the defaults.

  Threads.  \<open>Threads\<close> turns a worker, which is a function over any transport, into a sequence of
  calls by replaying the answers it has had, and runs two of them over the channels in memory as a
  step relation; \<open>Threads_Correct\<close> proves that two workers that follow a log without faults end as
  the log does under every schedule, because the events of the two ends commute; \<open>Generation\<close> is
  the log of the token generation, for any number of tokens and any cancellation, and
  \<open>Generation_Properties\<close> the theorem on the demonstration in memory.  \<open>Fault_Threads\<close> is the
  demonstration of a fault, whose injection sets a flag that both threads read and cuts the channels
  in separate steps; \<open>Fault_Correct\<close> explains every state of it by the log and the failures the
  workers survive, \<open>Fault_Generation\<close> has those failures for the token generation, and
  \<open>Fault_Properties\<close> proves how it ends, and that the outcome of the peer depends on the schedule.

  The benchmark.  \<open>Baseline\<close> is the hand-written protocol of \<open>benchmark.rs\<close>, two threads and two
  channels as a step relation; \<open>Benchmark\<close> the iterations, the measured steps, the rotation of the
  variants and the report; \<open>Benchmark_Properties\<close> proves that every schedule of the baseline is the
  one schedule of 4n + 4 steps, and that the benchmark returns.

  Loops and bounds.  The reachability walk and the trace checker are functions with termination
  proofs.  The loops of the workload run under \<open>iterate\<close>, a partial function whose value \<open>None\<close> means
  that it does not return; \<open>workload_returns\<close> proves that it does for every server and for every
  client that cancels.  The walk over a document takes fuel, one unit for each level of nesting,
  and \<open>conflicts_exact\<close> proves that the depth of the document is enough.  The draft exchange runs at
  most \<open>MAX_SYNC_ROUNDS\<close> rounds, as the code does, by recursion on the rounds left; the retries of
  the Jev client recurse on the delays left.  The baseline iteration takes 4n + 4 steps for n tokens,
  a schedule of the demonstration in memory 6k + 8 for k tokens, and one of a fault demonstration at
  most 12k + 18.  Sequence numbers and frame counts are 64-bit words and
  wrap; dictionary indices are 16-bit words, and a plan that needs more is refused.

  Parameters.  What is not in the repository is an argument: the digest, the serde encoders and
  JSON values, the streams of the operating system, of \<open>quinn\<close> and of \<open>iroh\<close>, the TLS exporter,
  Automerge, the HTTP agent, the file system, the environment, the clock, the address parser, the
  argument parser, and the threads of the demonstrations over a network.
  Where a theorem relies on their behaviour it says so (an injective digest or encoder on the values at hand,
  an encoder that decodes what it encoded, a parser that reads what was shown, a file system whose
  writes replace one file, sockets that write none), and its witness instantiates them.

  Not modelled.  The configuration of sockets, certificates, timeouts and asynchronous runtimes; the
  printing of \<open>main.rs\<close>; serde's derived encodings and \<open>Display\<close> texts, of which an
  error value keeps the parts; the load, save, fork and merge of a draft, which only call Automerge.
\<close>

end
